(* ===== verification/Prelude.thy ===== *)
theory Prelude
  imports Main "HOL-Library.List_Lexorder" "HOL-Library.Char_ord" "HOL-Library.Product_Lexorder" "HOL-Library.Option_ord"
begin

text \<open>
  What the component theories share: the collections of rules their proofs draw on, the names of
  the basic types, and tables. A database table is the list of its rows in insertion order; a
  statement of the code's SQL is a function on that list. The functions here are the parts such
  statements are written with: \<open>UPDATE ... WHERE\<close>, \<open>DELETE ... WHERE\<close>, \<open>ORDER BY\<close>,
  and the partial unique index.
\<close>

named_theorems keeps_intros "rules that show that an operation respects a relation on states"
named_theorems table_simps "equations of the table operations"

type_synonym bytes = string
type_synonym instant = int \<comment> \<open>nanoseconds since the epoch\<close>
type_synonym duration = int \<comment> \<open>nanoseconds\<close>

abbreviation second :: duration where "second \<equiv> 1000000000"
abbreviation minute :: duration where "minute \<equiv> 60 * second"

section \<open>Tables\<close>

definition update_where :: "('a \<Rightarrow> bool) \<Rightarrow> ('a \<Rightarrow> 'a) \<Rightarrow> 'a list \<Rightarrow> 'a list" where
  "update_where P f xs = map (\<lambda>x. if P x then f x else x) xs"

definition affected :: "('a \<Rightarrow> bool) \<Rightarrow> 'a list \<Rightarrow> nat" where
  "affected P xs = length (filter P xs)"

definition delete_where :: "('a \<Rightarrow> bool) \<Rightarrow> 'a list \<Rightarrow> 'a list" where
  "delete_where P xs = filter (\<lambda>x. \<not> P x) xs"

definition order_asc :: "('a \<Rightarrow> 'k::linorder) \<Rightarrow> 'a list \<Rightarrow> 'a list" where
  "order_asc k xs = sort_key k xs"

definition order_desc :: "('a \<Rightarrow> 'k::linorder) \<Rightarrow> 'a list \<Rightarrow> 'a list" where
  "order_desc k xs = rev (sort_key k xs)"

fun first_row :: "'a list \<Rightarrow> 'a option" where
  "first_row [] = None"
| "first_row (x # _) = Some x"

text \<open>A unique index: the rows whose key is \<open>None\<close> are not in the index.\<close>

definition unique_by :: "('a \<Rightarrow> 'k option) \<Rightarrow> 'a list \<Rightarrow> bool" where
  "unique_by k xs = distinct (List.map_filter k xs)"

lemma affected_zero_iff [table_simps]: "affected P xs = 0 \<longleftrightarrow> (\<forall>x \<in> set xs. \<not> P x)"
  by (auto simp: affected_def filter_empty_conv)

lemma update_where_idle: "affected P xs = 0 \<Longrightarrow> update_where P f xs = xs"
  by (simp add: affected_zero_iff update_where_def map_idI)

lemma length_update_where [simp]: "length (update_where P f xs) = length xs"
  by (simp add: update_where_def)

lemma update_where_Nil [simp]: "update_where P f [] = []"
  by (simp add: update_where_def)

lemma update_where_Cons [simp]:
  "update_where P f (x # xs) = (if P x then f x else x) # update_where P f xs"
  by (simp add: update_where_def)

lemma set_update_where: "set (update_where P f xs) = (\<lambda>x. if P x then f x else x) ` set xs"
  by (simp add: update_where_def)

lemma map_update_where: "(\<And>x. k (f x) = k x) \<Longrightarrow> map k (update_where P f xs) = map k xs"
  by (simp add: update_where_def)

lemma set_delete_where [simp]: "set (delete_where P xs) = {x \<in> set xs. \<not> P x}"
  by (auto simp: delete_where_def)

lemma set_order_asc [simp]: "set (order_asc k xs) = set xs"
  by (simp add: order_asc_def)

lemma set_order_desc [simp]: "set (order_desc k xs) = set xs"
  by (simp add: order_desc_def)

lemma length_order_asc [simp]: "length (order_asc k xs) = length xs"
  by (simp add: order_asc_def)

lemma length_order_desc [simp]: "length (order_desc k xs) = length xs"
  by (simp add: order_desc_def)

lemma order_asc_empty_iff [simp]: "order_asc k xs = [] \<longleftrightarrow> xs = []"
  by (metis length_0_conv length_order_asc)

lemma first_row_None_iff [simp]: "first_row xs = None \<longleftrightarrow> xs = []"
  by (cases xs) auto

lemma first_row_in: "first_row xs = Some x \<Longrightarrow> x \<in> set xs"
  by (cases xs) auto

lemma first_row_order_asc_least:
  assumes "first_row (order_asc k xs) = Some x"
  shows "x \<in> set xs" and "y \<in> set xs \<Longrightarrow> k x \<le> k y"
proof -
  from assms obtain ys where ys: "order_asc k xs = x # ys"
    by (cases "order_asc k xs") auto
  have "sorted (map k (order_asc k xs))"
    by (simp add: order_asc_def)
  with ys have "\<forall>y \<in> set (x # ys). k x \<le> k y" by auto
  moreover have sets: "set (x # ys) = set xs"
    using ys set_order_asc [of k xs] by simp
  ultimately show "y \<in> set xs \<Longrightarrow> k x \<le> k y" by auto
  show "x \<in> set xs" using sets by auto
qed

lemma first_row_order_desc_greatest:
  assumes "first_row (order_desc k xs) = Some x" and "y \<in> set xs"
  shows "k y \<le> k x"
proof -
  from assms(1) obtain ys where ys: "order_desc k xs = x # ys"
    by (cases "order_desc k xs") auto
  then have "sort_key k xs = rev ys @ [x]"
    by (metis order_desc_def rev.simps(2) rev_swap)
  moreover have "sorted (map k (sort_key k xs))" by simp
  moreover have "y \<in> set (sort_key k xs)" using assms(2) by simp
  ultimately show ?thesis by (auto simp: sorted_append)
qed

section \<open>Unique indexes\<close>

lemma map_filter_set: "set (List.map_filter k xs) = {y. \<exists>x \<in> set xs. k x = Some y}"
  by (induction xs) (auto simp: map_filter_simps split: option.splits)

lemma unique_by_Nil [simp]: "unique_by k []"
  by (simp add: unique_by_def map_filter_simps)

lemma unique_by_Cons:
  "unique_by k (x # xs) \<longleftrightarrow>
     unique_by k xs \<and> (\<forall>v. k x = Some v \<longrightarrow> (\<forall>y \<in> set xs. k y \<noteq> Some v))"
  by (auto simp: unique_by_def map_filter_simps map_filter_set split: option.splits)

lemma unique_by_snoc:
  "unique_by k (xs @ [x]) \<longleftrightarrow>
     unique_by k xs \<and> (\<forall>v. k x = Some v \<longrightarrow> (\<forall>y \<in> set xs. k y \<noteq> Some v))"
  by (induction xs) (auto simp: unique_by_Cons)

text \<open>An update that keeps a row's key, or takes the row out of the index, keeps it unique.\<close>

lemma unique_by_map:
  assumes "unique_by k xs" and "\<And>x. x \<in> set xs \<Longrightarrow> k (f x) = k x \<or> k (f x) = None"
  shows "unique_by k (map f xs)"
  using assms
proof (induction xs)
  case Nil
  then show ?case by simp
next
  case (Cons x xs)
  then have "unique_by k (map f xs)" by (simp add: unique_by_Cons)
  moreover have "k (f y) \<noteq> Some v" if "k (f x) = Some v" and "y \<in> set xs" for v y
    using that Cons.prems(1) Cons.prems(2) [of x] Cons.prems(2) [of y] unfolding unique_by_Cons
    by (metis list.set_intros(1) list.set_intros(2) option.distinct(1))
  ultimately show ?case by (simp add: unique_by_Cons)
qed

lemma unique_by_update_where:
  assumes "unique_by k xs" and "\<And>x. x \<in> set xs \<Longrightarrow> P x \<Longrightarrow> k (f x) = k x \<or> k (f x) = None"
  shows "unique_by k (update_where P f xs)"
  unfolding update_where_def using assms by (intro unique_by_map) auto

lemma unique_by_filter: "unique_by k xs \<Longrightarrow> unique_by k (filter P xs)"
  by (induction xs) (auto simp: unique_by_Cons)

lemma unique_by_eq:
  assumes "unique_by k xs" and "x \<in> set xs" and "y \<in> set xs" and "k x = Some v" and "k y = Some v"
  shows "x = y"
  using assms by (induction xs) (auto simp: unique_by_Cons)

text \<open>A key held by every row and unique: at most one row satisfies an equality on it.\<close>

lemma affected_unique_le_1:
  assumes "unique_by k xs" and "\<And>x. P x \<Longrightarrow> k x = Some v"
  shows "affected P xs \<le> 1"
  using assms(1)
proof (induction xs)
  case Nil
  then show ?case by (simp add: affected_def)
next
  case (Cons x xs)
  then have IH: "affected P xs \<le> 1" by (simp add: unique_by_Cons)
  show ?case
  proof (cases "P x")
    case True
    then have "k x = Some v" by (rule assms(2))
    then have "\<forall>y \<in> set xs. \<not> P y" using Cons.prems assms(2) by (auto simp: unique_by_Cons)
    then have "affected P xs = 0" by (simp add: affected_zero_iff)
    then show ?thesis by (simp add: affected_def True)
  next
    case False
    with IH show ?thesis by (simp add: affected_def)
  qed
qed

end
