(* ===== verification/Go_Strings.thy ===== *)
theory Go_Strings
  imports Prelude
begin

text \<open>
  The functions of Go's package \<open>strings\<close> (and of \<open>path\<close>) that the components call, on byte
  strings. A Go string is a sequence of bytes, here a \<open>char list\<close>; \<open>TrimSpace\<close> also trims the
  UTF-8 encodings of the white space that Unicode defines outside ASCII.
\<close>

section \<open>Prefixes, suffixes, search\<close>

definition has_prefix :: "bytes \<Rightarrow> bytes \<Rightarrow> bool" where
  "has_prefix s p \<longleftrightarrow> take (length p) s = p"

definition has_suffix :: "bytes \<Rightarrow> bytes \<Rightarrow> bool" where
  "has_suffix s p \<longleftrightarrow> has_prefix (rev s) (rev p)"

definition trim_prefix :: "bytes \<Rightarrow> bytes \<Rightarrow> bytes" where
  "trim_prefix s p = (if has_prefix s p then drop (length p) s else s)"

definition trim_suffix :: "bytes \<Rightarrow> bytes \<Rightarrow> bytes" where
  "trim_suffix s p = (if has_suffix s p then take (length s - length p) s else s)"

fun contains :: "bytes \<Rightarrow> bytes \<Rightarrow> bool" where
  "contains [] p = (p = [])"
| "contains (c # s) p = (has_prefix (c # s) p \<or> contains s p)"

definition contains_any :: "bytes \<Rightarrow> char list \<Rightarrow> bool" where
  "contains_any s cs = list_ex (\<lambda>c. c \<in> set cs) s"

text \<open>\<open>strings.Cut\<close> at a one-byte separator: the part before its first occurrence, and after.\<close>

fun cut :: "bytes \<Rightarrow> char \<Rightarrow> (bytes \<times> bytes) option" where
  "cut [] c = None"
| "cut (x # s) c = (if x = c then Some ([], s) else map_option (\<lambda>(a, b). (x # a, b)) (cut s c))"

text \<open>\<open>strings.Split\<close> at a one-byte separator.\<close>

fun split :: "bytes \<Rightarrow> char \<Rightarrow> bytes list" where
  "split [] c = [[]]"
| "split (x # s) c =
     (if x = c then [] # split s c
      else (case split s c of [] \<Rightarrow> [[x]] | p # ps \<Rightarrow> (x # p) # ps))"

text \<open>\<open>strings.Join\<close>.\<close>

fun join :: "bytes list \<Rightarrow> bytes \<Rightarrow> bytes" where
  "join [] sep = []"
| "join [p] sep = p"
| "join (p # q # ps) sep = p @ sep @ join (q # ps) sep"

definition replace_char :: "bytes \<Rightarrow> char \<Rightarrow> char \<Rightarrow> bytes" where
  "replace_char s a b = map (\<lambda>c. if c = a then b else c) s"

text \<open>\<open>strings.Trim(s, cutset)\<close> for a cutset of ASCII characters.\<close>

definition trim_chars :: "bytes \<Rightarrow> char list \<Rightarrow> bytes" where
  "trim_chars s cs =
     rev (dropWhile (\<lambda>c. c \<in> set cs) (rev (dropWhile (\<lambda>c. c \<in> set cs) s)))"

lemma has_prefix_iff: "has_prefix s p \<longleftrightarrow> (\<exists>r. s = p @ r)"
  unfolding has_prefix_def by (metis append_eq_conv_conj append_take_drop_id)

lemma has_suffix_iff: "has_suffix s p \<longleftrightarrow> (\<exists>r. s = r @ p)"
  unfolding has_suffix_def has_prefix_iff by (metis rev_append rev_rev_ident)

lemma has_prefix_append [simp]: "has_prefix (p @ r) p"
  by (simp add: has_prefix_def)

lemma has_suffix_append [simp]: "has_suffix (r @ p) p"
  by (auto simp: has_suffix_iff)

lemma has_prefix_Nil [simp]: "has_prefix s []"
  by (simp add: has_prefix_def)

lemma trim_suffix_append [simp]: "trim_suffix (s @ p) p = s"
  by (simp add: trim_suffix_def)

lemma trim_prefix_append [simp]: "trim_prefix (p @ s) p = s"
  by (simp add: trim_prefix_def)

lemma contains_iff: "contains s p \<longleftrightarrow> (\<exists>a b. s = a @ p @ b)"
proof (induction s)
  case Nil
  then show ?case by auto
next
  case (Cons c s)
  show ?case
  proof
    assume "contains (c # s) p"
    then consider "has_prefix (c # s) p" | "contains s p" by auto
    then show "\<exists>a b. c # s = a @ p @ b"
    proof cases
      case 1
      then show ?thesis by (metis append_Nil has_prefix_iff)
    next
      case 2
      with Cons.IH show ?thesis by (metis append_Cons)
    qed
  next
    assume "\<exists>a b. c # s = a @ p @ b"
    then obtain a b where ab: "c # s = a @ p @ b" by blast
    show "contains (c # s) p"
    proof (cases a)
      case Nil
      with ab have "has_prefix (c # s) p" by (auto simp: has_prefix_iff)
      then show ?thesis by simp
    next
      case (Cons x a')
      with ab have "s = a' @ p @ b" by simp
      then have "contains s p" using Cons.IH by blast
      then show ?thesis by simp
    qed
  qed
qed

lemma contains_char_iff: "contains s [c] \<longleftrightarrow> c \<in> set s"
  by (induction s) (auto simp: has_prefix_def)

lemma contains_any_iff: "contains_any s cs \<longleftrightarrow> set s \<inter> set cs \<noteq> {}"
  by (auto simp: contains_any_def list_ex_iff)

lemma cut_None_iff: "cut s c = None \<longleftrightarrow> c \<notin> set s"
  by (induction s) (auto)

lemma cut_Some: "cut s c = Some (a, b) \<Longrightarrow> s = a @ c # b \<and> c \<notin> set a"
  by (induction s arbitrary: a) (auto split: if_splits)

lemma cut_append [simp]: "c \<notin> set a \<Longrightarrow> cut (a @ c # b) c = Some (a, b)"
  by (induction a) auto

lemma split_not_Nil [simp]: "split s c \<noteq> []"
  by (induction s) (auto split: list.splits)

lemma split_no_sep: "c \<notin> set s \<Longrightarrow> split s c = [s]"
  by (induction s) auto

lemma split_append: "c \<notin> set a \<Longrightarrow> split (a @ c # b) c = a # split b c"
  by (induction a) auto

lemma split_parts_no_sep: "p \<in> set (split s c) \<Longrightarrow> c \<notin> set p"
  by (induction s arbitrary: p) (auto split: if_splits list.splits)

lemma join_split: "join (split s c) [c] = s"
proof (induction s)
  case Nil
  then show ?case by simp
next
  case (Cons x s)
  obtain p ps where ps: "split s c = p # ps" by (meson list.exhaust split_not_Nil)
  with Cons.IH show ?case by (cases ps) auto
qed

lemma split_join: "ps \<noteq> [] \<Longrightarrow> (\<forall>p \<in> set ps. c \<notin> set p) \<Longrightarrow> split (join ps [c]) c = ps"
  by (induction ps "[c]" rule: join.induct) (auto simp: split_no_sep split_append)

lemma set_join: "set (join ps [c]) \<subseteq> \<Union> (set ` set ps) \<union> {c}"
  by (induction ps "[c]" rule: join.induct) auto

lemma set_part_subset: "p \<in> set (split s c) \<Longrightarrow> set p \<subseteq> set s"
  by (induction s arbitrary: p) (fastforce split: if_splits list.splits)+

section \<open>White space\<close>

text \<open>The encodings of the characters for which \<open>unicode.IsSpace\<close> holds.\<close>

definition space_encodings :: "bytes list" where
  "space_encodings =
     [''\<newline>'', [CHR 0x09], [CHR 0x0B], [CHR 0x0C], [CHR 0x0D], '' '',
      [CHR 0xC2, CHR 0x85], [CHR 0xC2, CHR 0xA0], [CHR 0xE1, CHR 0x9A, CHR 0x80],
      [CHR 0xE2, CHR 0x80, CHR 0x80], [CHR 0xE2, CHR 0x80, CHR 0x81], [CHR 0xE2, CHR 0x80, CHR 0x82],
      [CHR 0xE2, CHR 0x80, CHR 0x83], [CHR 0xE2, CHR 0x80, CHR 0x84], [CHR 0xE2, CHR 0x80, CHR 0x85],
      [CHR 0xE2, CHR 0x80, CHR 0x86], [CHR 0xE2, CHR 0x80, CHR 0x87], [CHR 0xE2, CHR 0x80, CHR 0x88],
      [CHR 0xE2, CHR 0x80, CHR 0x89], [CHR 0xE2, CHR 0x80, CHR 0x8A], [CHR 0xE2, CHR 0x80, CHR 0xA8],
      [CHR 0xE2, CHR 0x80, CHR 0xA9], [CHR 0xE2, CHR 0x80, CHR 0xAF], [CHR 0xE2, CHR 0x81, CHR 0x9F],
      [CHR 0xE3, CHR 0x80, CHR 0x80]]"

fun strip_one :: "bytes list \<Rightarrow> bytes \<Rightarrow> bytes option" where
  "strip_one [] s = None"
| "strip_one (e # es) s =
     (if e \<noteq> [] \<and> has_prefix s e then Some (drop (length e) s) else strip_one es s)"

lemma strip_one_length: "strip_one es s = Some r \<Longrightarrow> length r < length s"
  by (induction es) (auto simp: has_prefix_iff split: if_splits)

function trim_left_enc :: "bytes list \<Rightarrow> bytes \<Rightarrow> bytes" where
  "trim_left_enc es s = (case strip_one es s of None \<Rightarrow> s | Some r \<Rightarrow> trim_left_enc es r)"
  by pat_completeness auto
termination
  by (relation "measure (\<lambda>(es, s). length s)") (auto simp: strip_one_length)

declare trim_left_enc.simps [simp del]

definition trim_space :: "bytes \<Rightarrow> bytes" where
  "trim_space s =
     rev (trim_left_enc (map rev space_encodings) (rev (trim_left_enc space_encodings s)))"

definition blank :: "bytes \<Rightarrow> bool" where
  "blank s \<longleftrightarrow> trim_space s = []"

lemma strip_one_trim_left: "strip_one es (trim_left_enc es s) = None"
proof (induction es s rule: trim_left_enc.induct)
  case (1 es s)
  then show ?case
    by (cases "strip_one es s") (simp_all add: trim_left_enc.simps [of es s])
qed

lemma trim_left_suffix: "\<exists>a. s = a @ trim_left_enc es s"
proof (induction es s rule: trim_left_enc.induct)
  case (1 es s)
  show ?case
  proof (cases "strip_one es s")
    case None
    then show ?thesis by (simp add: trim_left_enc.simps [of es s])
  next
    case (Some r)
    then obtain e where "s = e @ r" by (induction es) (auto simp: has_prefix_iff split: if_splits)
    moreover obtain a where "r = a @ trim_left_enc es r" using 1 [OF Some] by blast
    ultimately show ?thesis using Some by (metis append.assoc option.simps(5) trim_left_enc.simps)
  qed
qed

lemma trim_space_infix: "\<exists>a b. s = a @ trim_space s @ b"
proof -
  let ?l = "trim_left_enc space_encodings s"
  obtain a where a: "s = a @ ?l" using trim_left_suffix by blast
  obtain b where "rev ?l = b @ trim_left_enc (map rev space_encodings) (rev ?l)"
    using trim_left_suffix by blast
  then have "?l = trim_space s @ rev b" unfolding trim_space_def by (metis rev_append rev_rev_ident)
  with a show ?thesis by (metis append.assoc)
qed

lemma set_trim_space: "set (trim_space s) \<subseteq> set s"
  using trim_space_infix [of s] by (metis Un_iff set_append subsetI)

lemma length_trim_space: "length (trim_space s) \<le> length s"
proof -
  obtain a b where "s = a @ trim_space s @ b" using trim_space_infix by blast
  then show ?thesis by (metis le_add1 le_add2 le_trans length_append)
qed

section \<open>Case\<close>

definition lower_char :: "char \<Rightarrow> char" where
  "lower_char c = (if CHR ''A'' \<le> c \<and> c \<le> CHR ''Z'' then char_of (of_char c + 32 :: nat) else c)"

definition is_ascii :: "bytes \<Rightarrow> bool" where
  "is_ascii s = list_all (\<lambda>c. c < CHR 0x80) s"

text \<open>
  \<open>strings.ToLower\<close>: bytewise on ASCII strings. The case tables of Unicode, which decide on
  any other string, are the parameter \<open>ucase\<close>.
\<close>

definition to_lower :: "(bytes \<Rightarrow> bytes) \<Rightarrow> bytes \<Rightarrow> bytes" where
  "to_lower ucase s = (if is_ascii s then map lower_char s else ucase s)"

text \<open>\<open>unicode.IsControl\<close> on a UTF-8 string: the C0 block, DEL and the C1 block.\<close>

fun has_control :: "bytes \<Rightarrow> bool" where
  "has_control [] = False"
| "has_control (c # s) =
     (c < CHR 0x20 \<or> c = CHR 0x7F \<or>
      (c = CHR 0xC2 \<and> (case s of d # _ \<Rightarrow> CHR 0x80 \<le> d \<and> d < CHR 0xA0 | [] \<Rightarrow> False)) \<or>
      has_control s)"

section \<open>Messages\<close>

text \<open>The text of an error, or one with a string in Go's quoted form (\<open>%q\<close>) at its end or inside.\<close>

datatype message = Text bytes | Quoting bytes bytes | Enclosing bytes bytes bytes

text \<open>
  \<open>strconv.Quote\<close>. A character outside ASCII is taken to be printable, so that it stands for itself.
\<close>

definition hex_digit :: "nat \<Rightarrow> char" where
  "hex_digit n = (if n < 10 then char_of (48 + n) else char_of (87 + n))"

definition quote_char :: "char \<Rightarrow> bytes" where
  "quote_char c =
     (let n = of_char c :: nat; bs = CHR 0x5C
      in if c = CHR 0x22 \<or> c = bs then [bs, c]
         else if n = 7 then [bs, CHR ''a''] else if n = 8 then [bs, CHR ''b'']
         else if n = 9 then [bs, CHR ''t''] else if n = 10 then [bs, CHR ''n'']
         else if n = 11 then [bs, CHR ''v''] else if n = 12 then [bs, CHR ''f'']
         else if n = 13 then [bs, CHR ''r'']
         else if n < 32 \<or> n = 127 then [bs, CHR ''x'', hex_digit (n div 16), hex_digit (n mod 16)]
         else [c])"

definition go_quote :: "bytes \<Rightarrow> bytes" where
  "go_quote s = [CHR 0x22] @ concat (map quote_char s) @ [CHR 0x22]"

fun message_text :: "message \<Rightarrow> bytes" where
  "message_text (Text s) = s"
| "message_text (Quoting s v) = s @ go_quote v"
| "message_text (Enclosing s v s') = s @ go_quote v @ s'"

end
