(* ===== verification/Json.thy ===== *)
theory Json
  imports Complex_Main Go_Strings
begin

text \<open>
  JSON as the code handles it through \<open>encoding/json\<close>. A \<open>json.RawMessage\<close> is empty, or a text
  that does not parse (with the decoder's message), or a text that denotes a document. A document
  keeps its members in the order of the text, repeated names included. Decoding into \<open>any\<close>
  builds Go maps: the last member of a name wins, and the map is represented by its members in the
  order of their names, which is the order \<open>json.Marshal\<close> writes them in.
\<close>

text \<open>A \<open>float64\<close> that a JSON number can decode to: finite, with the two zeros told apart.\<close>

datatype number = Num rat | NegZero

datatype json =
    JNull
  | JBool bool
  | JNumber number
  | JString bytes
  | JArray "json list"
  | JObject "(bytes \<times> json) list"

datatype raw = Blank | Malformed bytes | Doc json

section \<open>Decoding into any\<close>

fun last_wins :: "(bytes \<times> 'a) list \<Rightarrow> (bytes \<times> 'a) list" where
  "last_wins [] = []"
| "last_wins ((k, v) # kvs) =
     (if k \<in> fst ` set kvs then last_wins kvs else (k, v) # last_wins kvs)"

definition go_map :: "(bytes \<times> 'a) list \<Rightarrow> (bytes \<times> 'a) list" where
  "go_map kvs = sort_key fst (last_wins kvs)"

fun decode :: "json \<Rightarrow> json" where
  "decode (JArray xs) = JArray (map decode xs)"
| "decode (JObject kvs) = JObject (go_map (map (\<lambda>(k, v). (k, decode v)) kvs))"
| "decode j = j"

fun unmarshal :: "raw \<Rightarrow> bytes + json" where
  "unmarshal Blank = Inl ''unexpected end of JSON input''"
| "unmarshal (Malformed m) = Inl m"
| "unmarshal (Doc j) = Inr (decode j)"

lemma fst_set_last_wins [simp]: "fst ` set (last_wins kvs) = fst ` set kvs"
  by (induction kvs rule: last_wins.induct) auto

lemma set_last_wins: "set (last_wins kvs) \<subseteq> set kvs"
  by (induction kvs rule: last_wins.induct) auto

lemma distinct_last_wins: "distinct (map fst (last_wins kvs))"
  by (induction kvs rule: last_wins.induct) simp_all

lemma last_wins_distinct: "distinct (map fst kvs) \<Longrightarrow> last_wins kvs = kvs"
  by (induction kvs rule: last_wins.induct) simp_all

lemma map_of_last_wins: "map_of (last_wins kvs) k = map_of (rev kvs) k"
proof (induction kvs rule: last_wins.induct)
  case 1
  then show ?case by simp
next
  case (2 k' v kvs)
  show ?case
  proof (cases "k' \<in> fst ` set kvs")
    case True
    then have "map_of (rev kvs) k' \<noteq> None" by (simp add: map_of_eq_None_iff)
    with True 2(1) show ?thesis by (auto simp: map_add_def split: option.splits)
  next
    case False
    then have "map_of (rev kvs) k' = None" by (simp add: map_of_eq_None_iff)
    with False 2(2) show ?thesis by (auto simp: map_add_def split: option.splits)
  qed
qed

lemma fst_set_go_map [simp]: "fst ` set (go_map kvs) = fst ` set kvs"
  by (simp add: go_map_def)

lemma set_go_map: "set (go_map kvs) \<subseteq> set kvs"
  using set_last_wins by (simp add: go_map_def)

lemma distinct_go_map: "distinct (map fst (go_map kvs))"
  using distinct_last_wins [of kvs] by (simp add: go_map_def distinct_map inj_on_def)

lemma sorted_go_map: "sorted (map fst (go_map kvs))"
  by (simp add: go_map_def)

lemma go_map_idem [simp]: "go_map (go_map kvs) = go_map kvs"
  by (metis distinct_go_map go_map_def last_wins_distinct sorted_go_map sorted_sort_id
      sort_key_id_if_sorted)

lemma go_map_id: "distinct (map fst kvs) \<Longrightarrow> sorted (map fst kvs) \<Longrightarrow> go_map kvs = kvs"
  by (simp add: go_map_def last_wins_distinct sort_key_id_if_sorted)

text \<open>What the decoder makes: every map has distinct names, in order, all the way down.\<close>

fun go_value :: "json \<Rightarrow> bool" where
  "go_value (JArray xs) = list_all go_value xs"
| "go_value (JObject kvs) =
     (distinct (map fst kvs) \<and> sorted (map fst kvs) \<and> list_all (\<lambda>(k, v). go_value v) kvs)"
| "go_value _ = True"

lemma decode_go_value: "go_value (decode j)"
proof (induction j rule: decode.induct)
  case (2 kvs)
  let ?m = "go_map (map (\<lambda>(k, v). (k, decode v)) kvs)"
  have "go_value v" if "(k, v) \<in> set ?m" for k v
    using that set_go_map 2 by fastforce
  then show ?case by (auto simp: list_all_iff distinct_go_map sorted_go_map)
qed (auto simp: list_all_iff)

lemma decode_id: "go_value j \<Longrightarrow> decode j = j"
proof (induction j rule: decode.induct)
  case (1 xs)
  then show ?case by (simp add: list_all_iff map_idI)
next
  case (2 kvs)
  then have "map (\<lambda>(k, v). (k, decode v)) kvs = kvs"
    by (intro map_idI) (auto simp: list_all_iff)
  with 2 show ?case by (simp add: go_map_id)
qed auto

lemma decode_idem [simp]: "decode (decode j) = decode j"
  by (rule decode_id) (rule decode_go_value)

section \<open>Maps and struct fields\<close>

text \<open>The value a decoded map holds at a name.\<close>

fun member_of :: "json \<Rightarrow> bytes \<Rightarrow> json option" where
  "member_of (JObject kvs) k = map_of kvs k"
| "member_of _ k = None"

text \<open>
  Decoding into a struct matches member names without regard to case, with Unicode's simple folding
  (the long s and the Kelvin sign fold to ASCII letters).
\<close>

fun fold_name :: "bytes \<Rightarrow> bytes" where
  "fold_name (c # s) =
     (if c = CHR 0xC5 \<and> has_prefix s [CHR 0xBF] then CHR ''s'' # fold_name (drop 1 s)
      else if c = CHR 0xE2 \<and> has_prefix s [CHR 0x84, CHR 0xAA] then CHR ''k'' # fold_name (drop 2 s)
      else lower_char c # fold_name s)"
| "fold_name [] = []"

fun string_or_null :: "json \<Rightarrow> bool" where
  "string_or_null (JString _) = True"
| "string_or_null JNull = True"
| "string_or_null _ = False"

text \<open>A struct with one string field: members that match are assigned in order, null assigns nothing.\<close>

fun string_field :: "bytes \<Rightarrow> raw \<Rightarrow> bytes + bytes" where
  "string_field name (Doc JNull) = Inr []"
| "string_field name (Doc (JObject kvs)) =
     (let vs = map snd (filter (\<lambda>(k, v). fold_name k = fold_name name) kvs)
      in if list_all string_or_null vs
         then Inr (foldl (\<lambda>acc v. case v of JString s \<Rightarrow> s | _ \<Rightarrow> acc) [] vs)
         else Inl ''json: cannot unmarshal value into Go struct field of type string'')"
| "string_field name (Doc _) = Inl ''json: cannot unmarshal value into Go value of type struct''"
| "string_field name Blank = Inl ''unexpected end of JSON input''"
| "string_field name (Malformed m) = Inl m"

end
