(* ===== verification/Safety.thy ===== *)
theory Safety
  imports Json
begin

text \<open>
  \<open>internal/jobs/safety.go\<close>: the patterns for messages that look like secrets, redaction of
  messages and JSON payloads, and the check that refuses an unsafe job payload. Each regular
  expression is a matcher that returns what is left of the input after a match at its start; the
  expressions are deterministic, so leftmost-first matching needs no backtracking.
\<close>

section \<open>The patterns\<close>

text \<open>The class \<open>\s\<close> of the regular expressions.\<close>

definition re_space :: "char \<Rightarrow> bool" where
  "re_space c \<longleftrightarrow> c \<in> set [CHR 0x09, CHR 0x0A, CHR 0x0C, CHR 0x0D, CHR '' '']"

text \<open>One letter of a case-insensitive literal, with the non-ASCII characters that fold to it.\<close>

fun match_letter :: "char \<Rightarrow> bytes \<Rightarrow> bytes option" where
  "match_letter l [] = None"
| "match_letter l (c # s) =
     (if lower_char c = l then Some s
      else if l = CHR ''s'' \<and> has_prefix (c # s) [CHR 0xC5, CHR 0xBF] then Some (drop 1 s)
      else if l = CHR ''k'' \<and> has_prefix (c # s) [CHR 0xE2, CHR 0x84, CHR 0xAA] then Some (drop 2 s)
      else None)"

fun match_literal :: "bytes \<Rightarrow> bytes \<Rightarrow> bytes option" where
  "match_literal [] s = Some s"
| "match_literal (l # ls) s =
     (case match_letter l s of None \<Rightarrow> None | Some r \<Rightarrow> match_literal ls r)"

fun match_first :: "(bytes \<Rightarrow> bytes option) list \<Rightarrow> bytes \<Rightarrow> bytes option" where
  "match_first [] s = None"
| "match_first (m # ms) s = (case m s of Some r \<Rightarrow> Some r | None \<Rightarrow> match_first ms s)"

text \<open>\<open>private[_ -]?key\<close>.\<close>

definition match_private_key :: "bytes \<Rightarrow> bytes option" where
  "match_private_key s =
     (case match_literal ''private'' s of
        None \<Rightarrow> None
      | Some r \<Rightarrow>
          (case r of
             c # r' \<Rightarrow> (if c \<in> set ''_ -'' then match_literal ''key'' r' else match_literal ''key'' r)
           | [] \<Rightarrow> None))"

definition match_keyword :: "bytes \<Rightarrow> bytes option" where
  "match_keyword =
     match_first
       [match_literal ''password'', match_literal ''passwd'', match_literal ''pwd'',
        match_literal ''token'', match_literal ''secret'', match_private_key,
        match_literal ''authorization'', match_literal ''bearer'']"

text \<open>\<open>keyword\s*[:=]\s*[^,\s]+\<close>.\<close>

definition match_assignment :: "bytes \<Rightarrow> bytes option" where
  "match_assignment s =
     (case match_keyword s of
        None \<Rightarrow> None
      | Some r \<Rightarrow>
          (case dropWhile re_space r of
             [] \<Rightarrow> None
           | c # r1 \<Rightarrow>
               (if c \<notin> set '':='' then None
                else (let v = dropWhile re_space r1;
                          rest = dropWhile (\<lambda>c. c \<noteq> CHR '','' \<and> \<not> re_space c) v
                      in if length rest < length v then Some rest else None))))"

text \<open>\<open>(https?|ssh)://[^@\s]+@\<close>.\<close>

definition match_scheme :: "bytes \<Rightarrow> bytes option" where
  "match_scheme s =
     (case match_literal ''http'' s of
        Some r \<Rightarrow> (case match_letter (CHR ''s'') r of Some r' \<Rightarrow> Some r' | None \<Rightarrow> Some r)
      | None \<Rightarrow> match_literal ''ssh'' s)"

definition match_userinfo_url :: "bytes \<Rightarrow> bytes option" where
  "match_userinfo_url s =
     (case match_scheme s of
        None \<Rightarrow> None
      | Some r \<Rightarrow>
          (case match_literal ''://'' r of
             None \<Rightarrow> None
           | Some v \<Rightarrow>
               (let rest = dropWhile (\<lambda>c. c \<noteq> CHR ''@'' \<and> \<not> re_space c) v
                in if length rest < length v \<and> has_prefix rest ''@'' then Some (drop 1 rest)
                   else None)))"

text \<open>\<open>secretref://[^\s,]+\<close>.\<close>

definition match_secretref :: "bytes \<Rightarrow> bytes option" where
  "match_secretref s =
     (case match_literal ''secretref://'' s of
        None \<Rightarrow> None
      | Some v \<Rightarrow>
          (let rest = dropWhile (\<lambda>c. \<not> re_space c \<and> c \<noteq> CHR '','') v
           in if length rest < length v then Some rest else None))"

definition secretLikeMessagePatterns :: "(bytes \<Rightarrow> bytes option) list" where
  "secretLikeMessagePatterns = [match_assignment, match_userinfo_url, match_secretref]"

text \<open>\<open>Regexp.MatchString\<close>: a match at some position.\<close>

fun match_string :: "(bytes \<Rightarrow> bytes option) \<Rightarrow> bytes \<Rightarrow> bool" where
  "match_string m [] = (m [] \<noteq> None)"
| "match_string m (c # s) = (m (c # s) \<noteq> None \<or> match_string m s)"

definition secretLikeJSONKeyPattern :: "bytes \<Rightarrow> bool" where
  "secretLikeJSONKeyPattern key = match_string match_keyword key"

definition containsSecretLikeString :: "bytes \<Rightarrow> bool" where
  "containsSecretLikeString value =
     list_ex (\<lambda>pattern. match_string pattern value) secretLikeMessagePatterns"

section \<open>Redaction\<close>

text \<open>\<open>Regexp.ReplaceAllStringFunc\<close> for an expression that matches no empty string.\<close>

function replace_all :: "(bytes \<Rightarrow> bytes option) \<Rightarrow> (bytes \<Rightarrow> bytes) \<Rightarrow> bytes \<Rightarrow> bytes" where
  "replace_all m f [] = []"
| "replace_all m f (c # s) =
     (case m (c # s) of
        Some rest \<Rightarrow>
          (if length rest \<le> length s
           then f (take (Suc (length s) - length rest) (c # s)) @ replace_all m f rest
           else c # replace_all m f s)
      | None \<Rightarrow> c # replace_all m f s)"
  by pat_completeness auto
termination
  by (relation "measure (\<lambda>(m, f, s). length s)") auto

text \<open>The text before the first \<open>://\<close>, if there is one.\<close>

fun before_scheme_sep :: "bytes \<Rightarrow> bytes option" where
  "before_scheme_sep [] = None"
| "before_scheme_sep (c # s) =
     (if has_prefix (c # s) ''://'' then Some [] else map_option ((#) c) (before_scheme_sep s))"

definition redact_match :: "bytes \<Rightarrow> bytes" where
  "redact_match value =
     (case before_scheme_sep value of
        Some p \<Rightarrow> p @ ''://[redacted]@''
      | None \<Rightarrow>
          (case dropWhile (\<lambda>c. c \<notin> set '':='') value of
             c # _ \<Rightarrow>
               trim_space (takeWhile (\<lambda>c. c \<notin> set '':='') value) @ [c] @ ''[redacted]''
           | [] \<Rightarrow> ''[redacted]''))"

definition safeMessage :: "bytes \<Rightarrow> bytes" where
  "safeMessage message0 =
     (let message = trim_space message0
      in if message = [] then []
         else (let message = foldl (\<lambda>msg pattern. replace_all pattern redact_match msg)
                               message secretLikeMessagePatterns
               in if 500 < length message then take 500 message @ ''...'' else message))"

fun sanitizeJSONValue :: "json \<Rightarrow> bytes \<Rightarrow> json" where
  "sanitizeJSONValue (JObject kvs) key =
     (if secretLikeJSONKeyPattern key then JString ''[redacted]''
      else JObject (map (\<lambda>(k, v). (k, sanitizeJSONValue v k)) kvs))"
| "sanitizeJSONValue (JArray xs) key =
     (if secretLikeJSONKeyPattern key then JString ''[redacted]''
      else JArray (map (\<lambda>v. sanitizeJSONValue v key) xs))"
| "sanitizeJSONValue (JString s) key =
     (if secretLikeJSONKeyPattern key then JString ''[redacted]'' else JString (safeMessage s))"
| "sanitizeJSONValue v key =
     (if secretLikeJSONKeyPattern key then JString ''[redacted]'' else v)"

definition safeJSONPayload :: "raw \<Rightarrow> raw" where
  "safeJSONPayload payload =
     (case payload of
        Blank \<Rightarrow> payload
      | _ \<Rightarrow> (case unmarshal payload of
               Inl _ \<Rightarrow> payload
             | Inr value \<Rightarrow> Doc (sanitizeJSONValue value [])))"

section \<open>Refusing an unsafe payload\<close>

text \<open>
  The code ranges over a map in no fixed order and stops at the first error; here the order is that
  of the names. The error's text depends on it, the fact that there is an error does not.
\<close>

fun first_error :: "(bytes + unit) list \<Rightarrow> bytes + unit" where
  "first_error [] = Inr ()"
| "first_error (Inl e # rs) = Inl e"
| "first_error (Inr _ # rs) = first_error rs"

definition key_error :: "bytes \<Rightarrow> bytes" where
  "key_error key = ''job payload contains unsafe secret-like key '' @ key"

fun validateSafeJSONValue :: "json \<Rightarrow> bytes \<Rightarrow> bytes + unit" where
  "validateSafeJSONValue (JObject kvs) key =
     (if secretLikeJSONKeyPattern key then Inl (key_error key)
      else first_error (map (\<lambda>(k, v). validateSafeJSONValue v k) kvs))"
| "validateSafeJSONValue (JArray xs) key =
     (if secretLikeJSONKeyPattern key then Inl (key_error key)
      else first_error (map (\<lambda>v. validateSafeJSONValue v key) xs))"
| "validateSafeJSONValue (JString s) key =
     (if secretLikeJSONKeyPattern key then Inl (key_error key)
      else if containsSecretLikeString s then Inl ''job payload contains unsafe secret-like string''
      else Inr ())"
| "validateSafeJSONValue v key =
     (if secretLikeJSONKeyPattern key then Inl (key_error key) else Inr ())"

definition validateSafeJobPayload :: "raw \<Rightarrow> bytes + unit" where
  "validateSafeJobPayload payload =
     (case payload of
        Blank \<Rightarrow> Inr ()
      | _ \<Rightarrow> (case unmarshal payload of
               Inl e \<Rightarrow> Inl e
             | Inr value \<Rightarrow> validateSafeJSONValue value []))"

end
