(* ===== verification/Job_Types.thy ===== *)
theory Job_Types
  imports Safety
begin

text \<open>
  The data of the job subsystem: the structs of \<open>internal/jobs/types.go\<close>, the rows of the
  tables they are stored in, the constraints the migrations declare on these tables, and the
  functions that read a row back into a struct (\<open>scanJob\<close>, \<open>scanEvent\<close>, \<open>scanLock\<close>).
  A nullable column is an option; a \<open>time.Time\<close> that may be zero is an option as well.
\<close>

section \<open>Statuses, events\<close>

datatype status =
    StatusQueued
  | StatusRunning
  | StatusSucceeded
  | StatusFailed
  | StatusCancelled

datatype event_type =
    EventQueued
  | EventClaimed
  | EventStarted
  | EventHeartbeat
  | EventProgress
  | EventChildCreated
  | EventSucceeded
  | EventFailed
  | EventCancelled
  | EventLeaseExpired
  | EventRetryScheduled

datatype lock_status = LockHeld | LockReleased | LockExpired

datatype aggregate = Agg status | Partial

definition terminal :: "status \<Rightarrow> bool" where
  "terminal s \<longleftrightarrow> s \<in> {StatusSucceeded, StatusFailed, StatusCancelled}"

definition active :: "status \<Rightarrow> bool" where
  "active s \<longleftrightarrow> s \<in> {StatusQueued, StatusRunning}"

lemma terminal_simps [simp]:
  "\<not> terminal StatusQueued" "\<not> terminal StatusRunning"
  "terminal StatusSucceeded" "terminal StatusFailed" "terminal StatusCancelled"
  by (simp_all add: terminal_def)

lemma active_simps [simp]:
  "active StatusQueued" "active StatusRunning"
  "\<not> active StatusSucceeded" "\<not> active StatusFailed" "\<not> active StatusCancelled"
  by (simp_all add: active_def)

lemma active_iff_not_terminal: "active s \<longleftrightarrow> \<not> terminal s"
  by (cases s) simp_all

section \<open>Structs\<close>

record Job =
  j_ID :: bytes
  j_JobType :: bytes
  j_Status :: status
  j_Actor :: bytes
  j_CorrelationID :: bytes
  j_IdempotencyKey :: bytes
  j_ParentJobID :: bytes
  j_JobGroupID :: bytes
  j_LockKey :: bytes
  j_AttemptCount :: int
  j_MaxAttempts :: int
  j_LeasedBy :: bytes
  j_LeaseExpiresAt :: "instant option"
  j_HeartbeatAt :: "instant option"
  j_RunAfter :: instant
  j_Priority :: int
  j_Payload :: raw
  j_ResultPayload :: raw
  j_CreatedAt :: instant
  j_StartedAt :: "instant option"
  j_FinishedAt :: "instant option"
  j_ErrorMessage :: bytes
  j_UpdatedAt :: instant

record Event =
  e_ID :: bytes
  e_JobID :: bytes
  e_JobGroupID :: bytes
  e_EventType :: event_type
  e_Status :: "status option"
  e_WorkerID :: bytes
  e_MetricName :: bytes
  e_MetricValue :: "rat option"
  e_Payload :: raw
  e_CreatedAt :: "instant option"

record WorkflowStatus =
  w_ID :: bytes
  w_WorkflowType :: bytes
  w_WorkflowID :: bytes
  w_JobGroupID :: bytes
  w_AggregateStatus :: aggregate
  w_ProgressCurrent :: int
  w_ProgressTotal :: int
  w_SummaryPayload :: raw
  w_UpdatedAt :: instant

record Lock =
  l_ID :: bytes
  l_LockKey :: bytes
  l_JobID :: bytes
  l_Owner :: bytes
  l_Status :: lock_status
  l_CreatedAt :: instant
  l_ExpiresAt :: instant
  l_ReleasedAt :: "instant option"

record JobRef =
  ref_JobID :: bytes
  ref_Status :: status
  ref_SchemaVersion :: bytes

record EnqueueRequest =
  req_ID :: bytes
  req_JobType :: bytes
  req_Actor :: bytes
  req_CorrelationID :: bytes
  req_IdempotencyKey :: bytes
  req_ParentJobID :: bytes
  req_JobGroupID :: bytes
  req_WorkflowID :: bytes
  req_LockKey :: bytes
  req_MaxAttempts :: int
  req_RunAfter :: "instant option"
  req_Priority :: int
  req_Payload :: raw

record 'a Page =
  page_Items :: "'a list"
  page_NextCursor :: "(instant \<times> bytes) option"

record ClaimOptions =
  opt_WorkerID :: bytes
  opt_Now :: "instant option"
  opt_LeaseDuration :: duration

record FailureResult =
  fr_JobType :: bytes
  fr_WorkerID :: bytes
  fr_Attempt :: int
  fr_ErrorCode :: bytes
  fr_Message :: bytes
  fr_Retryable :: bool

record HandlerError =
  he_Code :: bytes
  he_Message :: bytes
  he_Retryable :: bool

text \<open>
  The errors of the payload checks, one constructor for each message of the code; the arguments are
  what the message prints (job type, member name, values).
\<close>

datatype payload_error =
    PInvalid bytes
  | PSchemaVersion bytes bytes bytes
  | PRequired bytes bytes
  | PNonEmptyString bytes bytes
  | PBoolean bytes bytes
  | PTrueNotSupported bytes bytes
  | PArray bytes bytes
  | PArrayItems bytes bytes
  | PUnsupported bytes bytes bytes
  | PRootPath bytes
  | PTargetDirectory bytes
  | PUnsafe bytes

abbreviation JobRefSchemaVersion :: bytes where "JobRefSchemaVersion \<equiv> ''job_ref.v1''"

abbreviation mk_ref :: "bytes \<Rightarrow> status \<Rightarrow> JobRef" where
  "mk_ref i s \<equiv> \<lparr>ref_JobID = i, ref_Status = s, ref_SchemaVersion = JobRefSchemaVersion\<rparr>"

section \<open>Tables\<close>

record job_row =
  c_id :: bytes
  c_job_type :: bytes
  c_status :: status
  c_actor :: "bytes option"
  c_correlation_id :: "bytes option"
  c_idempotency_key :: "bytes option"
  c_parent_job_id :: "bytes option"
  c_job_group_id :: "bytes option"
  c_lock_key :: "bytes option"
  c_attempt_count :: int
  c_max_attempts :: int
  c_leased_by :: "bytes option"
  c_lease_expires_at :: "instant option"
  c_heartbeat_at :: "instant option"
  c_run_after :: instant
  c_priority :: int
  c_payload :: raw
  c_result_payload :: "raw option"
  c_created_at :: instant
  c_started_at :: "instant option"
  c_finished_at :: "instant option"
  c_error_message :: "bytes option"
  c_updated_at :: instant

record event_row =
  ev_id :: bytes
  ev_job_id :: bytes
  ev_job_group_id :: "bytes option"
  ev_event_type :: event_type
  ev_status :: "status option"
  ev_worker_id :: "bytes option"
  ev_metric_name :: "bytes option"
  ev_metric_value :: "rat option"
  ev_payload :: "raw option"
  ev_created_at :: instant

record lock_row =
  k_id :: bytes
  k_lock_key :: bytes
  k_job_id :: bytes
  k_owner :: bytes
  k_status :: lock_status
  k_created_at :: instant
  k_expires_at :: instant
  k_released_at :: "instant option"

record workflow_row =
  f_id :: bytes
  f_workflow_type :: bytes
  f_workflow_id :: bytes
  f_job_group_id :: bytes
  f_aggregate_status :: aggregate
  f_progress_current :: int
  f_progress_total :: int
  f_summary_payload :: raw
  f_updated_at :: instant

record job_db =
  jobs :: "job_row list"
  job_locks :: "lock_row list"
  job_events :: "event_row list"
  workflow_statuses :: "workflow_row list"
  module_states :: "(bytes \<times> bytes) list" \<comment> \<open>module name and state\<close>

definition empty_db :: job_db where
  "empty_db = \<lparr>jobs = [], job_locks = [], job_events = [], workflow_statuses = [], module_states = []\<rparr>"

section \<open>Constraints of the schema\<close>

datatype violation = VCheck | VUnique | VForeignKey

definition job_types :: "bytes list" where
  "job_types =
     [''global_scan'', ''project_discovery'', ''project_scan'', ''security_validation_scan'',
      ''repo_clone'', ''repo_pull'', ''repo_sync'', ''config_reload'', ''module_restart'',
      ''scim_sync'']"

definition workflow_types :: "bytes list" where
  "workflow_types =
     [''project_scan'', ''project_discovery'', ''global_scan'', ''repository_operation'',
      ''config_operation'', ''module_operation'', ''scim_sync'']"

fun json_valid :: "raw \<Rightarrow> bool" where
  "json_valid (Doc _) = True"
| "json_valid _ = False"

definition repo_operation :: "bytes \<Rightarrow> bool" where
  "repo_operation t \<longleftrightarrow> t \<in> set [''repo_clone'', ''repo_pull'', ''repo_sync'']"

definition job_check :: "job_row \<Rightarrow> bool" where
  "job_check r \<longleftrightarrow>
     c_job_type r \<in> set job_types \<and> 0 \<le> c_attempt_count r \<and> 0 < c_max_attempts r \<and>
     c_attempt_count r \<le> c_max_attempts r \<and> 0 \<le> c_priority r \<and> json_valid (c_payload r) \<and>
     (case c_result_payload r of None \<Rightarrow> True | Some p \<Rightarrow> json_valid p)"

definition event_check :: "event_row \<Rightarrow> bool" where
  "event_check r \<longleftrightarrow> (case ev_payload r of None \<Rightarrow> True | Some p \<Rightarrow> json_valid p)"

definition workflow_check :: "workflow_row \<Rightarrow> bool" where
  "workflow_check r \<longleftrightarrow>
     f_workflow_type r \<in> set workflow_types \<and> 0 \<le> f_progress_current r \<and> 0 \<le> f_progress_total r \<and>
     json_valid (f_summary_payload r) \<and> f_progress_current r \<le> f_progress_total r"

definition idempotency_index :: "job_row \<Rightarrow> (bytes \<times> bytes \<times> bytes) option" where
  "idempotency_index r =
     (case (c_actor r, c_idempotency_key r) of
        (Some a, Some k) \<Rightarrow> Some (a, c_job_type r, k)
      | _ \<Rightarrow> None)"

definition active_repo_index :: "job_row \<Rightarrow> bytes option" where
  "active_repo_index r =
     (if repo_operation (c_job_type r) \<and> active (c_status r) then c_lock_key r else None)"

definition held_index :: "lock_row \<Rightarrow> bytes option" where
  "held_index r = (if k_status r = LockHeld then Some (k_lock_key r) else None)"

definition checks_ok :: "job_db \<Rightarrow> bool" where
  "checks_ok d \<longleftrightarrow>
     list_all job_check (jobs d) \<and> list_all event_check (job_events d) \<and>
     list_all workflow_check (workflow_statuses d)"

definition uniques_ok :: "job_db \<Rightarrow> bool" where
  "uniques_ok d \<longleftrightarrow>
     unique_by (\<lambda>r. Some (c_id r)) (jobs d) \<and> unique_by idempotency_index (jobs d) \<and>
     unique_by active_repo_index (jobs d) \<and> unique_by (\<lambda>r. Some (k_id r)) (job_locks d) \<and>
     unique_by held_index (job_locks d) \<and> unique_by (\<lambda>r. Some (ev_id r)) (job_events d) \<and>
     unique_by (\<lambda>r. Some (f_id r)) (workflow_statuses d) \<and>
     unique_by (\<lambda>r. Some (f_workflow_type r, f_workflow_id r)) (workflow_statuses d) \<and>
     unique_by (\<lambda>r. Some (f_job_group_id r)) (workflow_statuses d)"

definition foreign_keys_ok :: "job_db \<Rightarrow> bool" where
  "foreign_keys_ok d \<longleftrightarrow>
     list_all (\<lambda>r. k_job_id r \<in> c_id ` set (jobs d)) (job_locks d) \<and>
     list_all (\<lambda>r. ev_job_id r \<in> c_id ` set (jobs d)) (job_events d) \<and>
     list_all (\<lambda>r. case c_parent_job_id r of None \<Rightarrow> True | Some p \<Rightarrow> p \<in> c_id ` set (jobs d)) (jobs d)"

definition db_violation :: "job_db \<Rightarrow> violation option" where
  "db_violation d =
     (if \<not> checks_ok d then Some VCheck
      else if \<not> uniques_ok d then Some VUnique
      else if \<not> foreign_keys_ok d then Some VForeignKey
      else None)"

abbreviation consistent :: "job_db \<Rightarrow> bool" where
  "consistent d \<equiv> db_violation d = None"

lemma consistent_iff: "consistent d \<longleftrightarrow> checks_ok d \<and> uniques_ok d \<and> foreign_keys_ok d"
  by (simp add: db_violation_def)

lemma consistent_empty [simp]: "consistent empty_db"
  by (simp add: db_violation_def checks_ok_def uniques_ok_def foreign_keys_ok_def empty_db_def)

section \<open>Reading rows\<close>

text \<open>\<open>COALESCE(column, '')\<close>.\<close>

definition coalesce :: "bytes option \<Rightarrow> bytes" where
  "coalesce x = (case x of None \<Rightarrow> [] | Some s \<Rightarrow> s)"

definition raw_column :: "raw option \<Rightarrow> raw" where
  "raw_column x = (case x of None \<Rightarrow> Blank | Some p \<Rightarrow> p)"

lemma coalesce_simps [simp]: "coalesce None = []" "coalesce (Some s) = s"
  by (simp_all add: coalesce_def)

definition scanJob :: "job_row \<Rightarrow> Job" where
  "scanJob r =
     \<lparr>j_ID = c_id r, j_JobType = c_job_type r, j_Status = c_status r, j_Actor = coalesce (c_actor r),
      j_CorrelationID = coalesce (c_correlation_id r),
      j_IdempotencyKey = coalesce (c_idempotency_key r),
      j_ParentJobID = coalesce (c_parent_job_id r), j_JobGroupID = coalesce (c_job_group_id r),
      j_LockKey = coalesce (c_lock_key r), j_AttemptCount = c_attempt_count r,
      j_MaxAttempts = c_max_attempts r, j_LeasedBy = coalesce (c_leased_by r),
      j_LeaseExpiresAt = c_lease_expires_at r, j_HeartbeatAt = c_heartbeat_at r,
      j_RunAfter = c_run_after r, j_Priority = c_priority r, j_Payload = c_payload r,
      j_ResultPayload = raw_column (c_result_payload r), j_CreatedAt = c_created_at r,
      j_StartedAt = c_started_at r, j_FinishedAt = c_finished_at r,
      j_ErrorMessage = coalesce (c_error_message r), j_UpdatedAt = c_updated_at r\<rparr>"

definition scanEvent :: "event_row \<Rightarrow> Event" where
  "scanEvent r =
     \<lparr>e_ID = ev_id r, e_JobID = ev_job_id r, e_JobGroupID = coalesce (ev_job_group_id r),
      e_EventType = ev_event_type r, e_Status = ev_status r,
      e_WorkerID = coalesce (ev_worker_id r), e_MetricName = coalesce (ev_metric_name r),
      e_MetricValue = ev_metric_value r, e_Payload = raw_column (ev_payload r),
      e_CreatedAt = Some (ev_created_at r)\<rparr>"

definition scanLock :: "lock_row \<Rightarrow> Lock" where
  "scanLock r =
     \<lparr>l_ID = k_id r, l_LockKey = k_lock_key r, l_JobID = k_job_id r, l_Owner = k_owner r,
      l_Status = k_status r, l_CreatedAt = k_created_at r, l_ExpiresAt = k_expires_at r,
      l_ReleasedAt = k_released_at r\<rparr>"

definition scanWorkflow :: "workflow_row \<Rightarrow> WorkflowStatus" where
  "scanWorkflow r =
     \<lparr>w_ID = f_id r, w_WorkflowType = f_workflow_type r, w_WorkflowID = f_workflow_id r,
      w_JobGroupID = f_job_group_id r, w_AggregateStatus = f_aggregate_status r,
      w_ProgressCurrent = f_progress_current r, w_ProgressTotal = f_progress_total r,
      w_SummaryPayload = f_summary_payload r, w_UpdatedAt = f_updated_at r\<rparr>"

lemma scanJob_simps [simp]:
  "j_ID (scanJob r) = c_id r" "j_Status (scanJob r) = c_status r"
  "j_JobType (scanJob r) = c_job_type r" "j_AttemptCount (scanJob r) = c_attempt_count r"
  "j_MaxAttempts (scanJob r) = c_max_attempts r" "j_LeasedBy (scanJob r) = coalesce (c_leased_by r)"
  "j_LeaseExpiresAt (scanJob r) = c_lease_expires_at r"
  "j_JobGroupID (scanJob r) = coalesce (c_job_group_id r)"
  "j_LockKey (scanJob r) = coalesce (c_lock_key r)" "j_Payload (scanJob r) = c_payload r"
  by (simp_all add: scanJob_def)

end
