(* ===== verification/Storage.thy ===== *)
theory Storage
  imports Job_Types
begin

text \<open>
  How an operation of the code runs against its database. A \<open>world\<close> holds the database and what
  the operation draws from its environment: the clock (\<open>time.Now\<close>), the random suffix of a new
  identifier, and the faults of the connection, each indexed by a counter that every use advances.
  A statement may be lost (not executed, an error is returned) or unacknowledged (executed, an
  error is returned all the same). An operation returns an error or a value and the world after it.
  \<open>exec\<close> is one write statement with the constraints of the schema checked, \<open>query\<close> one read, and
  \<open>WithTx\<close> is \<open>internal/storage/tx.go\<close>.
\<close>

datatype fault = NoFault | Lost | Unacked

record 'd world =
  db :: 'd
  handle_Provider :: bytes
  clk :: "nat \<Rightarrow> instant"
  flt :: "nat \<Rightarrow> fault"
  ent :: "nat \<Rightarrow> bytes"
  tick :: nat

datatype err =
    EDriver bytes
  | ENotFound
  | EIdempotencyConflict bytes bytes
  | EInvalidCursor
  | EActiveRepositoryOp bytes
  | EMessage bytes
  | EPayload payload_error
  | EText message
  | EValidation bytes message
  | EReservationConflict bytes bytes
  | EHandler HandlerError
  | ECanceled

type_synonym ('d, 'a) io = "'d world \<Rightarrow> (err + 'a) \<times> 'd world"

section \<open>Sequencing\<close>

definition ret :: "'a \<Rightarrow> ('d, 'a) io" where
  "ret x = (\<lambda>w. (Inr x, w))"

definition fail :: "err \<Rightarrow> ('d, 'a) io" where
  "fail e = (\<lambda>w. (Inl e, w))"

definition andThen :: "('d, 'a) io \<Rightarrow> ('a \<Rightarrow> ('d, 'b) io) \<Rightarrow> ('d, 'b) io" where
  "andThen m f = (\<lambda>w. case m w of (Inl e, w') \<Rightarrow> (Inl e, w') | (Inr x, w') \<Rightarrow> f x w')"

text \<open>Run an operation and go on with its outcome, as code that inspects \<open>err\<close> does.\<close>

definition outcome :: "('d, 'a) io \<Rightarrow> (err + 'a \<Rightarrow> ('d, 'b) io) \<Rightarrow> ('d, 'b) io" where
  "outcome m f = (\<lambda>w. case m w of (r, w') \<Rightarrow> f r w')"

text \<open>\<open>_ = m\<close>: the error is dropped.\<close>

definition ignoring :: "('d, 'a) io \<Rightarrow> ('d, unit) io" where
  "ignoring m = outcome m (\<lambda>_. ret ())"

definition lift_result :: "('e \<Rightarrow> err) \<Rightarrow> 'e + 'a \<Rightarrow> ('d, 'a) io" where
  "lift_result mk r = (case r of Inl e \<Rightarrow> fail (mk e) | Inr x \<Rightarrow> ret x)"

fun for_each :: "'a list \<Rightarrow> ('a \<Rightarrow> ('d, unit) io) \<Rightarrow> ('d, unit) io" where
  "for_each [] f = ret ()"
| "for_each (x # xs) f = andThen (f x) (\<lambda>_. for_each xs f)"

section \<open>The environment\<close>

definition step_tick :: "'d world \<Rightarrow> 'd world" where
  "step_tick w = w\<lparr>tick := Suc (tick w)\<rparr>"

definition now :: "('d, instant) io" where
  "now = (\<lambda>w. (Inr (clk w (tick w)), step_tick w))"

text \<open>\<open>newID\<close>: the prefix, an underscore and the drawn suffix.\<close>

definition newID :: "bytes \<Rightarrow> ('d, bytes) io" where
  "newID prefix = (\<lambda>w. (Inr (prefix @ ''_'' @ ent w (tick w)), step_tick w))"

definition provider :: "('d, bytes) io" where
  "provider = (\<lambda>w. (Inr (handle_Provider w), w))"

section \<open>Statements\<close>

definition fault_error :: err where
  "fault_error = EDriver ''driver: bad connection''"

text \<open>The drivers' messages for a violated constraint.\<close>

definition violation_message :: "bytes \<Rightarrow> violation \<Rightarrow> bytes" where
  "violation_message p v =
     (if p = ''postgres''
      then (case v of
              VCheck \<Rightarrow> ''ERROR: new row violates check constraint (SQLSTATE 23514)''
            | VUnique \<Rightarrow> ''ERROR: duplicate key value violates unique constraint (SQLSTATE 23505)''
            | VForeignKey \<Rightarrow> ''ERROR: insert or update violates foreign key constraint (SQLSTATE 23503)'')
      else (case v of
              VCheck \<Rightarrow> ''constraint failed: CHECK constraint failed (275)''
            | VUnique \<Rightarrow> ''constraint failed: UNIQUE constraint failed (2067)''
            | VForeignKey \<Rightarrow> ''constraint failed: FOREIGN KEY constraint failed (787)''))"

definition exec :: "('d \<Rightarrow> violation option) \<Rightarrow> ('d \<Rightarrow> 'a \<times> 'd) \<Rightarrow> ('d, 'a) io" where
  "exec chk st = (\<lambda>w.
     (case flt w (tick w) of
        Lost \<Rightarrow> (Inl fault_error, step_tick w)
      | f \<Rightarrow>
          (case chk (snd (st (db w))) of
             Some v \<Rightarrow> (Inl (EDriver (violation_message (handle_Provider w) v)), step_tick w)
           | None \<Rightarrow>
               (if f = Unacked then Inl fault_error else Inr (fst (st (db w))),
                (step_tick w)\<lparr>db := snd (st (db w))\<rparr>))))"

definition query :: "('d \<Rightarrow> 'a) \<Rightarrow> ('d, 'a) io" where
  "query q = (\<lambda>w.
     (if flt w (tick w) = NoFault then Inr (q (db w)) else Inl fault_error, step_tick w))"

text \<open>\<open>BeginTx\<close> can fail; so can \<open>Commit\<close>, before or after the changes are durable.\<close>

definition WithTx :: "('d, 'a) io \<Rightarrow> ('d, 'a) io" where
  "WithTx fn = (\<lambda>w.
     (if flt w (tick w) \<noteq> NoFault then (Inl fault_error, step_tick w)
      else
        (case fn (step_tick w) of
           (Inl e, w1) \<Rightarrow> (Inl e, w1\<lparr>db := db w\<rparr>)
         | (Inr x, w1) \<Rightarrow>
             (case flt w1 (tick w1) of
                NoFault \<Rightarrow> (Inr x, step_tick w1)
              | Lost \<Rightarrow> (Inl fault_error, (step_tick w1)\<lparr>db := db w\<rparr>)
              | Unacked \<Rightarrow> (Inl fault_error, step_tick w1)))))"

text \<open>
  A transaction that is given up without an error when its body finds nothing to do: an early
  \<open>return\<close> before \<open>Commit\<close>, with the deferred \<open>Rollback\<close>.
\<close>

definition TxMaybe :: "('d, 'a option) io \<Rightarrow> ('d, 'a option) io" where
  "TxMaybe fn = (\<lambda>w.
     (if flt w (tick w) \<noteq> NoFault then (Inl fault_error, step_tick w)
      else
        (case fn (step_tick w) of
           (Inl e, w1) \<Rightarrow> (Inl e, w1\<lparr>db := db w\<rparr>)
         | (Inr None, w1) \<Rightarrow> (Inr None, w1\<lparr>db := db w\<rparr>)
         | (Inr (Some x), w1) \<Rightarrow>
             (case flt w1 (tick w1) of
                NoFault \<Rightarrow> (Inr (Some x), step_tick w1)
              | Lost \<Rightarrow> (Inl fault_error, (step_tick w1)\<lparr>db := db w\<rparr>)
              | Unacked \<Rightarrow> (Inl fault_error, step_tick w1)))))"

definition isUniqueConstraintError :: "err \<Rightarrow> bool" where
  "isUniqueConstraintError e =
     (case e of
        EDriver message0 \<Rightarrow>
          (let message = map lower_char message0
           in contains message ''unique constraint'' \<or> contains message ''duplicate key value'' \<or>
              contains message ''constraint failed: unique'' \<or>
              contains message ''sqlite_constraint_unique'')
      | _ \<Rightarrow> False)"

lemma recognised_postgres:
  "isUniqueConstraintError (EDriver (violation_message ''postgres'' v)) \<longleftrightarrow> v = VUnique"
proof (cases v)
  case VCheck
  have "\<not> isUniqueConstraintError (EDriver (violation_message ''postgres'' VCheck))" by code_simp
  with VCheck show ?thesis by simp
next
  case VUnique
  have "isUniqueConstraintError (EDriver (violation_message ''postgres'' VUnique))" by code_simp
  with VUnique show ?thesis by simp
next
  case VForeignKey
  have "\<not> isUniqueConstraintError (EDriver (violation_message ''postgres'' VForeignKey))" by code_simp
  with VForeignKey show ?thesis by simp
qed

lemma recognised_sqlite:
  "isUniqueConstraintError (EDriver (violation_message ''sqlite'' v)) \<longleftrightarrow> v = VUnique"
proof (cases v)
  case VCheck
  have "\<not> isUniqueConstraintError (EDriver (violation_message ''sqlite'' VCheck))" by code_simp
  with VCheck show ?thesis by simp
next
  case VUnique
  have "isUniqueConstraintError (EDriver (violation_message ''sqlite'' VUnique))" by code_simp
  with VUnique show ?thesis by simp
next
  case VForeignKey
  have "\<not> isUniqueConstraintError (EDriver (violation_message ''sqlite'' VForeignKey))" by code_simp
  with VForeignKey show ?thesis by simp
qed

lemma unique_violation_recognised:
  "isUniqueConstraintError (EDriver (violation_message p v)) \<longleftrightarrow> v = VUnique"
proof (cases "p = ''postgres''")
  case True
  then show ?thesis using recognised_postgres by simp
next
  case False
  then have "violation_message p v = violation_message ''sqlite'' v"
    by (simp add: violation_message_def)
  then show ?thesis using recognised_sqlite by simp
qed

lemma fault_not_unique: "\<not> isUniqueConstraintError fault_error"
  by code_simp

section \<open>The dialect\<close>

text \<open>\<open>internal/storage/dialect.go\<close>; \<open>strconv\<close>'s decimal digits of an index.\<close>

fun digits_of :: "nat \<Rightarrow> bytes" where
  "digits_of n =
     (if n < 10 then [char_of (48 + n)] else digits_of (n div 10) @ [char_of (48 + n mod 10)])"

declare digits_of.simps [simp del]

definition Placeholder :: "bytes \<Rightarrow> nat \<Rightarrow> bytes" where
  "Placeholder p idx = (if p = ''postgres'' then CHR ''$'' # digits_of idx else ''?'')"

definition Placeholders :: "bytes \<Rightarrow> nat \<Rightarrow> nat \<Rightarrow> bytes list" where
  "Placeholders p start count = map (\<lambda>i. Placeholder p (start + i)) [0..<count]"

definition InList :: "bytes \<Rightarrow> nat \<Rightarrow> nat \<Rightarrow> bytes" where
  "InList p start count = join (Placeholders p start count) '', ''"

definition TimeExpr :: "bytes \<Rightarrow> bytes \<Rightarrow> bytes" where
  "TimeExpr p column = (if p = ''postgres'' then column @ ''::text'' else column)"

section \<open>Relations between the database before and after an operation\<close>

text \<open>
  An operation respects a relation when, whatever the clock, the identifiers and the faults, and
  whether it succeeds or not, the database before it and the database after it are related. An
  invariant \<open>I\<close> is the relation \<open>I d \<longrightarrow> I d'\<close>.
\<close>

definition keeps :: "('d \<Rightarrow> 'd \<Rightarrow> bool) \<Rightarrow> ('d, 'a) io \<Rightarrow> bool" where
  "keeps R m \<longleftrightarrow> (\<forall>w. R (db w) (db (snd (m w))))"

lemma db_step_tick [simp]: "db (step_tick w) = db w"
  by (simp add: step_tick_def)

lemma keepsD: "keeps R m \<Longrightarrow> m w = (r, w') \<Longrightarrow> R (db w) (db w')"
  unfolding keeps_def by (metis snd_conv)

text \<open>
  The relations of interest are preorders. What the sequencing operations, the environment and the
  statements respect is proved once for all of them.
\<close>

locale state_order =
  fixes R :: "'d \<Rightarrow> 'd \<Rightarrow> bool"
  assumes order_refl: "R d d"
    and order_trans: "R d1 d2 \<Longrightarrow> R d2 d3 \<Longrightarrow> R d1 d3"
begin

lemma keeps_ret [keeps_intros]: "keeps R (ret x)"
  by (simp add: keeps_def ret_def order_refl)

lemma keeps_fail [keeps_intros]: "keeps R (fail e)"
  by (simp add: keeps_def fail_def order_refl)

lemma keeps_andThen [keeps_intros]:
  assumes "keeps R m" and "\<And>x. keeps R (f x)"
  shows "keeps R (andThen m f)"
  unfolding keeps_def
proof
  fix w
  obtain r w1 where m: "m w = (r, w1)" by (cases "m w")
  from keepsD [OF assms(1) m] have 1: "R (db w) (db w1)" .
  show "R (db w) (db (snd (andThen m f w)))"
  proof (cases r)
    case (Inl e)
    with m 1 show ?thesis by (simp add: andThen_def)
  next
    case (Inr x)
    have "R (db w1) (db (snd (f x w1)))" using assms(2) by (simp add: keeps_def)
    with 1 have "R (db w) (db (snd (f x w1)))" by (rule order_trans)
    with m Inr show ?thesis by (simp add: andThen_def)
  qed
qed

lemma keeps_outcome [keeps_intros]:
  assumes "keeps R m" and "\<And>r. keeps R (f r)"
  shows "keeps R (outcome m f)"
  unfolding keeps_def
proof
  fix w
  obtain r w1 where m: "m w = (r, w1)" by (cases "m w")
  from keepsD [OF assms(1) m] have "R (db w) (db w1)" .
  moreover have "R (db w1) (db (snd (f r w1)))" using assms(2) by (simp add: keeps_def)
  ultimately have "R (db w) (db (snd (f r w1)))" by (rule order_trans)
  with m show "R (db w) (db (snd (outcome m f w)))" by (simp add: outcome_def)
qed

lemma keeps_ignoring [keeps_intros]: "keeps R m \<Longrightarrow> keeps R (ignoring m)"
  unfolding ignoring_def by (intro keeps_outcome keeps_ret)

lemma keeps_lift_result [keeps_intros]: "keeps R (lift_result mk r)"
  by (cases r) (simp_all add: lift_result_def keeps_ret keeps_fail)

lemma keeps_for_each [keeps_intros]:
  "(\<And>x. keeps R (f x)) \<Longrightarrow> keeps R (for_each xs f)"
  by (induction xs) (auto intro: keeps_ret keeps_andThen)

lemma keeps_now [keeps_intros]: "keeps R now"
  by (simp add: keeps_def now_def order_refl)

lemma keeps_newID [keeps_intros]: "keeps R (newID p)"
  by (simp add: keeps_def newID_def order_refl)

lemma keeps_provider [keeps_intros]: "keeps R provider"
  by (simp add: keeps_def provider_def order_refl)

lemma keeps_query [keeps_intros]: "keeps R (query q)"
  by (simp add: keeps_def query_def order_refl)

lemma keeps_exec:
  assumes "\<And>d. chk (snd (st d)) = None \<Longrightarrow> R d (snd (st d))"
  shows "keeps R (exec chk st)"
  unfolding keeps_def
proof
  fix w
  show "R (db w) (db (snd (exec chk st w)))"
    using assms [of "db w"]
    by (auto simp: exec_def order_refl split: fault.split option.split)
qed

lemma keeps_WithTx [keeps_intros]:
  assumes "keeps R fn"
  shows "keeps R (WithTx fn)"
  unfolding keeps_def
proof
  fix w
  obtain r w1 where fn: "fn (step_tick w) = (r, w1)" by (cases "fn (step_tick w)")
  from keepsD [OF assms fn] have "R (db w) (db w1)" by simp
  with fn show "R (db w) (db (snd (WithTx fn w)))"
    by (auto simp: WithTx_def order_refl split: sum.split fault.split)
qed

lemma keeps_TxMaybe [keeps_intros]:
  assumes "keeps R fn"
  shows "keeps R (TxMaybe fn)"
  unfolding keeps_def
proof
  fix w
  obtain r w1 where fn: "fn (step_tick w) = (r, w1)" by (cases "fn (step_tick w)")
  from keepsD [OF assms fn] have "R (db w) (db w1)" by simp
  with fn show "R (db w) (db (snd (TxMaybe fn w)))"
    by (auto simp: TxMaybe_def order_refl split: sum.split option.split fault.split)
qed

end

text \<open>A transaction that returns an error before its commit has left the database as it was.\<close>

lemma WithTx_rollback:
  "fn (step_tick w) = (Inl e, w1) \<Longrightarrow> db (snd (WithTx fn w)) = db w"
  by (simp add: WithTx_def)

text \<open>Without faults an operation goes through its statements as written.\<close>

lemmas run_simps =
  ret_def fail_def andThen_def outcome_def ignoring_def lift_result_def now_def newID_def
  provider_def exec_def query_def WithTx_def TxMaybe_def step_tick_def

end
