(* ===== verification/Go_Time.thy ===== *)
theory Go_Time
  imports Storage
begin

text \<open>
  \<open>formatTime\<close> of \<open>internal/jobs/store.go\<close>: the text of an instant with nine digits of
  fraction, in UTC. The calendar is the proleptic Gregorian one, by the usual computation on days
  counted from a first of March.
\<close>

fun pad_digits :: "nat \<Rightarrow> nat \<Rightarrow> bytes" where
  "pad_digits 0 n = []"
| "pad_digits (Suc k) n = pad_digits k (n div 10) @ [char_of (48 + n mod 10)]"

definition civil_from_days :: "int \<Rightarrow> int \<times> int \<times> int" where
  "civil_from_days z0 =
     (let z = z0 + 719468; era = z div 146097; doe = z mod 146097;
          yoe = (doe - doe div 1460 + doe div 36524 - doe div 146096) div 365;
          doy = doe - (365 * yoe + yoe div 4 - yoe div 100);
          mp = (5 * doy + 2) div 153; d = doy - (153 * mp + 2) div 5 + 1;
          m = (if mp < 10 then mp + 3 else mp - 9)
      in (yoe + era * 400 + (if m \<le> 2 then 1 else 0), m, d))"

definition formatTime :: "instant \<Rightarrow> bytes" where
  "formatTime t =
     (let ns = t mod second; s = t div second; days = s div 86400; sod = s mod 86400;
          (y, m, d) = civil_from_days days
      in pad_digits 4 (nat y) @ ''-'' @ pad_digits 2 (nat m) @ ''-'' @ pad_digits 2 (nat d) @ ''T'' @
         pad_digits 2 (nat (sod div 3600)) @ '':'' @ pad_digits 2 (nat (sod div 60 mod 60)) @ '':'' @
         pad_digits 2 (nat (sod mod 60)) @ ''.'' @ pad_digits 9 (nat ns) @ ''Z'')"

text \<open>\<open>time.RFC3339Nano\<close>: the fraction without its trailing zeros.\<close>

definition formatTimeNano :: "instant \<Rightarrow> bytes" where
  "formatTimeNano t =
     (let s = take 29 (formatTime t); r = dropWhile (\<lambda>c. c = CHR ''0'') (rev s)
      in rev (if has_prefix r ''.'' then drop 1 r else r) @ ''Z'')"

text \<open>\<open>time.Time.MarshalJSON\<close>.\<close>

definition time_json :: "instant \<Rightarrow> json" where
  "time_json t = JString (formatTimeNano t)"

lemma length_pad_digits [simp]: "length (pad_digits k n) = k"
  by (induction k arbitrary: n) auto

lemma length_formatTime: "length (formatTime t) = 30"
  by (simp add: formatTime_def Let_def split: prod.split)

lemma formatTime_epoch: "formatTime 0 = ''1970-01-01T00:00:00.000000000Z''"
  by code_simp

end
