(* ===== verification/Job_Payload.thy ===== *)
theory Job_Payload
  imports Go_Time
begin

text \<open>
  The pure functions of \<open>internal/jobs/store.go\<close>: how a job type determines its payload schema,
  its workflow and its group; the checks on payloads; comparison of payloads; event payloads; and
  the conversion of Go values to nullable columns.
\<close>

section \<open>Job types\<close>

definition defaultJobGroupID :: "bytes \<Rightarrow> bytes \<Rightarrow> bytes" where
  "defaultJobGroupID jobType i =
     (if jobType = ''config_reload'' then ''config_operation:'' @ i
      else if jobType = ''module_restart'' then ''module_operation:'' @ i
      else jobType @ '':'' @ i)"

text \<open>\<open>strings.SplitN(s, ":", 2)\<close> of a string with a colon is what \<open>cut\<close> gives.\<close>

definition workflowIDFromGroupID :: "bytes \<Rightarrow> bytes \<Rightarrow> bytes" where
  "workflowIDFromGroupID jobGroupID fallback =
     (case cut jobGroupID (CHR '':'') of
        Some (_, rest) \<Rightarrow> if rest \<noteq> [] then rest else fallback
      | None \<Rightarrow> fallback)"

definition workflowIDForJob :: "Job \<Rightarrow> bytes" where
  "workflowIDForJob job = workflowIDFromGroupID (j_JobGroupID job) (j_ID job)"

definition workflowTypeForJobType :: "bytes \<Rightarrow> bytes" where
  "workflowTypeForJobType jobType =
     (if jobType = ''config_reload'' then ''config_operation''
      else if jobType = ''module_restart'' then ''module_operation''
      else if jobType \<in> set [''project_scan'', ''security_validation_scan''] then ''project_scan''
      else if jobType \<in> set [''repo_clone'', ''repo_pull'', ''repo_sync''] then ''repository_operation''
      else if jobType = ''scim_sync'' then ''scim_sync''
      else if jobType = ''global_scan'' then ''global_scan''
      else jobType)"

definition payloadSchemaForJobType :: "bytes \<Rightarrow> bytes" where
  "payloadSchemaForJobType jobType =
     (if jobType = ''global_scan'' then ''jobs.global_scan.payload.v1''
      else if jobType = ''project_discovery'' then ''jobs.project_discovery.payload.v1''
      else if jobType = ''project_scan'' then ''jobs.project_scan.payload.v1''
      else if jobType = ''security_validation_scan'' then ''jobs.security_validation_scan.payload.v1''
      else if jobType = ''repo_clone'' then ''jobs.repo_clone.payload.v1''
      else if jobType = ''repo_pull'' then ''jobs.repo_pull.payload.v1''
      else if jobType = ''repo_sync'' then ''jobs.repo_sync.payload.v1''
      else if jobType = ''config_reload'' then ''jobs.config_reload.payload.v1''
      else if jobType = ''module_restart'' then ''jobs.module_restart.payload.v1''
      else if jobType = ''scim_sync'' then ''jobs.scim_sync.payload.v1''
      else '''')"

section \<open>Payload checks\<close>

definition validatePayloadSchema :: "bytes \<Rightarrow> raw \<Rightarrow> payload_error + unit" where
  "validatePayloadSchema jobType payload =
     (let expected = payloadSchemaForJobType jobType
      in if expected = [] then Inr ()
         else (case string_field ''schema_version'' payload of
                 Inl e \<Rightarrow> Inl (PInvalid e)
               | Inr got \<Rightarrow>
                   if got \<noteq> expected then Inl (PSchemaVersion jobType got expected) else Inr ()))"

text \<open>A decoded map: \<open>null\<close> gives the nil map, any other value is an error.\<close>

definition unmarshal_map :: "raw \<Rightarrow> bytes + (bytes \<Rightarrow> json option)" where
  "unmarshal_map payload =
     (case unmarshal payload of
        Inl e \<Rightarrow> Inl e
      | Inr (JObject kvs) \<Rightarrow> Inr (map_of kvs)
      | Inr JNull \<Rightarrow> Inr (\<lambda>_. None)
      | Inr _ \<Rightarrow> Inl ''json: cannot unmarshal value into Go value of type map'')"

fun non_empty_string :: "json \<Rightarrow> bool" where
  "non_empty_string (JString s) = (\<not> blank s)"
| "non_empty_string _ = False"

definition requiredString ::
    "bytes \<Rightarrow> (bytes \<Rightarrow> json option) \<Rightarrow> bytes \<Rightarrow> payload_error + unit" where
  "requiredString jobType m key =
     (case m key of
        None \<Rightarrow> Inl (PRequired jobType key)
      | Some v \<Rightarrow> if non_empty_string v then Inr () else Inl (PNonEmptyString jobType key))"

definition optionalBoolFalse ::
    "bytes \<Rightarrow> (bytes \<Rightarrow> json option) \<Rightarrow> bytes \<Rightarrow> payload_error + unit" where
  "optionalBoolFalse jobType m key =
     (case m key of
        None \<Rightarrow> Inr ()
      | Some JNull \<Rightarrow> Inr ()
      | Some (JBool flag) \<Rightarrow> if flag then Inl (PTrueNotSupported jobType key) else Inr ()
      | Some _ \<Rightarrow> Inl (PBoolean jobType key))"

definition optionalStringArray ::
    "bytes \<Rightarrow> (bytes \<Rightarrow> json option) \<Rightarrow> bytes \<Rightarrow> payload_error + unit" where
  "optionalStringArray jobType m key =
     (case m key of
        None \<Rightarrow> Inr ()
      | Some JNull \<Rightarrow> Inr ()
      | Some (JArray items) \<Rightarrow>
          if list_all non_empty_string items then Inr () else Inl (PArrayItems jobType key)
      | Some _ \<Rightarrow> Inl (PArray jobType key))"

definition oneOfString ::
    "bytes \<Rightarrow> (bytes \<Rightarrow> json option) \<Rightarrow> bytes \<Rightarrow> bytes list \<Rightarrow> payload_error + unit" where
  "oneOfString jobType m key allowed =
     (case requiredString jobType m key of
        Inl e \<Rightarrow> Inl e
      | Inr _ \<Rightarrow>
          (let text = (case m key of Some (JString s) \<Rightarrow> trim_space s | _ \<Rightarrow> [])
           in if text \<in> set allowed then Inr () else Inl (PUnsupported jobType key text)))"

fun first_failure :: "('e + unit) list \<Rightarrow> 'e + unit" where
  "first_failure [] = Inr ()"
| "first_failure (Inl e # _) = Inl e"
| "first_failure (Inr _ # rs) = first_failure rs"

definition is_nil :: "json option \<Rightarrow> bool" where
  "is_nil v \<longleftrightarrow> v = None \<or> v = Some JNull"

definition contract_checks :: "bytes \<Rightarrow> (bytes \<Rightarrow> json option) \<Rightarrow> (payload_error + unit) list" where
  "contract_checks jobType m =
     (if jobType = ''global_scan''
      then [optionalStringArray jobType m ''root_path_ids'',
            optionalBoolFalse jobType m ''follow_symlinks'']
      else if jobType = ''project_discovery''
      then map (requiredString jobType m) [''project_id'', ''root_path_id'', ''relative_path'']
      else if jobType = ''project_scan''
      then map (requiredString jobType m) [''project_id'', ''project_scan_id'', ''scan_type'']
      else if jobType = ''security_validation_scan''
      then map (requiredString jobType m) [''project_id'', ''project_scan_id''] @
           [optionalStringArray jobType m ''enabled_modules'']
      else if jobType = ''repo_clone''
      then map (requiredString jobType m) [''provider'', ''protocol'', ''clone_scope'', ''full_path''] @
           [oneOfString jobType m ''clone_scope'' [''single_repository''],
            if is_nil (m ''root_path_id'') \<and> is_nil (m ''new_root_path'')
            then Inl (PRootPath jobType) else Inr (),
            if is_nil (m ''target_directory'') \<and> is_nil (m ''new_target_directory'')
            then Inl (PTargetDirectory jobType) else Inr ()]
      else if jobType \<in> set [''repo_pull'', ''repo_sync'']
      then [requiredString jobType m ''repository_id'']
      else if jobType = ''config_reload''
      then [optionalStringArray jobType m ''keys'']
      else if jobType = ''module_restart''
      then [requiredString jobType m ''module_name'']
      else if jobType = ''scim_sync''
      then [requiredString jobType m ''provider'']
      else [])"

definition validatePayloadContract :: "bytes \<Rightarrow> raw \<Rightarrow> payload_error + unit" where
  "validatePayloadContract jobType payload =
     (case unmarshal_map payload of
        Inl e \<Rightarrow> Inl (PInvalid e)
      | Inr m \<Rightarrow> first_failure (contract_checks jobType m))"

section \<open>Comparing payloads\<close>

text \<open>Two payloads are the same when \<open>json.Marshal\<close> writes their decoded values alike.\<close>

definition canonicalJSON :: "raw \<Rightarrow> payload_error + json" where
  "canonicalJSON payload =
     (case unmarshal payload of Inl e \<Rightarrow> Inl (PInvalid e) | Inr value \<Rightarrow> Inr value)"

definition sameJSON :: "raw \<Rightarrow> raw \<Rightarrow> payload_error + bool" where
  "sameJSON left right =
     (case canonicalJSON left of
        Inl e \<Rightarrow> Inl e
      | Inr l \<Rightarrow> (case canonicalJSON right of Inl e \<Rightarrow> Inl e | Inr r \<Rightarrow> Inr (l = r)))"

section \<open>Columns and event payloads\<close>

definition nullEmpty :: "bytes \<Rightarrow> bytes option" where
  "nullEmpty value = (if blank value then None else Some value)"

definition nullJSON :: "raw \<Rightarrow> raw option" where
  "nullJSON value = (if value = Blank then None else Some value)"

definition eventPayloadDetails :: "bytes \<Rightarrow> (bytes \<times> json) list \<Rightarrow> raw" where
  "eventPayloadDetails message details =
     Doc (JObject (go_map [(''schema_version'', JString ''job_events.payload.v1''),
                           (''message'', JString (safeMessage message)),
                           (''details'', JObject (go_map details))]))"

definition eventPayload :: "bytes \<Rightarrow> raw" where
  "eventPayload message = eventPayloadDetails message []"

definition failure_json :: "FailureResult \<Rightarrow> raw" where
  "failure_json f =
     Doc (JObject [(''schema_version'', JString ''jobs.failure.result.v1''),
                   (''job_type'', JString (fr_JobType f)), (''worker_id'', JString (fr_WorkerID f)),
                   (''attempt'', JNumber (Num (of_int (fr_Attempt f)))),
                   (''error_code'', JString (fr_ErrorCode f)),
                   (''message'', JString (fr_Message f)),
                   (''retryable'', JBool (fr_Retryable f))])"

lemma sameJSON_iff: "sameJSON (Doc a) (Doc b) = Inr (decode a = decode b)"
  by (simp add: sameJSON_def canonicalJSON_def)

lemma sameJSON_refl: "json_valid p \<Longrightarrow> sameJSON p p = Inr True"
  by (cases p) (simp_all add: sameJSON_iff)

lemma first_failure_ok_iff: "first_failure rs = Inr () \<longleftrightarrow> (\<forall>r \<in> set rs. r = Inr ())"
  by (induction rs rule: first_failure.induct) auto

lemma first_failure_mem: "first_failure rs = Inl e \<Longrightarrow> Inl e \<in> set rs"
  by (induction rs rule: first_failure.induct) auto

end
