(* ===== verification/Job_Statements.thy ===== *)
theory Job_Statements
  imports Job_Payload
begin

text \<open>
  The SQL statements of \<open>internal/jobs\<close> as functions on the database: each write statement gives
  the number of rows it affected and the database after it, each query gives rows. The texts for
  SQLite and PostgreSQL differ in their placeholders only, but for the claim, which has one
  statement for each. Where the text leaves the order of equal rows open, rows come in the order of
  their insertion.
\<close>

section \<open>Writes to jobs\<close>

definition update_jobs ::
    "(job_row \<Rightarrow> bool) \<Rightarrow> (job_row \<Rightarrow> job_row) \<Rightarrow> job_db \<Rightarrow> nat \<times> job_db" where
  "update_jobs P f d = (affected P (jobs d), d\<lparr>jobs := update_where P f (jobs d)\<rparr>)"

definition insert_job :: "job_row \<Rightarrow> job_db \<Rightarrow> unit \<times> job_db" where
  "insert_job r d = ((), d\<lparr>jobs := jobs d @ [r]\<rparr>)"

text \<open>\<open>status = 'queued' AND run_after <= now AND attempt_count < max_attempts\<close>.\<close>

definition claimable :: "instant \<Rightarrow> job_row \<Rightarrow> bool" where
  "claimable t r \<longleftrightarrow>
     c_status r = StatusQueued \<and> c_run_after r \<le> t \<and> c_attempt_count r < c_max_attempts r"

text \<open>\<open>ORDER BY run_after ASC, priority DESC, created_at ASC\<close>.\<close>

definition claim_key :: "job_row \<Rightarrow> int \<times> int \<times> int" where
  "claim_key r = (c_run_after r, - c_priority r, c_created_at r)"

definition select_candidate :: "instant \<Rightarrow> job_db \<Rightarrow> bytes option" where
  "select_candidate t d =
     map_option c_id (first_row (order_asc claim_key (filter (claimable t) (jobs d))))"

definition set_claimed :: "bytes \<Rightarrow> instant \<Rightarrow> instant \<Rightarrow> job_row \<Rightarrow> job_row" where
  "set_claimed worker lease t r =
     r\<lparr>c_status := StatusRunning, c_leased_by := Some worker, c_lease_expires_at := Some lease,
       c_heartbeat_at := Some t, c_attempt_count := c_attempt_count r + 1, c_updated_at := t\<rparr>"

definition claim_sqlite ::
    "bytes \<Rightarrow> instant \<Rightarrow> instant \<Rightarrow> bytes \<Rightarrow> job_db \<Rightarrow> nat \<times> job_db" where
  "claim_sqlite worker lease t candidate =
     update_jobs (\<lambda>r. c_id r = candidate \<and> c_status r = StatusQueued) (set_claimed worker lease t)"

text \<open>\<open>UPDATE ... WHERE id = (SELECT ... FOR UPDATE SKIP LOCKED LIMIT 1) RETURNING ...\<close>.\<close>

definition claim_postgres ::
    "bytes \<Rightarrow> instant \<Rightarrow> instant \<Rightarrow> job_db \<Rightarrow> job_row option \<times> job_db" where
  "claim_postgres worker lease t d =
     (case select_candidate t d of
        None \<Rightarrow> (None, d)
      | Some i \<Rightarrow>
          (let d' = snd (update_jobs (\<lambda>r. c_id r = i) (set_claimed worker lease t) d)
           in (first_row (filter (\<lambda>r. c_id r = i) (jobs d')), d')))"

text \<open>\<open>id = ? AND leased_by = ? AND status = 'running'\<close>.\<close>

definition leased_to :: "bytes \<Rightarrow> bytes \<Rightarrow> job_row \<Rightarrow> bool" where
  "leased_to i worker r \<longleftrightarrow>
     c_id r = i \<and> c_leased_by r = Some worker \<and> c_status r = StatusRunning"

definition start_update :: "bytes \<Rightarrow> bytes \<Rightarrow> instant \<Rightarrow> job_db \<Rightarrow> nat \<times> job_db" where
  "start_update i worker t =
     update_jobs (leased_to i worker)
       (\<lambda>r. r\<lparr>c_started_at := (case c_started_at r of None \<Rightarrow> Some t | Some s \<Rightarrow> Some s),
              c_updated_at := t\<rparr>)"

definition heartbeat_update ::
    "bytes \<Rightarrow> bytes \<Rightarrow> instant \<Rightarrow> instant \<Rightarrow> job_db \<Rightarrow> nat \<times> job_db" where
  "heartbeat_update i worker t lease =
     update_jobs (leased_to i worker)
       (\<lambda>r. r\<lparr>c_heartbeat_at := Some t, c_lease_expires_at := Some lease, c_updated_at := t\<rparr>)"

definition complete_update ::
    "bytes \<Rightarrow> bytes \<Rightarrow> status \<Rightarrow> raw \<Rightarrow> bytes option \<Rightarrow> instant \<Rightarrow> job_db \<Rightarrow> nat \<times> job_db" where
  "complete_update i worker s result message t =
     update_jobs (leased_to i worker)
       (\<lambda>r. r\<lparr>c_status := s, c_result_payload := Some result, c_error_message := message,
              c_finished_at := Some t, c_updated_at := t\<rparr>)"

definition set_queued :: "instant \<Rightarrow> instant \<Rightarrow> job_row \<Rightarrow> job_row" where
  "set_queued runAfter t r =
     r\<lparr>c_status := StatusQueued, c_leased_by := None, c_lease_expires_at := None,
       c_heartbeat_at := None, c_run_after := runAfter, c_updated_at := t\<rparr>"

definition requeue_update ::
    "bytes \<Rightarrow> bytes \<Rightarrow> instant \<Rightarrow> bytes option \<Rightarrow> instant \<Rightarrow> job_db \<Rightarrow> nat \<times> job_db" where
  "requeue_update i worker runAfter reason t =
     update_jobs (leased_to i worker)
       (\<lambda>r. (set_queued runAfter t r)\<lparr>c_error_message := reason\<rparr>)"

text \<open>\<open>id = ? AND status = 'running' AND leased_by = ? AND lease_expires_at = ?\<close>.\<close>

definition same_lease :: "bytes \<Rightarrow> bytes \<Rightarrow> instant \<Rightarrow> job_row \<Rightarrow> bool" where
  "same_lease i owner lease r \<longleftrightarrow>
     c_id r = i \<and> c_status r = StatusRunning \<and> c_leased_by r = Some owner \<and>
     c_lease_expires_at r = Some lease"

definition recover_update ::
    "bytes \<Rightarrow> bytes \<Rightarrow> instant \<Rightarrow> instant \<Rightarrow> instant \<Rightarrow> job_db \<Rightarrow> nat \<times> job_db" where
  "recover_update i owner lease runAfter t =
     update_jobs (same_lease i owner lease) (set_queued runAfter t)"

definition force_fail_update ::
    "bytes \<Rightarrow> bytes \<Rightarrow> instant \<Rightarrow> raw \<Rightarrow> bytes \<Rightarrow> instant \<Rightarrow> job_db \<Rightarrow> nat \<times> job_db" where
  "force_fail_update i owner lease result message t =
     update_jobs (same_lease i owner lease)
       (\<lambda>r. r\<lparr>c_status := StatusFailed, c_result_payload := Some result,
              c_error_message := Some message, c_finished_at := Some t, c_updated_at := t\<rparr>)"

section \<open>Writes to the locks, the events and the workflow statuses\<close>

definition update_locks ::
    "(lock_row \<Rightarrow> bool) \<Rightarrow> (lock_row \<Rightarrow> lock_row) \<Rightarrow> job_db \<Rightarrow> nat \<times> job_db" where
  "update_locks P f d = (affected P (job_locks d), d\<lparr>job_locks := update_where P f (job_locks d)\<rparr>)"

definition insert_lock :: "lock_row \<Rightarrow> job_db \<Rightarrow> unit \<times> job_db" where
  "insert_lock r d = ((), d\<lparr>job_locks := job_locks d @ [r]\<rparr>)"

definition extend_locks :: "bytes \<Rightarrow> bytes \<Rightarrow> instant \<Rightarrow> job_db \<Rightarrow> nat \<times> job_db" where
  "extend_locks i worker expires =
     update_locks (\<lambda>r. k_job_id r = i \<and> k_owner r = worker \<and> k_status r = LockHeld)
       (\<lambda>r. r\<lparr>k_expires_at := expires\<rparr>)"

definition expire_locks :: "instant \<Rightarrow> job_db \<Rightarrow> nat \<times> job_db" where
  "expire_locks t =
     update_locks (\<lambda>r. k_status r = LockHeld \<and> k_expires_at r \<le> t) (\<lambda>r. r\<lparr>k_status := LockExpired\<rparr>)"

definition expire_job_locks :: "bytes \<Rightarrow> job_db \<Rightarrow> nat \<times> job_db" where
  "expire_job_locks i =
     update_locks (\<lambda>r. k_job_id r = i \<and> k_status r = LockHeld) (\<lambda>r. r\<lparr>k_status := LockExpired\<rparr>)"

definition release_locks :: "bytes \<Rightarrow> bytes \<Rightarrow> instant \<Rightarrow> job_db \<Rightarrow> nat \<times> job_db" where
  "release_locks i worker t =
     update_locks (\<lambda>r. k_job_id r = i \<and> k_owner r = worker \<and> k_status r = LockHeld)
       (\<lambda>r. r\<lparr>k_status := LockReleased, k_released_at := Some t\<rparr>)"

definition delete_locks :: "bytes list \<Rightarrow> job_db \<Rightarrow> nat \<times> job_db" where
  "delete_locks ids d =
     (affected (\<lambda>r. k_id r \<in> set ids) (job_locks d),
      d\<lparr>job_locks := delete_where (\<lambda>r. k_id r \<in> set ids) (job_locks d)\<rparr>)"

definition insert_event :: "event_row \<Rightarrow> job_db \<Rightarrow> unit \<times> job_db" where
  "insert_event r d = ((), d\<lparr>job_events := job_events d @ [r]\<rparr>)"

definition delete_events :: "bytes list \<Rightarrow> job_db \<Rightarrow> nat \<times> job_db" where
  "delete_events ids d =
     (affected (\<lambda>r. ev_id r \<in> set ids) (job_events d),
      d\<lparr>job_events := delete_where (\<lambda>r. ev_id r \<in> set ids) (job_events d)\<rparr>)"

text \<open>\<open>INSERT ... ON CONFLICT (job_group_id) DO UPDATE SET\<close> all columns but the id.\<close>

definition upsert_workflow :: "workflow_row \<Rightarrow> job_db \<Rightarrow> unit \<times> job_db" where
  "upsert_workflow r d =
     ((), if \<exists>x \<in> set (workflow_statuses d). f_job_group_id x = f_job_group_id r
          then d\<lparr>workflow_statuses :=
                   update_where (\<lambda>x. f_job_group_id x = f_job_group_id r) (\<lambda>x. r\<lparr>f_id := f_id x\<rparr>)
                     (workflow_statuses d)\<rparr>
          else d\<lparr>workflow_statuses := workflow_statuses d @ [r]\<rparr>)"

section \<open>Queries\<close>

definition job_by_id :: "bytes \<Rightarrow> job_db \<Rightarrow> job_row option" where
  "job_by_id i d = first_row (filter (\<lambda>r. c_id r = i) (jobs d))"

definition jobs_by_idempotency :: "bytes \<Rightarrow> bytes \<Rightarrow> bytes \<Rightarrow> job_db \<Rightarrow> job_row option" where
  "jobs_by_idempotency actor jobType key d =
     first_row (filter (\<lambda>r. c_actor r = Some actor \<and> c_job_type r = jobType \<and>
                            c_idempotency_key r = Some key) (jobs d))"

definition active_by_lock :: "(bytes \<Rightarrow> bool) \<Rightarrow> bytes \<Rightarrow> job_db \<Rightarrow> job_row option" where
  "active_by_lock types lockKey d =
     first_row (order_asc (\<lambda>r. (c_created_at r, c_id r))
       (filter (\<lambda>r. types (c_job_type r) \<and> c_lock_key r = Some lockKey \<and> active (c_status r)) (jobs d)))"

definition events_of_job :: "bytes \<Rightarrow> job_db \<Rightarrow> event_row list" where
  "events_of_job i d =
     order_asc (\<lambda>r. (ev_created_at r, ev_id r)) (filter (\<lambda>r. ev_job_id r = i) (job_events d))"

definition latest_event_of :: "(event_row \<Rightarrow> bool) \<Rightarrow> job_db \<Rightarrow> event_row option" where
  "latest_event_of P d =
     first_row (order_desc (\<lambda>r. (ev_created_at r, ev_id r)) (filter P (job_events d)))"

definition locks_of_job :: "bytes \<Rightarrow> job_db \<Rightarrow> lock_row list" where
  "locks_of_job i d =
     order_asc (\<lambda>r. (k_created_at r, k_id r)) (filter (\<lambda>r. k_job_id r = i) (job_locks d))"

definition expired_leases :: "instant \<Rightarrow> job_db \<Rightarrow> job_row list" where
  "expired_leases t d =
     take 50 (order_asc c_lease_expires_at
       (filter (\<lambda>r. c_status r = StatusRunning \<and>
                    (case c_lease_expires_at r of None \<Rightarrow> False | Some l \<Rightarrow> l \<le> t)) (jobs d)))"

section \<open>Facts about the statements\<close>

lemmas job_update_defs =
  claim_sqlite_def start_update_def heartbeat_update_def complete_update_def requeue_update_def
  recover_update_def force_fail_update_def

lemmas lock_update_defs =
  extend_locks_def expire_locks_def expire_job_locks_def release_locks_def

lemma update_jobs_simps [simp]:
  "jobs (snd (update_jobs P f d)) = update_where P f (jobs d)"
  "job_locks (snd (update_jobs P f d)) = job_locks d"
  "job_events (snd (update_jobs P f d)) = job_events d"
  "workflow_statuses (snd (update_jobs P f d)) = workflow_statuses d"
  "fst (update_jobs P f d) = affected P (jobs d)"
  by (simp_all add: update_jobs_def)

lemma update_locks_simps [simp]:
  "jobs (snd (update_locks P f d)) = jobs d"
  "job_locks (snd (update_locks P f d)) = update_where P f (job_locks d)"
  "job_events (snd (update_locks P f d)) = job_events d"
  "workflow_statuses (snd (update_locks P f d)) = workflow_statuses d"
  "fst (update_locks P f d) = affected P (job_locks d)"
  by (simp_all add: update_locks_def)

lemma jobs_of_lock_statements [simp]:
  "jobs (snd (extend_locks i w t d)) = jobs d" "jobs (snd (expire_locks t d)) = jobs d"
  "jobs (snd (expire_job_locks i d)) = jobs d" "jobs (snd (release_locks i w t d)) = jobs d"
  "jobs (snd (insert_lock k d)) = jobs d" "jobs (snd (delete_locks ids d)) = jobs d"
  "jobs (snd (insert_event e d)) = jobs d" "jobs (snd (delete_events ids d)) = jobs d"
  "jobs (snd (upsert_workflow flow d)) = jobs d"
  by (simp_all add: lock_update_defs insert_lock_def delete_locks_def insert_event_def
      delete_events_def upsert_workflow_def)

lemma job_by_id_Some: "job_by_id i d = Some r \<Longrightarrow> r \<in> set (jobs d) \<and> c_id r = i"
  unfolding job_by_id_def by (drule first_row_in) simp

lemma job_by_id_None_iff: "job_by_id i d = None \<longleftrightarrow> i \<notin> c_id ` set (jobs d)"
  by (auto simp: job_by_id_def filter_empty_conv)

lemma job_by_id_unique:
  assumes "unique_by (\<lambda>r. Some (c_id r)) (jobs d)" and "r \<in> set (jobs d)"
  shows "job_by_id (c_id r) d = Some r"
proof -
  have "job_by_id (c_id r) d \<noteq> None" using assms(2) by (auto simp: job_by_id_None_iff)
  then obtain r' where r': "job_by_id (c_id r) d = Some r'" by blast
  then have "r' \<in> set (jobs d)" "c_id r' = c_id r" using job_by_id_Some by auto
  then have "r' = r" using unique_by_eq [OF assms(1) _ assms(2)] by simp
  with r' show ?thesis by simp
qed

lemma select_candidate_Some:
  assumes "select_candidate t d = Some i"
  obtains r where "r \<in> set (jobs d)" and "c_id r = i" and "claimable t r"
    and "\<And>r'. r' \<in> set (jobs d) \<Longrightarrow> claimable t r' \<Longrightarrow> claim_key r \<le> claim_key r'"
proof -
  from assms obtain r where
    r: "first_row (order_asc claim_key (filter (claimable t) (jobs d))) = Some r" and "c_id r = i"
    by (auto simp: select_candidate_def)
  have "r \<in> set (filter (claimable t) (jobs d))"
    and "\<And>r'. r' \<in> set (filter (claimable t) (jobs d)) \<Longrightarrow> claim_key r \<le> claim_key r'"
    using first_row_order_asc_least [OF r] by blast+
  with \<open>c_id r = i\<close> show thesis by (intro that [of r]) auto
qed

lemma select_candidate_None_iff:
  "select_candidate t d = None \<longleftrightarrow> (\<forall>r \<in> set (jobs d). \<not> claimable t r)"
  by (simp add: select_candidate_def filter_empty_conv)

end
