(* ===== verification/Job_Workflow.thy ===== *)
theory Job_Workflow
  imports Job_Statements
begin

text \<open>
  The workflow status of a job group (\<open>internal/jobs/status.go\<close>): the aggregate of the statuses of
  the group's jobs, the row that records it, and the pass over all groups that a starting worker
  makes.
\<close>

abbreviation jexec :: "(job_db \<Rightarrow> 'a \<times> job_db) \<Rightarrow> (job_db, 'a) io" where
  "jexec \<equiv> exec db_violation"

section \<open>Aggregation\<close>

definition aggregateStatus :: "(status \<Rightarrow> nat) \<Rightarrow> nat \<Rightarrow> aggregate" where
  "aggregateStatus counts n =
     (if 0 < counts StatusRunning then Agg StatusRunning
      else if 0 < counts StatusQueued
      then (if 0 < counts StatusSucceeded + counts StatusFailed + counts StatusCancelled
            then Agg StatusRunning else Agg StatusQueued)
      else if counts StatusSucceeded = n then Agg StatusSucceeded
      else if counts StatusCancelled = n then Agg StatusCancelled
      else if 0 < counts StatusSucceeded then Partial
      else if 0 < counts StatusFailed then Agg StatusFailed
      else Partial)"

text \<open>\<open>SELECT status, count(*) ... GROUP BY status\<close>, and the sum of the counts.\<close>

definition group_jobs :: "bytes \<Rightarrow> job_db \<Rightarrow> job_row list" where
  "group_jobs g d = filter (\<lambda>r. c_job_group_id r = Some g) (jobs d)"

definition status_counts :: "job_row list \<Rightarrow> status \<Rightarrow> nat" where
  "status_counts rs s = length (filter (\<lambda>r. c_status r = s) rs)"

definition total_count :: "(status \<Rightarrow> nat) \<Rightarrow> nat" where
  "total_count counts =
     counts StatusQueued + counts StatusRunning + counts StatusSucceeded + counts StatusFailed +
     counts StatusCancelled"

lemma total_status_counts: "total_count (status_counts rs) = length rs"
proof (induction rs)
  case Nil
  then show ?case by (simp add: total_count_def status_counts_def)
next
  case (Cons r rs)
  then show ?case by (cases "c_status r") (simp_all add: total_count_def status_counts_def)
qed

section \<open>Texts\<close>

fun status_text :: "status \<Rightarrow> bytes" where
  "status_text StatusQueued = ''queued''"
| "status_text StatusRunning = ''running''"
| "status_text StatusSucceeded = ''succeeded''"
| "status_text StatusFailed = ''failed''"
| "status_text StatusCancelled = ''cancelled''"

fun event_text :: "event_type \<Rightarrow> bytes" where
  "event_text EventQueued = ''queued''"
| "event_text EventClaimed = ''claimed''"
| "event_text EventStarted = ''started''"
| "event_text EventHeartbeat = ''heartbeat''"
| "event_text EventProgress = ''progress''"
| "event_text EventChildCreated = ''child_created''"
| "event_text EventSucceeded = ''succeeded''"
| "event_text EventFailed = ''failed''"
| "event_text EventCancelled = ''cancelled''"
| "event_text EventLeaseExpired = ''lease_expired''"
| "event_text EventRetryScheduled = ''retry_scheduled''"

fun aggregate_text :: "aggregate \<Rightarrow> bytes" where
  "aggregate_text (Agg s) = status_text s"
| "aggregate_text Partial = ''partial''"

definition counts_json :: "(status \<Rightarrow> nat) \<Rightarrow> json" where
  "counts_json counts =
     JObject (go_map (map (\<lambda>s. (status_text s, JNumber (Num (of_nat (counts s)))))
       [StatusQueued, StatusRunning, StatusSucceeded, StatusFailed, StatusCancelled]))"

text \<open>A struct field of type \<open>map[string]any\<close>: members are merged in, null empties it.\<close>

fun object_or_null :: "json \<Rightarrow> bool" where
  "object_or_null (JObject _) = True"
| "object_or_null JNull = True"
| "object_or_null _ = False"

fun map_field :: "bytes \<Rightarrow> raw \<Rightarrow> (bytes \<times> json) list option" where
  "map_field name (Doc (JObject kvs)) =
     (let vs = map snd (filter (\<lambda>(k, v). fold_name k = fold_name name) kvs)
      in if list_all object_or_null vs
         then Some (foldl (\<lambda>acc v. case decode v of JObject m \<Rightarrow> go_map (acc @ m) | _ \<Rightarrow> []) [] vs)
         else None)"
| "map_field name (Doc JNull) = Some []"
| "map_field name _ = None"

definition latestEventSummary :: "Event option \<Rightarrow> json" where
  "latestEventSummary ev0 =
     (case ev0 of
        None \<Rightarrow> JNull
      | Some ev \<Rightarrow>
          JObject (go_map
            ([(''job_id'', JString (e_JobID ev)),
              (''event_type'', JString (event_text (e_EventType ev))),
              (''status'', JString (case e_Status ev of None \<Rightarrow> [] | Some s \<Rightarrow> status_text s)),
              (''worker_id'', JString (e_WorkerID ev)),
              (''created_at'', time_json (case e_CreatedAt ev of None \<Rightarrow> 0 | Some t \<Rightarrow> t))] @
             (case (string_field ''message'' (e_Payload ev), map_field ''details'' (e_Payload ev)) of
                (Inr message, Some details) \<Rightarrow>
                  (if message \<noteq> [] then [(''message'', JString message)] else []) @
                  (if details \<noteq> [] then [(''details'', JObject details)] else [])
              | _ \<Rightarrow> []))))"

section \<open>Refreshing a workflow status\<close>

definition firstWorkflowJob :: "bytes \<Rightarrow> job_db \<Rightarrow> Job option" where
  "firstWorkflowJob g d =
     map_option scanJob (first_row (order_asc (\<lambda>r. (c_created_at r, c_id r)) (group_jobs g d)))"

definition latestEventForGroup :: "bytes \<Rightarrow> job_db \<Rightarrow> Event option" where
  "latestEventForGroup g d = map_option scanEvent (latest_event_of (\<lambda>r. ev_job_group_id r = Some g) d)"

definition workflow_summary ::
    "bytes \<Rightarrow> bytes \<Rightarrow> bytes \<Rightarrow> aggregate \<Rightarrow> (status \<Rightarrow> nat) \<Rightarrow> Event option \<Rightarrow> raw" where
  "workflow_summary workflowType workflowID g agg counts latest =
     Doc (JObject (go_map
       [(''schema_version'', JString ''workflow_status.summary.v1''),
        (''workflow_type'', JString workflowType), (''workflow_id'', JString workflowID),
        (''job_group_id'', JString g), (''aggregate_status'', JString (aggregate_text agg)),
        (''counts'', counts_json counts), (''latest_event'', latestEventSummary latest),
        (''components'', JObject [])]))"

definition RefreshWorkflowStatus :: "bytes \<Rightarrow> bytes \<Rightarrow> (job_db, unit) io" where
  "RefreshWorkflowStatus g workflowID0 =
     (if g = [] then ret ()
      else andThen (query (firstWorkflowJob g)) (\<lambda>sample0.
        case sample0 of
          None \<Rightarrow> ret ()
        | Some sample \<Rightarrow>
            if j_ID sample = [] then ret ()
            else
              (let workflowID = (if workflowID0 = [] then workflowIDForJob sample else workflowID0);
                   workflowType = workflowTypeForJobType (j_JobType sample)
               in andThen (query (\<lambda>d. status_counts (group_jobs g d))) (\<lambda>counts.
                    let n = total_count counts
                    in if n = 0 then ret ()
                       else
                         (let agg = aggregateStatus counts n;
                              current = counts StatusSucceeded + counts StatusFailed +
                                        counts StatusCancelled
                          in andThen (query (latestEventForGroup g)) (\<lambda>latest.
                             andThen now (\<lambda>t.
                               jexec (upsert_workflow
                                 \<lparr>f_id = ''workflow_'' @ g, f_workflow_type = workflowType,
                                  f_workflow_id = workflowID, f_job_group_id = g,
                                  f_aggregate_status = agg, f_progress_current = int current,
                                  f_progress_total = int n,
                                  f_summary_payload =
                                    workflow_summary workflowType workflowID g agg counts latest,
                                  f_updated_at = t\<rparr>))))))))"

section \<open>All groups\<close>

abbreviation reconcileWorkflowBatchSize :: nat where "reconcileWorkflowBatchSize \<equiv> 500"

text \<open>\<open>SELECT DISTINCT job_group_id ... AND job_group_id > after ORDER BY job_group_id LIMIT\<close>.\<close>

definition workflowGroupsPage :: "bytes \<Rightarrow> nat \<Rightarrow> job_db \<Rightarrow> bytes list" where
  "workflowGroupsPage after limit d =
     take limit (sort (remdups
       (filter (\<lambda>g. g \<noteq> [] \<and> (after = [] \<or> after < g))
         (List.map_filter c_job_group_id (jobs d)))))"

text \<open>
  The loop, with the number of pages it may read: \<open>None\<close> is a loop that has not ended within them.
\<close>

fun reconcile_loop :: "nat \<Rightarrow> nat \<Rightarrow> bytes \<Rightarrow> (job_db, unit option) io" where
  "reconcile_loop 0 batch after = ret None"
| "reconcile_loop (Suc fuel) batch after =
     andThen (query (workflowGroupsPage after batch)) (\<lambda>groups.
       if groups = [] then ret (Some ())
       else andThen (for_each groups (\<lambda>g. RefreshWorkflowStatus g [])) (\<lambda>_.
         if length groups < batch then ret (Some ())
         else reconcile_loop fuel batch (last groups)))"

definition ReconcileWorkflowStatuses :: "nat \<Rightarrow> (job_db, unit option) io" where
  "ReconcileWorkflowStatuses fuel = reconcile_loop fuel reconcileWorkflowBatchSize []"

end
