(* ===== verification/Job_Store.thy ===== *)
theory Job_Store
  imports Job_Workflow
begin

text \<open>
  The operations of \<open>internal/jobs/store.go\<close>, each with its statements in the order of the code, in
  the transactions the code opens, and with its early returns.
\<close>

section \<open>Events\<close>

definition addEvent :: "Event \<Rightarrow> (job_db, unit) io" where
  "addEvent event =
     andThen (if e_ID event = [] then newID ''event'' else ret (e_ID event)) (\<lambda>i.
     andThen (case e_CreatedAt event of None \<Rightarrow> now | Some t \<Rightarrow> ret t) (\<lambda>t.
       jexec (insert_event
         \<lparr>ev_id = i, ev_job_id = e_JobID event, ev_job_group_id = nullEmpty (e_JobGroupID event),
          ev_event_type = e_EventType event, ev_status = e_Status event,
          ev_worker_id = nullEmpty (e_WorkerID event),
          ev_metric_name = nullEmpty (e_MetricName event), ev_metric_value = e_MetricValue event,
          ev_payload = nullJSON (safeJSONPayload (e_Payload event)), ev_created_at = t\<rparr>)))"

definition AddEvent :: "Event \<Rightarrow> (job_db, unit) io" where
  "AddEvent event = addEvent event"

text \<open>An \<open>Event\<close> literal of the code: the fields it leaves out are zero.\<close>

definition mk_event ::
    "bytes \<Rightarrow> bytes \<Rightarrow> event_type \<Rightarrow> status \<Rightarrow> bytes \<Rightarrow> raw \<Rightarrow> Event" where
  "mk_event jobID groupID t s worker payload =
     \<lparr>e_ID = [], e_JobID = jobID, e_JobGroupID = groupID, e_EventType = t, e_Status = Some s,
      e_WorkerID = worker, e_MetricName = [], e_MetricValue = None, e_Payload = payload,
      e_CreatedAt = None\<rparr>"

section \<open>Enqueue\<close>

definition findByIdempotency :: "bytes \<Rightarrow> bytes \<Rightarrow> bytes \<Rightarrow> (job_db, Job) io" where
  "findByIdempotency actor jobType key =
     andThen (query (jobs_by_idempotency actor jobType key)) (\<lambda>r.
       case r of None \<Rightarrow> fail ENotFound | Some row \<Rightarrow> ret (scanJob row))"

definition idempotentReplay :: "EnqueueRequest \<Rightarrow> (job_db, JobRef) io" where
  "idempotentReplay req =
     andThen (findByIdempotency (req_Actor req) (req_JobType req) (req_IdempotencyKey req)) (\<lambda>existing.
     andThen (lift_result EPayload (sameJSON (j_Payload existing) (req_Payload req))) (\<lambda>same.
       if \<not> same then fail (EIdempotencyConflict (req_JobType req) (req_IdempotencyKey req))
       else ret (mk_ref (j_ID existing) (j_Status existing))))"

definition IdempotentReplay :: "EnqueueRequest \<Rightarrow> (job_db, JobRef) io" where
  "IdempotentReplay req =
     (if blank (req_IdempotencyKey req) then fail ENotFound
      else idempotentReplay
             (if blank (req_Actor req) then req\<lparr>req_Actor := ''system''\<rparr> else req))"

definition JobByIdempotency :: "bytes \<Rightarrow> bytes \<Rightarrow> bytes \<Rightarrow> (job_db, Job) io" where
  "JobByIdempotency actor jobType key =
     (if blank key then fail ENotFound
      else findByIdempotency (if blank actor then ''system'' else actor) jobType key)"

definition request_defaults :: "instant \<Rightarrow> EnqueueRequest \<Rightarrow> EnqueueRequest" where
  "request_defaults t req =
     req\<lparr>req_Actor := (if blank (req_Actor req) then ''system'' else req_Actor req),
         req_MaxAttempts := (if req_MaxAttempts req = 0 then 3 else req_MaxAttempts req),
         req_RunAfter := (case req_RunAfter req of None \<Rightarrow> Some t | Some r \<Rightarrow> Some r),
         req_Payload := (if req_Payload req = Blank then Doc (JObject []) else req_Payload req)\<rparr>"

definition request_group :: "EnqueueRequest \<Rightarrow> EnqueueRequest" where
  "request_group req =
     (let g = (if req_JobGroupID req = [] then defaultJobGroupID (req_JobType req) (req_ID req)
               else req_JobGroupID req)
      in req\<lparr>req_JobGroupID := g,
             req_WorkflowID := (if req_WorkflowID req = []
                                then workflowIDFromGroupID g (req_ID req) else req_WorkflowID req)\<rparr>)"

definition validate_request :: "EnqueueRequest \<Rightarrow> payload_error + unit" where
  "validate_request req =
     first_failure
       [validatePayloadSchema (req_JobType req) (req_Payload req),
        validatePayloadContract (req_JobType req) (req_Payload req),
        (case validateSafeJobPayload (req_Payload req) of
           Inl e \<Rightarrow> Inl (PUnsafe e) | Inr u \<Rightarrow> Inr u)]"

definition prepareEnqueue ::
    "EnqueueRequest \<Rightarrow> instant \<Rightarrow> bool \<Rightarrow> (job_db, EnqueueRequest \<times> JobRef option) io" where
  "prepareEnqueue req0 t checkIdempotency =
     andThen (if req_ID req0 = [] then newID ''job'' else ret (req_ID req0)) (\<lambda>i.
       let req1 = request_defaults t (req0\<lparr>req_ID := i\<rparr>)
       in andThen (lift_result EPayload (validate_request req1)) (\<lambda>_.
          let req = request_group req1
          in if checkIdempotency \<and> req_IdempotencyKey req \<noteq> []
             then outcome (findByIdempotency (req_Actor req) (req_JobType req) (req_IdempotencyKey req))
                    (\<lambda>r. case r of
                        Inr existing \<Rightarrow>
                          andThen (lift_result EPayload (sameJSON (j_Payload existing) (req_Payload req)))
                            (\<lambda>same.
                              if \<not> same
                              then fail (EIdempotencyConflict (req_JobType req) (req_IdempotencyKey req))
                              else ret (req, Some (mk_ref (j_ID existing) (j_Status existing))))
                      | Inl e \<Rightarrow> if e = ENotFound then ret (req, None) else fail e)
             else ret (req, None)))"

definition request_row :: "instant \<Rightarrow> EnqueueRequest \<Rightarrow> job_row" where
  "request_row t req =
     \<lparr>c_id = req_ID req, c_job_type = req_JobType req, c_status = StatusQueued,
      c_actor = nullEmpty (req_Actor req), c_correlation_id = nullEmpty (req_CorrelationID req),
      c_idempotency_key = nullEmpty (req_IdempotencyKey req),
      c_parent_job_id = nullEmpty (req_ParentJobID req), c_job_group_id = Some (req_JobGroupID req),
      c_lock_key = nullEmpty (req_LockKey req), c_attempt_count = 0,
      c_max_attempts = req_MaxAttempts req, c_leased_by = None, c_lease_expires_at = None,
      c_heartbeat_at = None, c_run_after = (case req_RunAfter req of None \<Rightarrow> t | Some r \<Rightarrow> r),
      c_priority = req_Priority req, c_payload = req_Payload req, c_result_payload = None,
      c_created_at = t, c_started_at = None, c_finished_at = None, c_error_message = None,
      c_updated_at = t\<rparr>"

definition enqueuePrepared :: "EnqueueRequest \<Rightarrow> instant \<Rightarrow> (job_db, unit) io" where
  "enqueuePrepared req t =
     andThen (jexec (insert_job (request_row t req))) (\<lambda>_.
       addEvent (mk_event (req_ID req) (req_JobGroupID req) EventQueued StatusQueued [] Blank))"

definition Enqueue :: "EnqueueRequest \<Rightarrow> (job_db, JobRef) io" where
  "Enqueue req0 =
     andThen now (\<lambda>t.
     andThen (prepareEnqueue req0 t True) (\<lambda>(req, replay).
       case replay of
         Some ref \<Rightarrow> ret ref
       | None \<Rightarrow>
           outcome (WithTx (enqueuePrepared req t)) (\<lambda>r. case r of
               Inl e \<Rightarrow>
                 if req_IdempotencyKey req \<noteq> [] \<and> isUniqueConstraintError e
                 then idempotentReplay req else fail e
             | Inr _ \<Rightarrow>
                 andThen (ignoring (RefreshWorkflowStatus (req_JobGroupID req) (req_WorkflowID req)))
                   (\<lambda>_. ret (mk_ref (req_ID req) StatusQueued)))))"

text \<open>\<open>EnqueueInTx\<close> runs in a transaction of its caller.\<close>

definition EnqueueInTx :: "EnqueueRequest \<Rightarrow> (job_db, JobRef) io" where
  "EnqueueInTx req0 =
     andThen now (\<lambda>t.
     andThen (prepareEnqueue req0 t False) (\<lambda>(req, replay).
       case replay of
         Some ref \<Rightarrow> ret ref
       | None \<Rightarrow>
           andThen (enqueuePrepared req t) (\<lambda>_. ret (mk_ref (req_ID req) StatusQueued))))"

definition findActiveByLock :: "bytes \<Rightarrow> bytes \<Rightarrow> (job_db, Job) io" where
  "findActiveByLock jobType lockKey =
     andThen (query (active_by_lock (\<lambda>t. t = jobType) lockKey)) (\<lambda>r.
       case r of None \<Rightarrow> fail ENotFound | Some row \<Rightarrow> ret (scanJob row))"

definition findActiveRepositoryOperation :: "bytes \<Rightarrow> (job_db, Job) io" where
  "findActiveRepositoryOperation lockKey =
     andThen (query (active_by_lock repo_operation lockKey)) (\<lambda>r.
       case r of None \<Rightarrow> fail ENotFound | Some row \<Rightarrow> ret (scanJob row))"

definition EnqueueRepositoryOperation :: "EnqueueRequest \<Rightarrow> (job_db, JobRef) io" where
  "EnqueueRepositoryOperation req =
     (if \<not> repo_operation (req_JobType req)
      then fail (EMessage ''repository operation enqueue requires repo_clone, repo_pull or repo_sync'')
      else if blank (req_LockKey req)
      then fail (EMessage ''repository operation enqueue requires lock_key'')
      else outcome (Enqueue req) (\<lambda>r. case r of
          Inr ref \<Rightarrow> ret ref
        | Inl e \<Rightarrow>
            if isUniqueConstraintError e
            then outcome (findActiveRepositoryOperation (req_LockKey req)) (\<lambda>a. case a of
                     Inr active_job \<Rightarrow> fail (EActiveRepositoryOp (j_ID active_job))
                   | Inl _ \<Rightarrow> fail e)
            else fail e))"

definition EnqueueIfNoActive :: "EnqueueRequest \<Rightarrow> (job_db, JobRef \<times> bool) io" where
  "EnqueueIfNoActive req =
     (if blank (req_LockKey req) then andThen (Enqueue req) (\<lambda>ref. ret (ref, True))
      else outcome (findActiveByLock (req_JobType req) (req_LockKey req)) (\<lambda>r. case r of
          Inr existing \<Rightarrow> ret (mk_ref (j_ID existing) (j_Status existing), False)
        | Inl e \<Rightarrow>
            if e \<noteq> ENotFound then fail e
            else andThen (Enqueue req) (\<lambda>ref. ret (ref, True))))"

section \<open>Reads\<close>

definition Get :: "bytes \<Rightarrow> (job_db, Job) io" where
  "Get i =
     andThen (query (job_by_id i)) (\<lambda>r.
       case r of None \<Rightarrow> fail ENotFound | Some row \<Rightarrow> ret (scanJob row))"

definition ActiveRepositoryOperation :: "bytes \<Rightarrow> (job_db, Job) io" where
  "ActiveRepositoryOperation lockKey = findActiveRepositoryOperation lockKey"

definition ActiveRepositoryOperationByID :: "bytes \<Rightarrow> (job_db, Job) io" where
  "ActiveRepositoryOperationByID i =
     andThen (Get i) (\<lambda>job.
       if \<not> active (j_Status job) then fail ENotFound
       else if repo_operation (j_JobType job) then ret job else fail ENotFound)"

definition LatestEvent :: "bytes \<Rightarrow> (job_db, Event option) io" where
  "LatestEvent i =
     query (\<lambda>d. map_option scanEvent (latest_event_of (\<lambda>r. ev_job_id r = i) d))"

definition ListEvents :: "bytes \<Rightarrow> (job_db, Event list) io" where
  "ListEvents i = query (\<lambda>d. map scanEvent (events_of_job i d))"

definition ListLocks :: "bytes \<Rightarrow> (job_db, Lock list) io" where
  "ListLocks i = query (\<lambda>d. map scanLock (locks_of_job i d))"

section \<open>Claim, start, heartbeat\<close>

definition refresh_for :: "Job \<Rightarrow> (job_db, unit) io" where
  "refresh_for job = ignoring (RefreshWorkflowStatus (j_JobGroupID job) (workflowIDForJob job))"

definition claimed_event :: "Job \<Rightarrow> bytes \<Rightarrow> Event" where
  "claimed_event job worker =
     mk_event (j_ID job) (j_JobGroupID job) EventClaimed StatusRunning worker Blank"

definition claim_tx_postgres :: "bytes \<Rightarrow> instant \<Rightarrow> instant \<Rightarrow> (job_db, Job option) io" where
  "claim_tx_postgres worker lease t =
     andThen (jexec (claim_postgres worker lease t)) (\<lambda>r.
       case r of
         None \<Rightarrow> ret None
       | Some row \<Rightarrow>
           andThen (addEvent (claimed_event (scanJob row) worker)) (\<lambda>_. ret (Some (scanJob row))))"

definition claim_tx_sqlite :: "bytes \<Rightarrow> instant \<Rightarrow> instant \<Rightarrow> (job_db, Job option) io" where
  "claim_tx_sqlite worker lease t =
     andThen (query (select_candidate t)) (\<lambda>candidate.
       case candidate of
         None \<Rightarrow> ret None
       | Some i \<Rightarrow>
           andThen (jexec (claim_sqlite worker lease t i)) (\<lambda>affected_rows.
             if affected_rows = 0 then ret None
             else andThen (Get i) (\<lambda>job.
                  andThen (addEvent (claimed_event job worker)) (\<lambda>_. ret (Some job)))))"

definition ClaimNext :: "ClaimOptions \<Rightarrow> (job_db, Job option) io" where
  "ClaimNext opts =
     andThen (case opt_Now opts of None \<Rightarrow> now | Some t \<Rightarrow> ret t) (\<lambda>t.
       let lease = t + (if opt_LeaseDuration opts \<le> 0 then 30 * second else opt_LeaseDuration opts)
       in andThen provider (\<lambda>p.
          andThen (TxMaybe (if p = ''postgres'' then claim_tx_postgres (opt_WorkerID opts) lease t
                           else claim_tx_sqlite (opt_WorkerID opts) lease t)) (\<lambda>r.
            case r of
              None \<Rightarrow> ret None
            | Some job \<Rightarrow> andThen (refresh_for job) (\<lambda>_. ret (Some job)))))"

definition not_leased :: "bytes \<Rightarrow> bytes \<Rightarrow> err" where
  "not_leased i worker =
     EMessage (''job '' @ i @ '' is not running under worker lease '' @ worker)"

definition Start :: "Job \<Rightarrow> bytes \<Rightarrow> (job_db, unit) io" where
  "Start job worker =
     andThen now (\<lambda>t.
     andThen (WithTx
       (andThen (jexec (start_update (j_ID job) worker t)) (\<lambda>n.
          if n = 0 then fail (not_leased (j_ID job) worker)
          else addEvent (mk_event (j_ID job) (j_JobGroupID job) EventStarted StatusRunning worker Blank))))
       (\<lambda>_. refresh_for job))"

definition ExtendLocks :: "bytes \<Rightarrow> bytes \<Rightarrow> instant \<Rightarrow> (job_db, unit) io" where
  "ExtendLocks i worker expires = andThen (jexec (extend_locks i worker expires)) (\<lambda>_. ret ())"

definition Heartbeat :: "bytes \<Rightarrow> bytes \<Rightarrow> duration \<Rightarrow> (job_db, unit) io" where
  "Heartbeat i worker leaseDuration =
     andThen now (\<lambda>t.
     andThen (jexec (heartbeat_update i worker t (t + leaseDuration))) (\<lambda>n.
       if n = 0 then ret () else ExtendLocks i worker (t + leaseDuration)))"

section \<open>Business locks\<close>

definition ExpireLocks :: "instant \<Rightarrow> (job_db, unit) io" where
  "ExpireLocks t = andThen (jexec (expire_locks t)) (\<lambda>_. ret ())"

definition expireJobLocks :: "bytes \<Rightarrow> (job_db, unit) io" where
  "expireJobLocks i = andThen (jexec (expire_job_locks i)) (\<lambda>_. ret ())"

definition releaseLocks :: "bytes \<Rightarrow> bytes \<Rightarrow> instant \<Rightarrow> (job_db, unit) io" where
  "releaseLocks i worker t = andThen (jexec (release_locks i worker t)) (\<lambda>_. ret ())"

definition ReleaseLocks :: "bytes \<Rightarrow> bytes \<Rightarrow> (job_db, unit) io" where
  "ReleaseLocks i worker = andThen now (\<lambda>t. releaseLocks i worker t)"

definition AcquireLock :: "Job \<Rightarrow> bytes \<Rightarrow> duration \<Rightarrow> (job_db, bool) io" where
  "AcquireLock job worker leaseDuration =
     (if j_LockKey job = [] then ret True
      else
        andThen now (\<lambda>t.
        andThen (ExpireLocks t) (\<lambda>_.
        andThen (newID ''lock'') (\<lambda>i.
        outcome (jexec (insert_lock
            \<lparr>k_id = i, k_lock_key = j_LockKey job, k_job_id = j_ID job, k_owner = worker,
             k_status = LockHeld, k_created_at = t, k_expires_at = t + leaseDuration,
             k_released_at = None\<rparr>))
          (\<lambda>r. case r of
              Inr _ \<Rightarrow> ret True
            | Inl e \<Rightarrow> if isUniqueConstraintError e then ret False else fail e)))))"

section \<open>Complete, requeue\<close>

definition complete_event_type :: "status \<Rightarrow> event_type" where
  "complete_event_type s =
     (if s = StatusFailed then EventFailed
      else if s = StatusCancelled then EventCancelled else EventSucceeded)"

definition Complete :: "Job \<Rightarrow> bytes \<Rightarrow> status \<Rightarrow> raw \<Rightarrow> bytes \<Rightarrow> (job_db, unit) io" where
  "Complete job worker s result0 message0 =
     (let result = safeJSONPayload (if result0 = Blank then Doc (JObject []) else result0);
          message = safeMessage message0
      in andThen now (\<lambda>t.
         andThen (WithTx
           (andThen (jexec (complete_update (j_ID job) worker s result (nullEmpty message) t)) (\<lambda>n.
              if n = 0 then fail (not_leased (j_ID job) worker)
              else andThen (releaseLocks (j_ID job) worker t) (\<lambda>_.
                   addEvent (mk_event (j_ID job) (j_JobGroupID job) (complete_event_type s) s
                     worker Blank)))))
           (\<lambda>_. refresh_for job)))"

definition Requeue :: "Job \<Rightarrow> bytes \<Rightarrow> bytes \<Rightarrow> instant \<Rightarrow> (job_db, unit) io" where
  "Requeue job worker reason0 runAfter =
     andThen now (\<lambda>t.
       let reason = safeMessage reason0
       in andThen (WithTx
            (andThen (jexec (requeue_update (j_ID job) worker runAfter (nullEmpty reason) t)) (\<lambda>n.
               if n = 0 then fail (not_leased (j_ID job) worker)
               else andThen (releaseLocks (j_ID job) worker t) (\<lambda>_.
                    addEvent (mk_event (j_ID job) (j_JobGroupID job) EventRetryScheduled StatusQueued
                      worker
                      (eventPayloadDetails reason
                         [(''error_code'', JString reason), (''lock_key'', JString (j_LockKey job)),
                          (''retry_after'', time_json runAfter)]))))))
            (\<lambda>_. refresh_for job))"

section \<open>Listing\<close>

text \<open>A cursor text: absent, not decodable, or the time and the id that \<open>encodeCursor\<close> wrote.\<close>

datatype cursor = NoCursor | Undecodable | CursorAt "instant option" bytes

definition decodeCursor :: "cursor \<Rightarrow> (err + instant \<times> bytes)" where
  "decodeCursor c =
     (case c of
        CursorAt (Some t) i \<Rightarrow> if i = [] then Inl EInvalidCursor else Inr (t, i)
      | _ \<Rightarrow> Inl EInvalidCursor)"

definition encodeCursor :: "instant \<times> bytes \<Rightarrow> cursor" where
  "encodeCursor p = CursorAt (Some (fst p)) (snd p)"

record ListFilters =
  lf_JobType :: bytes
  lf_Status :: "status option"
  lf_LockKey :: bytes
  lf_JobGroupID :: bytes
  lf_ParentJobID :: bytes
  lf_Limit :: int
  lf_Cursor :: cursor

definition list_filter :: "ListFilters \<Rightarrow> job_row \<Rightarrow> bool" where
  "list_filter f r \<longleftrightarrow>
     (lf_JobType f \<noteq> [] \<longrightarrow> c_job_type r = lf_JobType f) \<and>
     (lf_Status f \<noteq> None \<longrightarrow> Some (c_status r) = lf_Status f) \<and>
     (lf_LockKey f \<noteq> [] \<longrightarrow> c_lock_key r = Some (lf_LockKey f)) \<and>
     (lf_JobGroupID f \<noteq> [] \<longrightarrow> c_job_group_id r = Some (lf_JobGroupID f)) \<and>
     (lf_ParentJobID f \<noteq> [] \<longrightarrow> c_parent_job_id r = Some (lf_ParentJobID f))"

definition effective_limit :: "int \<Rightarrow> int \<Rightarrow> nat" where
  "effective_limit limit maxLimit0 =
     (let maxLimit = (if maxLimit0 \<le> 0 then 200 else maxLimit0)
      in nat (if limit \<le> 0 \<or> maxLimit < limit
              then (if 200 < maxLimit then maxLimit else 100) else limit))"

text \<open>
  The page all listings share: rows below the cursor in descending order, one more than the limit
  fetched, and the key of the last row returned as the next cursor when there is a further row.
\<close>

definition page_of ::
    "('r \<Rightarrow> 'k::linorder) \<Rightarrow> ('r \<Rightarrow> bool) \<Rightarrow> 'k option \<Rightarrow> nat \<Rightarrow> 'r list \<Rightarrow> 'r list \<times> 'k option" where
  "page_of key P after limit rows =
     (let below = filter (\<lambda>r. P r \<and> (case after of None \<Rightarrow> True | Some a \<Rightarrow> key r < a)) rows;
          out = take (limit + 1) (order_desc key below)
      in if limit < length out
         then (take limit out, Some (key (last (take limit out))))
         else (out, None))"

definition job_cursor_key :: "job_row \<Rightarrow> instant \<times> bytes" where
  "job_cursor_key r = (c_created_at r, c_id r)"

definition list_jobs :: "ListFilters \<Rightarrow> int \<Rightarrow> (job_db, Job Page) io" where
  "list_jobs f maxLimit =
     andThen (if lf_Cursor f = NoCursor then ret None
              else (case decodeCursor (lf_Cursor f) of Inl e \<Rightarrow> fail e | Inr a \<Rightarrow> ret (Some a)))
       (\<lambda>after.
          andThen (query (\<lambda>d. page_of job_cursor_key (list_filter f) after
                               (effective_limit (lf_Limit f) maxLimit) (jobs d)))
            (\<lambda>(rows, next). ret \<lparr>page_Items = map scanJob rows, page_NextCursor = next\<rparr>))"

definition ListPage :: "ListFilters \<Rightarrow> (job_db, Job Page) io" where
  "ListPage f = list_jobs f 200"

definition List_jobs :: "ListFilters \<Rightarrow> (job_db, Job list) io" where
  "List_jobs f = andThen (list_jobs f 200) (\<lambda>page. ret (page_Items page))"

end
