(* ===== verification/Job_Status.thy ===== *)
theory Job_Status
  imports Job_Store
begin

text \<open>
  The rest of \<open>internal/jobs/status.go\<close>: removal of old events and locks, and the read models of
  the runtime, of a job, of the workers and of the workflows. A loop of the code takes the number of
  iterations it may make and returns \<open>None\<close> when it has not ended within them.
\<close>

section \<open>Retention\<close>

abbreviation retentionCleanupBatchSize :: nat where "retentionCleanupBatchSize \<equiv> 500"

definition old_event :: "instant \<Rightarrow> job_db \<Rightarrow> event_row \<Rightarrow> bool" where
  "old_event cutoff d e \<longleftrightarrow>
     ev_created_at e < cutoff \<and>
     (\<exists>r \<in> set (jobs d). c_id r = ev_job_id e \<and> terminal (c_status r))"

definition old_events :: "instant \<Rightarrow> nat \<Rightarrow> job_db \<Rightarrow> bytes list" where
  "old_events cutoff batch d =
     map ev_id (take batch (order_asc (\<lambda>e. (ev_created_at e, ev_id e))
       (filter (old_event cutoff d) (job_events d))))"

definition lock_end :: "lock_row \<Rightarrow> instant" where
  "lock_end k = (case k_released_at k of Some t \<Rightarrow> t | None \<Rightarrow> k_expires_at k)"

definition old_lock :: "instant \<Rightarrow> lock_row \<Rightarrow> bool" where
  "old_lock cutoff k \<longleftrightarrow> k_status k \<noteq> LockHeld \<and> lock_end k < cutoff"

definition old_locks :: "instant \<Rightarrow> nat \<Rightarrow> job_db \<Rightarrow> bytes list" where
  "old_locks cutoff batch d =
     map k_id (take batch (order_asc (\<lambda>k. (lock_end k, k_id k))
       (filter (old_lock cutoff) (job_locks d))))"

datatype retention_table = JobEventsTable | JobLocksTable

definition retention_select :: "retention_table \<Rightarrow> instant \<Rightarrow> nat \<Rightarrow> job_db \<Rightarrow> bytes list" where
  "retention_select table = (case table of JobEventsTable \<Rightarrow> old_events | JobLocksTable \<Rightarrow> old_locks)"

definition retention_delete :: "retention_table \<Rightarrow> bytes list \<Rightarrow> job_db \<Rightarrow> nat \<times> job_db" where
  "retention_delete table =
     (case table of JobEventsTable \<Rightarrow> delete_events | JobLocksTable \<Rightarrow> delete_locks)"

definition cleanupRetentionBatch :: "retention_table \<Rightarrow> nat \<Rightarrow> instant \<Rightarrow> (job_db, nat) io" where
  "cleanupRetentionBatch table batch cutoff =
     andThen (query (retention_select table cutoff batch)) (\<lambda>ids.
       if ids = [] then ret 0 else jexec (retention_delete table ids))"

fun cleanup_loop ::
    "nat \<Rightarrow> retention_table \<Rightarrow> nat \<Rightarrow> instant \<Rightarrow> nat \<Rightarrow> (job_db, nat option) io" where
  "cleanup_loop 0 table batch cutoff deleted = ret None"
| "cleanup_loop (Suc fuel) table batch cutoff deleted =
     andThen (cleanupRetentionBatch table batch cutoff) (\<lambda>n.
       if n < batch then ret (Some (deleted + n))
       else cleanup_loop fuel table batch cutoff (deleted + n))"

text \<open>The numbers of deleted events and locks.\<close>

definition CleanupRetention :: "nat \<Rightarrow> instant \<Rightarrow> (job_db, (nat \<times> nat) option) io" where
  "CleanupRetention fuel cutoff =
     andThen (cleanup_loop fuel JobEventsTable retentionCleanupBatchSize cutoff 0) (\<lambda>events.
       case events of
         None \<Rightarrow> ret None
       | Some deletedEvents \<Rightarrow>
           andThen (cleanup_loop fuel JobLocksTable retentionCleanupBatchSize cutoff 0) (\<lambda>locks.
             ret (map_option (\<lambda>deletedLocks. (deletedEvents, deletedLocks)) locks)))"

section \<open>Workers\<close>

datatype worker_state = WorkerActive | WorkerStale

record WorkerStatus =
  ws_WorkerID :: bytes
  ws_Status :: worker_state
  ws_RunningJobID :: bytes
  ws_RunningJobType :: bytes
  ws_RunningJobCount :: nat
  ws_LastHeartbeatAt :: "instant option"
  ws_LeaseExpiresAt :: "instant option"

definition worker_key :: "job_row \<Rightarrow> instant \<times> bytes" where
  "worker_key r = (c_updated_at r, c_id r)"

definition runs_for_worker :: "job_row \<Rightarrow> bool" where
  "runs_for_worker r \<longleftrightarrow>
     c_status r = StatusRunning \<and> c_leased_by r \<noteq> None \<and> c_leased_by r \<noteq> Some []"

text \<open>The \<open>NOT EXISTS\<close> clause: no newer running job of the same worker.\<close>

definition latest_of_worker :: "job_db \<Rightarrow> job_row \<Rightarrow> bool" where
  "latest_of_worker d r \<longleftrightarrow>
     runs_for_worker r \<and>
     \<not> (\<exists>newer \<in> set (jobs d). c_status newer = StatusRunning \<and> c_leased_by newer = c_leased_by r \<and>
          worker_key r < worker_key newer)"

definition running_count :: "job_db \<Rightarrow> bytes option \<Rightarrow> nat" where
  "running_count d owner =
     affected (\<lambda>r. c_status r = StatusRunning \<and> c_leased_by r = owner) (jobs d)"

definition worker_status :: "instant \<Rightarrow> job_db \<Rightarrow> job_row \<Rightarrow> WorkerStatus" where
  "worker_status t d r =
     \<lparr>ws_WorkerID = coalesce (c_leased_by r),
      ws_Status = (case c_lease_expires_at r of
                     None \<Rightarrow> WorkerStale
                   | Some l \<Rightarrow> if t < l then WorkerActive else WorkerStale),
      ws_RunningJobID = c_id r, ws_RunningJobType = c_job_type r,
      ws_RunningJobCount = running_count d (c_leased_by r),
      ws_LastHeartbeatAt = c_heartbeat_at r, ws_LeaseExpiresAt = c_lease_expires_at r\<rparr>"

definition WorkerStatusesPage :: "int \<Rightarrow> cursor \<Rightarrow> (job_db, WorkerStatus Page) io" where
  "WorkerStatusesPage limit cursor_text =
     andThen now (\<lambda>t.
     andThen (if cursor_text = NoCursor then ret None
              else (case decodeCursor cursor_text of Inl e \<Rightarrow> fail e | Inr a \<Rightarrow> ret (Some a)))
       (\<lambda>after.
          andThen (query (\<lambda>d.
              case page_of worker_key (latest_of_worker d) after
                     (nat (if limit \<le> 0 \<or> 200 < limit then 100 else limit)) (jobs d) of
                (rows, next) \<Rightarrow> (map (worker_status t d) rows, next)))
            (\<lambda>(items, next). ret \<lparr>page_Items = items, page_NextCursor = next\<rparr>)))"

fun worker_pages :: "nat \<Rightarrow> cursor \<Rightarrow> (job_db, WorkerStatus list option) io" where
  "worker_pages 0 c = ret None"
| "worker_pages (Suc fuel) c =
     andThen (WorkerStatusesPage 200 c) (\<lambda>page.
       case page_NextCursor page of
         None \<Rightarrow> ret (Some (page_Items page))
       | Some next \<Rightarrow>
           andThen (worker_pages fuel (encodeCursor next)) (\<lambda>rest.
             ret (map_option (\<lambda>ws. page_Items page @ ws) rest)))"

definition WorkerStatuses :: "nat \<Rightarrow> (job_db, WorkerStatus list option) io" where
  "WorkerStatuses fuel = worker_pages fuel NoCursor"

section \<open>Runtime, jobs, workflows\<close>

record RuntimeStatus =
  rs_AggregateStatus :: bytes
  rs_Jobs :: "status \<Rightarrow> nat"
  rs_Active :: nat
  rs_Stale :: nat
  rs_Modules :: "bytes \<Rightarrow> nat"

definition module_count :: "job_db \<Rightarrow> bytes \<Rightarrow> nat" where
  "module_count d state = affected (\<lambda>(name, s). s = state) (module_states d)"

definition runtime_aggregate :: "(status \<Rightarrow> nat) \<Rightarrow> nat \<Rightarrow> (bytes \<Rightarrow> nat) \<Rightarrow> bytes" where
  "runtime_aggregate job_counts stale modules =
     (if 0 < modules ''failed'' \<and> modules ''running'' = 0 then ''failed''
      else if 0 < job_counts StatusFailed \<or> 0 < stale \<or> 0 < modules ''failed'' then ''degraded''
      else ''running'')"

definition RuntimeStatus_of :: "nat \<Rightarrow> (job_db, RuntimeStatus option) io" where
  "RuntimeStatus_of fuel =
     andThen now (\<lambda>t.
     andThen (query (\<lambda>d. status_counts (jobs d))) (\<lambda>job_counts.
     andThen (WorkerStatuses fuel) (\<lambda>workers0.
       case workers0 of
         None \<Rightarrow> ret None
       | Some workers \<Rightarrow>
           andThen (query module_count) (\<lambda>modules.
             let stale = affected (\<lambda>wk. ws_Status wk = WorkerStale) workers
             in ret (Some
               \<lparr>rs_AggregateStatus = runtime_aggregate job_counts stale modules,
                rs_Jobs = job_counts,
                rs_Active = affected (\<lambda>wk. ws_Status wk = WorkerActive) workers,
                rs_Stale = stale, rs_Modules = modules\<rparr>)))))"

record JobStatus =
  js_JobID :: bytes
  js_JobType :: bytes
  js_Status :: status
  js_JobGroupID :: bytes
  js_AttemptCount :: int
  js_MaxAttempts :: int
  js_LeasedBy :: bytes
  js_HeartbeatAt :: "instant option"
  js_LeaseExpiresAt :: "instant option"
  js_LatestEvent :: json
  js_UpdatedAt :: instant

definition JobStatus_of :: "bytes \<Rightarrow> (job_db, JobStatus) io" where
  "JobStatus_of i =
     andThen (Get i) (\<lambda>job.
     andThen (LatestEvent i) (\<lambda>ev.
       ret \<lparr>js_JobID = j_ID job, js_JobType = j_JobType job, js_Status = j_Status job,
            js_JobGroupID = j_JobGroupID job, js_AttemptCount = j_AttemptCount job,
            js_MaxAttempts = j_MaxAttempts job, js_LeasedBy = j_LeasedBy job,
            js_HeartbeatAt = j_HeartbeatAt job, js_LeaseExpiresAt = j_LeaseExpiresAt job,
            js_LatestEvent = latestEventSummary ev, js_UpdatedAt = j_UpdatedAt job\<rparr>))"

definition workflow_key :: "workflow_row \<Rightarrow> instant \<times> bytes" where
  "workflow_key r = (f_updated_at r, f_id r)"

definition WorkflowStatusesPage ::
    "bytes \<Rightarrow> bytes \<Rightarrow> int \<Rightarrow> cursor \<Rightarrow> (job_db, WorkflowStatus Page) io" where
  "WorkflowStatusesPage workflowType agg limit cursor_text =
     andThen (if cursor_text = NoCursor then ret None
              else (case decodeCursor cursor_text of Inl e \<Rightarrow> fail e | Inr a \<Rightarrow> ret (Some a)))
       (\<lambda>after.
          andThen (query (\<lambda>d.
              page_of workflow_key
                (\<lambda>r. (workflowType \<noteq> [] \<longrightarrow> f_workflow_type r = workflowType) \<and>
                     (agg \<noteq> [] \<longrightarrow> aggregate_text (f_aggregate_status r) = agg))
                after (nat (if limit \<le> 0 \<or> 200 < limit then 100 else limit))
                (workflow_statuses d)))
            (\<lambda>(rows, next). ret \<lparr>page_Items = map scanWorkflow rows, page_NextCursor = next\<rparr>))"

definition WorkflowStatuses :: "bytes \<Rightarrow> bytes \<Rightarrow> int \<Rightarrow> (job_db, WorkflowStatus list) io" where
  "WorkflowStatuses workflowType agg limit =
     andThen (WorkflowStatusesPage workflowType agg limit NoCursor) (\<lambda>page. ret (page_Items page))"

definition workflowStatus :: "bytes \<Rightarrow> (job_db, WorkflowStatus) io" where
  "workflowStatus g =
     andThen (query (\<lambda>d. first_row (filter (\<lambda>r. f_job_group_id r = g) (workflow_statuses d))))
       (\<lambda>r. case r of None \<Rightarrow> fail ENotFound | Some row \<Rightarrow> ret (scanWorkflow row))"

definition WorkflowStatus_of :: "bytes \<Rightarrow> (job_db, WorkflowStatus) io" where
  "WorkflowStatus_of g =
     outcome (workflowStatus g) (\<lambda>r. case r of
         Inl ENotFound \<Rightarrow> andThen (RefreshWorkflowStatus g []) (\<lambda>_. workflowStatus g)
       | Inl e \<Rightarrow> fail e
       | Inr item \<Rightarrow> ret item)"

end
