(* ===== verification/Job_Runtime.thy ===== *)
theory Job_Runtime
  imports Job_Status
begin

text \<open>
  \<open>internal/jobs/runtime.go\<close>: one iteration of a worker slot (\<open>RunOnce\<close>), recovery of expired
  leases, and the retry delay. A handler is a function of the worker id and the job, with the
  effects of its own store calls; the float \<open>0.8 + rand.Float64() * 0.4\<close> that spreads the delay is
  drawn by the caller and passed as \<open>jitter\<close>. Goroutines, tickers and contexts are not here: a run of
  the system is a sequence of these operations, by any slot, in any order.
\<close>

section \<open>Retry delay\<close>

fun backoff_loop :: "nat \<Rightarrow> duration \<Rightarrow> duration" where
  "backoff_loop 0 delay = delay"
| "backoff_loop (Suc n) delay =
     (if 5 * minute \<le> 2 * delay then 5 * minute else backoff_loop n (2 * delay))"

definition backoff_delay :: "int \<Rightarrow> duration" where
  "backoff_delay attempt0 =
     (let attempt = (if attempt0 \<le> 0 then 1 else attempt0)
      in backoff_loop (nat (attempt - 1)) (5 * second))"

text \<open>
  The product of two \<open>float64\<close> values at least 1: rounded to 53 significant bits, ties to even.
\<close>

definition round_even :: "rat \<Rightarrow> int" where
  "round_even x =
     (let n = floor x; f = x - of_int n
      in if f < 1 / 2 then n else if 1 / 2 < f then n + 1 else if even n then n else n + 1)"

fun bit_length :: "nat \<Rightarrow> nat" where
  "bit_length n = (if n = 0 then 0 else Suc (bit_length (n div 2)))"

declare bit_length.simps [simp del]

definition float_round :: "rat \<Rightarrow> rat" where
  "float_round x =
     (let b = bit_length (nat (floor x))
      in if b \<le> 53 then of_int (round_even (x * 2 ^ (53 - b))) / 2 ^ (53 - b)
         else of_int (round_even (x / 2 ^ (b - 53))) * 2 ^ (b - 53))"

definition backoff :: "int \<Rightarrow> rat \<Rightarrow> duration" where
  "backoff attempt jitter =
     (let withJitter = floor (float_round (of_int (backoff_delay attempt) * jitter))
      in if 5 * minute < withJitter then 5 * minute else withJitter)"

section \<open>Errors of a handler\<close>

text \<open>
  The texts of this package's errors. Those of the others reach the runtime inside a \<open>HandlerError\<close>.
\<close>

definition err_text :: "err \<Rightarrow> bytes" where
  "err_text e =
     (case e of
        EDriver m \<Rightarrow> m
      | ENotFound \<Rightarrow> ''job not found''
      | EIdempotencyConflict t k \<Rightarrow> ''idempotency conflict for '' @ t @ ''/'' @ k
      | EInvalidCursor \<Rightarrow> ''invalid cursor''
      | EActiveRepositoryOp i \<Rightarrow>
          ''active repository operation exists'' @ (if i = [] then [] else '': '' @ i)
      | EMessage m \<Rightarrow> m
      | EPayload _ \<Rightarrow> ''invalid job payload''
      | EText m \<Rightarrow> message_text m
      | EValidation _ m \<Rightarrow> message_text m
      | EReservationConflict k _ \<Rightarrow> ''repository operation reservation conflict: '' @ k
      | EHandler h \<Rightarrow> he_Message h
      | ECanceled \<Rightarrow> ''context canceled'')"

definition classifyError :: "err \<Rightarrow> HandlerError" where
  "classifyError e =
     (case e of
        EHandler h \<Rightarrow> h\<lparr>he_Message := safeMessage (he_Message h)\<rparr>
      | ECanceled \<Rightarrow>
          \<lparr>he_Code = ''cancelled'', he_Message = safeMessage (err_text e), he_Retryable = False\<rparr>
      | _ \<Rightarrow>
          \<lparr>he_Code = ''handler_failed'', he_Message = safeMessage (err_text e), he_Retryable = True\<rparr>)"

section \<open>One iteration of a worker\<close>

type_synonym handler = "bytes \<Rightarrow> Job \<Rightarrow> (job_db, raw) io"

record Runtime =
  rt_handlers :: "bytes \<Rightarrow> handler option"
  rt_afterComplete :: "(Job \<Rightarrow> status \<Rightarrow> (job_db, unit) io) option"
  rt_workerID :: bytes
  rt_pollInterval :: duration
  rt_leaseDuration :: duration
  rt_heartbeatInterval :: duration
  rt_heartbeatTimeout :: duration
  rt_retentionInterval :: duration
  rt_retentionTTL :: duration
  rt_concurrency :: int

record RuntimeOptions =
  ro_Handlers :: "bytes \<Rightarrow> handler option"
  ro_AfterComplete :: "(Job \<Rightarrow> status \<Rightarrow> (job_db, unit) io) option"
  ro_WorkerID :: bytes
  ro_PollInterval :: duration
  ro_LeaseDuration :: duration
  ro_HeartbeatInterval :: duration
  ro_HeartbeatTimeout :: duration
  ro_RetentionInterval :: duration
  ro_RetentionTTL :: duration
  ro_Concurrency :: int

text \<open>The host name and the process id are the machine's: parameters.\<close>

definition NewWorkerID :: "bytes \<Rightarrow> nat \<Rightarrow> ('d, bytes) io" where
  "NewWorkerID host pid =
     andThen (newID ''worker'') (\<lambda>i.
       ret ((if host = [] then ''unknown'' else host) @ '':'' @ digits_of pid @ '':'' @ i))"

definition NewRuntime :: "bytes \<Rightarrow> nat \<Rightarrow> RuntimeOptions \<Rightarrow> (job_db, Runtime) io" where
  "NewRuntime host pid opts =
     andThen (if ro_WorkerID opts = [] then NewWorkerID host pid else ret (ro_WorkerID opts)) (\<lambda>worker.
       ret
         \<lparr>rt_handlers = ro_Handlers opts,
          rt_afterComplete = ro_AfterComplete opts,
          rt_workerID = worker,
          rt_pollInterval =
            (if ro_PollInterval opts \<le> 0 then second else ro_PollInterval opts),
          rt_leaseDuration =
            (if ro_LeaseDuration opts \<le> 0 then 30 * second else ro_LeaseDuration opts),
          rt_heartbeatInterval =
            (if ro_HeartbeatInterval opts \<le> 0 then 10 * second else ro_HeartbeatInterval opts),
          rt_heartbeatTimeout =
            (if ro_HeartbeatTimeout opts \<le> 0 then 5 * second else ro_HeartbeatTimeout opts),
          rt_retentionInterval =
            (if ro_RetentionInterval opts \<le> 0 then 60 * minute else ro_RetentionInterval opts),
          rt_retentionTTL =
            (if ro_RetentionTTL opts \<le> 0 then 30 * (24 * (60 * minute)) else ro_RetentionTTL opts),
          rt_concurrency = (if ro_Concurrency opts \<le> 0 then 1 else ro_Concurrency opts)\<rparr>)"

definition failure_of :: "Runtime \<Rightarrow> Job \<Rightarrow> bytes \<Rightarrow> bytes \<Rightarrow> raw" where
  "failure_of rt job code message =
     failure_json
       \<lparr>fr_JobType = j_JobType job, fr_WorkerID = rt_workerID rt, fr_Attempt = j_AttemptCount job,
        fr_ErrorCode = code, fr_Message = message, fr_Retryable = False\<rparr>"

definition runAfterComplete :: "Runtime \<Rightarrow> Job \<Rightarrow> status \<Rightarrow> (job_db, unit) io" where
  "runAfterComplete rt job s =
     (case rt_afterComplete rt of None \<Rightarrow> ret () | Some hook \<Rightarrow> hook job s)"

definition runtimeRequeue :: "Runtime \<Rightarrow> rat \<Rightarrow> Job \<Rightarrow> bytes \<Rightarrow> err option \<Rightarrow> (job_db, unit) io" where
  "runtimeRequeue rt jitter job code e =
     (let message = (case e of None \<Rightarrow> code | Some x \<Rightarrow> code @ '': '' @ safeMessage (err_text x))
      in if j_MaxAttempts job \<le> j_AttemptCount job
         then Complete job (rt_workerID rt) StatusFailed (failure_of rt job code message) message
         else andThen now (\<lambda>t.
              Requeue job (rt_workerID rt) code (t + backoff (j_AttemptCount job) jitter)))"

text \<open>What follows the handler: \<open>cancelled\<close> tells whether the worker's own context has ended.\<close>

definition finish_job ::
    "Runtime \<Rightarrow> rat \<Rightarrow> bool \<Rightarrow> Job \<Rightarrow> err + raw \<Rightarrow> (job_db, unit) io" where
  "finish_job rt jitter cancelled job handled =
     (case handled of
        Inr result \<Rightarrow>
          andThen (Complete job (rt_workerID rt) StatusSucceeded result [])
            (\<lambda>_. runAfterComplete rt job StatusSucceeded)
      | Inl e \<Rightarrow>
          (let classified = classifyError e;
               failure = failure_of rt job (he_Code classified) (safeMessage (he_Message classified))
           in if he_Code classified = ''cancelled'' \<and> cancelled then ret ()
              else if he_Retryable classified \<and> j_AttemptCount job < j_MaxAttempts job
              then andThen now (\<lambda>t.
                   Requeue job (rt_workerID rt) (he_Code classified)
                     (t + backoff (j_AttemptCount job) jitter))
              else if he_Code classified = ''cancelled''
              then andThen (Complete job (rt_workerID rt) StatusCancelled failure (he_Message classified))
                     (\<lambda>_. runAfterComplete rt job StatusCancelled)
              else andThen (Complete job (rt_workerID rt) StatusFailed failure (he_Message classified))
                     (\<lambda>_. runAfterComplete rt job StatusFailed)))"

text \<open>The iteration after a claim.\<close>

definition run_claimed :: "Runtime \<Rightarrow> rat \<Rightarrow> bool \<Rightarrow> Job \<Rightarrow> (job_db, unit) io" where
  "run_claimed rt jitter cancelled job =
     (case rt_handlers rt (j_JobType job) of
        None \<Rightarrow>
          Complete job (rt_workerID rt) StatusFailed
            (failure_of rt job ''unknown_job_type'' ''unknown job type'') ''unknown job type''
      | Some h \<Rightarrow>
          outcome (AcquireLock job (rt_workerID rt) (rt_leaseDuration rt)) (\<lambda>locked. case locked of
              Inl e \<Rightarrow> runtimeRequeue rt jitter job ''transient_error'' (Some e)
            | Inr False \<Rightarrow> runtimeRequeue rt jitter job ''lock_contention'' None
            | Inr True \<Rightarrow>
                outcome (Start job (rt_workerID rt)) (\<lambda>started. case started of
                    Inl e \<Rightarrow> runtimeRequeue rt jitter job ''transient_error'' (Some e)
                  | Inr _ \<Rightarrow>
                      outcome (AddEvent (mk_event (j_ID job) (j_JobGroupID job) EventProgress
                                 StatusRunning (rt_workerID rt) (eventPayload ''handler started'')))
                        (\<lambda>logged. case logged of
                            Inl e \<Rightarrow> runtimeRequeue rt jitter job ''transient_error'' (Some e)
                          | Inr _ \<Rightarrow>
                              outcome (h (rt_workerID rt) job)
                                (\<lambda>handled. finish_job rt jitter cancelled job handled)))))"

text \<open>The boolean says whether a job was claimed; an error stands beside it in the code's result.\<close>

definition RunOnce :: "Runtime \<Rightarrow> rat \<Rightarrow> bool \<Rightarrow> (job_db, bool \<times> err option) io" where
  "RunOnce rt jitter cancelled =
     outcome (ClaimNext \<lparr>opt_WorkerID = rt_workerID rt, opt_Now = None,
                         opt_LeaseDuration = rt_leaseDuration rt\<rparr>)
       (\<lambda>claimed. case claimed of
           Inl e \<Rightarrow> ret (False, Some e)
         | Inr None \<Rightarrow> ret (False, None)
         | Inr (Some job) \<Rightarrow>
             outcome (run_claimed rt jitter cancelled job)
               (\<lambda>r. ret (True, case r of Inl e \<Rightarrow> Some e | Inr _ \<Rightarrow> None)))"

section \<open>Expired leases\<close>

definition lease_event :: "Job \<Rightarrow> event_type \<Rightarrow> status \<Rightarrow> bytes \<Rightarrow> (job_db, unit) io" where
  "lease_event job t s worker = addEvent (mk_event (j_ID job) (j_JobGroupID job) t s worker Blank)"

definition recoverToQueued :: "Runtime \<Rightarrow> Job \<Rightarrow> instant \<Rightarrow> (job_db, unit) io" where
  "recoverToQueued rt job runAfter =
     andThen (TxMaybe
       (case j_LeaseExpiresAt job of
          None \<Rightarrow> ret None
        | Some lease \<Rightarrow>
            andThen now (\<lambda>t.
            andThen (jexec (recover_update (j_ID job) (j_LeasedBy job) lease runAfter t)) (\<lambda>n.
              if n = 0 then ret None
              else
                andThen (expireJobLocks (j_ID job)) (\<lambda>_.
                andThen (lease_event job EventLeaseExpired StatusRunning (j_LeasedBy job)) (\<lambda>_.
                andThen (lease_event job EventRetryScheduled StatusQueued (rt_workerID rt)) (\<lambda>_.
                  ret (Some ()))))))))
       (\<lambda>r. case r of None \<Rightarrow> ret () | Some _ \<Rightarrow> refresh_for job)"

definition forceFail :: "Runtime \<Rightarrow> Job \<Rightarrow> raw \<Rightarrow> bytes \<Rightarrow> (job_db, unit) io" where
  "forceFail rt job result message =
     andThen (TxMaybe
       (case j_LeaseExpiresAt job of
          None \<Rightarrow> ret None
        | Some lease \<Rightarrow>
            andThen now (\<lambda>t.
            andThen (jexec (force_fail_update (j_ID job) (j_LeasedBy job) lease result
                              (safeMessage message) t)) (\<lambda>n.
              if n = 0 then ret None
              else
                andThen (expireJobLocks (j_ID job)) (\<lambda>_.
                andThen (lease_event job EventLeaseExpired StatusRunning (j_LeasedBy job)) (\<lambda>_.
                andThen (lease_event job EventFailed StatusFailed (rt_workerID rt)) (\<lambda>_.
                  ret (Some ()))))))))
       (\<lambda>r. case r of None \<Rightarrow> ret () | Some _ \<Rightarrow> refresh_for job)"

definition exhausted_message :: bytes where
  "exhausted_message = ''job lease expired and attempts exhausted''"

definition recover_job :: "Runtime \<Rightarrow> rat \<Rightarrow> instant \<Rightarrow> Job \<Rightarrow> (job_db, unit) io" where
  "recover_job rt jitter t job =
     (if j_AttemptCount job < j_MaxAttempts job
      then recoverToQueued rt job (t + backoff (j_AttemptCount job) jitter)
      else forceFail rt job (failure_of rt job ''transient_error'' exhausted_message) exhausted_message)"

definition RecoverExpiredLeases :: "Runtime \<Rightarrow> rat \<Rightarrow> (job_db, unit) io" where
  "RecoverExpiredLeases rt jitter =
     andThen now (\<lambda>t.
     andThen (query (\<lambda>d. map scanJob (expired_leases t d))) (\<lambda>expiredJobs.
       for_each expiredJobs (recover_job rt jitter t)))"

section \<open>One turn of the maintenance and the heartbeat loop\<close>

definition maintenance_pass ::
    "Runtime \<Rightarrow> rat \<Rightarrow> nat \<Rightarrow> (job_db, unit) io" where
  "maintenance_pass rt jitter fuel =
     andThen (ignoring (RecoverExpiredLeases rt jitter)) (\<lambda>_.
     andThen now (\<lambda>t.
       ignoring (CleanupRetention fuel (t - rt_retentionTTL rt))))"

text \<open>One tick of the heartbeat goroutine that runs beside the handler; an error is only logged.\<close>

definition heartbeat_tick :: "Runtime \<Rightarrow> bytes \<Rightarrow> (job_db, unit) io" where
  "heartbeat_tick rt i = ignoring (Heartbeat i (rt_workerID rt) (rt_leaseDuration rt))"

section \<open>Progress events of a handler\<close>

definition emit :: "bytes \<Rightarrow> Job \<Rightarrow> event_type \<Rightarrow> bytes \<Rightarrow> (bytes \<times> json) list \<Rightarrow> (job_db, unit) io" where
  "emit worker job t message details =
     andThen (AddEvent (mk_event (j_ID job) (j_JobGroupID job) t (j_Status job) worker
                (eventPayloadDetails message details)))
       (\<lambda>_. RefreshWorkflowStatus (j_JobGroupID job) (workflowIDForJob job))"

definition EmitProgress :: "bytes \<Rightarrow> Job \<Rightarrow> bytes \<Rightarrow> (bytes \<times> json) list \<Rightarrow> (job_db, unit) io" where
  "EmitProgress worker job = emit worker job EventProgress"

definition EmitChildCreated :: "bytes \<Rightarrow> Job \<Rightarrow> bytes \<Rightarrow> (bytes \<times> json) list \<Rightarrow> (job_db, unit) io" where
  "EmitChildCreated worker job = emit worker job EventChildCreated"

end
