(* ===== verification/Job_Contract.thy ===== *)
theory Job_Contract
  imports Job_Runtime
begin

text \<open>
  What every operation of the job subsystem preserves, derived from what its statements preserve.
  The locale \<open>job_contract\<close> is the interface between the two: a preorder on databases that each
  write statement respects, with the arguments the operations give it. Its lemmas are that each
  operation respects the preorder, under any clock, any identifiers and any faults.
  \<open>Job_Lifecycle\<close> interprets it on the evolution of job rows and on the step machine,
  \<open>Job_Recovery\<close> on the consistency of the database.
\<close>

locale job_contract = state_order R for R :: "job_db \<Rightarrow> job_db \<Rightarrow> bool" +
  assumes insert_job_R: "consistent (snd (insert_job (request_row t req) d)) \<Longrightarrow>
      R d (snd (insert_job (request_row t req) d))"
    and claim_sqlite_R: "consistent (snd (claim_sqlite worker lease t i d)) \<Longrightarrow>
      R d (snd (claim_sqlite worker lease t i d))"
    and claim_postgres_R: "consistent (snd (claim_postgres worker lease t d)) \<Longrightarrow>
      R d (snd (claim_postgres worker lease t d))"
    and start_R: "consistent (snd (start_update i worker t d)) \<Longrightarrow>
      R d (snd (start_update i worker t d))"
    and heartbeat_R: "consistent (snd (heartbeat_update i worker t lease d)) \<Longrightarrow>
      R d (snd (heartbeat_update i worker t lease d))"
    and complete_R: "terminal s \<Longrightarrow> consistent (snd (complete_update i worker s p m t d)) \<Longrightarrow>
      R d (snd (complete_update i worker s p m t d))"
    and requeue_R: "consistent (snd (requeue_update i worker runAfter m t d)) \<Longrightarrow>
      R d (snd (requeue_update i worker runAfter m t d))"
    and recover_R: "consistent (snd (recover_update i owner lease runAfter t d)) \<Longrightarrow>
      R d (snd (recover_update i owner lease runAfter t d))"
    and force_fail_R: "consistent (snd (force_fail_update i owner lease p msg t d)) \<Longrightarrow>
      R d (snd (force_fail_update i owner lease p msg t d))"
    and insert_lock_R: "k_status k = LockHeld \<Longrightarrow> consistent (snd (insert_lock k d)) \<Longrightarrow>
      R d (snd (insert_lock k d))"
    and extend_locks_R: "consistent (snd (extend_locks i worker t d)) \<Longrightarrow>
      R d (snd (extend_locks i worker t d))"
    and expire_locks_R: "consistent (snd (expire_locks t d)) \<Longrightarrow> R d (snd (expire_locks t d))"
    and expire_job_locks_R: "consistent (snd (expire_job_locks i d)) \<Longrightarrow>
      R d (snd (expire_job_locks i d))"
    and release_locks_R: "consistent (snd (release_locks i worker t d)) \<Longrightarrow>
      R d (snd (release_locks i worker t d))"
    and delete_locks_R: "consistent (snd (delete_locks ids d)) \<Longrightarrow> R d (snd (delete_locks ids d))"
    and insert_event_R: "consistent (snd (insert_event e d)) \<Longrightarrow> R d (snd (insert_event e d))"
    and delete_events_R: "consistent (snd (delete_events ids d)) \<Longrightarrow> R d (snd (delete_events ids d))"
    and upsert_workflow_R: "consistent (snd (upsert_workflow f d)) \<Longrightarrow>
      R d (snd (upsert_workflow f d))"
begin

lemmas statement_R [keeps_intros] =
  keeps_exec [of db_violation, OF insert_job_R] keeps_exec [of db_violation, OF claim_sqlite_R]
  keeps_exec [of db_violation, OF claim_postgres_R] keeps_exec [of db_violation, OF start_R]
  keeps_exec [of db_violation, OF heartbeat_R] keeps_exec [of db_violation, OF complete_R]
  keeps_exec [of db_violation, OF requeue_R] keeps_exec [of db_violation, OF recover_R]
  keeps_exec [of db_violation, OF force_fail_R] keeps_exec [of db_violation, OF extend_locks_R]
  keeps_exec [of db_violation, OF expire_locks_R] keeps_exec [of db_violation, OF expire_job_locks_R]
  keeps_exec [of db_violation, OF release_locks_R] keeps_exec [of db_violation, OF delete_locks_R]
  keeps_exec [of db_violation, OF insert_event_R] keeps_exec [of db_violation, OF delete_events_R]
  keeps_exec [of db_violation, OF upsert_workflow_R]

lemma insert_lock_keeps [keeps_intros]: "k_status k = LockHeld \<Longrightarrow> keeps R (jexec (insert_lock k))"
  by (rule keeps_exec) (rule insert_lock_R)

lemmas branch_splits = option.split sum.split prod.split if_split bool.split list.split err.split

lemma addEvent_keeps [keeps_intros]: "keeps R (addEvent e)"
  unfolding addEvent_def by (auto intro!: keeps_intros split: branch_splits)

lemma AddEvent_keeps [keeps_intros]: "keeps R (AddEvent e)"
  unfolding AddEvent_def by (rule addEvent_keeps)

lemma RefreshWorkflowStatus_keeps [keeps_intros]: "keeps R (RefreshWorkflowStatus g i)"
  unfolding RefreshWorkflowStatus_def Let_def
  by (auto intro!: keeps_intros split: branch_splits)

lemma refresh_for_keeps [keeps_intros]: "keeps R (refresh_for job)"
  unfolding refresh_for_def by (intro keeps_intros)

lemma reconcile_loop_keeps [keeps_intros]: "keeps R (reconcile_loop fuel batch after)"
  by (induction fuel arbitrary: after) (auto intro!: keeps_intros split: branch_splits)

lemma ReconcileWorkflowStatuses_keeps [keeps_intros]: "keeps R (ReconcileWorkflowStatuses fuel)"
  unfolding ReconcileWorkflowStatuses_def by (rule reconcile_loop_keeps)

lemma findByIdempotency_keeps [keeps_intros]: "keeps R (findByIdempotency a t k)"
  unfolding findByIdempotency_def by (auto intro!: keeps_intros split: branch_splits)

lemma idempotentReplay_keeps [keeps_intros]: "keeps R (idempotentReplay req)"
  unfolding idempotentReplay_def by (auto intro!: keeps_intros split: branch_splits)

lemma prepareEnqueue_keeps [keeps_intros]: "keeps R (prepareEnqueue req t check)"
  unfolding prepareEnqueue_def Let_def by (auto intro!: keeps_intros split: branch_splits)

lemma enqueuePrepared_keeps [keeps_intros]: "keeps R (enqueuePrepared req t)"
  unfolding enqueuePrepared_def by (auto intro!: keeps_intros)

lemma Enqueue_keeps [keeps_intros]: "keeps R (Enqueue req)"
  unfolding Enqueue_def by (auto intro!: keeps_intros split: branch_splits)

lemma EnqueueInTx_keeps [keeps_intros]: "keeps R (EnqueueInTx req)"
  unfolding EnqueueInTx_def by (auto intro!: keeps_intros split: branch_splits)

lemma find_active_keeps [keeps_intros]:
  "keeps R (findActiveByLock t l)" "keeps R (findActiveRepositoryOperation l)"
  unfolding findActiveByLock_def findActiveRepositoryOperation_def
  by (auto intro!: keeps_intros split: branch_splits)

lemma EnqueueRepositoryOperation_keeps [keeps_intros]: "keeps R (EnqueueRepositoryOperation req)"
  unfolding EnqueueRepositoryOperation_def by (auto intro!: keeps_intros split: branch_splits)

lemma EnqueueIfNoActive_keeps [keeps_intros]: "keeps R (EnqueueIfNoActive req)"
  unfolding EnqueueIfNoActive_def by (auto intro!: keeps_intros split: branch_splits)

lemma Get_keeps [keeps_intros]: "keeps R (Get i)"
  unfolding Get_def by (auto intro!: keeps_intros split: branch_splits)

lemma claim_tx_keeps [keeps_intros]:
  "keeps R (claim_tx_postgres worker lease t)" "keeps R (claim_tx_sqlite worker lease t)"
  unfolding claim_tx_postgres_def claim_tx_sqlite_def
  by (auto intro!: keeps_intros split: branch_splits)

lemma ClaimNext_keeps [keeps_intros]: "keeps R (ClaimNext opts)"
  unfolding ClaimNext_def Let_def by (auto intro!: keeps_intros split: branch_splits)

lemma Start_keeps [keeps_intros]: "keeps R (Start job worker)"
  unfolding Start_def by (auto intro!: keeps_intros split: branch_splits)

lemma ExtendLocks_keeps [keeps_intros]: "keeps R (ExtendLocks i worker t)"
  unfolding ExtendLocks_def by (intro keeps_intros)

lemma Heartbeat_keeps [keeps_intros]: "keeps R (Heartbeat i worker l)"
  unfolding Heartbeat_def by (auto intro!: keeps_intros)

lemma ExpireLocks_keeps [keeps_intros]: "keeps R (ExpireLocks t)"
  unfolding ExpireLocks_def by (intro keeps_intros)

lemma expireJobLocks_keeps [keeps_intros]: "keeps R (expireJobLocks i)"
  unfolding expireJobLocks_def by (intro keeps_intros)

lemma releaseLocks_keeps [keeps_intros]: "keeps R (releaseLocks i worker t)"
  unfolding releaseLocks_def by (intro keeps_intros)

lemma ReleaseLocks_keeps [keeps_intros]: "keeps R (ReleaseLocks i worker)"
  unfolding ReleaseLocks_def by (intro keeps_intros)

lemma AcquireLock_keeps [keeps_intros]: "keeps R (AcquireLock job worker l)"
  unfolding AcquireLock_def by (auto intro!: keeps_intros split: branch_splits)

lemma Complete_keeps [keeps_intros]: "terminal s \<Longrightarrow> keeps R (Complete job worker s p m)"
  unfolding Complete_def Let_def by (auto intro!: keeps_intros split: branch_splits)

lemma Requeue_keeps [keeps_intros]: "keeps R (Requeue job worker reason runAfter)"
  unfolding Requeue_def Let_def by (auto intro!: keeps_intros split: branch_splits)

lemma cleanupRetentionBatch_keeps [keeps_intros]: "keeps R (cleanupRetentionBatch table batch c)"
  unfolding cleanupRetentionBatch_def retention_delete_def
  by (cases table) (auto intro!: keeps_intros)

lemma cleanup_loop_keeps [keeps_intros]: "keeps R (cleanup_loop fuel table batch c n)"
  by (induction fuel arbitrary: n) (auto intro!: keeps_intros)

lemma CleanupRetention_keeps [keeps_intros]: "keeps R (CleanupRetention fuel c)"
  unfolding CleanupRetention_def by (auto intro!: keeps_intros split: branch_splits)

lemma workflowStatus_keeps [keeps_intros]: "keeps R (workflowStatus g)"
  unfolding workflowStatus_def by (auto intro!: keeps_intros split: branch_splits)

lemma WorkflowStatus_of_keeps [keeps_intros]: "keeps R (WorkflowStatus_of g)"
  unfolding WorkflowStatus_of_def by (auto intro!: keeps_intros split: branch_splits)

lemma emit_keeps [keeps_intros]: "keeps R (emit worker job t m details)"
  unfolding emit_def by (intro keeps_intros)

lemma lease_event_keeps [keeps_intros]: "keeps R (lease_event job t s worker)"
  unfolding lease_event_def by (intro keeps_intros)

lemma recoverToQueued_keeps [keeps_intros]: "keeps R (recoverToQueued rt job t)"
  unfolding recoverToQueued_def by (auto intro!: keeps_intros split: branch_splits)

lemma forceFail_keeps [keeps_intros]: "keeps R (forceFail rt job p m)"
  unfolding forceFail_def by (auto intro!: keeps_intros split: branch_splits)

lemma recover_job_keeps [keeps_intros]: "keeps R (recover_job rt jitter t job)"
  unfolding recover_job_def by (auto intro!: keeps_intros)

lemma RecoverExpiredLeases_keeps [keeps_intros]: "keeps R (RecoverExpiredLeases rt jitter)"
  unfolding RecoverExpiredLeases_def by (intro keeps_intros)

lemma heartbeat_tick_keeps [keeps_intros]: "keeps R (heartbeat_tick rt i)"
  unfolding heartbeat_tick_def by (intro keeps_intros)

lemma maintenance_pass_keeps [keeps_intros]: "keeps R (maintenance_pass rt jitter fuel)"
  unfolding maintenance_pass_def by (intro keeps_intros)

lemma runtimeRequeue_keeps [keeps_intros]: "keeps R (runtimeRequeue rt jitter job code e)"
  unfolding runtimeRequeue_def Let_def by (auto intro!: keeps_intros)

text \<open>A run of a job respects the preorder when its handler and the completion hook do.\<close>

lemma runAfterComplete_keeps:
  assumes "\<And>hook job s. rt_afterComplete rt = Some hook \<Longrightarrow> keeps R (hook job s)"
  shows "keeps R (runAfterComplete rt job s)"
  unfolding runAfterComplete_def using assms by (auto intro: keeps_ret split: option.split)

lemma finish_job_keeps:
  assumes "\<And>hook job s. rt_afterComplete rt = Some hook \<Longrightarrow> keeps R (hook job s)"
  shows "keeps R (finish_job rt jitter cancelled job handled)"
proof -
  have hook: "keeps R (runAfterComplete rt job s)" for s
    by (rule runAfterComplete_keeps) (rule assms)
  show ?thesis
    unfolding finish_job_def Let_def by (auto intro!: keeps_intros hook split: branch_splits)
qed

lemma run_claimed_keeps:
  assumes "\<And>t h worker job. rt_handlers rt t = Some h \<Longrightarrow> keeps R (h worker job)"
    and "\<And>hook job s. rt_afterComplete rt = Some hook \<Longrightarrow> keeps R (hook job s)"
  shows "keeps R (run_claimed rt jitter cancelled job)"
proof (cases "rt_handlers rt (j_JobType job)")
  case None
  then show ?thesis unfolding run_claimed_def by (auto intro!: keeps_intros)
next
  case (Some h)
  have handler: "keeps R (h worker job)" for worker job by (rule assms(1) [OF Some])
  have finish: "keeps R (finish_job rt jitter cancelled job r)" for r
    by (rule finish_job_keeps) (rule assms(2))
  show ?thesis
    unfolding run_claimed_def Some
    by (auto intro!: keeps_intros handler finish split: branch_splits)
qed

lemma RunOnce_keeps:
  assumes "\<And>t h worker job. rt_handlers rt t = Some h \<Longrightarrow> keeps R (h worker job)"
    and "\<And>hook job s. rt_afterComplete rt = Some hook \<Longrightarrow> keeps R (hook job s)"
  shows "keeps R (RunOnce rt jitter cancelled)"
proof -
  have run: "keeps R (run_claimed rt jitter cancelled job)" for job
    by (rule run_claimed_keeps) (rule assms(1), assumption, rule assms(2))
  show ?thesis
    unfolding RunOnce_def by (auto intro!: keeps_intros run split: branch_splits)
qed

end

end
