(* ===== verification/Job_Lifecycle.thy ===== *)
theory Job_Lifecycle
  imports Job_Contract
begin

text \<open>
  The life of a job as a state machine on its row (\<open>job_step\<close>), and the proof that the database
  operations refine it: whatever statements run, in whatever interleaving and with whatever faults,
  every row moves by steps of the machine, no row is deleted, and a new row is a queued job of some
  request (\<open>evolves\<close>). What holds along the machine then holds in the system.
\<close>

section \<open>The state machine of a job row\<close>

inductive job_step :: "job_row \<Rightarrow> job_row \<Rightarrow> bool" where
  claim: "c_status r = StatusQueued \<Longrightarrow> c_attempt_count r < c_max_attempts r \<Longrightarrow>
    job_step r (set_claimed worker lease t r)"
| start: "c_status r = StatusRunning \<Longrightarrow>
    job_step r (r\<lparr>c_started_at := (case c_started_at r of None \<Rightarrow> Some t | Some s \<Rightarrow> Some s),
                  c_updated_at := t\<rparr>)"
| heartbeat: "c_status r = StatusRunning \<Longrightarrow>
    job_step r (r\<lparr>c_heartbeat_at := Some t, c_lease_expires_at := Some lease, c_updated_at := t\<rparr>)"
| finish: "c_status r = StatusRunning \<Longrightarrow> terminal s \<Longrightarrow>
    job_step r (r\<lparr>c_status := s, c_result_payload := Some p, c_error_message := m,
                  c_finished_at := Some t, c_updated_at := t\<rparr>)"
| requeue: "c_status r = StatusRunning \<Longrightarrow>
    job_step r ((set_queued runAfter t r)\<lparr>c_error_message := m\<rparr>)"

inductive_cases job_stepE: "job_step r r'"

text \<open>The transitions between statuses; a claim is the only one that counts an attempt.\<close>

lemma job_step_status:
  "job_step r r' \<Longrightarrow>
     (c_status r = StatusQueued \<and> c_status r' = StatusRunning \<and>
        c_attempt_count r' = c_attempt_count r + 1 \<and> c_attempt_count r < c_max_attempts r) \<or>
     (c_status r = StatusRunning \<and> c_attempt_count r' = c_attempt_count r)"
  by (elim job_stepE) (simp_all add: set_claimed_def set_queued_def)

abbreviation job_steps :: "job_row \<Rightarrow> job_row \<Rightarrow> bool" where
  "job_steps \<equiv> job_step\<^sup>*\<^sup>*"

definition born :: "job_row \<Rightarrow> bool" where
  "born r \<longleftrightarrow> (\<exists>t req. job_steps (request_row t req) r)"

text \<open>What identifies a job and what its request fixed.\<close>

definition job_core where
  "job_core r =
     (c_id r, c_job_type r, c_actor r, c_idempotency_key r, c_parent_job_id r, c_job_group_id r,
      c_lock_key r, c_max_attempts r, c_priority r, c_payload r, c_created_at r)"

lemma job_step_core: "job_step r r' \<Longrightarrow> job_core r' = job_core r"
  by (induction rule: job_step.induct) (simp_all add: job_core_def set_claimed_def set_queued_def)

lemma job_step_attempts: "job_step r r' \<Longrightarrow> c_attempt_count r \<le> c_attempt_count r'"
  by (induction rule: job_step.induct) (simp_all add: set_claimed_def set_queued_def)

lemma job_step_not_terminal: "job_step r r' \<Longrightarrow> \<not> terminal (c_status r)"
  by (induction rule: job_step.induct) simp_all

lemma job_steps_core: "job_steps r r' \<Longrightarrow> job_core r' = job_core r"
  by (induction rule: rtranclp_induct) (auto dest: job_step_core)

lemma job_steps_attempts: "job_steps r r' \<Longrightarrow> c_attempt_count r \<le> c_attempt_count r'"
  by (induction rule: rtranclp_induct) (auto dest: job_step_attempts)

lemma job_steps_terminal: "job_steps r r' \<Longrightarrow> terminal (c_status r) \<Longrightarrow> r' = r"
  by (erule converse_rtranclpE) (auto dest: job_step_not_terminal)

lemma job_steps_id: "job_steps r r' \<Longrightarrow> c_id r' = c_id r"
  using job_steps_core by (fastforce simp: job_core_def)

text \<open>The first start of a job is never overwritten.\<close>

lemma job_step_started: "job_step r r' \<Longrightarrow> c_started_at r = Some s \<Longrightarrow> c_started_at r' = Some s"
  by (induction rule: job_step.induct) (simp_all add: set_claimed_def set_queued_def)

lemma job_steps_started: "job_steps r r' \<Longrightarrow> c_started_at r = Some s \<Longrightarrow> c_started_at r' = Some s"
  by (induction rule: rtranclp_induct) (auto dest: job_step_started)

text \<open>How the status of a row and its other columns hang together.\<close>

definition row_ok :: "job_row \<Rightarrow> bool" where
  "row_ok r \<longleftrightarrow>
     (case c_status r of
        StatusQueued \<Rightarrow>
          c_leased_by r = None \<and> c_lease_expires_at r = None \<and> c_heartbeat_at r = None \<and>
          c_finished_at r = None \<and> c_result_payload r = None
      | StatusRunning \<Rightarrow>
          c_leased_by r \<noteq> None \<and> c_lease_expires_at r \<noteq> None \<and> c_heartbeat_at r \<noteq> None \<and>
          c_finished_at r = None \<and> c_result_payload r = None \<and> 1 \<le> c_attempt_count r
      | _ \<Rightarrow>
          c_leased_by r \<noteq> None \<and> c_finished_at r \<noteq> None \<and> c_result_payload r \<noteq> None \<and>
          1 \<le> c_attempt_count r) \<and>
     0 \<le> c_attempt_count r"

lemma row_ok_request: "row_ok (request_row t req)"
  by (simp add: row_ok_def request_row_def)

lemma row_ok_step: "job_step r r' \<Longrightarrow> row_ok r \<Longrightarrow> row_ok r'"
proof (induction rule: job_step.induct)
  case (finish r s p m t)
  then show ?case by (cases s) (auto simp: row_ok_def)
qed (auto simp: row_ok_def set_claimed_def set_queued_def)

lemma born_row_ok: "born r \<Longrightarrow> row_ok r"
proof -
  assume "born r"
  then obtain t req where "job_steps (request_row t req) r" by (auto simp: born_def)
  then show "row_ok r"
    by (induction rule: rtranclp_induct) (auto intro: row_ok_request row_ok_step)
qed

lemma born_step: "born r \<Longrightarrow> job_steps r r' \<Longrightarrow> born r'"
  unfolding born_def by (meson rtranclp_trans)

section \<open>Databases move by steps of their rows\<close>

definition evolves :: "job_db \<Rightarrow> job_db \<Rightarrow> bool" where
  "evolves d d' \<longleftrightarrow>
     length (jobs d) \<le> length (jobs d') \<and>
     (\<forall>i < length (jobs d). job_steps (jobs d ! i) (jobs d' ! i)) \<and>
     (\<forall>i < length (jobs d'). length (jobs d) \<le> i \<longrightarrow> born (jobs d' ! i))"

lemma evolves_refl: "evolves d d"
  by (simp add: evolves_def)

lemma evolves_trans:
  assumes "evolves d1 d2" and "evolves d2 d3"
  shows "evolves d1 d3"
  unfolding evolves_def
proof (intro conjI allI impI)
  show "length (jobs d1) \<le> length (jobs d3)"
    using assms by (simp add: evolves_def)
next
  fix i assume "i < length (jobs d1)"
  then show "job_steps (jobs d1 ! i) (jobs d3 ! i)"
    using assms unfolding evolves_def by (meson less_le_trans rtranclp_trans)
next
  fix i assume i: "i < length (jobs d3)" "length (jobs d1) \<le> i"
  show "born (jobs d3 ! i)"
  proof (cases "i < length (jobs d2)")
    case True
    then show ?thesis using assms i unfolding evolves_def by (meson born_step)
  next
    case False
    then show ?thesis using assms i by (simp add: evolves_def)
  qed
qed

lemma evolves_same_jobs: "jobs d' = jobs d \<Longrightarrow> evolves d d'"
  by (simp add: evolves_def)

lemma evolves_update:
  assumes "\<And>r. r \<in> set (jobs d) \<Longrightarrow> P r \<Longrightarrow> job_step r (f r)"
  shows "evolves d (snd (update_jobs P f d))"
  using assms by (auto simp: evolves_def update_where_def)

lemma evolves_insert: "evolves d (snd (insert_job (request_row t req) d))"
  by (auto simp: evolves_def insert_job_def nth_append born_def)

text \<open>The check on the attempts stands in for the guard that the claim's update leaves out.\<close>

lemma claim_checked:
  assumes "consistent (snd (update_jobs P (set_claimed worker lease t) d))"
    and "r \<in> set (jobs d)" and "P r"
  shows "c_attempt_count r < c_max_attempts r"
proof -
  have "set_claimed worker lease t r \<in> set (jobs (snd (update_jobs P (set_claimed worker lease t) d)))"
    using assms(2,3) by (auto simp: set_update_where)
  then have "job_check (set_claimed worker lease t r)"
    using assms(1) by (auto simp: consistent_iff checks_ok_def list_all_iff)
  then show ?thesis by (simp add: job_check_def set_claimed_def)
qed

lemma evolves_claim_sqlite:
  assumes "consistent (snd (claim_sqlite worker lease t i d))"
  shows "evolves d (snd (claim_sqlite worker lease t i d))"
  unfolding claim_sqlite_def
proof (rule evolves_update)
  fix r assume "r \<in> set (jobs d)" "c_id r = i \<and> c_status r = StatusQueued"
  then show "job_step r (set_claimed worker lease t r)"
    using claim_checked assms unfolding claim_sqlite_def by (blast intro: job_step.claim)
qed

lemma claim_ids: "map c_id (jobs (snd (update_jobs P (set_claimed worker lease t) d))) = map c_id (jobs d)"
  by (simp add: map_update_where set_claimed_def)

lemma unique_ids_iff: "unique_by (\<lambda>r. Some (c_id r)) rs \<longleftrightarrow> distinct (map c_id rs)"
  by (induction rs) (auto simp: unique_by_Cons image_iff)

lemma claim_postgres_cases:
  obtains (none) "select_candidate t d = None" and "claim_postgres worker lease t d = (None, d)"
  | (some) i where "select_candidate t d = Some i"
    and "snd (claim_postgres worker lease t d) =
           snd (update_jobs (\<lambda>r. c_id r = i) (set_claimed worker lease t) d)"
    and "fst (claim_postgres worker lease t d) =
           job_by_id i (snd (update_jobs (\<lambda>r. c_id r = i) (set_claimed worker lease t) d))"
  by (cases "select_candidate t d") (auto simp: claim_postgres_def Let_def job_by_id_def)

lemma evolves_claim_postgres:
  assumes "consistent (snd (claim_postgres worker lease t d))"
  shows "evolves d (snd (claim_postgres worker lease t d))"
proof (cases rule: claim_postgres_cases [of t d worker lease])
  case none
  then show ?thesis by (simp add: evolves_refl)
next
  case (some i)
  obtain c where c: "c \<in> set (jobs d)" "c_id c = i" "claimable t c"
    using some(1) by (rule select_candidate_Some)
  have "distinct (map c_id (jobs d))"
    using assms claim_ids unfolding some(2) consistent_iff uniques_ok_def unique_ids_iff by metis
  then have only: "r = c" if "r \<in> set (jobs d)" "c_id r = i" for r
    using that c by (auto simp: distinct_map inj_on_def)
  show ?thesis
    unfolding some(2)
  proof (rule evolves_update)
    fix r assume "r \<in> set (jobs d)" "c_id r = i"
    then have "r = c" by (rule only)
    with c(3) show "job_step r (set_claimed worker lease t r)"
      by (auto simp: claimable_def intro: job_step.claim)
  qed
qed

lemma set_queued_same_message: "set_queued a t r = (set_queued a t r)\<lparr>c_error_message := c_error_message r\<rparr>"
  by (simp add: set_queued_def)

lemma evolves_running_updates:
  "evolves d (snd (start_update i worker t d))"
  "evolves d (snd (heartbeat_update i worker t lease d))"
  "terminal s \<Longrightarrow> evolves d (snd (complete_update i worker s p m t d))"
  "evolves d (snd (requeue_update i worker runAfter m t d))"
  "evolves d (snd (force_fail_update i owner lease p msg t d))"
  unfolding job_update_defs
  by (rule evolves_update; auto simp: leased_to_def same_lease_def intro: job_step.intros)+

lemma evolves_recover: "evolves d (snd (recover_update i owner lease runAfter t d))"
  unfolding recover_update_def
  by (rule evolves_update, subst set_queued_same_message)
    (auto simp: same_lease_def intro: job_step.requeue)

interpretation life: job_contract evolves
  by unfold_locales
    (auto intro: evolves_refl evolves_trans evolves_insert evolves_claim_sqlite evolves_claim_postgres
      evolves_running_updates evolves_recover evolves_same_jobs)

section \<open>Statements as steps of the system\<close>

text \<open>
  Any write statement of any operation, by any worker, at any time: the finest interleaving there
  is. A step's result satisfies the constraints, or the database refuses the statement.
\<close>

inductive db_step :: "job_db \<Rightarrow> job_db \<Rightarrow> bool" where
  "consistent d' \<Longrightarrow> d' = snd (insert_job (request_row t req) d) \<Longrightarrow> db_step d d'"
| "consistent d' \<Longrightarrow> d' = snd (claim_sqlite worker lease t i d) \<Longrightarrow> db_step d d'"
| "consistent d' \<Longrightarrow> d' = snd (claim_postgres worker lease t d) \<Longrightarrow> db_step d d'"
| "consistent d' \<Longrightarrow> d' = snd (start_update i worker t d) \<Longrightarrow> db_step d d'"
| "consistent d' \<Longrightarrow> d' = snd (heartbeat_update i worker t lease d) \<Longrightarrow> db_step d d'"
| "consistent d' \<Longrightarrow> terminal s \<Longrightarrow> d' = snd (complete_update i worker s p m t d) \<Longrightarrow> db_step d d'"
| "consistent d' \<Longrightarrow> d' = snd (requeue_update i worker runAfter m t d) \<Longrightarrow> db_step d d'"
| "consistent d' \<Longrightarrow> d' = snd (recover_update i owner lease runAfter t d) \<Longrightarrow> db_step d d'"
| "consistent d' \<Longrightarrow> d' = snd (force_fail_update i owner lease p msg t d) \<Longrightarrow> db_step d d'"
| "consistent d' \<Longrightarrow> k_status k = LockHeld \<Longrightarrow> d' = snd (insert_lock k d) \<Longrightarrow> db_step d d'"
| "consistent d' \<Longrightarrow> d' = snd (extend_locks i worker t d) \<Longrightarrow> db_step d d'"
| "consistent d' \<Longrightarrow> d' = snd (expire_locks t d) \<Longrightarrow> db_step d d'"
| "consistent d' \<Longrightarrow> d' = snd (expire_job_locks i d) \<Longrightarrow> db_step d d'"
| "consistent d' \<Longrightarrow> d' = snd (release_locks i worker t d) \<Longrightarrow> db_step d d'"
| "consistent d' \<Longrightarrow> d' = snd (delete_locks ids d) \<Longrightarrow> db_step d d'"
| "consistent d' \<Longrightarrow> d' = snd (insert_event e d) \<Longrightarrow> db_step d d'"
| "consistent d' \<Longrightarrow> d' = snd (delete_events ids d) \<Longrightarrow> db_step d d'"
| "consistent d' \<Longrightarrow> d' = snd (upsert_workflow f d) \<Longrightarrow> db_step d d'"

abbreviation db_steps :: "job_db \<Rightarrow> job_db \<Rightarrow> bool" where
  "db_steps \<equiv> db_step\<^sup>*\<^sup>*"

definition reachable :: "job_db \<Rightarrow> bool" where
  "reachable d \<longleftrightarrow> db_steps empty_db d"

interpretation trace: job_contract db_steps
  by unfold_locales (auto intro: db_step.intros)

lemma db_step_consistent: "db_step d d' \<Longrightarrow> consistent d'"
  by (induction rule: db_step.induct) auto

lemma reachable_consistent: "reachable d \<Longrightarrow> consistent d"
  unfolding reachable_def by (induction rule: rtranclp_induct) (auto dest: db_step_consistent)

lemma db_step_evolves: "db_step d d' \<Longrightarrow> evolves d d'"
  by (induction rule: db_step.induct)
    (auto intro: life.insert_job_R life.claim_sqlite_R life.claim_postgres_R life.start_R
      life.heartbeat_R life.complete_R life.requeue_R life.recover_R life.force_fail_R
      evolves_same_jobs)

lemma db_steps_evolves: "db_steps d d' \<Longrightarrow> evolves d d'"
  by (induction rule: rtranclp_induct) (auto intro: evolves_refl evolves_trans db_step_evolves)

lemma reachable_born: "reachable d \<Longrightarrow> r \<in> set (jobs d) \<Longrightarrow> born r"
  unfolding reachable_def by (auto dest!: db_steps_evolves simp: evolves_def empty_db_def in_set_conv_nth)

end
