(* ===== verification/Job_Samples.thy ===== *)
theory Job_Samples
  imports Job_Lifecycle
begin

text \<open>
  Small concrete databases and environments on which the properties of the job subsystem are
  evaluated. Time stands still at one hundred seconds, identifiers are counted, nothing fails.
\<close>

definition sample_row :: "bytes \<Rightarrow> status \<Rightarrow> int \<Rightarrow> job_row" where
  "sample_row i s attempts =
     \<lparr>c_id = i, c_job_type = ''repo_pull'', c_status = s, c_actor = Some ''system'',
      c_correlation_id = None, c_idempotency_key = None, c_parent_job_id = None,
      c_job_group_id = Some (''repository:'' @ i), c_lock_key = Some (''repository:'' @ i),
      c_attempt_count = attempts, c_max_attempts = 3,
      c_leased_by = (if s = StatusQueued then None else Some ''worker-1''),
      c_lease_expires_at = (if s = StatusQueued then None else Some (90 * second)),
      c_heartbeat_at = (if s = StatusQueued then None else Some (60 * second)),
      c_run_after = 10 * second, c_priority = 0, c_payload = Doc (JObject []),
      c_result_payload = (if terminal s then Some (Doc (JObject [])) else None),
      c_created_at = 10 * second, c_started_at = None,
      c_finished_at = (if terminal s then Some (80 * second) else None), c_error_message = None,
      c_updated_at = 60 * second\<rparr>"

definition sample_db :: "job_row list \<Rightarrow> job_db" where
  "sample_db rs = empty_db\<lparr>jobs := rs\<rparr>"

definition sample_world :: "job_db \<Rightarrow> job_db world" where
  "sample_world d =
     \<lparr>db = d, handle_Provider = ''sqlite'', clk = (\<lambda>_. 100 * second), flt = (\<lambda>_. NoFault),
      ent = (\<lambda>n. replicate n CHR ''x''), tick = 0\<rparr>"

lemma sample_world_db [simp]: "db (sample_world d) = d"
  by (simp add: sample_world_def)

lemma sample_world_time [simp]: "clk (sample_world d) n = 100 * second"
  by (simp add: sample_world_def)

lemma inj_sample_ids: "inj (ent (sample_world d))"
proof (rule injI)
  fix m n assume "ent (sample_world d) m = ent (sample_world d) n"
  then have "replicate m CHR ''x'' = replicate n CHR ''x''" by (simp add: sample_world_def)
  then have "length (replicate m CHR ''x'') = length (replicate n CHR ''x'')" by (rule arg_cong)
  then show "m = n" by simp
qed

end
