(* ===== verification/Job_Runs.thy ===== *)
theory Job_Runs
  imports Job_Samples
begin

text \<open>
  How runs of operations are taken apart and put together: inversion rules for an operation that
  returned a value, and equations for a run without faults.
\<close>

section \<open>Inversion\<close>

lemma ret_InrD: "ret x w = (Inr y, w') \<Longrightarrow> y = x \<and> w' = w"
  by (simp add: ret_def)

lemma ret_iff [simp]: "ret x w = (r, w') \<longleftrightarrow> r = Inr x \<and> w' = w"
  by (auto simp: ret_def)

lemma fail_iff [simp]: "fail e w = (r, w') \<longleftrightarrow> r = Inl e \<and> w' = w"
  by (auto simp: fail_def)

lemma now_iff [simp]: "now w = (r, w') \<longleftrightarrow> r = Inr (clk w (tick w)) \<and> w' = step_tick w"
  by (auto simp: now_def)

lemma newID_iff [simp]:
  "newID p w = (r, w') \<longleftrightarrow> r = Inr (p @ ''_'' @ ent w (tick w)) \<and> w' = step_tick w"
  by (auto simp: newID_def)

lemma provider_iff [simp]: "provider w = (r, w') \<longleftrightarrow> r = Inr (handle_Provider w) \<and> w' = w"
  by (auto simp: provider_def)

lemma andThen_Inr_iff:
  "andThen m f w = (Inr y, w') \<longleftrightarrow> (\<exists>x w1. m w = (Inr x, w1) \<and> f x w1 = (Inr y, w'))"
  by (auto simp: andThen_def split: prod.splits sum.splits)

lemma andThen_InrE:
  assumes "andThen m f w = (Inr y, w')"
  obtains x w1 where "m w = (Inr x, w1)" and "f x w1 = (Inr y, w')"
  using assms by (auto simp: andThen_Inr_iff)

lemma andThen_Inr_eq: "m w = (Inr x, w1) \<Longrightarrow> andThen m f w = f x w1"
  by (simp add: andThen_def)

lemma andThen_Inl_eq: "m w = (Inl e, w1) \<Longrightarrow> andThen m f w = (Inl e, w1)"
  by (simp add: andThen_def)

lemma outcome_eq: "m w = (r, w1) \<Longrightarrow> outcome m f w = f r w1"
  by (simp add: outcome_def)

lemma lift_result_Inr_iff: "lift_result mk r w = (Inr x, w') \<longleftrightarrow> r = Inr x \<and> w' = w"
  by (cases r) (auto simp: lift_result_def)

lemma exec_Inr_iff:
  "exec chk st w = (Inr a, w') \<longleftrightarrow>
     flt w (tick w) = NoFault \<and> chk (snd (st (db w))) = None \<and> a = fst (st (db w)) \<and>
     w' = (step_tick w)\<lparr>db := snd (st (db w))\<rparr>"
  by (auto simp: exec_def split: fault.splits option.splits if_splits)

lemma query_Inr_iff:
  "query q w = (Inr a, w') \<longleftrightarrow> flt w (tick w) = NoFault \<and> a = q (db w) \<and> w' = step_tick w"
  by (auto simp: query_def split: if_splits)

lemma WithTx_Inr_iff:
  "WithTx fn w = (Inr x, w') \<longleftrightarrow>
     flt w (tick w) = NoFault \<and>
     (\<exists>w1. fn (step_tick w) = (Inr x, w1) \<and> flt w1 (tick w1) = NoFault \<and> w' = step_tick w1)"
  by (auto simp: WithTx_def split: prod.splits sum.splits fault.splits if_splits)

lemma TxMaybe_Some_iff:
  "TxMaybe fn w = (Inr (Some x), w') \<longleftrightarrow>
     flt w (tick w) = NoFault \<and>
     (\<exists>w1. fn (step_tick w) = (Inr (Some x), w1) \<and> flt w1 (tick w1) = NoFault \<and> w' = step_tick w1)"
  by (auto simp: TxMaybe_def split: prod.splits sum.splits option.splits fault.splits if_splits)

lemma TxMaybe_None:
  "TxMaybe fn w = (Inr None, w') \<Longrightarrow> db w' = db w"
  by (auto simp: TxMaybe_def split: prod.splits sum.splits option.splits fault.splits if_splits)

lemmas Inr_iffs =
  andThen_Inr_iff lift_result_Inr_iff exec_Inr_iff query_Inr_iff WithTx_Inr_iff TxMaybe_Some_iff

lemma step_tick_simps [simp]:
  "clk (step_tick w) = clk w" "flt (step_tick w) = flt w" "ent (step_tick w) = ent w"
  "handle_Provider (step_tick w) = handle_Provider w" "tick (step_tick w) = Suc (tick w)"
  by (simp_all add: step_tick_def)

text \<open>An error from inside a transaction, or from its begin, leaves the database as it was.\<close>

lemma WithTx_body_fails:
  assumes "\<And>w1. db w1 = db w \<Longrightarrow> \<exists>e. fst (fn w1) = Inl e"
  shows "(\<exists>e. fst (WithTx fn w) = Inl e) \<and> db (snd (WithTx fn w)) = db w"
proof -
  obtain e w1 where "fn (step_tick w) = (Inl e, w1)"
    using assms [of "step_tick w"] by (cases "fn (step_tick w)") auto
  then show ?thesis by (simp add: WithTx_def)
qed

section \<open>Runs without faults\<close>

definition calm :: "'d world \<Rightarrow> bool" where
  "calm w \<longleftrightarrow> (\<forall>n. flt w n = NoFault)"

lemma calm_flt [simp]: "calm w \<Longrightarrow> flt w n = NoFault"
  by (simp add: calm_def)

lemma calm_step [simp]: "calm (step_tick w) = calm w" "calm (w\<lparr>db := d\<rparr>) = calm w"
  by (simp_all add: calm_def)

lemma exec_calm:
  "calm w \<Longrightarrow> chk (snd (st (db w))) = None \<Longrightarrow>
     exec chk st w = (Inr (fst (st (db w))), (step_tick w)\<lparr>db := snd (st (db w))\<rparr>)"
  by (simp add: exec_def)

lemma exec_calm_violation:
  "calm w \<Longrightarrow> chk (snd (st (db w))) = Some v \<Longrightarrow>
     exec chk st w = (Inl (EDriver (violation_message (handle_Provider w) v)), step_tick w)"
  by (simp add: exec_def)

lemma query_calm: "calm w \<Longrightarrow> query q w = (Inr (q (db w)), step_tick w)"
  by (simp add: query_def)

text \<open>Whatever an operation does, it draws from the environment and leaves it as it is.\<close>

definition framed :: "('d, 'a) io \<Rightarrow> bool" where
  "framed m \<longleftrightarrow>
     (\<forall>w. let w' = snd (m w) in
        clk w' = clk w \<and> flt w' = flt w \<and> ent w' = ent w \<and> handle_Provider w' = handle_Provider w \<and>
        tick w \<le> tick w')"

lemma framedD:
  assumes "framed m" and "m w = (r, w')"
  shows "clk w' = clk w" and "flt w' = flt w" and "ent w' = ent w"
    and "handle_Provider w' = handle_Provider w" and "tick w \<le> tick w'"
  using assms unfolding framed_def Let_def by (metis snd_conv)+

named_theorems framed_intros "rules that show that an operation leaves its environment as it is"

lemma framed_ret [framed_intros]: "framed (ret x)"
  by (simp add: framed_def ret_def)

lemma framed_fail [framed_intros]: "framed (fail e)"
  by (simp add: framed_def fail_def)

lemma framed_andThen [framed_intros]:
  assumes "framed m" and "\<And>x. framed (f x)"
  shows "framed (andThen m f)"
  unfolding framed_def
proof
  fix w
  obtain r w1 where m: "m w = (r, w1)" by (cases "m w")
  note 1 = framedD [OF assms(1) m]
  show "let w' = snd (andThen m f w) in
      clk w' = clk w \<and> flt w' = flt w \<and> ent w' = ent w \<and> handle_Provider w' = handle_Provider w \<and>
      tick w \<le> tick w'"
  proof (cases r)
    case (Inl e)
    with m 1 show ?thesis by (simp add: andThen_def)
  next
    case (Inr x)
    obtain r2 w2 where f: "f x w1 = (r2, w2)" by (cases "f x w1")
    note 2 = framedD [OF assms(2) f]
    from m Inr f 1 2 show ?thesis by (simp add: andThen_def)
  qed
qed

lemma framed_outcome [framed_intros]:
  assumes "framed m" and "\<And>r. framed (f r)"
  shows "framed (outcome m f)"
  unfolding framed_def
proof
  fix w
  obtain r w1 where m: "m w = (r, w1)" by (cases "m w")
  obtain r2 w2 where f: "f r w1 = (r2, w2)" by (cases "f r w1")
  from m f framedD [OF assms(1) m] framedD [OF assms(2) f]
  show "let w' = snd (outcome m f w) in
      clk w' = clk w \<and> flt w' = flt w \<and> ent w' = ent w \<and> handle_Provider w' = handle_Provider w \<and>
      tick w \<le> tick w'"
    by (simp add: outcome_def)
qed

lemma framed_ignoring [framed_intros]: "framed m \<Longrightarrow> framed (ignoring m)"
  unfolding ignoring_def by (intro framed_intros)

lemma framed_lift_result [framed_intros]: "framed (lift_result mk r)"
  by (cases r) (simp_all add: lift_result_def framed_ret framed_fail)

lemma framed_primitives [framed_intros]:
  "framed now" "framed (newID p)" "framed provider" "framed (query q)" "framed (exec chk st)"
  by (auto simp: framed_def now_def newID_def provider_def query_def exec_def Let_def
      split: fault.split option.split)

lemma framed_for_each [framed_intros]: "(\<And>x. framed (f x)) \<Longrightarrow> framed (for_each xs f)"
  by (induction xs) (auto intro: framed_intros)

lemma framed_WithTx [framed_intros]:
  assumes "framed fn"
  shows "framed (WithTx fn)"
  unfolding framed_def
proof
  fix w
  obtain r w1 where fn: "fn (step_tick w) = (r, w1)" by (cases "fn (step_tick w)")
  from fn framedD [OF assms fn]
  show "let w' = snd (WithTx fn w) in
      clk w' = clk w \<and> flt w' = flt w \<and> ent w' = ent w \<and> handle_Provider w' = handle_Provider w \<and>
      tick w \<le> tick w'"
    by (auto simp: WithTx_def split: sum.split fault.split)
qed

lemma framed_calm: "framed m \<Longrightarrow> m w = (r, w') \<Longrightarrow> calm w' = calm w"
  using framedD(2) by (fastforce simp: calm_def)

section \<open>Refreshing a status touches the workflow statuses only\<close>

definition same_core :: "job_db \<Rightarrow> job_db \<Rightarrow> bool" where
  "same_core d d' \<longleftrightarrow>
     jobs d' = jobs d \<and> job_locks d' = job_locks d \<and> job_events d' = job_events d"

interpretation core: state_order same_core
  by unfold_locales (auto simp: same_core_def)

lemma upsert_workflow_same_core: "same_core d (snd (upsert_workflow f d))"
  by (simp add: same_core_def upsert_workflow_def)

lemma RefreshWorkflowStatus_same_core: "keeps same_core (RefreshWorkflowStatus g i)"
  unfolding RefreshWorkflowStatus_def Let_def
  by (auto intro!: core.keeps_ret core.keeps_fail core.keeps_andThen core.keeps_query core.keeps_now
      core.keeps_exec upsert_workflow_same_core split: option.split)

lemma refresh_for_same_core: "keeps same_core (refresh_for job)"
  unfolding refresh_for_def by (intro core.keeps_ignoring RefreshWorkflowStatus_same_core)

lemma ignoring_result: "ignoring m w = (r, w') \<Longrightarrow> r = Inr ()"
  by (cases "m w") (simp add: ignoring_def outcome_def)

lemma ignoring_refresh_core:
  "ignoring (RefreshWorkflowStatus g i) w = (r, w') \<Longrightarrow>
     r = Inr () \<and> jobs (db w') = jobs (db w) \<and> job_locks (db w') = job_locks (db w) \<and>
     job_events (db w') = job_events (db w)"
  using keepsD [OF core.keeps_ignoring [OF RefreshWorkflowStatus_same_core], of g i w r w']
  by (simp add: same_core_def ignoring_result)

lemma refresh_for_core:
  "refresh_for job w = (r, w') \<Longrightarrow>
     r = Inr () \<and> jobs (db w') = jobs (db w) \<and> job_locks (db w') = job_locks (db w) \<and>
     job_events (db w') = job_events (db w)"
  unfolding refresh_for_def by (rule ignoring_refresh_core)

section \<open>Adding an event\<close>

definition stored_event :: "Event \<Rightarrow> bytes \<Rightarrow> instant \<Rightarrow> event_row" where
  "stored_event event i t =
     \<lparr>ev_id = i, ev_job_id = e_JobID event, ev_job_group_id = nullEmpty (e_JobGroupID event),
      ev_event_type = e_EventType event, ev_status = e_Status event,
      ev_worker_id = nullEmpty (e_WorkerID event),
      ev_metric_name = nullEmpty (e_MetricName event), ev_metric_value = e_MetricValue event,
      ev_payload = nullJSON (safeJSONPayload (e_Payload event)), ev_created_at = t\<rparr>"

lemma event_id_db:
  "(if e_ID e = [] then newID ''event'' else ret (e_ID e)) w = (r, w1) \<Longrightarrow> db w1 = db w"
  by (cases "e_ID e = []") auto

lemma event_time_db:
  "(case e_CreatedAt e of None \<Rightarrow> now | Some t \<Rightarrow> ret t) w1 = (r, w2) \<Longrightarrow> db w2 = db w1"
  by (cases "e_CreatedAt e") auto

lemma addEvent_Inr:
  assumes "addEvent e w = (Inr u, w')"
  shows "\<exists>i t. db w' = (db w)\<lparr>job_events := job_events (db w) @ [stored_event e i t]\<rparr>"
  using assms unfolding addEvent_def
proof (elim andThen_InrE)
  fix i w1 t w2
  assume "(if e_ID e = [] then newID ''event'' else ret (e_ID e)) w = (Inr i, w1)"
    and "(case e_CreatedAt e of None \<Rightarrow> now | Some t \<Rightarrow> ret t) w1 = (Inr t, w2)"
  then have "db w2 = db w" by (simp only: event_id_db event_time_db)
  moreover assume "jexec (insert_event
      \<lparr>ev_id = i, ev_job_id = e_JobID e, ev_job_group_id = nullEmpty (e_JobGroupID e),
       ev_event_type = e_EventType e, ev_status = e_Status e,
       ev_worker_id = nullEmpty (e_WorkerID e), ev_metric_name = nullEmpty (e_MetricName e),
       ev_metric_value = e_MetricValue e, ev_payload = nullJSON (safeJSONPayload (e_Payload e)),
       ev_created_at = t\<rparr>) w2 = (Inr u, w')"
  then have "db w' = snd (insert_event (stored_event e i t) (db w2))"
    by (simp add: exec_Inr_iff stored_event_def)
  ultimately show ?thesis by (auto simp: insert_event_def)
qed

lemma mk_event_fields [simp]:
  "ev_id (stored_event e i t) = i" "ev_created_at (stored_event e i t) = t"
  "ev_job_id (stored_event (mk_event j g et s wk p) i t) = j"
  "ev_event_type (stored_event (mk_event j g et s wk p) i t) = et"
  "ev_status (stored_event (mk_event j g et s wk p) i t) = Some s"
  "ev_worker_id (stored_event (mk_event j g et s wk p) i t) = nullEmpty wk"
  "ev_job_group_id (stored_event (mk_event j g et s wk p) i t) = nullEmpty g"
  by (simp_all add: stored_event_def mk_event_def)

lemma addEvent_core:
  "addEvent e w = (Inr u, w') \<Longrightarrow> jobs (db w') = jobs (db w) \<and> job_locks (db w') = job_locks (db w)"
  using addEvent_Inr by fastforce

end
