(* ===== verification/Job_Consistency.thy ===== *)
theory Job_Consistency
  imports Job_Runs
begin

text \<open>
  When a statement keeps the constraints of the schema, so that the database accepts it: an update
  of job rows that takes steps of the state machine and stays within the attempts, an update of
  locks that keeps their keys or releases them, and a new event of a job that exists.
\<close>

section \<open>Updates of jobs\<close>

lemma job_step_keys:
  assumes "job_step r r'"
  shows "c_id r' = c_id r" and "idempotency_index r' = idempotency_index r"
    and "c_parent_job_id r' = c_parent_job_id r"
    and "active_repo_index r' = active_repo_index r \<or> active_repo_index r' = None"
proof -
  have core: "job_core r' = job_core r" using assms by (rule job_step_core)
  then show "c_id r' = c_id r" and "idempotency_index r' = idempotency_index r"
    and "c_parent_job_id r' = c_parent_job_id r"
    by (simp_all add: job_core_def idempotency_index_def split: option.split)
  have "active (c_status r)"
    using job_step_not_terminal [OF assms] by (simp add: active_iff_not_terminal)
  with core show "active_repo_index r' = active_repo_index r \<or> active_repo_index r' = None"
    by (simp add: active_repo_index_def job_core_def)
qed

lemma update_jobs_consistent:
  assumes "consistent d"
    and "\<And>r. r \<in> set (jobs d) \<Longrightarrow> P r \<Longrightarrow> job_step r (f r) \<and> job_check (f r)"
  shows "consistent (snd (update_jobs P f d))"
proof -
  define d' where "d' = snd (update_jobs P f d)"
  have tables: "jobs d' = update_where P f (jobs d)" "job_locks d' = job_locks d"
    "job_events d' = job_events d" "workflow_statuses d' = workflow_statuses d"
    by (simp_all add: d'_def)
  have checks: "checks_ok d" and uniques: "uniques_ok d" and keys: "foreign_keys_ok d"
    using assms(1) by (simp_all add: consistent_iff)
  have "list_all job_check (update_where P f (jobs d))"
    using checks assms(2) by (auto simp: checks_ok_def list_all_iff set_update_where)
  then have 1: "checks_ok d'"
    using checks by (simp add: checks_ok_def tables)
  have step: "job_step r (f r)" if "r \<in> set (jobs d)" "P r" for r
    using assms(2) [OF that] by simp
  have "unique_by active_repo_index (update_where P f (jobs d))"
    using uniques job_step_keys(4) [OF step]
    by (intro unique_by_update_where) (simp_all add: uniques_ok_def)
  moreover have "unique_by idempotency_index (update_where P f (jobs d))"
    and "unique_by (\<lambda>r. Some (c_id r)) (update_where P f (jobs d))"
    using uniques job_step_keys(1,2) [OF step]
    by (intro unique_by_update_where; simp add: uniques_ok_def)+
  ultimately have 2: "uniques_ok d'"
    using uniques by (simp add: uniques_ok_def tables)
  have ids: "c_id ` set (update_where P f (jobs d)) = c_id ` set (jobs d)"
    by (simp only: set_update_where image_image)
      (rule image_cong, rule refl, simp add: job_step_keys(1) [OF step])
  have 3: "foreign_keys_ok d'"
    using keys unfolding foreign_keys_ok_def tables ids list_all_iff
    by (auto simp: set_update_where job_step_keys(3) [OF step])
  from 1 2 3 show ?thesis by (simp add: consistent_iff d'_def)
qed

lemma job_check_same:
  "job_check r \<Longrightarrow> job_core r' = job_core r \<Longrightarrow> c_attempt_count r' = c_attempt_count r \<Longrightarrow>
     (case c_result_payload r' of None \<Rightarrow> True | Some p \<Rightarrow> json_valid p) \<Longrightarrow> job_check r'"
  by (simp add: job_check_def job_core_def)

lemma consistent_job_check: "consistent d \<Longrightarrow> r \<in> set (jobs d) \<Longrightarrow> job_check r"
  by (auto simp: consistent_iff checks_ok_def list_all_iff)

lemma consistent_ids: "consistent d \<Longrightarrow> unique_by (\<lambda>r. Some (c_id r)) (jobs d)"
  by (simp add: consistent_iff uniques_ok_def)

lemma consistent_same_id:
  "consistent d \<Longrightarrow> r \<in> set (jobs d) \<Longrightarrow> r' \<in> set (jobs d) \<Longrightarrow> c_id r = c_id r' \<Longrightarrow> r = r'"
  using unique_by_eq [OF consistent_ids] by (metis (mono_tags, lifting))

lemma set_claimed_check:
  "job_check r \<Longrightarrow> c_attempt_count r < c_max_attempts r \<Longrightarrow> job_check (set_claimed worker lease t r)"
  by (simp add: job_check_def set_claimed_def)

lemma update_running_consistent:
  assumes "consistent d" and "\<And>r. P r \<Longrightarrow> c_status r = StatusRunning"
    and "\<And>r. c_status r = StatusRunning \<Longrightarrow> job_step r (f r)"
    and "\<And>r. job_check r \<Longrightarrow> job_check (f r)"
  shows "consistent (snd (update_jobs P f d))"
proof (rule update_jobs_consistent [OF assms(1)], rule conjI)
  fix r assume "r \<in> set (jobs d)" "P r"
  then show "job_step r (f r)" "job_check (f r)"
    using assms(2-4) consistent_job_check [OF assms(1)] by blast+
qed

lemma running_updates_consistent:
  assumes "consistent d"
  shows "consistent (snd (start_update i worker t d))"
    and "consistent (snd (heartbeat_update i worker t lease d))"
    and "terminal s \<Longrightarrow> json_valid p \<Longrightarrow> consistent (snd (complete_update i worker s p m t d))"
    and "consistent (snd (requeue_update i worker runAfter m t d))"
    and "json_valid p \<Longrightarrow> consistent (snd (force_fail_update i owner lease p msg t d))"
  unfolding job_update_defs
  by (rule update_running_consistent [OF assms];
      simp add: leased_to_def same_lease_def job_check_def set_queued_def job_step.start
        job_step.heartbeat job_step.finish job_step.requeue [unfolded set_queued_def])+

lemma recover_consistent:
  assumes "consistent d"
  shows "consistent (snd (recover_update i owner lease runAfter t d))"
  unfolding recover_update_def
proof (rule update_running_consistent [OF assms])
  fix r :: job_row assume "c_status r = StatusRunning"
  then show "job_step r (set_queued runAfter t r)"
    by (subst set_queued_same_message) (rule job_step.requeue)
qed (simp_all add: same_lease_def job_check_def set_queued_def)

section \<open>Updates of locks\<close>

lemma update_locks_consistent:
  assumes "consistent d"
    and "\<And>k. k \<in> set (job_locks d) \<Longrightarrow> P k \<Longrightarrow>
           k_id (f k) = k_id k \<and> k_job_id (f k) = k_job_id k \<and>
           (held_index (f k) = held_index k \<or> held_index (f k) = None)"
  shows "consistent (snd (update_locks P f d))"
proof -
  define d' where "d' = snd (update_locks P f d)"
  have tables: "jobs d' = jobs d" "job_locks d' = update_where P f (job_locks d)"
    "job_events d' = job_events d" "workflow_statuses d' = workflow_statuses d"
    by (simp_all add: d'_def)
  have "checks_ok d'"
    using assms(1) by (simp add: consistent_iff checks_ok_def tables)
  moreover have "unique_by held_index (update_where P f (job_locks d))"
    and "unique_by (\<lambda>k. Some (k_id k)) (update_where P f (job_locks d))"
    using assms by (intro unique_by_update_where; simp add: consistent_iff uniques_ok_def)+
  then have "uniques_ok d'"
    using assms(1) by (simp add: consistent_iff uniques_ok_def tables)
  moreover have "foreign_keys_ok d'"
    using assms unfolding consistent_iff foreign_keys_ok_def tables
    by (auto simp: list_all_iff set_update_where)
  ultimately show ?thesis by (simp add: consistent_iff d'_def)
qed

lemma lock_updates_consistent:
  assumes "consistent d"
  shows "consistent (snd (extend_locks i worker t d))" and "consistent (snd (expire_locks t d))"
    and "consistent (snd (expire_job_locks i d))" and "consistent (snd (release_locks i worker t d))"
  unfolding lock_update_defs
  by (rule update_locks_consistent [OF assms]; simp add: held_index_def)+

section \<open>New events\<close>

lemma insert_event_consistent:
  assumes "consistent d" and "ev_id e \<notin> ev_id ` set (job_events d)"
    and "ev_job_id e \<in> c_id ` set (jobs d)" and "event_check e"
  shows "consistent (snd (insert_event e d))"
proof -
  define d' where "d' = snd (insert_event e d)"
  have tables: "jobs d' = jobs d" "job_locks d' = job_locks d"
    "job_events d' = job_events d @ [e]" "workflow_statuses d' = workflow_statuses d"
    by (simp_all add: d'_def insert_event_def)
  have "checks_ok d'"
    using assms(1,4) by (simp add: consistent_iff checks_ok_def tables)
  moreover have "uniques_ok d'"
    using assms(1,2) by (auto simp: consistent_iff uniques_ok_def tables unique_by_snoc image_iff)
  moreover have "foreign_keys_ok d'"
    using assms(1,3) unfolding consistent_iff foreign_keys_ok_def tables by (simp add: d'_def)
  ultimately show ?thesis by (simp add: consistent_iff d'_def)
qed

text \<open>Identifiers that no event bears yet.\<close>

definition fresh_events :: "job_db world \<Rightarrow> bool" where
  "fresh_events w \<longleftrightarrow>
     inj (ent w) \<and>
     (\<forall>n \<ge> tick w. ''event_'' @ ent w n \<notin> ev_id ` set (job_events (db w)))"

lemma fresh_events_later:
  assumes "fresh_events w" and "ent w' = ent w" and "tick w \<le> tick w'"
    and "job_events (db w') = job_events (db w)"
  shows "fresh_events w'"
  using assms(1,3) unfolding fresh_events_def assms(2,4) by (blast intro: order_trans)

lemma stored_event_check: "\<forall>m. e_Payload event \<noteq> Malformed m \<Longrightarrow> event_check (stored_event event i t)"
  by (cases "e_Payload event")
    (auto simp: event_check_def stored_event_def safeJSONPayload_def nullJSON_def)

lemma addEvent_eq:
  "addEvent event =
     andThen (if e_ID event = [] then newID ''event'' else ret (e_ID event)) (\<lambda>i.
     andThen (case e_CreatedAt event of None \<Rightarrow> now | Some t \<Rightarrow> ret t) (\<lambda>t.
       jexec (insert_event (stored_event event i t))))"
  by (simp add: addEvent_def stored_event_def)

lemma addEvent_calm:
  assumes "calm w" and "consistent (db w)" and "fresh_events w" and "e_ID event = []"
    and "e_CreatedAt event = None" and "e_JobID event \<in> c_id ` set (jobs (db w))"
    and "\<forall>m. e_Payload event \<noteq> Malformed m"
  obtains i t where
    "addEvent event w =
       (Inr (), (step_tick (step_tick (step_tick w)))
                  \<lparr>db := snd (insert_event (stored_event event i t) (db w))\<rparr>)"
    and "consistent (snd (insert_event (stored_event event i t) (db w)))"
    and "i = ''event_'' @ ent w (tick w)"
proof -
  define i where "i = ''event_'' @ ent w (tick w)"
  define t where "t = clk w (Suc (tick w))"
  have consistent: "consistent (snd (insert_event (stored_event event i t) (db w)))"
    using assms by (intro insert_event_consistent stored_event_check)
      (auto simp: fresh_events_def i_def stored_event_def)
  then have run: "jexec (insert_event (stored_event event i t)) (step_tick (step_tick w)) =
      (Inr (), (step_tick (step_tick (step_tick w)))
                 \<lparr>db := snd (insert_event (stored_event event i t) (db w))\<rparr>)"
    using assms(1) by (subst exec_calm) (simp_all add: insert_event_def)
  have "newID ''event'' w = (Inr i, step_tick w)" and "now (step_tick w) = (Inr t, step_tick (step_tick w))"
    by (simp_all add: i_def t_def)
  then have "addEvent event w =
      (Inr (), (step_tick (step_tick (step_tick w)))
                 \<lparr>db := snd (insert_event (stored_event event i t) (db w))\<rparr>)"
    using run by (simp add: addEvent_eq assms(4,5) andThen_Inr_eq del: newID_iff now_iff)
  with consistent show thesis by (intro that [of i t]) (simp_all add: i_def)
qed

lemma log_calm:
  assumes "calm w" and "consistent (db w)" and "fresh_events w" and "j \<in> c_id ` set (jobs (db w))"
    and "\<forall>m. p \<noteq> Malformed m"
  shows "\<exists>w2 i t. addEvent (mk_event j g et s worker p) w = (Inr (), w2) \<and> calm w2 \<and>
     db w2 = snd (insert_event (stored_event (mk_event j g et s worker p) i t) (db w)) \<and>
     consistent (db w2) \<and> fresh_events w2"
proof -
  let ?e = "mk_event j g et s worker p"
  have "e_ID ?e = []" "e_CreatedAt ?e = None" "e_JobID ?e \<in> c_id ` set (jobs (db w))"
    "\<forall>m. e_Payload ?e \<noteq> Malformed m"
    using assms(4,5) by (simp_all add: mk_event_def)
  from addEvent_calm [OF assms(1-3) this] obtain i t where
    run: "addEvent ?e w = (Inr (), (step_tick (step_tick (step_tick w)))
        \<lparr>db := snd (insert_event (stored_event ?e i t) (db w))\<rparr>)"
    and ok: "consistent (snd (insert_event (stored_event ?e i t) (db w)))"
    and i: "i = ''event_'' @ ent w (tick w)"
    by blast
  let ?w2 = "(step_tick (step_tick (step_tick w)))
        \<lparr>db := snd (insert_event (stored_event ?e i t) (db w))\<rparr>"
  have "ent w n \<noteq> ent w (tick w)" if "tick w + 3 \<le> n" for n
    using that assms(3) by (simp add: fresh_events_def inj_eq)
  then have "fresh_events ?w2"
    using assms(3) by (auto simp: fresh_events_def insert_event_def i)
  with run ok assms(1) show ?thesis by (intro exI [of _ ?w2] exI [of _ i] exI [of _ t]) simp
qed

end
