(* ===== verification/Job_Claim.thy ===== *)
theory Job_Claim
  imports Job_Consistency
begin

text \<open>
  Claiming a job (\<open>ClaimNext\<close>). \<open>claims\<close> says what a claim promises, without saying how: the first
  claimable job in the order of the queue moves to running under a new lease, its attempt is
  counted and its event is written, or there is no claimable job. Both dialects implement it.
\<close>

section \<open>What a claim promises\<close>

definition first_in_queue :: "instant \<Rightarrow> job_db \<Rightarrow> job_row \<Rightarrow> bool" where
  "first_in_queue t d x \<longleftrightarrow>
     x \<in> set (jobs d) \<and> claimable t x \<and>
     (\<forall>y \<in> set (jobs d). claimable t y \<longrightarrow> claim_key x \<le> claim_key y)"

definition claims ::
    "bytes \<Rightarrow> instant \<Rightarrow> instant \<Rightarrow> job_db \<Rightarrow> job_db \<Rightarrow> Job option \<Rightarrow> bool" where
  "claims worker lease t d d' r \<longleftrightarrow>
     (case r of
        None \<Rightarrow> jobs d' = jobs d \<and> job_locks d' = job_locks d \<and> job_events d' = job_events d \<and>
                (\<forall>x \<in> set (jobs d). \<not> claimable t x)
      | Some job \<Rightarrow>
          (\<exists>x i written. first_in_queue t d x \<and> job = scanJob (set_claimed worker lease t x) \<and>
             jobs d' = update_where (\<lambda>r. c_id r = c_id x) (set_claimed worker lease t) (jobs d) \<and>
             job_locks d' = job_locks d \<and>
             job_events d' = job_events d @ [stored_event (claimed_event job worker) i written]))"

lemma claims_SomeI:
  assumes "first_in_queue t d x"
    and "d1 = snd (update_jobs (\<lambda>r. c_id r = c_id x) (set_claimed worker lease t) d)"
    and "d' = d1\<lparr>job_events := job_events d1 @
           [stored_event (claimed_event (scanJob (set_claimed worker lease t x)) worker) i written]\<rparr>"
  shows "claims worker lease t d d' (Some (scanJob (set_claimed worker lease t x)))"
  using assms unfolding claims_def by (auto intro!: exI [of _ x])

lemma select_first_in_queue:
  assumes "select_candidate t d = Some i"
  obtains x where "first_in_queue t d x" and "c_id x = i"
proof -
  from assms obtain x where "x \<in> set (jobs d)" "c_id x = i" "claimable t x"
    and "\<And>y. y \<in> set (jobs d) \<Longrightarrow> claimable t y \<Longrightarrow> claim_key x \<le> claim_key y"
    by (rule select_candidate_Some) blast
  then show thesis by (intro that [of x]) (auto simp: first_in_queue_def)
qed

lemma update_where_cong:
  "(\<And>x. x \<in> set xs \<Longrightarrow> P x = Q x) \<Longrightarrow> update_where P f xs = update_where Q f xs"
  by (simp add: update_where_def)

lemma claim_sqlite_by_id:
  assumes "consistent d" and "first_in_queue t d x"
  shows "claim_sqlite worker lease t (c_id x) d =
           update_jobs (\<lambda>r. c_id r = c_id x) (set_claimed worker lease t) d"
proof -
  have "(c_id r = c_id x \<and> c_status r = StatusQueued) = (c_id r = c_id x)" if "r \<in> set (jobs d)" for r
    using consistent_same_id [OF assms(1) that, of x] assms(2)
    by (auto simp: first_in_queue_def claimable_def)
  then have "update_where (\<lambda>r. c_id r = c_id x \<and> c_status r = StatusQueued) f (jobs d) =
      update_where (\<lambda>r. c_id r = c_id x) f (jobs d)"
    and "affected (\<lambda>r. c_id r = c_id x \<and> c_status r = StatusQueued) (jobs d) =
      affected (\<lambda>r. c_id r = c_id x) (jobs d)" for f
    by (auto intro: update_where_cong filter_cong simp: affected_def cong: filter_cong)
  then show ?thesis by (simp add: claim_sqlite_def update_jobs_def)
qed

lemma claimed_consistent:
  assumes "consistent d" and "first_in_queue t d x"
  shows "consistent (snd (update_jobs (\<lambda>r. c_id r = c_id x) (set_claimed worker lease t) d))"
proof (rule update_jobs_consistent [OF assms(1)])
  fix r assume r: "r \<in> set (jobs d)" "c_id r = c_id x"
  then have "r = x"
    using consistent_same_id [OF assms(1)] assms(2) by (simp add: first_in_queue_def)
  with r assms show "job_step r (set_claimed worker lease t r) \<and> job_check (set_claimed worker lease t r)"
    by (auto simp: first_in_queue_def claimable_def
        intro: job_step.claim set_claimed_check consistent_job_check)
qed

lemma claimed_by_id:
  assumes "consistent d" and "first_in_queue t d x"
  shows "job_by_id (c_id x) (snd (update_jobs (\<lambda>r. c_id r = c_id x) (set_claimed worker lease t) d)) =
           Some (set_claimed worker lease t x)"
proof -
  let ?d' = "snd (update_jobs (\<lambda>r. c_id r = c_id x) (set_claimed worker lease t) d)"
  have "set_claimed worker lease t x \<in> set (jobs ?d')"
    using assms(2) by (auto simp: first_in_queue_def set_update_where)
  from job_by_id_unique [OF consistent_ids [OF claimed_consistent [OF assms]] this]
  show ?thesis by (simp add: set_claimed_def)
qed

section \<open>The two statements of the dialects\<close>

lemma claim_postgres_eq:
  assumes "consistent d"
  shows "claim_postgres worker lease t d =
     (case select_candidate t d of
        None \<Rightarrow> (None, d)
      | Some i \<Rightarrow> (job_by_id i (snd (claim_sqlite worker lease t i d)),
                   snd (claim_sqlite worker lease t i d)))"
proof (cases "select_candidate t d")
  case None
  then show ?thesis by (simp add: claim_postgres_def)
next
  case (Some i)
  then obtain x where "first_in_queue t d x" and "c_id x = i" by (rule select_first_in_queue)
  with Some show ?thesis
    using claim_sqlite_by_id [OF assms]
    by (auto simp: claim_postgres_def job_by_id_def Let_def)
qed

lemma claim_tx_sqlite_refines:
  assumes "claim_tx_sqlite worker lease t w = (Inr r, w')" and "consistent (db w)"
  shows "claims worker lease t (db w) (db w') r"
proof (cases "select_candidate t (db w)")
  case None
  with assms(1) have "r = None" "w' = step_tick w"
    by (auto simp: claim_tx_sqlite_def andThen_Inr_iff query_Inr_iff)
  with None show ?thesis by (simp add: claims_def select_candidate_None_iff)
next
  case (Some i)
  then obtain x where x: "first_in_queue t (db w) x" and i: "c_id x = i"
    by (rule select_first_in_queue)
  let ?d' = "snd (update_jobs (\<lambda>r. c_id r = i) (set_claimed worker lease t) (db w))"
  have stmt: "claim_sqlite worker lease t i (db w) =
      update_jobs (\<lambda>r. c_id r = i) (set_claimed worker lease t) (db w)"
    using claim_sqlite_by_id [OF assms(2) x] i by simp
  have "affected (\<lambda>r. c_id r = i) (jobs (db w)) \<noteq> 0"
    using x i by (auto simp: affected_zero_iff first_in_queue_def)
  with assms(1) Some obtain w2 w3 job where get: "Get i w2 = (Inr job, w3)" and "db w2 = ?d'"
    and ev: "addEvent (claimed_event job worker) w3 = (Inr (), w')" and r: "r = Some job"
    by (fastforce simp: claim_tx_sqlite_def andThen_Inr_iff query_Inr_iff exec_Inr_iff stmt)
  with claimed_by_id [OF assms(2) x, of worker lease] i
  have "job = scanJob (set_claimed worker lease t x)" "db w3 = ?d'"
    by (auto simp: Get_def andThen_Inr_iff query_Inr_iff)
  with addEvent_Inr [OF ev] x i r show ?thesis
    by (auto intro: claims_SomeI)
qed

lemma claim_tx_postgres_refines:
  assumes "claim_tx_postgres worker lease t w = (Inr r, w')" and "consistent (db w)"
  shows "claims worker lease t (db w) (db w') r"
proof (cases "select_candidate t (db w)")
  case None
  with assms(1) have "r = None" "db w' = db w"
    by (auto simp: claim_tx_postgres_def claim_postgres_def andThen_Inr_iff exec_Inr_iff)
  with None show ?thesis by (simp add: claims_def select_candidate_None_iff)
next
  case (Some i)
  then obtain x where x: "first_in_queue t (db w) x" and i: "c_id x = i"
    by (rule select_first_in_queue)
  let ?d' = "snd (update_jobs (\<lambda>r. c_id r = i) (set_claimed worker lease t) (db w))"
  have stmt: "claim_postgres worker lease t (db w) = (Some (set_claimed worker lease t x), ?d')"
    using claim_postgres_eq [OF assms(2)] claim_sqlite_by_id [OF assms(2) x]
      claimed_by_id [OF assms(2) x] Some i by simp
  with assms(1) obtain w2 where
    ev: "addEvent (claimed_event (scanJob (set_claimed worker lease t x)) worker) w2 = (Inr (), w')"
    and "db w2 = ?d'" and r: "r = Some (scanJob (set_claimed worker lease t x))"
    by (fastforce simp: claim_tx_postgres_def andThen_Inr_iff exec_Inr_iff)
  with addEvent_Inr [OF ev] x i show ?thesis
    by (auto intro: claims_SomeI)
qed

section \<open>The operation\<close>

definition claim_time :: "ClaimOptions \<Rightarrow> job_db world \<Rightarrow> instant" where
  "claim_time opts w = (case opt_Now opts of None \<Rightarrow> clk w (tick w) | Some t \<Rightarrow> t)"

definition claim_lease :: "ClaimOptions \<Rightarrow> duration" where
  "claim_lease opts = (if opt_LeaseDuration opts \<le> 0 then 30 * second else opt_LeaseDuration opts)"

lemma claims_cong:
  "claims worker lease t d d1 r \<Longrightarrow> jobs d2 = jobs d1 \<Longrightarrow> job_locks d2 = job_locks d1 \<Longrightarrow>
     job_events d2 = job_events d1 \<Longrightarrow> claims worker lease t d d2 r"
  by (simp add: claims_def split: option.splits)

lemma claim_tx_refines:
  assumes "TxMaybe (if p = ''postgres'' then claim_tx_postgres worker lease t
                    else claim_tx_sqlite worker lease t) w = (Inr r, w')"
    and "consistent (db w)"
  shows "claims worker lease t (db w) (db w') r"
proof -
  let ?fn = "if p = ''postgres'' then claim_tx_postgres worker lease t else claim_tx_sqlite worker lease t"
  have body: "claims worker lease t (db w) (db w1) r"
    if "?fn (step_tick w) = (Inr r, w1)" for w1
    using that claim_tx_sqlite_refines [of worker lease t "step_tick w"]
      claim_tx_postgres_refines [of worker lease t "step_tick w"] assms(2)
    by (cases "p = ''postgres''") simp_all
  show ?thesis
  proof (cases r)
    case None
    with assms(1) obtain w1 where "?fn (step_tick w) = (Inr None, w1)" and "db w' = db w"
      by (auto simp: TxMaybe_def split: prod.splits sum.splits option.splits fault.splits if_splits)
    with body None show ?thesis by (simp add: claims_def)
  next
    case (Some job)
    with assms(1) obtain w1 where "?fn (step_tick w) = (Inr r, w1)" and "db w' = db w1"
      by (auto simp: TxMaybe_Some_iff)
    with body show ?thesis by simp
  qed
qed

lemma claim_tx_calm:
  assumes "calm w" and "consistent (db w)" and "fresh_events w"
    and "x \<in> set (jobs (db w))" and "claimable t x"
  obtains job w' where
    "TxMaybe (if p = ''postgres'' then claim_tx_postgres worker lease t
              else claim_tx_sqlite worker lease t) w = (Inr (Some job), w')"
proof -
  obtain i where i: "select_candidate t (db w) = Some i"
    using assms(4,5) select_candidate_None_iff [of t "db w"] by (cases "select_candidate t (db w)") auto
  then obtain c where c: "first_in_queue t (db w) c" and id: "c_id c = i"
    by (rule select_first_in_queue)
  define d' where "d' = snd (update_jobs (\<lambda>r. c_id r = i) (set_claimed worker lease t) (db w))"
  define job where "job = scanJob (set_claimed worker lease t c)"
  have stmt: "claim_sqlite worker lease t i (db w) =
      update_jobs (\<lambda>r. c_id r = i) (set_claimed worker lease t) (db w)"
    using claim_sqlite_by_id [OF assms(2) c] id by simp
  have found: "job_by_id i d' = Some (set_claimed worker lease t c)"
    using claimed_by_id [OF assms(2) c] id by (simp add: d'_def)
  have d'_ok: "consistent d'"
    using claimed_consistent [OF assms(2) c] id by (simp add: d'_def)
  have events: "job_events d' = job_events (db w)" by (simp add: d'_def)
  have "i \<in> c_id ` set (jobs d')" using found job_by_id_None_iff [of i d'] by simp
  then have own: "e_JobID (claimed_event job worker) \<in> c_id ` set (jobs d')"
    using id by (simp add: claimed_event_def mk_event_def job_def set_claimed_def)
  have logged: "\<exists>w2. addEvent (claimed_event job worker) w1 = (Inr (), w2) \<and> calm w2"
    if "calm w1" "db w1 = d'" "ent w1 = ent w" "tick w \<le> tick w1" for w1
  proof -
    have "fresh_events w1"
      using fresh_events_later [OF assms(3) that(3,4)] that(2) events by simp
    then show ?thesis
      using log_calm [of w1 "j_ID job" Blank] that d'_ok own unfolding claimed_event_def
      by (simp add: mk_event_def) blast
  qed
  let ?w1 = "step_tick w"
  have postgres: "\<exists>w2. claim_tx_postgres worker lease t ?w1 = (Inr (Some job), w2) \<and> calm w2"
  proof -
    have "claim_postgres worker lease t (db w) = (Some (set_claimed worker lease t c), d')"
      using claim_postgres_eq [OF assms(2)] i stmt found by (simp add: d'_def)
    then have "jexec (claim_postgres worker lease t) ?w1 =
        (Inr (Some (set_claimed worker lease t c)), (step_tick ?w1)\<lparr>db := d'\<rparr>)"
      using assms(1) d'_ok by (subst exec_calm) simp_all
    with logged [of "(step_tick ?w1)\<lparr>db := d'\<rparr>"] assms(1) show ?thesis
      by (auto simp: claim_tx_postgres_def andThen_Inr_eq job_def [symmetric])
  qed
  have "affected (\<lambda>r. c_id r = i) (jobs (db w)) \<noteq> 0"
    using c id by (auto simp: affected_zero_iff first_in_queue_def)
  then obtain n where n: "affected (\<lambda>r. c_id r = i) (jobs (db w)) = Suc n" by (cases "affected (\<lambda>r. c_id r = i) (jobs (db w))") auto
  have sqlite: "\<exists>w2. claim_tx_sqlite worker lease t ?w1 = (Inr (Some job), w2) \<and> calm w2"
  proof -
    let ?w2 = "step_tick ?w1" let ?w3 = "(step_tick ?w2)\<lparr>db := d'\<rparr>" let ?w4 = "step_tick ?w3"
    have "query (select_candidate t) ?w1 = (Inr (Some i), ?w2)"
      using assms(1) i by (simp add: query_calm)
    moreover have "jexec (claim_sqlite worker lease t i) ?w2 = (Inr (Suc n), ?w3)"
      using assms(1) d'_ok n by (subst exec_calm) (simp_all add: stmt d'_def)
    moreover have "Get i ?w3 = (Inr job, ?w4)"
      using assms(1) found by (simp add: Get_def andThen_def query_calm job_def ret_def)
    ultimately show ?thesis
      using logged [of ?w4] assms(1) by (auto simp: claim_tx_sqlite_def andThen_Inr_eq)
  qed
  show thesis
  proof (cases "p = ''postgres''")
    case True
    from postgres obtain w2 where "claim_tx_postgres worker lease t ?w1 = (Inr (Some job), w2)" "calm w2"
      by blast
    with True assms(1) show thesis by (intro that [of job "step_tick w2"]) (simp add: TxMaybe_def)
  next
    case False
    from sqlite obtain w2 where "claim_tx_sqlite worker lease t ?w1 = (Inr (Some job), w2)" "calm w2"
      by blast
    with False assms(1) show thesis by (intro that [of job "step_tick w2"]) (simp add: TxMaybe_def)
  qed
qed

lemma ClaimNext_eq:
  "ClaimNext opts =
     andThen (case opt_Now opts of None \<Rightarrow> now | Some t \<Rightarrow> ret t) (\<lambda>t.
       andThen provider (\<lambda>p.
         andThen (TxMaybe (if p = ''postgres''
              then claim_tx_postgres (opt_WorkerID opts) (t + claim_lease opts) t
              else claim_tx_sqlite (opt_WorkerID opts) (t + claim_lease opts) t)) (\<lambda>r.
           case r of
             None \<Rightarrow> ret None
           | Some job \<Rightarrow> andThen (refresh_for job) (\<lambda>_. ret (Some job)))))"
  unfolding ClaimNext_def Let_def claim_lease_def ..

lemma claim_now:
  "(case opt_Now opts of None \<Rightarrow> now | Some t \<Rightarrow> ret t) w =
     (Inr (claim_time opts w), case opt_Now opts of None \<Rightarrow> step_tick w | Some _ \<Rightarrow> w)"
  by (cases "opt_Now opts") (auto simp: claim_time_def)

section \<open>Properties\<close>

text \<open>
  C1: \<open>ClaimNext\<close> keeps its promise on either dialect, under any clock and any faults: when it
  returns a job, that is the first claimable one in the order of the queue, now running under a new
  lease of this worker, with its attempt counted, its event written and every other job and lock
  untouched; when it returns no job, none was claimable and nothing changed.
\<close>

theorem ClaimNext_claims:
  assumes "ClaimNext opts w = (Inr r, w')" and "consistent (db w)"
  shows "claims (opt_WorkerID opts) (claim_time opts w + claim_lease opts) (claim_time opts w)
           (db w) (db w') r"
proof -
  define w0 where "w0 = (case opt_Now opts of None \<Rightarrow> step_tick w | Some _ \<Rightarrow> w)"
  have db0: "db w0 = db w" by (simp add: w0_def split: option.split)
  from assms(1) obtain r1 w1 where
    tx: "TxMaybe (if handle_Provider w0 = ''postgres''
        then claim_tx_postgres (opt_WorkerID opts) (claim_time opts w + claim_lease opts) (claim_time opts w)
        else claim_tx_sqlite (opt_WorkerID opts) (claim_time opts w + claim_lease opts) (claim_time opts w)) w0 =
      (Inr r1, w1)"
    and rest: "(case r1 of None \<Rightarrow> ret None
                | Some job \<Rightarrow> andThen (refresh_for job) (\<lambda>_. ret (Some job))) w1 = (Inr r, w')"
    unfolding ClaimNext_eq andThen_Inr_iff claim_now w0_def by auto
  have tables: "r = r1 \<and> jobs (db w') = jobs (db w1) \<and> job_locks (db w') = job_locks (db w1) \<and>
      job_events (db w') = job_events (db w1)"
    using rest by (auto simp: andThen_Inr_iff dest: refresh_for_core split: option.splits)
  from claim_tx_refines [OF tx] assms(2) db0 tables show ?thesis by (auto intro: claims_cong)
qed

lemma ClaimNext_claims_witness:
  "\<exists>opts w job w'. ClaimNext opts w = (Inr (Some job), w') \<and> consistent (db w) \<and>
     claims (opt_WorkerID opts) (claim_time opts w + claim_lease opts) (claim_time opts w)
       (db w) (db w') (Some job)"
proof -
  let ?opts = "\<lparr>opt_WorkerID = ''worker-1'', opt_Now = None, opt_LeaseDuration = 0\<rparr>"
  let ?w = "sample_world (sample_db [sample_row ''j1'' StatusQueued 0, sample_row ''j2'' StatusRunning 1])"
  have ok: "consistent (db ?w)" by code_simp
  have "map_option j_ID (case fst (ClaimNext ?opts ?w) of Inr r \<Rightarrow> r | Inl _ \<Rightarrow> None) = Some ''j1''"
    by code_simp
  then obtain job where "fst (ClaimNext ?opts ?w) = Inr (Some job)"
    by (auto split: sum.splits)
  then have run: "ClaimNext ?opts ?w = (Inr (Some job), snd (ClaimNext ?opts ?w))"
    by (metis prod.collapse)
  from run ok ClaimNext_claims [OF run ok] show ?thesis by blast
qed

text \<open>
  C7: when a job is claimable and no statement fails, \<open>ClaimNext\<close> returns a job: the claim's own
  update and event never violate the schema.
\<close>

theorem ClaimNext_succeeds:
  assumes "calm w" and "consistent (db w)" and "fresh_events w"
    and "x \<in> set (jobs (db w))" and "claimable (claim_time opts w) x"
  shows "\<exists>job. fst (ClaimNext opts w) = Inr (Some job)"
proof -
  define w0 where "w0 = (case opt_Now opts of None \<Rightarrow> step_tick w | Some _ \<Rightarrow> w)"
  have w0: "db w0 = db w" "calm w0" "ent w0 = ent w" "tick w \<le> tick w0"
    using assms(1) by (simp_all add: w0_def split: option.split)
  then have "fresh_events w0" using fresh_events_later [OF assms(3)] by simp
  with w0 assms obtain job w1 where
    "TxMaybe (if handle_Provider w0 = ''postgres''
        then claim_tx_postgres (opt_WorkerID opts) (claim_time opts w + claim_lease opts) (claim_time opts w)
        else claim_tx_sqlite (opt_WorkerID opts) (claim_time opts w + claim_lease opts) (claim_time opts w)) w0 =
      (Inr (Some job), w1)"
    using claim_tx_calm [of w0 x "claim_time opts w"] by metis
  moreover obtain w2 where "refresh_for job w1 = (Inr (), w2)"
    using refresh_for_core by (metis prod.exhaust)
  ultimately have "ClaimNext opts w = (Inr (Some job), w2)"
    unfolding ClaimNext_eq by (simp add: andThen_def claim_now w0_def [symmetric] ret_def provider_def)
  then show ?thesis by simp
qed

lemma ClaimNext_succeeds_witness:
  "\<exists>job. fst (ClaimNext \<lparr>opt_WorkerID = ''worker-1'', opt_Now = None, opt_LeaseDuration = 0\<rparr>
     (sample_world (sample_db [sample_row ''j1'' StatusQueued 0]))) = Inr (Some job)"
proof (rule ClaimNext_succeeds [where x = "sample_row ''j1'' StatusQueued 0"])
  show "consistent (db (sample_world (sample_db [sample_row ''j1'' StatusQueued 0])))" by code_simp
  show "calm (sample_world (sample_db [sample_row ''j1'' StatusQueued 0]))"
    by (simp add: calm_def sample_world_def)
  show "fresh_events (sample_world (sample_db [sample_row ''j1'' StatusQueued 0]))"
    by (simp add: fresh_events_def inj_sample_ids) (simp add: sample_db_def empty_db_def)
  show "sample_row ''j1'' StatusQueued 0 \<in> set (jobs (db (sample_world (sample_db [sample_row ''j1'' StatusQueued 0]))))"
    by (simp add: sample_db_def)
  show "claimable (claim_time \<lparr>opt_WorkerID = ''worker-1'', opt_Now = None, opt_LeaseDuration = 0\<rparr>
     (sample_world (sample_db [sample_row ''j1'' StatusQueued 0]))) (sample_row ''j1'' StatusQueued 0)"
    by code_simp
qed



end
