(* ===== verification/Job_Lease.thy ===== *)
theory Job_Lease
  imports Job_Consistency
begin

text \<open>
  What a worker does under its lease on a job (\<open>Start\<close>, \<open>Heartbeat\<close>, \<open>Complete\<close>, \<open>Requeue\<close>):
  every one of these writes is guarded by the lease, so a worker that has lost it changes nothing.
\<close>

section \<open>Without the lease\<close>

definition holds_lease :: "bytes \<Rightarrow> bytes \<Rightarrow> job_db \<Rightarrow> bool" where
  "holds_lease i worker d \<longleftrightarrow> (\<exists>r \<in> set (jobs d). leased_to i worker r)"

lemma no_lease_affected: "\<not> holds_lease i worker d \<Longrightarrow> affected (leased_to i worker) (jobs d) = 0"
  by (simp add: holds_lease_def affected_zero_iff)

lemma lease_affected: "holds_lease i worker d \<Longrightarrow> affected (leased_to i worker) (jobs d) \<noteq> 0"
  by (auto simp: holds_lease_def affected_zero_iff)

text \<open>A guarded statement that fails, or affects no row and makes the code give up.\<close>

lemma guarded_fails:
  assumes "fst (st (db w)) = (0::nat)"
  shows "\<exists>e. fst (andThen (exec chk st) (\<lambda>n. if n = 0 then fail err else rest n) w) = Inl e"
  using assms by (auto simp: andThen_def exec_def fail_def split: fault.split option.split)

lemma WithTx_guarded_fails:
  fixes w :: "'d world" and chk err rest
  assumes "fst (st (db w)) = (0::nat)"
  defines "tx \<equiv> WithTx (andThen (exec chk st) (\<lambda>n. if n = 0 then fail err else rest n))"
  shows "(\<exists>e. fst (tx (step_tick w)) = Inl e) \<and> db (snd (tx (step_tick w))) = db w"
proof -
  have "(\<exists>e. fst (tx (step_tick w)) = Inl e) \<and> db (snd (tx (step_tick w))) = db (step_tick w)"
    unfolding tx_def by (rule WithTx_body_fails) (rule guarded_fails, simp add: assms(1))
  then show ?thesis by simp
qed

lemma andThen_fails:
  "(\<exists>e. fst (m w) = Inl e) \<and> db (snd (m w)) = d \<Longrightarrow>
     (\<exists>e. fst (andThen m f w) = Inl e) \<and> db (snd (andThen m f w)) = d"
  by (cases "m w") (auto simp: andThen_def)

lemma now_andThen: "andThen now f w = f (clk w (tick w)) (step_tick w)"
  by (simp add: andThen_def now_def)

section \<open>With the lease\<close>

lemma leased_once:
  assumes "consistent d" and "r \<in> set (jobs d)" and "leased_to i worker r"
  shows "update_where (leased_to i worker) f (jobs d) = update_where (\<lambda>x. c_id x = i) f (jobs d)"
proof -
  have "leased_to i worker x = (c_id x = i)" if "x \<in> set (jobs d)" for x
    using that consistent_same_id [OF assms(1) that assms(2)] assms(3) by (auto simp: leased_to_def)
  then show ?thesis by (simp add: update_where_def)
qed

lemma updated_jobs_ids:
  assumes "\<And>x. c_id (f x) = c_id x"
  shows "c_id ` set (update_where P f xs) = c_id ` set xs"
  by (simp only: set_update_where image_image) (rule image_cong, rule refl, simp add: assms)

lemma releaseLocks_Inr_iff:
  "releaseLocks i worker t w = (Inr u, w') \<longleftrightarrow>
     flt w (tick w) = NoFault \<and> consistent (snd (release_locks i worker t (db w))) \<and>
     w' = (step_tick w)\<lparr>db := snd (release_locks i worker t (db w))\<rparr>"
  by (auto simp: releaseLocks_def andThen_Inr_iff exec_Inr_iff)

text \<open>The transaction that \<open>Complete\<close> and \<open>Requeue\<close> share: their update, the locks, the event.\<close>

definition close_attempt ::
    "(job_db \<Rightarrow> nat \<times> job_db) \<Rightarrow> bytes \<Rightarrow> bytes \<Rightarrow> instant \<Rightarrow> Event \<Rightarrow> (job_db, unit) io" where
  "close_attempt st i worker t event =
     WithTx (andThen (jexec st) (\<lambda>n.
       if n = 0 then fail (not_leased i worker)
       else andThen (releaseLocks i worker t) (\<lambda>_. addEvent event)))"

lemma close_attempt_Inr:
  assumes "close_attempt (update_jobs (leased_to i worker) f) i worker t event w = (Inr u, w')"
  shows "holds_lease i worker (db w)"
    and "jobs (db w') = update_where (leased_to i worker) f (jobs (db w))"
    and "job_locks (db w') = job_locks (snd (release_locks i worker t (db w)))"
    and "\<exists>e_id written. job_events (db w') = job_events (db w) @ [stored_event event e_id written]"
proof -
  let ?d = "snd (update_jobs (leased_to i worker) f (db w))"
  have "\<exists>w3 w4. addEvent event w3 = (Inr (), w4) \<and> affected (leased_to i worker) (jobs (db w)) \<noteq> 0 \<and>
      db w3 = snd (release_locks i worker t ?d) \<and> db w' = db w4"
    using assms
    by (fastforce simp: close_attempt_def WithTx_Inr_iff andThen_Inr_iff exec_Inr_iff releaseLocks_Inr_iff
        split: if_splits)
  then obtain w3 w4 where e: "addEvent event w3 = (Inr (), w4)"
    and n: "affected (leased_to i worker) (jobs (db w)) \<noteq> 0" and d: "db w3 = snd (release_locks i worker t ?d)"
    and w': "db w' = db w4"
    by blast
  from n show "holds_lease i worker (db w)"
    by (auto simp: holds_lease_def affected_zero_iff)
  from addEvent_Inr [OF e] obtain e_id written where
    "db w4 = (db w3)\<lparr>job_events := job_events (db w3) @ [stored_event event e_id written]\<rparr>" by blast
  with d w' show "jobs (db w') = update_where (leased_to i worker) f (jobs (db w))"
    and "job_locks (db w') = job_locks (snd (release_locks i worker t (db w)))"
    and "\<exists>e_id written. job_events (db w') = job_events (db w) @ [stored_event event e_id written]"
    by (simp_all add: release_locks_def) blast
qed

lemma close_attempt_calm:
  assumes "calm w" and "consistent (db w)" and "fresh_events w" and "holds_lease i worker (db w)"
    and "consistent (snd (update_jobs (leased_to i worker) f (db w)))"
    and "\<And>x. c_id (f x) = c_id x" and "\<forall>m. p \<noteq> Malformed m"
  shows "\<exists>w'. close_attempt (update_jobs (leased_to i worker) f) i worker t (mk_event i g et s worker p) w =
           (Inr (), w') \<and> calm w'"
proof -
  let ?d = "snd (update_jobs (leased_to i worker) f (db w))"
  let ?w1 = "step_tick w"
  let ?w2 = "(step_tick ?w1)\<lparr>db := ?d\<rparr>"
  let ?w3 = "(step_tick ?w2)\<lparr>db := snd (release_locks i worker t ?d)\<rparr>"
  obtain n where n: "affected (leased_to i worker) (jobs (db w)) = Suc n"
    using lease_affected [OF assms(4)] by (cases "affected (leased_to i worker) (jobs (db w))") auto
  have ok: "consistent (snd (release_locks i worker t ?d))"
    by (rule lock_updates_consistent(4) [OF assms(5)])
  have first: "jexec (update_jobs (leased_to i worker) f) ?w1 = (Inr (Suc n), ?w2)"
    using assms(1,5) n by (subst exec_calm) simp_all
  have second: "releaseLocks i worker t ?w2 = (Inr (), ?w3)"
    using assms(1) ok by (simp add: releaseLocks_Inr_iff)
  have "i \<in> c_id ` set (jobs (db w))"
    using assms(4) by (auto simp: holds_lease_def leased_to_def)
  then have "i \<in> c_id ` set (jobs (db ?w3))"
    by (simp add: release_locks_def updated_jobs_ids [OF assms(6)])
  moreover have "fresh_events ?w3"
    by (rule fresh_events_later [OF assms(3)]) (simp_all add: release_locks_def)
  ultimately obtain w4 where "addEvent (mk_event i g et s worker p) ?w3 = (Inr (), w4)" and "calm w4"
    using log_calm [of ?w3 i p g et s worker] assms(1,7) ok by auto
  with first second assms(1) show ?thesis
    by (simp add: close_attempt_def WithTx_def andThen_def)
qed

lemma Complete_eq:
  "Complete job worker s p m =
     andThen now (\<lambda>t.
       andThen (close_attempt
           (complete_update (j_ID job) worker s (safeJSONPayload (if p = Blank then Doc (JObject []) else p))
              (nullEmpty (safeMessage m)) t)
           (j_ID job) worker t
           (mk_event (j_ID job) (j_JobGroupID job) (complete_event_type s) s worker Blank))
         (\<lambda>_. refresh_for job))"
  by (simp add: Complete_def close_attempt_def Let_def)

definition retry_details :: "Job \<Rightarrow> bytes \<Rightarrow> instant \<Rightarrow> raw" where
  "retry_details job reason runAfter =
     eventPayloadDetails reason
       [(''error_code'', JString reason), (''lock_key'', JString (j_LockKey job)),
        (''retry_after'', time_json runAfter)]"

lemma Requeue_eq:
  "Requeue job worker reason runAfter =
     andThen now (\<lambda>t.
       andThen (close_attempt
           (requeue_update (j_ID job) worker runAfter (nullEmpty (safeMessage reason)) t)
           (j_ID job) worker t
           (mk_event (j_ID job) (j_JobGroupID job) EventRetryScheduled StatusQueued worker
              (retry_details job (safeMessage reason) runAfter)))
         (\<lambda>_. refresh_for job))"
  by (simp add: Requeue_def close_attempt_def retry_details_def Let_def)

lemma close_then_refresh:
  assumes "andThen now (\<lambda>t. andThen (close_attempt (update_jobs (leased_to (j_ID job) worker) (f t))
             (j_ID job) worker t (ev t)) (\<lambda>_. refresh_for job)) w = (Inr u, w')"
    and "consistent (db w)"
  shows "holds_lease (j_ID job) worker (db w)"
    and "jobs (db w') = update_where (\<lambda>r. c_id r = j_ID job) (f (clk w (tick w))) (jobs (db w))"
    and "job_locks (db w') =
           job_locks (snd (release_locks (j_ID job) worker (clk w (tick w)) (db w)))"
    and "\<exists>i written. job_events (db w') =
           job_events (db w) @ [stored_event (ev (clk w (tick w))) i written]"
proof -
  let ?t = "clk w (tick w)"
  from assms(1) obtain w1 where
    close: "close_attempt (update_jobs (leased_to (j_ID job) worker) (f ?t)) (j_ID job) worker ?t (ev ?t)
       (step_tick w) = (Inr (), w1)"
    and "refresh_for job w1 = (Inr u, w')"
    by (auto simp: now_andThen andThen_Inr_iff)
  note closed = close_attempt_Inr [OF close]
  have same: "jobs (db w') = jobs (db w1)" "job_locks (db w') = job_locks (db w1)"
    "job_events (db w') = job_events (db w1)"
    using refresh_for_core \<open>refresh_for job w1 = (Inr u, w')\<close> by blast+
  show "holds_lease (j_ID job) worker (db w)" using closed(1) by simp
  then obtain r where "r \<in> set (jobs (db w))" "leased_to (j_ID job) worker r"
    by (auto simp: holds_lease_def)
  with closed(2) same leased_once [OF assms(2)]
  show "jobs (db w') = update_where (\<lambda>r. c_id r = j_ID job) (f ?t) (jobs (db w))" by simp
  show "job_locks (db w') = job_locks (snd (release_locks (j_ID job) worker ?t (db w)))"
    using closed(3) same by simp
  show "\<exists>i written. job_events (db w') = job_events (db w) @ [stored_event (ev ?t) i written]"
    using closed(4) same by simp
qed

lemma close_then_refresh_calm:
  assumes "calm w" and "consistent (db w)" and "fresh_events w"
    and "holds_lease (j_ID job) worker (db w)"
    and "\<And>t. consistent (snd (update_jobs (leased_to (j_ID job) worker) (f t) (db w)))"
    and "\<And>t x. c_id (f t x) = c_id x" and "\<And>t m. p t \<noteq> Malformed m"
  shows "fst (andThen now (\<lambda>t. andThen (close_attempt (update_jobs (leased_to (j_ID job) worker) (f t))
     (j_ID job) worker t (mk_event (j_ID job) g et s worker (p t))) (\<lambda>_. refresh_for job)) w) = Inr ()"
proof -
  have "fresh_events (step_tick w)" by (rule fresh_events_later [OF assms(3)]) simp_all
  with assms obtain w1 where "close_attempt (update_jobs (leased_to (j_ID job) worker) (f (clk w (tick w))))
      (j_ID job) worker (clk w (tick w)) (mk_event (j_ID job) g et s worker (p (clk w (tick w))))
      (step_tick w) = (Inr (), w1)"
    using close_attempt_calm [of "step_tick w" "j_ID job" worker "f (clk w (tick w))" "p (clk w (tick w))"]
    by fastforce
  moreover obtain r w2 where "refresh_for job w1 = (r, w2)" by (cases "refresh_for job w1")
  ultimately show ?thesis
    using refresh_for_core [of job w1 r w2] by (simp add: now_andThen andThen_Inr_eq)
qed

lemma safe_payload_valid: "\<forall>m. p \<noteq> Malformed m \<Longrightarrow> p \<noteq> Blank \<Longrightarrow> json_valid (safeJSONPayload p)"
  by (cases p) (auto simp: safeJSONPayload_def)

lemma Complete_calm:
  assumes "calm w" and "consistent (db w)" and "fresh_events w"
    and "holds_lease (j_ID job) worker (db w)" and "terminal s" and "\<forall>x. p \<noteq> Malformed x"
  shows "fst (Complete job worker s p m w) = Inr ()"
proof -
  have "\<forall>x. (if p = Blank then Doc (JObject []) else p) \<noteq> Malformed x"
    and "(if p = Blank then Doc (JObject []) else p) \<noteq> Blank"
    using assms(6) by simp_all
  note valid = safe_payload_valid [OF this]
  show ?thesis
    unfolding Complete_eq complete_update_def
    by (rule close_then_refresh_calm [OF assms(1-4)])
      (use running_updates_consistent(3) [OF assms(2,5) valid] in
        \<open>simp_all add: complete_update_def\<close>)
qed

lemma Requeue_calm:
  assumes "calm w" and "consistent (db w)" and "fresh_events w"
    and "holds_lease (j_ID job) worker (db w)"
  shows "fst (Requeue job worker reason runAfter w) = Inr ()"
  unfolding Requeue_eq requeue_update_def
  by (rule close_then_refresh_calm [OF assms])
    (use running_updates_consistent(4) [OF assms(2)] in
      \<open>simp_all add: requeue_update_def set_queued_def retry_details_def eventPayloadDetails_def\<close>)

definition running_sample :: "job_db world" where
  "running_sample = sample_world (sample_db [sample_row ''j1'' StatusRunning 1]
     \<lparr>job_locks := [\<lparr>k_id = ''l1'', k_lock_key = ''repository:j1'', k_job_id = ''j1'',
        k_owner = ''worker-1'', k_status = LockHeld, k_created_at = 60 * second,
        k_expires_at = 90 * second, k_released_at = None\<rparr>]\<rparr>)"

abbreviation running_job :: Job where "running_job \<equiv> scanJob (sample_row ''j1'' StatusRunning 1)"

lemma running_sample_facts:
  "calm running_sample" "consistent (db running_sample)" "fresh_events running_sample"
  "holds_lease (j_ID running_job) ''worker-1'' (db running_sample)"
  "\<not> holds_lease (j_ID running_job) ''worker-2'' (db running_sample)"
proof -
  show "calm running_sample" by (simp add: calm_def running_sample_def sample_world_def)
  show "consistent (db running_sample)" by code_simp
  show "fresh_events running_sample"
    by (simp add: fresh_events_def running_sample_def inj_sample_ids)
      (simp add: sample_db_def empty_db_def)
  show "holds_lease (j_ID running_job) ''worker-1'' (db running_sample)" by code_simp
  show "\<not> holds_lease (j_ID running_job) ''worker-2'' (db running_sample)" by code_simp
qed

section \<open>Properties\<close>

text \<open>
  C2: a worker that has lost its lease on a job changes nothing: \<open>Start\<close>, \<open>Complete\<close> and
  \<open>Requeue\<close> return an error and \<open>Heartbeat\<close> finds no row, and in each case the database is as it
  was, whatever faults occur.
\<close>

theorem lease_required:
  assumes "\<not> holds_lease (j_ID job) worker (db w)"
  shows "(\<exists>e. fst (Start job worker w) = Inl e) \<and> db (snd (Start job worker w)) = db w \<and>
    (\<exists>e. fst (Complete job worker s p m w) = Inl e) \<and>
    db (snd (Complete job worker s p m w)) = db w \<and>
    (\<exists>e. fst (Requeue job worker reason runAfter w) = Inl e) \<and>
    db (snd (Requeue job worker reason runAfter w)) = db w \<and>
    db (snd (Heartbeat (j_ID job) worker l w)) = db w"
proof -
  have none: "fst (update_jobs (leased_to (j_ID job) worker) f (db w)) = 0" for f
    using no_lease_affected [OF assms] by simp
  have "(\<exists>e. fst (Start job worker w) = Inl e) \<and> db (snd (Start job worker w)) = db w"
    unfolding Start_def now_andThen start_update_def
    by (rule andThen_fails) (rule WithTx_guarded_fails, rule none)
  moreover have "(\<exists>e. fst (Complete job worker s p m w) = Inl e) \<and>
      db (snd (Complete job worker s p m w)) = db w"
    unfolding Complete_eq now_andThen close_attempt_def complete_update_def
    by (rule andThen_fails) (rule WithTx_guarded_fails, rule none)
  moreover have "(\<exists>e. fst (Requeue job worker reason runAfter w) = Inl e) \<and>
      db (snd (Requeue job worker reason runAfter w)) = db w"
    unfolding Requeue_eq now_andThen close_attempt_def requeue_update_def
    by (rule andThen_fails) (rule WithTx_guarded_fails, rule none)
  moreover have "snd (update_jobs (leased_to (j_ID job) worker) f (db w)) = db w" for f
    using no_lease_affected [OF assms] by (simp add: update_jobs_def update_where_idle)
  then have "db (snd (Heartbeat (j_ID job) worker l w)) = db w"
    unfolding Heartbeat_def now_andThen heartbeat_update_def
    using no_lease_affected [OF assms]
    by (auto simp: andThen_def exec_def ret_def split: fault.split option.split)
  ultimately show ?thesis by blast
qed

lemma lease_required_witness:
  "(\<exists>e. fst (Complete running_job ''worker-2'' StatusFailed Blank [] running_sample) = Inl e) \<and>
   db (snd (Complete running_job ''worker-2'' StatusFailed Blank [] running_sample)) = db running_sample"
  using lease_required [OF running_sample_facts(5)] by blast

text \<open>
  C8: a \<open>Complete\<close> that returns without error was made under the worker's lease; the job, and no
  other, now has the status, the redacted result and message and the time of its end; the locks that
  the worker held for it are released, no other lock is touched, and one event records it.
\<close>

theorem Complete_closes:
  assumes "Complete job worker s p m w = (Inr u, w')" and "consistent (db w)"
  shows "holds_lease (j_ID job) worker (db w) \<and>
    (let t = clk w (tick w);
         result = safeJSONPayload (if p = Blank then Doc (JObject []) else p)
     in jobs (db w') = update_where (\<lambda>r. c_id r = j_ID job)
          (\<lambda>r. r\<lparr>c_status := s, c_result_payload := Some result,
                 c_error_message := nullEmpty (safeMessage m), c_finished_at := Some t,
                 c_updated_at := t\<rparr>) (jobs (db w)) \<and>
        job_locks (db w') = update_where
          (\<lambda>k. k_job_id k = j_ID job \<and> k_owner k = worker \<and> k_status k = LockHeld)
          (\<lambda>k. k\<lparr>k_status := LockReleased, k_released_at := Some t\<rparr>) (job_locks (db w)) \<and>
        (\<exists>i written. job_events (db w') = job_events (db w) @
          [stored_event (mk_event (j_ID job) (j_JobGroupID job) (complete_event_type s) s worker Blank)
             i written]))"
  using close_then_refresh [OF assms(1) [unfolded Complete_eq complete_update_def] assms(2)]
  by (simp add: Let_def release_locks_def)

lemma Complete_closes_witness:
  "\<exists>w'. Complete running_job ''worker-1'' StatusSucceeded Blank [] running_sample = (Inr (), w') \<and>
     map k_status (job_locks (db w')) = [LockReleased]"
proof -
  have "fst (Complete running_job ''worker-1'' StatusSucceeded Blank [] running_sample) = Inr ()"
    by (rule Complete_calm [OF running_sample_facts(1-4)]) simp_all
  then obtain w' where
    run: "Complete running_job ''worker-1'' StatusSucceeded Blank [] running_sample = (Inr (), w')"
    by (metis prod.collapse)
  have "job_locks (db w') = update_where
      (\<lambda>k. k_job_id k = j_ID running_job \<and> k_owner k = ''worker-1'' \<and> k_status k = LockHeld)
      (\<lambda>k. k\<lparr>k_status := LockReleased,
              k_released_at := Some (clk running_sample (tick running_sample))\<rparr>)
      (job_locks (db running_sample))"
    using Complete_closes [OF run running_sample_facts(2)] by (simp add: Let_def)
  moreover have "map k_status (update_where
      (\<lambda>k. k_job_id k = j_ID running_job \<and> k_owner k = ''worker-1'' \<and> k_status k = LockHeld)
      (\<lambda>k. k\<lparr>k_status := LockReleased,
              k_released_at := Some (clk running_sample (tick running_sample))\<rparr>)
      (job_locks (db running_sample))) = [LockReleased]" by code_simp
  ultimately show ?thesis using run by auto
qed

text \<open>
  C9: a \<open>Requeue\<close> that returns without error puts the job, and no other, back in the queue for the
  given time: no lease, the same attempt count, the redacted reason as its message; the worker's locks
  for it are released and the retry is logged with its reason, lock key and time.
\<close>

theorem Requeue_returns:
  assumes "Requeue job worker reason runAfter w = (Inr u, w')" and "consistent (db w)"
  shows "holds_lease (j_ID job) worker (db w) \<and>
    (let t = clk w (tick w); shown = safeMessage reason
     in jobs (db w') = update_where (\<lambda>r. c_id r = j_ID job)
          (\<lambda>r. r\<lparr>c_status := StatusQueued, c_leased_by := None, c_lease_expires_at := None,
                 c_heartbeat_at := None, c_run_after := runAfter, c_updated_at := t,
                 c_error_message := nullEmpty shown\<rparr>) (jobs (db w)) \<and>
        job_locks (db w') = update_where
          (\<lambda>k. k_job_id k = j_ID job \<and> k_owner k = worker \<and> k_status k = LockHeld)
          (\<lambda>k. k\<lparr>k_status := LockReleased, k_released_at := Some t\<rparr>) (job_locks (db w)) \<and>
        (\<exists>i written. job_events (db w') = job_events (db w) @
          [stored_event (mk_event (j_ID job) (j_JobGroupID job) EventRetryScheduled StatusQueued worker
             (retry_details job shown runAfter)) i written]))"
  using close_then_refresh [OF assms(1) [unfolded Requeue_eq requeue_update_def] assms(2)]
  by (simp add: Let_def release_locks_def set_queued_def)

lemma Requeue_returns_witness:
  "\<exists>w'. Requeue running_job ''worker-1'' ''lock_contention'' (200 * second) running_sample = (Inr (), w') \<and>
     holds_lease (j_ID running_job) ''worker-1'' (db running_sample)"
proof -
  have "fst (Requeue running_job ''worker-1'' ''lock_contention'' (200 * second) running_sample) = Inr ()"
    by (rule Requeue_calm [OF running_sample_facts(1-4)])
  then obtain w' where
    run: "Requeue running_job ''worker-1'' ''lock_contention'' (200 * second) running_sample = (Inr (), w')"
    by (metis prod.collapse)
  with Requeue_returns [OF run running_sample_facts(2)] show ?thesis by blast
qed

text \<open>
  A worker that holds the lease can always close its attempt when no statement fails: completing
  with a terminal status and requeueing both return without error, for any result that is JSON.
\<close>

theorem attempt_can_be_closed:
  assumes "calm w" and "consistent (db w)" and "fresh_events w"
    and "holds_lease (j_ID job) worker (db w)" and "terminal s" and "\<forall>x. p \<noteq> Malformed x"
  shows "fst (Complete job worker s p m w) = Inr () \<and>
    fst (Requeue job worker reason runAfter w) = Inr ()"
  using Complete_calm [OF assms] Requeue_calm [OF assms(1-4)] by simp

lemma attempt_can_be_closed_witness:
  "fst (Complete running_job ''worker-1'' StatusFailed Blank ''gone'' running_sample) = Inr () \<and>
   fst (Requeue running_job ''worker-1'' ''later'' 0 running_sample) = Inr ()"
  by (rule attempt_can_be_closed [OF running_sample_facts(1-4)]) simp_all

end
