(* ===== verification/Job_Recovery.thy ===== *)
theory Job_Recovery
  imports Job_Lease
begin

text \<open>
  Retry delays, and what becomes of jobs whose lease has run out (\<open>RecoverExpiredLeases\<close>).
\<close>

section \<open>The retry delay\<close>

lemma backoff_loop_eq:
  "0 < d \<Longrightarrow> d < 5 * minute \<Longrightarrow> backoff_loop n d = min (d * 2 ^ n) (5 * minute)"
proof (induction n arbitrary: d)
  case 0
  then show ?case by simp
next
  case (Suc n)
  show ?case
  proof (cases "5 * minute \<le> 2 * d")
    case True
    have "(1::int) \<le> 2 ^ n" by simp
    then have "d * 1 \<le> d * 2 ^ n" using Suc.prems(1) by (intro mult_left_mono) auto
    then have "150 * second \<le> d * 2 ^ n" using True by linarith
    with True show ?thesis by simp
  next
    case False
    then show ?thesis using Suc.IH [of "2 * d"] Suc.prems by (simp add: mult_ac)
  qed
qed

lemma backoff_delay_eq: "backoff_delay a = min (5 * second * 2 ^ nat (a - 1)) (5 * minute)"
  by (simp add: backoff_delay_def Let_def backoff_loop_eq)

lemma backoff_delay_bounds: "5 * second \<le> backoff_delay a" "backoff_delay a \<le> 5 * minute"
proof -
  have "5 * second * 1 \<le> 5 * second * 2 ^ nat (a - 1)" by (intro mult_left_mono) auto
  then show "5 * second \<le> backoff_delay a" by (simp add: backoff_delay_eq)
qed (simp add: backoff_delay_eq)

lemma round_even_ge: "of_int n \<le> x \<Longrightarrow> n \<le> round_even x"
  using le_floor_iff [of n x] by (auto simp: round_even_def Let_def)

lemma bit_length_le: "n < 2 ^ k \<Longrightarrow> bit_length n \<le> k"
proof (induction k arbitrary: n)
  case 0
  then show ?case by (simp add: bit_length.simps)
next
  case (Suc k)
  then have "bit_length (n div 2) \<le> k" by (intro Suc.IH) (simp add: less_mult_imp_div_less)
  then show ?case by (simp add: bit_length.simps [of n])
qed

lemma float_round_ge:
  assumes "of_int n \<le> x" and "x < 2 ^ 53"
  shows "of_int n \<le> float_round x"
proof -
  have "\<lfloor>x\<rfloor> < 2 ^ 53" using assms(2) by (simp add: floor_less_iff)
  then have "nat \<lfloor>x\<rfloor> < 2 ^ 53"
    by (cases "0 \<le> \<lfloor>x\<rfloor>") (simp_all add: nat_less_iff)
  then have b: "bit_length (nat \<lfloor>x\<rfloor>) \<le> 53" by (rule bit_length_le)
  define k where "k = 53 - bit_length (nat \<lfloor>x\<rfloor>)"
  have "of_int (n * 2 ^ k) \<le> x * 2 ^ k" using assms(1) by (simp add: mult_right_mono)
  then have "n * 2 ^ k \<le> round_even (x * 2 ^ k)" by (rule round_even_ge)
  then have "(of_int (n * 2 ^ k) :: rat) \<le> of_int (round_even (x * 2 ^ k))"
    by (simp only: of_int_le_iff)
  then have "of_int n \<le> (of_int (round_even (x * 2 ^ k)) :: rat) / 2 ^ k"
    by (simp add: pos_le_divide_eq)
  with b show ?thesis by (simp add: float_round_def Let_def k_def)
qed

section \<open>Recovery touches expired leases only\<close>

definition expired_lease :: "instant \<Rightarrow> job_row \<Rightarrow> bool" where
  "expired_lease t r \<longleftrightarrow>
     c_status r = StatusRunning \<and> (case c_lease_expires_at r of None \<Rightarrow> False | Some l \<Rightarrow> l \<le> t)"

definition spares :: "instant \<Rightarrow> job_db \<Rightarrow> job_db \<Rightarrow> bool" where
  "spares t d d' \<longleftrightarrow>
     length (jobs d') = length (jobs d) \<and>
     (\<forall>i < length (jobs d). \<not> expired_lease t (jobs d ! i) \<longrightarrow> jobs d' ! i = jobs d ! i)"

interpretation sparing: state_order "spares t"
  by unfold_locales (auto simp: spares_def)

lemma spares_same_jobs: "jobs d' = jobs d \<Longrightarrow> spares t d d'"
  by (simp add: spares_def)

lemma spares_update:
  assumes "\<And>r. P r \<Longrightarrow> expired_lease t r"
  shows "spares t d (snd (update_jobs P f d))"
  using assms by (auto simp: spares_def update_where_def)

lemma same_core_spares: "keeps same_core m \<Longrightarrow> keeps (spares t) m"
  by (auto simp: keeps_def same_core_def spares_def)

lemma addEvent_spares: "keeps (spares t) (addEvent e)"
  unfolding addEvent_def
  by (auto intro!: sparing.keeps_andThen sparing.keeps_newID sparing.keeps_ret sparing.keeps_now
      sparing.keeps_exec spares_same_jobs split: option.split)

lemma expireJobLocks_spares: "keeps (spares t) (expireJobLocks i)"
  unfolding expireJobLocks_def
  by (intro sparing.keeps_andThen sparing.keeps_exec sparing.keeps_ret spares_same_jobs) simp

lemma recover_job_spares:
  assumes "\<And>l. j_LeaseExpiresAt job = Some l \<Longrightarrow> l \<le> t"
  shows "keeps (spares t) (recover_job rt jitter t job)"
proof -
  have st: "spares t d (snd (recover_update i owner l runAfter t' d))"
    "spares t d (snd (force_fail_update i owner l p m t' d))"
    if "j_LeaseExpiresAt job = Some l" for d i owner l runAfter t' p m
    unfolding recover_update_def force_fail_update_def
    using assms [OF that] by (auto intro!: spares_update simp: same_lease_def expired_lease_def)
  have refresh: "keeps (spares t) (refresh_for job)"
    by (rule same_core_spares [OF refresh_for_same_core])
  show ?thesis
    unfolding recover_job_def recoverToQueued_def forceFail_def lease_event_def
    by (auto intro!: sparing.keeps_andThen sparing.keeps_TxMaybe sparing.keeps_ret sparing.keeps_now
        sparing.keeps_exec st refresh addEvent_spares expireJobLocks_spares split: option.split)
qed

lemma keeps_for_each_in:
  assumes "state_order R" and "\<And>x. x \<in> set xs \<Longrightarrow> keeps R (f x)"
  shows "keeps R (for_each xs f)"
  using assms(2)
  by (induction xs)
    (auto intro!: state_order.keeps_ret [OF assms(1)] state_order.keeps_andThen [OF assms(1)])

lemma expired_leases_expired: "r \<in> set (expired_leases t d) \<Longrightarrow> r \<in> set (jobs d) \<and> expired_lease t r"
  unfolding expired_leases_def by (drule in_set_takeD) (simp add: expired_lease_def)

section \<open>Recovering one job\<close>

text \<open>No operation ever leaves a consistent database inconsistent.\<close>

interpretation sound: job_contract "\<lambda>d d'. consistent d \<longrightarrow> consistent d'"
  by unfold_locales auto

lemma refresh_for_framed: "framed (refresh_for job)"
  unfolding refresh_for_def RefreshWorkflowStatus_def Let_def
  by (auto intro!: framed_intros split: option.split)

definition recovered_row :: "instant \<Rightarrow> raw \<Rightarrow> instant \<Rightarrow> job_row \<Rightarrow> job_row" where
  "recovered_row runAfter failure t r =
     (if c_attempt_count r < c_max_attempts r then set_queued runAfter t r
      else r\<lparr>c_status := StatusFailed, c_result_payload := Some failure,
             c_error_message := Some (safeMessage exhausted_message), c_finished_at := Some t,
             c_updated_at := t\<rparr>)"

text \<open>The transaction that \<open>recoverToQueued\<close> and \<open>forceFail\<close> share.\<close>

definition settle ::
    "(instant \<Rightarrow> instant \<Rightarrow> job_db \<Rightarrow> nat \<times> job_db) \<Rightarrow> Job \<Rightarrow> bytes \<Rightarrow> event_type \<Rightarrow> status \<Rightarrow> (job_db, unit) io" where
  "settle st job worker et s =
     andThen (TxMaybe
       (case j_LeaseExpiresAt job of
          None \<Rightarrow> ret None
        | Some lease \<Rightarrow>
            andThen now (\<lambda>t.
            andThen (jexec (st lease t)) (\<lambda>n.
              if n = 0 then ret None
              else
                andThen (expireJobLocks (j_ID job)) (\<lambda>_.
                andThen (lease_event job EventLeaseExpired StatusRunning (j_LeasedBy job)) (\<lambda>_.
                andThen (lease_event job et s worker) (\<lambda>_.
                  ret (Some ()))))))))
       (\<lambda>r. case r of None \<Rightarrow> ret () | Some _ \<Rightarrow> refresh_for job)"

lemma recover_job_eq:
  "recover_job rt jitter t job =
     (if j_AttemptCount job < j_MaxAttempts job
      then settle (\<lambda>lease t'. recover_update (j_ID job) (j_LeasedBy job) lease
             (t + backoff (j_AttemptCount job) jitter) t')
             job (rt_workerID rt) EventRetryScheduled StatusQueued
      else settle (\<lambda>lease t'. force_fail_update (j_ID job) (j_LeasedBy job) lease
             (failure_of rt job ''transient_error'' exhausted_message) (safeMessage exhausted_message) t')
             job (rt_workerID rt) EventFailed StatusFailed)"
  unfolding recover_job_def recoverToQueued_def forceFail_def settle_def ..

lemma same_lease_once:
  assumes "consistent d" and "r \<in> set (jobs d)" and "same_lease (c_id r) owner lease r"
  shows "update_where (same_lease (c_id r) owner lease) f (jobs d) = update_where (\<lambda>x. c_id x = c_id r) f (jobs d)"
    and "affected (same_lease (c_id r) owner lease) (jobs d) \<noteq> 0"
proof -
  have "same_lease (c_id r) owner lease x = (c_id x = c_id r)" if "x \<in> set (jobs d)" for x
    using that consistent_same_id [OF assms(1) that assms(2)] assms(3) by (auto simp: same_lease_def)
  then show "update_where (same_lease (c_id r) owner lease) f (jobs d) =
      update_where (\<lambda>x. c_id x = c_id r) f (jobs d)"
    by (simp add: update_where_def)
  show "affected (same_lease (c_id r) owner lease) (jobs d) \<noteq> 0"
    using assms(2,3) by (auto simp: affected_zero_iff)
qed

lemma expireJobLocks_calm:
  assumes "calm w" and "consistent (db w)"
  shows "expireJobLocks i w = (Inr (), (step_tick w)\<lparr>db := snd (expire_job_locks i (db w))\<rparr>)"
  using assms lock_updates_consistent(3) [OF assms(2), of i]
  by (simp add: expireJobLocks_def andThen_def exec_calm ret_def)

lemma settle_calm:
  assumes "calm w" and "consistent (db w)" and "fresh_events w" and "r \<in> set (jobs (db w))"
    and "same_lease (c_id r) (coalesce (c_leased_by r)) lease r"
    and "\<And>t. st lease t = update_jobs (same_lease (c_id r) (coalesce (c_leased_by r)) lease) (f t)"
    and "\<And>t. consistent (snd (st lease t (db w)))" and "\<And>t x. c_id (f t x) = c_id x"
  shows "\<exists>w' t. settle st (scanJob r) worker et s w = (Inr (), w') \<and> calm w' \<and> consistent (db w') \<and>
    fresh_events w' \<and> jobs (db w') = update_where (\<lambda>x. c_id x = c_id r) (f t) (jobs (db w)) \<and>
    job_locks (db w') = job_locks (snd (expire_job_locks (c_id r) (db w)))"
proof -
  let ?P = "same_lease (c_id r) (coalesce (c_leased_by r)) lease"
  define t where "t = clk w (Suc (tick w))"
  define d1 where "d1 = snd (update_jobs ?P (f t) (db w))"
  define d2 where "d2 = snd (expire_job_locks (c_id r) d1)"
  let ?w1 = "step_tick w" let ?w2 = "step_tick ?w1" let ?w3 = "(step_tick ?w2)\<lparr>db := d1\<rparr>"
  let ?w4 = "(step_tick ?w3)\<lparr>db := d2\<rparr>"
  obtain n where n: "affected ?P (jobs (db w)) = Suc n"
    using same_lease_once(2) [OF assms(2,4,5)] by (cases "affected ?P (jobs (db w))") auto
  have d1: "consistent d1" using assms(7) [of t] by (simp add: d1_def assms(6))
  have d2: "consistent d2" unfolding d2_def by (rule lock_updates_consistent(3) [OF d1])
  have upd: "jexec (st lease t) ?w2 = (Inr (Suc n), ?w3)"
    using assms(1) d1 n by (subst exec_calm) (simp_all add: assms(6) d1_def)
  have locks: "expireJobLocks (c_id r) ?w3 = (Inr (), ?w4)"
    using expireJobLocks_calm [of ?w3 "c_id r"] assms(1) d1 by (simp add: d2_def)
  have "c_id r \<in> c_id ` set (jobs d2)"
    using assms(4) by (simp add: d2_def d1_def updated_jobs_ids [OF assms(8)])
  moreover have "fresh_events ?w4"
    by (rule fresh_events_later [OF assms(3)]) (simp_all add: d2_def d1_def expire_job_locks_def)
  ultimately obtain w5 where
    e1: "lease_event (scanJob r) EventLeaseExpired StatusRunning (coalesce (c_leased_by r)) ?w4 = (Inr (), w5)"
    and w5: "calm w5" "consistent (db w5)" "fresh_events w5" "jobs (db w5) = jobs d2"
      "job_locks (db w5) = job_locks d2"
    using log_calm [of ?w4 "c_id r" Blank "coalesce (c_job_group_id r)" EventLeaseExpired StatusRunning
        "coalesce (c_leased_by r)"] assms(1) d2
    by (auto simp: lease_event_def insert_event_def)
  moreover have "c_id r \<in> c_id ` set (jobs (db w5))"
    using \<open>c_id r \<in> c_id ` set (jobs d2)\<close> w5(4) by simp
  ultimately obtain w6 where
    e2: "lease_event (scanJob r) et s worker w5 = (Inr (), w6)"
    and w6: "calm w6" "consistent (db w6)" "fresh_events w6" "jobs (db w6) = jobs d2"
      "job_locks (db w6) = job_locks d2"
    using log_calm [of w5 "c_id r" Blank "coalesce (c_job_group_id r)" et s worker]
    by (auto simp: lease_event_def insert_event_def)
  obtain r7 w7 where refreshed: "refresh_for (scanJob r) (step_tick w6) = (r7, w7)"
    by (cases "refresh_for (scanJob r) (step_tick w6)")
  have lease: "c_lease_expires_at r = Some lease" using assms(5) by (simp add: same_lease_def)
  have "settle st (scanJob r) worker et s w = (Inr (), w7)"
    using assms(1) w6(1) upd locks e1 e2 refreshed refresh_for_core [OF refreshed]
    by (simp add: settle_def lease TxMaybe_def andThen_def now_def t_def ret_def)
  moreover note core = refresh_for_core [OF refreshed]
  moreover have "calm w7"
    using framed_calm [OF refresh_for_framed refreshed] w6(1) by simp
  moreover have "consistent (db w7)"
    using keepsD [OF sound.refresh_for_keeps refreshed] w6(2) by simp
  moreover have "fresh_events w7"
    by (rule fresh_events_later [OF w6(3)])
      (use framedD [OF refresh_for_framed refreshed] core in simp_all)
  moreover have "jobs d2 = update_where (\<lambda>x. c_id x = c_id r) (f t) (jobs (db w))"
    by (simp add: d2_def d1_def same_lease_once(1) [OF assms(2,4,5)])
  moreover have "job_locks d2 = job_locks (snd (expire_job_locks (c_id r) (db w)))"
    by (simp add: d2_def d1_def expire_job_locks_def)
  ultimately show ?thesis using w6 by auto
qed

definition recovery_failure :: "Runtime \<Rightarrow> job_row \<Rightarrow> raw" where
  "recovery_failure rt r = failure_of rt (scanJob r) ''transient_error'' exhausted_message"

definition recovery_time :: "instant \<Rightarrow> rat \<Rightarrow> job_row \<Rightarrow> instant" where
  "recovery_time t jitter r = t + backoff (c_attempt_count r) jitter"

lemma failure_json_valid: "json_valid (failure_of rt job code message)"
  by (simp add: failure_of_def failure_json_def)

lemma set_queued_id: "c_id (set_queued runAfter t r) = c_id r"
  by (simp add: set_queued_def)

lemma recover_job_calm:
  assumes "calm w" and "consistent (db w)" and "fresh_events w" and "r \<in> set (jobs (db w))"
    and "expired_lease t r" and "row_ok r"
  shows "\<exists>w' t'. recover_job rt jitter t (scanJob r) w = (Inr (), w') \<and> calm w' \<and> consistent (db w') \<and>
    fresh_events w' \<and>
    jobs (db w') = update_where (\<lambda>x. c_id x = c_id r)
      (\<lambda>x. if c_attempt_count r < c_max_attempts r then set_queued (recovery_time t jitter r) t' x
           else x\<lparr>c_status := StatusFailed, c_result_payload := Some (recovery_failure rt r),
             c_error_message := Some (safeMessage exhausted_message), c_finished_at := Some t',
             c_updated_at := t'\<rparr>) (jobs (db w)) \<and>
    job_locks (db w') = job_locks (snd (expire_job_locks (c_id r) (db w)))"
proof -
  obtain lease owner where row: "c_lease_expires_at r = Some lease" "c_leased_by r = Some owner"
    "c_status r = StatusRunning"
    using assms(5,6) by (auto simp: expired_lease_def row_ok_def split: option.splits)
  then have same: "same_lease (c_id r) (coalesce (c_leased_by r)) lease r" by (simp add: same_lease_def)
  show ?thesis
  proof (cases "c_attempt_count r < c_max_attempts r")
    case True
    have "consistent (snd (recover_update (c_id r) owner lease (recovery_time t jitter r) t' (db w)))" for t'
      by (rule recover_consistent [OF assms(2)])
    with True settle_calm [OF assms(1-4) same,
        of "\<lambda>l t'. recover_update (c_id r) owner l (recovery_time t jitter r) t'"
           "\<lambda>t'. set_queued (recovery_time t jitter r) t'"]
    show ?thesis
      by (simp add: recover_job_eq recover_update_def [abs_def] recovery_time_def row set_queued_id)
  next
    case False
    have "consistent (snd (force_fail_update (c_id r) owner lease (recovery_failure rt r)
        (safeMessage exhausted_message) t' (db w)))" for t'
      by (rule running_updates_consistent(5) [OF assms(2)])
        (simp add: recovery_failure_def failure_json_valid)
    with False settle_calm [OF assms(1-4) same,
        of "\<lambda>l t'. force_fail_update (c_id r) owner l (recovery_failure rt r) (safeMessage exhausted_message) t'"
           "\<lambda>t' x. x\<lparr>c_status := StatusFailed, c_result_payload := Some (recovery_failure rt r),
             c_error_message := Some (safeMessage exhausted_message), c_finished_at := Some t',
             c_updated_at := t'\<rparr>"]
    show ?thesis
      by (simp add: recover_job_eq force_fail_update_def [abs_def] recovery_failure_def row)
  qed
qed

text \<open>What recovery makes of a row, at some time of writing.\<close>

definition settled :: "Runtime \<Rightarrow> rat \<Rightarrow> instant \<Rightarrow> job_row \<Rightarrow> job_row \<Rightarrow> bool" where
  "settled rt jitter t r r' \<longleftrightarrow>
     (\<exists>t'. r' = recovered_row (recovery_time t jitter r) (recovery_failure rt r) t' r)"

lemma nth_update_where: "i < length xs \<Longrightarrow> update_where P f xs ! i = (if P (xs ! i) then f (xs ! i) else xs ! i)"
  by (simp add: update_where_def)

lemma recover_all_calm:
  assumes "calm w" and "consistent (db w)" and "fresh_events w"
    and "distinct rs" and "set rs \<subseteq> set (jobs (db w))" and "\<And>r. r \<in> set rs \<Longrightarrow> expired_lease t r \<and> row_ok r"
  shows "\<exists>w'. for_each (map scanJob rs) (recover_job rt jitter t) w = (Inr (), w') \<and>
    length (jobs (db w')) = length (jobs (db w)) \<and>
    (\<forall>i < length (jobs (db w)).
       if jobs (db w) ! i \<in> set rs then settled rt jitter t (jobs (db w) ! i) (jobs (db w') ! i)
       else jobs (db w') ! i = jobs (db w) ! i)"
  using assms
proof (induction rs arbitrary: w)
  case Nil
  then show ?case by simp
next
  case (Cons r rs)
  obtain w1 t' where run: "recover_job rt jitter t (scanJob r) w = (Inr (), w1)"
    and w1: "calm w1" "consistent (db w1)" "fresh_events w1"
    and jobs1: "jobs (db w1) = update_where (\<lambda>x. c_id x = c_id r)
      (\<lambda>x. if c_attempt_count r < c_max_attempts r then set_queued (recovery_time t jitter r) t' x
           else x\<lparr>c_status := StatusFailed, c_result_payload := Some (recovery_failure rt r),
             c_error_message := Some (safeMessage exhausted_message), c_finished_at := Some t',
             c_updated_at := t'\<rparr>) (jobs (db w))"
    using recover_job_calm [OF Cons.prems(1-3), of r t rt jitter] Cons.prems(5,6) by auto
  have r: "r \<in> set (jobs (db w))" using Cons.prems(5) by simp
  have len: "length (jobs (db w1)) = length (jobs (db w))" by (simp add: jobs1)
  have step: "jobs (db w1) ! i = (if jobs (db w) ! i = r
      then recovered_row (recovery_time t jitter r) (recovery_failure rt r) t' r else jobs (db w) ! i)"
    if "i < length (jobs (db w))" for i
  proof -
    have "jobs (db w) ! i \<in> set (jobs (db w))" using that by simp
    then have "c_id (jobs (db w) ! i) = c_id r \<longleftrightarrow> jobs (db w) ! i = r"
      using consistent_same_id [OF Cons.prems(2) _ r] by blast
    with that show ?thesis
      by (simp add: jobs1 nth_update_where recovered_row_def set_queued_def)
  qed
  have kept: "x \<in> set (jobs (db w1))" if "x \<in> set rs" for x
  proof -
    from that Cons.prems(5) obtain i where "i < length (jobs (db w))" "jobs (db w) ! i = x"
      by (metis in_set_conv_nth list.set_intros(2) subsetD)
    with step [of i] len that Cons.prems(4) show ?thesis by (metis distinct.simps(2) nth_mem)
  qed
  have "set rs \<subseteq> set (jobs (db w1))" using kept by blast
  from Cons.IH [OF w1 _ this] Cons.prems(4,6) obtain w2 where
    rest: "for_each (map scanJob rs) (recover_job rt jitter t) w1 = (Inr (), w2)"
    and len2: "length (jobs (db w2)) = length (jobs (db w1))"
    and all: "\<forall>i < length (jobs (db w1)).
       if jobs (db w1) ! i \<in> set rs then settled rt jitter t (jobs (db w1) ! i) (jobs (db w2) ! i)
       else jobs (db w2) ! i = jobs (db w1) ! i"
    by auto
  have new: "recovered_row (recovery_time t jitter r) (recovery_failure rt r) t' r \<notin> set rs"
  proof -
    have "c_status (recovered_row (recovery_time t jitter r) (recovery_failure rt r) t' r) \<noteq> StatusRunning"
      by (simp add: recovered_row_def set_queued_def)
    then show ?thesis using Cons.prems(6) by (auto simp: expired_lease_def)
  qed
  have "if jobs (db w) ! i \<in> set (r # rs) then settled rt jitter t (jobs (db w) ! i) (jobs (db w2) ! i)
      else jobs (db w2) ! i = jobs (db w) ! i" if i: "i < length (jobs (db w))" for i
    using all [rule_format, of i] step [OF i] new i len by (auto simp: settled_def split: if_splits)
  with run rest len len2 show ?case by (simp add: andThen_def)
qed

lemma consistent_distinct_jobs: "consistent d \<Longrightarrow> distinct (jobs d)"
  using consistent_ids unique_ids_iff by (metis distinct_map)

lemma expired_leases_distinct: "consistent d \<Longrightarrow> distinct (expired_leases t d)"
  using consistent_distinct_jobs [of d] by (simp add: expired_leases_def order_asc_def)

section \<open>Properties\<close>



text \<open>
  Recovery leaves the living alone. \<open>RecoverExpiredLeases\<close> changes no job but the running ones
  whose lease had ended when it began, whatever faults occur and in whichever order it is cut off.
\<close>

theorem RecoverExpiredLeases_spares:
  "length (jobs (db (snd (RecoverExpiredLeases rt jitter w)))) = length (jobs (db w)) \<and>
   (\<forall>i < length (jobs (db w)). \<not> expired_lease (clk w (tick w)) (jobs (db w) ! i) \<longrightarrow>
      jobs (db (snd (RecoverExpiredLeases rt jitter w))) ! i = jobs (db w) ! i)"
proof -
  let ?t = "clk w (tick w)"
  let ?rest = "andThen (query (\<lambda>d. map scanJob (expired_leases ?t d)))
      (\<lambda>expiredJobs. for_each expiredJobs (recover_job rt jitter ?t))"
  have each: "keeps (spares ?t) (for_each (map scanJob (expired_leases ?t d)) (recover_job rt jitter ?t))" for d
  proof (rule keeps_for_each_in)
    fix job assume "job \<in> set (map scanJob (expired_leases ?t d))"
    then show "keeps (spares ?t) (recover_job rt jitter ?t job)"
      by (intro recover_job_spares)
        (auto dest!: expired_leases_expired simp: expired_lease_def split: option.splits)
  qed (rule sparing.state_order_axioms)
  obtain r w1 where "query (\<lambda>d. map scanJob (expired_leases ?t d)) (step_tick w) = (r, w1)"
    and w1: "db w1 = db w" and r: "\<And>xs. r = Inr xs \<Longrightarrow> xs = map scanJob (expired_leases ?t (db w))"
    by (cases "flt w (Suc (tick w)) = NoFault") (auto simp: query_def)
  moreover have "spares ?t (db w) (db (snd (for_each (map scanJob (expired_leases ?t (db w)))
      (recover_job rt jitter ?t) w1)))"
    using each w1 by (metis keeps_def)
  ultimately have "spares ?t (db w) (db (snd (?rest (step_tick w))))"
    using sparing.order_refl by (cases r) (auto simp: andThen_def)
  then show ?thesis by (simp add: RecoverExpiredLeases_def now_andThen spares_def)
qed

text \<open>
  C10: recovery does its work. When nothing fails, each of the first fifty jobs with an ended lease is
  put back in the queue, without a lease and to run after its retry delay, or failed with a message
  when its attempts are used up; no other job changes.
\<close>

theorem RecoverExpiredLeases_settles:
  assumes "calm w" and "consistent (db w)" and "fresh_events w" and "\<forall>r \<in> set (jobs (db w)). row_ok r"
  shows "let t = clk w (tick w); (r, w') = RecoverExpiredLeases rt jitter w
    in r = Inr () \<and>
       (\<forall>i < length (jobs (db w)).
          if jobs (db w) ! i \<in> set (expired_leases t (db w))
          then settled rt jitter t (jobs (db w) ! i) (jobs (db w') ! i)
          else jobs (db w') ! i = jobs (db w) ! i)"
proof -
  let ?t = "clk w (tick w)"
  let ?w2 = "step_tick (step_tick w)"
  have "fresh_events ?w2" by (rule fresh_events_later [OF assms(3)]) simp_all
  moreover have "\<And>r. r \<in> set (expired_leases ?t (db w)) \<Longrightarrow> expired_lease ?t r \<and> row_ok r"
    and "set (expired_leases ?t (db w)) \<subseteq> set (jobs (db ?w2))"
    using expired_leases_expired [of _ ?t "db w"] assms(4) by auto
  ultimately obtain w' where
    run: "for_each (map scanJob (expired_leases ?t (db w))) (recover_job rt jitter ?t) ?w2 = (Inr (), w')"
    and all: "\<forall>i < length (jobs (db w)).
       if jobs (db w) ! i \<in> set (expired_leases ?t (db w))
       then settled rt jitter ?t (jobs (db w) ! i) (jobs (db w') ! i)
       else jobs (db w') ! i = jobs (db w) ! i"
    using recover_all_calm [of ?w2 "expired_leases ?t (db w)" ?t rt jitter] assms(1,2)
      expired_leases_distinct [OF assms(2)] unfolding db_step_tick calm_step by auto
  have "RecoverExpiredLeases rt jitter w = (Inr (), w')"
    unfolding RecoverExpiredLeases_def now_andThen
    using run assms(1) by (simp add: andThen_def query_calm)
  with all show ?thesis by simp
qed

definition sample_runtime :: Runtime where
  "sample_runtime = \<lparr>rt_handlers = (\<lambda>_. None), rt_afterComplete = None, rt_workerID = ''worker-1'',
     rt_pollInterval = second, rt_leaseDuration = 30 * second, rt_heartbeatInterval = 10 * second,
     rt_heartbeatTimeout = 5 * second, rt_retentionInterval = 60 * minute,
     rt_retentionTTL = 43200 * minute, rt_concurrency = 1\<rparr>"

lemma RecoverExpiredLeases_settles_witness:
  "fst (RecoverExpiredLeases sample_runtime 1 running_sample) = Inr ()"
proof -
  have "\<forall>r \<in> set (jobs (db running_sample)). row_ok r" by code_simp
  from RecoverExpiredLeases_settles [OF running_sample_facts(1-3) this] show ?thesis
    by (simp add: case_prod_beta Let_def)
qed

lemma RecoverExpiredLeases_spares_witness:
  "jobs (db (snd (RecoverExpiredLeases sample_runtime 1
       (sample_world (sample_db [sample_row ''j1'' StatusQueued 0]))))) ! 0 = sample_row ''j1'' StatusQueued 0"
proof -
  let ?w = "sample_world (sample_db [sample_row ''j1'' StatusQueued 0])"
  have "jobs (db ?w) = [sample_row ''j1'' StatusQueued 0]" by (simp add: sample_db_def)
  moreover have "\<not> expired_lease (clk ?w (tick ?w)) (sample_row ''j1'' StatusQueued 0)"
    by (simp add: expired_lease_def sample_row_def)
  ultimately show ?thesis using RecoverExpiredLeases_spares [of sample_runtime 1 ?w] by simp
qed

end
