(* ===== verification/Job_Exclusion.thy ===== *)
theory Job_Exclusion
  imports Job_Lease
begin

text \<open>
  Mutual exclusion: the lock of a key is held by one job at a time (\<open>AcquireLock\<close>), it cannot be
  taken while its lease runs, and a heartbeat keeps it.
\<close>

definition live_lock :: "instant \<Rightarrow> bytes \<Rightarrow> lock_row \<Rightarrow> bool" where
  "live_lock t key k \<longleftrightarrow> k_lock_key k = key \<and> k_status k = LockHeld \<and> t < k_expires_at k"

definition taken_lock :: "Job \<Rightarrow> bytes \<Rightarrow> duration \<Rightarrow> instant \<Rightarrow> bytes \<Rightarrow> lock_row" where
  "taken_lock job worker l t i =
     \<lparr>k_id = i, k_lock_key = j_LockKey job, k_job_id = j_ID job, k_owner = worker,
      k_status = LockHeld, k_created_at = t, k_expires_at = t + l, k_released_at = None\<rparr>"

definition expired_at :: "instant \<Rightarrow> lock_row list \<Rightarrow> lock_row list" where
  "expired_at t = update_where (\<lambda>r. k_status r = LockHeld \<and> k_expires_at r \<le> t)
     (\<lambda>r. r\<lparr>k_status := LockExpired\<rparr>)"

lemma live_lock_survives:
  "k \<in> set ks \<Longrightarrow> live_lock t key k \<Longrightarrow> k \<in> set (expired_at t ks)"
  by (auto simp: expired_at_def set_update_where live_lock_def image_iff)

lemma held_after_expiry:
  assumes "k \<in> set (expired_at t ks)" and "k_status k = LockHeld"
  shows "k \<in> set ks \<and> t < k_expires_at k"
  using assms by (auto simp: expired_at_def set_update_where split: if_splits)

lemma expire_locks_locks: "job_locks (snd (expire_locks t d)) = expired_at t (job_locks d)"
  by (simp add: expire_locks_def expired_at_def)

lemma insert_lock_locks:
  "job_locks (snd (insert_lock k d)) = job_locks d @ [k]"
  "job_events (snd (insert_lock k d)) = job_events d"
  by (simp_all add: insert_lock_def)

lemma ExpireLocks_Inr_iff:
  "ExpireLocks t w = (Inr u, w') \<longleftrightarrow>
     flt w (tick w) = NoFault \<and> consistent (snd (expire_locks t (db w))) \<and>
     w' = (step_tick w)\<lparr>db := snd (expire_locks t (db w))\<rparr>"
  by (auto simp: ExpireLocks_def andThen_Inr_iff exec_Inr_iff)

lemma AcquireLock_eq:
  "j_LockKey job \<noteq> [] \<Longrightarrow> AcquireLock job worker l =
     andThen now (\<lambda>t. andThen (ExpireLocks t) (\<lambda>_. andThen (newID ''lock'') (\<lambda>i.
       outcome (jexec (insert_lock (taken_lock job worker l t i)))
         (\<lambda>r. case r of
             Inr _ \<Rightarrow> ret True
           | Inl e \<Rightarrow> if isUniqueConstraintError e then ret False else fail e))))"
  by (simp add: AcquireLock_def taken_lock_def)

lemma AcquireLock_cases:
  assumes "AcquireLock job worker l w = (Inr b, w')" and "j_LockKey job \<noteq> []"
  obtains (taken) i where "b" and "job_locks (db w') =
      expired_at (clk w (tick w)) (job_locks (db w)) @ [taken_lock job worker l (clk w (tick w)) i]"
    and "jobs (db w') = jobs (db w)" and "consistent (db w')"
  | (refused) "\<not> b" and "job_locks (db w') = expired_at (clk w (tick w)) (job_locks (db w))"
    and "jobs (db w') = jobs (db w)"
proof -
  let ?t = "clk w (tick w)"
  let ?d = "snd (expire_locks ?t (db w))"
  let ?w2 = "(step_tick (step_tick w))\<lparr>db := ?d\<rparr>"
  let ?i = "''lock_'' @ ent w (tick ?w2)"
  let ?w3 = "step_tick ?w2"
  have run: "outcome (jexec (insert_lock (taken_lock job worker l ?t ?i)))
      (\<lambda>r. case r of Inr _ \<Rightarrow> ret True
           | Inl e \<Rightarrow> if isUniqueConstraintError e then ret False else fail e) ?w3 = (Inr b, w')"
    using assms(1) unfolding AcquireLock_eq [OF assms(2)]
    by (auto simp: now_andThen andThen_Inr_iff ExpireLocks_Inr_iff newID_def)
  obtain r w4 where ins: "jexec (insert_lock (taken_lock job worker l ?t ?i)) ?w3 = (r, w4)"
    by (cases "jexec (insert_lock (taken_lock job worker l ?t ?i)) ?w3")
  show thesis
  proof (cases r)
    case (Inr u)
    with run ins have "b" and "w' = w4" by (simp_all add: outcome_def)
    with ins Inr show thesis
      by (intro taken [of ?i])
        (auto simp: exec_Inr_iff insert_lock_locks expire_locks_locks)
  next
    case (Inl e)
    with run ins have "isUniqueConstraintError e" and "\<not> b" and "w' = w4"
      by (auto simp: outcome_def split: if_splits)
    moreover from this(1) Inl ins have "db w4 = ?d"
      using fault_not_unique by (auto simp: exec_def split: fault.splits option.splits if_splits)
    ultimately show thesis by (intro refused) (simp_all add: expire_locks_locks)
  qed
qed

section \<open>Properties\<close>

text \<open>
  C5: mutual exclusion. \<open>AcquireLock\<close> answers true only when no live lock of the key existed; then
  the job's new lock is the only one held for that key. Whatever it answers, live locks of other
  holders stay as they are, and the jobs are untouched.
\<close>

theorem AcquireLock_exclusive:
  assumes "AcquireLock job worker l w = (Inr b, w')" and "j_LockKey job \<noteq> []"
  shows "jobs (db w') = jobs (db w) \<and>
    (\<forall>key. \<forall>k \<in> set (job_locks (db w)). live_lock (clk w (tick w)) key k \<longrightarrow> k \<in> set (job_locks (db w'))) \<and>
    (b \<longrightarrow>
       (\<forall>k \<in> set (job_locks (db w)). \<not> live_lock (clk w (tick w)) (j_LockKey job) k) \<and>
       (\<exists>i. \<forall>k. k \<in> set (job_locks (db w')) \<and> k_status k = LockHeld \<and> k_lock_key k = j_LockKey job \<longleftrightarrow>
              k = taken_lock job worker l (clk w (tick w)) i))"
  using assms
proof (cases rule: AcquireLock_cases)
  case (taken i)
  let ?t = "clk w (tick w)"
  let ?new = "taken_lock job worker l ?t i"
  let ?old = "expired_at ?t (job_locks (db w))"
  have "unique_by held_index (?old @ [?new])"
    using taken(2,4) by (simp add: consistent_iff uniques_ok_def)
  moreover have new: "held_index ?new = Some (j_LockKey job)" "k_status ?new = LockHeld"
    "k_lock_key ?new = j_LockKey job"
    by (simp_all add: held_index_def taken_lock_def)
  ultimately have none: "held_index k \<noteq> Some (j_LockKey job)" if "k \<in> set ?old" for k
    using that by (simp add: unique_by_snoc)
  have "\<not> live_lock ?t (j_LockKey job) k" if "k \<in> set (job_locks (db w))" for k
    using none live_lock_survives that by (force simp: held_index_def live_lock_def)
  moreover have "k \<in> set (job_locks (db w')) \<and> k_status k = LockHeld \<and> k_lock_key k = j_LockKey job \<longleftrightarrow>
      k = ?new" for k
    using none [of k] new by (auto simp: taken(2) held_index_def)
  moreover have "k \<in> set (job_locks (db w'))"
    if "k \<in> set (job_locks (db w))" "live_lock ?t key k" for k key
    using live_lock_survives [OF that] taken(2) by simp
  ultimately show ?thesis using taken(3) by blast
next
  case refused
  then show ?thesis using live_lock_survives by simp
qed

lemma AcquireLock_exclusive_witness:
  "\<exists>w w'. AcquireLock running_job ''worker-1'' (30 * second) w = (Inr True, w') \<and>
     (\<exists>i. \<forall>k. k \<in> set (job_locks (db w')) \<and> k_status k = LockHeld \<and>
        k_lock_key k = j_LockKey running_job \<longleftrightarrow>
        k = taken_lock running_job ''worker-1'' (30 * second) (clk w (tick w)) i)"
proof -
  have "fst (AcquireLock running_job ''worker-1'' (30 * second) running_sample) = Inr True"
    and key: "j_LockKey running_job \<noteq> []" by code_simp+
  then obtain w' where
    run: "AcquireLock running_job ''worker-1'' (30 * second) running_sample = (Inr True, w')"
    by (metis prod.collapse)
  with AcquireLock_exclusive [OF run key] show ?thesis by blast
qed

text \<open>
  A lock can be had. When nothing fails, the job exists, the new identifier is unused and no live
  lock of the key stands, \<open>AcquireLock\<close> answers true, even over locks whose lease has run out.
\<close>

theorem AcquireLock_available:
  assumes "calm w" and "consistent (db w)" and "j_ID job \<in> c_id ` set (jobs (db w))"
    and "\<forall>n. ''lock_'' @ ent w n \<notin> k_id ` set (job_locks (db w))"
    and "\<forall>k \<in> set (job_locks (db w)). \<not> live_lock (clk w (tick w)) (j_LockKey job) k"
  shows "fst (AcquireLock job worker l w) = Inr True"
proof (cases "j_LockKey job = []")
  case True
  then show ?thesis by (simp add: AcquireLock_def ret_def)
next
  case False
  let ?t = "clk w (tick w)"
  let ?d = "snd (expire_locks ?t (db w))"
  let ?w2 = "(step_tick (step_tick w))\<lparr>db := ?d\<rparr>"
  let ?i = "''lock_'' @ ent w (tick ?w2)"
  let ?new = "taken_lock job worker l ?t ?i"
  have d: "consistent ?d" by (rule lock_updates_consistent(2) [OF assms(2)])
  have "?i \<notin> k_id ` set (expired_at ?t (job_locks (db w)))"
    using assms(4) by (force simp: expired_at_def set_update_where)
  then have "k_id k \<noteq> k_id ?new" if "k \<in> set (job_locks ?d)" for k
    using that by (metis expire_locks_locks image_eqI lock_row.select_convs(1) taken_lock_def)
  then have "unique_by (\<lambda>k. Some (k_id k)) (job_locks ?d @ [?new])"
    using d by (simp add: consistent_iff uniques_ok_def unique_by_snoc)
  moreover have "held_index k \<noteq> Some (j_LockKey job)" if "k \<in> set (job_locks ?d)" for k
    using that held_after_expiry [of k ?t "job_locks (db w)"] assms(5)
    by (auto simp: expire_locks_locks held_index_def live_lock_def)
  then have "unique_by held_index (job_locks ?d @ [?new])"
    using d by (simp add: consistent_iff uniques_ok_def unique_by_snoc held_index_def taken_lock_def)
  ultimately have "uniques_ok (snd (insert_lock ?new ?d))"
    using d by (simp add: consistent_iff uniques_ok_def insert_lock_def)
  moreover have "checks_ok (snd (insert_lock ?new ?d))"
    using d by (simp add: consistent_iff checks_ok_def insert_lock_def)
  moreover have "foreign_keys_ok (snd (insert_lock ?new ?d))"
    using d assms(3)
    unfolding consistent_iff foreign_keys_ok_def jobs_of_lock_statements insert_lock_locks
    by (simp add: taken_lock_def)
  ultimately have "consistent (snd (insert_lock ?new ?d))" by (simp add: consistent_iff)
  then have "jexec (insert_lock ?new) (step_tick ?w2) =
      (Inr (), (step_tick (step_tick ?w2))\<lparr>db := snd (insert_lock ?new ?d)\<rparr>)"
    using assms(1) by (subst exec_calm) (simp_all add: insert_lock_def)
  moreover have "ExpireLocks ?t (step_tick w) = (Inr (), ?w2)"
    using assms(1) d by (simp add: ExpireLocks_Inr_iff)
  moreover have "newID ''lock'' ?w2 = (Inr ?i, step_tick ?w2)" by (simp add: newID_def)
  ultimately show ?thesis
    by (simp only: AcquireLock_eq [OF False] now_andThen andThen_Inr_eq outcome_eq) (simp add: ret_def)
qed

lemma AcquireLock_available_witness:
  "fst (AcquireLock running_job ''worker-2'' (30 * second) running_sample) = Inr True"
proof (rule AcquireLock_available [OF running_sample_facts(1,2)])
  show "j_ID running_job \<in> c_id ` set (jobs (db running_sample))" by code_simp
  show "\<forall>n. ''lock_'' @ ent running_sample n \<notin> k_id ` set (job_locks (db running_sample))"
    by (simp add: running_sample_def)
  show "\<forall>k \<in> set (job_locks (db running_sample)).
      \<not> live_lock (clk running_sample (tick running_sample)) (j_LockKey running_job) k"
    by code_simp
qed

text \<open>
  A heartbeat under the lease renews both: the job's lease and every lock that the worker holds
  for it now end one lease duration after the heartbeat, and nothing else changes.
\<close>

theorem Heartbeat_renews:
  assumes "Heartbeat i worker l w = (Inr u, w')" and "consistent (db w)" and "holds_lease i worker (db w)"
  shows "jobs (db w') = update_where (\<lambda>r. c_id r = i)
      (\<lambda>r. r\<lparr>c_heartbeat_at := Some (clk w (tick w)), c_lease_expires_at := Some (clk w (tick w) + l),
             c_updated_at := clk w (tick w)\<rparr>) (jobs (db w)) \<and>
    job_locks (db w') = update_where (\<lambda>k. k_job_id k = i \<and> k_owner k = worker \<and> k_status k = LockHeld)
      (\<lambda>k. k\<lparr>k_expires_at := clk w (tick w) + l\<rparr>) (job_locks (db w)) \<and>
    job_events (db w') = job_events (db w)"
proof -
  obtain r where "r \<in> set (jobs (db w))" "leased_to i worker r"
    using assms(3) by (auto simp: holds_lease_def)
  note once = leased_once [OF assms(2) this]
  from assms(1) lease_affected [OF assms(3)] show ?thesis
    by (auto simp: Heartbeat_def now_andThen andThen_Inr_iff exec_Inr_iff heartbeat_update_def
        ExtendLocks_def extend_locks_def once)
qed

lemma Heartbeat_renews_witness:
  "\<exists>w'. Heartbeat (j_ID running_job) ''worker-1'' (30 * second) running_sample = (Inr (), w') \<and>
     map c_lease_expires_at (jobs (db w')) = [Some (130 * second)]"
proof -
  have "fst (Heartbeat (j_ID running_job) ''worker-1'' (30 * second) running_sample) = Inr ()"
    by code_simp
  then obtain w' where
    run: "Heartbeat (j_ID running_job) ''worker-1'' (30 * second) running_sample = (Inr (), w')"
    by (metis prod.collapse)
  with Heartbeat_renews [OF run running_sample_facts(2,4)] show ?thesis
    by (simp add: running_sample_def sample_db_def sample_row_def)
qed

end
