(* ===== verification/Job_Enqueue.thy ===== *)
theory Job_Enqueue
  imports Job_Consistency
begin

text \<open>
  Enqueueing: what \<open>prepareEnqueue\<close> hands on, when a job is appended, and when an idempotency key or
  an active repository operation stands in the way.
\<close>

section \<open>Preparing a request\<close>

definition prepared :: "EnqueueRequest \<Rightarrow> instant \<Rightarrow> bytes \<Rightarrow> EnqueueRequest" where
  "prepared req0 t i = request_group (request_defaults t (req0\<lparr>req_ID := i\<rparr>))"

definition request_actor :: "EnqueueRequest \<Rightarrow> bytes" where
  "request_actor req0 = (if blank (req_Actor req0) then ''system'' else req_Actor req0)"

text \<open>The row that an idempotency key already stands for.\<close>

definition same_request :: "EnqueueRequest \<Rightarrow> job_row \<Rightarrow> bool" where
  "same_request req0 r \<longleftrightarrow>
     req_IdempotencyKey req0 \<noteq> [] \<and> c_actor r = Some (request_actor req0) \<and>
     c_job_type r = req_JobType req0 \<and> c_idempotency_key r = Some (req_IdempotencyKey req0)"

definition request_payload :: "EnqueueRequest \<Rightarrow> raw" where
  "request_payload req0 = (if req_Payload req0 = Blank then Doc (JObject []) else req_Payload req0)"

lemma prepared_simps [simp]:
  "req_ID (prepared req0 t i) = i" "req_JobType (prepared req0 t i) = req_JobType req0"
  "req_Actor (prepared req0 t i) = request_actor req0"
  "req_IdempotencyKey (prepared req0 t i) = req_IdempotencyKey req0"
  "req_LockKey (prepared req0 t i) = req_LockKey req0"
  "req_Payload (prepared req0 t i) = request_payload req0"
  by (simp_all add: prepared_def request_group_def request_defaults_def request_actor_def
      request_payload_def Let_def)

lemma jobs_by_idempotency_same:
  "jobs_by_idempotency (request_actor req0) (req_JobType req0) (req_IdempotencyKey req0) d = Some r \<Longrightarrow>
     req_IdempotencyKey req0 \<noteq> [] \<Longrightarrow> r \<in> set (jobs d) \<and> same_request req0 r"
  unfolding jobs_by_idempotency_def same_request_def by (drule first_row_in) simp

lemma jobs_by_idempotency_None:
  "jobs_by_idempotency (request_actor req0) (req_JobType req0) (req_IdempotencyKey req0) d = None \<Longrightarrow>
     r \<in> set (jobs d) \<Longrightarrow> \<not> same_request req0 r"
  by (auto simp: jobs_by_idempotency_def same_request_def filter_empty_conv)

lemma findByIdempotency_db: "db (snd (findByIdempotency a ty k w)) = db w"
  by (auto simp: findByIdempotency_def andThen_def query_def ret_def fail_def split: option.split)

lemma findByIdempotency_cases:
  assumes "findByIdempotency a ty k w = (r, w')"
  obtains (lost) "r = Inl fault_error"
  | (absent) "r = Inl ENotFound" and "jobs_by_idempotency a ty k (db w) = None"
  | (found) row where "r = Inr (scanJob row)" and "jobs_by_idempotency a ty k (db w) = Some row"
  using assms
  by (cases "jobs_by_idempotency a ty k (db w)")
    (auto simp: findByIdempotency_def andThen_def query_def ret_def fail_def split: if_splits)

definition id_for :: "EnqueueRequest \<Rightarrow> (job_db, bytes) io" where
  "id_for req0 = (if req_ID req0 = [] then newID ''job'' else ret (req_ID req0))"

definition replay_of ::
    "EnqueueRequest \<Rightarrow> (job_db, EnqueueRequest \<times> JobRef option) io" where
  "replay_of req =
     outcome (findByIdempotency (req_Actor req) (req_JobType req) (req_IdempotencyKey req))
       (\<lambda>r. case r of
           Inr existing \<Rightarrow>
             andThen (lift_result EPayload (sameJSON (j_Payload existing) (req_Payload req)))
               (\<lambda>same.
                 if \<not> same
                 then fail (EIdempotencyConflict (req_JobType req) (req_IdempotencyKey req))
                 else ret (req, Some (mk_ref (j_ID existing) (j_Status existing))))
         | Inl e \<Rightarrow> if e = ENotFound then ret (req, None) else fail e)"

lemma prepareEnqueue_eq:
  "prepareEnqueue req0 t check =
     andThen (id_for req0) (\<lambda>i.
       andThen (lift_result EPayload (validate_request (request_defaults t (req0\<lparr>req_ID := i\<rparr>)))) (\<lambda>_.
         if check \<and> req_IdempotencyKey req0 \<noteq> [] then replay_of (prepared req0 t i)
         else ret (prepared req0 t i, None)))"
  unfolding prepareEnqueue_def id_for_def replay_of_def Let_def prepared_def [symmetric]
    prepared_simps ..

lemma replay_of_cases:
  assumes "replay_of (prepared req0 t i) w = (r, w')" and "req_IdempotencyKey req0 \<noteq> []"
  shows "db w' = db w" and "r = Inr (req, None) \<Longrightarrow> req = prepared req0 t i \<and>
      (\<forall>x \<in> set (jobs (db w)). \<not> same_request req0 x)"
    and "r = Inr (req, Some ref) \<Longrightarrow>
      (\<exists>x \<in> set (jobs (db w)). same_request req0 x \<and>
         sameJSON (c_payload x) (request_payload req0) = Inr True \<and> ref = mk_ref (c_id x) (c_status x))"
proof -
  obtain r1 w1 where find: "findByIdempotency (request_actor req0) (req_JobType req0)
      (req_IdempotencyKey req0) w = (r1, w1)"
    by (cases "findByIdempotency (request_actor req0) (req_JobType req0) (req_IdempotencyKey req0) w")
  then have w1: "db w1 = db w" using findByIdempotency_db by (metis snd_conv)
  from find have "db w' = db w \<and>
      (r = Inr (req, None) \<longrightarrow> req = prepared req0 t i \<and> (\<forall>x \<in> set (jobs (db w)). \<not> same_request req0 x)) \<and>
      (r = Inr (req, Some ref) \<longrightarrow>
        (\<exists>x \<in> set (jobs (db w)). same_request req0 x \<and>
           sameJSON (c_payload x) (request_payload req0) = Inr True \<and> ref = mk_ref (c_id x) (c_status x)))"
  proof (cases rule: findByIdempotency_cases)
    case lost
    with assms find w1 show ?thesis
      by (auto simp: replay_of_def outcome_def fail_def fault_error_def)
  next
    case absent
    with assms find w1 jobs_by_idempotency_None show ?thesis
      by (auto simp: replay_of_def outcome_def ret_def)
  next
    case (found row)
    with assms find w1 jobs_by_idempotency_same [OF found(2) assms(2)] show ?thesis
      by (cases "sameJSON (c_payload row) (request_payload req0)")
        (auto simp: replay_of_def outcome_def andThen_def ret_def fail_def lift_result_def
          split: if_splits intro!: bexI [of _ row])
  qed
  then show "db w' = db w" and "r = Inr (req, None) \<Longrightarrow> req = prepared req0 t i \<and>
      (\<forall>x \<in> set (jobs (db w)). \<not> same_request req0 x)"
    and "r = Inr (req, Some ref) \<Longrightarrow>
      (\<exists>x \<in> set (jobs (db w)). same_request req0 x \<and>
         sameJSON (c_payload x) (request_payload req0) = Inr True \<and> ref = mk_ref (c_id x) (c_status x))"
    by blast+
qed

lemma id_for_cases:
  assumes "id_for req0 w = (r, w')"
  obtains i where "r = Inr i" and "db w' = db w" and "req_ID req0 \<noteq> [] \<Longrightarrow> i = req_ID req0"
    and "req_ID req0 = [] \<Longrightarrow> i = ''job_'' @ ent w (tick w)"
  using assms by (cases "req_ID req0 = []") (auto simp: id_for_def)

text \<open>All a preparation can come to: an error, a replay, or a request for a new job.\<close>

lemma prepareEnqueue_cases:
  assumes "prepareEnqueue req0 t True w = (r, w')"
  obtains (error) e where "r = Inl e" and "db w' = db w"
  | (replay) req ref x where "r = Inr (req, Some ref)" and "db w' = db w" and "x \<in> set (jobs (db w))"
    and "same_request req0 x" and "sameJSON (c_payload x) (request_payload req0) = Inr True"
    and "ref = mk_ref (c_id x) (c_status x)"
  | (new) i where "r = Inr (prepared req0 t i, None)" and "db w' = db w"
    and "\<forall>x \<in> set (jobs (db w)). \<not> same_request req0 x"
    and "validate_request (request_defaults t (req0\<lparr>req_ID := i\<rparr>)) = Inr ()"
    and "req_ID req0 \<noteq> [] \<Longrightarrow> i = req_ID req0"
proof -
  obtain r1 w1 where idr: "id_for req0 w = (r1, w1)" by (cases "id_for req0 w")
  then obtain i where i: "r1 = Inr i" "db w1 = db w" "req_ID req0 \<noteq> [] \<Longrightarrow> i = req_ID req0"
    by (rule id_for_cases) (rule that)
  let ?v = "validate_request (request_defaults t (req0\<lparr>req_ID := i\<rparr>))"
  show thesis
  proof (cases ?v)
    case (Inl e)
    with assms idr i have "r = Inl (EPayload e)" "w' = w1"
      by (auto simp: prepareEnqueue_eq andThen_def lift_result_def fail_def)
    with i show thesis by (intro error) auto
  next
    case (Inr u)
    show thesis
    proof (cases "req_IdempotencyKey req0 = []")
      case True
      with assms idr i Inr have "r = Inr (prepared req0 t i, None)" "w' = w1"
        by (auto simp: prepareEnqueue_eq andThen_def lift_result_def ret_def)
      with i Inr True show thesis by (intro new [of i]) (auto simp: same_request_def)
    next
      case False
      with assms idr i Inr have run: "replay_of (prepared req0 t i) w1 = (r, w')"
        by (auto simp: prepareEnqueue_eq andThen_def lift_result_def ret_def)
      note parts = replay_of_cases [OF run False]
      show thesis
      proof (cases r)
        case (Inl e)
        with parts(1) i show thesis by (intro error) auto
      next
        case outcome: (Inr p)
        obtain req ref0 where p: "p = (req, ref0)" by (cases p)
        show thesis
        proof (cases ref0)
          case None
          with outcome p parts(1) parts(2) [of req] i Inr show thesis by (intro new [of i]) auto
        next
          case (Some ref)
          with outcome p parts(3) [of req ref] i obtain x where "x \<in> set (jobs (db w))"
            "same_request req0 x" "sameJSON (c_payload x) (request_payload req0) = Inr True"
            "ref = mk_ref (c_id x) (c_status x)" by auto
          with outcome p Some parts(1) i show thesis by (intro replay) auto
        qed
      qed
    qed
  qed
qed

section \<open>Writing the job\<close>

lemma enqueuePrepared_Inr:
  assumes "enqueuePrepared req t w = (Inr u, w')"
  obtains i written where "jobs (db w') = jobs (db w) @ [request_row t req]"
    and "job_locks (db w') = job_locks (db w)"
    and "job_events (db w') = job_events (db w) @
      [stored_event (mk_event (req_ID req) (req_JobGroupID req) EventQueued StatusQueued [] Blank) i written]"
proof -
  from assms obtain w1 where
    ev: "addEvent (mk_event (req_ID req) (req_JobGroupID req) EventQueued StatusQueued [] Blank) w1 = (Inr u, w')"
    and "db w1 = snd (insert_job (request_row t req) (db w))"
    by (auto simp: enqueuePrepared_def andThen_Inr_iff exec_Inr_iff)
  with addEvent_Inr [OF ev] show thesis by (auto simp: insert_job_def intro: that)
qed

lemma enqueuePrepared_violates:
  assumes "\<not> consistent (snd (insert_job (request_row t req) (db w)))"
  shows "\<exists>e. fst (enqueuePrepared req t w) = Inl e"
  using assms by (auto simp: enqueuePrepared_def andThen_def exec_def split: fault.split option.split)

text \<open>The transaction of an enqueue, from its begin to its commit.\<close>

lemma enqueue_tx_Inr:
  assumes "WithTx (enqueuePrepared req t) w = (Inr u, w')"
  obtains i written where "jobs (db w') = jobs (db w) @ [request_row t req]"
    and "job_locks (db w') = job_locks (db w)"
    and "job_events (db w') = job_events (db w) @
      [stored_event (mk_event (req_ID req) (req_JobGroupID req) EventQueued StatusQueued [] Blank) i written]"
  using assms by (auto simp: WithTx_Inr_iff elim: enqueuePrepared_Inr)

lemma enqueue_tx_violates:
  assumes "\<not> consistent (snd (insert_job (request_row t req) (db w)))"
  shows "\<exists>e. fst (WithTx (enqueuePrepared req t) w) = Inl e \<and>
    db (snd (WithTx (enqueuePrepared req t) w)) = db w"
proof -
  have "\<exists>e. fst (enqueuePrepared req t w1) = Inl e" if "db w1 = db w" for w1
    by (rule enqueuePrepared_violates) (simp add: assms that)
  from WithTx_body_fails [of w "enqueuePrepared req t", OF this] show ?thesis by blast
qed

text \<open>What \<open>Enqueue\<close> does once the request is prepared.\<close>

definition enqueue_new :: "EnqueueRequest \<Rightarrow> instant \<Rightarrow> (job_db, JobRef) io" where
  "enqueue_new req t =
     outcome (WithTx (enqueuePrepared req t)) (\<lambda>r. case r of
         Inl e \<Rightarrow>
           if req_IdempotencyKey req \<noteq> [] \<and> isUniqueConstraintError e
           then idempotentReplay req else fail e
       | Inr _ \<Rightarrow>
           andThen (ignoring (RefreshWorkflowStatus (req_JobGroupID req) (req_WorkflowID req)))
             (\<lambda>_. ret (mk_ref (req_ID req) StatusQueued)))"

lemma Enqueue_eq:
  "Enqueue req0 =
     andThen now (\<lambda>t. andThen (prepareEnqueue req0 t True) (\<lambda>(req, replay).
       case replay of Some ref \<Rightarrow> ret ref | None \<Rightarrow> enqueue_new req t))"
  unfolding Enqueue_def enqueue_new_def ..

lemma idempotentReplay_db: "db (snd (idempotentReplay req w)) = db w"
proof -
  obtain r w1 where f: "findByIdempotency (req_Actor req) (req_JobType req) (req_IdempotencyKey req) w = (r, w1)"
    by (cases "findByIdempotency (req_Actor req) (req_JobType req) (req_IdempotencyKey req) w")
  then have "db w1 = db w" using findByIdempotency_db by (metis snd_conv)
  with f show ?thesis
    by (cases r) (auto simp: idempotentReplay_def andThen_def lift_result_def ret_def fail_def split: sum.split)
qed

lemma idempotentReplay_found:
  assumes "idempotentReplay (prepared req0 t i) w = (Inr ref, w')" and "req_IdempotencyKey req0 \<noteq> []"
  shows "\<exists>x \<in> set (jobs (db w)). same_request req0 x"
  using assms jobs_by_idempotency_same [of req0 "db w"]
  by (auto simp: idempotentReplay_def findByIdempotency_def andThen_Inr_iff query_Inr_iff split: option.splits)

lemma enqueue_new_Inr:
  assumes "enqueue_new (prepared req0 t i) t w = (Inr ref, w')"
    and "\<forall>x \<in> set (jobs (db w)). \<not> same_request req0 x"
  shows "ref = mk_ref i StatusQueued \<and>
    jobs (db w') = jobs (db w) @ [request_row t (prepared req0 t i)] \<and>
    job_locks (db w') = job_locks (db w) \<and>
    (\<exists>e_id written. job_events (db w') = job_events (db w) @
       [stored_event (mk_event i (req_JobGroupID (prepared req0 t i)) EventQueued StatusQueued [] Blank)
          e_id written])"
proof -
  let ?req = "prepared req0 t i"
  obtain r w1 where tx: "WithTx (enqueuePrepared ?req t) w = (r, w1)"
    by (cases "WithTx (enqueuePrepared ?req t) w")
  show ?thesis
  proof (cases r)
    case (Inr u)
    with assms(1) tx have ref: "ref = mk_ref i StatusQueued"
      and refreshed: "ignoring (RefreshWorkflowStatus (req_JobGroupID ?req) (req_WorkflowID ?req)) w1 = (Inr (), w')"
      by (auto simp: enqueue_new_def outcome_def andThen_Inr_iff)
    have "WithTx (enqueuePrepared ?req t) w = (Inr u, w1)" using tx Inr by simp
    then show ?thesis
      by (rule enqueue_tx_Inr) (use ref ignoring_refresh_core [OF refreshed] in auto)
  next
    case (Inl e)
    with assms(1) tx have key: "req_IdempotencyKey req0 \<noteq> []" and unique: "isUniqueConstraintError e"
      and "idempotentReplay ?req w1 = (Inr ref, w')"
      by (auto simp: enqueue_new_def outcome_def split: if_splits)
    moreover have "db w1 = db w"
      using tx Inl unique fault_not_unique
      by (auto simp: WithTx_def split: if_splits prod.splits sum.splits fault.splits)
    ultimately show ?thesis
      using idempotentReplay_found [of req0 t i w1 ref w'] assms(2) by auto
  qed
qed

text \<open>The prepared request in its two outcomes that return a job.\<close>

lemma Enqueue_cases:
  assumes "Enqueue req0 w = (Inr ref, w')"
  obtains (replay) x where "x \<in> set (jobs (db w))" and "same_request req0 x"
    and "sameJSON (c_payload x) (request_payload req0) = Inr True"
    and "ref = mk_ref (c_id x) (c_status x)" and "db w' = db w"
  | (new) i w1 where "enqueue_new (prepared req0 (clk w (tick w)) i) (clk w (tick w)) w1 = (Inr ref, w')"
    and "db w1 = db w" and "\<forall>x \<in> set (jobs (db w)). \<not> same_request req0 x"
    and "validate_request (request_defaults (clk w (tick w)) (req0\<lparr>req_ID := i\<rparr>)) = Inr ()"
    and "req_ID req0 \<noteq> [] \<Longrightarrow> i = req_ID req0"
proof -
  let ?t = "clk w (tick w)"
  obtain r w1 where prep: "prepareEnqueue req0 ?t True (step_tick w) = (r, w1)"
    by (cases "prepareEnqueue req0 ?t True (step_tick w)")
  then show thesis
  proof (cases rule: prepareEnqueue_cases)
    case (error e)
    with assms prep show thesis by (simp add: Enqueue_eq now_def andThen_def)
  next
    case rep: (replay req ref0 x)
    with assms prep have "ref = ref0" "w' = w1"
      by (auto simp: Enqueue_eq now_def andThen_def ret_def)
    with rep show thesis by (intro replay) auto
  next
    case fresh: (new i)
    with assms prep have "enqueue_new (prepared req0 ?t i) ?t w1 = (Inr ref, w')"
      by (auto simp: Enqueue_eq now_def andThen_def)
    with fresh show thesis by (intro new [of i w1]) auto
  qed
qed

section \<open>New rows and the constraints\<close>

lemma insert_job_consistent:
  assumes "consistent d" and "job_check r" and "c_id r \<notin> c_id ` set (jobs d)"
    and "\<And>k x. idempotency_index r = Some k \<Longrightarrow> x \<in> set (jobs d) \<Longrightarrow> idempotency_index x \<noteq> Some k"
    and "\<And>k x. active_repo_index r = Some k \<Longrightarrow> x \<in> set (jobs d) \<Longrightarrow> active_repo_index x \<noteq> Some k"
    and "\<And>p. c_parent_job_id r = Some p \<Longrightarrow> p \<in> c_id ` set (jobs d)"
  shows "consistent (snd (insert_job r d))"
proof -
  define d' where "d' = snd (insert_job r d)"
  have tables: "jobs d' = jobs d @ [r]" "job_locks d' = job_locks d"
    "job_events d' = job_events d" "workflow_statuses d' = workflow_statuses d"
    by (simp_all add: d'_def insert_job_def)
  have "checks_ok d'"
    using assms(1,2) by (simp add: consistent_iff checks_ok_def tables)
  moreover have "c_id x \<noteq> c_id r" if "x \<in> set (jobs d)" for x
    using that assms(3) by (metis image_eqI)
  then have "unique_by (\<lambda>r. Some (c_id r)) (jobs d @ [r])"
    using assms(1) by (simp add: consistent_iff uniques_ok_def unique_by_snoc)
  moreover have "unique_by idempotency_index (jobs d @ [r])" "unique_by active_repo_index (jobs d @ [r])"
    using assms(1,4,5) by (simp_all add: consistent_iff uniques_ok_def unique_by_snoc)
  ultimately have "checks_ok d' \<and> uniques_ok d'"
    using assms(1) by (simp add: consistent_iff uniques_ok_def tables)
  moreover have "foreign_keys_ok d'"
    using assms(1,6) unfolding consistent_iff foreign_keys_ok_def tables list_all_iff
    by (auto split: option.splits)
  ultimately show ?thesis by (simp add: consistent_iff d'_def)
qed

lemma active_repo_blocks:
  assumes "x \<in> set (jobs d)" and "repo_operation (c_job_type x)" and "active (c_status x)"
    and "c_lock_key x = Some key" and "repo_operation (req_JobType req)" and "req_LockKey req = key"
    and "\<not> blank key"
  shows "\<not> consistent (snd (insert_job (request_row t req) d))"
proof
  assume "consistent (snd (insert_job (request_row t req) d))"
  then have "unique_by active_repo_index (jobs d @ [request_row t req])"
    by (simp add: consistent_iff uniques_ok_def insert_job_def)
  moreover have "active_repo_index (request_row t req) = Some key"
    using assms by (simp add: active_repo_index_def request_row_def nullEmpty_def)
  moreover have "active_repo_index x = Some key" using assms by (simp add: active_repo_index_def)
  ultimately show False using assms(1) by (auto simp: unique_by_snoc)
qed

text \<open>A request that is accepted by an empty database.\<close>

definition sample_request :: EnqueueRequest where
  "sample_request =
     \<lparr>req_ID = ''j2'', req_JobType = ''repo_pull'', req_Actor = [], req_CorrelationID = [],
      req_IdempotencyKey = ''k1'', req_ParentJobID = [], req_JobGroupID = ''repository:r1'',
      req_WorkflowID = [], req_LockKey = ''repository:r1'', req_MaxAttempts = 0, req_RunAfter = None,
      req_Priority = 0,
      req_Payload = Doc (JObject [(''schema_version'', JString ''jobs.repo_pull.payload.v1''),
                                  (''repository_id'', JString ''r1'')])\<rparr>"

lemma sample_request_valid: "validate_request (request_defaults t (sample_request\<lparr>req_ID := i\<rparr>)) = Inr ()"
proof -
  have "validate_request sample_request = Inr ()" by code_simp
  then show ?thesis
    by (simp add: validate_request_def request_defaults_def sample_request_def)
qed

text \<open>The new row of a prepared request and what the schema asks of it.\<close>

definition admissible :: "EnqueueRequest \<Rightarrow> instant \<Rightarrow> job_db \<Rightarrow> bool" where
  "admissible req t d \<longleftrightarrow>
     job_check (request_row t req) \<and> req_ID req \<notin> c_id ` set (jobs d) \<and>
     (\<forall>x \<in> set (jobs d). active_repo_index x = None \<or>
        active_repo_index x \<noteq> active_repo_index (request_row t req)) \<and>
     (\<forall>x \<in> set (jobs d). idempotency_index x = None \<or>
        idempotency_index x \<noteq> idempotency_index (request_row t req)) \<and>
     (case nullEmpty (req_ParentJobID req) of None \<Rightarrow> True | Some p \<Rightarrow> p \<in> c_id ` set (jobs d))"

lemma request_row_simps [simp]:
  "c_id (request_row t req) = req_ID req" "c_status (request_row t req) = StatusQueued"
  "c_parent_job_id (request_row t req) = nullEmpty (req_ParentJobID req)"
  by (simp_all add: request_row_def)

lemma admissible_consistent:
  "consistent d \<Longrightarrow> admissible req t d \<Longrightarrow> consistent (snd (insert_job (request_row t req) d))"
  by (rule insert_job_consistent) (auto simp: admissible_def split: option.splits)

lemma enqueue_new_calm:
  assumes "calm w" and "consistent (db w)" and "fresh_events w" and "admissible req t (db w)"
  shows "fst (enqueue_new req t w) = Inr (mk_ref (req_ID req) StatusQueued)"
proof -
  let ?w1 = "step_tick w"
  let ?d = "snd (insert_job (request_row t req) (db w))"
  let ?w2 = "(step_tick ?w1)\<lparr>db := ?d\<rparr>"
  have d: "consistent ?d" by (rule admissible_consistent [OF assms(2,4)])
  then have ins: "jexec (insert_job (request_row t req)) ?w1 = (Inr (), ?w2)"
    using assms(1) by (subst exec_calm) (simp_all add: insert_job_def)
  have "req_ID req \<in> c_id ` set (jobs ?d)" by (simp add: insert_job_def)
  moreover have "fresh_events ?w2"
    by (rule fresh_events_later [OF assms(3)]) (simp_all add: insert_job_def)
  ultimately obtain w3 where
    "addEvent (mk_event (req_ID req) (req_JobGroupID req) EventQueued StatusQueued [] Blank) ?w2 = (Inr (), w3)"
    and "calm w3"
    using log_calm [of ?w2 "req_ID req" Blank "req_JobGroupID req" EventQueued StatusQueued "[]"] assms(1) d by auto
  with ins assms(1) have tx: "WithTx (enqueuePrepared req t) w = (Inr (), step_tick w3)"
    by (simp add: WithTx_def enqueuePrepared_def andThen_Inr_eq)
  obtain r w4 where
    refreshed: "ignoring (RefreshWorkflowStatus (req_JobGroupID req) (req_WorkflowID req)) (step_tick w3) = (r, w4)"
    by (cases "ignoring (RefreshWorkflowStatus (req_JobGroupID req) (req_WorkflowID req)) (step_tick w3)")
  with ignoring_result [OF this] tx show ?thesis
    by (simp add: enqueue_new_def outcome_def andThen_def ret_def)
qed

lemma findByIdempotency_calm:
  assumes "calm w"
  shows "findByIdempotency a ty k w =
    (case jobs_by_idempotency a ty k (db w) of None \<Rightarrow> Inl ENotFound | Some row \<Rightarrow> Inr (scanJob row),
     step_tick w)"
  using assms by (auto simp: findByIdempotency_def andThen_def query_calm ret_def fail_def split: option.split)

lemma jobs_by_idempotency_absent:
  assumes "\<forall>x \<in> set (jobs d). \<not> same_request req0 x" and "req_IdempotencyKey req0 \<noteq> []"
  shows "jobs_by_idempotency (request_actor req0) (req_JobType req0) (req_IdempotencyKey req0) d = None"
  using assms jobs_by_idempotency_same
  by (cases "jobs_by_idempotency (request_actor req0) (req_JobType req0) (req_IdempotencyKey req0) d") fastforce+

lemma prepareEnqueue_calm_new:
  assumes "calm w" and "\<forall>x \<in> set (jobs (db w)). \<not> same_request req0 x"
    and "req_ID req0 \<noteq> []" and "validate_request (request_defaults t req0) = Inr ()"
  shows "\<exists>w'. prepareEnqueue req0 t True w = (Inr (prepared req0 t (req_ID req0), None), w') \<and>
    db w' = db w \<and> ent w' = ent w \<and> tick w \<le> tick w' \<and> calm w'"
proof -
  have "id_for req0 w = (Inr (req_ID req0), w)" using assms(3) by (simp add: id_for_def ret_def)
  then have run: "prepareEnqueue req0 t True w =
      (if req_IdempotencyKey req0 \<noteq> [] then replay_of (prepared req0 t (req_ID req0))
       else ret (prepared req0 t (req_ID req0), None)) w"
    using assms(4) by (simp add: prepareEnqueue_eq andThen_def lift_result_def ret_def)
  have "replay_of (prepared req0 t (req_ID req0)) w = (Inr (prepared req0 t (req_ID req0), None), step_tick w)"
    if "req_IdempotencyKey req0 \<noteq> []"
    using jobs_by_idempotency_absent [OF assms(2) that] assms(1)
    by (simp add: replay_of_def outcome_def findByIdempotency_calm ret_def)
  with run assms(1) show ?thesis by (auto simp: ret_def)
qed

section \<open>Properties\<close>

text \<open>
  C6: when \<open>Enqueue\<close> returns a reference, under any faults, it is one of two: the job that the
  idempotency key already stood for, with an equal payload and nothing written; or a new job, which is
  the validated request's row at the end of the queue's table, queued, with no attempt made, and its
  event, and nothing else but workflow statuses changed.
\<close>

theorem Enqueue_result:
  assumes "Enqueue req0 w = (Inr ref, w')"
  shows "(\<exists>x \<in> set (jobs (db w)). same_request req0 x \<and>
            sameJSON (c_payload x) (request_payload req0) = Inr True \<and>
            ref = mk_ref (c_id x) (c_status x) \<and> db w' = db w) \<or>
    (\<exists>i. let t = clk w (tick w); req = prepared req0 t i
         in ref = mk_ref i StatusQueued \<and> (req_ID req0 \<noteq> [] \<longrightarrow> i = req_ID req0) \<and>
            validate_request (request_defaults t (req0\<lparr>req_ID := i\<rparr>)) = Inr () \<and>
            (\<forall>x \<in> set (jobs (db w)). \<not> same_request req0 x) \<and>
            jobs (db w') = jobs (db w) @ [request_row t req] \<and> job_locks (db w') = job_locks (db w) \<and>
            (\<exists>e_id written. job_events (db w') = job_events (db w) @
               [stored_event (mk_event i (req_JobGroupID req) EventQueued StatusQueued [] Blank)
                  e_id written]))"
  using assms
proof (cases rule: Enqueue_cases)
  case (replay x)
  then show ?thesis by blast
next
  case (new i w1)
  from enqueue_new_Inr [OF new(1)] new(2-5) show ?thesis
    unfolding Let_def by (intro disjI2 exI [of _ i]) simp
qed

lemma Enqueue_accepted:
  assumes "calm w" and "consistent (db w)" and "fresh_events w"
    and "req_ID req0 \<noteq> []" and "validate_request (request_defaults (clk w (tick w)) req0) = Inr ()"
    and "\<forall>x \<in> set (jobs (db w)). \<not> same_request req0 x"
    and "admissible (prepared req0 (clk w (tick w)) (req_ID req0)) (clk w (tick w)) (db w)"
  shows "fst (Enqueue req0 w) = Inr (mk_ref (req_ID req0) StatusQueued)"
proof -
  let ?t = "clk w (tick w)"
  obtain w1 where prep: "prepareEnqueue req0 ?t True (step_tick w) = (Inr (prepared req0 ?t (req_ID req0), None), w1)"
    and w1: "db w1 = db w" "ent w1 = ent w" "tick w \<le> tick w1" "calm w1"
    using prepareEnqueue_calm_new [of "step_tick w" req0 ?t] assms(1,4-6) by auto
  have "fresh_events w1" by (rule fresh_events_later [OF assms(3)]) (simp_all add: w1)
  with w1 assms(2,7) have "fst (enqueue_new (prepared req0 ?t (req_ID req0)) ?t w1) =
      Inr (mk_ref (req_ID req0) StatusQueued)"
    using enqueue_new_calm [of w1 "prepared req0 ?t (req_ID req0)" ?t] by simp
  with prep show ?thesis by (simp add: Enqueue_eq now_def andThen_def)
qed

lemma sample_enqueue:
  "calm (sample_world empty_db)" "consistent (db (sample_world empty_db))"
  "fresh_events (sample_world empty_db)"
  "fst (Enqueue sample_request (sample_world empty_db)) = Inr (mk_ref ''j2'' StatusQueued)"
proof -
  show calm: "calm (sample_world empty_db)" by (simp add: calm_def sample_world_def)
  show ok: "consistent (db (sample_world empty_db))" by simp
  show fresh: "fresh_events (sample_world empty_db)"
    by (simp add: fresh_events_def inj_sample_ids) (simp add: empty_db_def)
  have "validate_request (request_defaults t sample_request) = Inr ()" for t
    using sample_request_valid [of t "''j2''"] by (simp add: sample_request_def)
  moreover have "admissible (prepared sample_request (100 * second) (req_ID sample_request)) (100 * second) empty_db"
    by code_simp
  moreover have "req_ID sample_request = ''j2''" by (simp add: sample_request_def)
  ultimately show "fst (Enqueue sample_request (sample_world empty_db)) = Inr (mk_ref ''j2'' StatusQueued)"
    using Enqueue_accepted [OF calm ok fresh, of sample_request] by (simp add: empty_db_def)
qed

lemma Enqueue_result_witness:
  "\<exists>w'. Enqueue sample_request (sample_world empty_db) = (Inr (mk_ref ''j2'' StatusQueued), w') \<and>
     length (jobs (db w')) = 1"
proof -
  obtain w' where run: "Enqueue sample_request (sample_world empty_db) = (Inr (mk_ref ''j2'' StatusQueued), w')"
    using sample_enqueue(4) by (metis prod.collapse)
  with Enqueue_result [OF run] show ?thesis by (auto simp: Let_def empty_db_def)
qed

text \<open>
  An idempotency key is used once. While a job of the same actor, type and key exists, \<open>Enqueue\<close>
  writes nothing, whatever faults occur; without faults and with a valid request it returns that job
  when the payloads are equal as JSON, and the conflict error when they are not.
\<close>

theorem Enqueue_idempotent:
  assumes "x \<in> set (jobs (db w))" and "same_request req0 x"
  shows "db (snd (Enqueue req0 w)) = db w \<and>
    (calm w \<and> consistent (db w) \<and> req_ID req0 \<noteq> [] \<and>
     validate_request (request_defaults (clk w (tick w)) req0) = Inr () \<longrightarrow>
     fst (Enqueue req0 w) =
       (case sameJSON (c_payload x) (request_payload req0) of
          Inl e \<Rightarrow> Inl (EPayload e)
        | Inr True \<Rightarrow> Inr (mk_ref (c_id x) (c_status x))
        | Inr False \<Rightarrow> Inl (EIdempotencyConflict (req_JobType req0) (req_IdempotencyKey req0))))"
proof (intro conjI impI)
  let ?t = "clk w (tick w)"
  obtain r w1 where prep: "prepareEnqueue req0 ?t True (step_tick w) = (r, w1)"
    by (cases "prepareEnqueue req0 ?t True (step_tick w)")
  then show "db (snd (Enqueue req0 w)) = db w"
  proof (cases rule: prepareEnqueue_cases)
    case (new i)
    with assms show ?thesis by simp
  qed (use prep in \<open>simp_all add: Enqueue_eq now_def andThen_def ret_def\<close>)
next
  assume asm: "calm w \<and> consistent (db w) \<and> req_ID req0 \<noteq> [] \<and>
     validate_request (request_defaults (clk w (tick w)) req0) = Inr ()"
  let ?t = "clk w (tick w)"
  have key: "req_IdempotencyKey req0 \<noteq> []" using assms(2) by (simp add: same_request_def)
  have "jobs_by_idempotency (request_actor req0) (req_JobType req0) (req_IdempotencyKey req0) (db w) \<noteq> None"
    using jobs_by_idempotency_None assms by blast
  then obtain y where y: "jobs_by_idempotency (request_actor req0) (req_JobType req0)
      (req_IdempotencyKey req0) (db w) = Some y" by blast
  then have "y \<in> set (jobs (db w))" "same_request req0 y"
    using jobs_by_idempotency_same key by blast+
  moreover have "unique_by idempotency_index (jobs (db w))"
    using asm by (simp add: consistent_iff uniques_ok_def)
  ultimately have "y = x"
    using assms unique_by_eq [of idempotency_index "jobs (db w)" y x]
    by (simp add: same_request_def idempotency_index_def)
  moreover have "id_for req0 (step_tick w) = (Inr (req_ID req0), step_tick w)"
    using asm by (simp add: id_for_def ret_def)
  ultimately show "fst (Enqueue req0 w) =
       (case sameJSON (c_payload x) (request_payload req0) of
          Inl e \<Rightarrow> Inl (EPayload e)
        | Inr True \<Rightarrow> Inr (mk_ref (c_id x) (c_status x))
        | Inr False \<Rightarrow> Inl (EIdempotencyConflict (req_JobType req0) (req_IdempotencyKey req0)))"
    using asm key y
    by (simp add: Enqueue_eq now_def andThen_def prepareEnqueue_eq lift_result_def ret_def replay_of_def
        outcome_def findByIdempotency_calm fail_def split: sum.split bool.split)
qed

text \<open>A database where the key of the sample request is taken and its job is queued.\<close>

definition taken_db :: job_db where
  "taken_db = sample_db [request_row (50 * second) (prepared sample_request (50 * second) ''j1'')]"

lemma taken_db_row:
  "jobs taken_db = [request_row (50 * second) (prepared sample_request (50 * second) ''j1'')]"
  by (simp add: taken_db_def sample_db_def)

lemma taken_db_consistent: "consistent taken_db"
  by code_simp

lemma Enqueue_idempotent_witness:
  "db (snd (Enqueue sample_request (sample_world taken_db))) = taken_db \<and>
   fst (Enqueue sample_request (sample_world taken_db)) = Inr (mk_ref ''j1'' StatusQueued)"
proof -
  let ?x = "request_row (50 * second) (prepared sample_request (50 * second) ''j1'')"
  let ?w = "sample_world taken_db"
  have "?x \<in> set (jobs (db ?w))" by (simp add: taken_db_row)
  moreover have "same_request sample_request ?x" by code_simp
  ultimately have *: "db (snd (Enqueue sample_request ?w)) = db ?w \<and>
    (calm ?w \<and> consistent (db ?w) \<and> req_ID sample_request \<noteq> [] \<and>
     validate_request (request_defaults (clk ?w (tick ?w)) sample_request) = Inr () \<longrightarrow>
     fst (Enqueue sample_request ?w) =
       (case sameJSON (c_payload ?x) (request_payload sample_request) of
          Inl e \<Rightarrow> Inl (EPayload e)
        | Inr True \<Rightarrow> Inr (mk_ref (c_id ?x) (c_status ?x))
        | Inr False \<Rightarrow> Inl (EIdempotencyConflict (req_JobType sample_request) (req_IdempotencyKey sample_request))))"
    by (rule Enqueue_idempotent)
  have "calm ?w" by (simp add: calm_def sample_world_def)
  moreover have "validate_request (request_defaults t sample_request) = Inr ()" for t
    using sample_request_valid [of t "''j2''"] by (simp add: sample_request_def)
  moreover have "req_ID sample_request \<noteq> []" by (simp add: sample_request_def)
  moreover have "sameJSON (c_payload ?x) (request_payload sample_request) = Inr True" by code_simp
  ultimately show ?thesis using * taken_db_consistent by simp
qed

text \<open>
  A valid request is accepted: when nothing fails, its key is free and the schema has no objection
  to its row, \<open>Enqueue\<close> returns the new job as queued.
\<close>

theorem Enqueue_accepts:
  assumes "calm w" and "consistent (db w)" and "fresh_events w"
    and "req_ID req0 \<noteq> []" and "validate_request (request_defaults (clk w (tick w)) req0) = Inr ()"
    and "\<forall>x \<in> set (jobs (db w)). \<not> same_request req0 x"
    and "admissible (prepared req0 (clk w (tick w)) (req_ID req0)) (clk w (tick w)) (db w)"
  shows "fst (Enqueue req0 w) = Inr (mk_ref (req_ID req0) StatusQueued)"
  using assms by (rule Enqueue_accepted)

lemma Enqueue_accepts_witness:
  "fst (Enqueue sample_request (sample_world empty_db)) = Inr (mk_ref (req_ID sample_request) StatusQueued)"
proof (rule Enqueue_accepts [OF sample_enqueue(1-3)])
  show "req_ID sample_request \<noteq> []" by (simp add: sample_request_def)
  show "validate_request (request_defaults (clk (sample_world empty_db) (tick (sample_world empty_db)))
      sample_request) = Inr ()"
    using sample_request_valid [of "100 * second" "''j2''"] by (simp add: sample_request_def)
  show "\<forall>x \<in> set (jobs (db (sample_world empty_db))). \<not> same_request sample_request x"
    by (simp add: empty_db_def)
  have "admissible (prepared sample_request (100 * second) (req_ID sample_request)) (100 * second) empty_db"
    by code_simp
  then show "admissible (prepared sample_request (clk (sample_world empty_db) (tick (sample_world empty_db)))
      (req_ID sample_request)) (clk (sample_world empty_db) (tick (sample_world empty_db)))
      (db (sample_world empty_db))"
    by simp
qed

lemma Enqueue_blocked:
  assumes "\<And>t i. \<not> consistent (snd (insert_job (request_row t (prepared req0 t i)) (db w)))"
  shows "jobs (db (snd (Enqueue req0 w))) = jobs (db w)"
proof -
  let ?t = "clk w (tick w)"
  obtain r w1 where prep: "prepareEnqueue req0 ?t True (step_tick w) = (r, w1)"
    by (cases "prepareEnqueue req0 ?t True (step_tick w)")
  then show ?thesis
  proof (cases rule: prepareEnqueue_cases)
    case (new i)
    let ?req = "prepared req0 ?t i"
    obtain r2 w2 where tx: "WithTx (enqueuePrepared ?req ?t) w1 = (r2, w2)"
      by (cases "WithTx (enqueuePrepared ?req ?t) w1")
    have "\<not> consistent (snd (insert_job (request_row ?t ?req) (db w1)))"
      using assms new(2) by simp
    from enqueue_tx_violates [OF this] tx obtain e where "r2 = Inl e" "db w2 = db w1" by auto
    with tx new prep show ?thesis
      by (auto simp: Enqueue_eq now_def andThen_def enqueue_new_def outcome_def fail_def idempotentReplay_db)
  qed (use prep in \<open>simp_all add: Enqueue_eq now_def andThen_def ret_def\<close>)
qed

text \<open>
  One repository operation at a time. While a clone, pull or sync with the same lock key is queued
  or running, \<open>EnqueueRepositoryOperation\<close> adds no job, whatever faults occur.
\<close>

theorem EnqueueRepositoryOperation_exclusive:
  assumes "x \<in> set (jobs (db w))" and "repo_operation (c_job_type x)" and "active (c_status x)"
    and "c_lock_key x = Some (req_LockKey req0)"
  shows "jobs (db (snd (EnqueueRepositoryOperation req0 w))) = jobs (db w)"
proof (cases "\<not> repo_operation (req_JobType req0) \<or> blank (req_LockKey req0)")
  case True
  then show ?thesis by (auto simp: EnqueueRepositoryOperation_def fail_def)
next
  case False
  have "jobs (db (snd (Enqueue req0 w))) = jobs (db w)"
    by (rule Enqueue_blocked, rule active_repo_blocks [OF assms]) (use False in simp_all)
  moreover have "db (snd (findActiveRepositoryOperation key w1)) = db w1" for key w1
    by (auto simp: findActiveRepositoryOperation_def andThen_def query_def ret_def fail_def
        split: option.split)
  ultimately show ?thesis
    using False
    by (auto simp: EnqueueRepositoryOperation_def outcome_def ret_def fail_def
        split: prod.split sum.split)
      (metis snd_conv)+
qed

lemma EnqueueRepositoryOperation_exclusive_witness:
  "jobs (db (snd (EnqueueRepositoryOperation (sample_request\<lparr>req_IdempotencyKey := ''k2''\<rparr>)
     (sample_world taken_db)))) = jobs taken_db"
proof -
  let ?x = "request_row (50 * second) (prepared sample_request (50 * second) ''j1'')"
  have "repo_operation (c_job_type ?x)" and "active (c_status ?x)"
    and "c_lock_key ?x = Some (req_LockKey (sample_request\<lparr>req_IdempotencyKey := ''k2''\<rparr>))"
    by code_simp+
  with EnqueueRepositoryOperation_exclusive [of ?x "sample_world taken_db"] show ?thesis
    by (simp add: taken_db_row)
qed

text \<open>
  \<open>EnqueueIfNoActive\<close> coalesces. When an active job of the type holds the lock key and nothing
  fails, it writes nothing and returns such a job, the oldest one, with \<open>false\<close>.
\<close>

theorem EnqueueIfNoActive_coalesces:
  assumes "calm w" and "\<not> blank (req_LockKey req0)" and "x \<in> set (jobs (db w))"
    and "c_job_type x = req_JobType req0" and "c_lock_key x = Some (req_LockKey req0)"
    and "active (c_status x)"
  shows "db (snd (EnqueueIfNoActive req0 w)) = db w \<and>
    (\<exists>y \<in> set (jobs (db w)). c_job_type y = req_JobType req0 \<and> c_lock_key y = Some (req_LockKey req0) \<and>
       active (c_status y) \<and> (c_created_at y, c_id y) \<le> (c_created_at x, c_id x) \<and>
       fst (EnqueueIfNoActive req0 w) = Inr (mk_ref (c_id y) (c_status y), False))"
proof -
  define hits where "hits = filter (\<lambda>r. c_job_type r = req_JobType req0 \<and>
      c_lock_key r = Some (req_LockKey req0) \<and> active (c_status r)) (jobs (db w))"
  have x: "x \<in> set hits" using assms(3-6) by (simp add: hits_def)
  then have "order_asc (\<lambda>r. (c_created_at r, c_id r)) hits \<noteq> []"
    by auto
  then obtain y where y: "first_row (order_asc (\<lambda>r. (c_created_at r, c_id r)) hits) = Some y"
    by (cases "order_asc (\<lambda>r. (c_created_at r, c_id r)) hits") auto
  note least = first_row_order_asc_least [OF y]
  have "findActiveByLock (req_JobType req0) (req_LockKey req0) w = (Inr (scanJob y), step_tick w)"
    using assms(1) y
    by (simp add: findActiveByLock_def andThen_def query_calm active_by_lock_def ret_def hits_def)
  with assms(2) have "EnqueueIfNoActive req0 w =
      (Inr (mk_ref (c_id y) (c_status y), False), step_tick w)"
    by (simp add: EnqueueIfNoActive_def outcome_def ret_def)
  with least(1) least(2) [OF x] show ?thesis by (auto simp: hits_def)
qed

lemma EnqueueIfNoActive_coalesces_witness:
  "db (snd (EnqueueIfNoActive sample_request (sample_world taken_db))) = taken_db"
proof -
  let ?x = "request_row (50 * second) (prepared sample_request (50 * second) ''j1'')"
  have "\<not> blank (req_LockKey sample_request)" and "c_job_type ?x = req_JobType sample_request"
    and "c_lock_key ?x = Some (req_LockKey sample_request)" and "active (c_status ?x)"
    by code_simp+
  moreover have "calm (sample_world taken_db)" by (simp add: calm_def sample_world_def)
  ultimately show ?thesis
    using EnqueueIfNoActive_coalesces [of "sample_world taken_db" sample_request ?x]
    by (simp add: taken_db_row)
qed

end
