(* ===== verification/Job_History.thy ===== *)
theory Job_History
  imports Job_Recovery Job_Exclusion Job_Enqueue
begin

text \<open>
  What holds in every run of the system: the operations only ever take the steps of \<open>db_step\<close>, and
  along these no job is lost, a finished job is final, and the constraints and the shape of every row
  are kept. At the end, what the guards of the code do not exclude.
\<close>

section \<open>Rows along a run\<close>

lemma evolves_nth:
  "evolves d d' \<Longrightarrow> i < length (jobs d) \<Longrightarrow> i < length (jobs d') \<and> job_steps (jobs d ! i) (jobs d' ! i)"
  unfolding evolves_def by auto

lemma exhausted_step: "job_step r r' \<Longrightarrow> c_status r = StatusQueued \<Longrightarrow> c_max_attempts r \<le> c_attempt_count r \<Longrightarrow> False"
  by (induction rule: job_step.induct) simp_all

lemma exhausted_steps:
  "job_steps r r' \<Longrightarrow> c_status r = StatusQueued \<Longrightarrow> c_max_attempts r \<le> c_attempt_count r \<Longrightarrow> r' = r"
  by (erule converse_rtranclpE) (auto dest: exhausted_step)

section \<open>Properties of all runs\<close>


definition progress_runtime :: Runtime where
  "progress_runtime = sample_runtime
     \<lparr>rt_handlers := (\<lambda>ty. if ty = ''repo_pull''
        then Some (\<lambda>worker job. andThen (EmitProgress worker job ''halfway'' []) (\<lambda>_. ret Blank)) else None)\<rparr>"


text \<open>
  C4: every reachable database satisfies the schema's constraints, and every row of it the shape its
  status asks for: a queued job has no lease, a running one has a lease, a heartbeat and a counted
  attempt, a finished one a result and a time of its end; attempts stay between zero and the maximum.
\<close>

theorem reachable_rows:
  assumes "reachable d"
  shows "consistent d \<and>
    (\<forall>r \<in> set (jobs d). row_ok r \<and> 0 \<le> c_attempt_count r \<and> c_attempt_count r \<le> c_max_attempts r)"
proof -
  have "consistent d" by (rule reachable_consistent [OF assms])
  moreover have "row_ok r \<and> 0 \<le> c_attempt_count r \<and> c_attempt_count r \<le> c_max_attempts r"
    if "r \<in> set (jobs d)" for r
    using born_row_ok [OF reachable_born [OF assms that]] consistent_job_check [OF \<open>consistent d\<close> that]
    by (simp add: job_check_def)
  ultimately show ?thesis by blast
qed

lemma enqueued_reachable: "reachable (db (snd (Enqueue req (sample_world empty_db))))"
  using trace.Enqueue_keeps unfolding keeps_def reachable_def by (metis sample_world_db)

lemma reachable_rows_witness:
  "consistent (db (snd (Enqueue sample_request (sample_world empty_db))))"
  using reachable_rows [OF enqueued_reachable] by blast



text \<open>
  No run loses a job. A job keeps its place, its identity and everything its request fixed; its
  attempts are never counted down, and the time of its first start is never overwritten.
\<close>

theorem jobs_persist:
  assumes "db_steps d d'" and "i < length (jobs d)"
  shows "i < length (jobs d') \<and> job_core (jobs d' ! i) = job_core (jobs d ! i) \<and>
    c_attempt_count (jobs d ! i) \<le> c_attempt_count (jobs d' ! i) \<and>
    (c_started_at (jobs d ! i) \<noteq> None \<longrightarrow> c_started_at (jobs d' ! i) = c_started_at (jobs d ! i))"
  using evolves_nth [OF db_steps_evolves [OF assms(1)] assms(2)]
  by (auto intro: job_steps_core job_steps_attempts job_steps_started)

lemma jobs_persist_witness:
  "\<exists>d d'. db_steps d d' \<and> length (jobs d) = 1 \<and> job_core (jobs d' ! 0) = job_core (jobs d ! 0)"
proof -
  let ?d' = "db (snd (Heartbeat ''j1'' ''worker-1'' second running_sample))"
  have "db_steps (db running_sample) ?d'" using trace.Heartbeat_keeps by (simp add: keeps_def)
  moreover have "length (jobs (db running_sample)) = 1"
    by (simp add: running_sample_def sample_db_def)
  ultimately show ?thesis using jobs_persist [of "db running_sample" ?d' 0] by fastforce
qed

text \<open>
  C12: a finished job is final. Once a job has succeeded, failed or been cancelled, its row is the same
  in every later database, whatever any worker does.
\<close>

theorem finished_jobs_final:
  assumes "db_steps d d'" and "r \<in> set (jobs d)" and "terminal (c_status r)"
  shows "r \<in> set (jobs d')"
proof -
  obtain i where i: "i < length (jobs d)" "jobs d ! i = r" using assms(2) by (auto simp: in_set_conv_nth)
  with evolves_nth [OF db_steps_evolves [OF assms(1)] i(1)] job_steps_terminal [OF _ assms(3)]
  show ?thesis by (metis nth_mem)
qed

lemma finished_jobs_final_witness:
  "sample_row ''j1'' StatusFailed 1 \<in>
     set (jobs (db (snd (Enqueue sample_request (sample_world (sample_db [sample_row ''j1'' StatusFailed 1]))))))"
proof -
  let ?w = "sample_world (sample_db [sample_row ''j1'' StatusFailed 1])"
  have "db_steps (db ?w) (db (snd (Enqueue sample_request ?w)))"
    using trace.Enqueue_keeps unfolding keeps_def by blast
  then show ?thesis
    by (rule finished_jobs_final) (simp_all add: sample_db_def sample_row_def)
qed

end
