(* ===== verification/Job_Hazards.thy ===== *)
theory Job_Hazards
  imports Job_History
begin

text \<open>
  Retries: what the attempt counter guarantees when a worker closes the attempt it claimed, and two
  situations in which a job is lost to the queue although its handler never failed it: an attempt
  that is closed by the copy of an earlier one, and a lock that stays contended.
\<close>

section \<open>Closing an attempt with a retry\<close>

lemma finish_job_retry:
  assumes "he_Retryable (classifyError e)" and "j_AttemptCount job < j_MaxAttempts job"
  shows "finish_job rt jitter False job (Inl e) w =
    Requeue job (rt_workerID rt) (he_Code (classifyError e))
      (clk w (tick w) + backoff (j_AttemptCount job) jitter) (step_tick w)"
  using assms by (simp add: finish_job_def Let_def now_andThen)

lemma Requeue_row:
  assumes "calm w" and "consistent (db w)" and "fresh_events w"
    and "r \<in> set (jobs (db w))" and "leased_to (j_ID job) worker r"
  shows "\<exists>w' t. Requeue job worker reason runAfter (step_tick w) = (Inr (), w') \<and>
    (set_queued runAfter t r)\<lparr>c_error_message := nullEmpty (safeMessage reason)\<rparr> \<in> set (jobs (db w'))"
proof -
  let ?w = "step_tick w"
  have "holds_lease (j_ID job) worker (db ?w)" using assms(4,5) by (auto simp: holds_lease_def)
  moreover have "fresh_events ?w" by (rule fresh_events_later [OF assms(3)]) simp_all
  ultimately have "fst (Requeue job worker reason runAfter ?w) = Inr ()"
    using assms(1,2) by (intro Requeue_calm) simp_all
  then obtain w' where run: "Requeue job worker reason runAfter ?w = (Inr (), w')"
    by (metis prod.collapse)
  from close_then_refresh(2) [OF run [unfolded Requeue_eq requeue_update_def]] assms(2,4,5)
  have "(set_queued runAfter (clk ?w (tick ?w)) r)\<lparr>c_error_message := nullEmpty (safeMessage reason)\<rparr> \<in>
      set (jobs (db w'))"
    by (force simp: set_update_where leased_to_def)
  with run show ?thesis by blast
qed

section \<open>A contended lock\<close>

lemma update_where_ex:
  "r \<in> set xs \<Longrightarrow> P r \<Longrightarrow> Q (f r) \<Longrightarrow> \<exists>x \<in> set (update_where P f xs). Q x"
  by (auto simp: set_update_where)

lemma insert_lock_contended:
  assumes "consistent d" and "k \<in> set (job_locks d)" and "k_status k = LockHeld"
    and "k_lock_key k = j_LockKey job"
  shows "db_violation (snd (insert_lock (taken_lock job worker l t i) d)) = Some VUnique"
proof -
  let ?new = "taken_lock job worker l t i"
  have "checks_ok (snd (insert_lock ?new d))"
    using assms(1) by (simp add: consistent_iff checks_ok_def insert_lock_def)
  moreover have "\<not> unique_by held_index (job_locks d @ [?new])"
    using assms(2-4) by (auto simp: unique_by_snoc held_index_def taken_lock_def)
  then have "\<not> uniques_ok (snd (insert_lock ?new d))"
    by (simp add: uniques_ok_def insert_lock_locks)
  ultimately show ?thesis by (simp add: db_violation_def)
qed

lemma AcquireLock_contended:
  assumes "calm w" and "consistent (db w)" and "k \<in> set (job_locks (db w))"
    and "live_lock (clk w (tick w)) (j_LockKey job) k" and "j_LockKey job \<noteq> []"
  obtains w' where "AcquireLock job worker l w = (Inr False, w')" and "calm w'"
    and "consistent (db w')" and "jobs (db w') = jobs (db w)" and "job_events (db w') = job_events (db w)"
    and "ent w' = ent w" and "tick w \<le> tick w'"
proof -
  let ?t = "clk w (tick w)"
  let ?d = "snd (expire_locks ?t (db w))"
  let ?w2 = "(step_tick (step_tick w))\<lparr>db := ?d\<rparr>"
  let ?i = "''lock_'' @ ent w (tick ?w2)"
  let ?new = "taken_lock job worker l ?t ?i"
  have d: "consistent ?d" by (rule lock_updates_consistent(2) [OF assms(2)])
  have "k \<in> set (job_locks ?d)"
    using live_lock_survives [OF assms(3,4)] by (simp add: expire_locks_locks)
  then have "db_violation (snd (insert_lock ?new ?d)) = Some VUnique"
    using insert_lock_contended [OF d] assms(4) by (simp add: live_lock_def)
  then have "jexec (insert_lock ?new) (step_tick ?w2) =
      (Inl (EDriver (violation_message (handle_Provider w) VUnique)), step_tick (step_tick ?w2))"
    using assms(1) by (subst exec_calm_violation) simp_all
  moreover have "ExpireLocks ?t (step_tick w) = (Inr (), ?w2)"
    using assms(1) d by (simp add: ExpireLocks_Inr_iff)
  moreover have "newID ''lock'' ?w2 = (Inr ?i, step_tick ?w2)" by (simp add: newID_def)
  ultimately have "AcquireLock job worker l w = (Inr False, step_tick (step_tick ?w2))"
    by (simp only: AcquireLock_eq [OF assms(5)] now_andThen andThen_Inr_eq outcome_eq)
      (simp add: ret_def unique_violation_recognised)
  with assms(1) d show thesis
    by (intro that [of "step_tick (step_tick ?w2)"]) (simp_all add: expire_locks_def)
qed

section \<open>Properties\<close>

text \<open>
  A retry comes back. When a handler fails with a retryable error, nothing else fails and the
  worker closes the attempt it claimed, the job is queued again with attempts left, so that it can be
  claimed as soon as its retry delay is over.
\<close>

theorem retry_is_claimable:
  assumes "calm w" and "consistent (db w)" and "fresh_events w" and "r \<in> set (jobs (db w))"
    and "leased_to (c_id r) (rt_workerID rt) r" and "c_attempt_count r < c_max_attempts r"
    and "he_Retryable (classifyError e)"
  shows "\<exists>w' r'. finish_job rt jitter False (scanJob r) (Inl e) w = (Inr (), w') \<and>
    r' \<in> set (jobs (db w')) \<and> c_id r' = c_id r \<and>
    (\<forall>t. claimable t r' \<longleftrightarrow> clk w (tick w) + backoff (c_attempt_count r) jitter \<le> t)"
proof -
  let ?runAfter = "clk w (tick w) + backoff (c_attempt_count r) jitter"
  have "leased_to (j_ID (scanJob r)) (rt_workerID rt) r" using assms(5) by simp
  from Requeue_row [OF assms(1-4) this] obtain w' t where
    "Requeue (scanJob r) (rt_workerID rt) (he_Code (classifyError e)) ?runAfter (step_tick w) = (Inr (), w')"
    and row: "(set_queued ?runAfter t r)
        \<lparr>c_error_message := nullEmpty (safeMessage (he_Code (classifyError e)))\<rparr> \<in> set (jobs (db w'))"
    by blast
  moreover from this(1) have "finish_job rt jitter False (scanJob r) (Inl e) w = (Inr (), w')"
    using finish_job_retry [OF assms(7), of "scanJob r"] assms(6) by simp
  ultimately show ?thesis
    using assms(6)
    by (intro exI [of _ w'] exI conjI) (assumption, rule row, auto simp: set_queued_def claimable_def)
qed

text \<open>
  C25: an attempt can be closed by the copy of an earlier one, because the lease names the process and
  not the slot or the attempt. If a job is running its last attempt under this worker while another
  slot of the worker ends an earlier attempt of it with a retryable error, that slot requeues the job:
  it is then queued with no attempt left, and in every later database it is still there and no claim
  can take it.
\<close>

theorem stale_attempt_strands_job:
  assumes "calm w" and "consistent (db w)" and "fresh_events w" and "r \<in> set (jobs (db w))"
    and "leased_to (j_ID job) (rt_workerID rt) r" and "c_attempt_count r = c_max_attempts r"
    and "j_AttemptCount job < j_MaxAttempts job" and "he_Retryable (classifyError e)"
  shows "\<exists>w' r'. finish_job rt jitter False job (Inl e) w = (Inr (), w') \<and>
    r' \<in> set (jobs (db w')) \<and> c_id r' = j_ID job \<and> c_status r' = StatusQueued \<and>
    (\<forall>d. db_steps (db w') d \<longrightarrow> r' \<in> set (jobs d) \<and> (\<forall>t. \<not> claimable t r'))"
proof -
  let ?runAfter = "clk w (tick w) + backoff (j_AttemptCount job) jitter"
  from Requeue_row [OF assms(1-5)] obtain w' t where
    "Requeue job (rt_workerID rt) (he_Code (classifyError e)) ?runAfter (step_tick w) = (Inr (), w')"
    and row: "(set_queued ?runAfter t r)
        \<lparr>c_error_message := nullEmpty (safeMessage (he_Code (classifyError e)))\<rparr> \<in> set (jobs (db w'))"
    by blast
  let ?r' = "(set_queued ?runAfter t r)
      \<lparr>c_error_message := nullEmpty (safeMessage (he_Code (classifyError e)))\<rparr>"
  from \<open>Requeue job (rt_workerID rt) (he_Code (classifyError e)) ?runAfter (step_tick w) = (Inr (), w')\<close>
  have "finish_job rt jitter False job (Inl e) w = (Inr (), w')"
    using finish_job_retry [OF assms(8,7)] by simp
  moreover have queued: "c_status ?r' = StatusQueued" "c_max_attempts ?r' \<le> c_attempt_count ?r'"
    "c_id ?r' = j_ID job"
    using assms(5,6) by (simp_all add: set_queued_def leased_to_def)
  moreover have "?r' \<in> set (jobs d)" if "db_steps (db w') d" for d
  proof -
    from row obtain i where i: "i < length (jobs (db w'))" "jobs (db w') ! i = ?r'"
      by (auto simp: in_set_conv_nth)
    with evolves_nth [OF db_steps_evolves [OF that] i(1)] exhausted_steps [OF _ queued(1,2)]
    show ?thesis by (metis nth_mem)
  qed
  moreover have "\<not> claimable t ?r'" for t using queued(2) by (simp add: claimable_def)
  ultimately show ?thesis using row by blast
qed

definition last_attempt_sample :: "job_db world" where
  "last_attempt_sample = sample_world (sample_db [sample_row ''j1'' StatusRunning 3])"

lemma last_attempt_facts:
  "calm last_attempt_sample" "consistent (db last_attempt_sample)" "fresh_events last_attempt_sample"
  "sample_row ''j1'' StatusRunning 3 \<in> set (jobs (db last_attempt_sample))"
proof -
  show "calm last_attempt_sample" by (simp add: calm_def last_attempt_sample_def sample_world_def)
  show "consistent (db last_attempt_sample)" by code_simp
  show "fresh_events last_attempt_sample"
    by (simp add: fresh_events_def last_attempt_sample_def inj_sample_ids)
      (simp add: sample_db_def empty_db_def)
  show "sample_row ''j1'' StatusRunning 3 \<in> set (jobs (db last_attempt_sample))"
    by (simp add: last_attempt_sample_def sample_db_def)
qed

lemma retry_is_claimable_witness:
  "\<exists>w'. finish_job sample_runtime 1 False running_job (Inl ENotFound) running_sample = (Inr (), w')"
proof -
  have "sample_row ''j1'' StatusRunning 1 \<in> set (jobs (db running_sample))"
    by (simp add: running_sample_def sample_db_def)
  moreover have "leased_to (c_id (sample_row ''j1'' StatusRunning 1)) (rt_workerID sample_runtime)
      (sample_row ''j1'' StatusRunning 1)" by code_simp
  moreover have "c_attempt_count (sample_row ''j1'' StatusRunning 1) < c_max_attempts (sample_row ''j1'' StatusRunning 1)"
    by code_simp
  moreover have "he_Retryable (classifyError ENotFound)" by (simp add: classifyError_def)
  ultimately show ?thesis
    using retry_is_claimable [OF running_sample_facts(1-3)] by blast
qed

lemma stale_attempt_strands_job_witness:
  "\<exists>w' r'. finish_job sample_runtime 1 False (scanJob (sample_row ''j1'' StatusRunning 2)) (Inl ENotFound)
       last_attempt_sample = (Inr (), w') \<and>
     r' \<in> set (jobs (db w')) \<and> c_status r' = StatusQueued \<and> (\<forall>t. \<not> claimable t r')"
proof -
  have "leased_to (j_ID (scanJob (sample_row ''j1'' StatusRunning 2))) (rt_workerID sample_runtime)
      (sample_row ''j1'' StatusRunning 3)"
    and "c_attempt_count (sample_row ''j1'' StatusRunning 3) = c_max_attempts (sample_row ''j1'' StatusRunning 3)"
    and "j_AttemptCount (scanJob (sample_row ''j1'' StatusRunning 2)) <
      j_MaxAttempts (scanJob (sample_row ''j1'' StatusRunning 2))"
    by code_simp+
  moreover have "he_Retryable (classifyError ENotFound)" by (simp add: classifyError_def)
  ultimately show ?thesis
    using stale_attempt_strands_job [OF last_attempt_facts] by (metis rtranclp.rtrancl_refl)
qed

text \<open>
  C26: a contended lock can fail a job. When the claimed attempt is the last one and another holder has
  the lock, the iteration completes the job as failed with \<open>lock_contention\<close>, without a call of its
  handler, although the architecture decisions say that contention returns the job to the queue.
\<close>

theorem contention_fails_last_attempt:
  assumes "calm w" and "consistent (db w)" and "fresh_events w"
    and "holds_lease (j_ID job) (rt_workerID rt) (db w)" and "j_MaxAttempts job \<le> j_AttemptCount job"
    and "rt_handlers rt (j_JobType job) = Some h" and "j_LockKey job \<noteq> []"
    and "k \<in> set (job_locks (db w))" and "live_lock (clk w (tick w)) (j_LockKey job) k"
  shows "\<exists>w'. run_claimed rt jitter cancelled job w = (Inr (), w') \<and>
    (\<exists>r \<in> set (jobs (db w')). c_id r = j_ID job \<and> c_status r = StatusFailed \<and>
       c_error_message r = nullEmpty (safeMessage ''lock_contention''))"
proof -
  obtain w1 where lock: "AcquireLock job (rt_workerID rt) (rt_leaseDuration rt) w = (Inr False, w1)"
    and w1: "calm w1" "consistent (db w1)" "jobs (db w1) = jobs (db w)"
      "job_events (db w1) = job_events (db w)" "ent w1 = ent w" "tick w \<le> tick w1"
    using AcquireLock_contended [OF assms(1,2,8,9,7)] by blast
  let ?failure = "failure_of rt job ''lock_contention'' ''lock_contention''"
  have run: "run_claimed rt jitter cancelled job w =
      Complete job (rt_workerID rt) StatusFailed ?failure ''lock_contention'' w1"
    using lock assms(5,6) by (simp add: run_claimed_def outcome_def runtimeRequeue_def Let_def)
  have lease: "holds_lease (j_ID job) (rt_workerID rt) (db w1)"
    using assms(4) w1(3) by (simp add: holds_lease_def)
  have "\<forall>x. ?failure \<noteq> Malformed x" by (simp add: failure_of_def failure_json_def)
  moreover have "fresh_events w1" by (rule fresh_events_later [OF assms(3)]) (simp_all add: w1)
  ultimately obtain w' where
    closed: "Complete job (rt_workerID rt) StatusFailed ?failure ''lock_contention'' w1 = (Inr (), w')"
    using Complete_calm [OF w1(1,2) _ lease] by (metis prod.collapse terminal_simps(4))
  from lease obtain r where r: "r \<in> set (jobs (db w1))" "c_id r = j_ID job"
    by (auto simp: holds_lease_def leased_to_def)
  have "\<exists>r \<in> set (jobs (db w')). c_id r = j_ID job \<and> c_status r = StatusFailed \<and>
      c_error_message r = nullEmpty (safeMessage ''lock_contention'')"
    unfolding close_then_refresh(2) [OF closed [unfolded Complete_eq complete_update_def] w1(2)]
    by (rule update_where_ex [of r]) (simp_all add: r)
  with run closed show ?thesis by simp
qed

definition contended_sample :: "job_db world" where
  "contended_sample = sample_world (sample_db
     [sample_row ''j1'' StatusRunning 3, (sample_row ''j2'' StatusRunning 1)\<lparr>c_job_type := ''project_scan''\<rparr>]
     \<lparr>job_locks := [\<lparr>k_id = ''l1'', k_lock_key = ''repository:j1'', k_job_id = ''j2'',
        k_owner = ''worker-2'', k_status = LockHeld, k_created_at = 60 * second,
        k_expires_at = 120 * second, k_released_at = None\<rparr>]\<rparr>)"

lemma contention_fails_last_attempt_witness:
  "\<exists>w'. run_claimed progress_runtime 1 False (scanJob (sample_row ''j1'' StatusRunning 3)) contended_sample =
     (Inr (), w')"
proof -
  have "calm contended_sample" by (simp add: calm_def contended_sample_def sample_world_def)
  moreover have "consistent (db contended_sample)" by code_simp
  moreover have "fresh_events contended_sample"
    by (simp add: fresh_events_def contended_sample_def inj_sample_ids)
      (simp add: sample_db_def empty_db_def)
  moreover have "holds_lease (j_ID (scanJob (sample_row ''j1'' StatusRunning 3)))
      (rt_workerID progress_runtime) (db contended_sample)" by code_simp
  moreover have "j_MaxAttempts (scanJob (sample_row ''j1'' StatusRunning 3)) \<le>
      j_AttemptCount (scanJob (sample_row ''j1'' StatusRunning 3))"
    and "j_LockKey (scanJob (sample_row ''j1'' StatusRunning 3)) \<noteq> []" by code_simp+
  moreover have "\<exists>h. rt_handlers progress_runtime (j_JobType (scanJob (sample_row ''j1'' StatusRunning 3))) = Some h"
    by (simp add: progress_runtime_def sample_row_def)
  moreover have "\<exists>k \<in> set (job_locks (db contended_sample)).
      live_lock (clk contended_sample (tick contended_sample))
        (j_LockKey (scanJob (sample_row ''j1'' StatusRunning 3))) k" by code_simp
  ultimately show ?thesis using contention_fails_last_attempt by blast
qed

end
