(* ===== verification/Safety_Facts.thy ===== *)
theory Safety_Facts
  imports Safety
begin

text \<open>
  What the redaction of \<open>internal/jobs/safety.go\<close> guarantees: bounded messages, payloads without
  secret-like names or strings, sanitized documents; and one common form of credential it misses.
\<close>

section \<open>All names, texts and members of a document\<close>

fun names :: "json \<Rightarrow> bytes list" where
  "names (JObject kvs) = concat (map (\<lambda>(k, v). k # names v) kvs)"
| "names (JArray xs) = concat (map names xs)"
| "names _ = []"

fun texts :: "json \<Rightarrow> bytes list" where
  "texts (JObject kvs) = concat (map (\<lambda>(k, v). texts v) kvs)"
| "texts (JArray xs) = concat (map texts xs)"
| "texts (JString s) = [s]"
| "texts _ = []"

fun members :: "json \<Rightarrow> (bytes \<times> json) list" where
  "members (JObject kvs) = concat (map (\<lambda>(k, v). (k, v) # members v) kvs)"
| "members (JArray xs) = concat (map members xs)"
| "members _ = []"

lemma first_error_ok_iff: "first_error rs = Inr () \<longleftrightarrow> (\<forall>r \<in> set rs. r = Inr ())"
  by (induction rs rule: first_error.induct) auto

lemma validate_value_iff:
  "validateSafeJSONValue v key = Inr () \<longleftrightarrow>
     \<not> secretLikeJSONKeyPattern key \<and> (\<forall>n \<in> set (names v). \<not> secretLikeJSONKeyPattern n) \<and>
     (\<forall>s \<in> set (texts v). \<not> containsSecretLikeString s)"
proof (induction v key rule: validateSafeJSONValue.induct)
  case (1 kvs key)
  show ?case
  proof (cases "secretLikeJSONKeyPattern key")
    case False
    with 1 have "validateSafeJSONValue v k = Inr () \<longleftrightarrow>
        \<not> secretLikeJSONKeyPattern k \<and> (\<forall>n \<in> set (names v). \<not> secretLikeJSONKeyPattern n) \<and>
        (\<forall>s \<in> set (texts v). \<not> containsSecretLikeString s)" if "(k, v) \<in> set kvs" for k v
      using that by blast
    with False show ?thesis by (fastforce simp: first_error_ok_iff)
  qed simp
next
  case (2 xs key)
  then show ?case by (auto simp: first_error_ok_iff)
qed auto

section \<open>Texts without a match\<close>

lemma match_string_suffix: "\<not> match_string m (c # s) \<Longrightarrow> m (c # s) = None \<and> \<not> match_string m s"
  by simp

lemma replace_all_idle: "\<not> match_string m s \<Longrightarrow> replace_all m f s = s"
  by (induction s) (auto split: option.split)

lemma clean_message:
  assumes "\<not> containsSecretLikeString s"
  shows "foldl (\<lambda>msg pattern. replace_all pattern redact_match msg) s secretLikeMessagePatterns = s"
  using assms by (simp add: containsSecretLikeString_def secretLikeMessagePatterns_def replace_all_idle)

section \<open>Properties\<close>

text \<open>
  A payload passes the check exactly when no member name at any depth looks like a secret's and no
  string at any depth contains something that does; the error of the first offender is returned
  otherwise.
\<close>

theorem validateSafeJobPayload_iff:
  "validateSafeJobPayload (Doc j) = Inr () \<longleftrightarrow>
     (\<forall>n \<in> set (names (decode j)). \<not> secretLikeJSONKeyPattern n) \<and>
     (\<forall>s \<in> set (texts (decode j)). \<not> containsSecretLikeString s)"
proof -
  have "\<not> secretLikeJSONKeyPattern []" by code_simp
  then show ?thesis by (simp add: validateSafeJobPayload_def validate_value_iff)
qed

definition redacted_member :: "bytes \<times> json \<Rightarrow> bool" where
  "redacted_member m \<longleftrightarrow> (secretLikeJSONKeyPattern (fst m) \<longrightarrow> snd m = JString ''[redacted]'')"

lemma sanitized_secret: "secretLikeJSONKeyPattern k \<Longrightarrow> sanitizeJSONValue v k = JString ''[redacted]''"
  by (cases v) simp_all

lemma sanitized_members: "\<forall>m \<in> set (members (sanitizeJSONValue v key)). redacted_member m"
proof (induction v key rule: sanitizeJSONValue.induct)
  case (1 kvs key)
  show ?case
  proof (cases "secretLikeJSONKeyPattern key")
    case False
    have "\<forall>m \<in> set ((k, sanitizeJSONValue v k) # members (sanitizeJSONValue v k)). redacted_member m"
      if "(k, v) \<in> set kvs" for k v
      using 1 [OF False that] sanitized_secret by (simp add: redacted_member_def)
    with False show ?thesis by (auto simp: split_beta)
  qed simp
next
  case (2 xs key)
  then show ?case by (cases "secretLikeJSONKeyPattern key") simp_all
qed simp_all

lemma safeMessage_length: "length (safeMessage m) \<le> 503"
  by (simp add: safeMessage_def Let_def)

lemma sanitized_texts: "\<forall>s \<in> set (texts (sanitizeJSONValue v key)). length s \<le> 503"
proof (induction v key rule: sanitizeJSONValue.induct)
  case (1 kvs key)
  then show ?case
    by (cases "secretLikeJSONKeyPattern key") (simp, auto simp: split_beta)
next
  case (2 xs key)
  then show ?case by (cases "secretLikeJSONKeyPattern key") simp_all
qed (simp_all add: safeMessage_length)


text \<open>
  A stored message is at most 503 bytes long, and a message without anything secret-like is kept
  as it is, but for the white space around it, up to 500 bytes.
\<close>

theorem safeMessage_bounded_and_faithful:
  "length (safeMessage m) \<le> 503 \<and>
   (\<not> containsSecretLikeString (trim_space m) \<longrightarrow>
      safeMessage m = (if length (trim_space m) \<le> 500 then trim_space m
                       else take 500 (trim_space m) @ ''...''))"
  using safeMessage_length clean_message [of "trim_space m"]
  by (auto simp: safeMessage_def Let_def)

text \<open>
  The redaction misses a bearer token. The first expression takes the scheme word for the secret:
  of an \<open>Authorization: Bearer\<close> header, the form in which the code passes its own git credentials,
  only the word \<open>Bearer\<close> is replaced and the credential stays in the stored message.
\<close>

theorem safeMessage_keeps_bearer_token:
  "containsSecretLikeString ''fatal: Authorization: Bearer s3cr'' \<and>
   safeMessage ''fatal: Authorization: Bearer s3cr'' = ''fatal: Authorization:[redacted] s3cr''"
  by code_simp

section \<open>Samples\<close>

lemma validateSafeJobPayload_iff_witness:
  "\<not> (\<exists>s. s \<in> set (texts (decode (JObject [(''repository_id'', JString ''r1'')]))) \<and>
     containsSecretLikeString s)"
proof -
  have "validateSafeJobPayload (Doc (JObject [(''repository_id'', JString ''r1'')])) = Inr ()" by code_simp
  then show ?thesis unfolding validateSafeJobPayload_iff by blast
qed


lemma safeMessage_bounded_and_faithful_witness:
  "safeMessage ''lock_contention'' = ''lock_contention''"
proof -
  have "\<not> containsSecretLikeString (trim_space ''lock_contention'')" by code_simp
  moreover have "trim_space ''lock_contention'' = ''lock_contention''" by code_simp
  ultimately show ?thesis using safeMessage_bounded_and_faithful [of "''lock_contention''"] by simp
qed

end
