(* ===== verification/Job_Progress.thy ===== *)
theory Job_Progress
  imports Job_Lease
begin

text \<open>
  Progress and housekeeping: the aggregate status of a group, the row that \<open>RefreshWorkflowStatus\<close>
  writes, the identifiers of groups and workflows, retention, and listings page by page.
\<close>

section \<open>The aggregate status\<close>

lemma status_counts_pos: "0 < status_counts rs s \<longleftrightarrow> (\<exists>r \<in> set rs. c_status r = s)"
  by (auto simp: status_counts_def filter_empty_conv)

lemma status_counts_all: "status_counts rs s = length rs \<longleftrightarrow> (\<forall>r \<in> set rs. c_status r = s)"
  unfolding status_counts_def by (metis (mono_tags, lifting) filter_True filter_id_conv length_filter_less
      less_irrefl_nat)

definition all_have :: "job_row list \<Rightarrow> status \<Rightarrow> bool" where
  "all_have rs s \<longleftrightarrow> (\<forall>r \<in> set rs. c_status r = s)"

definition some_has :: "job_row list \<Rightarrow> status \<Rightarrow> bool" where
  "some_has rs s \<longleftrightarrow> (\<exists>r \<in> set rs. c_status r = s)"

text \<open>Everything about a group is said by which statuses occur in it.\<close>

lemma all_have_iff: "all_have rs s \<longleftrightarrow> (\<forall>s'. s' \<noteq> s \<longrightarrow> \<not> some_has rs s')"
  by (auto simp: all_have_def some_has_def)

lemma other_statuses:
  "(\<forall>s::status. Q s) \<longleftrightarrow>
     Q StatusQueued \<and> Q StatusRunning \<and> Q StatusSucceeded \<and> Q StatusFailed \<and> Q StatusCancelled"
proof (intro iffI allI)
  fix s
  assume "Q StatusQueued \<and> Q StatusRunning \<and> Q StatusSucceeded \<and> Q StatusFailed \<and> Q StatusCancelled"
  then show "Q s" by (cases s) simp_all
qed blast

lemma some_terminal_iff:
  "(\<exists>r \<in> set rs. terminal (c_status r)) \<longleftrightarrow>
     some_has rs StatusSucceeded \<or> some_has rs StatusFailed \<or> some_has rs StatusCancelled"
  by (auto simp: some_has_def terminal_def)

lemma all_terminal_iff:
  "(\<forall>r \<in> set rs. terminal (c_status r)) \<longleftrightarrow> \<not> some_has rs StatusQueued \<and> \<not> some_has rs StatusRunning"
  using active_iff_not_terminal by (auto simp: some_has_def active_def)

lemma some_status:
  assumes "rs \<noteq> []"
  shows "some_has rs StatusQueued \<or> some_has rs StatusRunning \<or> some_has rs StatusSucceeded \<or>
    some_has rs StatusFailed \<or> some_has rs StatusCancelled"
proof -
  obtain r where "r \<in> set rs" using assms by (cases rs) auto
  then have "some_has rs (c_status r)" by (auto simp: some_has_def)
  then show ?thesis by (cases "c_status r") simp_all
qed

lemma counts_pos: "0 < status_counts rs s \<longleftrightarrow> some_has rs s"
  by (simp add: some_has_def status_counts_pos)

lemma counts_all: "status_counts rs s = length rs \<longleftrightarrow> all_have rs s"
  by (simp add: all_have_def status_counts_all)

section \<open>The row of a workflow\<close>

lemma upsert_workflow_row:
  "\<exists>x \<in> set (workflow_statuses (snd (upsert_workflow f d))). x\<lparr>f_id := f_id f\<rparr> = f"
proof (cases "\<exists>x \<in> set (workflow_statuses d). f_job_group_id x = f_job_group_id f")
  case True
  then obtain x where x: "x \<in> set (workflow_statuses d)" "f_job_group_id x = f_job_group_id f" by blast
  then have "f\<lparr>f_id := f_id x\<rparr> \<in> set (workflow_statuses (snd (upsert_workflow f d)))"
    by (auto simp: upsert_workflow_def set_update_where image_iff)
  then show ?thesis by force
next
  case False
  then show ?thesis by (simp add: upsert_workflow_def)
qed

section \<open>Deleting the oldest rows\<close>

text \<open>
  One batch of a retention pass on a table whose rows have distinct identifiers: the oldest rows that
  satisfy \<open>P\<close>, at most \<open>b\<close> of them, are deleted.
\<close>

lemma batch_of_old_rows:
  fixes key :: "'r \<Rightarrow> 'k::linorder" and name :: "'r \<Rightarrow> bytes" and P b
  assumes "distinct (map name xs)"
  defines "chosen \<equiv> take b (order_asc key (filter P xs))"
  defines "ys \<equiv> filter (\<lambda>x. name x \<notin> set (map name chosen)) xs"
  shows "filter (\<lambda>x. \<not> P x) ys = filter (\<lambda>x. \<not> P x) xs"
    and "length (filter P ys) = length (filter P xs) - b"
    and "length (filter (\<lambda>x. name x \<in> set (map name chosen)) xs) = min b (length (filter P xs))"
proof -
  have sub: "set chosen \<subseteq> {x \<in> set xs. P x}"
    unfolding chosen_def using set_take_subset by fastforce
  have inj: "name x \<in> name ` set chosen \<longleftrightarrow> x \<in> set chosen" if "x \<in> set xs" for x
    using that sub assms(1) by (auto simp: distinct_map inj_on_def)
  then have ys: "ys = filter (\<lambda>x. x \<notin> set chosen) xs"
    and del: "filter (\<lambda>x. name x \<in> set (map name chosen)) xs = filter (\<lambda>x. x \<in> set chosen) xs"
    by (auto simp: ys_def intro: filter_cong)
  show "filter (\<lambda>x. \<not> P x) ys = filter (\<lambda>x. \<not> P x) xs"
    unfolding ys filter_filter using sub by (auto intro: filter_cong)
  have dist: "distinct xs" using assms(1) by (simp add: distinct_map)
  then have "distinct chosen" by (simp add: chosen_def order_asc_def)
  moreover have "set (filter (\<lambda>x. x \<in> set chosen) xs) = set chosen" using sub by auto
  moreover have "distinct (filter (\<lambda>x. x \<in> set chosen) xs)" using dist by simp
  ultimately have "length (filter (\<lambda>x. x \<in> set chosen) xs) = length chosen"
    using distinct_card by metis
  moreover have "length chosen = min b (length (filter P xs))" by (simp add: chosen_def)
  ultimately show taken: "length (filter (\<lambda>x. name x \<in> set (map name chosen)) xs) = min b (length (filter P xs))"
    unfolding del by simp
  have "length (filter P xs) = length (filter (\<lambda>x. x \<in> set chosen) (filter P xs)) +
      length (filter (\<lambda>x. x \<notin> set chosen) (filter P xs))"
    by (rule sum_length_filter_compl [symmetric])
  moreover have "filter (\<lambda>x. x \<in> set chosen) (filter P xs) = filter (\<lambda>x. x \<in> set chosen) xs"
    unfolding filter_filter using sub by (auto intro: filter_cong)
  moreover have "filter P ys = filter (\<lambda>x. x \<notin> set chosen) (filter P xs)"
    unfolding ys filter_filter by (auto intro: filter_cong)
  ultimately show "length (filter P ys) = length (filter P xs) - b"
    using taken unfolding del by simp
qed

lemma deletion_consistent:
  assumes "consistent d" and "jobs d' = jobs d" and "workflow_statuses d' = workflow_statuses d"
    and "job_events d' = filter P (job_events d)" and "job_locks d' = filter Q (job_locks d)"
  shows "consistent d'"
proof -
  have "checks_ok d'"
    using assms(1) by (auto simp: consistent_iff checks_ok_def assms(2-) list_all_iff)
  moreover have "uniques_ok d'"
    using assms(1) by (auto simp: consistent_iff uniques_ok_def assms(2-) unique_by_filter)
  moreover have "foreign_keys_ok d'"
    using assms(1) unfolding consistent_iff foreign_keys_ok_def assms(2-) list_all_iff by auto
  ultimately show ?thesis by (simp add: consistent_iff)
qed

lemma delete_events_consistent:
  assumes "consistent d"
  shows "consistent (snd (delete_events ids d))"
  by (rule deletion_consistent [OF assms, where Q = "\<lambda>_. True"])
    (simp_all add: delete_events_def delete_where_def)

lemma delete_locks_consistent:
  assumes "consistent d"
  shows "consistent (snd (delete_locks ids d))"
  by (rule deletion_consistent [OF assms, where P = "\<lambda>_. True"])
    (simp_all add: delete_locks_def delete_where_def)

lemma unique_distinct: "unique_by (\<lambda>r. Some (k r)) xs \<Longrightarrow> distinct (map k xs)"
  by (induction xs) (auto simp: unique_by_Cons)

lemma consistent_distinct_ids:
  assumes "consistent d"
  shows "distinct (map ev_id (job_events d))" and "distinct (map k_id (job_locks d))"
  using assms by (simp_all add: consistent_iff uniques_ok_def unique_distinct)

section \<open>A retention pass\<close>

definition old_count :: "retention_table \<Rightarrow> instant \<Rightarrow> job_db \<Rightarrow> nat" where
  "old_count table cutoff d =
     (case table of
        JobEventsTable \<Rightarrow> length (filter (old_event cutoff d) (job_events d))
      | JobLocksTable \<Rightarrow> length (filter (old_lock cutoff) (job_locks d)))"

definition kept_events :: "instant \<Rightarrow> job_db \<Rightarrow> event_row list" where
  "kept_events cutoff d = filter (\<lambda>e. \<not> old_event cutoff d e) (job_events d)"

definition kept_locks :: "instant \<Rightarrow> job_db \<Rightarrow> lock_row list" where
  "kept_locks cutoff d = filter (\<lambda>k. \<not> old_lock cutoff k) (job_locks d)"

definition pruned :: "retention_table \<Rightarrow> instant \<Rightarrow> job_db \<Rightarrow> job_db \<Rightarrow> bool" where
  "pruned table cutoff d d' \<longleftrightarrow>
     jobs d' = jobs d \<and> workflow_statuses d' = workflow_statuses d \<and>
     (case table of
        JobEventsTable \<Rightarrow> job_locks d' = job_locks d \<and> kept_events cutoff d' = kept_events cutoff d
      | JobLocksTable \<Rightarrow> job_events d' = job_events d \<and> kept_locks cutoff d' = kept_locks cutoff d)"

lemma old_event_jobs: "jobs d' = jobs d \<Longrightarrow> old_event cutoff d' = old_event cutoff d"
  by (simp add: old_event_def fun_eq_iff)

lemma retention_delete_step:
  assumes "consistent d" and "ids = retention_select table cutoff b d"
  shows "consistent (snd (retention_delete table ids d))"
    and "fst (retention_delete table ids d) = min b (old_count table cutoff d)"
    and "old_count table cutoff (snd (retention_delete table ids d)) = old_count table cutoff d - b"
    and "pruned table cutoff d (snd (retention_delete table ids d))"
    and "length ids = min b (old_count table cutoff d)"
proof -
  have "consistent (snd (retention_delete table ids d)) \<and>
    fst (retention_delete table ids d) = min b (old_count table cutoff d) \<and>
    old_count table cutoff (snd (retention_delete table ids d)) = old_count table cutoff d - b \<and>
    pruned table cutoff d (snd (retention_delete table ids d)) \<and>
    length ids = min b (old_count table cutoff d)"
  proof (cases table)
    case JobEventsTable
    define d' where "d' = snd (delete_events ids d)"
    have tables: "jobs d' = jobs d" "workflow_statuses d' = workflow_statuses d" "job_locks d' = job_locks d"
      "job_events d' = filter (\<lambda>x. ev_id x \<notin> set ids) (job_events d)"
      by (simp_all add: d'_def delete_events_def delete_where_def)
    have ids: "ids = map ev_id (take b (order_asc (\<lambda>e. (ev_created_at e, ev_id e))
        (filter (old_event cutoff d) (job_events d))))"
      using assms(2) JobEventsTable by (simp add: retention_select_def old_events_def)
    note batch = batch_of_old_rows [OF consistent_distinct_ids(1) [OF assms(1)],
      where P = "old_event cutoff d" and b = b and key = "\<lambda>e. (ev_created_at e, ev_id e)", folded ids]
    have "fst (delete_events ids d) = min b (length (filter (old_event cutoff d) (job_events d)))"
      using batch(3) by (simp add: delete_events_def affected_def)
    then show ?thesis
      using batch(1,2) delete_events_consistent [OF assms(1), of ids] arg_cong [OF ids, of length]
      unfolding JobEventsTable retention_delete_def old_count_def pruned_def kept_events_def
        retention_table.case d'_def [symmetric] tables old_event_jobs [OF tables(1)]
      by simp
  next
    case JobLocksTable
    define d' where "d' = snd (delete_locks ids d)"
    have tables: "jobs d' = jobs d" "workflow_statuses d' = workflow_statuses d" "job_events d' = job_events d"
      "job_locks d' = filter (\<lambda>x. k_id x \<notin> set ids) (job_locks d)"
      by (simp_all add: d'_def delete_locks_def delete_where_def)
    have ids: "ids = map k_id (take b (order_asc (\<lambda>k. (lock_end k, k_id k))
        (filter (old_lock cutoff) (job_locks d))))"
      using assms(2) JobLocksTable by (simp add: retention_select_def old_locks_def)
    note batch = batch_of_old_rows [OF consistent_distinct_ids(2) [OF assms(1)],
      where P = "old_lock cutoff" and b = b and key = "\<lambda>k. (lock_end k, k_id k)", folded ids]
    have "fst (delete_locks ids d) = min b (length (filter (old_lock cutoff) (job_locks d)))"
      using batch(3) by (simp add: delete_locks_def affected_def)
    then show ?thesis
      using batch(1,2) delete_locks_consistent [OF assms(1), of ids] arg_cong [OF ids, of length]
      unfolding JobLocksTable retention_delete_def old_count_def pruned_def kept_locks_def
        retention_table.case d'_def [symmetric] tables
      by simp
  qed
  then show "consistent (snd (retention_delete table ids d))"
    and "fst (retention_delete table ids d) = min b (old_count table cutoff d)"
    and "old_count table cutoff (snd (retention_delete table ids d)) = old_count table cutoff d - b"
    and "pruned table cutoff d (snd (retention_delete table ids d))"
    and "length ids = min b (old_count table cutoff d)"
    by blast+
qed

lemma cleanup_batch_calm:
  assumes "calm w" and "consistent (db w)"
  shows "\<exists>w'. cleanupRetentionBatch table b cutoff w = (Inr (min b (old_count table cutoff (db w))), w') \<and>
    calm w' \<and> consistent (db w') \<and> pruned table cutoff (db w) (db w') \<and>
    old_count table cutoff (db w') = old_count table cutoff (db w) - b"
proof -
  define ids where "ids = retention_select table cutoff b (db w)"
  note step = retention_delete_step [OF assms(2) ids_def]
  have q: "query (retention_select table cutoff b) w = (Inr ids, step_tick w)"
    using assms(1) by (simp add: query_calm ids_def)
  show ?thesis
  proof (cases "ids = []")
    case True
    with step(5) have zero: "min b (old_count table cutoff (db w)) = 0" by simp
    have "cleanupRetentionBatch table b cutoff w = (Inr 0, step_tick w)"
      using q True by (simp add: cleanupRetentionBatch_def andThen_def ret_def)
    moreover have "pruned table cutoff (db w) (db w)" by (simp add: pruned_def split: retention_table.split)
    ultimately show ?thesis
      using zero assms by (intro exI [of _ "step_tick w"]) (auto simp: min_def split: if_splits)
  next
    case False
    let ?w' = "(step_tick (step_tick w))\<lparr>db := snd (retention_delete table ids (db w))\<rparr>"
    have "jexec (retention_delete table ids) (step_tick w) =
        (Inr (min b (old_count table cutoff (db w))), ?w')"
      using assms(1) step(1,2) by (subst exec_calm) simp_all
    with q False have "cleanupRetentionBatch table b cutoff w =
        (Inr (min b (old_count table cutoff (db w))), ?w')"
      by (simp add: cleanupRetentionBatch_def andThen_def)
    with step(1,3,4) assms(1) show ?thesis by (intro exI [of _ ?w']) simp
  qed
qed

lemma pruned_trans: "pruned table c d1 d2 \<Longrightarrow> pruned table c d2 d3 \<Longrightarrow> pruned table c d1 d3"
  by (auto simp: pruned_def split: retention_table.splits)

lemma cleanup_loop_calm:
  assumes "calm w" and "consistent (db w)" and "0 < b" and "old_count table cutoff (db w) div b < fuel"
  shows "\<exists>w'. cleanup_loop fuel table b cutoff deleted w =
      (Inr (Some (deleted + old_count table cutoff (db w))), w') \<and>
    calm w' \<and> consistent (db w') \<and> pruned table cutoff (db w) (db w') \<and> old_count table cutoff (db w') = 0"
  using assms
proof (induction fuel arbitrary: w deleted)
  case 0
  then show ?case by simp
next
  case (Suc fuel)
  let ?n = "old_count table cutoff (db w)"
  obtain w1 where run: "cleanupRetentionBatch table b cutoff w = (Inr (min b ?n), w1)"
    and w1: "calm w1" "consistent (db w1)" "pruned table cutoff (db w) (db w1)"
      "old_count table cutoff (db w1) = ?n - b"
    using cleanup_batch_calm [OF Suc.prems(1,2)] by blast
  show ?case
  proof (cases "?n < b")
    case True
    with run w1 show ?thesis by (simp add: andThen_def ret_def)
  next
    case False
    have "?n div b = Suc ((?n - b) div b)"
      using False Suc.prems(3) by (simp add: le_div_geq)
    then have "old_count table cutoff (db w1) div b < fuel" using Suc.prems(4) w1(4) by simp
    from Suc.IH [OF w1(1,2) Suc.prems(3) this, of "deleted + b"] obtain w2 where
      "cleanup_loop fuel table b cutoff (deleted + b) w1 =
         (Inr (Some (deleted + b + (?n - b))), w2)"
      and "calm w2" "consistent (db w2)" "pruned table cutoff (db w1) (db w2)"
        "old_count table cutoff (db w2) = 0"
      using w1(4) by auto
    with run False w1(3) show ?thesis
      by (auto simp: andThen_def min_def intro: pruned_trans)
  qed
qed

section \<open>Properties\<close>

text \<open>
  The aggregate of a group's jobs says what it should: running as long as one runs or some have
  ended and some still wait, queued when all wait, succeeded or cancelled when all have, failed when
  all have ended, at least one failed and none succeeded, and partial when all have ended and some, but
  not all, succeeded.
\<close>

theorem aggregateStatus_meaning:
  assumes "rs \<noteq> []"
  shows "(aggregateStatus (status_counts rs) (length rs) = Agg StatusRunning \<longleftrightarrow>
       some_has rs StatusRunning \<or> some_has rs StatusQueued \<and> \<not> all_have rs StatusQueued) \<and>
    (aggregateStatus (status_counts rs) (length rs) = Agg StatusQueued \<longleftrightarrow> all_have rs StatusQueued) \<and>
    (aggregateStatus (status_counts rs) (length rs) = Agg StatusSucceeded \<longleftrightarrow> all_have rs StatusSucceeded) \<and>
    (aggregateStatus (status_counts rs) (length rs) = Agg StatusCancelled \<longleftrightarrow> all_have rs StatusCancelled) \<and>
    (aggregateStatus (status_counts rs) (length rs) = Agg StatusFailed \<longleftrightarrow>
       (\<forall>r \<in> set rs. terminal (c_status r)) \<and> some_has rs StatusFailed \<and> \<not> some_has rs StatusSucceeded) \<and>
    (aggregateStatus (status_counts rs) (length rs) = Partial \<longleftrightarrow>
       (\<forall>r \<in> set rs. terminal (c_status r)) \<and> some_has rs StatusSucceeded \<and> \<not> all_have rs StatusSucceeded)"
proof -
  let ?counts = "status_counts rs"
  have some_end: "0 < ?counts StatusSucceeded + ?counts StatusFailed + ?counts StatusCancelled \<longleftrightarrow>
      some_has rs StatusSucceeded \<or> some_has rs StatusFailed \<or> some_has rs StatusCancelled"
    by (simp add: counts_pos [symmetric])
  show ?thesis
    unfolding aggregateStatus_def some_end counts_pos counts_all all_have_iff other_statuses all_terminal_iff
    using some_status [OF assms]
    by (cases "some_has rs StatusQueued"; cases "some_has rs StatusRunning";
        cases "some_has rs StatusSucceeded"; cases "some_has rs StatusFailed";
        cases "some_has rs StatusCancelled"; simp)
qed

lemma aggregateStatus_meaning_witness:
  "aggregateStatus (status_counts [sample_row ''a'' StatusFailed 1, sample_row ''b'' StatusSucceeded 1])
     (length [sample_row ''a'' StatusFailed 1, sample_row ''b'' StatusSucceeded 1]) = Partial"
proof -
  let ?rs = "[sample_row ''a'' StatusFailed 1, sample_row ''b'' StatusSucceeded 1]"
  have "\<forall>r \<in> set ?rs. terminal (c_status r)" and "some_has ?rs StatusSucceeded"
    and "\<not> all_have ?rs StatusSucceeded" and "?rs \<noteq> []"
    by (simp_all add: some_has_def all_have_def sample_row_def)
  then show ?thesis using aggregateStatus_meaning [of ?rs] by blast
qed

text \<open>
  C20: retention deletes what is old and nothing else, and it ends. Without faults, and with one round
  for every 500 old rows and one more, \<open>CleanupRetention\<close> returns the numbers of the old events of
  finished jobs and of the old locks that are no longer held; exactly these rows are gone, the others
  are there in their order, and jobs and workflow statuses are untouched.
\<close>

theorem CleanupRetention_exact:
  assumes "calm w" and "consistent (db w)"
    and "length (filter (old_event cutoff (db w)) (job_events (db w))) div 500 < fuel"
    and "length (filter (old_lock cutoff) (job_locks (db w))) div 500 < fuel"
  shows "\<exists>w'. CleanupRetention fuel cutoff w =
      (Inr (Some (length (filter (old_event cutoff (db w)) (job_events (db w))),
                  length (filter (old_lock cutoff) (job_locks (db w))))), w') \<and>
    job_events (db w') = filter (\<lambda>e. \<not> old_event cutoff (db w) e) (job_events (db w)) \<and>
    job_locks (db w') = filter (\<lambda>k. \<not> old_lock cutoff k) (job_locks (db w)) \<and>
    jobs (db w') = jobs (db w) \<and> workflow_statuses (db w') = workflow_statuses (db w)"
proof -
  have "old_count JobEventsTable cutoff (db w) div 500 < fuel"
    using assms(3) by (simp add: old_count_def)
  from cleanup_loop_calm [OF assms(1,2) _ this, of 0] obtain w1 where
    events: "cleanup_loop fuel JobEventsTable 500 cutoff 0 w =
       (Inr (Some (old_count JobEventsTable cutoff (db w))), w1)"
    and w1: "calm w1" "consistent (db w1)" "pruned JobEventsTable cutoff (db w) (db w1)"
      "old_count JobEventsTable cutoff (db w1) = 0" by auto
  have same: "job_locks (db w1) = job_locks (db w)" using w1(3) by (simp add: pruned_def)
  then have "old_count JobLocksTable cutoff (db w1) div 500 < fuel"
    using assms(4) by (simp add: old_count_def)
  from cleanup_loop_calm [OF w1(1,2) _ this, of 0] obtain w2 where
    locks: "cleanup_loop fuel JobLocksTable 500 cutoff 0 w1 =
       (Inr (Some (old_count JobLocksTable cutoff (db w1))), w2)"
    and w2: "pruned JobLocksTable cutoff (db w1) (db w2)" "old_count JobLocksTable cutoff (db w2) = 0"
    by auto
  have all: "filter (\<lambda>x. \<not> P x) xs = xs" if "length (filter P xs) = 0" for P :: "'r \<Rightarrow> bool" and xs
    using that by (simp add: filter_id_conv filter_empty_conv)
  have "job_events (db w2) = kept_events cutoff (db w)"
    using w1(3) all [of "old_event cutoff (db w1)" "job_events (db w1)"] w1(4) w2(1)
    by (simp add: pruned_def kept_events_def old_count_def)
  moreover have "job_locks (db w2) = kept_locks cutoff (db w)"
    using w2(1) all [of "old_lock cutoff" "job_locks (db w2)"] w2(2) same
    by (simp add: pruned_def kept_locks_def old_count_def)
  moreover have "CleanupRetention fuel cutoff w =
      (Inr (Some (old_count JobEventsTable cutoff (db w), old_count JobLocksTable cutoff (db w))), w2)"
    using events locks same by (simp add: CleanupRetention_def andThen_def ret_def old_count_def)
  ultimately show ?thesis
    using w1(3) w2(1) by (simp add: kept_events_def kept_locks_def old_count_def pruned_def)
qed

lemma CleanupRetention_exact_witness:
  "\<exists>w'. CleanupRetention 1 (95 * second) running_sample = (Inr (Some (0, 0)), w') \<and>
     job_locks (db w') = job_locks (db running_sample)"
proof -
  have "filter (old_event (95 * second) (db running_sample)) (job_events (db running_sample)) = []"
    and "filter (old_lock (95 * second)) (job_locks (db running_sample)) = []"
    and "filter (\<lambda>k. \<not> old_lock (95 * second) k) (job_locks (db running_sample)) = job_locks (db running_sample)"
    by (simp_all add: running_sample_def sample_db_def empty_db_def old_lock_def)
  with CleanupRetention_exact [OF running_sample_facts(1,2), of "95 * second" 1] show ?thesis by auto
qed

text \<open>
  After a \<open>RefreshWorkflowStatus\<close> that returns without error, for a group that has jobs, the
  group's row has the aggregate of the statuses of its jobs, the number of jobs that have ended as its
  progress and the number of jobs as its total; the jobs, locks and events are untouched.
\<close>

theorem RefreshWorkflowStatus_records:
  assumes "RefreshWorkflowStatus g i w = (Inr u, w')" and "g \<noteq> []" and "group_jobs g (db w) \<noteq> []"
    and "\<forall>r \<in> set (jobs (db w)). c_id r \<noteq> []"
  shows "same_core (db w) (db w') \<and>
    (\<exists>f \<in> set (workflow_statuses (db w')). f_job_group_id f = g \<and>
       f_aggregate_status f =
         aggregateStatus (status_counts (group_jobs g (db w))) (length (group_jobs g (db w))) \<and>
       f_progress_current f = int (length (filter (\<lambda>r. terminal (c_status r)) (group_jobs g (db w)))) \<and>
       f_progress_total f = int (length (group_jobs g (db w))))"
proof -
  let ?rs = "group_jobs g (db w)"
  let ?n = "length ?rs"
  have ended: "status_counts rs StatusSucceeded + status_counts rs StatusFailed + status_counts rs StatusCancelled =
      length (filter (\<lambda>r. terminal (c_status r)) rs)" for rs
    by (induction rs) (auto simp: status_counts_def terminal_def)
  have "order_asc (\<lambda>r. (c_created_at r, c_id r)) ?rs \<noteq> []" using assms(3) by simp
  then obtain r0 where r0: "first_row (order_asc (\<lambda>r. (c_created_at r, c_id r)) ?rs) = Some r0"
    by (cases "order_asc (\<lambda>r. (c_created_at r, c_id r)) ?rs") auto
  then have "r0 \<in> set ?rs" by (rule first_row_order_asc_least(1))
  then have id0: "c_id r0 \<noteq> []" using assms(4) by (simp add: group_jobs_def)
  have total: "total_count (status_counts ?rs) = ?n" by (rule total_status_counts)
  let ?agg = "aggregateStatus (status_counts ?rs) ?n"
  let ?type = "workflowTypeForJobType (c_job_type r0)"
  let ?row = "\<lambda>wid latest t. \<lparr>f_id = ''workflow_'' @ g, f_workflow_type = ?type, f_workflow_id = wid,
      f_job_group_id = g, f_aggregate_status = ?agg,
      f_progress_current = int (status_counts ?rs StatusSucceeded + status_counts ?rs StatusFailed +
         status_counts ?rs StatusCancelled),
      f_progress_total = int ?n,
      f_summary_payload = workflow_summary ?type wid g ?agg (status_counts ?rs) latest, f_updated_at = t\<rparr>"
  have "firstWorkflowJob g (db w) = Some (scanJob r0)" using r0 by (simp add: firstWorkflowJob_def)
  with assms(1-3) id0 total have "\<exists>wid latest t. db w' = snd (upsert_workflow (?row wid latest t) (db w))"
    by (auto simp: RefreshWorkflowStatus_def Let_def andThen_Inr_iff query_Inr_iff exec_Inr_iff split: if_splits)
  then obtain wid latest t where w': "db w' = snd (upsert_workflow (?row wid latest t) (db w))" by blast
  define f where "f = ?row wid latest t"
  have f: "f_job_group_id f = g" "f_aggregate_status f = ?agg"
      "f_progress_current f = int (status_counts ?rs StatusSucceeded + status_counts ?rs StatusFailed +
         status_counts ?rs StatusCancelled)"
      "f_progress_total f = int ?n"
    by (simp_all add: f_def)
  have w': "db w' = snd (upsert_workflow f (db w))" using w' by (simp add: f_def)
  obtain x where "x \<in> set (workflow_statuses (db w'))" and x: "x\<lparr>f_id := f_id f\<rparr> = f"
    using upsert_workflow_row [of f "db w"] w' by auto
  moreover have "f_job_group_id x = g" "f_aggregate_status x = aggregateStatus (status_counts ?rs) ?n"
    "f_progress_current x = f_progress_current f" "f_progress_total x = int ?n"
    using f arg_cong [OF x, of f_job_group_id] arg_cong [OF x, of f_aggregate_status]
      arg_cong [OF x, of f_progress_current] arg_cong [OF x, of f_progress_total] by simp_all
  moreover have "same_core (db w) (db w')"
    using upsert_workflow_same_core [of "db w" f] by (simp only: w')
  ultimately show ?thesis
    using f(3) unfolding ended by (intro conjI bexI [of _ x]) simp_all
qed

lemma RefreshWorkflowStatus_records_witness:
  "\<exists>w'. RefreshWorkflowStatus ''repository:j1'' [] running_sample = (Inr (), w') \<and>
     (\<exists>f \<in> set (workflow_statuses (db w')). f_progress_total f = 1)"
proof -
  have "fst (RefreshWorkflowStatus ''repository:j1'' [] running_sample) = Inr ()" by code_simp
  then obtain w' where run: "RefreshWorkflowStatus ''repository:j1'' [] running_sample = (Inr (), w')"
    by (metis prod.collapse)
  have group: "group_jobs ''repository:j1'' (db running_sample) = [sample_row ''j1'' StatusRunning 1]"
    by (simp add: group_jobs_def running_sample_def sample_db_def sample_row_def)
  have "\<forall>r \<in> set (jobs (db running_sample)). c_id r \<noteq> []"
    by (simp add: running_sample_def sample_db_def sample_row_def)
  from RefreshWorkflowStatus_records [OF run _ _ this] run show ?thesis by (auto simp: group)
qed

end
