(* ===== verification/Job_Listing.thy ===== *)
theory Job_Listing
  imports Job_Progress
begin

text \<open>
  Listings by keyset pages: no row is skipped and none appears twice, however many pages there are;
  and the names of groups and workflows.
\<close>

section \<open>Descending order and cursors\<close>

definition below :: "('r \<Rightarrow> instant \<times> bytes) \<Rightarrow> (instant \<times> bytes) option \<Rightarrow> 'r \<Rightarrow> bool" where
  "below key after r \<longleftrightarrow> (case after of None \<Rightarrow> True | Some a \<Rightarrow> key r < a)"

text \<open>All that a listing has to show from a cursor on.\<close>

definition listing ::
    "('r \<Rightarrow> instant \<times> bytes) \<Rightarrow> ('r \<Rightarrow> bool) \<Rightarrow> (instant \<times> bytes) option \<Rightarrow> 'r list \<Rightarrow> 'r list" where
  "listing key P after rows = order_desc key (filter (\<lambda>r. P r \<and> below key after r) rows)"

lemma page_of_eq:
  "page_of key P after limit rows =
     (if limit < length (listing key P after rows)
      then (take limit (listing key P after rows),
            Some (key (last (take limit (listing key P after rows)))))
      else (listing key P after rows, None))"
  by (simp add: page_of_def listing_def below_def Let_def take_take min_def)

lemma sorted_listing:
  assumes "distinct (map key rows)"
  shows "sorted_wrt (\<lambda>a b. key b < key a) (listing key P after rows)"
proof -
  let ?xs = "sort_key key (filter (\<lambda>r. P r \<and> below key after r) rows)"
  have "distinct (map key ?xs)"
    using assms by (metis (no_types, lifting) distinct_map distinct_filter distinct_sort filter_is_subset
        inj_on_subset set_sort)
  moreover have "sorted (map key ?xs)" by simp
  ultimately have "sorted_wrt (<) (map key ?xs)" by (simp add: strict_sorted_iff)
  then show ?thesis
    by (simp add: listing_def order_desc_def sorted_wrt_rev sorted_wrt_map)
qed

lemma listing_from:
  assumes "below key after = (\<lambda>r. True) \<or> (\<exists>a. after = Some a \<and> k \<le> a)"
  shows "listing key P (Some k) rows = filter (\<lambda>r. key r < k) (listing key P after rows)"
proof -
  have "(P r \<and> below key (Some k) r) \<longleftrightarrow> ((P r \<and> below key after r) \<and> key r < k)" for r
    using assms by (auto simp: below_def fun_eq_iff split: option.splits)
  then show ?thesis
    by (simp add: listing_def order_desc_def rev_filter [symmetric] filter_sort conj_commute)
qed

lemma filter_below_last:
  fixes key :: "'r \<Rightarrow> 'k::linorder"
  assumes "sorted_wrt (\<lambda>a b. key b < key a) ys" and "0 < n" and "n < length ys"
  shows "filter (\<lambda>r. key r < key (last (take n ys))) ys = drop n ys"
proof -
  let ?k = "key (last (take n ys))"
  have parts: "sorted_wrt (\<lambda>a b. key b < key a) (take n ys @ drop n ys)" using assms(1) by simp
  have "take n ys \<noteq> []" using assms(2,3) by auto
  then have "last (take n ys) \<in> set (take n ys)" by simp
  then have low: "key r < ?k" if "r \<in> set (drop n ys)" for r
    using that parts unfolding sorted_wrt_append by blast
  have "\<not> key r < ?k" if "r \<in> set (take n ys)" for r
  proof -
    obtain xs x where xs: "take n ys = xs @ [x]" using \<open>take n ys \<noteq> []\<close> by (metis append_butlast_last_id)
    have "sorted_wrt (\<lambda>a b. key b < key a) (xs @ [x])" using parts xs by (simp add: sorted_wrt_append)
    then show ?thesis using that xs by (auto simp: sorted_wrt_append dest: order.asym)
  qed
  then have "filter (\<lambda>r. key r < ?k) (take n ys) = []" by (simp add: filter_empty_conv)
  moreover have "filter (\<lambda>r. key r < ?k) (drop n ys) = drop n ys" using low by (simp add: filter_id_conv)
  ultimately show ?thesis by (metis append_Nil append_take_drop_id filter_append)
qed

lemma page_of_split:
  assumes "distinct (map key rows)" and "0 < limit" and "page_of key P after limit rows = (items, next)"
  shows "listing key P after rows =
      items @ (case next of None \<Rightarrow> [] | Some k \<Rightarrow> listing key P (Some k) rows)"
    and "length items \<le> limit" and "next \<noteq> None \<Longrightarrow> length items = limit"
    and "next = Some k \<Longrightarrow> k = key (last items) \<and> items \<noteq> []"
proof -
  let ?all = "listing key P after rows"
  have all: "?all = items @ (case next of None \<Rightarrow> [] | Some k \<Rightarrow> listing key P (Some k) rows) \<and>
      length items \<le> limit \<and> (next \<noteq> None \<longrightarrow> length items = limit) \<and>
      (next = Some k \<longrightarrow> k = key (last items) \<and> items \<noteq> [])" for k
  proof (cases "limit < length ?all")
    case False
    with assms(3) show ?thesis by (simp add: page_of_eq)
  next
    case True
    let ?k = "key (last (take limit ?all))"
    from True assms(3) have eq: "items = take limit ?all" "next = Some ?k" by (auto simp: page_of_eq)
    have "take limit ?all \<noteq> []" using assms(2) True by auto
    then have "last (take limit ?all) \<in> set ?all" by (meson in_set_takeD last_in_set)
    then have "below key after (last (take limit ?all))" by (simp add: listing_def)
    then have "listing key P (Some ?k) rows = filter (\<lambda>r. key r < ?k) ?all"
      by (intro listing_from) (auto simp: below_def split: option.splits)
    also have "\<dots> = drop limit ?all"
      by (rule filter_below_last [OF sorted_listing [OF assms(1)] assms(2) True])
    finally have rest: "listing key P (Some ?k) rows = drop limit ?all" .
    show ?thesis
      unfolding eq option.case rest using True \<open>take limit ?all \<noteq> []\<close> by simp
  qed
  then show "?all = items @ (case next of None \<Rightarrow> [] | Some k \<Rightarrow> listing key P (Some k) rows)"
    and "length items \<le> limit" and "next \<noteq> None \<Longrightarrow> length items = limit"
    and "next = Some k \<Longrightarrow> k = key (last items) \<and> items \<noteq> []"
    by blast+
qed

lemma listing_keys_below:
  "r \<in> set (listing key P after rows) \<longleftrightarrow> r \<in> set rows \<and> P r \<and> below key after r"
  by (auto simp: listing_def order_desc_def)

section \<open>Jobs\<close>

lemma distinct_key:
  assumes "consistent d"
  shows "distinct (map (\<lambda>r. (f r, c_id r)) (jobs d))"
proof -
  have "distinct (map c_id (jobs d))" by (rule unique_distinct) (rule consistent_ids [OF assms])
  then have "distinct (map snd (map (\<lambda>r. (f r, c_id r)) (jobs d)))" by (simp add: comp_def)
  then show ?thesis by (simp add: distinct_map inj_on_def)
qed

definition cursor_start :: "cursor \<Rightarrow> (instant \<times> bytes) option" where
  "cursor_start c = (case decodeCursor c of Inl e \<Rightarrow> None | Inr a \<Rightarrow> Some a)"

definition readable :: "cursor \<Rightarrow> bool" where
  "readable c \<longleftrightarrow> c = NoCursor \<or> (\<exists>a. decodeCursor c = Inr a)"

lemma cursor_start_simps [simp]:
  "cursor_start NoCursor = None" "decodeCursor c = Inr a \<Longrightarrow> cursor_start c = Some a"
  by (simp_all add: cursor_start_def decodeCursor_def)

lemma encodeCursor_readable:
  "snd k \<noteq> [] \<Longrightarrow> decodeCursor (encodeCursor k) = Inr k \<and> encodeCursor k \<noteq> NoCursor \<and>
     readable (encodeCursor k) \<and> cursor_start (encodeCursor k) = Some k"
  by (cases k) (simp add: decodeCursor_def encodeCursor_def readable_def cursor_start_def)

lemma read_cursor:
  "readable c \<Longrightarrow>
     (if c = NoCursor then ret None
      else (case decodeCursor c of Inl e \<Rightarrow> fail e | Inr a \<Rightarrow> ret (Some a))) w = (Inr (cursor_start c), w)"
  by (auto simp: readable_def ret_def)

definition remaining_jobs :: "ListFilters \<Rightarrow> job_db \<Rightarrow> job_row list" where
  "remaining_jobs f d = listing job_cursor_key (list_filter f) (cursor_start (lf_Cursor f)) (jobs d)"

lemma effective_limit_bounds:
  "0 < effective_limit l m" "effective_limit l m \<le> nat (max 200 m)"
  by (auto simp: effective_limit_def Let_def)

lemma remaining_after:
  assumes "snd k \<noteq> []"
  shows "remaining_jobs (f\<lparr>lf_Cursor := encodeCursor k\<rparr>) d =
    listing job_cursor_key (list_filter f) (Some k) (jobs d)"
proof -
  have "list_filter (f\<lparr>lf_Cursor := encodeCursor k\<rparr>) = list_filter f"
    by (simp add: list_filter_def fun_eq_iff)
  then show ?thesis using encodeCursor_readable [OF assms] by (simp add: remaining_jobs_def)
qed

lemma ListPage_calm:
  assumes "calm w" and "readable (lf_Cursor f)"
  shows "ListPage f w =
    (case page_of job_cursor_key (list_filter f) (cursor_start (lf_Cursor f))
            (effective_limit (lf_Limit f) 200) (jobs (db w)) of
       (rows, next) \<Rightarrow>
         (Inr \<lparr>page_Items = map scanJob rows, page_NextCursor = next\<rparr>, step_tick w))"
  using assms
  by (simp add: ListPage_def list_jobs_def andThen_def [of "if _ then _ else _"] read_cursor)
    (simp add: andThen_def query_calm ret_def split: prod.split)

text \<open>
  A page of jobs together with what a listing from its next cursor has to show is what this
  listing had to show, in the same order: following the cursors shows every job that matches the
  filters once, newest first. A page has at most 200 jobs and a page with a next cursor is not empty;
  a page without one is the last.
\<close>

theorem ListPage_resumes:
  assumes "calm w" and "consistent (db w)" and "\<forall>r \<in> set (jobs (db w)). c_id r \<noteq> []"
    and "readable (lf_Cursor f)"
  shows "\<exists>items next.
    ListPage f w = (Inr \<lparr>page_Items = map scanJob items, page_NextCursor = next\<rparr>, step_tick w) \<and>
    length items \<le> 200 \<and>
    remaining_jobs f (db w) =
      items @ (case next of
                 None \<Rightarrow> []
               | Some k \<Rightarrow> remaining_jobs (f\<lparr>lf_Cursor := encodeCursor k\<rparr>) (db w)) \<and>
    (next \<noteq> None \<longrightarrow> items \<noteq> [] \<and> readable (encodeCursor (the next))) \<and>
    sorted_wrt (\<lambda>a b. job_cursor_key b < job_cursor_key a) (remaining_jobs f (db w)) \<and>
    set (remaining_jobs f (db w)) =
      {r \<in> set (jobs (db w)). list_filter f r \<and> below job_cursor_key (cursor_start (lf_Cursor f)) r}"
proof -
  let ?after = "cursor_start (lf_Cursor f)" and ?limit = "effective_limit (lf_Limit f) 200"
  obtain items "next" where page:
    "page_of job_cursor_key (list_filter f) ?after ?limit (jobs (db w)) = (items, next)" by fastforce
  have keys: "distinct (map job_cursor_key (jobs (db w)))"
    using distinct_key [OF assms(2), of c_created_at] by (simp add: job_cursor_key_def [abs_def])
  note split = page_of_split [OF keys effective_limit_bounds(1) page]
  have named: "snd k \<noteq> []" if "next = Some k" for k
  proof -
    from split(4) [OF that] have "last items \<in> set (remaining_jobs f (db w))" "k = job_cursor_key (last items)"
      unfolding remaining_jobs_def split(1) by simp_all
    then show ?thesis
      using assms(3) by (simp add: remaining_jobs_def listing_keys_below job_cursor_key_def)
  qed
  have "remaining_jobs f (db w) = items @ (case next of
                 None \<Rightarrow> []
               | Some k \<Rightarrow> remaining_jobs (f\<lparr>lf_Cursor := encodeCursor k\<rparr>) (db w))"
  proof (cases "next")
    case None
    with split(1) show ?thesis by (simp add: remaining_jobs_def)
  next
    case (Some k)
    with split(1) remaining_after [OF named [OF Some]] show ?thesis by (simp add: remaining_jobs_def)
  qed
  moreover have "next \<noteq> None \<longrightarrow> items \<noteq> [] \<and> readable (encodeCursor (the next))"
  proof (cases "next")
    case (Some k)
    then show ?thesis using split(4) [OF Some] encodeCursor_readable [OF named [OF Some]] by simp
  qed simp
  moreover have "length items \<le> 200" using split(2) effective_limit_bounds(2) [of "lf_Limit f" 200] by simp
  moreover have "ListPage f w =
      (Inr \<lparr>page_Items = map scanJob items, page_NextCursor = next\<rparr>, step_tick w)"
    by (simp add: ListPage_calm [OF assms(1,4)] page)
  moreover have "sorted_wrt (\<lambda>a b. job_cursor_key b < job_cursor_key a) (remaining_jobs f (db w))"
    unfolding remaining_jobs_def by (rule sorted_listing [OF keys])
  moreover have "set (remaining_jobs f (db w)) =
      {r \<in> set (jobs (db w)). list_filter f r \<and> below job_cursor_key ?after r}"
    unfolding remaining_jobs_def by (auto simp: listing_keys_below)
  ultimately show ?thesis by - (rule exI [of _ items], rule exI [of _ "next"], intro conjI)
qed

definition listed_sample :: "job_db world" where
  "listed_sample = sample_world (sample_db
     [sample_row ''j1'' StatusQueued 0, sample_row ''j2'' StatusSucceeded 1, sample_row ''j3'' StatusQueued 0])"

definition first_two :: ListFilters where
  "first_two = \<lparr>lf_JobType = [], lf_Status = None, lf_LockKey = [], lf_JobGroupID = [],
     lf_ParentJobID = [], lf_Limit = 2, lf_Cursor = NoCursor\<rparr>"

lemma ListPage_resumes_witness:
  "\<exists>items next.
     ListPage first_two listed_sample =
       (Inr \<lparr>page_Items = map scanJob items, page_NextCursor = next\<rparr>, step_tick listed_sample) \<and>
     remaining_jobs first_two (db listed_sample) =
       items @ (case next of
                  None \<Rightarrow> []
                | Some k \<Rightarrow> remaining_jobs (first_two\<lparr>lf_Cursor := encodeCursor k\<rparr>) (db listed_sample))"
proof -
  have "calm listed_sample" by (simp add: calm_def listed_sample_def sample_world_def)
  moreover have "consistent (db listed_sample)" by code_simp
  moreover have "\<forall>r \<in> set (jobs (db listed_sample)). c_id r \<noteq> []"
    by (simp add: listed_sample_def sample_db_def sample_row_def)
  moreover have "readable (lf_Cursor first_two)" by (simp add: readable_def first_two_def)
  ultimately show ?thesis using ListPage_resumes [of listed_sample first_two] by blast
qed

section \<open>Workers\<close>

definition remaining_workers :: "(instant \<times> bytes) option \<Rightarrow> job_db \<Rightarrow> job_row list" where
  "remaining_workers after d = listing worker_key (latest_of_worker d) after (jobs d)"

lemma worker_keys:
  assumes "consistent d"
  shows "distinct (map worker_key (jobs d))"
  using distinct_key [OF assms, of c_updated_at] by (simp add: worker_key_def [abs_def])

lemma WorkerStatusesPage_calm:
  assumes "calm w" and "readable c"
  shows "WorkerStatusesPage 200 c w =
    (case page_of worker_key (latest_of_worker (db w)) (cursor_start c) 200 (jobs (db w)) of
       (rows, next) \<Rightarrow>
         (Inr \<lparr>page_Items = map (worker_status (clk w (tick w)) (db w)) rows, page_NextCursor = next\<rparr>,
          step_tick (step_tick w)))"
  using assms
  by (simp add: WorkerStatusesPage_def now_andThen andThen_def [of "if _ then _ else _"] read_cursor)
    (simp add: andThen_def query_calm ret_def split: prod.split)

lemma worker_pages_reads:
  assumes "consistent (db w)" and "\<forall>r \<in> set (jobs (db w)). c_id r \<noteq> []"
    and "calm w" and "readable c" and "length (remaining_workers (cursor_start c) (db w)) < fuel"
  shows "\<exists>ws w'. worker_pages fuel c w = (Inr (Some ws), w') \<and> db w' = db w \<and>
    list_all2 (\<lambda>s r. \<exists>t. s = worker_status t (db w) r) ws (remaining_workers (cursor_start c) (db w))"
  using assms
proof (induction fuel arbitrary: c w)
  case 0
  then show ?case by simp
next
  case (Suc fuel)
  let ?w = "step_tick (step_tick w)" and ?d = "db w"
  let ?reads = "\<lambda>ws rs. list_all2 (\<lambda>s r. \<exists>t. s = worker_status t ?d r) ws rs"
  obtain items "next" where page:
    "page_of worker_key (latest_of_worker ?d) (cursor_start c) 200 (jobs ?d) = (items, next)" by fastforce
  note split = page_of_split [OF worker_keys [OF Suc.prems(1)] _ page, simplified]
  let ?here = "map (worker_status (clk w (tick w)) ?d) items"
  have run: "WorkerStatusesPage 200 c w = (Inr \<lparr>page_Items = ?here, page_NextCursor = next\<rparr>, ?w)"
    by (simp add: WorkerStatusesPage_calm [OF Suc.prems(3,4)] page)
  have here: "?reads ?here items" by (auto simp: list.rel_map intro: list_all2_refl)
  show ?case
  proof (cases "next")
    case None
    with run here split(1) show ?thesis
      by (auto simp: andThen_def ret_def remaining_workers_def)
  next
    case (Some k)
    from split(4) [OF Some] have "last items \<in> set (remaining_workers (cursor_start c) ?d)"
      and key: "k = worker_key (last items)"
      unfolding remaining_workers_def split(1) by simp_all
    then have "snd k \<noteq> []"
      using Suc.prems(2) by (simp add: remaining_workers_def listing_keys_below worker_key_def)
    note next_page = encodeCursor_readable [OF this]
    have rest: "remaining_workers (cursor_start c) ?d =
        items @ remaining_workers (cursor_start (encodeCursor k)) ?d"
      using split(1) Some next_page by (simp add: remaining_workers_def)
    have "length (remaining_workers (cursor_start (encodeCursor k)) (db ?w)) < fuel"
      using Suc.prems(5) split(3) Some by (simp add: rest)
    then obtain ws w' where "worker_pages fuel (encodeCursor k) ?w = (Inr (Some ws), w')" "db w' = ?d"
      "?reads ws (remaining_workers (cursor_start (encodeCursor k)) ?d)"
      using Suc.IH [of ?w "encodeCursor k"] Suc.prems(1-3) next_page by auto
    with run Some here rest show ?thesis
      by (auto simp: andThen_def ret_def list_all2_appendI)
  qed
qed

text \<open>Every worker with a running job has exactly one latest running job.\<close>

definition busy_workers :: "job_db \<Rightarrow> bytes set" where
  "busy_workers d = {i. \<exists>r \<in> set (jobs d). runs_for_worker r \<and> c_leased_by r = Some i}"

lemma latest_of_worker_exists:
  assumes "r \<in> set (jobs d)" and "runs_for_worker r"
  shows "\<exists>x \<in> set (jobs d). latest_of_worker d x \<and> c_leased_by x = c_leased_by r"
proof -
  let ?mine = "filter (\<lambda>x. c_status x = StatusRunning \<and> c_leased_by x = c_leased_by r) (jobs d)"
  let ?top = "Max (worker_key ` set ?mine)"
  have "r \<in> set ?mine" using assms by (simp add: runs_for_worker_def)
  then have "?top \<in> worker_key ` set ?mine" by (intro Max_in) auto
  then obtain x where x: "x \<in> set ?mine" "worker_key x = ?top" by auto
  have "\<not> worker_key x < worker_key y" if "y \<in> set ?mine" for y
    using Max_ge [of "worker_key ` set ?mine" "worker_key y"] that x(2) by (simp add: not_less)
  then have "latest_of_worker d x"
    using x(1) assms(2) by (auto simp: latest_of_worker_def runs_for_worker_def)
  with x(1) show ?thesis by auto
qed

lemma latest_of_worker_unique:
  assumes "consistent d" and "x \<in> set (jobs d)" and "y \<in> set (jobs d)"
    and "latest_of_worker d x" and "latest_of_worker d y" and "c_leased_by x = c_leased_by y"
  shows "x = y"
proof -
  have "\<not> worker_key x < worker_key y" and "\<not> worker_key y < worker_key x"
    using assms(2-) by (auto simp: latest_of_worker_def runs_for_worker_def)
  then have "worker_key x = worker_key y" by simp
  then show ?thesis
    using consistent_same_id [OF assms(1-3)] by (simp add: worker_key_def)
qed

lemma remaining_workers_owners:
  assumes "consistent d"
  shows "distinct (map (\<lambda>r. coalesce (c_leased_by r)) (remaining_workers None d))"
    and "(\<lambda>r. coalesce (c_leased_by r)) ` set (remaining_workers None d) = busy_workers d"
proof -
  have rows: "set (remaining_workers None d) = {r \<in> set (jobs d). latest_of_worker d r}"
    by (auto simp: remaining_workers_def listing_keys_below below_def)
  have owner: "c_leased_by r = Some (coalesce (c_leased_by r))" if "latest_of_worker d r" for r
    using that by (auto simp: latest_of_worker_def runs_for_worker_def coalesce_def split: option.splits)
  have "distinct (remaining_workers None d)"
    using sorted_listing [OF worker_keys [OF assms], of "latest_of_worker d" None]
    by (simp add: remaining_workers_def distinct_conv_nth sorted_wrt_iff_nth_less)
      (metis linorder_neqE_nat order_less_irrefl)
  moreover have "inj_on (\<lambda>r. coalesce (c_leased_by r)) (set (remaining_workers None d))"
    unfolding rows by (rule inj_onI) (metis (mono_tags, lifting) latest_of_worker_unique [OF assms] owner mem_Collect_eq)
  ultimately show "distinct (map (\<lambda>r. coalesce (c_leased_by r)) (remaining_workers None d))"
    by (simp add: distinct_map)
  have "coalesce (c_leased_by r) \<in> busy_workers d" if "r \<in> set (jobs d)" "latest_of_worker d r" for r
    using that owner [OF that(2)] by (auto simp: busy_workers_def latest_of_worker_def)
  moreover have "i \<in> (\<lambda>r. coalesce (c_leased_by r)) ` {r \<in> set (jobs d). latest_of_worker d r}"
    if i: "i \<in> busy_workers d" for i
  proof -
    from i obtain r where "r \<in> set (jobs d)" "runs_for_worker r" "c_leased_by r = Some i"
      by (auto simp: busy_workers_def)
    with latest_of_worker_exists [of r d] show ?thesis
      by (force simp: coalesce_def split: option.splits)
  qed
  ultimately show "(\<lambda>r. coalesce (c_leased_by r)) ` set (remaining_workers None d) = busy_workers d"
    unfolding rows by blast
qed

text \<open>
  \<open>WorkerStatuses\<close> ends after at most one page per running job and one more, and returns every
  worker that has a running job exactly once, with its latest running job.
\<close>

theorem WorkerStatuses_complete:
  assumes "consistent (db w)" and "\<forall>r \<in> set (jobs (db w)). c_id r \<noteq> []" and "calm w"
    and "length (jobs (db w)) < fuel"
  shows "\<exists>ws w'. WorkerStatuses fuel w = (Inr (Some ws), w') \<and> db w' = db w \<and>
    distinct (map ws_WorkerID ws) \<and> set (map ws_WorkerID ws) = busy_workers (db w) \<and>
    list_all2 (\<lambda>s r. ws_WorkerID s = coalesce (c_leased_by r) \<and> ws_RunningJobID s = c_id r)
      ws (remaining_workers None (db w))"
proof -
  let ?d = "db w" and ?rows = "remaining_workers None (db w)"
  have "length ?rows < fuel"
    unfolding remaining_workers_def listing_def order_desc_def length_rev length_sort
    by (rule le_less_trans [OF length_filter_le assms(4)])
  then obtain ws w' where run: "WorkerStatuses fuel w = (Inr (Some ws), w')" "db w' = ?d"
    and reads: "list_all2 (\<lambda>s r. \<exists>t. s = worker_status t ?d r) ws ?rows"
    using worker_pages_reads [OF assms(1,2,3), of NoCursor fuel]
    by (auto simp: WorkerStatuses_def readable_def)
  from reads have pairs:
    "list_all2 (\<lambda>s r. ws_WorkerID s = coalesce (c_leased_by r) \<and> ws_RunningJobID s = c_id r) ws ?rows"
    by (rule list_all2_mono) (auto simp: worker_status_def)
  then have "map ws_WorkerID ws = map (\<lambda>r. coalesce (c_leased_by r)) ?rows"
    by (induction rule: list_all2_induct) simp_all
  then have "distinct (map ws_WorkerID ws) \<and> set (map ws_WorkerID ws) = busy_workers (db w)"
    using remaining_workers_owners [OF assms(1)] by simp
  with run pairs show ?thesis by (intro exI [of _ ws] exI [of _ w']) simp
qed

lemma WorkerStatuses_complete_witness:
  "\<exists>ws w'. WorkerStatuses 2 running_sample = (Inr (Some ws), w') \<and>
     set (map ws_WorkerID ws) = busy_workers (db running_sample)"
proof -
  have "\<forall>r \<in> set (jobs (db running_sample)). c_id r \<noteq> []"
    by (simp add: running_sample_def sample_db_def sample_row_def)
  moreover have "length (jobs (db running_sample)) < 2"
    by (simp add: running_sample_def sample_db_def)
  ultimately show ?thesis
    using WorkerStatuses_complete [OF running_sample_facts(2) _ running_sample_facts(1)] by blast
qed

section \<open>Names\<close>

text \<open>
  The group that \<open>Enqueue\<close> gives a request without one names a workflow of the schema's
  \<open>workflow_type\<close> check, and the id that is read back from the group is the job's own; so the first
  refresh of a fresh group writes a row the schema accepts.
\<close>

theorem default_group_names_workflow:
  assumes "ty \<in> set job_types" and "i \<noteq> []"
  shows "workflowTypeForJobType ty \<in> set workflow_types \<and>
    workflowIDFromGroupID (defaultJobGroupID ty i) fallback = i \<and> defaultJobGroupID ty i \<noteq> [] \<and>
    payloadSchemaForJobType ty \<noteq> []"
  using assms
  by (auto simp: job_types_def workflow_types_def workflowTypeForJobType_def workflowIDFromGroupID_def
      defaultJobGroupID_def payloadSchemaForJobType_def)

lemma default_group_names_workflow_witness:
  "workflowTypeForJobType ''repo_sync'' \<in> set workflow_types \<and>
   workflowIDFromGroupID (defaultJobGroupID ''repo_sync'' ''job_1'') [] = ''job_1''"
  using default_group_names_workflow [of "''repo_sync''" "''job_1''" "[]"] by (simp add: job_types_def)

end
