(* ===== verification/Go_Path.thy ===== *)
theory Go_Path
  imports Go_Strings
begin

text \<open>
  The parts of Go's packages \<open>path\<close> and \<open>path/filepath\<close> (on Unix, where the separator is a slash and
  there are no volume names) that the code calls: \<open>Clean\<close>, \<open>Join\<close>, \<open>Dir\<close>, \<open>Base\<close>, \<open>Ext\<close>,
  \<open>IsAbs\<close>, \<open>Rel\<close> and \<open>Match\<close>. The lemmas are about clean absolute paths: such a path is the
  list of its elements, and one is within another exactly when its list extends the other's.
\<close>

abbreviation slash :: char where "slash \<equiv> CHR ''/''"

section \<open>Clean\<close>

definition path_elems :: "bytes \<Rightarrow> bytes list" where
  "path_elems s = filter (\<lambda>e. e \<noteq> []) (split s slash)"

text \<open>One element of the path, with the elements so far on a stack.\<close>

definition clean_step :: "bool \<Rightarrow> bytes list \<Rightarrow> bytes \<Rightarrow> bytes list" where
  "clean_step rooted stack e =
     (if e = ''.'' then stack
      else if e = ''..''
      then (case stack of
              [] \<Rightarrow> if rooted then [] else [''..'']
            | t # rest \<Rightarrow> if t = ''..'' then ''..'' # stack else rest)
      else e # stack)"

definition clean :: "bytes \<Rightarrow> bytes" where
  "clean s =
     (let rooted = has_prefix s [slash];
          out = join (rev (foldl (clean_step rooted) [] (path_elems s))) [slash]
      in if rooted then slash # out else if out = [] then ''.'' else out)"

section \<open>Join, Dir, Base, Ext, IsAbs\<close>

definition path_join :: "bytes list \<Rightarrow> bytes" where
  "path_join es =
     (case dropWhile (\<lambda>e. e = []) es of [] \<Rightarrow> [] | rest \<Rightarrow> clean (join rest [slash]))"

text \<open>Everything up to the last slash, cleaned.\<close>

definition path_dir :: "bytes \<Rightarrow> bytes" where
  "path_dir s = clean (rev (dropWhile (\<lambda>c. c \<noteq> slash) (rev s)))"

definition path_base :: "bytes \<Rightarrow> bytes" where
  "path_base s =
     (if s = [] then ''.''
      else (let stripped = rev (dropWhile (\<lambda>c. c = slash) (rev s));
                last_part = last (split stripped slash)
            in if last_part = [] then [slash] else last_part))"

text \<open>The suffix from the last dot of the last element.\<close>

definition path_ext :: "bytes \<Rightarrow> bytes" where
  "path_ext s =
     (let part = last (split s slash); tail = takeWhile (\<lambda>c. c \<noteq> CHR ''.'') (rev part)
      in if CHR ''.'' \<in> set part then CHR ''.'' # rev tail else [])"

definition is_abs :: "bytes \<Rightarrow> bool" where
  "is_abs s = has_prefix s [slash]"

section \<open>Rel\<close>

fun strip_common :: "bytes list \<Rightarrow> bytes list \<Rightarrow> bytes list \<times> bytes list" where
  "strip_common (b # bs) (t # ts) = (if b = t then strip_common bs ts else (b # bs, t # ts))"
| "strip_common bs ts = (bs, ts)"

text \<open>The elements of a cleaned path; the path \<open>.\<close> of the base has none.\<close>

definition rel :: "bytes \<Rightarrow> bytes \<Rightarrow> bytes option" where
  "rel basepath targpath =
     (let base0 = clean basepath; targ = clean targpath
      in if targ = base0 then Some ''.''
         else
           (let base = (if base0 = ''.'' then [] else base0)
            in if has_prefix base [slash] \<noteq> has_prefix targ [slash] then None
               else
                 (case strip_common (path_elems base) (path_elems targ) of
                    (bs, ts) \<Rightarrow>
                      if bs \<noteq> [] \<and> ts \<noteq> [] \<and> hd bs = ''..'' then None
                      else Some (join (map (\<lambda>_. ''..'') bs @ ts) [slash]))))"

section \<open>Match\<close>

text \<open>
  \<open>utf8.DecodeRuneInString\<close> on a non-empty string: the rune, or the replacement character for one
  byte that starts no encoding, and how many bytes it takes. The first byte fixes the number of
  continuation bytes and the range of the first of them.
\<close>

definition byte :: "char \<Rightarrow> int" where
  "byte c = of_char c"

definition continues :: "char \<Rightarrow> bool" where
  "continues c \<longleftrightarrow> 0x80 \<le> byte c \<and> byte c \<le> 0xBF"

definition rune_error :: int where
  "rune_error = 0xFFFD"

definition decode_rune :: "bytes \<Rightarrow> int \<times> nat" where
  "decode_rune s =
     (case s of
        [] \<Rightarrow> (rune_error, 0)
      | c0 # r0 \<Rightarrow>
          (let b0 = byte c0
           in if b0 < 0x80 then (b0, 1)
              else
                (case r0 of
                   [] \<Rightarrow> (rune_error, 1)
                 | c1 # r1 \<Rightarrow>
                     (let b1 = byte c1
                      in if \<not> continues c1 then (rune_error, 1)
                         else if 0xC2 \<le> b0 \<and> b0 \<le> 0xDF then ((b0 - 0xC0) * 64 + (b1 - 0x80), 2)
                         else
                           (case r1 of
                              [] \<Rightarrow> (rune_error, 1)
                            | c2 # r2 \<Rightarrow>
                                if \<not> continues c2 then (rune_error, 1)
                                else if 0xE0 \<le> b0 \<and> b0 \<le> 0xEF
                                then (if (b0 = 0xE0 \<and> b1 < 0xA0) \<or> (b0 = 0xED \<and> 0x9F < b1)
                                      then (rune_error, 1)
                                      else ((b0 - 0xE0) * 4096 + (b1 - 0x80) * 64 + (byte c2 - 0x80), 3))
                                else
                                  (case r2 of
                                     [] \<Rightarrow> (rune_error, 1)
                                   | c3 # _ \<Rightarrow>
                                       if \<not> continues c3 \<or> b0 < 0xF0 \<or> 0xF4 < b0 \<or>
                                          (b0 = 0xF0 \<and> b1 < 0x90) \<or> (b0 = 0xF4 \<and> 0x8F < b1)
                                       then (rune_error, 1)
                                       else ((b0 - 0xF0) * 262144 + (b1 - 0x80) * 4096 +
                                             (byte c2 - 0x80) * 64 + (byte c3 - 0x80), 4)))))))"

definition next_rune :: "bytes \<Rightarrow> int \<times> bytes" where
  "next_rune s = (case decode_rune s of (r, n) \<Rightarrow> (r, drop n s))"

text \<open>\<open>scanChunk\<close>: the leading stars, then up to the next star outside a class.\<close>

fun scan_to_star :: "bool \<Rightarrow> bytes \<Rightarrow> bytes \<times> bytes" where
  "scan_to_star inrange [] = ([], [])"
| "scan_to_star inrange (c # p) =
     (if c = CHR 0x5C
      then (case p of
              [] \<Rightarrow> ([c], [])
            | d # q \<Rightarrow> (case scan_to_star inrange q of (chunk, rest) \<Rightarrow> (c # d # chunk, rest)))
      else if c = CHR ''*'' \<and> \<not> inrange then ([], c # p)
      else (case scan_to_star (if c = CHR ''['' then True else if c = CHR '']'' then False else inrange) p of
              (chunk, rest) \<Rightarrow> (c # chunk, rest)))"

definition scan_chunk :: "bytes \<Rightarrow> bool \<times> bytes \<times> bytes" where
  "scan_chunk p =
     (has_prefix p ''*'', scan_to_star False (dropWhile (\<lambda>c. c = CHR ''*'') p))"

text \<open>\<open>getEsc\<close>: a rune of a class, \<open>None\<close> for a bad pattern.\<close>

definition get_esc :: "bytes \<Rightarrow> (int \<times> bytes) option" where
  "get_esc chunk =
     (if chunk = [] \<or> hd chunk = CHR ''-'' \<or> hd chunk = CHR '']'' then None
      else
        (let body = (if hd chunk = CHR 0x5C then tl chunk else chunk)
         in if body = [] then None
            else
              (case decode_rune body of
                 (r, n) \<Rightarrow>
                   if (r = rune_error \<and> n = 1) \<or> drop n body = [] then None
                   else Some (r, drop n body))))"

text \<open>The ranges of a class; each takes at least one byte of the chunk, whose length is the fuel.\<close>

fun class_ranges :: "nat \<Rightarrow> int \<Rightarrow> bool \<Rightarrow> nat \<Rightarrow> bytes \<Rightarrow> (bool \<times> bytes) option" where
  "class_ranges 0 r matched nrange chunk = None"
| "class_ranges (Suc fuel) r matched nrange chunk =
     (if has_prefix chunk '']'' \<and> 0 < nrange then Some (matched, tl chunk)
      else
        (case get_esc chunk of
           None \<Rightarrow> None
         | Some (lo, rest) \<Rightarrow>
             (case (if hd rest = CHR ''-'' then get_esc (tl rest) else Some (lo, rest)) of
                None \<Rightarrow> None
              | Some (hi, rest') \<Rightarrow>
                  class_ranges fuel r (matched \<or> lo \<le> r \<and> r \<le> hi) (Suc nrange) rest')))"

text \<open>
  \<open>matchChunk\<close>: \<open>Inl ()\<close> is a bad pattern, \<open>None\<close> no match, \<open>Some rest\<close> what is left of the name.
  After a mismatch (\<open>failed\<close>) the chunk is still checked. Each turn takes a byte of the chunk.
\<close>

fun match_chunk :: "nat \<Rightarrow> bool \<Rightarrow> bytes \<Rightarrow> bytes \<Rightarrow> unit + bytes option" where
  "match_chunk fuel failed0 [] s = Inr (if failed0 then None else Some s)"
| "match_chunk 0 failed0 (c # chunk) s = Inl ()"
| "match_chunk (Suc fuel) failed0 (c # chunk) s =
     (let failed = (failed0 \<or> s = [])
      in if c = CHR ''[''
         then
           (let (r, s') = (if failed then (0, s) else next_rune s);
                negated = has_prefix chunk ''^'';
                body = (if negated then tl chunk else chunk)
            in (case class_ranges (Suc (length body)) r False 0 body of
                  None \<Rightarrow> Inl ()
                | Some (matched, rest) \<Rightarrow> match_chunk fuel (failed \<or> matched = negated) rest s'))
         else if c = CHR ''?''
         then match_chunk fuel (failed \<or> hd s = slash) chunk (if failed then s else snd (next_rune s))
         else if c = CHR 0x5C \<and> chunk = [] then Inl ()
         else
           (let lit = (if c = CHR 0x5C then hd chunk else c);
                rest = (if c = CHR 0x5C then tl chunk else chunk)
            in match_chunk fuel (failed \<or> lit \<noteq> hd s) rest (if failed then s else tl s)))"

definition match_at :: "bytes \<Rightarrow> bytes \<Rightarrow> unit + bytes option" where
  "match_at chunk s = match_chunk (length chunk) False chunk s"

text \<open>The positions a star can reach: past any bytes that are no slash.\<close>

fun star_positions :: "bytes \<Rightarrow> bytes list" where
  "star_positions [] = []"
| "star_positions (c # s) = (if c = slash then [] else s # star_positions s)"

text \<open>The first of them at which the chunk matches (to the end of the name, for the last chunk).\<close>

fun star_match :: "bytes \<Rightarrow> bool \<Rightarrow> bytes list \<Rightarrow> unit + bytes option" where
  "star_match chunk last_chunk [] = Inr None"
| "star_match chunk last_chunk (s # ss) =
     (case match_at chunk s of
        Inl e \<Rightarrow> Inl e
      | Inr None \<Rightarrow> star_match chunk last_chunk ss
      | Inr (Some t) \<Rightarrow>
          if last_chunk \<and> t \<noteq> [] then star_match chunk last_chunk ss else Inr (Some t))"

text \<open>The rest of the pattern is checked before a mismatch is reported; \<open>Inl ()\<close> is a bad pattern.\<close>

fun well_formed_chunks :: "nat \<Rightarrow> bytes \<Rightarrow> bool" where
  "well_formed_chunks fuel [] = True"
| "well_formed_chunks 0 (c # p) = False"
| "well_formed_chunks (Suc fuel) (c # p) =
     (case scan_chunk (c # p) of
        (star, chunk, rest) \<Rightarrow>
          (case match_at chunk [] of Inl e \<Rightarrow> False | Inr _ \<Rightarrow> well_formed_chunks fuel rest))"

text \<open>\<open>Match\<close>, with the number of chunks still allowed: each takes a byte of the pattern.\<close>

fun match_loop :: "nat \<Rightarrow> bytes \<Rightarrow> bytes \<Rightarrow> unit + bool" where
  "match_loop fuel [] name = Inr (name = [])"
| "match_loop 0 (c # p) name = Inl ()"
| "match_loop (Suc fuel) (c # p) name =
     (case scan_chunk (c # p) of
        (star, chunk, rest) \<Rightarrow>
          if star \<and> chunk = [] then Inr (slash \<notin> set name)
          else
            (let mismatch = (if well_formed_chunks (length rest) rest then Inr False else Inl ())
             in (case match_at chunk name of
                   Inl e \<Rightarrow> Inl e
                 | Inr here \<Rightarrow>
                     (case here of
                        Some t \<Rightarrow>
                          if t = [] \<or> rest \<noteq> [] then match_loop fuel rest t
                          else if star
                          then (case star_match chunk (rest = []) (star_positions name) of
                                  Inl e \<Rightarrow> Inl e
                                | Inr (Some t') \<Rightarrow> match_loop fuel rest t'
                                | Inr None \<Rightarrow> mismatch)
                          else mismatch
                      | None \<Rightarrow>
                          if star
                          then (case star_match chunk (rest = []) (star_positions name) of
                                  Inl e \<Rightarrow> Inl e
                                | Inr (Some t') \<Rightarrow> match_loop fuel rest t'
                                | Inr None \<Rightarrow> mismatch)
                          else mismatch))))"

definition path_match :: "bytes \<Rightarrow> bytes \<Rightarrow> unit + bool" where
  "path_match pattern name = match_loop (length pattern) pattern name"

lemma path_samples:
  "clean ''/a/./b//../c/'' = ''/a/c''" "clean ''../a/..'' = ''..''" "clean [] = ''.''"
  "path_join [''/r'', ''a/../b''] = ''/r/b''" "path_dir ''/a/b'' = ''/a''" "path_dir ''a'' = ''.''"
  "path_base ''/a/b/'' = ''b''" "path_ext ''x/main.tf'' = ''.tf''"
  "rel ''/a/b'' ''/a/c/d'' = Some ''../c/d''" "rel ''/'' ''/a'' = Some ''a''" "rel ''/a'' ''/'' = Some ''..''"
  "path_match ''*.tf'' ''main.tf'' = Inr True" "path_match ''a/*'' ''a/b/c'' = Inr False"
  "path_match ''a[b-d]?'' ''acx'' = Inr True" "path_match ''a[^b]'' ''ab'' = Inr False"
  "path_match ''a[]'' ''ab'' = Inl ()" "path_match ''*b*d'' ''abcd'' = Inr True"
  by code_simp+

section \<open>Clean absolute paths\<close>

definition plain :: "bytes \<Rightarrow> bool" where
  "plain e \<longleftrightarrow> e \<noteq> [] \<and> e \<noteq> ''.'' \<and> e \<noteq> ''..'' \<and> slash \<notin> set e"

definition abs_path :: "bytes list \<Rightarrow> bytes" where
  "abs_path es = slash # join es [slash]"

text \<open>A relative path without \<open>.\<close> and \<open>..\<close> elements, as in a repository's full path.\<close>

definition rel_path :: "bytes list \<Rightarrow> bytes" where
  "rel_path es = join es [slash]"

lemma has_prefix_abs [simp]: "has_prefix (abs_path es) [slash]"
  by (simp add: abs_path_def has_prefix_def)

lemma plainD: "plain e \<Longrightarrow> slash \<notin> set e"
  by (simp add: plain_def)

lemma join_eq_Nil: "(\<forall>e \<in> set es. plain e) \<Longrightarrow> join es sep = [] \<longleftrightarrow> es = []"
  by (cases es; cases "tl es") (auto simp: plain_def)

lemma split_plain: "(\<forall>e \<in> set es. plain e) \<Longrightarrow> es \<noteq> [] \<Longrightarrow> split (join es [slash]) slash = es"
  by (rule split_join) (auto dest: plainD)

lemma elems_join: "\<forall>e \<in> set es. plain e \<Longrightarrow> path_elems (join es [slash]) = es"
  by (cases "es = []") (auto simp: path_elems_def split_plain filter_id_conv plain_def)

lemma elems_abs: "\<forall>e \<in> set es. plain e \<Longrightarrow> path_elems (abs_path es) = es"
  using elems_join by (simp add: path_elems_def abs_path_def)

lemma abs_path_inject:
  "\<forall>e \<in> set es. plain e \<Longrightarrow> \<forall>e \<in> set fs. plain e \<Longrightarrow> abs_path es = abs_path fs \<longleftrightarrow> es = fs"
  by (metis elems_abs)

lemma elems_no_slash: "e \<in> set (path_elems s) \<Longrightarrow> e \<noteq> [] \<and> slash \<notin> set e"
  by (auto simp: path_elems_def dest: split_parts_no_sep)

lemma fold_rooted_plain:
  assumes "\<forall>e \<in> set stack. plain e" and "\<forall>e \<in> set es. e \<noteq> [] \<and> slash \<notin> set e"
  shows "\<forall>e \<in> set (foldl (clean_step True) stack es). plain e"
  using assms
proof (induction es arbitrary: stack)
  case Nil
  then show ?case by simp
next
  case (Cons e es)
  have "plain e \<or> e = ''.'' \<or> e = ''..''" using Cons.prems(2) by (auto simp: plain_def)
  moreover have "set (clean_step True stack e) \<subseteq> set stack \<union> (if plain e then {e} else {})"
    using calculation by (cases stack) (auto simp: clean_step_def plain_def)
  ultimately have "\<forall>x \<in> set (clean_step True stack e). plain x"
    using Cons.prems(1) by (auto split: if_splits)
  with Cons show ?case by simp
qed

lemma fold_plain:
  "\<forall>e \<in> set es. plain e \<Longrightarrow> foldl (clean_step b) stack es = rev es @ stack"
  by (induction es arbitrary: stack) (auto simp: clean_step_def plain_def)

text \<open>Cleaning an absolute path gives a list of plain elements.\<close>

definition clean_elems :: "bytes \<Rightarrow> bytes list" where
  "clean_elems s = rev (foldl (clean_step True) [] (path_elems s))"

lemma clean_elems_plain: "\<forall>e \<in> set (clean_elems s). plain e"
  using fold_rooted_plain [of "[]" "path_elems s"] elems_no_slash by (auto simp: clean_elems_def)

lemma clean_absolute: "has_prefix s [slash] \<Longrightarrow> clean s = abs_path (clean_elems s)"
  by (simp add: clean_def Let_def abs_path_def clean_elems_def)

lemma clean_elems_abs: "\<forall>e \<in> set es. plain e \<Longrightarrow> clean_elems (abs_path es) = es"
  by (simp add: clean_elems_def elems_abs fold_plain)

lemma clean_abs [simp]: "\<forall>e \<in> set es. plain e \<Longrightarrow> clean (abs_path es) = abs_path es"
  by (simp add: clean_absolute clean_elems_abs)

lemma clean_rel: "\<forall>e \<in> set es. plain e \<Longrightarrow> es \<noteq> [] \<Longrightarrow> clean (rel_path es) = rel_path es"
proof -
  assume es: "\<forall>e \<in> set es. plain e" "es \<noteq> []"
  then have "\<not> has_prefix (rel_path es) [slash]"
    by (cases es; cases "tl es"; cases "hd es") (auto simp: rel_path_def has_prefix_def plain_def)
  with es show ?thesis
    by (simp add: clean_def Let_def rel_path_def elems_join fold_plain join_eq_Nil)
qed

lemma clean_idempotent_abs: "has_prefix s [slash] \<Longrightarrow> clean (clean s) = clean s"
  by (simp add: clean_absolute clean_elems_abs [OF clean_elems_plain])

lemma path_join_child:
  assumes "\<forall>e \<in> set es. plain e" and "plain e"
  shows "path_join [abs_path es, e] = abs_path (es @ [e])"
proof -
  have "path_elems (abs_path es @ slash # e) = es @ [e]"
  proof (cases "es = []")
    case True
    then show ?thesis using assms(2) split_no_sep [OF plainD]
      by (simp add: path_elems_def abs_path_def plain_def)
  next
    case False
    have "join es [slash] @ slash # e = join (es @ [e]) [slash]"
      using False by (induction es rule: induct_list012) auto
    then have "abs_path es @ slash # e = abs_path (es @ [e])" by (simp add: abs_path_def)
    then show ?thesis using elems_abs [of "es @ [e]"] assms by simp
  qed
  moreover have "has_prefix (abs_path es @ slash # e) [slash]" by (simp add: abs_path_def has_prefix_def)
  moreover have "foldl (clean_step True) [] (es @ [e]) = rev (es @ [e]) @ []"
    by (rule fold_plain) (use assms in simp)
  ultimately have "clean (abs_path es @ slash # e) = abs_path (es @ [e])"
    by (simp only: clean_absolute clean_elems_def append_Nil2 rev_rev_ident)
  then show ?thesis by (simp add: path_join_def abs_path_def)
qed

lemma path_dir_abs:
  assumes "\<forall>e \<in> set es. plain e"
  shows "path_dir (abs_path es) = abs_path (butlast es)"
proof (cases es rule: rev_cases)
  case Nil
  then show ?thesis by (simp add: path_dir_def abs_path_def clean_absolute has_prefix_def clean_elems_def path_elems_def)
next
  case (snoc fs e)
  have pf: "\<forall>e \<in> set fs. plain e" "slash \<notin> set e" using assms snoc by (auto dest: plainD)
  have whole: "abs_path es = (if fs = [] then [slash] else abs_path fs @ [slash]) @ e"
    unfolding snoc abs_path_def by (induction fs rule: induct_list012) auto
  have "\<forall>c \<in> set (rev e). c \<noteq> slash" using pf(2) by auto
  then have "rev (dropWhile (\<lambda>c. c \<noteq> slash) (rev (abs_path es))) =
      (if fs = [] then [slash] else abs_path fs @ [slash])"
    by (simp add: whole dropWhile_append)
  moreover have "path_elems (abs_path fs @ [slash]) = fs"
  proof -
    have "split (s @ [slash]) slash = split s slash @ [[]]" for s
      by (induction s) (auto split: list.splits)
    then show ?thesis using elems_abs [OF pf(1)] by (simp add: path_elems_def)
  qed
  then have "clean (abs_path fs @ [slash]) = abs_path fs"
    using pf(1) by (simp add: clean_absolute clean_elems_def fold_plain abs_path_def has_prefix_def)
  moreover have "clean [slash] = abs_path []"
    by (simp add: clean_absolute has_prefix_def clean_elems_def path_elems_def abs_path_def)
  ultimately show ?thesis using snoc by (auto simp: path_dir_def)
qed

section \<open>Containment\<close>

lemma strip_common_prefix [simp]: "strip_common bs (bs @ ts) = ([], ts)"
  by (induction bs) (cases ts; simp)+

lemma strip_common_split:
  "strip_common bs ts = (bs', ts') \<Longrightarrow> \<exists>common. bs = common @ bs' \<and> ts = common @ ts'"
proof (induction bs ts rule: strip_common.induct)
  case (1 b bs t ts)
  then show ?case
    by (cases "b = t") (fastforce, simp)
qed auto

lemma rel_abs:
  assumes "\<forall>e \<in> set bs. plain e" and "\<forall>e \<in> set ts. plain e" and "bs \<noteq> ts"
  shows "rel (abs_path bs) (abs_path ts) =
    (case strip_common bs ts of (bs', ts') \<Rightarrow> Some (join (map (\<lambda>_. ''..'') bs' @ ts') [slash]))"
proof -
  obtain bs' ts' where st: "strip_common bs ts = (bs', ts')" by fastforce
  then obtain c where c: "bs = c @ bs'" "ts = c @ ts'" using strip_common_split by blast
  have "bs' \<noteq> [] \<Longrightarrow> hd bs' \<noteq> ''..''" using assms(1) c by (cases bs') (auto simp: plain_def)
  moreover have "abs_path bs \<noteq> ''.''" by (simp add: abs_path_def)
  ultimately show ?thesis
    using assms st abs_path_inject [OF assms(2,1)] by (auto simp: rel_def Let_def elems_abs)
qed

text \<open>\<open>withinRoot\<close>, the same in \<open>internal/repository/domain.go\<close> and \<open>internal/scanner/handlers.go\<close>.\<close>

definition withinRoot :: "bytes \<Rightarrow> bytes \<Rightarrow> bool" where
  "withinRoot root child =
     (case rel root child of
        None \<Rightarrow> False
      | Some r \<Rightarrow> r = ''.'' \<or> (\<not> has_prefix r ''../'' \<and> r \<noteq> ''..''))"

lemma join_not_dotdot:
  assumes "\<forall>e \<in> set ts. plain e"
  shows "\<not> has_prefix (join ts [slash]) ''../'' \<and> join ts [slash] \<noteq> ''..''"
proof (cases ts)
  case Nil
  then show ?thesis by (simp add: has_prefix_def)
next
  case (Cons t us)
  have t: "plain t" using assms Cons by simp
  show ?thesis
  proof (cases us)
    case Nil
    then show ?thesis using t Cons by (auto simp: has_prefix_iff plain_def)
  next
    case (Cons u vs)
    have whole: "join ts [slash] = t @ slash # join us [slash]" using \<open>ts = t # us\<close> Cons by simp
    have "cut (t @ slash # join us [slash]) slash = Some (t, join us [slash])"
      using t by (intro cut_append) (simp add: plain_def)
    moreover have "cut (''../'' @ r) slash = Some (''..'', r)" for r by simp
    ultimately have "t @ slash # join us [slash] \<noteq> ''../'' @ r" for r
      using t unfolding plain_def by (metis Pair_inject option.inject)
    moreover have "cut ''..'' slash = None" by simp
    with \<open>cut (t @ slash # join us [slash]) slash = Some (t, join us [slash])\<close>
    have "t @ slash # join us [slash] \<noteq> ''..''" by (metis option.distinct(1))
    ultimately show ?thesis unfolding whole has_prefix_iff by blast
  qed
qed

theorem withinRoot_abs:
  assumes "\<forall>e \<in> set bs. plain e" and "\<forall>e \<in> set ts. plain e"
  shows "withinRoot (abs_path bs) (abs_path ts) \<longleftrightarrow> (\<exists>rest. ts = bs @ rest)"
proof (cases "bs = ts")
  case True
  then show ?thesis by (simp add: withinRoot_def rel_def)
next
  case False
  obtain bs' ts' where st: "strip_common bs ts = (bs', ts')" by fastforce
  then obtain c where c: "bs = c @ bs'" "ts = c @ ts'" using strip_common_split by blast
  show ?thesis
  proof (cases bs')
    case Nil
    have "\<forall>e \<in> set ts'. plain e" using assms(2) c by simp
    then have "withinRoot (abs_path bs) (abs_path ts)"
      unfolding withinRoot_def rel_abs [OF assms False] st using Nil join_not_dotdot [of ts'] by simp
    then show ?thesis using Nil c by simp
  next
    case (Cons b bs'')
    have "\<not> withinRoot (abs_path bs) (abs_path ts)"
      using Cons st
      by (cases "map (\<lambda>_. ''..'') bs'' @ ts'")
        (auto simp: withinRoot_def rel_abs [OF assms False] has_prefix_def)
    moreover have "\<nexists>rest. ts = bs @ rest"
    proof
      assume "\<exists>rest. ts = bs @ rest"
      then obtain rest where "ts = bs @ rest" by blast
      then have "strip_common bs ts = ([], rest)" by simp
      with st Cons show False by simp
    qed
    ultimately show ?thesis by blast
  qed
qed

end
