(* ===== verification/Scanner_Paths.thy ===== *)
theory Scanner_Paths
  imports Go_Path
begin

text \<open>
  The decisions of the global scan that depend on paths and on the file system alone: the ignore
  rules (\<open>internal/scanner/matcher.go\<close>), relative paths (\<open>internal/scanner/store.go\<close>), and from
  \<open>internal/scanner/handlers.go\<close> whether a directory is a project and which Git repository a project
  belongs to. The file system behind the interface \<open>scanFilesystem\<close> is a record of functions.
\<close>

section \<open>Paths\<close>

definition cleanRelativePath :: "bytes \<Rightarrow> bytes" where
  "cleanRelativePath value0 =
     (let value1 = clean (trim_space value0)
      in if value1 = [] \<or> value1 = [slash] then ''.''
         else (let value2 = trim_prefix value1 [slash] in if value2 = [] then ''.'' else value2))"

definition scanner_normalizeAbsPath :: "bytes \<Rightarrow> bytes + bytes" where
  "scanner_normalizeAbsPath value0 =
     (let value1 = trim_space value0
      in if value1 = [] then Inl ''path is required''
         else if \<not> is_abs (clean value1) then Inl ''path must be absolute''
         else Inr (clean value1))"

definition looksLikeWindowsAbsPath :: "bytes \<Rightarrow> bool" where
  "looksLikeWindowsAbsPath value0 =
     (case value0 of
        c # d # e # _ \<Rightarrow>
          d = CHR '':'' \<and> e = slash \<and>
          ((CHR ''A'' \<le> c \<and> c \<le> CHR ''Z'') \<or> (CHR ''a'' \<le> c \<and> c \<le> CHR ''z''))
      | _ \<Rightarrow> False)"

definition safeRelativePath :: "bytes \<Rightarrow> bytes + bytes" where
  "safeRelativePath value0 =
     (let raw = trim_space value0
      in if raw = [] then Inr ''.''
         else
           (let slashPath = replace_char raw (CHR 0x5C) slash
            in if is_abs raw \<or> has_prefix slashPath [slash] \<or> looksLikeWindowsAbsPath slashPath
               then Inl ''relative_path must be relative''
               else
                 (let cleaned = cleanRelativePath slashPath
                  in if cleaned = ''..'' \<or> has_prefix cleaned ''../''
                     then Inl ''relative_path must stay within root_path'' else Inr cleaned)))"

definition relativePath :: "bytes \<Rightarrow> bytes \<Rightarrow> bytes" where
  "relativePath rootPath childPath =
     (case rel rootPath childPath of None \<Rightarrow> ''.'' | Some r \<Rightarrow> cleanRelativePath r)"

section \<open>Ignore rules\<close>

text \<open>Of a rule only its pattern takes part.\<close>

record IgnoreRule =
  ir_ID :: bytes
  ir_ScopeType :: bytes
  ir_ScopeID :: bytes
  ir_Pattern :: bytes
  ir_Origin :: bytes
  ir_SortOrder :: int
  ir_CreatedAt :: instant
  ir_UpdatedAt :: instant

record ignorePattern =
  ip_raw :: bytes
  ip_pattern :: bytes
  ip_directory :: bool
  ip_anchored :: bool

definition compile_rule :: "IgnoreRule \<Rightarrow> ignorePattern option" where
  "compile_rule rule =
     (let pattern0 = trim_space (ir_Pattern rule)
      in if pattern0 = [] \<or> has_prefix pattern0 ''!'' then None
         else
           (let pattern1 = trim_chars pattern0 [slash]
            in if pattern1 = [] then None
               else Some
                 \<lparr>ip_raw = ir_Pattern rule,
                  ip_pattern = clean (replace_char pattern1 (CHR 0x5C) slash),
                  ip_directory = has_suffix pattern0 [slash],
                  ip_anchored = has_prefix (ir_Pattern rule) [slash]\<rparr>))"

definition newIgnoreMatcher :: "IgnoreRule list \<Rightarrow> ignorePattern list" where
  "newIgnoreMatcher rules = List.map_filter compile_rule rules"

definition pattern_matches :: "ignorePattern \<Rightarrow> bytes \<Rightarrow> bytes \<Rightarrow> bool" where
  "pattern_matches p relative base =
     (let pattern0 = ip_pattern p
      in if pattern0 = relative then True
         else if slash \<notin> set pattern0 \<and>
                 (pattern0 = base \<or> list_ex (\<lambda>segment. segment = pattern0) (split relative slash))
         then True
         else if has_prefix pattern0 ''**/''
         then (let suffix = trim_prefix pattern0 ''**/''
               in relative = suffix \<or> has_suffix relative (slash # suffix))
         else if has_suffix pattern0 ''/**''
         then (let prefix = trim_suffix pattern0 ''/**''
               in relative = prefix \<or> has_prefix relative (prefix @ [slash]))
         else if path_match pattern0 relative = Inr True then True
         else if ip_anchored p then False
         else has_suffix relative (slash # pattern0))"

definition ignored :: "ignorePattern list \<Rightarrow> bytes \<Rightarrow> bool \<Rightarrow> bool" where
  "ignored m relative0 isDir =
     (let relative1 = cleanRelativePath relative0
      in if relative1 = ''.'' then False
         else
           (let relative = clean (replace_char relative1 (CHR 0x5C) slash); base = path_base relative
            in list_ex (\<lambda>p. \<not> (ip_directory p \<and> \<not> isDir) \<and> pattern_matches p relative base) m))"

section \<open>The file system\<close>

datatype file_kind = RegularFile | Directory | Symlink | OtherFile

datatype fs_error = NotExist | FsError bytes

record DirEntry =
  de_Name :: bytes
  de_Type :: file_kind

text \<open>\<open>fs_Read\<close> is \<open>Open\<close> with the reading of at most 4096 bytes that follows it.\<close>

record scanFilesystem =
  fs_Lstat :: "bytes \<Rightarrow> fs_error + file_kind"
  fs_ReadDir :: "bytes \<Rightarrow> fs_error + DirEntry list"
  fs_Read :: "bytes \<Rightarrow> fs_error + bytes"

text \<open>
  \<open>strings.EqualFold(filepath.Ext(name), ".tf")\<close>: no character outside ASCII folds to a t or an f.
\<close>

definition terraform_name :: "bytes \<Rightarrow> bool" where
  "terraform_name name \<longleftrightarrow> map lower_char (path_ext name) = ''.tf''"

definition containsTerraformFile :: "DirEntry list \<Rightarrow> bytes \<Rightarrow> ignorePattern list \<Rightarrow> bool" where
  "containsTerraformFile entries dirRelativePath m =
     list_ex (\<lambda>entry.
       de_Type entry \<noteq> Directory \<and> de_Type entry \<noteq> Symlink \<and> terraform_name (de_Name entry) \<and>
       \<not> ignored m (cleanRelativePath (path_join [dirRelativePath, de_Name entry])) False) entries"

definition countSkippedChildren :: "DirEntry list \<Rightarrow> nat \<times> nat" where
  "countSkippedChildren entries =
     (affected (\<lambda>e. de_Type e = Directory \<or> de_Type e = Symlink) entries,
      affected (\<lambda>e. de_Type e = Symlink) entries)"

text \<open>The subdirectories that a scan goes on with, and what it counts as skipped.\<close>

definition scan_child :: "bytes \<Rightarrow> bytes \<Rightarrow> ignorePattern list \<Rightarrow> DirEntry \<Rightarrow> bytes option \<times> nat \<times> nat" where
  "scan_child rootPath dir m entry =
     (let childPath = path_join [dir, de_Name entry]; childRelativePath = relativePath rootPath childPath
      in if de_Type entry \<noteq> Directory \<and> de_Type entry \<noteq> Symlink then (None, 0, 0)
         else if de_Name entry = ''.git'' then (None, 1, if de_Type entry = Symlink then 1 else 0)
         else if de_Type entry = Symlink then (None, 1, 1)
         else if ignored m childRelativePath True then (None, 1, 0)
         else (Some childPath, 0, 0))"

definition scan_children ::
    "bytes \<Rightarrow> bytes \<Rightarrow> ignorePattern list \<Rightarrow> DirEntry list \<Rightarrow> bytes list \<times> nat \<times> nat" where
  "scan_children rootPath dir m entries =
     (let rs = map (scan_child rootPath dir m) entries
      in (List.map_filter fst rs, sum_list (map (fst \<circ> snd) rs), sum_list (map (snd \<circ> snd) rs)))"

section \<open>The Git repository of a project\<close>

fun first_line :: "bytes list \<Rightarrow> bytes option" where
  "first_line [] = None"
| "first_line (l # ls) = (let line = trim_space l in if line = [] then first_line ls else Some line)"

definition validGitdirFile :: "scanFilesystem \<Rightarrow> bytes \<Rightarrow> fs_error + bool" where
  "validGitdirFile fs path =
     (case fs_Read fs path of
        Inl e \<Rightarrow> Inl e
      | Inr data \<Rightarrow>
          (case first_line (split data (CHR ''\<newline>'')) of
             None \<Rightarrow> Inr False
           | Some line \<Rightarrow> Inr (has_prefix line ''gitdir:'')))"

text \<open>What the loop decides at one directory: an error, no marker, or a marker of a type.\<close>

definition marker_at :: "scanFilesystem \<Rightarrow> bytes \<Rightarrow> fs_error + bytes option" where
  "marker_at fs current =
     (let markerPath = path_join [current, ''.git'']
      in case fs_Lstat fs markerPath of
           Inl NotExist \<Rightarrow> Inr None
         | Inl e \<Rightarrow> Inl e
         | Inr Directory \<Rightarrow> Inr (Some ''.git_directory'')
         | Inr RegularFile \<Rightarrow>
             (case validGitdirFile fs markerPath of
                Inl e \<Rightarrow> Inl e
              | Inr valid \<Rightarrow> Inr (if valid then Some ''.git_file'' else None))
         | Inr _ \<Rightarrow> Inr None)"

text \<open>The loop over the ancestors; \<open>None\<close> is a loop that has not ended within its fuel.\<close>

fun git_loop :: "nat \<Rightarrow> scanFilesystem \<Rightarrow> bytes \<Rightarrow> bytes \<Rightarrow> (fs_error + (bytes \<times> bytes) option) option" where
  "git_loop 0 fs root current = None"
| "git_loop (Suc fuel) fs root current =
     (if \<not> withinRoot root current then Some (Inr None)
      else
        (case marker_at fs current of
           Inl e \<Rightarrow> Some (Inl e)
         | Inr (Some t) \<Rightarrow> Some (Inr (Some (current, t)))
         | Inr None \<Rightarrow>
             if current = root then Some (Inr None)
             else
               (let parent = path_dir current
                in if parent = current then Some (Inr None) else git_loop fuel fs root parent)))"

definition findGitRepository ::
    "nat \<Rightarrow> scanFilesystem \<Rightarrow> bytes \<Rightarrow> bytes \<Rightarrow> (fs_error + (bytes \<times> bytes) option) option" where
  "findGitRepository fuel fs projectPath0 rootPath0 =
     (case scanner_normalizeAbsPath projectPath0 of
        Inl e \<Rightarrow> Some (Inl (FsError e))
      | Inr projectPath \<Rightarrow>
          (case scanner_normalizeAbsPath rootPath0 of
             Inl e \<Rightarrow> Some (Inl (FsError e))
           | Inr rootPath \<Rightarrow> git_loop fuel fs rootPath projectPath))"

end
