(* ===== verification/Scanner_Facts.thy ===== *)
theory Scanner_Facts
  imports Scanner_Paths
begin

text \<open>
  What the scanner's path decisions promise: the nearest Git marker is found and none outside the
  root is looked at, and a relative path that was accepted stays within its root.
\<close>

section \<open>Normal relative paths\<close>

text \<open>A cleaned relative path: first the elements that lead upwards, then plain ones.\<close>

definition upward :: "nat \<Rightarrow> bytes list \<Rightarrow> bytes list" where
  "upward k es = replicate k ''..'' @ es"

lemma fold_unrooted:
  assumes "\<forall>e \<in> set es. e \<noteq> [] \<and> slash \<notin> set e" and "\<forall>e \<in> set fs. plain e"
  shows "\<exists>j gs. foldl (clean_step False) (rev (upward k fs)) es = rev (upward j gs) \<and>
    (\<forall>e \<in> set gs. plain e)"
  using assms
proof (induction es arbitrary: k fs)
  case Nil
  then show ?case by auto
next
  case (Cons e es)
  consider "e = ''.''" | "e = ''..''" | "plain e" using Cons.prems(1) by (auto simp: plain_def)
  then have "\<exists>j gs. clean_step False (rev (upward k fs)) e = rev (upward j gs) \<and> (\<forall>x \<in> set gs. plain x)"
  proof cases
    case 1
    then show ?thesis using Cons.prems(2) by (auto simp: clean_step_def)
  next
    case 2
    show ?thesis
    proof (cases fs rule: rev_cases)
      case Nil
      have "clean_step False (rev (upward k fs)) e = rev (upward (Suc k) [])"
        using Nil 2 by (cases k) (auto simp: clean_step_def upward_def replicate_append_same)
      then show ?thesis by fastforce
    next
      case (snoc gs g)
      then have "plain g" using Cons.prems(2) by simp
      then have "clean_step False (rev (upward k fs)) e = rev (upward k gs)"
        using snoc 2 by (simp add: clean_step_def upward_def plain_def)
      then show ?thesis using Cons.prems(2) snoc by fastforce
    qed
  next
    case 3
    then have "clean_step False (rev (upward k fs)) e = rev (upward k (fs @ [e]))"
      by (simp add: clean_step_def upward_def plain_def)
    then show ?thesis using 3 Cons.prems(2) by fastforce
  qed
  then obtain j gs where "clean_step False (rev (upward k fs)) e = rev (upward j gs)" "\<forall>x \<in> set gs. plain x"
    by blast
  then show ?case using Cons.IH [of gs j] Cons.prems(1) by simp
qed

lemma clean_relative:
  assumes "\<not> has_prefix s [slash]"
  shows "\<exists>k es. clean s = (if upward k es = [] then ''.'' else join (upward k es) [slash]) \<and>
    (\<forall>e \<in> set es. plain e)"
proof -
  have "\<forall>e \<in> set (path_elems s). e \<noteq> [] \<and> slash \<notin> set e" using elems_no_slash by blast
  from fold_unrooted [OF this, of "[]" 0] obtain k es where
    f: "foldl (clean_step False) [] (path_elems s) = rev (upward k es)" and es: "\<forall>e \<in> set es. plain e"
    by (auto simp: upward_def)
  have "join (upward k es) [slash] = [] \<longleftrightarrow> upward k es = []"
    using es by (cases k; cases "upward k es"; cases "tl (upward k es)") (auto simp: upward_def plain_def)
  then have "clean s = (if upward k es = [] then ''.'' else join (upward k es) [slash])"
    using assms f by (simp add: clean_def Let_def)
  then show ?thesis using es by blast
qed

lemma cleanRelativePath_form:
  "cleanRelativePath s = ''.'' \<or>
   (\<exists>k es. cleanRelativePath s = join (upward k es) [slash] \<and> upward k es \<noteq> [] \<and> (\<forall>e \<in> set es. plain e))"
proof (cases "has_prefix (trim_space s) [slash]")
  case True
  let ?es = "clean_elems (trim_space s)"
  have es: "\<forall>e \<in> set ?es. plain e" by (rule clean_elems_plain)
  have c: "clean (trim_space s) = slash # join ?es [slash]"
    using clean_absolute [OF True] by (simp add: abs_path_def)
  show ?thesis
  proof (cases "?es = []")
    case True
    then show ?thesis using c by (simp add: cleanRelativePath_def)
  next
    case False
    then have "join ?es [slash] \<noteq> []" using join_eq_Nil [OF es] by simp
    then have "cleanRelativePath s = join (upward 0 ?es) [slash]"
      using c by (simp add: cleanRelativePath_def trim_prefix_def has_prefix_def upward_def)
    then show ?thesis using False es by (intro disjI2 exI [of _ 0] exI [of _ ?es]) (simp add: upward_def)
  qed
next
  case False
  from clean_relative [OF this] obtain k es where
    c: "clean (trim_space s) = (if upward k es = [] then ''.'' else join (upward k es) [slash])"
    and es: "\<forall>e \<in> set es. plain e" by blast
  show ?thesis
  proof (cases "upward k es = []")
    case True
    then show ?thesis using c by (simp add: cleanRelativePath_def trim_prefix_def has_prefix_def)
  next
    case False
    have first: "e \<noteq> [] \<and> hd e \<noteq> slash" if "e \<in> set (upward k es)" for e
    proof (cases "e \<in> set es")
      case True
      then have "e \<noteq> []" and "slash \<notin> set e" using es by (auto simp: plain_def)
      then show ?thesis by (metis hd_in_set)
    next
      case False
      then have "e = ''..''" using that by (simp add: upward_def)
      then show ?thesis by simp
    qed
    obtain e rest where u: "upward k es = e # rest" using False by (cases "upward k es") auto
    then obtain x xs where e: "e = x # xs" and "x \<noteq> slash" using first [of e] by (cases e) auto
    obtain tail where j: "join (upward k es) [slash] = x # tail" using u e by (cases rest) auto
    have "clean (trim_space s) = x # tail" using c False j by simp
    then have "cleanRelativePath s = x # tail"
      using \<open>x \<noteq> slash\<close> by (simp add: cleanRelativePath_def trim_prefix_def has_prefix_def)
    then have "cleanRelativePath s = join (upward k es) [slash]" by (simp only: j)
    then show ?thesis using False es by blast
  qed
qed

lemma path_join_rel:
  assumes "\<forall>e \<in> set rs. plain e" and "\<forall>e \<in> set es. plain e" and "es \<noteq> []"
  shows "path_join [abs_path rs, rel_path es] = abs_path (rs @ es)"
proof -
  have joined: "join rs [slash] @ slash # join es [slash] = join (rs @ es) [slash]" if "rs \<noteq> []"
    using that assms(3)
    by (induction rs rule: induct_list012) (auto simp: neq_Nil_conv)
  have "path_elems (abs_path rs @ slash # rel_path es) = rs @ es"
  proof (cases "rs = []")
    case True
    then show ?thesis
      using elems_join [OF assms(2)] by (simp add: path_elems_def abs_path_def rel_path_def)
  next
    case False
    then have "abs_path rs @ slash # rel_path es = abs_path (rs @ es)"
      using joined by (simp add: abs_path_def rel_path_def)
    then show ?thesis using elems_abs [of "rs @ es"] assms by auto
  qed
  moreover have "has_prefix (abs_path rs @ slash # rel_path es) [slash]"
    by (simp add: abs_path_def has_prefix_def)
  moreover have "foldl (clean_step True) [] (rs @ es) = rev (rs @ es) @ []"
    by (rule fold_plain) (use assms in auto)
  ultimately have "clean (abs_path rs @ slash # rel_path es) = abs_path (rs @ es)"
    by (simp only: clean_absolute clean_elems_def append_Nil2 rev_rev_ident)
  then show ?thesis by (simp add: path_join_def abs_path_def)
qed

text \<open>
  A relative path that \<open>safeRelativePath\<close> accepts stays in the root: it is the root itself or a
  list of plain elements, and joining it to a root gives a path within that root.
\<close>

theorem safeRelativePath_contained:
  assumes "safeRelativePath v = Inr r" and "\<forall>e \<in> set rs. plain e"
  shows "r = ''.'' \<or>
    (\<exists>es. es \<noteq> [] \<and> (\<forall>e \<in> set es. plain e) \<and> r = rel_path es \<and>
       path_join [abs_path rs, r] = abs_path (rs @ es) \<and> withinRoot (abs_path rs) (path_join [abs_path rs, r]))"
proof (cases "r = ''.''")
  case False
  then obtain s where r: "r = cleanRelativePath s" "r \<noteq> ''..''" "\<not> has_prefix r ''../''"
    using assms(1) by (auto simp: safeRelativePath_def Let_def split: if_splits)
  with False cleanRelativePath_form [of s] obtain k es where
    f: "r = join (upward k es) [slash]" "upward k es \<noteq> []" "\<forall>e \<in> set es. plain e" by auto
  have "k = 0"
  proof (rule ccontr)
    assume "k \<noteq> 0"
    then obtain j where "upward k es = ''..'' # upward j es" by (cases k) (auto simp: upward_def)
    then have "r = ''..'' \<or> has_prefix r ''../''"
      using f(1) by (cases "upward j es") (auto simp: has_prefix_def)
    then show False using r by simp
  qed
  then have "r = rel_path es" "es \<noteq> []" using f by (simp_all add: upward_def rel_path_def)
  moreover have "withinRoot (abs_path rs) (abs_path (rs @ es))"
    using assms(2) f(3) by (subst withinRoot_abs) auto
  ultimately show ?thesis using path_join_rel [OF assms(2) f(3)] f(3) by auto
qed simp

lemma safeRelativePath_contained_witness:
  "safeRelativePath ''a/../b//c'' = Inr ''b/c'' \<and> ''b/c'' \<noteq> ''.'' \<and>
   withinRoot (abs_path [''srv'']) (path_join [abs_path [''srv''], ''b/c''])"
proof -
  have "safeRelativePath ''a/../b//c'' = Inr ''b/c''" by code_simp
  moreover have "\<forall>e \<in> set [''srv'']. plain e" by (simp add: plain_def)
  ultimately show ?thesis using safeRelativePath_contained by blast
qed

section \<open>The nearest Git marker\<close>

text \<open>The first directory of a list at which the search stops.\<close>

fun first_marker :: "scanFilesystem \<Rightarrow> bytes list \<Rightarrow> fs_error + (bytes \<times> bytes) option" where
  "first_marker fs [] = Inr None"
| "first_marker fs (d # ds) =
     (case marker_at fs d of
        Inl e \<Rightarrow> Inl e
      | Inr (Some t) \<Rightarrow> Inr (Some (d, t))
      | Inr None \<Rightarrow> first_marker fs ds)"

text \<open>The directories from the project up to the root.\<close>

definition dirs_up :: "bytes list \<Rightarrow> bytes list \<Rightarrow> bytes list" where
  "dirs_up rs extra = map (\<lambda>n. abs_path (rs @ take n extra)) (rev [0..<Suc (length extra)])"

lemma dirs_up_Nil: "dirs_up rs [] = [abs_path rs]"
  by (simp add: dirs_up_def)

lemma dirs_up_snoc: "dirs_up rs (extra @ [e]) = abs_path (rs @ extra @ [e]) # dirs_up rs extra"
  by (simp add: dirs_up_def)

lemma git_loop_search:
  assumes "\<forall>e \<in> set rs. plain e" and "\<forall>e \<in> set extra. plain e" and "length extra < fuel"
  shows "git_loop fuel fs (abs_path rs) (abs_path (rs @ extra)) = Some (first_marker fs (dirs_up rs extra))"
  using assms(2,3)
proof (induction extra arbitrary: fuel rule: rev_induct)
  case Nil
  then show ?case
    using assms(1) by (cases fuel) (auto simp: withinRoot_abs dirs_up_Nil split: sum.split option.split)
next
  case (snoc e extra)
  obtain f where f: "fuel = Suc f" "length extra < f" using snoc.prems(2) by (cases fuel) auto
  have pl: "\<forall>x \<in> set (rs @ extra @ [e]). plain x" using assms(1) snoc.prems(1) by auto
  have within: "withinRoot (abs_path rs) (abs_path (rs @ extra @ [e]))"
    using withinRoot_abs [OF assms(1) pl] by blast
  have "abs_path (rs @ extra @ [e]) \<noteq> abs_path rs" using abs_path_inject [OF pl assms(1)] by simp
  moreover have up: "path_dir (abs_path (rs @ extra @ [e])) = abs_path (rs @ extra)"
    using path_dir_abs [OF pl] by (simp add: butlast_append)
  moreover have "abs_path (rs @ extra) \<noteq> abs_path (rs @ extra @ [e])"
    using abs_path_inject [of "rs @ extra" "rs @ extra @ [e]"] pl by auto
  ultimately show ?case
    using within snoc.IH [of f] snoc.prems(1) f
    by (auto simp: dirs_up_snoc Let_def split: sum.split option.split)
qed

lemma git_loop_outside:
  assumes "\<forall>e \<in> set rs. plain e" and "\<forall>e \<in> set ps. plain e" and "\<nexists>extra. ps = rs @ extra" and "0 < fuel"
  shows "git_loop fuel fs (abs_path rs) (abs_path ps) = Some (Inr None)"
  using assms by (cases fuel) (auto simp: withinRoot_abs)

lemma normalize_clean:
  assumes "\<forall>e \<in> set es. plain e" and "trim_space (abs_path es) = abs_path es"
  shows "scanner_normalizeAbsPath (abs_path es) = Inr (abs_path es)"
proof -
  have "abs_path es \<noteq> []" by (simp add: abs_path_def)
  then show ?thesis
    unfolding scanner_normalizeAbsPath_def assms(2) Let_def is_abs_def clean_abs [OF assms(1)] by simp
qed

text \<open>
  The search for a project's repository ends, and finds the nearest marker: the directories from
  the project up to the root are looked at in this order and no other, the first that has a marker
  (or cannot be read) decides, and a project outside the root has no repository.
\<close>

theorem findGitRepository_nearest:
  assumes "\<forall>e \<in> set rs. plain e" and "\<forall>e \<in> set ps. plain e"
    and "trim_space (abs_path rs) = abs_path rs" and "trim_space (abs_path ps) = abs_path ps"
    and "length ps < fuel"
  shows "findGitRepository fuel fs (abs_path ps) (abs_path rs) =
    Some (if take (length rs) ps = rs then first_marker fs (dirs_up rs (drop (length rs) ps)) else Inr None)"
proof -
  have run: "findGitRepository fuel fs (abs_path ps) (abs_path rs) = git_loop fuel fs (abs_path rs) (abs_path ps)"
    by (simp add: findGitRepository_def normalize_clean [OF assms(1,3)] normalize_clean [OF assms(2,4)])
  show ?thesis
  proof (cases "take (length rs) ps = rs")
    case True
    then have ps: "ps = rs @ drop (length rs) ps" by (metis append_take_drop_id)
    have "\<forall>e \<in> set (drop (length rs) ps). plain e" using assms(2) by (auto dest: in_set_dropD)
    moreover have "length (drop (length rs) ps) < fuel" using assms(5) by simp
    ultimately show ?thesis
      using git_loop_search [OF assms(1), of "drop (length rs) ps"] True run ps by simp
  next
    case False
    then have "\<nexists>extra. ps = rs @ extra" by auto
    then show ?thesis using git_loop_outside [OF assms(1,2)] assms(5) False run by simp
  qed
qed

text \<open>A file system with a Git directory at the root of the scan.\<close>

definition sample_fs :: scanFilesystem where
  "sample_fs = \<lparr>fs_Lstat = (\<lambda>p. if p = ''/srv/.git'' then Inr Directory else Inl NotExist),
     fs_ReadDir = (\<lambda>_. Inr []), fs_Read = (\<lambda>_. Inl NotExist)\<rparr>"

lemma findGitRepository_nearest_witness:
  "findGitRepository 4 sample_fs (abs_path [''srv'', ''app'', ''prod'']) (abs_path [''srv'']) =
     Some (Inr (Some (''/srv'', ''.git_directory'')))"
proof -
  have "\<forall>e \<in> set [''srv'']. plain e" and "\<forall>e \<in> set [''srv'', ''app'', ''prod'']. plain e"
    by (simp_all add: plain_def)
  moreover have "trim_space (abs_path [''srv'']) = abs_path [''srv'']" by code_simp
  moreover have "trim_space (abs_path [''srv'', ''app'', ''prod'']) = abs_path [''srv'', ''app'', ''prod'']"
    by code_simp
  moreover have "first_marker sample_fs (dirs_up [''srv''] [''app'', ''prod'']) =
      Inr (Some (''/srv'', ''.git_directory''))" by code_simp
  ultimately show ?thesis
    using findGitRepository_nearest [of "[''srv'']" "[''srv'', ''app'', ''prod'']" 4 sample_fs] by simp
qed

end
