(* ===== verification/Ignore_Facts.thy ===== *)
theory Ignore_Facts
  imports Scanner_Facts
begin

text \<open>
  What the ignore rules exclude: each rule on its own, a rule for a single name exactly the paths with
  an element of that name; and what a scan goes on with in a directory.
\<close>

section \<open>Literal patterns\<close>

definition literal :: "bytes \<Rightarrow> bool" where
  "literal p \<longleftrightarrow> set p \<inter> {CHR ''*'', CHR ''?'', CHR ''['', CHR 0x5C} = {}"

lemma scan_to_star_literal: "literal p \<Longrightarrow> scan_to_star b p = (p, [])"
  by (induction b p rule: scan_to_star.induct) (auto simp: literal_def)

lemma match_chunk_literal:
  "literal p \<Longrightarrow> length p \<le> fuel \<Longrightarrow>
     match_chunk fuel failed p s =
       Inr (if \<not> failed \<and> has_prefix s p then Some (drop (length p) s) else None)"
proof (induction p arbitrary: fuel failed s)
  case Nil
  then show ?case by simp
next
  case (Cons c p)
  obtain f where f: "fuel = Suc f" "length p \<le> f" using Cons.prems(2) by (cases fuel) auto
  have lit: "literal p" and c: "c \<noteq> CHR ''*''" "c \<noteq> CHR ''?''" "c \<noteq> CHR ''[''" "c \<noteq> CHR 0x5C"
    using Cons.prems(1) by (auto simp: literal_def)
  show ?case
    using Cons.IH [OF lit f(2)] c f by (cases s) (auto simp: Let_def has_prefix_def)
qed

lemma path_match_literal:
  assumes "literal p" and "p \<noteq> []"
  shows "path_match p s = Inr (s = p)"
proof -
  obtain c q where p: "p = c # q" using assms(2) by (cases p) auto
  have "c \<noteq> CHR ''*''" using assms(1) p by (auto simp: literal_def)
  then have chunk: "scan_chunk (c # q) = (False, c # q, [])"
    using scan_to_star_literal [OF assms(1)] p by (simp add: scan_chunk_def has_prefix_def)
  have "match_at p s = Inr (if has_prefix s p then Some (drop (length p) s) else None)"
    using match_chunk_literal [OF assms(1), of "length p" False s] by (simp add: match_at_def)
  then have "match_loop (Suc (length q)) (c # q) s = Inr (has_prefix s p \<and> drop (length p) s = [])"
    using p by (simp add: chunk Let_def)
  moreover have "has_prefix s p \<and> drop (length p) s = [] \<longleftrightarrow> s = p"
    by (auto simp: has_prefix_def)
  ultimately show ?thesis using p by (simp add: path_match_def)
qed

section \<open>A rule for one name\<close>

definition name_rule :: "bytes \<Rightarrow> IgnoreRule" where
  "name_rule p = \<lparr>ir_ID = [], ir_ScopeType = [], ir_ScopeID = [], ir_Pattern = p, ir_Origin = [],
     ir_SortOrder = 0, ir_CreatedAt = 0, ir_UpdatedAt = 0\<rparr>"

lemma trim_chars_slash:
  assumes "plain p"
  shows "trim_chars p [slash] = p" and "trim_chars (p @ [slash]) [slash] = p"
    and "trim_chars (slash # p) [slash] = p" and "trim_chars (slash # p @ [slash]) [slash] = p"
proof -
  have idle: "dropWhile (\<lambda>c. c \<in> set [slash]) q = q" if "slash \<notin> set q" for q
    using that by (cases q) auto
  have p: "slash \<notin> set p" "slash \<notin> set (rev p)" "p \<noteq> []" using assms by (auto simp: plain_def)
  obtain c q where cq: "p = c # q" "c \<noteq> slash" using p by (cases p) auto
  show "trim_chars p [slash] = p" "trim_chars (p @ [slash]) [slash] = p"
    "trim_chars (slash # p) [slash] = p" "trim_chars (slash # p @ [slash]) [slash] = p"
    using idle [OF p(1)] idle [OF p(2)] cq by (simp_all add: trim_chars_def)
qed

lemma clean_plain: "plain p \<Longrightarrow> clean p = p"
  using clean_rel [of "[p]"] by (simp add: rel_path_def)

lemma no_backslash: "CHR 0x5C \<notin> set p \<Longrightarrow> replace_char p (CHR 0x5C) slash = p"
  by (induction p) (auto simp: replace_char_def)

text \<open>The texts of rules for the name \<open>p\<close>, with and without a slash before and after it.\<close>

definition rule_text :: "bool \<Rightarrow> bytes \<Rightarrow> bool \<Rightarrow> bytes" where
  "rule_text anchored p directory =
     (if anchored then [slash] else []) @ p @ (if directory then [slash] else [])"

lemma has_suffix_last: "s \<noteq> [] \<Longrightarrow> has_suffix s [c] \<longleftrightarrow> last s = c"
  by (cases s rule: rev_cases) (auto simp: has_suffix_def has_prefix_def)

lemma compile_name_rule:
  assumes "plain p" and "literal p" and "\<not> has_prefix p ''!''"
    and "trim_space (rule_text anchored p directory) = rule_text anchored p directory"
  shows "compile_rule (name_rule (rule_text anchored p directory)) =
    Some \<lparr>ip_raw = rule_text anchored p directory, ip_pattern = p, ip_directory = directory,
          ip_anchored = anchored\<rparr>"
proof -
  have p: "p \<noteq> []" "slash \<notin> set p" using assms(1) by (auto simp: plain_def)
  then obtain c q where cq: "p = c # q" "c \<noteq> slash" by (cases p) auto
  obtain q' c' where qc: "p = q' @ [c']" "c' \<noteq> slash" using p by (cases p rule: rev_cases) auto
  have ends: "has_prefix (rule_text anchored p directory) [slash] = anchored"
    "\<not> has_prefix (rule_text anchored p directory) ''!''" "rule_text anchored p directory \<noteq> []"
    using cq assms(3) by (auto simp: rule_text_def has_prefix_def)
  have "last (rule_text anchored p directory) = slash \<longleftrightarrow> directory"
    using qc by (simp add: rule_text_def)
  then have dir_end: "has_suffix (rule_text anchored p directory) [slash] = directory"
    using has_suffix_last [OF ends(3)] by blast
  have "trim_chars (rule_text anchored p directory) [slash] = p"
    using trim_chars_slash [OF assms(1)] by (simp add: rule_text_def)
  moreover have "replace_char p (CHR 0x5C) slash = p"
    using assms(2) by (intro no_backslash) (auto simp: literal_def)
  ultimately show ?thesis
    using ends dir_end p(1) clean_plain [OF assms(1)]
    by (simp add: compile_rule_def name_rule_def assms(4) Let_def)
qed

lemma path_base_rel:
  assumes "\<forall>e \<in> set es. plain e" and "es \<noteq> []"
  shows "path_base (rel_path es) = last es"
proof -
  have no: "rel_path es \<noteq> []" using join_eq_Nil [OF assms(1)] assms(2) by (simp add: rel_path_def)
  have sp: "split (rel_path es) slash = es"
    using split_plain [OF assms] by (simp add: rel_path_def)
  have "last es \<noteq> []" using assms by (auto simp: plain_def)
  have "last (rel_path es) \<noteq> slash"
  proof
    assume "last (rel_path es) = slash"
    then have "rel_path es = butlast (rel_path es) @ [slash]" using no by (metis append_butlast_last_id)
    moreover have "split (s @ [slash]) slash = split s slash @ [[]]" for s
      by (induction s) (auto split: list.splits)
    ultimately have "last es = []" using sp by (metis last_snoc)
    then show False using \<open>last es \<noteq> []\<close> by simp
  qed
  then have "dropWhile (\<lambda>c. c = slash) (rev (rel_path es)) = rev (rel_path es)"
    using no by (cases "rel_path es" rule: rev_cases) auto
  then show ?thesis using no sp \<open>last es \<noteq> []\<close> by (simp add: path_base_def Let_def)
qed

lemma name_pattern_matches:
  assumes "plain p" and "literal p" and "\<forall>e \<in> set es. plain e" and "es \<noteq> []" and "ip_pattern q = p"
  shows "pattern_matches q (rel_path es) (path_base (rel_path es)) \<longleftrightarrow> p \<in> set es"
proof -
  have sp: "split (rel_path es) slash = es"
    using split_plain [OF assms(3,4)] by (simp add: rel_path_def)
  have single: "p = rel_path es \<Longrightarrow> p \<in> set es"
    using sp assms(1) by (metis list.set_intros(1) plainD split_no_sep)
  have base: "path_base (rel_path es) \<in> set es" using path_base_rel [OF assms(3,4)] assms(4) by simp
  have "\<not> has_prefix p ''**/''" and "\<not> has_suffix p ''/**''"
    using assms(2) by (auto simp: literal_def has_prefix_iff has_suffix_iff)
  moreover have "path_match p (rel_path es) = Inr (rel_path es = p)"
    using assms(1) by (intro path_match_literal [OF assms(2)]) (simp add: plain_def)
  moreover have "has_suffix (rel_path es) (slash # p) \<Longrightarrow> p \<in> set es"
  proof -
    assume "has_suffix (rel_path es) (slash # p)"
    then obtain r where r: "rel_path es = r @ slash # p" by (auto simp: has_suffix_iff)
    have "split (r @ slash # p) slash = split r slash @ [p]"
      using assms(1) by (induction r) (auto simp: split_no_sep plainD split: list.splits)
    then show ?thesis using sp r by (metis in_set_conv_decomp)
  qed
  ultimately show ?thesis
    using assms(1,5) single base sp by (auto simp: pattern_matches_def Let_def list_ex_iff plain_def)
qed

lemma ignored_rel:
  assumes "\<forall>e \<in> set es. plain e" and "es \<noteq> []" and "trim_space (rel_path es) = rel_path es"
    and "CHR 0x5C \<notin> set (rel_path es)"
  shows "ignored m (rel_path es) isDir \<longleftrightarrow>
    list_ex (\<lambda>p. \<not> (ip_directory p \<and> \<not> isDir) \<and>
      pattern_matches p (rel_path es) (path_base (rel_path es))) m"
proof -
  have c: "clean (rel_path es) = rel_path es" by (rule clean_rel [OF assms(1,2)])
  obtain e rest where e: "es = e # rest" "plain e" using assms(1,2) by (cases es) auto
  then have "\<not> has_prefix (rel_path es) [slash]"
    by (cases e; cases rest) (auto simp: rel_path_def has_prefix_def plain_def)
  moreover have "rel_path es \<noteq> ''.''"
  proof
    assume "rel_path es = ''.''"
    then have "es = [''.'']" using split_plain [OF assms(1,2)] by (simp add: rel_path_def)
    then show False using assms(1) by (simp add: plain_def)
  qed
  moreover have "rel_path es \<noteq> []" using join_eq_Nil [OF assms(1)] assms(2) by (simp add: rel_path_def)
  ultimately have "cleanRelativePath (rel_path es) = rel_path es"
    using assms(3) c by (auto simp: cleanRelativePath_def trim_prefix_def Let_def has_prefix_def)
  then show ?thesis
    using c no_backslash [OF assms(4)] \<open>rel_path es \<noteq> ''.''\<close> by (simp add: ignored_def Let_def)
qed

text \<open>
  A rule for a single name, with or without a slash before it, excludes exactly the paths below
  the root that have an element of that name, at whatever depth; with a slash after it only
  directories. So what lies below an excluded directory is excluded too.
\<close>

theorem name_rule_excludes:
  assumes "plain p" and "literal p" and "\<not> has_prefix p ''!''"
    and "trim_space (rule_text anchored p directory) = rule_text anchored p directory"
    and "\<forall>e \<in> set es. plain e" and "es \<noteq> []" and "trim_space (rel_path es) = rel_path es"
    and "CHR 0x5C \<notin> set (rel_path es)"
  shows "ignored (newIgnoreMatcher [name_rule (rule_text anchored p directory)]) (rel_path es) isDir \<longleftrightarrow>
    p \<in> set es \<and> (directory \<longrightarrow> isDir)"
  using name_pattern_matches [OF assms(1,2,5,6)]
  by (auto simp: newIgnoreMatcher_def map_filter_simps compile_name_rule [OF assms(1-4)]
      ignored_rel [OF assms(5-8)])

lemma name_rule_excludes_witness:
  "ignored (newIgnoreMatcher [name_rule ''/build'']) ''src/build'' True"
proof -
  have "''/build'' = rule_text True ''build'' False" by (simp add: rule_text_def)
  moreover have "''src/build'' = rel_path [''src'', ''build'']" by (simp add: rel_path_def)
  moreover have "trim_space (rule_text True ''build'' False) = rule_text True ''build'' False" by code_simp
  moreover have "trim_space (rel_path [''src'', ''build'']) = rel_path [''src'', ''build'']" by code_simp
  moreover have "CHR 0x5C \<notin> set (rel_path [''src'', ''build''])" by code_simp
  ultimately show ?thesis
    using name_rule_excludes [of "''build''" True False "[''src'', ''build'']" True]
    by (simp add: plain_def literal_def has_prefix_def)
qed

lemma ignored_list_ex: "\<exists>Q. \<forall>m. ignored m relative isDir = list_ex Q m"
proof (cases "cleanRelativePath relative = ''.''")
  case True
  then show ?thesis by (intro exI [of _ "\<lambda>_. False"]) (simp add: ignored_def list_ex_iff)
next
  case False
  then show ?thesis by (auto simp: ignored_def Let_def)
qed

lemma map_filter_list_ex:
  "list_ex Q (List.map_filter f xs) = list_ex (\<lambda>x. list_ex Q (List.map_filter f [x])) xs"
  by (induction xs) (auto simp: map_filter_simps split: option.splits)

text \<open>
  The rules only exclude, each on its own: a path is excluded by a list of rules exactly when one
  of them alone excludes it, whatever their order; blank and negated rules have no effect.
\<close>

theorem rules_exclude_independently:
  "(ignored (newIgnoreMatcher rules) relative isDir \<longleftrightarrow>
      list_ex (\<lambda>rule. ignored (newIgnoreMatcher [rule]) relative isDir) rules) \<and>
   (has_prefix (trim_space (ir_Pattern rule)) ''!'' \<or> trim_space (ir_Pattern rule) = [] \<longrightarrow>
      newIgnoreMatcher (rule # rules) = newIgnoreMatcher rules)"
proof
  show "ignored (newIgnoreMatcher rules) relative isDir \<longleftrightarrow>
      list_ex (\<lambda>rule. ignored (newIgnoreMatcher [rule]) relative isDir) rules"
  proof -
    obtain Q where "\<And>m. ignored m relative isDir = list_ex Q m" using ignored_list_ex by blast
    then show ?thesis
      unfolding newIgnoreMatcher_def using map_filter_list_ex [of Q compile_rule rules] by simp
  qed
  show "has_prefix (trim_space (ir_Pattern rule)) ''!'' \<or> trim_space (ir_Pattern rule) = [] \<longrightarrow>
      newIgnoreMatcher (rule # rules) = newIgnoreMatcher rules"
    by (auto simp: newIgnoreMatcher_def map_filter_simps compile_rule_def Let_def)
qed

lemma rules_exclude_independently_witness:
  "newIgnoreMatcher [name_rule ''!keep'', name_rule ''build''] = newIgnoreMatcher [name_rule ''build'']"
proof -
  have "has_prefix (trim_space (ir_Pattern (name_rule ''!keep''))) ''!''" by code_simp
  then show ?thesis
    using rules_exclude_independently [of "[name_rule ''build'']" "[]" False "name_rule ''!keep''"] by blast
qed

section \<open>What a scan goes on with\<close>

lemma scan_child_cases:
  "scan_child root dir m e = (Some c, n, k) \<longleftrightarrow>
     de_Type e = Directory \<and> de_Name e \<noteq> ''.git'' \<and> c = path_join [dir, de_Name e] \<and>
     \<not> ignored m (relativePath root c) True \<and> n = 0 \<and> k = 0"
  by (auto simp: scan_child_def Let_def)

text \<open>
  C37: a scan goes on with subdirectories only, never with a symbolic link, a \<open>.git\<close> directory or an
  ignored one; every one of them lies within the root; and each subdirectory or link of the
  directory is either gone on with or counted as skipped, once.
\<close>

theorem scan_stays_in_root:
  assumes "\<forall>e \<in> set rs. plain e" and "\<forall>e \<in> set ds. plain e" and "take (length rs) ds = rs"
    and "\<forall>entry \<in> set entries. plain (de_Name entry)"
    and "scan_children (abs_path rs) (abs_path ds) m entries = (children, skipped, links)"
  shows "(\<forall>c \<in> set children. withinRoot (abs_path rs) c \<and> \<not> ignored m (relativePath (abs_path rs) c) True \<and>
      (\<exists>entry \<in> set entries. de_Type entry = Directory \<and> de_Name entry \<noteq> ''.git'' \<and>
         c = abs_path (ds @ [de_Name entry]))) \<and>
    length children + skipped = fst (countSkippedChildren entries) \<and>
    links = snd (countSkippedChildren entries)"
proof
  let ?step = "scan_child (abs_path rs) (abs_path ds) m"
  have out: "children = List.map_filter fst (map ?step entries)"
    "skipped = sum_list (map (fst \<circ> snd) (map ?step entries))"
    "links = sum_list (map (snd \<circ> snd) (map ?step entries))"
    using assms(5) by (simp_all add: scan_children_def Let_def)
  show "length children + skipped = fst (countSkippedChildren entries) \<and>
      links = snd (countSkippedChildren entries)"
    unfolding out
    by (induction entries)
      (auto simp: map_filter_simps countSkippedChildren_def affected_def scan_child_def Let_def)
  show "\<forall>c \<in> set children. withinRoot (abs_path rs) c \<and> \<not> ignored m (relativePath (abs_path rs) c) True \<and>
      (\<exists>entry \<in> set entries. de_Type entry = Directory \<and> de_Name entry \<noteq> ''.git'' \<and>
         c = abs_path (ds @ [de_Name entry]))"
  proof
    fix c assume "c \<in> set children"
    then obtain entry where "entry \<in> set entries" "fst (?step entry) = Some c"
      unfolding out(1) map_filter_set by auto
    then obtain n k where e: "entry \<in> set entries" "?step entry = (Some c, n, k)"
      by (metis prod.collapse)
    then have c: "de_Type entry = Directory" "de_Name entry \<noteq> ''.git''"
      "c = abs_path (ds @ [de_Name entry])" "\<not> ignored m (relativePath (abs_path rs) c) True"
      using assms(2,4) path_join_child [OF assms(2)] by (auto simp: scan_child_cases)
    have "\<exists>rest. ds @ [de_Name entry] = rs @ rest"
      using assms(3) by (metis append.assoc append_take_drop_id)
    moreover have "\<forall>x \<in> set (ds @ [de_Name entry]). plain x" using assms(2,4) e(1) by simp
    ultimately have "withinRoot (abs_path rs) c"
      unfolding c(3) using withinRoot_abs [OF assms(1)] by blast
    with c e(1) show "withinRoot (abs_path rs) c \<and> \<not> ignored m (relativePath (abs_path rs) c) True \<and>
      (\<exists>entry \<in> set entries. de_Type entry = Directory \<and> de_Name entry \<noteq> ''.git'' \<and>
         c = abs_path (ds @ [de_Name entry]))" by blast
  qed
qed

definition sample_entries :: "DirEntry list" where
  "sample_entries = [\<lparr>de_Name = ''.git'', de_Type = Directory\<rparr>, \<lparr>de_Name = ''app'', de_Type = Directory\<rparr>,
     \<lparr>de_Name = ''cur'', de_Type = Symlink\<rparr>, \<lparr>de_Name = ''README'', de_Type = RegularFile\<rparr>]"

lemma scan_stays_in_root_witness:
  "scan_children (abs_path [''srv'']) (abs_path [''srv'']) [] sample_entries = ([''/srv/app''], 2, 1) \<and>
   length [''/srv/app''] + 2 = fst (countSkippedChildren sample_entries)"
proof -
  have run: "scan_children (abs_path [''srv'']) (abs_path [''srv'']) [] sample_entries = ([''/srv/app''], 2, 1)"
    by code_simp
  have "\<forall>entry \<in> set sample_entries. plain (de_Name entry)"
    by (simp add: sample_entries_def plain_def)
  with scan_stays_in_root [OF _ _ _ _ run] run show ?thesis by (simp add: plain_def)
qed

text \<open>A trailing space in a directory name is lost: two directories, one relative path.\<close>

lemma relativePath_drops_space: "relativePath ''/srv'' ''/srv/app '' = relativePath ''/srv'' ''/srv/app''"
  by code_simp

end
