(* ===== verification/Go_Url.thy ===== *)
theory Go_Url
  imports Go_Path
begin

text \<open>
  Of Go's packages \<open>net/url\<close> and \<open>net\<close> what the repository component calls: \<open>url.Parse\<close> with the
  scheme, the user information, the host, the path, the query and the fragment of its result,
  \<open>URL.String\<close>, and \<open>net.SplitHostPort\<close>. Both
  are those of Go 1.23, the version of the module file. The code only asks whether there was an error,
  so an error is \<open>None\<close>. In ASCII the schemes and escapes are compared as Go compares them.
\<close>

section \<open>Characters\<close>

definition is_letter :: "char \<Rightarrow> bool" where
  "is_letter c \<longleftrightarrow> (CHR ''a'' \<le> c \<and> c \<le> CHR ''z'') \<or> (CHR ''A'' \<le> c \<and> c \<le> CHR ''Z'')"

definition is_digit :: "char \<Rightarrow> bool" where
  "is_digit c \<longleftrightarrow> CHR ''0'' \<le> c \<and> c \<le> CHR ''9''"

definition hex_value :: "char \<Rightarrow> int option" where
  "hex_value c =
     (if is_digit c then Some (byte c - 48)
      else if CHR ''a'' \<le> c \<and> c \<le> CHR ''f'' then Some (byte c - 87)
      else if CHR ''A'' \<le> c \<and> c \<le> CHR ''F'' then Some (byte c - 55)
      else None)"

text \<open>The ASCII characters that may stand unescaped in a host.\<close>

definition host_char :: "char \<Rightarrow> bool" where
  "host_char c \<longleftrightarrow> is_letter c \<or> is_digit c \<or> c \<in> set ''!$&()*+,;=:[]<>-_.~'' \<or> c = CHR 0x27 \<or> c = CHR 0x22"

definition userinfo_char :: "char \<Rightarrow> bool" where
  "userinfo_char c \<longleftrightarrow> is_letter c \<or> is_digit c \<or> c \<in> set ''-._:~!$&()*+,;=%@'' \<or> c = CHR 0x27"

text \<open>\<open>strings.LastIndex\<close> of one byte, as a split at its last occurrence.\<close>

definition cut_last :: "bytes \<Rightarrow> char \<Rightarrow> (bytes \<times> bytes) option" where
  "cut_last s c = map_option (\<lambda>(b, a). (rev a, rev b)) (cut (rev s) c)"

section \<open>Escapes\<close>

datatype escape_mode = PathMode | UserMode | HostMode | ZoneMode

definition escape_ok :: "escape_mode \<Rightarrow> int \<Rightarrow> bool" where
  "escape_ok mode v =
     (case mode of
        HostMode \<Rightarrow> 0x80 \<le> v \<or> v = 0x25
      | ZoneMode \<Rightarrow> v = 0x25 \<or> v = 0x20 \<or> host_char (char_of v)
      | _ \<Rightarrow> True)"

definition literal_ok :: "escape_mode \<Rightarrow> char \<Rightarrow> bool" where
  "literal_ok mode c =
     (case mode of
        HostMode \<Rightarrow> CHR 0x80 \<le> c \<or> host_char c
      | ZoneMode \<Rightarrow> CHR 0x80 \<le> c \<or> host_char c
      | _ \<Rightarrow> True)"

fun unescape :: "escape_mode \<Rightarrow> bytes \<Rightarrow> bytes option" where
  "unescape mode [] = Some []"
| "unescape mode (c # s) =
     (if c = CHR ''%''
      then (case s of
              a # b # r \<Rightarrow>
                (case (hex_value a, hex_value b) of
                   (Some x, Some y) \<Rightarrow>
                     (if escape_ok mode (16 * x + y)
                      then map_option (\<lambda>t. char_of (16 * x + y) # t) (unescape mode r) else None)
                 | _ \<Rightarrow> None)
            | _ \<Rightarrow> None)
      else if literal_ok mode c then map_option (\<lambda>t. c # t) (unescape mode s)
      else None)"

section \<open>The authority\<close>

record url =
  u_Scheme :: bytes
  u_User :: "(bytes \<times> bytes option) option"
  u_Host :: bytes
  u_Path :: bytes
  u_WrittenPath :: bytes
  u_RawQuery :: bytes
  u_ForceQuery :: bool
  u_Fragment :: bytes

definition bare_url :: "bytes \<Rightarrow> (bytes \<times> bytes option) option \<Rightarrow> bytes \<Rightarrow> bytes \<Rightarrow> bytes \<Rightarrow> url" where
  "bare_url scheme user host path written =
     \<lparr>u_Scheme = scheme, u_User = user, u_Host = host, u_Path = path, u_WrittenPath = written,
      u_RawQuery = [], u_ForceQuery = False, u_Fragment = []\<rparr>"

text \<open>\<open>validOptionalPort\<close>: nothing, or a colon and digits.\<close>

definition valid_optional_port :: "bytes \<Rightarrow> bool" where
  "valid_optional_port p \<longleftrightarrow> p = [] \<or> (hd p = CHR '':'' \<and> list_all is_digit (tl p))"

text \<open>\<open>strings.Index(s, "%25")\<close>, as a split before its first occurrence.\<close>

fun split_zone :: "bytes \<Rightarrow> (bytes \<times> bytes) option" where
  "split_zone [] = None"
| "split_zone (c # s) =
     (if has_prefix (c # s) ''%25'' then Some ([], c # s)
      else map_option (\<lambda>(a, b). (c # a, b)) (split_zone s))"

definition parse_host :: "bytes \<Rightarrow> bytes option" where
  "parse_host host =
     (if has_prefix host ''[''
      then
        (case cut_last host (CHR '']'') of
           None \<Rightarrow> None
         | Some (front, colonPort) \<Rightarrow>
             if \<not> valid_optional_port colonPort then None
             else
               (case split_zone front of
                  None \<Rightarrow> unescape HostMode host
                | Some (addr, zone) \<Rightarrow>
                    (case (unescape HostMode addr, unescape ZoneMode zone,
                           unescape HostMode ('']'' @ colonPort)) of
                       (Some a, Some z, Some p) \<Rightarrow> Some (a @ z @ p)
                     | _ \<Rightarrow> None)))
      else
        (case cut_last host (CHR '':'') of
           None \<Rightarrow> unescape HostMode host
         | Some (_, port) \<Rightarrow>
             if valid_optional_port (CHR '':'' # port) then unescape HostMode host else None))"

definition parse_userinfo :: "bytes \<Rightarrow> (bytes \<times> bytes option) option" where
  "parse_userinfo info =
     (if \<not> list_all userinfo_char info then None
      else
        (case cut info (CHR '':'') of
           None \<Rightarrow> map_option (\<lambda>u. (u, None)) (unescape UserMode info)
         | Some (username, password) \<Rightarrow>
             (case (unescape UserMode username, unescape UserMode password) of
                (Some u, Some p) \<Rightarrow> Some (u, Some p)
              | _ \<Rightarrow> None)))"

definition parse_authority :: "bytes \<Rightarrow> ((bytes \<times> bytes option) option \<times> bytes) option" where
  "parse_authority authority =
     (case cut_last authority (CHR ''@'') of
        None \<Rightarrow> map_option (\<lambda>h. (None, h)) (parse_host authority)
      | Some (info, host) \<Rightarrow>
          (case (parse_host host, parse_userinfo info) of
             (Some h, Some u) \<Rightarrow> Some (Some u, h)
           | _ \<Rightarrow> None))"

section \<open>Parse\<close>

text \<open>\<open>getScheme\<close>: the scheme (empty for none) and the rest; \<open>None\<close> for a missing scheme.\<close>

fun scheme_loop :: "bytes \<Rightarrow> bytes \<Rightarrow> bytes \<Rightarrow> (bytes \<times> bytes) option" where
  "scheme_loop raw seen [] = Some ([], raw)"
| "scheme_loop raw seen (c # s) =
     (if is_letter c then scheme_loop raw (seen @ [c]) s
      else if is_digit c \<or> c \<in> set ''+-.''
      then (if seen = [] then Some ([], raw) else scheme_loop raw (seen @ [c]) s)
      else if c = CHR '':'' then (if seen = [] then None else Some (seen, s))
      else Some ([], raw))"

definition cut_before :: "bytes \<Rightarrow> char \<Rightarrow> bytes" where
  "cut_before s c = (case cut s c of None \<Rightarrow> s | Some (a, _) \<Rightarrow> a)"

definition parse_rest :: "bytes \<Rightarrow> bytes \<Rightarrow> url option" where
  "parse_rest scheme rest =
     (let no_authority = map_option (\<lambda>p. bare_url scheme None [] p rest) (unescape PathMode rest)
      in if \<not> has_prefix rest [slash] \<and> scheme \<noteq> []
         then Some (bare_url scheme None [] [] [])
         else if \<not> has_prefix rest [slash] \<and> CHR '':'' \<in> set (cut_before rest slash) then None
         else if has_prefix rest ''//'' \<and> (scheme \<noteq> [] \<or> \<not> has_prefix rest ''///'')
         then
           (let authority = takeWhile (\<lambda>c. c \<noteq> slash) (drop 2 rest);
                path = dropWhile (\<lambda>c. c \<noteq> slash) (drop 2 rest)
            in (case (parse_authority authority, unescape PathMode path) of
                  (Some (user, host), Some p) \<Rightarrow>
                    Some (bare_url scheme user host p path)
                | _ \<Rightarrow> None))
         else no_authority)"

text \<open>A single question mark at the end is remembered as \<open>ForceQuery\<close>.\<close>

definition add_query :: "bytes \<Rightarrow> url \<Rightarrow> url" where
  "add_query rest u =
     (case cut rest (CHR ''?'') of
        None \<Rightarrow> u
      | Some (_, query) \<Rightarrow> if query = [] then u\<lparr>u_ForceQuery := True\<rparr> else u\<lparr>u_RawQuery := query\<rparr>)"

definition url_parse :: "bytes \<Rightarrow> url option" where
  "url_parse rawURL =
     (let (u, frag) = (case cut rawURL (CHR ''#'') of None \<Rightarrow> (rawURL, []) | Some p \<Rightarrow> p);
          parsed =
            (if list_ex (\<lambda>c. c < CHR '' '' \<or> c = CHR 0x7F) u then None
             else if u = ''*'' then Some (bare_url [] None [] ''*'' ''*'')
             else
               (case scheme_loop u [] u of
                  None \<Rightarrow> None
                | Some (scheme, rest) \<Rightarrow>
                    map_option (add_query rest)
                      (parse_rest (map lower_char scheme) (cut_before rest (CHR ''?'')))))
      in if frag = [] then parsed
         else
           (case unescape PathMode frag of
              None \<Rightarrow> None
            | Some fragment \<Rightarrow> map_option (\<lambda>u. u\<lparr>u_Fragment := fragment\<rparr>) parsed))"

section \<open>Writing a URL\<close>

text \<open>\<open>shouldEscape\<close> in a path and in a host.\<close>

definition should_escape :: "escape_mode \<Rightarrow> char \<Rightarrow> bool" where
  "should_escape mode c \<longleftrightarrow>
     \<not> (is_letter c \<or> is_digit c \<or> c \<in> set ''-_.~'' \<or>
        (mode = PathMode \<and> c \<in> set ''$&+,/:;=@'') \<or>
        (mode = HostMode \<and> host_char c))"

definition hex_digit :: "int \<Rightarrow> char" where
  "hex_digit n = char_of (if n < 10 then n + 48 else n + 55)"

definition escape :: "escape_mode \<Rightarrow> bytes \<Rightarrow> bytes" where
  "escape mode s =
     concat (map (\<lambda>c. if should_escape mode c
                      then [CHR ''%'', hex_digit (byte c div 16), hex_digit (byte c mod 16)] else [c]) s)"

text \<open>\<open>validEncoded\<close> of a path.\<close>

definition valid_encoded :: "bytes \<Rightarrow> bool" where
  "valid_encoded s \<longleftrightarrow>
     list_all (\<lambda>c. c \<in> set ''!$&()*+,;=:@[]%'' \<or> c = CHR 0x27 \<or> \<not> should_escape PathMode c) s"

definition escaped_path :: "url \<Rightarrow> bytes" where
  "escaped_path u =
     (if valid_encoded (u_WrittenPath u) \<and> unescape PathMode (u_WrittenPath u) = Some (u_Path u)
      then u_WrittenPath u
      else if u_Path u = ''*'' then ''*'' else escape PathMode (u_Path u))"

text \<open>\<open>URL.String\<close> for a URL with a scheme and a host, without user information and fragment.\<close>

definition url_string :: "url \<Rightarrow> bytes" where
  "url_string u =
     u_Scheme u @ ''://'' @ escape HostMode (u_Host u) @
     (let path = escaped_path u in (if path \<noteq> [] \<and> hd path \<noteq> slash then ''/'' else []) @ path) @
     (if u_ForceQuery u \<or> u_RawQuery u \<noteq> [] then ''?'' @ u_RawQuery u else [])"

section \<open>Host and port\<close>

definition SplitHostPort :: "bytes \<Rightarrow> (bytes \<times> bytes) option" where
  "SplitHostPort hostport =
     (case cut_last hostport (CHR '':'') of
        None \<Rightarrow> None
      | Some (front, port) \<Rightarrow>
          if has_prefix hostport ''[''
          then
            (case cut hostport (CHR '']'') of
               None \<Rightarrow> None
             | Some (open_host, rest) \<Rightarrow>
                 if rest \<noteq> CHR '':'' # port \<or> CHR '':'' \<in> set port then None
                 else if CHR ''['' \<in> set (tl hostport) \<or> CHR '']'' \<in> set rest then None
                 else Some (tl open_host, port))
          else if CHR '':'' \<in> set front then None
          else if CHR ''['' \<in> set hostport \<or> CHR '']'' \<in> set hostport then None
          else Some (front, port))"

lemma url_samples:
  "url_parse ''https://github.com:443/o/r.git?x#y'' =
     Some ((bare_url ''https'' None ''github.com:443'' ''/o/r.git'' ''/o/r.git'')
       \<lparr>u_RawQuery := ''x'', u_Fragment := ''y''\<rparr>)"
  "url_parse ''SSH://git:s@h/p%20q'' =
     Some (bare_url ''ssh'' (Some (''git'', Some ''s'')) ''h'' ''/p q'' ''/p%20q'')"
  "url_parse ''a:b@c'' = Some (bare_url ''a'' None [] [] [])"
  "url_parse ''https://h:8x/'' = None"  "url_parse ''1a:b/c'' = None" "url_parse '':x'' = None"
  "url_parse ''https://[::1%25e0]:8/'' = Some (bare_url ''https'' None ''[::1%e0]:8'' ''/'' ''/'')"
  "map_option url_string (url_parse ''https://h/a%20b/c d?'') = Some ''https://h/a%20b/c%20d?''"
  "map_option url_string (url_parse ''https://h/a%2Fb(x)'') = Some ''https://h/a%2Fb(x)''"
  "SplitHostPort ''[::1]:22'' = Some (''::1'', ''22'')" "SplitHostPort ''a:b:c'' = None"
  "SplitHostPort ''h:'' = Some (''h'', [])"
  by code_simp+

end
