(* ===== verification/Repo_Identity.thy ===== *)
theory Repo_Identity
  imports Go_Url
begin

text \<open>
  \<open>internal/repository/domain.go\<close>: which repository a request or a clone URL means (provider, host,
  full path, transport URL), where under a root path its checkout may lie, and the keys under which
  both are reserved. What is not code of the repository is the record \<open>machine\<close>: the normal form C
  of \<open>golang.org/x/text\<close>, the case tables of Unicode, and the file system.
\<close>

section \<open>The environment\<close>

datatype path_error = NotExists | PathError bytes

record machine =
  m_NFC :: "bytes \<Rightarrow> bytes"
  m_ucase :: "bytes \<Rightarrow> bytes"
  m_EvalSymlinks :: "bytes \<Rightarrow> path_error + bytes"
  m_IsDir :: "bytes \<Rightarrow> bool option"
  m_CreateTemp :: "bytes \<Rightarrow> bytes option"
  m_StatWhileProbing :: "bytes \<Rightarrow> bool"

abbreviation ToLower :: "machine \<Rightarrow> bytes \<Rightarrow> bytes" where
  "ToLower m \<equiv> to_lower (m_ucase m)"

datatype repo_error =
    ValidationError bytes message
  | OtherError bytes

definition ValidationCode :: "repo_error \<Rightarrow> bytes" where
  "ValidationCode e =
     (case e of
        ValidationError code _ \<Rightarrow> if code \<noteq> [] then code else ''validation_error''
      | OtherError _ \<Rightarrow> ''validation_error'')"

definition invalid_path :: "bytes \<Rightarrow> repo_error" where
  "invalid_path msg = ValidationError ''invalid_repository_path'' (Text msg)"

section \<open>Providers\<close>

abbreviation ProviderGeneric :: bytes where "ProviderGeneric \<equiv> ''generic''"
abbreviation ProviderGitHub :: bytes where "ProviderGitHub \<equiv> ''github''"
abbreviation ProtocolHTTPS :: bytes where "ProtocolHTTPS \<equiv> ''https''"
abbreviation ProtocolSSH :: bytes where "ProtocolSSH \<equiv> ''ssh''"

record providerAdapter =
  pa_provider :: bytes
  pa_defaultHost :: bytes

definition providerAdapters :: "bytes \<Rightarrow> providerAdapter option" where
  "providerAdapters p =
     (if p = ProviderGeneric then Some \<lparr>pa_provider = ProviderGeneric, pa_defaultHost = ''local''\<rparr>
      else if p = ProviderGitHub then Some \<lparr>pa_provider = ProviderGitHub, pa_defaultHost = ''github.com''\<rparr>
      else None)"

definition adapterForProvider :: "machine \<Rightarrow> bytes \<Rightarrow> repo_error + providerAdapter" where
  "adapterForProvider m provider0 =
     (let p = ToLower m (trim_space provider0)
      in case providerAdapters p of
           None \<Rightarrow> Inl (ValidationError ''unsupported_provider'' (Quoting ''unsupported provider '' p))
         | Some adapter \<Rightarrow> Inr adapter)"

definition defaultProviderHost :: "bytes \<Rightarrow> bytes" where
  "defaultProviderHost p = (case providerAdapters p of Some adapter \<Rightarrow> pa_defaultHost adapter | None \<Rightarrow> [])"

record Identity =
  id_Provider :: bytes
  id_ProviderHost :: bytes
  id_FullPath :: bytes
  id_CloneURL :: bytes
  id_Protocol :: bytes

record CloneRequest =
  cr_ProviderInstanceID :: bytes
  cr_Provider :: bytes
  cr_ProviderHost :: bytes
  cr_CredentialID :: bytes
  cr_Protocol :: bytes
  cr_CloneURL :: bytes
  cr_GroupPath :: bytes
  cr_CloneScope :: bytes
  cr_FullPath :: bytes
  cr_RootPathID :: bytes
  cr_NewRootPath :: bytes
  cr_TargetDirectory :: bytes
  cr_NewTargetDirectory :: bytes

record ProviderInstance =
  pi_ID :: bytes
  pi_Name :: bytes
  pi_Provider :: bytes
  pi_ProviderHost :: bytes
  pi_APIBaseURL :: bytes
  pi_WebBaseURL :: bytes
  pi_Enabled :: bool
  pi_SchemaVersion :: bytes
  pi_CreatedAt :: instant
  pi_UpdatedAt :: instant

section \<open>Hosts\<close>

definition splitHostPortLenient :: "bytes \<Rightarrow> (bytes \<times> bytes) option" where
  "splitHostPortLenient value0 =
     (case SplitHostPort value0 of
        Some (host, port) \<Rightarrow> Some (trim_chars host ''[]'', port)
      | None \<Rightarrow>
          (case cut value0 (CHR '':'') of
             None \<Rightarrow> None
           | Some (host, port) \<Rightarrow> if CHR '':'' \<in> set port then None else Some (host, port)))"

definition invalid_host :: repo_error where
  "invalid_host = ValidationError ''invalid_provider_host'' (Text ''invalid provider_host'')"

definition bad_host :: "bytes \<Rightarrow> bool" where
  "bad_host host \<longleftrightarrow>
     host = ''.'' \<or> host = ''-'' \<or> has_prefix host ''.'' \<or> has_suffix host ''.''"

definition normalizeProviderHostForProtocol :: "machine \<Rightarrow> bytes \<Rightarrow> bytes \<Rightarrow> repo_error + bytes" where
  "normalizeProviderHostForProtocol m value0 protocol =
     (let v = ToLower m (trim_space value0)
      in if v = [] then Inr []
         else if has_control v \<or> contains v ''://'' \<or> slash \<in> set v \<or> CHR ''@'' \<in> set v \<or>
                 contains_any v [CHR '' '', CHR 0x09, CHR 0x0D, CHR ''\<newline>'']
         then Inl invalid_host
         else if CHR '':'' \<in> set v
         then
           (case splitHostPortLenient v of
              None \<Rightarrow> Inl invalid_host
            | Some (parsedHost, port) \<Rightarrow>
                if parsedHost = [] \<or> port = [] then Inl invalid_host
                else if bad_host parsedHost then Inl invalid_host
                else if (protocol = ProtocolHTTPS \<and> port = ''443'') \<or> (protocol = ProtocolSSH \<and> port = ''22'')
                then Inr parsedHost else Inr v)
         else if bad_host v then Inl invalid_host else Inr v)"

definition normalizeProviderHost :: "machine \<Rightarrow> bytes \<Rightarrow> repo_error + bytes" where
  "normalizeProviderHost m value0 = normalizeProviderHostForProtocol m value0 []"

section \<open>Full paths and transport URLs\<close>

definition NormalizeFullPath :: "machine \<Rightarrow> bytes \<Rightarrow> bytes \<Rightarrow> repo_error + bytes" where
  "NormalizeFullPath m provider0 value0 =
     (case adapterForProvider m provider0 of
        Inl e \<Rightarrow> Inl e
      | Inr adapter \<Rightarrow>
          (let v0 = m_NFC m (trim_space value0)
           in if v0 = [] \<or> has_control v0 \<or> CHR 0x5C \<in> set v0 then Inl (invalid_path ''invalid repository path'')
              else
                (let v = trim_suffix v0 ''.git''
                 in if has_prefix v [slash] \<or> has_suffix v [slash]
                    then Inl (invalid_path ''invalid repository path'')
                    else if list_ex (\<lambda>part. part = [] \<or> part = ''.'' \<or> part = ''..'') (split v slash)
                    then Inl (invalid_path ''invalid repository path'')
                    else if pa_provider adapter = ProviderGitHub \<and> length (split v slash) \<noteq> 2
                    then Inl (ValidationError ''provider_path_shape_mismatch'' (Text ''provider path shape mismatch''))
                    else Inr v)))"

definition TransportURL :: "bytes \<Rightarrow> bytes \<Rightarrow> bytes \<Rightarrow> bytes \<Rightarrow> bytes" where
  "TransportURL provider host fullPath protocol =
     (if protocol = ProtocolSSH
      then (if CHR '':'' \<in> set host then ''ssh://git@'' @ host @ ''/'' @ fullPath @ ''.git''
            else ''git@'' @ host @ '':'' @ fullPath @ ''.git'')
      else if provider = ProviderGeneric \<and> host = ''local'' then fullPath
      else ''https://'' @ host @ ''/'' @ fullPath @ ''.git'')"

definition IdentityReservationKey :: "bytes \<Rightarrow> bytes \<Rightarrow> bytes \<Rightarrow> bytes" where
  "IdentityReservationKey provider host fullPath =
     ''repository-identity:'' @ provider @ '':'' @ host @ '':'' @ fullPath"

section \<open>Clone URLs\<close>

text \<open>\<open>filepath.Abs\<close> of an absolute path is its clean form.\<close>

definition normalizeAbsPath :: "bytes \<Rightarrow> repo_error + bytes" where
  "normalizeAbsPath value0 =
     (let v = trim_space value0
      in if v = [] then Inl (invalid_path ''path is required'')
         else if \<not> is_abs v then Inl (invalid_path ''path must be absolute'')
         else Inr (clean (clean v)))"

definition genericLocalPathIdentity :: "machine \<Rightarrow> bytes \<Rightarrow> repo_error + Identity" where
  "genericLocalPathIdentity m rawPath =
     (case normalizeAbsPath rawPath of
        Inl e \<Rightarrow> Inl e
      | Inr cleaned \<Rightarrow>
          (case NormalizeFullPath m ProviderGeneric (trim_prefix cleaned [slash]) of
             Inl e \<Rightarrow> Inl e
           | Inr fullPath \<Rightarrow>
               Inr \<lparr>id_Provider = ProviderGeneric, id_ProviderHost = ''local'', id_FullPath = fullPath,
                    id_CloneURL = cleaned, id_Protocol = ProtocolHTTPS\<rparr>))"

definition hasDisallowedUserInfo :: "url \<Rightarrow> bool" where
  "hasDisallowedUserInfo u =
     (case u_User u of
        None \<Rightarrow> False
      | Some (username, password) \<Rightarrow>
          u_Scheme u \<noteq> ProtocolSSH \<or> username \<noteq> ''git'' \<or> password \<noteq> None)"

definition identityFromHostPath :: "machine \<Rightarrow> bytes \<Rightarrow> bytes \<Rightarrow> bytes \<Rightarrow> bytes \<Rightarrow> repo_error + Identity" where
  "identityFromHostPath m provider host0 rawPath protocol =
     (case normalizeProviderHostForProtocol m host0 protocol of
        Inl e \<Rightarrow> Inl e
      | Inr host \<Rightarrow>
          (case NormalizeFullPath m provider rawPath of
             Inl e \<Rightarrow> Inl e
           | Inr fullPath \<Rightarrow>
               Inr \<lparr>id_Provider = provider, id_ProviderHost = host, id_FullPath = fullPath,
                    id_CloneURL = TransportURL provider host fullPath protocol, id_Protocol = protocol\<rparr>))"

definition unsupported_url :: repo_error where
  "unsupported_url = ValidationError ''unsupported_provider_url'' (Text ''unsupported provider URL'')"

definition userinfo_error :: repo_error where
  "userinfo_error =
     ValidationError ''credential_userinfo_not_allowed'' (Text ''credential userinfo is not allowed'')"

text \<open>What follows the checks on the text: the URL's scheme decides.\<close>

definition identity_of_url :: "machine \<Rightarrow> bytes \<Rightarrow> url \<Rightarrow> repo_error + Identity" where
  "identity_of_url m provider u =
     (if hasDisallowedUserInfo u then Inl userinfo_error
      else if u_Scheme u \<noteq> ProtocolHTTPS \<and> u_Scheme u \<noteq> ProtocolSSH \<and> u_Scheme u \<noteq> ''file''
      then Inl (ValidationError ''unsupported_url_protocol'' (Text ''unsupported URL protocol''))
      else if u_Scheme u = ''file''
      then (if provider \<noteq> ProviderGeneric
            then Inl (ValidationError ''unsupported_provider_url''
                        (Text ''file URLs are only supported for generic repositories''))
            else genericLocalPathIdentity m (u_Path u))
      else identityFromHostPath m provider (u_Host u) (trim_prefix (u_Path u) [slash]) (u_Scheme u))"

definition ParseCloneURL :: "machine \<Rightarrow> bytes \<Rightarrow> bytes \<Rightarrow> repo_error + Identity" where
  "ParseCloneURL m provider0 raw0 =
     (case adapterForProvider m provider0 of
        Inl e \<Rightarrow> Inl e
      | Inr adapter \<Rightarrow>
          (let provider = pa_provider adapter; raw = trim_space raw0;
               has_scheme = contains raw ''://''; has_at = CHR ''@'' \<in> set raw
           in if raw = [] \<or> has_control raw then Inl unsupported_url
              else if provider = ProviderGeneric \<and> is_abs raw then genericLocalPathIdentity m raw
              else if has_at \<and> has_scheme \<and> url_parse raw = None then Inl unsupported_url
              else if has_at \<and> has_scheme \<and> hasDisallowedUserInfo (the (url_parse raw)) then Inl userinfo_error
              else if has_prefix raw ''git@'' \<and> CHR '':'' \<in> set raw \<and> \<not> has_scheme
              then
                (case cut (trim_prefix raw ''git@'') (CHR '':'') of
                   Some (host, path) \<Rightarrow> identityFromHostPath m provider host path ProtocolSSH
                 | None \<Rightarrow> Inl unsupported_url)
              else
                (case url_parse raw of
                   Some u \<Rightarrow>
                     (if u_Scheme u \<noteq> [] then identity_of_url m provider u
                      else if slash \<in> set raw \<and> \<not> has_scheme \<and> \<not> has_at
                      then (case cut raw slash of
                              Some (host, path) \<Rightarrow> identityFromHostPath m provider host path ProtocolHTTPS
                            | None \<Rightarrow> Inl unsupported_url)
                      else Inl unsupported_url)
                 | None \<Rightarrow>
                     (if slash \<in> set raw \<and> \<not> has_scheme \<and> \<not> has_at
                      then (case cut raw slash of
                              Some (host, path) \<Rightarrow> identityFromHostPath m provider host path ProtocolHTTPS
                            | None \<Rightarrow> Inl unsupported_url)
                      else Inl unsupported_url))))"

section \<open>The identity of a request\<close>

text \<open>
  The clone URL of a request checked against its host and path: the host and the path that follow,
  and the local path when the URL is one.
\<close>

definition merge_clone_url ::
    "machine \<Rightarrow> bytes \<Rightarrow> bytes \<Rightarrow> bytes \<Rightarrow> bytes \<Rightarrow> repo_error + bytes \<times> bytes \<times> bytes option" where
  "merge_clone_url m provider host fullPath cloneURL =
     (case ParseCloneURL m provider cloneURL of
        Inl e \<Rightarrow> Inl e
      | Inr parsed \<Rightarrow>
          (if host \<noteq> [] \<and> id_ProviderHost parsed \<noteq> [] \<and> host \<noteq> id_ProviderHost parsed
           then Inl (ValidationError ''invalid_provider_host'' (Text ''provider_host does not match clone_url host''))
           else
             (let host' = (if host = [] then id_ProviderHost parsed else host);
                  local = (if provider = ProviderGeneric \<and> id_ProviderHost parsed = ''local''
                           then Some (id_CloneURL parsed) else None)
              in if fullPath = [] then Inr (host', id_FullPath parsed, local)
                 else
                   (case NormalizeFullPath m provider fullPath of
                      Inl e \<Rightarrow> Inl e
                    | Inr normalizedRequestPath \<Rightarrow>
                        if normalizedRequestPath \<noteq> id_FullPath parsed
                        then Inl (ValidationError ''provider_path_shape_mismatch''
                                    (Text ''full_path does not match clone_url path''))
                        else Inr (host', fullPath, local)))))"

definition finish_identity ::
    "machine \<Rightarrow> providerAdapter \<Rightarrow> bytes \<Rightarrow> bytes \<Rightarrow> bytes \<Rightarrow> bytes option \<Rightarrow> repo_error + Identity" where
  "finish_identity m adapter protocol host0 fullPath0 local =
     (let provider = pa_provider adapter; host = (if host0 = [] then pa_defaultHost adapter else host0)
      in if host = []
         then Inl (ValidationError ''provider_host_required'' (Text ''provider_host is required''))
         else
           (case NormalizeFullPath m provider fullPath0 of
              Inl e \<Rightarrow> Inl e
            | Inr fullPath \<Rightarrow>
                Inr \<lparr>id_Provider = provider, id_ProviderHost = host, id_FullPath = fullPath,
                     id_CloneURL = (case local of
                                      Some path \<Rightarrow> path
                                    | None \<Rightarrow> TransportURL provider host fullPath protocol),
                     id_Protocol = protocol\<rparr>))"

definition NormalizeIdentity ::
    "machine \<Rightarrow> CloneRequest \<Rightarrow> ProviderInstance option \<Rightarrow> repo_error + Identity" where
  "NormalizeIdentity m req inst =
     (let provider0 = ToLower m (trim_space (cr_Provider req));
          provider1 = (case inst of Some i \<Rightarrow> if provider0 = [] then pi_Provider i else provider0 | None \<Rightarrow> provider0)
      in case adapterForProvider m provider1 of
           Inl e \<Rightarrow> Inl e
         | Inr adapter \<Rightarrow>
             (let provider = pa_provider adapter; protocol = ToLower m (trim_space (cr_Protocol req))
              in if protocol \<noteq> ProtocolHTTPS \<and> protocol \<noteq> ProtocolSSH
                 then Inl (ValidationError ''unsupported_url_protocol'' (Quoting ''unsupported protocol '' protocol))
                 else
                   (case normalizeProviderHostForProtocol m (cr_ProviderHost req) protocol of
                      Inl e \<Rightarrow> Inl e
                    | Inr host0 \<Rightarrow>
                        (if (case inst of Some i \<Rightarrow> provider \<noteq> pi_Provider i | None \<Rightarrow> False)
                         then Inl (ValidationError ''provider_instance_mismatch''
                                     (Text ''provider_instance_id does not match provider''))
                         else
                           (let host = (case inst of Some i \<Rightarrow> pi_ProviderHost i | None \<Rightarrow> host0);
                                fullPath = trim_space (cr_FullPath req); cloneURL = trim_space (cr_CloneURL req)
                            in if cloneURL = [] then finish_identity m adapter protocol host fullPath None
                               else
                                 (case merge_clone_url m provider host fullPath cloneURL of
                                    Inl e \<Rightarrow> Inl e
                                  | Inr (host', fullPath', local) \<Rightarrow>
                                      finish_identity m adapter protocol host' fullPath' local))))))"

section \<open>Targets under a root path\<close>

text \<open>The loop over the parents: the ancestor that exists, the missing elements below it.\<close>

fun existing_prefix :: "nat \<Rightarrow> machine \<Rightarrow> bytes \<Rightarrow> bytes list \<Rightarrow> bytes \<Rightarrow> (repo_error + bytes) option" where
  "existing_prefix 0 m path missing current = None"
| "existing_prefix (Suc fuel) m path missing current =
     (case m_EvalSymlinks m current of
        Inr evaluated \<Rightarrow> Some (normalizeAbsPath (path_join (evaluated # missing)))
      | Inl (PathError e) \<Rightarrow> Some (Inl (OtherError e))
      | Inl NotExists \<Rightarrow>
          (let parent = path_dir current
           in if parent = current then Some (normalizeAbsPath path)
              else existing_prefix fuel m path (path_base current # missing) parent))"

definition resolvePathWithExistingPrefix :: "nat \<Rightarrow> machine \<Rightarrow> bytes \<Rightarrow> (repo_error + bytes) option" where
  "resolvePathWithExistingPrefix fuel m path =
     (case m_EvalSymlinks m path of
        Inr evaluated \<Rightarrow> Some (normalizeAbsPath evaluated)
      | Inl (PathError e) \<Rightarrow> Some (Inl (OtherError e))
      | Inl NotExists \<Rightarrow> existing_prefix fuel m path [] path)"

definition NormalizeRootPath :: "nat \<Rightarrow> machine \<Rightarrow> bytes \<Rightarrow> (repo_error + bytes) option" where
  "NormalizeRootPath fuel m rootPath =
     (case normalizeAbsPath rootPath of
        Inl e \<Rightarrow> Some (Inl e)
      | Inr root \<Rightarrow> resolvePathWithExistingPrefix fuel m root)"

abbreviation outside_root :: repo_error where
  "outside_root \<equiv> invalid_path ''target_directory must stay within root_path''"

fun contain_parts :: "machine \<Rightarrow> bytes \<Rightarrow> bytes \<Rightarrow> bytes list \<Rightarrow> repo_error + bytes" where
  "contain_parts m root current [] = Inr current"
| "contain_parts m root current (part # parts) =
     (let next = path_join [current, part]
      in case m_EvalSymlinks m next of
           Inr evaluated \<Rightarrow>
             (if withinRoot root evaluated then contain_parts m root evaluated parts else Inl outside_root)
         | Inl (PathError e) \<Rightarrow> Inl (invalid_path ''target_directory is unavailable'')
         | Inl NotExists \<Rightarrow>
             (if withinRoot root next then contain_parts m root next parts else Inl outside_root))"

definition containedTargetPath :: "machine \<Rightarrow> bytes \<Rightarrow> bytes \<Rightarrow> repo_error + bytes" where
  "containedTargetPath m root slashTarget = contain_parts m root root (split slashTarget slash)"

text \<open>The checks on the target alone: its clean form.\<close>

definition target_text :: "machine \<Rightarrow> bytes \<Rightarrow> repo_error + bytes" where
  "target_text m target0 =
     (let target1 = m_NFC m (trim_space target0)
      in if target1 = [] then Inl (invalid_path ''target_directory is required'')
         else if has_control target1 \<or> CHR 0x5C \<in> set target1
         then Inl (invalid_path ''target_directory is invalid'')
         else
           (let target = clean target1
            in if is_abs target then Inl (invalid_path ''target_directory must be relative'')
               else if target = ''.'' \<or> has_prefix target ''../'' \<or> target = ''..'' \<or> contains target ''/../''
               then Inl outside_root else Inr target))"

definition NormalizeTarget :: "nat \<Rightarrow> machine \<Rightarrow> bytes \<Rightarrow> bytes \<Rightarrow> (repo_error + bytes \<times> bytes) option" where
  "NormalizeTarget fuel m rootPath target0 =
     (case normalizeAbsPath rootPath of
        Inl e \<Rightarrow> Some (Inl e)
      | Inr root0 \<Rightarrow>
          (case resolvePathWithExistingPrefix fuel m root0 of
             None \<Rightarrow> None
           | Some (Inl e) \<Rightarrow> Some (Inl (invalid_path ''root_path is unavailable''))
           | Some (Inr root) \<Rightarrow>
               Some
                 (case target_text m target0 of
                    Inl e \<Rightarrow> Inl e
                  | Inr target \<Rightarrow>
                      (case containedTargetPath m root target of
                         Inl e \<Rightarrow> Inl e
                       | Inr local0 \<Rightarrow>
                           (case normalizeAbsPath local0 of
                              Inl e \<Rightarrow> Inl e
                            | Inr local \<Rightarrow>
                                if \<not> withinRoot root local then Inl outside_root
                                else
                                  (case rel root local of
                                     None \<Rightarrow> Inl (OtherError ''Rel: can't make target relative'')
                                   | Some r \<Rightarrow> Inr (r, local)))))))"

section \<open>Reservation keys\<close>

text \<open>Of the name of a temporary file, which is ASCII.\<close>

definition swapASCIICase :: "bytes \<Rightarrow> bytes" where
  "swapASCIICase value0 =
     map (\<lambda>c. if CHR ''a'' \<le> c \<and> c \<le> CHR ''z'' then char_of (byte c - 32)
              else if CHR ''A'' \<le> c \<and> c \<le> CHR ''Z'' then char_of (byte c + 32) else c) value0"

definition filesystemCaseInsensitive :: "machine \<Rightarrow> bytes \<Rightarrow> bool" where
  "filesystemCaseInsensitive m root =
     (let probeDir = (case m_EvalSymlinks m root of Inr evaluated \<Rightarrow> evaluated | Inl _ \<Rightarrow> root)
      in if m_IsDir m probeDir \<noteq> Some True then False
         else
           (case m_CreateTemp m probeDir of
              None \<Rightarrow> False
            | Some probe \<Rightarrow>
                (let probeName = path_base probe; swapped = swapASCIICase probeName
                 in if swapped = probeName then False
                    else m_StatWhileProbing m (path_join [probeDir, swapped]))))"

definition TargetReservationPath :: "nat \<Rightarrow> machine \<Rightarrow> bytes \<Rightarrow> bytes \<Rightarrow> (repo_error + bytes) option" where
  "TargetReservationPath fuel m rootPath targetDirectory =
     (case NormalizeTarget fuel m rootPath targetDirectory of
        None \<Rightarrow> None
      | Some (Inl e) \<Rightarrow> Some (Inl e)
      | Some (Inr (normalizedTarget, _)) \<Rightarrow>
          (let keyTarget = m_NFC m normalizedTarget
           in Some (Inr (if filesystemCaseInsensitive m rootPath then ToLower m keyTarget else keyTarget))))"

definition TargetReservationKey ::
    "nat \<Rightarrow> machine \<Rightarrow> bytes \<Rightarrow> bytes \<Rightarrow> bytes \<Rightarrow> (repo_error + bytes) option" where
  "TargetReservationKey fuel m rootPath rootPathID targetDirectory =
     map_option (\<lambda>r. case r of
         Inl e \<Rightarrow> Inl e
       | Inr keyTarget \<Rightarrow> Inr (''repository-path:'' @ rootPathID @ '':'' @ keyTarget))
       (TargetReservationPath fuel m rootPath targetDirectory)"

section \<open>Secret references\<close>

text \<open>\<open>^secretref://env/[A-Za-z_][A-Za-z0-9_]*$\<close>\<close>

definition validateSecretRef :: "bytes \<Rightarrow> repo_error + unit" where
  "validateSecretRef value0 =
     (let v = trim_space value0; name = drop (length ''secretref://env/'') v
      in if has_prefix v ''secretref://env/'' \<and> name \<noteq> [] \<and> (is_letter (hd name) \<or> hd name = CHR ''_'') \<and>
            list_all (\<lambda>c. is_letter c \<or> is_digit c \<or> c = CHR ''_'') name
         then Inr ()
         else Inl (ValidationError ''invalid_secret_ref'' (Text ''secret_ref must use secretref://env/NAME'')))"

end
