(* ===== verification/Registry_Types.thy ===== *)
theory Registry_Types
  imports Job_Store Repo_Identity
begin

text \<open>
  The tables the scanner and the repository component share: root paths, projects and their links,
  repositories, ignore rules, provider instances, credentials, the reservations of repository
  operations, and the configuration entries the scanner reads; with the constraints the migrations
  declare, and the structs rows are read into. The foreign key of a project link into the table of
  jobs is left out.
\<close>

section \<open>Time stamps\<close>

text \<open>
  A column of times holds the text that was written: \<open>internal/scanner\<close> writes nine digits of fraction,
  \<open>internal/repository\<close> leaves out trailing zeros. SQLite compares the texts; PostgreSQL, whose
  column is a \<open>TIMESTAMPTZ\<close>, compares the instants.
\<close>

datatype stamp = Nine instant | Trimmed instant

fun stamp_time :: "stamp \<Rightarrow> instant" where
  "stamp_time (Nine t) = t"
| "stamp_time (Trimmed t) = t"

fun stamp_text :: "stamp \<Rightarrow> bytes" where
  "stamp_text (Nine t) = formatTime t"
| "stamp_text (Trimmed t) = formatTimeNano t"

definition stamp_key :: "bytes \<Rightarrow> stamp \<Rightarrow> instant \<times> bytes" where
  "stamp_key p s = (if p = ''postgres'' then (stamp_time s, []) else (0, stamp_text s))"

section \<open>Rows\<close>

record root_path_row =
  rp_id :: bytes
  rp_name :: bytes
  rp_path :: bytes
  rp_source :: bytes
  rp_enabled :: bool
  rp_schedule_enabled :: bool
  rp_schedule_frequency :: "bytes option"
  rp_created_at :: stamp
  rp_updated_at :: stamp

record project_row =
  pj_id :: bytes
  pj_name :: bytes
  pj_path :: bytes
  pj_relative_path :: bytes
  pj_root_path_id :: bytes
  pj_terraform_marker :: bytes
  pj_status :: bytes
  pj_repository_id :: "bytes option"
  pj_environment_id :: "bytes option"
  pj_default_workspace_id :: "bytes option"
  pj_detected_at :: stamp
  pj_last_seen_at :: stamp
  pj_created_at :: stamp
  pj_updated_at :: stamp

record link_row =
  pl_id :: bytes
  pl_source_project_id :: bytes
  pl_target_project_id :: bytes
  pl_link_type :: bytes
  pl_repository_id :: "bytes option"
  pl_detected_by_job_id :: "bytes option"
  pl_created_at :: stamp
  pl_updated_at :: stamp

record repository_row =
  rr_id :: bytes
  rr_name :: bytes
  rr_provider_instance_id :: "bytes option"
  rr_provider :: bytes
  rr_provider_host :: bytes
  rr_full_path :: bytes
  rr_clone_url :: "bytes option"
  rr_default_branch :: "bytes option"
  rr_root_path_id :: "bytes option"
  rr_target_directory :: "bytes option"
  rr_local_path :: "bytes option"
  rr_auth_type :: "bytes option"
  rr_default_credential_id :: "bytes option"
  rr_status :: bytes
  rr_discovery_source :: bytes
  rr_superseded_by :: "bytes option"
  rr_identity_confirmed_at :: "stamp option"
  rr_auto_sync_enabled :: bool
  rr_webhook_enabled :: bool
  rr_poll_interval :: "bytes option"
  rr_last_pull_at :: "stamp option"
  rr_last_error :: "bytes option"
  rr_created_at :: stamp
  rr_updated_at :: stamp

record ignore_row =
  ig_id :: bytes
  ig_scope_type :: bytes
  ig_scope_id :: "bytes option"
  ig_pattern :: bytes
  ig_origin :: bytes
  ig_sort_order :: int
  ig_created_at :: stamp
  ig_updated_at :: stamp

record instance_row =
  in_id :: bytes
  in_name :: bytes
  in_provider :: bytes
  in_provider_host :: bytes
  in_api_base_url :: "bytes option"
  in_web_base_url :: "bytes option"
  in_enabled :: bool
  in_created_at :: stamp
  in_updated_at :: stamp

record credential_row =
  cd_id :: bytes
  cd_provider_instance_id :: bytes
  cd_name :: bytes
  cd_auth_type :: bytes
  cd_secret_ref :: bytes
  cd_username :: "bytes option"
  cd_usages :: "bytes list"
  cd_scope_hint :: "bytes option"
  cd_enabled :: bool
  cd_created_at :: stamp
  cd_updated_at :: stamp

datatype reservation_status = Held | Freed | Expired

record reservation_row =
  rs_id :: bytes
  rs_key :: bytes
  rs_owner :: bytes
  rs_status :: reservation_status
  rs_created_at :: stamp
  rs_expires_at :: stamp
  rs_released_at :: "stamp option"

record config_row =
  ce_id :: bytes
  ce_key :: bytes
  ce_value :: bytes
  ce_value_type :: bytes
  ce_scope :: bytes
  ce_version :: int
  ce_updated_at :: stamp
  ce_updated_by :: bytes

record registry =
  root_paths :: "root_path_row list"
  projects :: "project_row list"
  project_links :: "link_row list"
  repositories :: "repository_row list"
  ignore_rules :: "ignore_row list"
  provider_instances :: "instance_row list"
  credentials :: "credential_row list"
  reservations :: "reservation_row list"
  config_entries :: "config_row list"

definition empty_registry :: registry where
  "empty_registry =
     \<lparr>root_paths = [], projects = [], project_links = [], repositories = [], ignore_rules = [],
      provider_instances = [], credentials = [], reservations = [], config_entries = []\<rparr>"

section \<open>Constraints of the schema\<close>

definition among :: "bytes option \<Rightarrow> bytes list \<Rightarrow> bool" where
  "among x vs \<longleftrightarrow> (case x of None \<Rightarrow> True | Some v \<Rightarrow> v \<in> set vs)"

definition root_path_check :: "root_path_row \<Rightarrow> bool" where
  "root_path_check r \<longleftrightarrow>
     among (rp_schedule_frequency r) [''daily'', ''weekly'', ''monthly''] \<and>
     rp_source r \<in> set [''config'', ''api'']"

definition project_check :: "project_row \<Rightarrow> bool" where
  "project_check r \<longleftrightarrow> pj_status r \<in> set [''active'', ''missing'', ''disabled'']"

definition link_check :: "link_row \<Rightarrow> bool" where
  "link_check r \<longleftrightarrow>
     pl_link_type r = ''same_repository'' \<and> pl_source_project_id r \<noteq> pl_target_project_id r"

definition repository_check :: "repository_row \<Rightarrow> bool" where
  "repository_check r \<longleftrightarrow>
     rr_provider r \<in> set [''gitlab'', ''github'', ''bitbucket'', ''azure_devops'', ''generic''] \<and>
     among (rr_auth_type r) [''ssh'', ''https'', ''token''] \<and>
     rr_status r \<in> set [''active'', ''missing'', ''superseded'', ''disabled''] \<and>
     rr_discovery_source r \<in> set [''filesystem'', ''provider'', ''clone'', ''manual'']"

definition auth_types :: "bytes list" where
  "auth_types =
     [''ssh_key'', ''https_token'', ''https_basic'', ''oauth_token'', ''app_password'', ''webhook_secret'']"

definition registry_checks :: "registry \<Rightarrow> bool" where
  "registry_checks d \<longleftrightarrow>
     list_all root_path_check (root_paths d) \<and> list_all project_check (projects d) \<and>
     list_all link_check (project_links d) \<and> list_all repository_check (repositories d) \<and>
     list_all (\<lambda>r. in_provider r \<in> set [''github'', ''generic'']) (provider_instances d) \<and>
     list_all (\<lambda>r. cd_auth_type r \<in> set auth_types) (credentials d)"

text \<open>A unique index does not compare rows that have a null in one of its columns.\<close>

definition local_card :: "repository_row \<Rightarrow> bool" where
  "local_card r \<longleftrightarrow> rr_provider r = ''generic'' \<and> rr_provider_host r = ''local''"

definition provider_identity_index :: "repository_row \<Rightarrow> (bytes \<times> bytes \<times> bytes) option" where
  "provider_identity_index r =
     (if local_card r then None else Some (rr_provider r, rr_provider_host r, rr_full_path r))"

definition local_identity_index :: "repository_row \<Rightarrow> (bytes \<times> bytes) option" where
  "local_identity_index r =
     (if local_card r then map_option (\<lambda>root. (root, rr_full_path r)) (rr_root_path_id r) else None)"

definition ignore_index :: "ignore_row \<Rightarrow> (bytes \<times> bytes \<times> bytes) option" where
  "ignore_index r = map_option (\<lambda>scope. (ig_scope_type r, scope, ig_pattern r)) (ig_scope_id r)"

definition reservation_index :: "reservation_row \<Rightarrow> bytes option" where
  "reservation_index r = (if rs_status r = Held then Some (rs_key r) else None)"

definition registry_uniques :: "registry \<Rightarrow> bool" where
  "registry_uniques d \<longleftrightarrow>
     unique_by (\<lambda>r. Some (rp_id r)) (root_paths d) \<and> unique_by (\<lambda>r. Some (rp_path r)) (root_paths d) \<and>
     unique_by (\<lambda>r. Some (pj_id r)) (projects d) \<and>
     unique_by (\<lambda>r. Some (pj_root_path_id r, pj_relative_path r)) (projects d) \<and>
     unique_by (\<lambda>r. Some (pl_id r)) (project_links d) \<and>
     unique_by (\<lambda>r. Some (pl_source_project_id r, pl_target_project_id r, pl_link_type r))
       (project_links d) \<and>
     unique_by (\<lambda>r. Some (rr_id r)) (repositories d) \<and>
     unique_by provider_identity_index (repositories d) \<and>
     unique_by local_identity_index (repositories d) \<and>
     unique_by (\<lambda>r. Some (ig_id r)) (ignore_rules d) \<and> unique_by ignore_index (ignore_rules d) \<and>
     unique_by (\<lambda>r. Some (in_id r)) (provider_instances d) \<and>
     unique_by (\<lambda>r. Some (in_provider r, in_provider_host r)) (provider_instances d) \<and>
     unique_by (\<lambda>r. Some (cd_id r)) (credentials d) \<and>
     unique_by (\<lambda>r. Some (cd_provider_instance_id r, cd_name r)) (credentials d) \<and>
     unique_by (\<lambda>r. Some (rs_id r)) (reservations d) \<and> unique_by reservation_index (reservations d) \<and>
     unique_by (\<lambda>r. Some (ce_id r)) (config_entries d) \<and>
     unique_by (\<lambda>r. Some (ce_key r, ce_scope r)) (config_entries d)"

definition refers :: "bytes option \<Rightarrow> bytes set \<Rightarrow> bool" where
  "refers x ids \<longleftrightarrow> (case x of None \<Rightarrow> True | Some i \<Rightarrow> i \<in> ids)"

definition registry_foreign_keys :: "registry \<Rightarrow> bool" where
  "registry_foreign_keys d \<longleftrightarrow>
     (let roots = rp_id ` set (root_paths d); repos = rr_id ` set (repositories d);
          projs = pj_id ` set (projects d); insts = in_id ` set (provider_instances d);
          creds = cd_id ` set (credentials d)
      in list_all (\<lambda>r. pj_root_path_id r \<in> roots \<and> refers (pj_repository_id r) repos) (projects d) \<and>
         list_all (\<lambda>r. pl_source_project_id r \<in> projs \<and> pl_target_project_id r \<in> projs \<and>
                       refers (pl_repository_id r) repos) (project_links d) \<and>
         list_all (\<lambda>r. refers (rr_root_path_id r) roots \<and> refers (rr_provider_instance_id r) insts \<and>
                       refers (rr_default_credential_id r) creds \<and> refers (rr_superseded_by r) repos)
           (repositories d) \<and>
         list_all (\<lambda>r. cd_provider_instance_id r \<in> insts) (credentials d))"

definition registry_violation :: "registry \<Rightarrow> violation option" where
  "registry_violation d =
     (if \<not> registry_checks d then Some VCheck
      else if \<not> registry_uniques d then Some VUnique
      else if \<not> registry_foreign_keys d then Some VForeignKey
      else None)"

abbreviation registry_ok :: "registry \<Rightarrow> bool" where
  "registry_ok d \<equiv> registry_violation d = None"

abbreviation rexec :: "(registry \<Rightarrow> 'a \<times> registry) \<Rightarrow> (registry, 'a) io" where
  "rexec st \<equiv> exec registry_violation st"

lemma registry_ok_iff:
  "registry_ok d \<longleftrightarrow> registry_checks d \<and> registry_uniques d \<and> registry_foreign_keys d"
  by (simp add: registry_violation_def)

section \<open>Structs\<close>

record RootPath =
  rt_ID :: bytes
  rt_Name :: bytes
  rt_Path :: bytes
  rt_Source :: bytes
  rt_Enabled :: bool
  rt_ScheduleEnabled :: bool
  rt_ScheduleFrequency :: bytes
  rt_CreatedAt :: instant
  rt_UpdatedAt :: instant

record Project =
  po_ID :: bytes
  po_Name :: bytes
  po_Path :: bytes
  po_RelativePath :: bytes
  po_RootPathID :: bytes
  po_TerraformMarker :: bytes
  po_Status :: bytes
  po_RepositoryID :: bytes
  po_EnvironmentID :: bytes
  po_DefaultWorkspaceID :: bytes
  po_DetectedAt :: instant
  po_LastSeenAt :: instant
  po_CreatedAt :: instant
  po_UpdatedAt :: instant

record ProjectLink =
  lk_ID :: bytes
  lk_SourceProjectID :: bytes
  lk_TargetProjectID :: bytes
  lk_LinkType :: bytes
  lk_RepositoryID :: bytes
  lk_DetectedByJobID :: bytes
  lk_CreatedAt :: instant
  lk_UpdatedAt :: instant

record Repository =
  re_ID :: bytes
  re_Name :: bytes
  re_ProviderInstanceID :: bytes
  re_Provider :: bytes
  re_ProviderHost :: bytes
  re_FullPath :: bytes
  re_CloneURL :: bytes
  re_DefaultBranch :: bytes
  re_RootPathID :: bytes
  re_TargetDirectory :: bytes
  re_LocalPath :: bytes
  re_AuthType :: bytes
  re_DefaultCredentialID :: bytes
  re_Status :: bytes
  re_DiscoverySource :: bytes
  re_SupersededByRepositoryID :: bytes
  re_IdentityConfirmedAt :: "instant option"
  re_AutoSyncEnabled :: bool
  re_WebhookEnabled :: bool
  re_PollInterval :: bytes
  re_LastPullAt :: "instant option"
  re_LastError :: bytes
  re_CreatedAt :: instant
  re_UpdatedAt :: instant

definition scanRootPath :: "root_path_row \<Rightarrow> RootPath" where
  "scanRootPath r =
     \<lparr>rt_ID = rp_id r, rt_Name = rp_name r, rt_Path = rp_path r, rt_Source = rp_source r,
      rt_Enabled = rp_enabled r, rt_ScheduleEnabled = rp_schedule_enabled r,
      rt_ScheduleFrequency = coalesce (rp_schedule_frequency r),
      rt_CreatedAt = stamp_time (rp_created_at r), rt_UpdatedAt = stamp_time (rp_updated_at r)\<rparr>"

definition scanProject :: "project_row \<Rightarrow> Project" where
  "scanProject r =
     \<lparr>po_ID = pj_id r, po_Name = pj_name r, po_Path = pj_path r, po_RelativePath = pj_relative_path r,
      po_RootPathID = pj_root_path_id r, po_TerraformMarker = pj_terraform_marker r,
      po_Status = pj_status r, po_RepositoryID = coalesce (pj_repository_id r),
      po_EnvironmentID = coalesce (pj_environment_id r),
      po_DefaultWorkspaceID = coalesce (pj_default_workspace_id r),
      po_DetectedAt = stamp_time (pj_detected_at r), po_LastSeenAt = stamp_time (pj_last_seen_at r),
      po_CreatedAt = stamp_time (pj_created_at r), po_UpdatedAt = stamp_time (pj_updated_at r)\<rparr>"

definition scanProjectLink :: "link_row \<Rightarrow> ProjectLink" where
  "scanProjectLink r =
     \<lparr>lk_ID = pl_id r, lk_SourceProjectID = pl_source_project_id r,
      lk_TargetProjectID = pl_target_project_id r, lk_LinkType = pl_link_type r,
      lk_RepositoryID = coalesce (pl_repository_id r),
      lk_DetectedByJobID = coalesce (pl_detected_by_job_id r),
      lk_CreatedAt = stamp_time (pl_created_at r), lk_UpdatedAt = stamp_time (pl_updated_at r)\<rparr>"

text \<open>\<open>scanRepository\<close> of both packages.\<close>

definition scanRepository :: "repository_row \<Rightarrow> Repository" where
  "scanRepository r =
     \<lparr>re_ID = rr_id r, re_Name = rr_name r,
      re_ProviderInstanceID = coalesce (rr_provider_instance_id r), re_Provider = rr_provider r,
      re_ProviderHost = rr_provider_host r, re_FullPath = rr_full_path r,
      re_CloneURL = coalesce (rr_clone_url r), re_DefaultBranch = coalesce (rr_default_branch r),
      re_RootPathID = coalesce (rr_root_path_id r),
      re_TargetDirectory = coalesce (rr_target_directory r),
      re_LocalPath = coalesce (rr_local_path r), re_AuthType = coalesce (rr_auth_type r),
      re_DefaultCredentialID = coalesce (rr_default_credential_id r), re_Status = rr_status r,
      re_DiscoverySource = rr_discovery_source r,
      re_SupersededByRepositoryID = coalesce (rr_superseded_by r),
      re_IdentityConfirmedAt = map_option stamp_time (rr_identity_confirmed_at r),
      re_AutoSyncEnabled = rr_auto_sync_enabled r, re_WebhookEnabled = rr_webhook_enabled r,
      re_PollInterval = coalesce (rr_poll_interval r),
      re_LastPullAt = map_option stamp_time (rr_last_pull_at r),
      re_LastError = coalesce (rr_last_error r), re_CreatedAt = stamp_time (rr_created_at r),
      re_UpdatedAt = stamp_time (rr_updated_at r)\<rparr>"

section \<open>Statements\<close>

definition update_root_path :: "(root_path_row \<Rightarrow> bool) \<Rightarrow> (root_path_row \<Rightarrow> root_path_row) \<Rightarrow> registry \<Rightarrow> nat \<times> registry" where
  "update_root_path P f d = (affected P (root_paths d), d\<lparr>root_paths := update_where P f (root_paths d)\<rparr>)"

definition insert_root_path :: "root_path_row \<Rightarrow> registry \<Rightarrow> unit \<times> registry" where
  "insert_root_path r d = ((), d\<lparr>root_paths := root_paths d @ [r]\<rparr>)"

definition update_project :: "(project_row \<Rightarrow> bool) \<Rightarrow> (project_row \<Rightarrow> project_row) \<Rightarrow> registry \<Rightarrow> nat \<times> registry" where
  "update_project P f d = (affected P (projects d), d\<lparr>projects := update_where P f (projects d)\<rparr>)"

definition insert_project :: "project_row \<Rightarrow> registry \<Rightarrow> unit \<times> registry" where
  "insert_project r d = ((), d\<lparr>projects := projects d @ [r]\<rparr>)"

definition update_project_link :: "(link_row \<Rightarrow> bool) \<Rightarrow> (link_row \<Rightarrow> link_row) \<Rightarrow> registry \<Rightarrow> nat \<times> registry" where
  "update_project_link P f d = (affected P (project_links d), d\<lparr>project_links := update_where P f (project_links d)\<rparr>)"

definition insert_project_link :: "link_row \<Rightarrow> registry \<Rightarrow> unit \<times> registry" where
  "insert_project_link r d = ((), d\<lparr>project_links := project_links d @ [r]\<rparr>)"

definition update_repository :: "(repository_row \<Rightarrow> bool) \<Rightarrow> (repository_row \<Rightarrow> repository_row) \<Rightarrow> registry \<Rightarrow> nat \<times> registry" where
  "update_repository P f d = (affected P (repositories d), d\<lparr>repositories := update_where P f (repositories d)\<rparr>)"

definition insert_repository :: "repository_row \<Rightarrow> registry \<Rightarrow> unit \<times> registry" where
  "insert_repository r d = ((), d\<lparr>repositories := repositories d @ [r]\<rparr>)"

definition update_ignore_rule :: "(ignore_row \<Rightarrow> bool) \<Rightarrow> (ignore_row \<Rightarrow> ignore_row) \<Rightarrow> registry \<Rightarrow> nat \<times> registry" where
  "update_ignore_rule P f d = (affected P (ignore_rules d), d\<lparr>ignore_rules := update_where P f (ignore_rules d)\<rparr>)"

definition insert_ignore_rule :: "ignore_row \<Rightarrow> registry \<Rightarrow> unit \<times> registry" where
  "insert_ignore_rule r d = ((), d\<lparr>ignore_rules := ignore_rules d @ [r]\<rparr>)"

definition update_instance :: "(instance_row \<Rightarrow> bool) \<Rightarrow> (instance_row \<Rightarrow> instance_row) \<Rightarrow> registry \<Rightarrow> nat \<times> registry" where
  "update_instance P f d = (affected P (provider_instances d), d\<lparr>provider_instances := update_where P f (provider_instances d)\<rparr>)"

definition insert_instance :: "instance_row \<Rightarrow> registry \<Rightarrow> unit \<times> registry" where
  "insert_instance r d = ((), d\<lparr>provider_instances := provider_instances d @ [r]\<rparr>)"

definition update_credential :: "(credential_row \<Rightarrow> bool) \<Rightarrow> (credential_row \<Rightarrow> credential_row) \<Rightarrow> registry \<Rightarrow> nat \<times> registry" where
  "update_credential P f d = (affected P (credentials d), d\<lparr>credentials := update_where P f (credentials d)\<rparr>)"

definition insert_credential :: "credential_row \<Rightarrow> registry \<Rightarrow> unit \<times> registry" where
  "insert_credential r d = ((), d\<lparr>credentials := credentials d @ [r]\<rparr>)"

definition update_reservation :: "(reservation_row \<Rightarrow> bool) \<Rightarrow> (reservation_row \<Rightarrow> reservation_row) \<Rightarrow> registry \<Rightarrow> nat \<times> registry" where
  "update_reservation P f d = (affected P (reservations d), d\<lparr>reservations := update_where P f (reservations d)\<rparr>)"

definition insert_reservation :: "reservation_row \<Rightarrow> registry \<Rightarrow> unit \<times> registry" where
  "insert_reservation r d = ((), d\<lparr>reservations := reservations d @ [r]\<rparr>)"

lemmas statement_defs =
  update_root_path_def insert_root_path_def update_project_def insert_project_def
  update_project_link_def insert_project_link_def update_repository_def insert_repository_def
  update_ignore_rule_def insert_ignore_rule_def update_instance_def insert_instance_def
  update_credential_def insert_credential_def update_reservation_def insert_reservation_def

section \<open>What the operations share\<close>

text \<open>The row of a query that is read with \<open>QueryRowContext\<close>.\<close>

definition fetch :: "('r \<Rightarrow> 's) \<Rightarrow> (registry \<Rightarrow> 'r list) \<Rightarrow> (registry, 's) io" where
  "fetch scan q =
     andThen (query (\<lambda>d. first_row (q d))) (\<lambda>r.
       case r of None \<Rightarrow> fail ENotFound | Some row \<Rightarrow> ret (scan row))"

text \<open>The outcome of a lookup where \<open>ErrNotFound\<close> is not an error.\<close>

definition maybe :: "('d, 'a) io \<Rightarrow> ('a option \<Rightarrow> ('d, 'b) io) \<Rightarrow> ('d, 'b) io" where
  "maybe m f =
     outcome m (\<lambda>r. case r of
         Inr x \<Rightarrow> f (Some x)
       | Inl e \<Rightarrow> if e = ENotFound then f None else fail e)"

fun collect :: "'a list \<Rightarrow> ('a \<Rightarrow> ('d, 'b) io) \<Rightarrow> ('d, 'b list) io" where
  "collect [] f = ret []"
| "collect (x # xs) f = andThen (f x) (\<lambda>y. andThen (collect xs f) (\<lambda>ys. ret (y # ys)))"

record ListOptions =
  lo_Limit :: int
  lo_Cursor :: cursor

text \<open>
  A page of a table, newest first: the rows that satisfy the filter and lie below the cursor; the
  cursor's time is written with the package's own format.
\<close>

definition page_query ::
    "(instant \<Rightarrow> stamp) \<Rightarrow> (int \<Rightarrow> nat) \<Rightarrow> ('r \<Rightarrow> stamp) \<Rightarrow> ('r \<Rightarrow> bytes) \<Rightarrow> ('r \<Rightarrow> 's) \<Rightarrow>
     (registry \<Rightarrow> 'r list) \<Rightarrow> ListOptions \<Rightarrow> (registry, 's list \<times> cursor) io" where
  "page_query write limit created ident scan table opts =
     andThen (if lo_Cursor opts = NoCursor then ret None
              else (case decodeCursor (lo_Cursor opts) of Inl e \<Rightarrow> fail e | Inr a \<Rightarrow> ret (Some a)))
       (\<lambda>cur.
     andThen provider (\<lambda>p.
     andThen (query (\<lambda>d.
        let key = (\<lambda>r. (stamp_key p (created r), ident r));
            after = map_option (\<lambda>(t, i). (stamp_key p (write t), i)) cur
        in page_of key (\<lambda>_. True) after (limit (lo_Limit opts)) (table d)))
       (\<lambda>(rows, next).
          ret (map scan rows,
               case next of
                 None \<Rightarrow> NoCursor
               | Some _ \<Rightarrow> encodeCursor (stamp_time (created (last rows)), ident (last rows))))))"

end
