(* ===== verification/Scanner_Store.thy ===== *)
theory Scanner_Store
  imports Registry_Types Scanner_Paths
begin

text \<open>
  The operations of \<open>internal/scanner/store.go\<close>: root paths and their synchronisation with the
  configuration, projects, the repositories found on disk, links between projects, ignore rules, and
  the listings. A recursive call of the code takes the number of rounds it may make and returns
  \<open>None\<close> when they do not suffice. The document that a JSON text denotes is a parameter.
\<close>

abbreviation RootPathSourceAPI :: bytes where "RootPathSourceAPI \<equiv> ''api''"
abbreviation RootPathSourceConfig :: bytes where "RootPathSourceConfig \<equiv> ''config''"
abbreviation ProjectStatusActive :: bytes where "ProjectStatusActive \<equiv> ''active''"
abbreviation ProjectStatusMissing :: bytes where "ProjectStatusMissing \<equiv> ''missing''"
abbreviation ProjectStatusDisabled :: bytes where "ProjectStatusDisabled \<equiv> ''disabled''"
abbreviation RepositoryStatusActive :: bytes where "RepositoryStatusActive \<equiv> ''active''"
abbreviation LinkTypeSameRepository :: bytes where "LinkTypeSameRepository \<equiv> ''same_repository''"

definition validationErrorf :: "message \<Rightarrow> err" where
  "validationErrorf msg = EValidation ''validation_error'' msg"

definition list_limit :: "int \<Rightarrow> nat" where
  "list_limit limit = nat (if limit \<le> 0 \<or> 200 < limit then 100 else limit)"

section \<open>Helpers\<close>

fun chunks :: "nat \<Rightarrow> 'a list \<Rightarrow> 'a list list" where
  "chunks n [] = []"
| "chunks n (x # xs) = (x # take n xs) # chunks n (drop n xs)"

definition batches :: "'a list \<Rightarrow> int \<Rightarrow> 'a list list" where
  "batches xs size0 =
     (if xs = [] then []
      else chunks (nat ((if size0 \<le> 0 then int (length xs) else size0) - 1)) xs)"

definition validateFrequency :: "bytes \<Rightarrow> err + unit" where
  "validateFrequency v =
     (if v \<in> set [[], ''daily'', ''weekly'', ''monthly''] then Inr ()
      else Inl (EText (Quoting ''unsupported schedule_frequency '' v)))"

definition underErroredSubtree :: "bytes \<Rightarrow> bytes list \<Rightarrow> bool" where
  "underErroredSubtree relative0 erroredSubtrees =
     (if erroredSubtrees = [] then False
      else
        (let relative = cleanRelativePath relative0
         in list_ex (\<lambda>subtree0.
              let subtree = cleanRelativePath subtree0
              in subtree = ''.'' \<or> relative = subtree \<or> has_prefix relative (subtree @ ''/''))
              erroredSubtrees))"

definition canonicalPair :: "bytes \<Rightarrow> bytes \<Rightarrow> bytes \<times> bytes" where
  "canonicalPair left right = (if left < right then (left, right) else (right, left))"

definition validProjectStatus :: "bytes \<Rightarrow> bool" where
  "validProjectStatus v \<longleftrightarrow>
     v \<in> set [ProjectStatusActive, ProjectStatusMissing, ProjectStatusDisabled]"

definition validRepositoryStatus :: "bytes \<Rightarrow> bool" where
  "validRepositoryStatus v \<longleftrightarrow> v \<in> set [RepositoryStatusActive, ''missing'', ''superseded'', ''disabled'']"

definition validDiscoverySource :: "bytes \<Rightarrow> bool" where
  "validDiscoverySource v \<longleftrightarrow> v \<in> set [''filesystem'', ''provider'', ''clone'', ''manual'']"

definition validIgnoreScope :: "bytes \<Rightarrow> bool" where
  "validIgnoreScope v \<longleftrightarrow> v \<in> set [''system'', ''root_path'', ''project'']"

definition validIgnoreOrigin :: "bytes \<Rightarrow> bool" where
  "validIgnoreOrigin v \<longleftrightarrow> v \<in> set [''ui'', ''config_import'', ''system_default'']"

text \<open>\<open>filepath.Base\<close> of a path, or of the root when the path has no name of its own.\<close>

definition name_or_root :: "bytes \<Rightarrow> bytes \<Rightarrow> bytes" where
  "name_or_root path rootPath =
     (let name = path_base path
      in if name = ''.'' \<or> name = [slash] \<or> blank name then path_base rootPath else name)"

section \<open>Root paths\<close>

record RootPathInput =
  ri_ID :: bytes
  ri_Name :: bytes
  ri_Path :: bytes
  ri_Enabled :: "bool option"
  ri_ScheduleEnabled :: "bool option"
  ri_ScheduleFrequency :: bytes
  ri_Source :: bytes

definition GetRootPath :: "bytes \<Rightarrow> (registry, RootPath) io" where
  "GetRootPath i = fetch scanRootPath (\<lambda>d. filter (\<lambda>r. rp_id r = i) (root_paths d))"

definition findRootPath :: "bytes \<Rightarrow> bytes \<Rightarrow> (registry, RootPath) io" where
  "findRootPath i path =
     (let by_path = fetch scanRootPath (\<lambda>d. filter (\<lambda>r. rp_path r = path) (root_paths d))
      in if \<not> blank i
         then maybe (GetRootPath i) (\<lambda>r. case r of Some rt \<Rightarrow> ret rt | None \<Rightarrow> by_path)
         else by_path)"

definition RootPathByPath :: "bytes \<Rightarrow> (registry, RootPath) io" where
  "RootPathByPath path =
     (case scanner_normalizeAbsPath path of
        Inl e \<Rightarrow> fail (EMessage e)
      | Inr normalized \<Rightarrow> findRootPath [] normalized)"

definition set_root_path ::
    "RootPath \<Rightarrow> RootPathInput \<Rightarrow> bytes \<Rightarrow> bytes \<Rightarrow> bytes \<Rightarrow> bytes \<Rightarrow> instant \<Rightarrow> root_path_row \<Rightarrow> root_path_row" where
  "set_root_path old input name path source frequency t r =
     r\<lparr>rp_name := name, rp_path := path, rp_source := source,
       rp_enabled := (case ri_Enabled input of None \<Rightarrow> rt_Enabled old | Some b \<Rightarrow> b),
       rp_schedule_enabled :=
         (case ri_ScheduleEnabled input of None \<Rightarrow> rt_ScheduleEnabled old | Some b \<Rightarrow> b),
       rp_schedule_frequency := nullEmpty frequency, rp_updated_at := Nine t\<rparr>"

text \<open>
  One call: the root path, or the id of the row that another process has inserted for the path in
  between, with which the code calls itself again.
\<close>

definition root_path_round :: "RootPathInput \<Rightarrow> (registry, RootPath + bytes) io" where
  "root_path_round input =
     (case scanner_normalizeAbsPath (ri_Path input) of
        Inl e \<Rightarrow> fail (EMessage e)
      | Inr normalized \<Rightarrow>
          (let frequency = trim_space (ri_ScheduleFrequency input);
               name0 = trim_space (ri_Name input);
               name = (if name0 = [] then path_base normalized else name0);
               source = trim_space (ri_Source input)
           in case validateFrequency frequency of
                Inl e \<Rightarrow> fail e
              | Inr _ \<Rightarrow>
                  if source \<noteq> RootPathSourceAPI \<and> source \<noteq> RootPathSourceConfig \<and> source \<noteq> []
                  then fail (validationErrorf (Quoting ''unsupported root_path source '' source))
                  else
                    andThen now (\<lambda>t.
                    maybe (findRootPath (ri_ID input) normalized) (\<lambda>found.
                      case found of
                        Some old \<Rightarrow>
                          andThen (rexec (update_root_path (\<lambda>r. rp_id r = rt_ID old)
                            (set_root_path old input name normalized
                               (if source = [] then rt_Source old else source) frequency t))) (\<lambda>_.
                          andThen (GetRootPath (rt_ID old)) (\<lambda>rt. ret (Inl rt)))
                      | None \<Rightarrow>
                          andThen (if trim_space (ri_ID input) = [] then newID ''root''
                                   else ret (trim_space (ri_ID input))) (\<lambda>i.
                          outcome (rexec (insert_root_path
                            \<lparr>rp_id = i, rp_name = name, rp_path = normalized,
                             rp_source = (if source = [] then RootPathSourceAPI else source),
                             rp_enabled = (case ri_Enabled input of None \<Rightarrow> True | Some b \<Rightarrow> b),
                             rp_schedule_enabled =
                               (case ri_ScheduleEnabled input of None \<Rightarrow> False | Some b \<Rightarrow> b),
                             rp_schedule_frequency = nullEmpty frequency,
                             rp_created_at = Nine t, rp_updated_at = Nine t\<rparr>)) (\<lambda>r.
                            case r of
                              Inr _ \<Rightarrow> andThen (GetRootPath i) (\<lambda>rt. ret (Inl rt))
                            | Inl e \<Rightarrow>
                                if isUniqueConstraintError e
                                then outcome (findRootPath [] normalized) (\<lambda>r2.
                                       case r2 of
                                         Inl _ \<Rightarrow> fail e
                                       | Inr old \<Rightarrow> ret (Inr (rt_ID old)))
                                else fail e))))))"

fun upsertRootPath :: "nat \<Rightarrow> RootPathInput \<Rightarrow> (registry, RootPath option) io" where
  "upsertRootPath 0 input = ret None"
| "upsertRootPath (Suc fuel) input =
     andThen (root_path_round input) (\<lambda>r.
       case r of
         Inl rt \<Rightarrow> ret (Some rt)
       | Inr i \<Rightarrow> upsertRootPath fuel (input\<lparr>ri_ID := i\<rparr>))"

definition UpsertRootPaths :: "nat \<Rightarrow> RootPathInput list \<Rightarrow> (registry, RootPath option list) io" where
  "UpsertRootPaths fuel inputs = collect inputs (upsertRootPath fuel)"

definition updateRootPathsEnabled :: "bytes list \<Rightarrow> bool \<Rightarrow> instant \<Rightarrow> (registry, unit) io" where
  "updateRootPathsEnabled ids enabled t =
     (if ids = [] then ret ()
      else andThen (rexec (update_root_path (\<lambda>r. rp_id r \<in> set ids)
             (\<lambda>r. r\<lparr>rp_enabled := enabled, rp_updated_at := Nine t\<rparr>))) (\<lambda>_. ret ()))"

definition deactivateRemovedConfigRootPaths :: "bytes list \<Rightarrow> (registry, unit) io" where
  "deactivateRemovedConfigRootPaths currentPaths =
     andThen now (\<lambda>t.
     andThen (query (\<lambda>d. map rp_id (filter (\<lambda>r. rp_source r = RootPathSourceConfig \<and> rp_enabled r \<and>
                                               rp_path r \<notin> set currentPaths) (root_paths d)))) (\<lambda>removed.
       for_each (batches removed 500) (\<lambda>batch. updateRootPathsEnabled batch False t)))"

definition EnabledRootPaths :: "(registry, RootPath list) io" where
  "EnabledRootPaths =
     query (\<lambda>d. map scanRootPath (order_asc rp_path (filter rp_enabled (root_paths d))))"

fun roots_by_ids :: "bytes list \<Rightarrow> bytes list \<Rightarrow> (registry, RootPath list) io" where
  "roots_by_ids seen [] = ret []"
| "roots_by_ids seen (i0 # ids) =
     (let i = trim_space i0
      in if i = [] \<or> i \<in> set seen then roots_by_ids seen ids
         else
           andThen (GetRootPath i) (\<lambda>rt.
             if \<not> rt_Enabled rt then fail (EMessage (''root_path '' @ i @ '' is disabled''))
             else andThen (roots_by_ids (i # seen) ids) (\<lambda>roots. ret (rt # roots))))"

definition RootPathsByIDs :: "bytes list \<Rightarrow> (registry, RootPath list) io" where
  "RootPathsByIDs ids = roots_by_ids [] ids"

section \<open>Configuration\<close>

definition config_value :: "bytes \<Rightarrow> registry \<Rightarrow> bytes list" where
  "config_value key d =
     map ce_value (filter (\<lambda>r. ce_scope r = ''system'' \<and> ce_key r = key) (config_entries d))"

text \<open>\<open>strconv.Atoi\<close>: an optional sign and decimal digits, within 64 bits.\<close>

definition digits_value :: "bytes \<Rightarrow> int" where
  "digits_value s = foldl (\<lambda>n c. 10 * n + int (of_char c) - 48) 0 s"

definition atoi :: "bytes \<Rightarrow> int option" where
  "atoi s =
     (let neg = has_prefix s ''-''; ds = (if neg \<or> has_prefix s ''+'' then drop 1 s else s);
          n = (if neg then - digits_value ds else digits_value ds)
      in if ds = [] \<or> \<not> list_all is_digit ds \<or> n < - (2 ^ 63) \<or> 2 ^ 63 \<le> n then None else Some n)"

definition ConfigInt :: "bytes \<Rightarrow> (registry, int) io" where
  "ConfigInt key =
     andThen (fetch (\<lambda>v. v) (config_value key)) (\<lambda>raw0.
       case atoi (trim_space raw0) of
         None \<Rightarrow> fail (validationErrorf (Text (''config '' @ key @ '' must be an integer'')))
       | Some n \<Rightarrow> ret n)"

text \<open>The members of a JSON object as \<open>json.Unmarshal\<close> assigns them to a field of a struct.\<close>

definition matching :: "bytes \<Rightarrow> (bytes \<times> json) list \<Rightarrow> json list" where
  "matching name kvs = map snd (filter (\<lambda>(k, v). fold_name k = fold_name name) kvs)"

definition mismatch :: bytes where
  "mismatch = ''json: cannot unmarshal value into Go value''"

definition string_member :: "bytes \<Rightarrow> (bytes \<times> json) list \<Rightarrow> bytes + bytes" where
  "string_member name kvs =
     (if list_all string_or_null (matching name kvs)
      then Inr (foldl (\<lambda>acc v. case v of JString s \<Rightarrow> s | _ \<Rightarrow> acc) [] (matching name kvs))
      else Inl mismatch)"

fun bool_or_null :: "json \<Rightarrow> bool" where
  "bool_or_null (JBool _) = True"
| "bool_or_null JNull = True"
| "bool_or_null _ = False"

definition bool_member :: "bytes \<Rightarrow> (bytes \<times> json) list \<Rightarrow> bytes + bool" where
  "bool_member name kvs =
     (if list_all bool_or_null (matching name kvs)
      then Inr (foldl (\<lambda>acc v. case v of JBool b \<Rightarrow> b | _ \<Rightarrow> acc) False (matching name kvs))
      else Inl mismatch)"

record config_root =
  cg_Name :: bytes
  cg_RootPath :: bytes
  cg_Schedule :: bool
  cg_Frequency :: bytes

fun decode_config_root :: "json \<Rightarrow> bytes + config_root" where
  "decode_config_root (JObject kvs) =
     (case (string_member ''name'' kvs, string_member ''root_path'' kvs, bool_member ''schedule'' kvs,
            string_member ''frequency'' kvs) of
        (Inr n, Inr p, Inr s, Inr f) \<Rightarrow>
          Inr \<lparr>cg_Name = n, cg_RootPath = p, cg_Schedule = s, cg_Frequency = f\<rparr>
      | _ \<Rightarrow> Inl mismatch)"
| "decode_config_root JNull = Inr \<lparr>cg_Name = [], cg_RootPath = [], cg_Schedule = False, cg_Frequency = []\<rparr>"
| "decode_config_root _ = Inl mismatch"

fun all_right :: "('e + 'a) list \<Rightarrow> 'e + 'a list" where
  "all_right [] = Inr []"
| "all_right (r # rs) =
     (case r of
        Inl e \<Rightarrow> Inl e
      | Inr x \<Rightarrow> (case all_right rs of Inl e \<Rightarrow> Inl e | Inr xs \<Rightarrow> Inr (x # xs)))"

fun decode_config_roots :: "raw \<Rightarrow> bytes + config_root list" where
  "decode_config_roots (Doc (JArray xs)) = all_right (map decode_config_root xs)"
| "decode_config_roots (Doc JNull) = Inr []"
| "decode_config_roots (Doc _) = Inl mismatch"
| "decode_config_roots Blank = Inl ''unexpected end of JSON input''"
| "decode_config_roots (Malformed m) = Inl m"

definition config_input :: "config_root \<Rightarrow> bytes + RootPathInput" where
  "config_input rt =
     (case scanner_normalizeAbsPath (cg_RootPath rt) of
        Inl e \<Rightarrow> Inl e
      | Inr normalized \<Rightarrow>
          Inr \<lparr>ri_ID = [], ri_Name = cg_Name rt, ri_Path = normalized, ri_Enabled = Some True,
               ri_ScheduleEnabled = Some (cg_Schedule rt),
               ri_ScheduleFrequency = cg_Frequency rt, ri_Source = RootPathSourceConfig\<rparr>)"

definition SyncRootPathsFromConfig :: "(bytes \<Rightarrow> raw) \<Rightarrow> nat \<Rightarrow> (registry, unit) io" where
  "SyncRootPathsFromConfig parse fuel =
     andThen (query (\<lambda>d. first_row (config_value ''scanning.global_scan'' d))) (\<lambda>r.
       case r of
         None \<Rightarrow> ret ()
       | Some text0 \<Rightarrow>
           (case decode_config_roots (parse text0) of
              Inl e \<Rightarrow> fail (EMessage (''decode scanning.global_scan: '' @ e))
            | Inr roots \<Rightarrow>
                (case all_right (map config_input roots) of
                   Inl e \<Rightarrow> fail (EMessage e)
                 | Inr inputs \<Rightarrow>
                     andThen (UpsertRootPaths fuel inputs) (\<lambda>_.
                       deactivateRemovedConfigRootPaths (map ri_Path inputs)))))"

section \<open>Projects\<close>

definition GetProject :: "bytes \<Rightarrow> (registry, Project) io" where
  "GetProject i = fetch scanProject (\<lambda>d. filter (\<lambda>r. pj_id r = i) (projects d))"

definition project_by_identity :: "bytes \<Rightarrow> bytes \<Rightarrow> registry \<Rightarrow> project_row option" where
  "project_by_identity rt relative d =
     first_row (filter (\<lambda>r. pj_root_path_id r = rt \<and> pj_relative_path r = relative) (projects d))"

definition see_project :: "bytes \<Rightarrow> bytes \<Rightarrow> instant \<Rightarrow> project_row \<Rightarrow> project_row" where
  "see_project name path t r =
     r\<lparr>pj_name := name, pj_path := path, pj_terraform_marker := ''*.tf'',
       pj_status := (if pj_status r = ProjectStatusDisabled then pj_status r else ProjectStatusActive),
       pj_last_seen_at := Nine t, pj_updated_at := Nine t\<rparr>"

definition new_project :: "bytes \<Rightarrow> bytes \<Rightarrow> bytes \<Rightarrow> bytes \<Rightarrow> bytes \<Rightarrow> instant \<Rightarrow> project_row" where
  "new_project i name path relative rt t =
     \<lparr>pj_id = i, pj_name = name, pj_path = path, pj_relative_path = relative, pj_root_path_id = rt,
      pj_terraform_marker = ''*.tf'', pj_status = ProjectStatusActive, pj_repository_id = None,
      pj_environment_id = None, pj_default_workspace_id = None, pj_detected_at = Nine t,
      pj_last_seen_at = Nine t, pj_created_at = Nine t, pj_updated_at = Nine t\<rparr>"

text \<open>
  The transaction of \<open>UpsertProject\<close>: the id, and whether the row is new; given up when another
  process has inserted the row in between.
\<close>

definition project_tx ::
    "bytes \<Rightarrow> bytes \<Rightarrow> bytes \<Rightarrow> bytes \<Rightarrow> instant \<Rightarrow> (registry, (bytes \<times> bool) option) io" where
  "project_tx name path relative rt t =
     TxMaybe
       (andThen (query (project_by_identity rt relative)) (\<lambda>existing.
          case existing of
            Some r \<Rightarrow>
              andThen (rexec (update_project (\<lambda>x. pj_id x = pj_id r) (see_project name path t))) (\<lambda>_.
                ret (Some (pj_id r, False)))
          | None \<Rightarrow>
              andThen (newID ''project'') (\<lambda>i.
              outcome (rexec (insert_project (new_project i name path relative rt t))) (\<lambda>r.
                case r of
                  Inr _ \<Rightarrow> ret (Some (i, True))
                | Inl e \<Rightarrow> if isUniqueConstraintError e then ret None else fail e))))"

fun upsert_project_rounds ::
    "nat \<Rightarrow> bytes \<Rightarrow> bytes \<Rightarrow> bytes \<Rightarrow> bytes \<Rightarrow> instant \<Rightarrow> (registry, (Project \<times> bool) option) io" where
  "upsert_project_rounds 0 name path relative rt t = ret None"
| "upsert_project_rounds (Suc fuel) name path relative rt t =
     andThen (project_tx name path relative rt t) (\<lambda>r.
       case r of
         None \<Rightarrow> upsert_project_rounds fuel name path relative rt t
       | Some (i, created) \<Rightarrow> andThen (GetProject i) (\<lambda>project. ret (Some (project, created))))"

definition UpsertProject ::
    "nat \<Rightarrow> RootPath \<Rightarrow> bytes \<Rightarrow> instant \<Rightarrow> (registry, (Project \<times> bool) option) io" where
  "UpsertProject fuel rt relative0 t =
     (case safeRelativePath relative0 of
        Inl e \<Rightarrow> fail (validationErrorf (Text e))
      | Inr relative \<Rightarrow>
          (let path = (if relative \<noteq> ''.'' then path_join [rt_Path rt, relative] else rt_Path rt)
           in upsert_project_rounds fuel (name_or_root path (rt_Path rt)) path relative (rt_ID rt) t))"

definition markProjectIDsMissing :: "bytes list \<Rightarrow> instant \<Rightarrow> (registry, unit) io" where
  "markProjectIDsMissing ids t =
     (if ids = [] then ret ()
      else andThen (rexec (update_project (\<lambda>r. pj_id r \<in> set ids)
             (\<lambda>r. r\<lparr>pj_status := ProjectStatusMissing, pj_updated_at := Nine t\<rparr>))) (\<lambda>_. ret ()))"

definition gone :: "bytes \<Rightarrow> bytes list \<Rightarrow> bytes list \<Rightarrow> project_row \<Rightarrow> bool" where
  "gone rt seen erroredSubtrees r \<longleftrightarrow>
     pj_root_path_id r = rt \<and> pj_status r = ProjectStatusActive \<and>
     pj_relative_path r \<notin> set seen \<and> \<not> underErroredSubtree (pj_relative_path r) erroredSubtrees"

definition MarkMissingProjects ::
    "bytes \<Rightarrow> bytes list \<Rightarrow> bytes list \<Rightarrow> instant \<Rightarrow> (registry, nat) io" where
  "MarkMissingProjects rt seen erroredSubtrees t =
     andThen (query (\<lambda>d. map pj_id (filter (gone rt seen erroredSubtrees) (projects d)))) (\<lambda>missing.
     andThen (WithTx (for_each (batches missing 500) (\<lambda>batch. markProjectIDsMissing batch t))) (\<lambda>_.
       ret (length missing)))"

definition SetProjectRepository :: "bytes \<Rightarrow> bytes \<Rightarrow> (registry, unit) io" where
  "SetProjectRepository project repository =
     andThen now (\<lambda>t.
     andThen (rexec (update_project (\<lambda>r. pj_id r = project)
       (\<lambda>r. r\<lparr>pj_repository_id := Some repository, pj_updated_at := Nine t\<rparr>))) (\<lambda>_. ret ()))"

definition ProjectsByRepository :: "bytes \<Rightarrow> (registry, Project list) io" where
  "ProjectsByRepository repository =
     query (\<lambda>d. map scanProject
       (order_asc pj_id (filter (\<lambda>r. pj_repository_id r = Some repository) (projects d))))"

section \<open>Repositories found on disk\<close>

definition GetRepository :: "bytes \<Rightarrow> (registry, Repository) io" where
  "GetRepository i = fetch scanRepository (\<lambda>d. filter (\<lambda>r. rr_id r = i) (repositories d))"

definition scanner_findRepository :: "bytes \<Rightarrow> bytes \<Rightarrow> bytes \<Rightarrow> (registry, Repository) io" where
  "scanner_findRepository prov host fullPath =
     fetch scanRepository (\<lambda>d. filter (\<lambda>r. rr_provider r = prov \<and> rr_provider_host r = host \<and>
                                         rr_full_path r = fullPath) (repositories d))"

definition findGenericRepository :: "bytes \<Rightarrow> bytes \<Rightarrow> (registry, Repository) io" where
  "findGenericRepository rt fullPath =
     fetch scanRepository (\<lambda>d. filter (\<lambda>r. rr_provider r = ''generic'' \<and> rr_provider_host r = ''local'' \<and>
                                         rr_root_path_id r = Some rt \<and> rr_full_path r = fullPath)
                                (repositories d))"

definition see_repository :: "bytes \<Rightarrow> bytes \<Rightarrow> bytes \<Rightarrow> instant \<Rightarrow> repository_row \<Rightarrow> repository_row" where
  "see_repository name rt localPath t r =
     r\<lparr>rr_name := name, rr_root_path_id := Some rt, rr_local_path := Some localPath,
       rr_status := RepositoryStatusActive, rr_discovery_source := ''filesystem'',
       rr_updated_at := Nine t\<rparr>"

definition new_generic_repository ::
    "bytes \<Rightarrow> bytes \<Rightarrow> bytes \<Rightarrow> bytes \<Rightarrow> bytes \<Rightarrow> instant \<Rightarrow> repository_row" where
  "new_generic_repository i name fullPath rt localPath t =
     \<lparr>rr_id = i, rr_name = name, rr_provider_instance_id = None, rr_provider = ''generic'',
      rr_provider_host = ''local'', rr_full_path = fullPath, rr_clone_url = None,
      rr_default_branch = None, rr_root_path_id = Some rt, rr_target_directory = None,
      rr_local_path = Some localPath, rr_auth_type = None, rr_default_credential_id = None,
      rr_status = RepositoryStatusActive, rr_discovery_source = ''filesystem'',
      rr_superseded_by = None, rr_identity_confirmed_at = None, rr_auto_sync_enabled = False,
      rr_webhook_enabled = False, rr_poll_interval = None, rr_last_pull_at = None,
      rr_last_error = None, rr_created_at = Nine t, rr_updated_at = Nine t\<rparr>"

text \<open>The update of a card that exists; the flags are \<open>created\<close> and \<open>updated\<close>.\<close>

definition refresh_generic ::
    "bytes \<Rightarrow> bytes \<Rightarrow> bytes \<Rightarrow> instant \<Rightarrow> Repository \<Rightarrow> (registry, Repository \<times> bool \<times> bool) io" where
  "refresh_generic name rt localPath t existing =
     andThen (rexec (update_repository (\<lambda>r. rr_id r = re_ID existing) (see_repository name rt localPath t)))
       (\<lambda>_. andThen (GetRepository (re_ID existing)) (\<lambda>repo. ret (repo, False, True)))"

definition UpsertGenericRepository ::
    "RootPath \<Rightarrow> bytes \<Rightarrow> (registry, Repository \<times> bool \<times> bool) io" where
  "UpsertGenericRepository rt repositoryPath0 =
     (case (scanner_normalizeAbsPath (rt_Path rt), scanner_normalizeAbsPath repositoryPath0) of
        (Inl e, _) \<Rightarrow> fail (EMessage e)
      | (Inr _, Inl e) \<Rightarrow> fail (EMessage e)
      | (Inr rootPath, Inr repositoryPath) \<Rightarrow>
          (if \<not> withinRoot rootPath repositoryPath
           then fail (validationErrorf (Text ''repository path must stay within root_path''))
           else
             (case rel rootPath repositoryPath of
                None \<Rightarrow> fail (EMessage ''Rel: can't make repository path relative'')
              | Some full0 \<Rightarrow>
                  (let fullPath = cleanRelativePath full0;
                       base = path_base repositoryPath;
                       name = (if base = ''.'' \<or> blank base then path_base (rt_Path rt) else base)
                   in andThen now (\<lambda>t.
                      maybe (findGenericRepository (rt_ID rt) fullPath) (\<lambda>found.
                        case found of
                          Some existing \<Rightarrow> refresh_generic name (rt_ID rt) repositoryPath t existing
                        | None \<Rightarrow>
                            andThen (newID ''repo'') (\<lambda>i.
                            outcome (rexec (insert_repository
                              (new_generic_repository i name fullPath (rt_ID rt) repositoryPath t))) (\<lambda>r.
                              case r of
                                Inr _ \<Rightarrow> andThen (GetRepository i) (\<lambda>repo. ret (repo, True, False))
                              | Inl e \<Rightarrow>
                                  if isUniqueConstraintError e
                                  then outcome (findGenericRepository (rt_ID rt) fullPath) (\<lambda>r2.
                                         case r2 of
                                           Inl _ \<Rightarrow> fail e
                                         | Inr existing \<Rightarrow>
                                             refresh_generic name (rt_ID rt) repositoryPath t existing)
                                  else fail e))))))))"

definition UpsertProjectLink :: "bytes \<Rightarrow> bytes \<Rightarrow> bytes \<Rightarrow> bytes \<Rightarrow> (registry, bool) io" where
  "UpsertProjectLink left right repository job =
     (if left = right then ret False
      else
        (let (source, target) = canonicalPair left right
         in andThen now (\<lambda>t.
            andThen (newID ''plink'') (\<lambda>i.
            outcome (rexec (insert_project_link
              \<lparr>pl_id = i, pl_source_project_id = source, pl_target_project_id = target,
               pl_link_type = LinkTypeSameRepository, pl_repository_id = Some repository,
               pl_detected_by_job_id = nullEmpty job, pl_created_at = Nine t, pl_updated_at = Nine t\<rparr>)) (\<lambda>r.
              case r of
                Inr _ \<Rightarrow> ret True
              | Inl e \<Rightarrow>
                  if isUniqueConstraintError e
                  then andThen (rexec (update_project_link
                         (\<lambda>r. pl_source_project_id r = source \<and> pl_target_project_id r = target \<and>
                              pl_link_type r = LinkTypeSameRepository)
                         (\<lambda>r. r\<lparr>pl_repository_id := Some repository,
                                pl_detected_by_job_id := nullEmpty job, pl_updated_at := Nine t\<rparr>)))
                         (\<lambda>_. ret False)
                  else fail e)))))"

section \<open>Ignore rules\<close>

record IgnoreRuleInput =
  gi_ID :: bytes
  gi_ScopeType :: bytes
  gi_ScopeID :: bytes
  gi_Pattern :: bytes
  gi_Origin :: bytes
  gi_SortOrder :: "int option"

definition scanIgnoreRule :: "ignore_row \<Rightarrow> IgnoreRule" where
  "scanIgnoreRule r =
     \<lparr>ir_ID = ig_id r, ir_ScopeType = ig_scope_type r, ir_ScopeID = coalesce (ig_scope_id r),
      ir_Pattern = ig_pattern r, ir_Origin = ig_origin r, ir_SortOrder = ig_sort_order r,
      ir_CreatedAt = stamp_time (ig_created_at r), ir_UpdatedAt = stamp_time (ig_updated_at r)\<rparr>"

definition IgnoreRulesForRoot :: "bytes \<Rightarrow> (registry, IgnoreRule list) io" where
  "IgnoreRulesForRoot rt =
     andThen provider (\<lambda>p.
       query (\<lambda>d. map scanIgnoreRule
         (order_asc (\<lambda>r. (ig_sort_order r, stamp_key p (ig_created_at r), ig_id r))
           (filter (\<lambda>r. ig_scope_type r = ''system'' \<or>
                        ig_scope_type r = ''root_path'' \<and> ig_scope_id r = Some rt) (ignore_rules d)))))"

definition GetIgnoreRule :: "bytes \<Rightarrow> (registry, IgnoreRule) io" where
  "GetIgnoreRule i = fetch scanIgnoreRule (\<lambda>d. filter (\<lambda>r. ig_id r = i) (ignore_rules d))"

definition findIgnoreRule :: "bytes \<Rightarrow> bytes \<Rightarrow> bytes \<Rightarrow> bytes \<Rightarrow> (registry, IgnoreRule) io" where
  "findIgnoreRule i scopeType scopeID pattern =
     (let by_key = fetch scanIgnoreRule (\<lambda>d. filter (\<lambda>r. ig_scope_type r = scopeType \<and>
                     ig_scope_id r = Some scopeID \<and> ig_pattern r = pattern) (ignore_rules d))
      in if i \<noteq> []
         then maybe (GetIgnoreRule i) (\<lambda>r. case r of Some rule \<Rightarrow> ret rule | None \<Rightarrow> by_key)
         else by_key)"

definition upsertIgnoreRule :: "IgnoreRuleInput \<Rightarrow> int \<Rightarrow> (registry, IgnoreRule) io" where
  "upsertIgnoreRule input defaultSortOrder =
     (let scopeType = trim_space (gi_ScopeType input); scopeID = trim_space (gi_ScopeID input);
          pattern = trim_space (gi_Pattern input); origin0 = trim_space (gi_Origin input);
          origin = (if origin0 = [] then ''ui'' else origin0);
          sortOrder = (case gi_SortOrder input of None \<Rightarrow> defaultSortOrder | Some n \<Rightarrow> n)
      in if \<not> validIgnoreScope scopeType
         then fail (EText (Quoting ''unsupported ignore rule scope_type '' scopeType))
         else if scopeType \<noteq> ''system'' \<and> scopeID = []
         then fail (EMessage (''scope_id is required for '' @ scopeType @ '' ignore rules''))
         else if pattern = [] then fail (EMessage ''ignore rule pattern is required'')
         else if \<not> validIgnoreOrigin origin
         then fail (EText (Quoting ''unsupported ignore rule origin '' origin))
         else
           maybe (findIgnoreRule (gi_ID input) scopeType scopeID pattern) (\<lambda>found.
           andThen now (\<lambda>t.
             case found of
               Some old \<Rightarrow>
                 andThen (rexec (update_ignore_rule (\<lambda>r. ig_id r = ir_ID old)
                   (\<lambda>r. r\<lparr>ig_origin := origin, ig_sort_order := sortOrder, ig_updated_at := Nine t\<rparr>)))
                   (\<lambda>_. GetIgnoreRule (ir_ID old))
             | None \<Rightarrow>
                 andThen (if trim_space (gi_ID input) = [] then newID ''ignore''
                          else ret (trim_space (gi_ID input))) (\<lambda>i.
                 outcome (rexec (insert_ignore_rule
                   \<lparr>ig_id = i, ig_scope_type = scopeType, ig_scope_id = Some scopeID, ig_pattern = pattern,
                    ig_origin = origin, ig_sort_order = sortOrder, ig_created_at = Nine t,
                    ig_updated_at = Nine t\<rparr>)) (\<lambda>r.
                   case r of
                     Inr _ \<Rightarrow> GetIgnoreRule i
                   | Inl e \<Rightarrow>
                       if isUniqueConstraintError e
                       then outcome (findIgnoreRule [] scopeType scopeID pattern) (\<lambda>r2.
                              case r2 of Inl _ \<Rightarrow> fail e | Inr rule \<Rightarrow> GetIgnoreRule (ir_ID rule))
                       else fail e)))))"

definition UpsertIgnoreRules :: "IgnoreRuleInput list \<Rightarrow> (registry, IgnoreRule list) io" where
  "UpsertIgnoreRules inputs =
     collect (zip inputs [0..<length inputs]) (\<lambda>(input, idx). upsertIgnoreRule input (int idx))"

section \<open>Listings\<close>

record ProjectListOptions =
  po_options :: ListOptions
  po_RootPathFilter :: bytes
  po_RepositoryFilter :: bytes
  po_StatusFilter :: bytes

record RepositoryListOptions =
  ro_options :: ListOptions
  ro_Provider :: bytes
  ro_ProviderHost :: bytes
  ro_FullPath :: bytes
  ro_Status :: bytes
  ro_DiscoverySource :: bytes
  ro_AutoSyncEnabled :: "bool option"

record ProjectLinkListOptions =
  ko_options :: ListOptions
  ko_ProjectID :: bytes
  ko_RepositoryID :: bytes
  ko_LinkType :: bytes

abbreviation scanner_page ::
    "('r \<Rightarrow> stamp) \<Rightarrow> ('r \<Rightarrow> bytes) \<Rightarrow> ('r \<Rightarrow> 's) \<Rightarrow> (registry \<Rightarrow> 'r list) \<Rightarrow> ListOptions \<Rightarrow>
     (registry, 's list \<times> cursor) io" where
  "scanner_page \<equiv> page_query Nine list_limit"

definition ListRootPaths :: "ListOptions \<Rightarrow> (registry, RootPath list \<times> cursor) io" where
  "ListRootPaths opts = scanner_page rp_created_at rp_id scanRootPath root_paths opts"

definition ListProjects :: "ProjectListOptions \<Rightarrow> (registry, Project list \<times> cursor) io" where
  "ListProjects opts =
     (let status0 = trim_space (po_StatusFilter opts);
          status = (if status0 = [] then ProjectStatusActive else status0)
      in if status \<noteq> ''all'' \<and> \<not> validProjectStatus status
         then fail (validationErrorf (Quoting ''unsupported project status '' status))
         else
           scanner_page pj_created_at pj_id scanProject
             (\<lambda>d. filter (\<lambda>r.
                (po_RootPathFilter opts \<noteq> [] \<longrightarrow> pj_root_path_id r = po_RootPathFilter opts) \<and>
                (po_RepositoryFilter opts \<noteq> [] \<longrightarrow> pj_repository_id r = Some (po_RepositoryFilter opts)) \<and>
                (status \<noteq> ''all'' \<longrightarrow> pj_status r = status)) (projects d))
             (po_options opts))"

definition ListRepositories :: "RepositoryListOptions \<Rightarrow> (registry, Repository list \<times> cursor) io" where
  "ListRepositories opts =
     (let status0 = trim_space (ro_Status opts);
          status = (if status0 = [] then RepositoryStatusActive else status0)
      in if status \<noteq> ''all'' \<and> \<not> validRepositoryStatus status
         then fail (validationErrorf (Quoting ''unsupported repository status '' status))
         else if ro_DiscoverySource opts \<noteq> [] \<and> \<not> validDiscoverySource (ro_DiscoverySource opts)
         then fail (validationErrorf (Quoting ''unsupported discovery_source '' (ro_DiscoverySource opts)))
         else
           scanner_page rr_created_at rr_id scanRepository
             (\<lambda>d. filter (\<lambda>r.
                (ro_Provider opts \<noteq> [] \<longrightarrow> rr_provider r = ro_Provider opts) \<and>
                (ro_ProviderHost opts \<noteq> [] \<longrightarrow> rr_provider_host r = ro_ProviderHost opts) \<and>
                (ro_FullPath opts \<noteq> [] \<longrightarrow> rr_full_path r = ro_FullPath opts) \<and>
                (status \<noteq> ''all'' \<longrightarrow> rr_status r = status) \<and>
                (ro_DiscoverySource opts \<noteq> [] \<longrightarrow> rr_discovery_source r = ro_DiscoverySource opts) \<and>
                (case ro_AutoSyncEnabled opts of None \<Rightarrow> True | Some b \<Rightarrow> rr_auto_sync_enabled r = b))
                (repositories d))
             (ro_options opts))"

definition ListProjectLinks :: "ProjectLinkListOptions \<Rightarrow> (registry, ProjectLink list \<times> cursor) io" where
  "ListProjectLinks opts =
     (if ko_LinkType opts \<noteq> [] \<and> ko_LinkType opts \<noteq> LinkTypeSameRepository
      then fail (validationErrorf (Quoting ''unsupported project link_type '' (ko_LinkType opts)))
      else
        scanner_page pl_created_at pl_id scanProjectLink
          (\<lambda>d. filter (\<lambda>r.
             (ko_ProjectID opts \<noteq> [] \<longrightarrow>
                pl_source_project_id r = ko_ProjectID opts \<or> pl_target_project_id r = ko_ProjectID opts) \<and>
             (ko_RepositoryID opts \<noteq> [] \<longrightarrow> pl_repository_id r = Some (ko_RepositoryID opts)) \<and>
             (ko_LinkType opts \<noteq> [] \<longrightarrow> pl_link_type r = ko_LinkType opts)) (project_links d))
          (ko_options opts))"

definition ListIgnoreRules :: "bytes \<Rightarrow> bytes \<Rightarrow> ListOptions \<Rightarrow> (registry, IgnoreRule list \<times> cursor) io" where
  "ListIgnoreRules scopeType scopeID opts =
     scanner_page ig_created_at ig_id scanIgnoreRule
       (\<lambda>d. filter (\<lambda>r. (scopeType \<noteq> [] \<longrightarrow> ig_scope_type r = scopeType) \<and>
                        (scopeID \<noteq> [] \<longrightarrow> ig_scope_id r = Some scopeID)) (ignore_rules d))
       opts"

end
