(* ===== verification/Repo_Store.thy ===== *)
theory Repo_Store
  imports Scanner_Store
begin

text \<open>
  The operations of \<open>internal/repository/store.go\<close>: reservations of repository operations, provider
  instances, credentials, and the repository card that a clone writes. A recursive call of the code
  takes the number of rounds it may make. The times this package writes have no trailing zeros.
\<close>

definition lift_repo :: "repo_error + 'a \<Rightarrow> ('d, 'a) io" where
  "lift_repo r =
     lift_result (\<lambda>e. case e of
        ValidationError code msg \<Rightarrow> EValidation code msg
      | OtherError e \<Rightarrow> EMessage e) r"

definition invalid :: "bytes \<Rightarrow> bytes \<Rightarrow> err" where
  "invalid code msg = EValidation code (Text msg)"

text \<open>The test of this package: any message with \<open>unique\<close> or \<open>duplicate\<close>.\<close>

definition unique_or_duplicate :: "err \<Rightarrow> bool" where
  "unique_or_duplicate e =
     (case e of
        EDriver msg0 \<Rightarrow>
          (let msg = map lower_char msg0 in contains msg ''unique'' \<or> contains msg ''duplicate'')
      | _ \<Rightarrow> False)"

definition repository_limit :: "int \<Rightarrow> nat" where
  "repository_limit limit = nat (if limit \<le> 0 \<or> 100 < limit then 100 else limit)"

abbreviation repository_page ::
    "('r \<Rightarrow> stamp) \<Rightarrow> ('r \<Rightarrow> bytes) \<Rightarrow> ('r \<Rightarrow> 's) \<Rightarrow> (registry \<Rightarrow> 'r list) \<Rightarrow> ListOptions \<Rightarrow>
     (registry, 's list \<times> cursor) io" where
  "repository_page \<equiv> page_query Trimmed repository_limit"

section \<open>Reservations\<close>

abbreviation hour :: duration where "hour \<equiv> 60 * minute"

definition operationReservationRetention :: duration where
  "operationReservationRetention = 24 * hour"

definition held_by :: "bytes \<Rightarrow> bytes \<Rightarrow> reservation_row \<Rightarrow> bool" where
  "held_by key owner r \<longleftrightarrow> rs_key r = key \<and> rs_owner r = owner \<and> rs_status r = Held"

definition due :: "bytes \<Rightarrow> instant \<Rightarrow> reservation_row \<Rightarrow> bool" where
  "due p t r \<longleftrightarrow> rs_status r = Held \<and> stamp_key p (rs_expires_at r) \<le> stamp_key p (Trimmed t)"

definition closed_at :: "reservation_row \<Rightarrow> stamp" where
  "closed_at r = (case rs_released_at r of Some t \<Rightarrow> t | None \<Rightarrow> rs_expires_at r)"

definition prunable :: "bytes \<Rightarrow> instant \<Rightarrow> reservation_row \<Rightarrow> bool" where
  "prunable p t r \<longleftrightarrow>
     (rs_status r = Freed \<or> rs_status r = Expired) \<and> stamp_key p (closed_at r) < stamp_key p (Trimmed t)"

definition delete_reservations :: "(reservation_row \<Rightarrow> bool) \<Rightarrow> registry \<Rightarrow> unit \<times> registry" where
  "delete_reservations P d = ((), d\<lparr>reservations := delete_where P (reservations d)\<rparr>)"

definition pruneOperationReservations :: "instant \<Rightarrow> (registry, unit) io" where
  "pruneOperationReservations olderThan =
     andThen provider (\<lambda>p. rexec (delete_reservations (prunable p olderThan)))"

definition expireOperationReservations :: "instant \<Rightarrow> (registry, unit) io" where
  "expireOperationReservations t =
     andThen provider (\<lambda>p.
     andThen (rexec (update_reservation (due p t) (\<lambda>r. r\<lparr>rs_status := Expired\<rparr>))) (\<lambda>_.
       pruneOperationReservations (t - operationReservationRetention)))"

definition CleanupOperationReservations :: "(registry, unit) io" where
  "CleanupOperationReservations = andThen now expireOperationReservations"

definition operationReservationOwner :: "bytes \<Rightarrow> (registry, bytes) io" where
  "operationReservationOwner key =
     fetch rs_owner (\<lambda>d. filter (\<lambda>r. rs_key r = key \<and> rs_status r = Held) (reservations d))"

definition refreshOperationReservation :: "bytes \<Rightarrow> duration \<Rightarrow> bytes \<Rightarrow> (registry, unit) io" where
  "refreshOperationReservation owner ttl0 key =
     (let ttl = (if ttl0 \<le> 0 then 5 * minute else ttl0)
      in andThen now (\<lambda>t.
         andThen (rexec (update_reservation (held_by key owner)
           (\<lambda>r. r\<lparr>rs_expires_at := Trimmed (t + ttl)\<rparr>))) (\<lambda>_. ret ())))"

definition release_key :: "bytes \<Rightarrow> instant \<Rightarrow> bytes \<Rightarrow> (registry, unit) io" where
  "release_key owner t key =
     andThen (rexec (update_reservation (held_by key owner)
       (\<lambda>r. r\<lparr>rs_status := Freed, rs_released_at := Some (Trimmed t)\<rparr>))) (\<lambda>_. ret ())"

definition ReleaseOperationReservations :: "bytes \<Rightarrow> bytes list \<Rightarrow> (registry, unit) io" where
  "ReleaseOperationReservations owner keys =
     (if keys = [] then ret () else andThen now (\<lambda>t. for_each keys (release_key owner t)))"

definition give_up :: "bytes \<Rightarrow> bytes list \<Rightarrow> err \<Rightarrow> (registry, 'a) io" where
  "give_up owner held e = andThen (ignoring (ReleaseOperationReservations owner held)) (\<lambda>_. fail e)"

fun reserve_keys ::
    "bytes \<Rightarrow> duration \<Rightarrow> instant \<Rightarrow> bytes list \<Rightarrow> bytes list \<Rightarrow> (registry, bytes list) io" where
  "reserve_keys owner ttl t held [] = ret held"
| "reserve_keys owner ttl t held (key0 # keys) =
     (let key = trim_space key0
      in if key = [] then reserve_keys owner ttl t held keys
         else
           andThen (newID ''rres'') (\<lambda>i.
           outcome (rexec (insert_reservation
             \<lparr>rs_id = i, rs_key = key, rs_owner = owner, rs_status = Held, rs_created_at = Trimmed t,
              rs_expires_at = Trimmed (t + ttl), rs_released_at = None\<rparr>)) (\<lambda>r.
             case r of
               Inr _ \<Rightarrow> reserve_keys owner ttl t (held @ [key]) keys
             | Inl e \<Rightarrow>
                 if \<not> unique_or_duplicate e then give_up owner held e
                 else
                   outcome (operationReservationOwner key) (\<lambda>existing.
                     if existing = Inr owner
                     then outcome (refreshOperationReservation owner ttl key) (\<lambda>r2.
                            case r2 of
                              Inl e2 \<Rightarrow> give_up owner held e2
                            | Inr _ \<Rightarrow> reserve_keys owner ttl t (held @ [key]) keys)
                     else
                       give_up owner held
                         (EReservationConflict key (case existing of Inr o' \<Rightarrow> o' | Inl _ \<Rightarrow> []))))))"

definition ReserveOperationKeys :: "bytes \<Rightarrow> duration \<Rightarrow> bytes list \<Rightarrow> (registry, bytes list) io" where
  "ReserveOperationKeys owner0 ttl0 keys =
     andThen (if blank owner0 then newID ''reservation_owner'' else ret owner0) (\<lambda>owner.
     let ttl = (if ttl0 \<le> 0 then 5 * minute else ttl0)
     in andThen now (\<lambda>t.
        andThen (expireOperationReservations t) (\<lambda>_. reserve_keys owner ttl t [] keys)))"

definition transfer_key :: "bytes \<Rightarrow> bytes \<Rightarrow> instant \<Rightarrow> bytes \<Rightarrow> (registry, unit) io" where
  "transfer_key fromOwner toOwner expires key0 =
     (let key = trim_space key0
      in if key = [] then ret ()
         else
           andThen (rexec (update_reservation (held_by key fromOwner)
             (\<lambda>r. r\<lparr>rs_owner := toOwner, rs_expires_at := Trimmed expires\<rparr>))) (\<lambda>n.
             if n = 0 then fail (EReservationConflict key []) else ret ()))"

definition TransferOperationReservations ::
    "bytes \<Rightarrow> bytes \<Rightarrow> duration \<Rightarrow> bytes list \<Rightarrow> (registry, unit) io" where
  "TransferOperationReservations from0 to0 ttl0 keys =
     (let fromOwner = trim_space from0; toOwner = trim_space to0;
          ttl = (if ttl0 \<le> 0 then hour else ttl0)
      in if fromOwner = [] \<or> toOwner = []
         then fail (invalid ''validation_error'' ''reservation owners are required'')
         else andThen now (\<lambda>t. for_each keys (transfer_key fromOwner toOwner (t + ttl))))"

section \<open>Provider instances\<close>

record ProviderInstanceInput =
  pn_ID :: bytes
  pn_Name :: bytes
  pn_Provider :: bytes
  pn_ProviderHost :: bytes
  pn_APIBaseURL :: bytes
  pn_WebBaseURL :: bytes
  pn_Enabled :: "bool option"

definition scanProviderInstance :: "instance_row \<Rightarrow> ProviderInstance" where
  "scanProviderInstance r =
     \<lparr>pi_ID = in_id r, pi_Name = in_name r, pi_Provider = in_provider r,
      pi_ProviderHost = in_provider_host r, pi_APIBaseURL = coalesce (in_api_base_url r),
      pi_WebBaseURL = coalesce (in_web_base_url r), pi_Enabled = in_enabled r,
      pi_SchemaVersion = ''repository_provider_instance.v1'',
      pi_CreatedAt = stamp_time (in_created_at r), pi_UpdatedAt = stamp_time (in_updated_at r)\<rparr>"

definition normalizeProviderProfileURL :: "machine \<Rightarrow> bytes \<Rightarrow> bytes \<Rightarrow> repo_error + bytes" where
  "normalizeProviderProfileURL m value0 providerHost =
     (let v = trim_space value0;
          bad = (\<lambda>msg. Inl (ValidationError ''invalid_provider_profile_url'' (Text msg)))
      in if v = [] then Inr []
         else if has_control v then bad ''provider profile URL is invalid''
         else
           (case url_parse v of
              None \<Rightarrow> bad ''provider profile URL is invalid''
            | Some u \<Rightarrow>
                if u_Scheme u = [] \<or> u_Host u = [] then bad ''provider profile URL is invalid''
                else if u_Scheme u \<noteq> ProtocolHTTPS then bad ''provider profile URL must use https''
                else if u_RawQuery u \<noteq> [] \<or> u_Fragment u \<noteq> []
                then bad ''provider profile URL must not include query or fragment''
                else if u_User u \<noteq> None then Inl userinfo_error
                else
                  (case normalizeProviderHostForProtocol m (u_Host u) ProtocolHTTPS of
                     Inl e \<Rightarrow> Inl e
                   | Inr host \<Rightarrow>
                       if host \<noteq> providerHost then bad ''provider profile URL host must match provider_host''
                       else Inr (url_string (u\<lparr>u_Scheme := ProtocolHTTPS, u_Host := host, u_User := None\<rparr>)))))"

definition GetProviderInstance :: "bytes \<Rightarrow> (registry, ProviderInstance) io" where
  "GetProviderInstance i =
     fetch scanProviderInstance (\<lambda>d. filter (\<lambda>r. in_id r = i) (provider_instances d))"

definition findProviderInstance :: "bytes \<Rightarrow> bytes \<Rightarrow> bytes \<Rightarrow> (registry, ProviderInstance) io" where
  "findProviderInstance i prov host =
     (let by_host = fetch scanProviderInstance
            (\<lambda>d. filter (\<lambda>r. in_provider r = prov \<and> in_provider_host r = host) (provider_instances d))
      in if \<not> blank i
         then maybe (GetProviderInstance i) (\<lambda>r. case r of Some item \<Rightarrow> ret item | None \<Rightarrow> by_host)
         else by_host)"

text \<open>What an input comes to before the table is read: provider, host, the two URLs and the name.\<close>

definition instance_fields ::
    "machine \<Rightarrow> ProviderInstanceInput \<Rightarrow> repo_error + bytes \<times> bytes \<times> bytes \<times> bytes \<times> bytes" where
  "instance_fields m input =
     (let prov = ToLower m (trim_space (pn_Provider input))
      in case adapterForProvider m prov of
           Inl e \<Rightarrow> Inl e
         | Inr adapter \<Rightarrow>
             (case normalizeProviderHostForProtocol m (pn_ProviderHost input)
                     (if prov = ProviderGitHub then ProtocolHTTPS else []) of
                Inl e \<Rightarrow> Inl e
              | Inr host0 \<Rightarrow>
                  (let host = (if host0 = [] then pa_defaultHost adapter else host0)
                   in case normalizeProviderProfileURL m (pn_APIBaseURL input) host of
                        Inl e \<Rightarrow> Inl e
                      | Inr api \<Rightarrow>
                          (case normalizeProviderProfileURL m (pn_WebBaseURL input) host of
                             Inl e \<Rightarrow> Inl e
                           | Inr web \<Rightarrow>
                               (let name = trim_space (pn_Name input)
                                in Inr (prov, host, api, web,
                                        if name = [] then prov @ '':'' @ host else name))))))"

definition instance_round ::
    "machine \<Rightarrow> ProviderInstanceInput \<Rightarrow> (registry, ProviderInstance + bytes) io" where
  "instance_round m input =
     andThen (lift_repo (instance_fields m input)) (\<lambda>(prov, host, api, web, name).
     let enabled = (case pn_Enabled input of None \<Rightarrow> True | Some b \<Rightarrow> b)
     in andThen now (\<lambda>t.
        maybe (findProviderInstance (pn_ID input) prov host) (\<lambda>found.
          case found of
            Some old \<Rightarrow>
              andThen (rexec (update_instance (\<lambda>r. in_id r = pi_ID old)
                (\<lambda>r. r\<lparr>in_name := name, in_api_base_url := nullEmpty api, in_web_base_url := nullEmpty web,
                       in_enabled := enabled, in_updated_at := Trimmed t\<rparr>))) (\<lambda>_.
              andThen (GetProviderInstance (pi_ID old)) (\<lambda>item. ret (Inl item)))
          | None \<Rightarrow>
              andThen (if trim_space (pn_ID input) = [] then newID ''rpi''
                       else ret (trim_space (pn_ID input))) (\<lambda>i.
              outcome (rexec (insert_instance
                \<lparr>in_id = i, in_name = name, in_provider = prov, in_provider_host = host,
                 in_api_base_url = nullEmpty api, in_web_base_url = nullEmpty web, in_enabled = enabled,
                 in_created_at = Trimmed t, in_updated_at = Trimmed t\<rparr>)) (\<lambda>r.
                case r of
                  Inr _ \<Rightarrow> andThen (GetProviderInstance i) (\<lambda>item. ret (Inl item))
                | Inl e \<Rightarrow>
                    if unique_or_duplicate e
                    then outcome (findProviderInstance [] prov host) (\<lambda>r2.
                           case r2 of Inl _ \<Rightarrow> fail e | Inr old \<Rightarrow> ret (Inr (pi_ID old)))
                    else fail e)))))"

fun upsertProviderInstance ::
    "nat \<Rightarrow> machine \<Rightarrow> ProviderInstanceInput \<Rightarrow> (registry, ProviderInstance option) io" where
  "upsertProviderInstance 0 m input = ret None"
| "upsertProviderInstance (Suc fuel) m input =
     andThen (instance_round m input) (\<lambda>r.
       case r of
         Inl item \<Rightarrow> ret (Some item)
       | Inr i \<Rightarrow> upsertProviderInstance fuel m (input\<lparr>pn_ID := i\<rparr>))"

definition UpsertProviderInstances ::
    "nat \<Rightarrow> machine \<Rightarrow> ProviderInstanceInput list \<Rightarrow> (registry, ProviderInstance option list) io" where
  "UpsertProviderInstances fuel m inputs = collect inputs (upsertProviderInstance fuel m)"

record ProviderInstanceListOptions =
  no_options :: ListOptions
  no_Provider :: bytes
  no_ProviderHost :: bytes
  no_Enabled :: "bool option"

definition ListProviderInstancesPage ::
    "ProviderInstanceListOptions \<Rightarrow> (registry, ProviderInstance list \<times> cursor) io" where
  "ListProviderInstancesPage opts =
     repository_page in_created_at in_id scanProviderInstance
       (\<lambda>d. filter (\<lambda>r. (no_Provider opts \<noteq> [] \<longrightarrow> in_provider r = no_Provider opts) \<and>
                        (no_ProviderHost opts \<noteq> [] \<longrightarrow> in_provider_host r = no_ProviderHost opts) \<and>
                        (case no_Enabled opts of None \<Rightarrow> True | Some b \<Rightarrow> in_enabled r = b))
              (provider_instances d))
       (no_options opts)"

section \<open>Credentials\<close>

abbreviation UsageGitTransport :: bytes where "UsageGitTransport \<equiv> ''git_transport''"
abbreviation UsageProviderAPI :: bytes where "UsageProviderAPI \<equiv> ''provider_api''"
abbreviation UsageWebhook :: bytes where "UsageWebhook \<equiv> ''webhook''"

record CredentialInput =
  ci_ID :: bytes
  ci_ProviderInstanceID :: bytes
  ci_Name :: bytes
  ci_AuthType :: bytes
  ci_SecretRef :: bytes
  ci_Username :: bytes
  ci_Usages :: "bytes list"
  ci_ScopeHint :: bytes
  ci_Enabled :: "bool option"

record Credential =
  cred_ID :: bytes
  cred_ProviderInstanceID :: bytes
  cred_Name :: bytes
  cred_AuthType :: bytes
  cred_SecretRef :: bytes
  cred_Username :: bytes
  cred_Usages :: "bytes list"
  cred_ScopeHint :: bytes
  cred_Enabled :: bool
  cred_SchemaVersion :: bytes
  cred_CreatedAt :: instant
  cred_UpdatedAt :: instant

definition scanCredential :: "credential_row \<Rightarrow> Credential" where
  "scanCredential r =
     \<lparr>cred_ID = cd_id r, cred_ProviderInstanceID = cd_provider_instance_id r, cred_Name = cd_name r,
      cred_AuthType = cd_auth_type r, cred_SecretRef = cd_secret_ref r,
      cred_Username = coalesce (cd_username r), cred_Usages = cd_usages r,
      cred_ScopeHint = coalesce (cd_scope_hint r), cred_Enabled = cd_enabled r,
      cred_SchemaVersion = ''repository_credential.v1'',
      cred_CreatedAt = stamp_time (cd_created_at r), cred_UpdatedAt = stamp_time (cd_updated_at r)\<rparr>"

definition validUsage :: "bytes \<Rightarrow> bool" where
  "validUsage v \<longleftrightarrow> v \<in> set [UsageGitTransport, UsageProviderAPI, UsageWebhook]"

fun normalize_usages :: "bytes list \<Rightarrow> bytes list \<Rightarrow> err + bytes list" where
  "normalize_usages seen [] = Inr []"
| "normalize_usages seen (v0 # vs) =
     (let v = trim_space v0
      in if v = [] \<or> v \<in> set seen then normalize_usages seen vs
         else if \<not> validUsage v
         then Inl (invalid ''credential_usage_not_allowed'' ''unsupported credential usage'')
         else map_sum (\<lambda>e. e) (\<lambda>us. v # us) (normalize_usages (v # seen) vs))"

definition normalizeUsages :: "bytes list \<Rightarrow> err + bytes list" where
  "normalizeUsages vs = normalize_usages [] vs"

definition validCredentialAuthType :: "bytes \<Rightarrow> bool" where
  "validCredentialAuthType v \<longleftrightarrow> v \<in> set auth_types"

definition hasUsage :: "bytes list \<Rightarrow> bytes \<Rightarrow> bool" where
  "hasUsage vs usage = list_ex (\<lambda>v. v = usage) vs"

definition maskSecretRef :: "bytes \<Rightarrow> bytes" where
  "maskSecretRef v = (if has_prefix v ''secretref://env/'' then ''secretref://env/***'' else ''***'')"

definition GetCredential :: "bytes \<Rightarrow> (registry, Credential) io" where
  "GetCredential i = fetch scanCredential (\<lambda>d. filter (\<lambda>r. cd_id r = i) (credentials d))"

definition findCredential :: "bytes \<Rightarrow> bytes \<Rightarrow> bytes \<Rightarrow> (registry, Credential) io" where
  "findCredential i inst name =
     (let by_name = fetch scanCredential
            (\<lambda>d. filter (\<lambda>r. cd_provider_instance_id r = inst \<and> cd_name r = name) (credentials d))
      in if \<not> blank i
         then maybe (GetCredential i) (\<lambda>r. case r of Some item \<Rightarrow> ret item | None \<Rightarrow> by_name)
         else by_name)"

definition credential_fields ::
    "machine \<Rightarrow> CredentialInput \<Rightarrow> err + bytes \<times> bytes \<times> bytes list" where
  "credential_fields m input =
     (let name = trim_space (ci_Name input); authType = ToLower m (trim_space (ci_AuthType input))
      in if name = [] then Inl (invalid ''validation_error'' ''name is required'')
         else if \<not> validCredentialAuthType authType
         then Inl (EValidation ''unsupported_credential_auth_type'' (Quoting ''unsupported auth_type '' authType))
         else
           (case validateSecretRef (ci_SecretRef input) of
              Inl e \<Rightarrow> Inl (invalid ''invalid_secret_ref'' ''secret_ref must use secretref://env/NAME'')
            | Inr _ \<Rightarrow>
                (case normalizeUsages (ci_Usages input) of
                   Inl e \<Rightarrow> Inl e
                 | Inr usages \<Rightarrow>
                     Inr (name, authType, if usages = [] then [UsageGitTransport] else usages))))"

definition upsertCredential :: "machine \<Rightarrow> CredentialInput \<Rightarrow> (registry, Credential) io" where
  "upsertCredential m input =
     andThen (GetProviderInstance (ci_ProviderInstanceID input)) (\<lambda>_.
     andThen (lift_result (\<lambda>e. e) (credential_fields m input)) (\<lambda>(name, authType, usages).
     let enabled = (case ci_Enabled input of None \<Rightarrow> True | Some b \<Rightarrow> b)
     in andThen now (\<lambda>t.
        maybe (findCredential (ci_ID input) (ci_ProviderInstanceID input) name) (\<lambda>found.
          case found of
            Some old \<Rightarrow>
              andThen (rexec (update_credential (\<lambda>r. cd_id r = cred_ID old)
                (\<lambda>r. r\<lparr>cd_auth_type := authType, cd_secret_ref := ci_SecretRef input,
                       cd_username := nullEmpty (ci_Username input), cd_usages := usages,
                       cd_scope_hint := nullEmpty (ci_ScopeHint input), cd_enabled := enabled,
                       cd_updated_at := Trimmed t\<rparr>))) (\<lambda>_. GetCredential (cred_ID old))
          | None \<Rightarrow>
              andThen (if trim_space (ci_ID input) = [] then newID ''rcred''
                       else ret (trim_space (ci_ID input))) (\<lambda>i.
              andThen (rexec (insert_credential
                \<lparr>cd_id = i, cd_provider_instance_id = ci_ProviderInstanceID input, cd_name = name,
                 cd_auth_type = authType, cd_secret_ref = ci_SecretRef input,
                 cd_username = nullEmpty (ci_Username input), cd_usages = usages,
                 cd_scope_hint = nullEmpty (ci_ScopeHint input), cd_enabled = enabled,
                 cd_created_at = Trimmed t, cd_updated_at = Trimmed t\<rparr>)) (\<lambda>_. GetCredential i))))))"

definition UpsertCredentials :: "machine \<Rightarrow> CredentialInput list \<Rightarrow> (registry, Credential list) io" where
  "UpsertCredentials m inputs = collect inputs (upsertCredential m)"

record CredentialListOptions =
  do_options :: ListOptions
  do_ProviderInstanceID :: bytes
  do_Usage :: bytes
  do_AuthType :: bytes

definition ListCredentialsPage ::
    "CredentialListOptions \<Rightarrow> (registry, Credential list \<times> cursor) io" where
  "ListCredentialsPage opts =
     (if do_Usage opts \<noteq> [] \<and> \<not> validUsage (do_Usage opts)
      then fail (invalid ''credential_usage_not_allowed'' ''unsupported credential usage'')
      else
        andThen (repository_page cd_created_at cd_id scanCredential
          (\<lambda>d. filter (\<lambda>r.
             (do_ProviderInstanceID opts \<noteq> [] \<longrightarrow> cd_provider_instance_id r = do_ProviderInstanceID opts) \<and>
             (do_AuthType opts \<noteq> [] \<longrightarrow> cd_auth_type r = do_AuthType opts) \<and>
             (do_Usage opts \<noteq> [] \<longrightarrow> do_Usage opts \<in> set (cd_usages r))) (credentials d))
          (do_options opts)) (\<lambda>(items, next).
          ret (map (\<lambda>c. c\<lparr>cred_SecretRef := maskSecretRef (cred_SecretRef c)\<rparr>) items, next)))"

definition ValidateCredential :: "bytes \<Rightarrow> bytes \<Rightarrow> bytes \<Rightarrow> (registry, unit) io" where
  "ValidateCredential i inst usage =
     (if blank i then ret ()
      else
        andThen (GetProviderInstance inst) (\<lambda>item.
          if \<not> pi_Enabled item
          then fail (invalid ''provider_instance_disabled'' ''provider instance is disabled'')
          else
            andThen (GetCredential i) (\<lambda>c.
              if \<not> cred_Enabled c then fail (invalid ''credential_disabled'' ''credential is disabled'')
              else if cred_ProviderInstanceID c \<noteq> inst
              then fail (invalid ''credential_provider_instance_mismatch''
                           ''credential does not belong to provider_instance_id'')
              else if \<not> hasUsage (cred_Usages c) usage
              then fail (invalid ''credential_usage_not_allowed''
                           (''credential does not allow '' @ usage))
              else ret ())))"

definition normalizeTransportProtocol :: "machine \<Rightarrow> bytes \<Rightarrow> bytes" where
  "normalizeTransportProtocol m value0 =
     (let v = ToLower m (trim_space value0) in if v = ''token'' then ProtocolHTTPS else v)"

definition fits_protocol :: "bytes \<Rightarrow> bytes \<Rightarrow> bool" where
  "fits_protocol authType protocol \<longleftrightarrow>
     (protocol = ProtocolHTTPS \<and>
        authType \<in> set [''https_token'', ''https_basic'', ''oauth_token'', ''app_password'']) \<or>
     (protocol = ProtocolSSH \<and> authType = ''ssh_key'')"

definition ValidateCredentialForProtocol ::
    "machine \<Rightarrow> bytes \<Rightarrow> bytes \<Rightarrow> bytes \<Rightarrow> bytes \<Rightarrow> (registry, unit) io" where
  "ValidateCredentialForProtocol m i inst usage protocol0 =
     andThen (ValidateCredential i inst usage) (\<lambda>_.
       if blank i then ret ()
       else
         andThen (GetCredential i) (\<lambda>c.
           let protocol = normalizeTransportProtocol m protocol0
           in if fits_protocol (cred_AuthType c) protocol then ret ()
              else fail (EValidation ''credential_auth_type_protocol_mismatch''
                           (Enclosing ''credential auth_type '' (cred_AuthType c)
                              ('' is not compatible with '' @ protocol @ '' transport'')))))"

section \<open>The card a clone writes\<close>

definition findRepository :: "bytes \<Rightarrow> bytes \<Rightarrow> bytes \<Rightarrow> (registry, Repository) io" where
  "findRepository prov host fullPath =
     fetch scanRepository (\<lambda>d. filter (\<lambda>r. rr_provider r = prov \<and> rr_provider_host r = host \<and>
                                         rr_full_path r = fullPath) (repositories d))"

definition findGenericRepositoryByLocalPath :: "bytes \<Rightarrow> bytes \<Rightarrow> (registry, Repository) io" where
  "findGenericRepositoryByLocalPath rt localPath =
     fetch scanRepository (\<lambda>d. filter (\<lambda>r. rr_provider r = ProviderGeneric \<and> rr_provider_host r = ''local'' \<and>
        rr_root_path_id r = Some rt \<and> rr_local_path r = Some localPath \<and> rr_status r = ''active'')
        (repositories d))"

definition ExistingRepositoryForClone :: "Identity \<Rightarrow> bytes \<Rightarrow> bytes \<Rightarrow> (registry, Repository) io" where
  "ExistingRepositoryForClone identity rt localPath =
     maybe (findRepository (id_Provider identity) (id_ProviderHost identity) (id_FullPath identity))
       (\<lambda>r. case r of
          Some repo \<Rightarrow> ret repo
        | None \<Rightarrow> findGenericRepositoryByLocalPath rt localPath)"

definition ActiveRepositoryByLocalTarget :: "bytes \<Rightarrow> bytes \<Rightarrow> bytes \<Rightarrow> (registry, Repository) io" where
  "ActiveRepositoryByLocalTarget rt target localPath =
     andThen provider (\<lambda>p.
       fetch scanRepository (\<lambda>d.
         order_desc (\<lambda>r. (stamp_key p (rr_updated_at r), rr_id r))
           (filter (\<lambda>r. rr_root_path_id r = Some rt \<and> rr_status r = ''active'' \<and>
              (rr_target_directory r = Some target \<or> rr_local_path r = Some localPath)) (repositories d))))"

definition validateRepositoryOperationReferences ::
    "machine \<Rightarrow> Identity \<Rightarrow> bytes \<Rightarrow> bytes \<Rightarrow> (registry, unit) io" where
  "validateRepositoryOperationReferences m identity inst0 cred0 =
     (let inst = trim_space inst0; cred = trim_space cred0
      in if inst = []
         then (if cred \<noteq> []
               then fail (invalid ''credential_provider_instance_required''
                            ''provider_instance_id is required when credential_id is set'')
               else ret ())
         else
           andThen (GetProviderInstance inst) (\<lambda>item.
             if \<not> pi_Enabled item
             then fail (invalid ''provider_instance_disabled'' ''provider instance is disabled'')
             else if pi_Provider item \<noteq> id_Provider identity \<or>
                     pi_ProviderHost item \<noteq> id_ProviderHost identity
             then fail (invalid ''provider_instance_mismatch''
                          ''provider_instance_id does not match repository identity'')
             else if cred \<noteq> []
             then ValidateCredentialForProtocol m cred inst UsageGitTransport (id_Protocol identity)
             else ret ()))"

text \<open>Both updates set these columns; the one that enriches a generic card sets its identity too.\<close>

definition set_clone ::
    "Identity \<Rightarrow> bytes \<Rightarrow> bytes \<Rightarrow> bytes \<Rightarrow> bytes \<Rightarrow> bytes \<Rightarrow> instant \<Rightarrow> repository_row \<Rightarrow> repository_row" where
  "set_clone identity rt target localPath inst cred t r =
     r\<lparr>rr_name := path_base (id_FullPath identity), rr_provider_instance_id := nullEmpty inst,
       rr_clone_url := Some (id_CloneURL identity), rr_root_path_id := Some rt,
       rr_target_directory := Some target, rr_local_path := Some localPath,
       rr_auth_type := nullEmpty (id_Protocol identity), rr_default_credential_id := nullEmpty cred,
       rr_status := ''active'', rr_discovery_source := ''clone'',
       rr_identity_confirmed_at := Some (Trimmed t), rr_updated_at := Trimmed t\<rparr>"

definition set_identity :: "Identity \<Rightarrow> repository_row \<Rightarrow> repository_row" where
  "set_identity identity r =
     r\<lparr>rr_provider := id_Provider identity, rr_provider_host := id_ProviderHost identity,
       rr_full_path := id_FullPath identity\<rparr>"

definition new_clone ::
    "bytes \<Rightarrow> Identity \<Rightarrow> bytes \<Rightarrow> bytes \<Rightarrow> bytes \<Rightarrow> bytes \<Rightarrow> bytes \<Rightarrow> instant \<Rightarrow> repository_row" where
  "new_clone i identity rt target localPath inst cred t =
     \<lparr>rr_id = i, rr_name = path_base (id_FullPath identity), rr_provider_instance_id = nullEmpty inst,
      rr_provider = id_Provider identity, rr_provider_host = id_ProviderHost identity,
      rr_full_path = id_FullPath identity, rr_clone_url = Some (id_CloneURL identity),
      rr_default_branch = None, rr_root_path_id = Some rt, rr_target_directory = Some target,
      rr_local_path = Some localPath, rr_auth_type = nullEmpty (id_Protocol identity),
      rr_default_credential_id = nullEmpty cred, rr_status = ''active'', rr_discovery_source = ''clone'',
      rr_superseded_by = None, rr_identity_confirmed_at = Some (Trimmed t),
      rr_auto_sync_enabled = False, rr_webhook_enabled = False, rr_poll_interval = None,
      rr_last_pull_at = None, rr_last_error = None, rr_created_at = Trimmed t, rr_updated_at = Trimmed t\<rparr>"

definition supersedeGenericRepository :: "bytes \<Rightarrow> bytes \<Rightarrow> instant \<Rightarrow> (registry, unit) io" where
  "supersedeGenericRepository genericID canonicalID t =
     andThen (rexec (update_project (\<lambda>r. pj_repository_id r = Some genericID)
       (\<lambda>r. r\<lparr>pj_repository_id := Some canonicalID, pj_updated_at := Trimmed t\<rparr>))) (\<lambda>_.
     andThen (rexec (update_project_link (\<lambda>r. pl_repository_id r = Some genericID)
       (\<lambda>r. r\<lparr>pl_repository_id := Some canonicalID, pl_updated_at := Trimmed t\<rparr>))) (\<lambda>_.
     andThen (rexec (update_repository (\<lambda>r. rr_id r = genericID)
       (\<lambda>r. r\<lparr>rr_status := ''superseded'', rr_superseded_by := Some canonicalID,
              rr_updated_at := Trimmed t\<rparr>))) (\<lambda>_. ret ())))"

text \<open>The transaction: which card it is, and whether it is new.\<close>

definition clone_body ::
    "Identity \<Rightarrow> Repository option \<Rightarrow> Repository option \<Rightarrow> bytes \<Rightarrow> bytes \<Rightarrow> bytes \<Rightarrow> bytes \<Rightarrow> bytes \<Rightarrow>
     instant \<Rightarrow> (registry, bytes \<times> bool) io" where
  "clone_body identity existing generic rt target localPath inst cred t =
       (case existing of
          Some repo \<Rightarrow>
            (if re_Status repo = ''superseded'' \<or> re_Status repo = ''disabled''
             then fail (EValidation ''repository_status_not_operable''
                          (Enclosing ''repository status '' (re_Status repo) '' cannot be operated''))
             else
               andThen (rexec (update_repository (\<lambda>r. rr_id r = re_ID repo)
                 (set_clone identity rt target localPath inst cred t))) (\<lambda>_.
               andThen (case generic of
                          Some g \<Rightarrow> if re_ID g \<noteq> re_ID repo
                                   then supersedeGenericRepository (re_ID g) (re_ID repo) t else ret ()
                        | None \<Rightarrow> ret ()) (\<lambda>_. ret (re_ID repo, False))))
        | None \<Rightarrow>
            (case generic of
               Some g \<Rightarrow>
                 andThen (rexec (update_repository (\<lambda>r. rr_id r = re_ID g)
                   (\<lambda>r. set_identity identity (set_clone identity rt target localPath inst cred t r)))) (\<lambda>_.
                   ret (re_ID g, False))
             | None \<Rightarrow>
                 andThen (newID ''repo'') (\<lambda>i.
                 andThen (rexec (insert_repository (new_clone i identity rt target localPath inst cred t))) (\<lambda>_.
                   ret (i, True)))))"

definition clone_tx ::
    "Identity \<Rightarrow> Repository option \<Rightarrow> Repository option \<Rightarrow> bytes \<Rightarrow> bytes \<Rightarrow> bytes \<Rightarrow> bytes \<Rightarrow> bytes \<Rightarrow>
     instant \<Rightarrow> (registry, bytes \<times> bool) io" where
  "clone_tx identity existing generic rt target localPath inst cred t =
     WithTx (clone_body identity existing generic rt target localPath inst cred t)"

definition UpsertRepositoryForClone ::
    "machine \<Rightarrow> Identity \<Rightarrow> RootPath \<Rightarrow> bytes \<Rightarrow> bytes \<Rightarrow> bytes \<Rightarrow> bytes \<Rightarrow> (registry, Repository \<times> bool) io" where
  "UpsertRepositoryForClone m identity rt target localPath inst cred =
     andThen (validateRepositoryOperationReferences m identity inst cred) (\<lambda>_.
     andThen now (\<lambda>t.
     maybe (findRepository (id_Provider identity) (id_ProviderHost identity) (id_FullPath identity)) (\<lambda>existing.
     maybe (findGenericRepositoryByLocalPath (rt_ID rt) localPath) (\<lambda>generic.
     andThen (clone_tx identity existing generic (rt_ID rt) target localPath inst cred t) (\<lambda>(i, created).
     andThen (GetRepository i) (\<lambda>repo. ret (repo, created)))))))"

definition UpsertRepository ::
    "machine \<Rightarrow> Identity \<Rightarrow> RootPath \<Rightarrow> bytes \<Rightarrow> bytes \<Rightarrow> bytes \<Rightarrow> bytes \<Rightarrow> (registry, Repository) io" where
  "UpsertRepository m identity rt target localPath inst cred =
     andThen (UpsertRepositoryForClone m identity rt target localPath inst cred) (\<lambda>(repo, _). ret repo)"

section \<open>After an operation\<close>

definition update_card :: "bytes \<Rightarrow> (repository_row \<Rightarrow> repository_row) \<Rightarrow> (registry, unit) io" where
  "update_card i f = andThen (rexec (update_repository (\<lambda>r. rr_id r = i) f)) (\<lambda>_. ret ())"

definition TouchRepositoryPulled :: "bytes \<Rightarrow> (registry, unit) io" where
  "TouchRepositoryPulled i =
     andThen now (\<lambda>t. andThen now (\<lambda>t'.
       update_card i (\<lambda>r. r\<lparr>rr_last_pull_at := Some (Trimmed t), rr_last_error := None,
                            rr_updated_at := Trimmed t'\<rparr>)))"

definition TouchRepositoryPulledWithBranch :: "bytes \<Rightarrow> bytes \<Rightarrow> (registry, unit) io" where
  "TouchRepositoryPulledWithBranch i branch0 =
     andThen now (\<lambda>t.
       let branch = trim_space branch0
       in if branch = [] then TouchRepositoryPulled i
          else update_card i (\<lambda>r. r\<lparr>rr_default_branch := Some branch, rr_last_pull_at := Some (Trimmed t),
                                    rr_last_error := None, rr_updated_at := Trimmed t\<rparr>))"

definition MarkRepositoryError :: "bytes \<Rightarrow> bytes \<Rightarrow> (registry, unit) io" where
  "MarkRepositoryError i0 msg =
     (let i = trim_space i0
      in if i = [] then ret ()
         else andThen now (\<lambda>t.
           update_card i (\<lambda>r. r\<lparr>rr_last_error := Some (trim_space msg), rr_updated_at := Trimmed t\<rparr>)))"

end
