(* ===== verification/Registry_Contract.thy ===== *)
theory Registry_Contract
  imports Repo_Store "HOL-Library.Sublist"
begin

text \<open>
  What the operations of both stores preserve, derived from what their statements preserve, under any
  clock, identifiers and faults. \<open>registry_order\<close> has the lookups, which respect every preorder. \<open>card_contract\<close> has the laws for the tables both stores write: a
  statement changes a row in place and keeps its identity, or adds a row. \<open>scanner_contract\<close> and
  \<open>profile_contract\<close> have those only one of them writes, \<open>repository_contract\<close> joins them. The interpretations say that
  identities last and that neither store touches the tables of the other.
\<close>

section \<open>The identity of a row\<close>

definition root_identity :: "root_path_row \<Rightarrow> bytes \<times> stamp" where
  "root_identity r = (rp_id r, rp_created_at r)"

definition project_identity :: "project_row \<Rightarrow> bytes \<times> bytes \<times> bytes \<times> stamp \<times> stamp" where
  "project_identity r = (pj_id r, pj_root_path_id r, pj_relative_path r, pj_detected_at r, pj_created_at r)"

definition link_identity :: "link_row \<Rightarrow> bytes \<times> bytes \<times> bytes \<times> bytes \<times> stamp" where
  "link_identity r =
     (pl_id r, pl_source_project_id r, pl_target_project_id r, pl_link_type r, pl_created_at r)"

definition card_identity :: "repository_row \<Rightarrow> bytes \<times> stamp" where
  "card_identity r = (rr_id r, rr_created_at r)"

definition rule_identity :: "ignore_row \<Rightarrow> bytes \<times> bytes \<times> bytes option \<times> bytes \<times> stamp" where
  "rule_identity r = (ig_id r, ig_scope_type r, ig_scope_id r, ig_pattern r, ig_created_at r)"

definition instance_identity :: "instance_row \<Rightarrow> bytes \<times> bytes \<times> bytes \<times> stamp" where
  "instance_identity r = (in_id r, in_provider r, in_provider_host r, in_created_at r)"

definition credential_identity :: "credential_row \<Rightarrow> bytes \<times> bytes \<times> bytes \<times> stamp" where
  "credential_identity r = (cd_id r, cd_provider_instance_id r, cd_name r, cd_created_at r)"

lemmas identity_defs =
  root_identity_def project_identity_def link_identity_def card_identity_def rule_identity_def
  instance_identity_def credential_identity_def

section \<open>The interfaces\<close>

locale registry_order = state_order R for R :: "registry \<Rightarrow> registry \<Rightarrow> bool"
begin

lemmas branches = option.split sum.split prod.split if_split bool.split

lemma fetch_keeps [keeps_intros]: "keeps R (fetch scan q)"
  unfolding fetch_def by (auto intro!: keeps_intros split: option.split)

lemma maybe_keeps [keeps_intros]:
  "keeps R m \<Longrightarrow> (\<And>r. keeps R (f r)) \<Longrightarrow> keeps R (maybe m f)"
  unfolding maybe_def by (auto intro!: keeps_intros split: sum.split)

lemma collect_keeps [keeps_intros]: "(\<And>x. keeps R (f x)) \<Longrightarrow> keeps R (collect xs f)"
  by (induction xs) (auto intro!: keeps_intros)

lemma get_keeps [keeps_intros]:
  "keeps R (GetProject i)" "keeps R (GetRootPath i)" "keeps R (GetRepository i)"
  unfolding GetProject_def GetRootPath_def GetRepository_def by (intro keeps_intros)+

lemma lift_repo_keeps [keeps_intros]: "keeps R (lift_repo r)"
  unfolding lift_repo_def by (intro keeps_intros)

lemma findProviderInstance_keeps [keeps_intros]:
  "keeps R (GetProviderInstance i)" "keeps R (findProviderInstance i prov host)"
  unfolding findProviderInstance_def GetProviderInstance_def Let_def
  by (auto intro!: keeps_intros split: branches)

lemma GetCredential_keeps [keeps_intros]:
  "keeps R (GetCredential i)" "keeps R (findCredential i inst name)"
  unfolding findCredential_def GetCredential_def Let_def by (auto intro!: keeps_intros split: branches)

lemma ValidateCredential_keeps [keeps_intros]:
  "keeps R (ValidateCredential i inst usage)" "keeps R (ValidateCredentialForProtocol m i inst usage p)"
  unfolding ValidateCredentialForProtocol_def ValidateCredential_def Let_def
  by (auto intro!: keeps_intros split: branches)

lemma validateReferences_keeps [keeps_intros]:
  "keeps R (validateRepositoryOperationReferences m identity inst cred)"
  unfolding validateRepositoryOperationReferences_def Let_def by (auto intro!: keeps_intros split: branches)

lemma operationReservationOwner_keeps [keeps_intros]: "keeps R (operationReservationOwner key)"
  unfolding operationReservationOwner_def by (intro keeps_intros)

lemma findRootPath_keeps [keeps_intros]: "keeps R (findRootPath i p)"
  unfolding findRootPath_def Let_def by (auto intro!: keeps_intros split: branches)

end

locale card_contract = registry_order R for R :: "registry \<Rightarrow> registry \<Rightarrow> bool" +
  assumes update_project_R: "(\<And>r. project_identity (fp r) = project_identity r) \<Longrightarrow>
      R d (snd (update_project Pp fp d))"
    and insert_project_R: "R d (snd (insert_project rp d))"
    and update_link_R: "(\<And>r. link_identity (fl r) = link_identity r) \<Longrightarrow>
      R d (snd (update_project_link Pl fl d))"
    and insert_link_R: "R d (snd (insert_project_link rl d))"
    and update_card_R: "(\<And>r. card_identity (fc r) = card_identity r) \<Longrightarrow>
      R d (snd (update_repository Pc fc d))"
    and insert_card_R: "R d (snd (insert_repository rc d))"
begin

lemma update_project_keeps [keeps_intros]:
  "(\<And>r. project_identity (f r) = project_identity r) \<Longrightarrow> keeps R (rexec (update_project P f))"
  by (rule keeps_exec) (rule update_project_R)

lemma update_link_keeps [keeps_intros]:
  "(\<And>r. link_identity (f r) = link_identity r) \<Longrightarrow> keeps R (rexec (update_project_link P f))"
  by (rule keeps_exec) (rule update_link_R)

lemma update_card_keeps [keeps_intros]:
  "(\<And>r. card_identity (f r) = card_identity r) \<Longrightarrow> keeps R (rexec (update_repository P f))"
  by (rule keeps_exec) (rule update_card_R)

lemma insert_card_keeps [keeps_intros]:
  "keeps R (rexec (insert_project p))" "keeps R (rexec (insert_project_link l))"
  "keeps R (rexec (insert_repository r))"
  by (rule keeps_exec, rule insert_project_R insert_link_R insert_card_R)+

end

locale scanner_contract = card_contract R for R :: "registry \<Rightarrow> registry \<Rightarrow> bool" +
  assumes update_root_R: "(\<And>r. root_identity (fr r) = root_identity r) \<Longrightarrow>
      R d (snd (update_root_path Pr fr d))"
    and insert_root_R: "R d (snd (insert_root_path rr d))"
    and update_rule_R: "(\<And>r. rule_identity (fi r) = rule_identity r) \<Longrightarrow>
      R d (snd (update_ignore_rule Pi fi d))"
    and insert_rule_R: "R d (snd (insert_ignore_rule ri d))"
begin

lemma update_root_keeps [keeps_intros]:
  "(\<And>r. root_identity (f r) = root_identity r) \<Longrightarrow> keeps R (rexec (update_root_path P f))"
  by (rule keeps_exec) (rule update_root_R)

lemma update_rule_keeps [keeps_intros]:
  "(\<And>r. rule_identity (f r) = rule_identity r) \<Longrightarrow> keeps R (rexec (update_ignore_rule P f))"
  by (rule keeps_exec) (rule update_rule_R)

lemma insert_root_keeps [keeps_intros]:
  "keeps R (rexec (insert_root_path p))" "keeps R (rexec (insert_ignore_rule r))"
  by (rule keeps_exec, rule insert_root_R insert_rule_R)+

lemma root_path_round_keeps [keeps_intros]: "keeps R (root_path_round input)"
  unfolding root_path_round_def Let_def
  by (auto intro!: keeps_intros simp: set_root_path_def root_identity_def split: branches)

lemma upsertRootPath_keeps [keeps_intros]: "keeps R (upsertRootPath fuel input)"
  by (induction fuel arbitrary: input) (auto intro!: keeps_intros split: sum.split)

lemma UpsertRootPaths_keeps [keeps_intros]: "keeps R (UpsertRootPaths fuel inputs)"
  unfolding UpsertRootPaths_def by (intro keeps_intros)

lemma deactivate_keeps [keeps_intros]: "keeps R (deactivateRemovedConfigRootPaths paths)"
  unfolding deactivateRemovedConfigRootPaths_def updateRootPathsEnabled_def
  by (auto intro!: keeps_intros simp: root_identity_def)

lemma SyncRootPathsFromConfig_keeps [keeps_intros]: "keeps R (SyncRootPathsFromConfig parse fuel)"
  unfolding SyncRootPathsFromConfig_def by (auto intro!: keeps_intros split: branches)

lemma project_tx_keeps [keeps_intros]: "keeps R (project_tx name path relative rt t)"
  unfolding project_tx_def
  by (auto intro!: keeps_intros simp: see_project_def project_identity_def split: branches)

lemma upsert_project_rounds_keeps [keeps_intros]: "keeps R (upsert_project_rounds fuel name path relative rt t)"
  by (induction fuel) (auto intro!: keeps_intros split: branches)

lemma UpsertProject_keeps [keeps_intros]: "keeps R (UpsertProject fuel rt relative t)"
  unfolding UpsertProject_def Let_def by (auto intro!: keeps_intros split: branches)

lemma MarkMissingProjects_keeps [keeps_intros]: "keeps R (MarkMissingProjects rt seen errored t)"
  unfolding MarkMissingProjects_def markProjectIDsMissing_def
  by (auto intro!: keeps_intros simp: project_identity_def)

lemma SetProjectRepository_keeps [keeps_intros]: "keeps R (SetProjectRepository p r)"
  unfolding SetProjectRepository_def by (auto intro!: keeps_intros simp: project_identity_def)

lemma refresh_generic_keeps [keeps_intros]: "keeps R (refresh_generic name rt path t existing)"
  unfolding refresh_generic_def
  by (auto intro!: keeps_intros simp: see_repository_def card_identity_def)

lemma UpsertGenericRepository_keeps [keeps_intros]: "keeps R (UpsertGenericRepository rt path)"
  unfolding UpsertGenericRepository_def Let_def findGenericRepository_def
  by (auto intro!: keeps_intros split: branches)

lemma UpsertProjectLink_keeps [keeps_intros]: "keeps R (UpsertProjectLink l r repo job)"
  unfolding UpsertProjectLink_def Let_def
  by (auto intro!: keeps_intros simp: link_identity_def split: branches)

lemma findIgnoreRule_keeps [keeps_intros]:
  "keeps R (GetIgnoreRule i)" "keeps R (findIgnoreRule i t s p)"
  unfolding findIgnoreRule_def GetIgnoreRule_def Let_def by (auto intro!: keeps_intros split: branches)

lemma upsertIgnoreRule_keeps [keeps_intros]: "keeps R (upsertIgnoreRule input order)"
  unfolding upsertIgnoreRule_def Let_def
  by (intro conjI impI allI keeps_intros | simp only: rule_identity_def | simp split: branches)+

lemma UpsertIgnoreRules_keeps [keeps_intros]: "keeps R (UpsertIgnoreRules inputs)"
  unfolding UpsertIgnoreRules_def by (auto intro!: keeps_intros split: prod.split)

end

locale profile_contract = registry_order R for R :: "registry \<Rightarrow> registry \<Rightarrow> bool" +
  assumes reservations_R: "R d (d\<lparr>reservations := rs\<rparr>)"
    and update_instance_R: "(\<And>r. instance_identity (fi r) = instance_identity r) \<Longrightarrow>
      R d (snd (update_instance Pi fi d))"
    and insert_instance_R: "R d (snd (insert_instance ri d))"
    and update_credential_R: "(\<And>r. credential_identity (fk r) = credential_identity r) \<Longrightarrow>
      R d (snd (update_credential Pk fk d))"
    and insert_credential_R: "R d (snd (insert_credential rk d))"
begin

lemma update_reservation_keeps [keeps_intros]: "keeps R (rexec (update_reservation P f))"
  by (rule keeps_exec) (simp add: update_reservation_def reservations_R)

lemma delete_reservations_keeps [keeps_intros]: "keeps R (rexec (delete_reservations P))"
  by (rule keeps_exec) (simp add: delete_reservations_def reservations_R)

lemma insert_reservation_keeps [keeps_intros]: "keeps R (rexec (insert_reservation r))"
  by (rule keeps_exec) (simp add: insert_reservation_def reservations_R)

lemma update_instance_keeps [keeps_intros]:
  "(\<And>r. instance_identity (f r) = instance_identity r) \<Longrightarrow> keeps R (rexec (update_instance P f))"
  by (rule keeps_exec) (rule update_instance_R)

lemma update_credential_keeps [keeps_intros]:
  "(\<And>r. credential_identity (f r) = credential_identity r) \<Longrightarrow> keeps R (rexec (update_credential P f))"
  by (rule keeps_exec) (rule update_credential_R)

lemma insert_profile_keeps [keeps_intros]:
  "keeps R (rexec (insert_instance i))" "keeps R (rexec (insert_credential c))"
  by (rule keeps_exec, rule insert_instance_R insert_credential_R)+

lemma CleanupOperationReservations_keeps [keeps_intros]:
  "keeps R (expireOperationReservations t)" "keeps R CleanupOperationReservations"
  unfolding CleanupOperationReservations_def expireOperationReservations_def pruneOperationReservations_def
  by (intro keeps_intros)+

lemma release_keeps [keeps_intros]:
  "keeps R (ReleaseOperationReservations owner keys)" "keeps R (give_up owner held e)"
  unfolding give_up_def ReleaseOperationReservations_def release_key_def
  by (auto intro!: keeps_intros)

lemma refresh_keeps [keeps_intros]: "keeps R (refreshOperationReservation owner ttl key)"
  unfolding refreshOperationReservation_def Let_def by (intro keeps_intros)

lemma reserve_keys_keeps [keeps_intros]: "keeps R (reserve_keys owner ttl t held keys)"
  by (induction keys arbitrary: held) (auto intro!: keeps_intros simp: Let_def split: branches)

lemma ReserveOperationKeys_keeps [keeps_intros]: "keeps R (ReserveOperationKeys owner ttl keys)"
  unfolding ReserveOperationKeys_def Let_def by (auto intro!: keeps_intros split: if_split)

lemma TransferOperationReservations_keeps [keeps_intros]:
  "keeps R (TransferOperationReservations from to ttl keys)"
  unfolding TransferOperationReservations_def transfer_key_def Let_def
  by (auto intro!: keeps_intros split: if_split)

lemma instance_round_keeps [keeps_intros]: "keeps R (instance_round m input)"
  unfolding instance_round_def Let_def
  by (auto intro!: keeps_intros simp: instance_identity_def split: branches)

lemma upsertProviderInstance_keeps [keeps_intros]: "keeps R (upsertProviderInstance fuel m input)"
  by (induction fuel arbitrary: input) (auto intro!: keeps_intros split: sum.split)

lemma UpsertProviderInstances_keeps [keeps_intros]: "keeps R (UpsertProviderInstances fuel m inputs)"
  unfolding UpsertProviderInstances_def by (intro keeps_intros)

lemma upsertCredential_keeps [keeps_intros]: "keeps R (upsertCredential m input)"
  unfolding upsertCredential_def Let_def
  by (auto intro!: keeps_intros simp: credential_identity_def split: branches)

lemma UpsertCredentials_keeps [keeps_intros]: "keeps R (UpsertCredentials m inputs)"
  unfolding UpsertCredentials_def by (intro keeps_intros)

end

locale repository_contract = card_contract R + profile_contract R
  for R :: "registry \<Rightarrow> registry \<Rightarrow> bool"
begin

lemma supersede_keeps [keeps_intros]: "keeps R (supersedeGenericRepository g c t)"
  unfolding supersedeGenericRepository_def
  by (auto intro!: keeps_intros simp: project_identity_def link_identity_def card_identity_def)

lemma clone_tx_keeps [keeps_intros]:
  "keeps R (clone_tx identity existing generic rt target localPath inst cred t)"
  unfolding clone_tx_def clone_body_def
  by (auto intro!: keeps_intros simp: set_clone_def set_identity_def card_identity_def split: branches)

lemma UpsertRepositoryForClone_keeps [keeps_intros]:
  "keeps R (UpsertRepositoryForClone m identity rt target localPath inst cred)"
  unfolding UpsertRepositoryForClone_def findRepository_def findGenericRepositoryByLocalPath_def
  by (auto intro!: keeps_intros split: branches)

lemma update_card_keeps' [keeps_intros]:
  "(\<And>r. card_identity (f r) = card_identity r) \<Longrightarrow> keeps R (update_card i f)"
  unfolding update_card_def by (intro keeps_intros)

lemma after_operation_keeps [keeps_intros]:
  "keeps R (TouchRepositoryPulled i)" "keeps R (TouchRepositoryPulledWithBranch i branch)"
  "keeps R (MarkRepositoryError i msg)"
  unfolding TouchRepositoryPulledWithBranch_def TouchRepositoryPulled_def MarkRepositoryError_def Let_def
  by (auto intro!: keeps_intros simp: card_identity_def)

end

section \<open>Lookups change nothing\<close>

interpretation lookups: registry_order "(=)"
  by unfold_locales auto

section \<open>Identities last\<close>

text \<open>
  The rows of each table keep their places and identities; new ones come after them. Reservations are
  left out: old ones are deleted.
\<close>

definition registry_grows :: "registry \<Rightarrow> registry \<Rightarrow> bool" where
  "registry_grows d d' \<longleftrightarrow>
     prefix (map root_identity (root_paths d)) (map root_identity (root_paths d')) \<and>
     prefix (map project_identity (projects d)) (map project_identity (projects d')) \<and>
     prefix (map link_identity (project_links d)) (map link_identity (project_links d')) \<and>
     prefix (map card_identity (repositories d)) (map card_identity (repositories d')) \<and>
     prefix (map rule_identity (ignore_rules d)) (map rule_identity (ignore_rules d')) \<and>
     prefix (map instance_identity (provider_instances d)) (map instance_identity (provider_instances d')) \<and>
     prefix (map credential_identity (credentials d)) (map credential_identity (credentials d'))"

interpretation scanner_grows: scanner_contract registry_grows
  by unfold_locales
    (auto simp: registry_grows_def statement_defs map_update_where intro: prefix_order.trans)

interpretation repository_grows: repository_contract registry_grows
  by unfold_locales
    (auto simp: registry_grows_def statement_defs map_update_where intro: prefix_order.trans)

text \<open>The tables that only the other store writes.\<close>

definition profiles_kept :: "registry \<Rightarrow> registry \<Rightarrow> bool" where
  "profiles_kept d d' \<longleftrightarrow>
     provider_instances d' = provider_instances d \<and> credentials d' = credentials d \<and>
     reservations d' = reservations d \<and> config_entries d' = config_entries d"

interpretation scanner_keeps_profiles: scanner_contract profiles_kept
  by unfold_locales (auto simp: profiles_kept_def statement_defs)

definition roots_kept :: "registry \<Rightarrow> registry \<Rightarrow> bool" where
  "roots_kept d d' \<longleftrightarrow>
     root_paths d' = root_paths d \<and> ignore_rules d' = ignore_rules d \<and>
     config_entries d' = config_entries d"

interpretation repository_keeps_roots: repository_contract roots_kept
  by unfold_locales (auto simp: roots_kept_def statement_defs)

section \<open>Histories\<close>

text \<open>
  One call of an operation that writes, by the scanner or by the repository component, from any world
  whose database it is: under any clock, identifiers and faults, whether it succeeds or not.
\<close>

inductive scanner_step :: "registry \<Rightarrow> registry \<Rightarrow> bool" where
  "scanner_step (db w) (db (snd (UpsertRootPaths fuel inputs w)))"
| "scanner_step (db w) (db (snd (SyncRootPathsFromConfig parse fuel w)))"
| "scanner_step (db w) (db (snd (UpsertProject fuel rt relative t w)))"
| "scanner_step (db w) (db (snd (MarkMissingProjects i seen errored t w)))"
| "scanner_step (db w) (db (snd (SetProjectRepository i repository w)))"
| "scanner_step (db w) (db (snd (UpsertGenericRepository rt path w)))"
| "scanner_step (db w) (db (snd (UpsertProjectLink left right repository job w)))"
| "scanner_step (db w) (db (snd (UpsertIgnoreRules rules w)))"

inductive repository_step :: "registry \<Rightarrow> registry \<Rightarrow> bool" where
  "repository_step (db w) (db (snd (ReserveOperationKeys owner ttl keys w)))"
| "repository_step (db w) (db (snd (ReleaseOperationReservations owner keys w)))"
| "repository_step (db w) (db (snd (TransferOperationReservations from to ttl keys w)))"
| "repository_step (db w) (db (snd (CleanupOperationReservations w)))"
| "repository_step (db w) (db (snd (UpsertProviderInstances fuel m instances w)))"
| "repository_step (db w) (db (snd (UpsertCredentials m creds w)))"
| "repository_step (db w) (db (snd (UpsertRepositoryForClone m identity rt target localPath inst cred w)))"
| "repository_step (db w) (db (snd (TouchRepositoryPulled i w)))"
| "repository_step (db w) (db (snd (TouchRepositoryPulledWithBranch i branch w)))"
| "repository_step (db w) (db (snd (MarkRepositoryError i msg w)))"

inductive registry_history :: "registry \<Rightarrow> registry \<Rightarrow> bool" where
  start: "registry_history d d"
| scan: "registry_history d d1 \<Longrightarrow> scanner_step d1 d2 \<Longrightarrow> registry_history d d2"
| operate: "registry_history d d1 \<Longrightarrow> repository_step d1 d2 \<Longrightarrow> registry_history d d2"

context scanner_contract
begin

lemma scanner_step_R: "scanner_step d d' \<Longrightarrow> R d d'"
  by (induction rule: scanner_step.induct) (rule keeps_intros [unfolded keeps_def, rule_format])+

end

context repository_contract
begin

lemma repository_step_R: "repository_step d d' \<Longrightarrow> R d d'"
  by (induction rule: repository_step.induct) (rule keeps_intros [unfolded keeps_def, rule_format])+

end

end
