(* ===== verification/Reservation_Facts.thy ===== *)
theory Reservation_Facts
  imports Repo_Store Job_Runs
begin

text \<open>
  The reservations of repository operations against an abstract lock table: a map from keys to owners.
  Reserving, transferring and releasing keys are operations on that map, whatever rows of old
  reservations the table still holds.
\<close>

section \<open>The lock table\<close>

type_synonym holders = "bytes \<rightharpoonup> bytes"

definition holders :: "registry \<Rightarrow> holders" where
  "holders d key =
     map_option rs_owner (first_row (filter (\<lambda>r. rs_key r = key \<and> rs_status r = Held) (reservations d)))"

text \<open>Those that are left when the reservations due at a time have expired.\<close>

definition live :: "bytes \<Rightarrow> instant \<Rightarrow> registry \<Rightarrow> holders" where
  "live p t d key =
     map_option rs_owner
       (first_row (filter (\<lambda>r. rs_key r = key \<and> rs_status r = Held \<and> \<not> due p t r) (reservations d)))"

definition dropped :: "bytes \<Rightarrow> bytes list \<Rightarrow> holders \<Rightarrow> holders" where
  "dropped owner keys m = (\<lambda>k. if k \<in> set keys \<and> m k = Some owner then None else m k)"

text \<open>
  The keys of one call, in order; on the first that somebody else holds the call gives up those it has
  passed.
\<close>

fun acquire :: "bytes \<Rightarrow> bytes list \<Rightarrow> bytes list \<Rightarrow> holders \<Rightarrow> (err + bytes list) \<times> holders" where
  "acquire owner held [] m = (Inr held, m)"
| "acquire owner held (key0 # keys) m =
     (let key = trim_space key0
      in if key = [] then acquire owner held keys m
         else
           (case m key of
              None \<Rightarrow> acquire owner (held @ [key]) keys (m(key \<mapsto> owner))
            | Some other \<Rightarrow>
                if other = owner then acquire owner (held @ [key]) keys m
                else (Inl (EReservationConflict key other), dropped owner held m)))"

section \<open>Constraints\<close>

lemma reservations_ok:
  assumes "registry_ok d"
  shows "registry_violation (d\<lparr>reservations := rs\<rparr>) =
    (if unique_by (\<lambda>r. Some (rs_id r)) rs \<and> unique_by reservation_index rs then None else Some VUnique)"
proof -
  have checks: "registry_checks (d\<lparr>reservations := rs\<rparr>)"
    and keys: "registry_foreign_keys (d\<lparr>reservations := rs\<rparr>)"
    using assms by (simp_all add: registry_ok_iff registry_checks_def registry_foreign_keys_def)
  have "registry_uniques (d\<lparr>reservations := rs\<rparr>) \<longleftrightarrow>
      unique_by (\<lambda>r. Some (rs_id r)) rs \<and> unique_by reservation_index rs"
    using assms by (simp add: registry_ok_iff registry_uniques_def)
  with checks keys show ?thesis by (simp add: registry_violation_def)
qed

lemma ok_unique:
  assumes "registry_ok d"
  shows "unique_by (\<lambda>r. Some (rs_id r)) (reservations d)" and "unique_by reservation_index (reservations d)"
  using assms by (simp_all add: registry_ok_iff registry_uniques_def)

text \<open>Updates that keep the id and the key, and do not put a row back into the index.\<close>

lemma update_reservation_ok:
  assumes "registry_ok d"
    and "\<And>r. rs_id (f r) = rs_id r" and "\<And>r. rs_key (f r) = rs_key r"
    and "\<And>r. P r \<Longrightarrow> rs_status r \<noteq> Held \<Longrightarrow> rs_status (f r) \<noteq> Held"
  shows "registry_ok (snd (update_reservation P f d))"
proof -
  have "unique_by (\<lambda>r. Some (rs_id r)) (update_where P f (reservations d))"
    using ok_unique(1) [OF assms(1)] by (rule unique_by_update_where) (simp add: assms(2))
  moreover have "unique_by reservation_index (update_where P f (reservations d))"
    using ok_unique(2) [OF assms(1)]
    by (rule unique_by_update_where) (use assms(3,4) in \<open>auto simp: reservation_index_def\<close>)
  ultimately show ?thesis by (simp add: update_reservation_def reservations_ok [OF assms(1)])
qed

lemma delete_reservations_ok: "registry_ok d \<Longrightarrow> registry_ok (snd (delete_reservations P d))"
  using ok_unique [of d]
  by (simp add: delete_reservations_def reservations_ok delete_where_def unique_by_filter)

section \<open>Rows and holders\<close>

lemma holders_Some_iff:
  assumes "registry_ok d"
  shows "holders d key = Some owner \<longleftrightarrow> (\<exists>r \<in> set (reservations d). held_by key owner r)"
proof
  assume "holders d key = Some owner"
  then obtain r where "first_row (filter (\<lambda>r. rs_key r = key \<and> rs_status r = Held) (reservations d)) = Some r"
    and "rs_owner r = owner" by (auto simp: holders_def)
  then show "\<exists>r \<in> set (reservations d). held_by key owner r"
    by (auto dest!: first_row_in simp: held_by_def)
next
  assume "\<exists>r \<in> set (reservations d). held_by key owner r"
  then obtain r where r: "r \<in> set (reservations d)" "rs_key r = key" "rs_status r = Held" "rs_owner r = owner"
    by (auto simp: held_by_def)
  let ?rs = "filter (\<lambda>r. rs_key r = key \<and> rs_status r = Held) (reservations d)"
  have "?rs \<noteq> []" using r by (auto simp: filter_empty_conv)
  then obtain x where x: "first_row ?rs = Some x" by (cases ?rs) auto
  then have "x \<in> set (reservations d)" "rs_key x = key" "rs_status x = Held" by (auto dest!: first_row_in)
  with r have "x = r"
    using unique_by_eq [OF ok_unique(2) [OF assms], of x r key] by (simp add: reservation_index_def)
  with x r show "holders d key = Some owner" by (simp add: holders_def)
qed

lemma holders_None_iff:
  "holders d key = None \<longleftrightarrow> (\<forall>r \<in> set (reservations d). \<not> (rs_key r = key \<and> rs_status r = Held))"
  by (auto simp: holders_def filter_empty_conv)

lemma map_eqI: "(\<And>k v. m k = Some v \<longleftrightarrow> m' k = Some v) \<Longrightarrow> m = m'"
  by (rule ext) (metis not_None_eq)

text \<open>What the statements do to the map.\<close>

lemma holders_update:
  assumes "registry_ok d" and "registry_ok (snd (update_reservation P f d))"
  shows "holders (snd (update_reservation P f d)) key = Some owner \<longleftrightarrow>
    (\<exists>r \<in> set (reservations d). held_by key owner (if P r then f r else r))"
  unfolding holders_Some_iff [OF assms(2)]
  by (auto simp: update_reservation_def update_where_def)

lemma holders_delete:
  assumes "registry_ok d" and "\<And>r. P r \<Longrightarrow> rs_status r \<noteq> Held"
  shows "holders (snd (delete_reservations P d)) = holders d"
  unfolding holders_def delete_reservations_def delete_where_def
  using assms(2) by (auto intro!: ext arg_cong [where f = "\<lambda>rs. map_option rs_owner (first_row rs)"] filter_cong)

lemma holders_insert:
  assumes "registry_ok d" and "registry_ok (snd (insert_reservation r d))" and "rs_status r = Held"
  shows "holders (snd (insert_reservation r d)) = (holders d)(rs_key r \<mapsto> rs_owner r)"
proof (rule map_eqI)
  fix key owner
  have "unique_by reservation_index (reservations d @ [r])"
    using ok_unique(2) [OF assms(2)] by (simp add: insert_reservation_def)
  then have "\<forall>x \<in> set (reservations d). \<not> (rs_key x = rs_key r \<and> rs_status x = Held)"
    using assms(3) by (auto simp: unique_by_snoc reservation_index_def)
  then show "holders (snd (insert_reservation r d)) key = Some owner \<longleftrightarrow>
      ((holders d)(rs_key r \<mapsto> rs_owner r)) key = Some owner"
    unfolding holders_Some_iff [OF assms(2)]
    using assms(3) by (auto simp: insert_reservation_def held_by_def holders_Some_iff [OF assms(1)])
qed

text \<open>Expiry, release, refresh and transfer.\<close>

lemma holders_expire:
  assumes "registry_ok d"
  shows "holders (snd (update_reservation (due p t) (\<lambda>r. r\<lparr>rs_status := Expired\<rparr>) d)) = live p t d"
  unfolding update_reservation_def
proof (rule ext)
  fix key
  have "map_option rs_owner (first_row (filter (\<lambda>r. rs_key r = key \<and> rs_status r = Held)
          (update_where (due p t) (\<lambda>r. r\<lparr>rs_status := Expired\<rparr>) xs))) =
        map_option rs_owner (first_row (filter (\<lambda>r. rs_key r = key \<and> rs_status r = Held \<and> \<not> due p t r) xs))" for xs
    by (induction xs) auto
  then show "holders (snd (affected (due p t) (reservations d),
        d\<lparr>reservations := update_where (due p t) (\<lambda>r. r\<lparr>rs_status := Expired\<rparr>) (reservations d)\<rparr>)) key =
      live p t d key"
    by (simp add: holders_def live_def)
qed

lemma held_once:
  assumes "registry_ok d" and "r \<in> set (reservations d)" and "r' \<in> set (reservations d)"
    and "rs_status r = Held" and "rs_status r' = Held" and "rs_key r = rs_key r'"
  shows "r = r'"
  by (rule unique_by_eq [OF ok_unique(2) [OF assms(1)] assms(2,3)])
    (use assms in \<open>simp_all add: reservation_index_def\<close>)

lemma holders_release:
  assumes "registry_ok d"
  shows "holders (snd (update_reservation (held_by key owner)
      (\<lambda>r. r\<lparr>rs_status := Freed, rs_released_at := Some s\<rparr>) d)) = dropped owner [key] (holders d)"
    (is "holders ?d' = _")
proof (rule map_eqI)
  fix k o'
  have ok: "registry_ok ?d'" by (rule update_reservation_ok [OF assms]) auto
  show "holders ?d' k = Some o' \<longleftrightarrow> dropped owner [key] (holders d) k = Some o'"
    unfolding holders_update [OF assms ok]
    by (auto simp: dropped_def holders_Some_iff [OF assms] held_by_def split: if_splits
        dest: held_once [OF assms])
qed

lemma holders_refresh:
  assumes "registry_ok d"
  shows "holders (snd (update_reservation (held_by key owner) (\<lambda>r. r\<lparr>rs_expires_at := s\<rparr>) d)) = holders d"
    (is "holders ?d' = _")
proof (rule map_eqI)
  fix k o'
  have ok: "registry_ok ?d'" by (rule update_reservation_ok [OF assms]) auto
  show "holders ?d' k = Some o' \<longleftrightarrow> holders d k = Some o'"
    unfolding holders_update [OF assms ok]
    by (auto simp: holders_Some_iff [OF assms] held_by_def split: if_splits)
qed

lemma holders_transfer:
  assumes "registry_ok d"
  shows "holders (snd (update_reservation (held_by key from) (\<lambda>r. r\<lparr>rs_owner := to, rs_expires_at := s\<rparr>) d)) =
    (if holders d key = Some from then (holders d)(key \<mapsto> to) else holders d)"
    (is "holders ?d' = _")
proof (rule map_eqI)
  fix k o'
  have ok: "registry_ok ?d'" by (rule update_reservation_ok [OF assms]) auto
  show "holders ?d' k = Some o' \<longleftrightarrow>
      (if holders d key = Some from then (holders d)(key \<mapsto> to) else holders d) k = Some o'"
    unfolding holders_update [OF assms ok]
    by (auto simp: holders_Some_iff [OF assms] held_by_def split: if_splits dest: held_once [OF assms])
qed

section \<open>Runs\<close>

lemma environment_steps [simp]:
  "andThen now f w = f (clk w (tick w)) (step_tick w)"
  "andThen (newID p) f' w = f' (p @ ''_'' @ ent w (tick w)) (step_tick w)"
  "andThen provider f' w = f' (handle_Provider w) w"
  "andThen (ret x) g w = g x w"
  "andThen (fail e) g w = (Inl e, w)"
  by (simp_all add: andThen_def now_def newID_def provider_def ret_def fail_def)

lemma fetch_calm:
  "calm w \<Longrightarrow> fetch scan q w =
     (case first_row (q (db w)) of None \<Rightarrow> Inl ENotFound | Some r \<Rightarrow> Inr (scan r), step_tick w)"
  by (simp add: fetch_def andThen_def query_calm ret_def fail_def split: option.split)

text \<open>Nothing fails, the constraints hold, and the identifiers to come are new.\<close>

definition fresh_reservations :: "registry world \<Rightarrow> bool" where
  "fresh_reservations w \<longleftrightarrow>
     inj (ent w) \<and> (\<forall>n \<ge> tick w. ''rres_'' @ ent w n \<notin> rs_id ` set (reservations (db w)))"

definition ready :: "registry world \<Rightarrow> bool" where
  "ready w \<longleftrightarrow> calm w \<and> registry_ok (db w) \<and> fresh_reservations w"

definition later :: "registry world \<Rightarrow> registry world \<Rightarrow> bool" where
  "later w w' \<longleftrightarrow> ready w' \<and> handle_Provider w' = handle_Provider w \<and> clk w' = clk w"

lemma later_trans: "later w1 w2 \<Longrightarrow> later w2 w3 \<Longrightarrow> later w1 w3"
  by (simp add: later_def)

lemma ready_step [simp]: "ready w \<Longrightarrow> ready (step_tick w)"
  by (auto simp: ready_def fresh_reservations_def)

lemma later_refl [simp]: "ready w \<Longrightarrow> later w w" and later_step [simp]: "ready w \<Longrightarrow> later w (step_tick w)"
  by (simp_all add: later_def)

lemma readyD: "ready w \<Longrightarrow> calm w" "ready w \<Longrightarrow> registry_ok (db w)"
  by (simp_all add: ready_def)

lemma later_exec:
  assumes "ready w" and "registry_ok d" and "rs_id ` set (reservations d) \<subseteq> rs_id ` set (reservations (db w))"
  shows "later w ((step_tick w)\<lparr>db := d\<rparr>)"
proof -
  have "\<forall>n \<ge> tick w. ''rres_'' @ ent w n \<notin> rs_id ` set (reservations d)"
    using assms(1,3) unfolding ready_def fresh_reservations_def by blast
  then show ?thesis using assms(1,2) by (simp add: later_def ready_def fresh_reservations_def)
qed

lemma update_runs:
  assumes "ready w" and "\<And>r. rs_id (f r) = rs_id r" and "\<And>r. rs_key (f r) = rs_key r"
    and "\<And>r. P r \<Longrightarrow> rs_status r \<noteq> Held \<Longrightarrow> rs_status (f r) \<noteq> Held"
  shows "\<exists>w'. rexec (update_reservation P f) w = (Inr (affected P (reservations (db w))), w') \<and> later w w' \<and>
    db w' = snd (update_reservation P f (db w)) \<and> tick w' = Suc (tick w)"
proof -
  let ?d = "snd (update_reservation P f (db w))"
  have ok: "registry_ok ?d" by (rule update_reservation_ok [OF readyD(2) [OF assms(1)] assms(2-4)])
  have "rexec (update_reservation P f) w =
      (Inr (affected P (reservations (db w))), (step_tick w)\<lparr>db := ?d\<rparr>)"
    using exec_calm [OF readyD(1) [OF assms(1)], of registry_violation "update_reservation P f"] ok
    by (simp add: update_reservation_def)
  moreover have "rs_id ` set (reservations ?d) = rs_id ` set (reservations (db w))"
    using map_update_where [of rs_id f P "reservations (db w)", OF assms(2)]
    by (simp add: update_reservation_def flip: set_map)
  then have "later w ((step_tick w)\<lparr>db := ?d\<rparr>)" by (intro later_exec [OF assms(1) ok]) simp
  ultimately show ?thesis by (intro exI [of _ "(step_tick w)\<lparr>db := ?d\<rparr>"]) simp
qed

lemma release_key_runs:
  assumes "ready w"
  shows "\<exists>w'. release_key owner t key w = (Inr (), w') \<and> later w w' \<and>
    holders (db w') = dropped owner [key] (holders (db w))"
  using update_runs [OF assms, of "\<lambda>r. r\<lparr>rs_status := Freed, rs_released_at := Some (Trimmed t)\<rparr>" "held_by key owner"]
  by (auto simp: release_key_def andThen_Inr_eq holders_release [OF readyD(2) [OF assms]])

lemma dropped_Nil [simp]: "dropped owner [] m = m"
  by (simp add: dropped_def)

lemma dropped_Cons: "dropped owner keys (dropped owner [key] m) = dropped owner (key # keys) m"
  by (auto simp: dropped_def fun_eq_iff)

lemma release_all_runs:
  "ready w \<Longrightarrow> \<exists>w'. for_each keys (release_key owner t) w = (Inr (), w') \<and> later w w' \<and>
    holders (db w') = dropped owner keys (holders (db w))"
proof (induction keys arbitrary: w)
  case Nil
  then show ?case by simp
next
  case (Cons key keys)
  from release_key_runs [OF Cons.prems] obtain w1 where
    one: "release_key owner t key w = (Inr (), w1)" "later w w1"
      "holders (db w1) = dropped owner [key] (holders (db w))" by blast
  with Cons.IH [of w1] obtain w' where
    "for_each keys (release_key owner t) w1 = (Inr (), w')" "later w1 w'"
      "holders (db w') = dropped owner keys (holders (db w1))" by (auto simp: later_def)
  with one show ?case
    by (intro exI [of _ w']) (auto simp: andThen_Inr_eq dropped_Cons intro: later_trans)
qed

lemma Release_runs:
  assumes "ready w"
  shows "\<exists>w'. ReleaseOperationReservations owner keys w = (Inr (), w') \<and> later w w' \<and>
    holders (db w') = dropped owner keys (holders (db w))"
proof (cases "keys = []")
  case True
  with assms show ?thesis by (simp add: ReleaseOperationReservations_def)
next
  case False
  from release_all_runs [OF ready_step [OF assms], of keys owner "clk w (tick w)"] False show ?thesis
    by (auto simp: ReleaseOperationReservations_def later_def)
qed

lemma give_up_runs:
  assumes "ready w"
  shows "\<exists>w'. give_up owner held e w = (Inl e, w') \<and> later w w' \<and>
    holders (db w') = dropped owner held (holders (db w))"
  using Release_runs [OF assms, of owner held]
  by (auto simp: give_up_def ignoring_def andThen_Inr_eq outcome_eq)

lemma refresh_runs:
  assumes "ready w"
  shows "\<exists>w'. refreshOperationReservation owner ttl key w = (Inr (), w') \<and> later w w' \<and>
    holders (db w') = holders (db w)"
proof -
  let ?f = "\<lambda>r. r\<lparr>rs_expires_at := Trimmed (clk w (tick w) + (if ttl \<le> 0 then 5 * minute else ttl))\<rparr>"
  from update_runs [OF ready_step [OF assms], of ?f "held_by key owner"] obtain w' where
    "rexec (update_reservation (held_by key owner) ?f) (step_tick w) =
       (Inr (affected (held_by key owner) (reservations (db w))), w')"
    "later (step_tick w) w'" "db w' = snd (update_reservation (held_by key owner) ?f (db w))" by auto
  then show ?thesis
    using holders_refresh [OF readyD(2) [OF assms]]
    by (intro exI [of _ w']) (auto simp: refreshOperationReservation_def andThen_Inr_eq Let_def later_def)
qed

lemma unique_recognised: "unique_or_duplicate (EDriver (violation_message p VUnique))"
proof (cases "p = ''postgres''")
  case True
  have "unique_or_duplicate (EDriver (violation_message ''postgres'' VUnique))" by code_simp
  with True show ?thesis by simp
next
  case False
  have "unique_or_duplicate (EDriver (violation_message ''sqlite'' VUnique))" by code_simp
  with False show ?thesis by (simp add: violation_message_def)
qed

text \<open>The insertion of a held row: taken when the key is free, else a violation.\<close>

definition reservation_for :: "bytes \<Rightarrow> bytes \<Rightarrow> bytes \<Rightarrow> instant \<Rightarrow> duration \<Rightarrow> reservation_row" where
  "reservation_for i key owner t ttl =
     \<lparr>rs_id = i, rs_key = key, rs_owner = owner, rs_status = Held, rs_created_at = Trimmed t,
      rs_expires_at = Trimmed (t + ttl), rs_released_at = None\<rparr>"

lemma insert_violation:
  assumes "registry_ok d" and "i \<notin> rs_id ` set (reservations d)"
  shows "registry_violation (snd (insert_reservation (reservation_for i key owner t ttl) d)) =
    (if holders d key = None then None else Some VUnique)"
proof -
  let ?r = "reservation_for i key owner t ttl"
  have "unique_by (\<lambda>r. Some (rs_id r)) (reservations d @ [?r])"
    using ok_unique(1) [OF assms(1)] assms(2) by (auto simp: unique_by_snoc reservation_for_def)
  moreover have "unique_by reservation_index (reservations d @ [?r]) \<longleftrightarrow> holders d key = None"
    using ok_unique(2) [OF assms(1)]
    by (auto simp: unique_by_snoc reservation_for_def reservation_index_def holders_None_iff)
  ultimately show ?thesis by (simp add: insert_reservation_def reservations_ok [OF assms(1)])
qed

lemma insert_runs:
  assumes "ready w"
  defines "i \<equiv> ''rres_'' @ ent w (tick w)"
  shows "holders (db w) key = None \<Longrightarrow>
      \<exists>w'. rexec (insert_reservation (reservation_for i key owner t ttl)) (step_tick w) = (Inr (), w') \<and>
        later w w' \<and> holders (db w') = (holders (db w))(key \<mapsto> owner)"
    and "holders (db w) key \<noteq> None \<Longrightarrow>
      rexec (insert_reservation (reservation_for i key owner t ttl)) (step_tick w) =
        (Inl (EDriver (violation_message (handle_Provider w) VUnique)), step_tick (step_tick w))"
proof -
  let ?st = "insert_reservation (reservation_for i key owner t ttl)"
  have i: "i \<notin> rs_id ` set (reservations (db w))"
    using assms by (simp add: ready_def fresh_reservations_def)
  note calm = readyD(1) [OF ready_step [OF assms(1)]]
  note viol = insert_violation [OF readyD(2) [OF assms(1)] i, of key owner t ttl]
  { assume free: "holders (db w) key = None"
    then have ok: "registry_ok (snd (?st (db w)))" by (simp add: viol)
    let ?w' = "(step_tick (step_tick w))\<lparr>db := snd (?st (db w))\<rparr>"
    have "rexec ?st (step_tick w) = (Inr (), ?w')"
      using exec_calm [OF calm, of registry_violation ?st] ok by (simp add: insert_reservation_def)
    moreover have "later w ?w'"
      using assms ok
      by (auto simp: later_def ready_def fresh_reservations_def insert_reservation_def reservation_for_def
          dest: injD)
    moreover have "holders (db ?w') = (holders (db w))(key \<mapsto> owner)"
      using holders_insert [OF readyD(2) [OF assms(1)] ok] by (simp add: reservation_for_def)
    ultimately show "\<exists>w'. rexec ?st (step_tick w) = (Inr (), w') \<and> later w w' \<and>
        holders (db w') = (holders (db w))(key \<mapsto> owner)" by blast }
  { assume "holders (db w) key \<noteq> None"
    then show "rexec ?st (step_tick w) =
        (Inl (EDriver (violation_message (handle_Provider w) VUnique)), step_tick (step_tick w))"
      using exec_calm_violation [OF calm, of registry_violation ?st VUnique] viol by simp }
qed

lemma owner_runs:
  assumes "ready w" and "holders (db w) key = Some owner"
  shows "operationReservationOwner key w = (Inr owner, step_tick w)"
  using assms(2) by (auto simp: operationReservationOwner_def fetch_calm [OF readyD(1) [OF assms(1)]] holders_def)

text \<open>One key after the other: the abstract call.\<close>

lemma reserve_keys_refines:
  "ready w \<Longrightarrow> \<exists>w'. reserve_keys owner ttl t held keys w =
       (fst (acquire owner held keys (holders (db w))), w') \<and> later w w' \<and>
     holders (db w') = snd (acquire owner held keys (holders (db w)))"
proof (induction keys arbitrary: held w)
  case Nil
  then show ?case by simp
next
  case (Cons key0 keys)
  let ?key = "trim_space key0" and ?h = "holders (db w)"
  show ?case
  proof (cases "?key = []")
    case True
    with Cons.IH [OF Cons.prems, of held] show ?thesis by simp
  next
    case False
    let ?ins = "rexec (insert_reservation (reservation_for (''rres_'' @ ent w (tick w)) ?key owner t ttl))"
    show ?thesis
    proof (cases "?h ?key")
      case None
      from insert_runs(1) [OF Cons.prems None, of owner t ttl] obtain w1 where
        one: "?ins (step_tick w) = (Inr (), w1)" "later w w1" "holders (db w1) = ?h(?key \<mapsto> owner)" by auto
      then have "ready w1" by (simp add: later_def)
      from Cons.IH [OF this, of "held @ [?key]", unfolded one(3)] obtain w' where
        "reserve_keys owner ttl t (held @ [?key]) keys w1 =
           (fst (acquire owner (held @ [?key]) keys (?h(?key \<mapsto> owner))), w')" "later w1 w'"
        "holders (db w') = snd (acquire owner (held @ [?key]) keys (?h(?key \<mapsto> owner)))" by blast
      then show ?thesis
        using False None one(1) [unfolded reservation_for_def] later_trans [OF one(2)]
        by (intro exI [of _ w']) (simp add: outcome_eq Let_def)
    next
      case (Some other)
      let ?w2 = "step_tick (step_tick w)"
      have "?ins (step_tick w) = (Inl (EDriver (violation_message (handle_Provider w) VUnique)), ?w2)"
        using insert_runs(2) [OF Cons.prems, of ?key owner t ttl] Some by simp
      note ins = this [unfolded reservation_for_def]
      have w2: "ready ?w2" "holders (db ?w2) = ?h" using Cons.prems by simp_all
      from owner_runs [OF w2(1)] Some w2(2)
      have own: "operationReservationOwner ?key ?w2 = (Inr other, step_tick ?w2)" by simp
      have w3: "ready (step_tick ?w2)" "later w (step_tick ?w2)" using Cons.prems by (simp_all add: later_def)
      show ?thesis
      proof (cases "other = owner")
        case True
        from refresh_runs [OF w3(1), of owner ttl ?key] obtain w4 where
          ref: "refreshOperationReservation owner ttl ?key (step_tick ?w2) = (Inr (), w4)"
          "later (step_tick ?w2) w4" "holders (db w4) = ?h" by auto
        with Cons.IH [of w4 "held @ [?key]"] obtain w' where
          rest: "reserve_keys owner ttl t (held @ [?key]) keys w4 =
             (fst (acquire owner (held @ [?key]) keys ?h), w')" "later w4 w'"
          "holders (db w') = snd (acquire owner (held @ [?key]) keys ?h)" by (auto simp: later_def)
        have "later w w'" using later_trans w3(2) ref(2) rest(2) by blast
        with True False Some ins own ref rest show ?thesis
          by (intro exI [of _ w']) (simp add: outcome_eq unique_recognised Let_def)
      next
        case other: False
        from give_up_runs [OF w3(1), of owner held "EReservationConflict ?key other"] obtain w' where
          up: "give_up owner held (EReservationConflict ?key other) (step_tick ?w2) =
             ((Inl (EReservationConflict ?key other) :: err + bytes list), w')" "later (step_tick ?w2) w'"
          "holders (db w') = dropped owner held ?h" by auto
        with other False Some ins own later_trans [OF w3(2) up(2)] show ?thesis
          by (intro exI [of _ w']) (simp add: outcome_eq unique_recognised Let_def)
      qed
    qed
  qed
qed

text \<open>Expiry comes first, so the call works on what is still live.\<close>

lemma expire_runs:
  assumes "ready w"
  shows "\<exists>w'. expireOperationReservations t w = (Inr (), w') \<and> later w w' \<and>
    holders (db w') = live (handle_Provider w) t (db w)"
proof -
  let ?p = "handle_Provider w"
  let ?f = "\<lambda>r. r\<lparr>rs_status := Expired\<rparr>" and ?old = "prunable ?p (t - operationReservationRetention)"
  from update_runs [OF assms, of ?f "due ?p t"] obtain w1 where
    upd: "rexec (update_reservation (due ?p t) ?f) w = (Inr (affected (due ?p t) (reservations (db w))), w1)"
      "later w w1" "db w1 = snd (update_reservation (due ?p t) ?f (db w))" by auto
  have h1: "holders (db w1) = live ?p t (db w)"
    unfolding upd(3) by (rule holders_expire [OF readyD(2) [OF assms]])
  have w1: "ready w1" "handle_Provider w1 = ?p" using upd(2) by (simp_all add: later_def)
  have old: "rs_status r \<noteq> Held" if "?old r" for r using that by (auto simp: prunable_def)
  let ?d = "snd (delete_reservations ?old (db w1))"
  have ok: "registry_ok ?d" by (rule delete_reservations_ok [OF readyD(2) [OF w1(1)]])
  let ?w' = "(step_tick w1)\<lparr>db := ?d\<rparr>"
  have "rexec (delete_reservations ?old) w1 = (Inr (), ?w')"
    using exec_calm [OF readyD(1) [OF w1(1)], of registry_violation "delete_reservations ?old"] ok
    by (simp add: delete_reservations_def)
  then have "expireOperationReservations t w = (Inr (), ?w')"
    using upd(1) w1(2)
    by (simp add: expireOperationReservations_def pruneOperationReservations_def andThen_Inr_eq)
  moreover have "later w1 ?w'"
    by (rule later_exec [OF w1(1) ok]) (auto simp: delete_reservations_def)
  then have "later w ?w'" using upd(2) later_trans by blast
  moreover have "holders (db ?w') = live ?p t (db w)"
    using holders_delete [OF readyD(2) [OF w1(1)] old] h1 by simp
  ultimately show ?thesis by blast
qed

text \<open>
  Reserving keys is the abstract call on the reservations that are live at that time: it returns what
  the call returns, and the table's holders afterwards are the call's.
\<close>

lemma ReserveOperationKeys_refines:
  assumes "ready w" and "\<not> blank owner"
  shows "\<exists>w'. ReserveOperationKeys owner ttl keys w =
      (fst (acquire owner [] keys (live (handle_Provider w) (clk w (tick w)) (db w))), w') \<and>
    later w w' \<and>
    holders (db w') = snd (acquire owner [] keys (live (handle_Provider w) (clk w (tick w)) (db w)))"
proof -
  let ?t = "clk w (tick w)" and ?m = "live (handle_Provider w) (clk w (tick w)) (db w)"
  from expire_runs [OF ready_step [OF assms(1)], of ?t] obtain w1 where
    one: "expireOperationReservations ?t (step_tick w) = (Inr (), w1)" "later (step_tick w) w1"
      "holders (db w1) = ?m" by auto
  then have w1: "ready w1" "later w w1" by (simp_all add: later_def)
  from reserve_keys_refines [OF w1(1), of owner "if ttl \<le> 0 then 5 * minute else ttl" ?t "[]" keys, unfolded one(3)]
  obtain w' where "reserve_keys owner (if ttl \<le> 0 then 5 * minute else ttl) ?t [] keys w1 =
       (fst (acquire owner [] keys ?m), w')" "later w1 w'" "holders (db w') = snd (acquire owner [] keys ?m)" by blast
  with one(1) assms(2) later_trans [OF w1(2)] show ?thesis
    by (intro exI [of _ w']) (simp add: ReserveOperationKeys_def Let_def andThen_Inr_eq)
qed

section \<open>What the abstract call does\<close>

definition wanted :: "bytes list \<Rightarrow> bytes list" where
  "wanted keys = filter (\<lambda>k. k \<noteq> []) (map trim_space keys)"

lemma acquire_success:
  assumes "acquire owner held keys m = (Inr got, m')"
  shows "got = held @ wanted keys" and "m' = (\<lambda>k. if k \<in> set (wanted keys) then Some owner else m k)"
    and "\<forall>k \<in> set (wanted keys). m k = None \<or> m k = Some owner"
  using assms
proof (induction keys arbitrary: held m)
  case Nil
  { case 1 then show ?case by (simp add: wanted_def) }
  { case 2 then show ?case by (simp add: wanted_def) }
  { case 3 then show ?case by (simp add: wanted_def) }
next
  case (Cons key keys)
  { case 1 with Cons.IH(1) show ?case
      by (force simp: wanted_def Let_def split: if_splits option.splits) }
  { case 2 with Cons.IH(2) show ?case
      by (force simp: wanted_def Let_def split: if_splits option.splits) }
  { case 3 with Cons.IH(3) show ?case
      by (force simp: wanted_def Let_def split: if_splits option.splits) }
qed

lemma acquire_conflict_key:
  "acquire owner held keys m = (Inl e, m') \<Longrightarrow> \<exists>key other. e = EReservationConflict key other \<and>
     key \<in> set (wanted keys) \<and> other \<noteq> owner \<and> m key = Some other"
proof (induction keys arbitrary: held m)
  case (Cons key keys)
  show ?case
  proof (cases "m (trim_space key)")
    case None
    with Cons.prems have "trim_space key \<noteq> [] \<Longrightarrow>
        acquire owner (held @ [trim_space key]) keys (m(trim_space key \<mapsto> owner)) = (Inl e, m')"
      by (simp add: Let_def)
    from Cons.IH [OF this] Cons.IH [of held m] Cons.prems show ?thesis
      by (cases "trim_space key = []") (fastforce simp: wanted_def Let_def split: if_splits)+
  next
    case (Some other)
    with Cons.prems Cons.IH [of "held @ [trim_space key]" m] Cons.IH [of held m] show ?thesis
      by (fastforce simp: wanted_def Let_def split: if_splits)
  qed
qed simp

lemma acquire_conflict_gives_up:
  "acquire owner held keys m = (Inl e, m') \<Longrightarrow> m' k = Some owner \<Longrightarrow> k \<notin> set held \<and> m k = Some owner"
proof (induction keys arbitrary: held m)
  case (Cons key0 keys)
  let ?key = "trim_space key0"
  consider "?key = []" | "?key \<noteq> []" "m ?key = None" | "?key \<noteq> []" "m ?key = Some owner"
    | other where "?key \<noteq> []" "m ?key = Some other" "other \<noteq> owner" by fastforce
  then show ?case
  proof cases
    case 1
    with Cons show ?thesis by simp
  next
    case 2
    then have "acquire owner (held @ [?key]) keys (m(?key \<mapsto> owner)) = (Inl e, m')"
      using Cons.prems(1) by (simp add: Let_def)
    from Cons.IH [OF this Cons.prems(2)] show ?thesis by (auto split: if_splits)
  next
    case 3
    then have "acquire owner (held @ [?key]) keys m = (Inl e, m')"
      using Cons.prems(1) by (simp add: Let_def)
    from Cons.IH [OF this Cons.prems(2)] show ?thesis by simp
  next
    case 4
    then show ?thesis using Cons.prems by (auto simp: Let_def dropped_def split: if_splits)
  qed
qed simp

lemma acquire_conflict_keeps:
  "acquire owner held keys m = (Inl e, m') \<Longrightarrow> m' k = m k \<or> m' k = None \<and> m k = Some owner"
proof (induction keys arbitrary: held m)
  case (Cons key0 keys)
  let ?key = "trim_space key0"
  show ?case
  proof (cases "?key \<noteq> [] \<and> m ?key = None")
    case True
    with Cons.prems have run: "acquire owner (held @ [?key]) keys (m(?key \<mapsto> owner)) = (Inl e, m')"
      by (simp add: Let_def)
    from Cons.IH [OF run] acquire_conflict_gives_up [OF run, of k] True show ?thesis
      by (auto split: if_splits)
  next
    case False
    with Cons.prems Cons.IH show ?thesis
      by (fastforce simp: dropped_def Let_def split: if_splits option.splits)
  qed
qed simp

text \<open>
  C29: where nothing fails, a call that reserves keys gets all of them or none. Either each key was free
  or the caller's own, and the caller now holds each of them and nobody else's reservation has changed;
  or a key belongs to somebody else, the call says so, and the table has lost reservations of the
  caller only.
\<close>

theorem ReserveOperationKeys_all_or_nothing:
  assumes "ready w" and "\<not> blank owner"
  shows "\<exists>r w'. ReserveOperationKeys owner ttl keys w = (r, w') \<and> later w w' \<and>
    (let m = live (handle_Provider w) (clk w (tick w)) (db w); m' = holders (db w') in
       r = Inr (wanted keys) \<and> (\<forall>k \<in> set (wanted keys). m k = None \<or> m k = Some owner) \<and>
         m' = (\<lambda>k. if k \<in> set (wanted keys) then Some owner else m k) \<or>
       (\<exists>key other. r = Inl (EReservationConflict key other) \<and> key \<in> set (wanted keys) \<and>
          m key = Some other \<and> other \<noteq> owner \<and>
          (\<forall>k. m' k = m k \<or> m' k = None \<and> m k = Some owner)))"
proof -
  let ?m = "live (handle_Provider w) (clk w (tick w)) (db w)"
  obtain r m' where run: "acquire owner [] keys ?m = (r, m')" by (cases "acquire owner [] keys ?m")
  from ReserveOperationKeys_refines [OF assms, of ttl keys] run obtain w' where
    w': "ReserveOperationKeys owner ttl keys w = (r, w')" "later w w'" "holders (db w') = m'" by auto
  show ?thesis
  proof (cases r)
    case (Inl e)
    with acquire_conflict_key [of owner "[]" keys ?m e m'] acquire_conflict_keeps [of owner "[]" keys ?m e m'] run
    have "\<exists>key other. r = Inl (EReservationConflict key other) \<and> key \<in> set (wanted keys) \<and>
        ?m key = Some other \<and> other \<noteq> owner" "\<forall>k. m' k = ?m k \<or> m' k = None \<and> ?m k = Some owner"
      by blast+
    with w' show ?thesis by (intro exI [of _ r] exI [of _ w']) (simp add: Let_def)
  next
    case (Inr got)
    with acquire_success [of owner "[]" keys ?m got m'] run
    have "r = Inr (wanted keys)" "\<forall>k \<in> set (wanted keys). ?m k = None \<or> ?m k = Some owner"
      "m' = (\<lambda>k. if k \<in> set (wanted keys) then Some owner else ?m k)" by simp_all
    with w' show ?thesis by (intro exI [of _ r] exI [of _ w']) (simp add: Let_def)
  qed
qed

definition registry_world :: "registry \<Rightarrow> registry world" where
  "registry_world d = \<lparr>db = d, handle_Provider = ''sqlite'', clk = (\<lambda>_. 0), flt = (\<lambda>_. NoFault),
     ent = (\<lambda>n. replicate n CHR ''x''), tick = 0\<rparr>"

lemma registry_world_simps [simp]:
  "db (registry_world d) = d" "calm (registry_world d)" "tick (registry_world d) = 0"
  "handle_Provider (registry_world d) = ''sqlite''" "clk (registry_world d) n = 0"
  "ent (registry_world d) n = replicate n CHR ''x''"
  by (simp_all add: registry_world_def calm_def)

definition sample_reservation :: "bytes \<Rightarrow> bytes \<Rightarrow> instant \<Rightarrow> reservation_row" where
  "sample_reservation key owner expires =
     \<lparr>rs_id = key, rs_key = key, rs_owner = owner, rs_status = Held, rs_created_at = Trimmed 0,
      rs_expires_at = Trimmed expires, rs_released_at = None\<rparr>"

definition sample_reservations :: registry where
  "sample_reservations =
     empty_registry\<lparr>reservations := [sample_reservation ''k1'' ''a'' minute, sample_reservation ''k2'' ''b'' minute]\<rparr>"

lemma sample_reservations_ready: "ready (registry_world sample_reservations)"
proof -
  have "registry_ok sample_reservations" by code_simp
  moreover have "inj (\<lambda>n. replicate n CHR ''x'')" by (rule injI) (metis length_replicate)
  ultimately show ?thesis
    by (simp add: ready_def fresh_reservations_def sample_reservations_def sample_reservation_def
        registry_world_def calm_def)
qed

text \<open>Of two keys the second is taken: the caller gives its own first one up.\<close>

lemma ReserveOperationKeys_all_or_nothing_witness:
  "\<exists>w'. ReserveOperationKeys ''a'' minute ['' k1 '', ''k2''] (registry_world sample_reservations) =
       (Inl (EReservationConflict ''k2'' ''b''), w') \<and>
     holders (db w') ''k2'' = Some ''b'' \<and> holders (db w') ''k3'' = None"
proof -
  let ?w = "registry_world sample_reservations"
  have m: "live ''sqlite'' 0 sample_reservations ''k1'' = Some ''a''"
    "live ''sqlite'' 0 sample_reservations ''k2'' = Some ''b''"
    "live ''sqlite'' 0 sample_reservations ''k3'' = None"
    "wanted ['' k1 '', ''k2''] = [''k1'', ''k2'']" by code_simp+
  have "\<not> blank ''a''" by code_simp
  from ReserveOperationKeys_all_or_nothing [OF sample_reservations_ready this, of minute "['' k1 '', ''k2'']"] m
  obtain w' where w': "ReserveOperationKeys ''a'' minute ['' k1 '', ''k2''] ?w = (Inl (EReservationConflict ''k2'' ''b''), w')"
    "\<forall>k. holders (db w') k = live ''sqlite'' 0 sample_reservations k \<or>
       holders (db w') k = None \<and> live ''sqlite'' 0 sample_reservations k = Some ''a''"
    by (auto simp: Let_def)
  with m spec [OF w'(2), of "''k2''"] spec [OF w'(2), of "''k3''"] show ?thesis
    by (intro exI [of _ w']) simp
qed

section \<open>The order of time stamps\<close>

lemma pad_digits_numeral:
  "pad_digits (numeral k) n = pad_digits (pred_numeral k) (n div 10) @ [char_of (48 + n mod 10)]"
  by (simp only: numeral_eq_Suc [of k] pad_digits.simps)

lemma half_second_text: "formatTimeNano 500000000 = ''1970-01-01T00:00:00.5Z''"
proof -
  have "civil_from_days 0 = (1970, 1, 1)" by code_simp
  moreover have "pad_digits 2 0 = ''00''" "pad_digits 2 (Suc 0) = ''01''" "pad_digits 4 1970 = ''1970''"
    "pad_digits 9 500000000 = ''500000000''"
    by (simp_all add: pad_digits_numeral char_of_def bit_0)
  ultimately have full: "formatTime 500000000 = ''1970-01-01T00:00:00.500000000Z''"
    by (simp add: formatTime_def Let_def)
  show ?thesis unfolding formatTimeNano_def full by code_simp
qed

lemma epoch_text: "formatTimeNano 0 = ''1970-01-01T00:00:00Z''"
  unfolding formatTimeNano_def formatTime_epoch by code_simp

text \<open>
  On SQLite a reservation can expire before its time. The texts this package writes have no
  trailing zeros, so that half a second after a whole one sorts before it; PostgreSQL compares the
  instants.
\<close>

theorem reservation_expires_early:
  "due ''sqlite'' 0 (sample_reservation ''k'' ''a'' 500000000) \<and>
   \<not> due ''postgres'' 0 (sample_reservation ''k'' ''a'' 500000000)"
proof -
  have "''1970-01-01T00:00:00.5Z'' \<le> ''1970-01-01T00:00:00Z''" by code_simp
  then show ?thesis
    by (simp add: due_def stamp_key_def sample_reservation_def half_second_text epoch_text)
qed

end
