(* ===== verification/Repo_Facts.thy ===== *)
theory Repo_Facts
  imports Repo_Identity Scanner_Facts
begin

text \<open>
  What the repository component promises of the names it accepts: a target directory stays within its
  root path, symbolic links resolved; a full path is a list of plain names; a clone URL carries no
  credentials; and which identities share a reservation key.
\<close>

section \<open>Documented behaviour of the environment\<close>

text \<open>\<open>filepath.EvalSymlinks\<close> of an absolute path is a clean absolute path.\<close>

definition resolves :: "machine \<Rightarrow> bool" where
  "resolves m \<longleftrightarrow>
     (\<forall>p q. is_abs p \<and> m_EvalSymlinks m p = Inr q \<longrightarrow> (\<exists>es. (\<forall>e \<in> set es. plain e) \<and> q = abs_path es))"

text \<open>ASCII is its own normal form C.\<close>

definition nfc_ascii :: "machine \<Rightarrow> bool" where
  "nfc_ascii m \<longleftrightarrow> (\<forall>s. is_ascii s \<longrightarrow> m_NFC m s = s)"

text \<open>A machine without symbolic links, on which only ASCII names occur.\<close>

definition plain_machine :: machine where
  "plain_machine = \<lparr>m_NFC = (\<lambda>s. s), m_ucase = (\<lambda>s. s),
     m_EvalSymlinks = (\<lambda>p. if p = ''/srv'' then Inr ''/srv'' else Inl NotExists),
     m_IsDir = (\<lambda>_. Some True), m_CreateTemp = (\<lambda>_. None), m_StatWhileProbing = (\<lambda>_. False)\<rparr>"

lemma plain_machine_documented: "resolves plain_machine" "nfc_ascii plain_machine"
proof -
  have "''/srv'' = abs_path [''srv'']" by (simp add: abs_path_def)
  moreover have "plain ''srv''" by (simp add: plain_def)
  ultimately have "\<exists>es. (\<forall>e \<in> set es. plain e) \<and> ''/srv'' = abs_path es"
    by (intro exI [of _ "[''srv'']"]) simp
  then show "resolves plain_machine" by (auto simp: resolves_def plain_machine_def)
  show "nfc_ascii plain_machine" by (simp add: nfc_ascii_def plain_machine_def)
qed

section \<open>Targets stay within their root\<close>

lemma normalizeAbsPath_form:
  assumes "normalizeAbsPath p = Inr q"
  shows "\<exists>es. (\<forall>e \<in> set es. plain e) \<and> q = abs_path es"
proof -
  have abs: "has_prefix (trim_space p) [slash]" and q: "q = clean (clean (trim_space p))"
    using assms by (auto simp: normalizeAbsPath_def is_abs_def Let_def split: if_splits)
  then have "q = abs_path (clean_elems (trim_space p))"
    by (simp add: clean_idempotent_abs) (simp add: clean_absolute)
  then show ?thesis using clean_elems_plain by blast
qed

lemma resolve_form:
  assumes "resolves m" and "resolvePathWithExistingPrefix fuel m path = Some (Inr root)"
  shows "\<exists>rs. (\<forall>e \<in> set rs. plain e) \<and> root = abs_path rs"
proof -
  have loop: "existing_prefix f m path missing current = Some (Inr root) \<Longrightarrow> ?thesis" for f missing current
    by (induction f arbitrary: missing current)
      (auto simp: Let_def normalizeAbsPath_form split: sum.splits path_error.splits if_splits)
  show ?thesis
    using assms(2) loop normalizeAbsPath_form
    by (auto simp: resolvePathWithExistingPrefix_def split: sum.splits path_error.splits)
qed

lemma rel_within:
  assumes "\<forall>e \<in> set rs. plain e" and "\<forall>e \<in> set es. plain e" and "es \<noteq> []"
  shows "rel (abs_path rs) (abs_path (rs @ es)) = Some (rel_path es)"
proof -
  have "\<forall>e \<in> set (rs @ es). plain e" using assms by auto
  from rel_abs [OF assms(1) this] show ?thesis using assms(3) by (simp add: rel_path_def)
qed

lemma NormalizeTarget_within:
  assumes "resolves m" and "NormalizeTarget fuel m rootPath target = Some (Inr (r, local))"
  shows "\<exists>rs es root0. (\<forall>e \<in> set (rs @ es). plain e) \<and> normalizeAbsPath rootPath = Inr root0 \<and>
    resolvePathWithExistingPrefix fuel m root0 = Some (Inr (abs_path rs)) \<and>
    local = abs_path (rs @ es) \<and> r = (if es = [] then ''.'' else rel_path es)"
proof -
  from assms(2) obtain root0 root local0 where
    r0: "normalizeAbsPath rootPath = Inr root0"
    and res: "resolvePathWithExistingPrefix fuel m root0 = Some (Inr root)"
    and loc: "normalizeAbsPath local0 = Inr local" and within: "withinRoot root local"
    and r: "rel root local = Some r"
    by (auto simp: NormalizeTarget_def split: sum.splits option.splits if_splits)
  obtain rs where rs: "\<forall>e \<in> set rs. plain e" "root = abs_path rs" using resolve_form [OF assms(1) res] by blast
  obtain ts where ts: "\<forall>e \<in> set ts. plain e" "local = abs_path ts" using normalizeAbsPath_form [OF loc] by blast
  obtain es where es: "ts = rs @ es" using within withinRoot_abs [OF rs(1) ts(1)] rs(2) ts(2) by auto
  then have pl: "\<forall>e \<in> set (rs @ es). plain e" using ts(1) by simp
  have "r = (if es = [] then ''.'' else rel_path es)"
  proof (cases "es = []")
    case True
    then show ?thesis using r rs ts es by (simp add: rel_def)
  next
    case False
    then show ?thesis using r rs(2) ts(2) es rel_within [OF rs(1), of es] pl by auto
  qed
  with r0 res rs(2) ts(2) es pl show ?thesis by blast
qed



section \<open>The search for an existing ancestor ends\<close>

lemma existing_prefix_ends:
  assumes "\<forall>e \<in> set ps. plain e" and "length ps < fuel"
  shows "existing_prefix fuel m path missing (abs_path ps) \<noteq> None"
  using assms
proof (induction ps arbitrary: fuel missing rule: rev_induct)
  case Nil
  then show ?case
    using path_dir_abs [of "[]"] by (cases fuel) (auto split: sum.split path_error.split)
next
  case (snoc p ps)
  obtain f where f: "fuel = Suc f" "length ps < f" using snoc.prems(2) by (cases fuel) auto
  have "path_dir (abs_path (ps @ [p])) = abs_path ps" using path_dir_abs [OF snoc.prems(1)] by simp
  then show ?case using snoc.IH [of f] snoc.prems(1) f by (auto simp: Let_def split: sum.split path_error.split)
qed

text \<open>
  C35: the normalisation of a target always returns: with more turns than the root path has elements,
  the search for the ancestor that exists has ended.
\<close>

theorem NormalizeTarget_returns:
  assumes "\<And>root0. normalizeAbsPath rootPath = Inr root0 \<Longrightarrow> length (clean_elems root0) < fuel"
  shows "NormalizeTarget fuel m rootPath target \<noteq> None"
proof (cases "normalizeAbsPath rootPath")
  case (Inl e)
  then show ?thesis by (simp add: NormalizeTarget_def)
next
  case (Inr root0)
  obtain ps where ps: "\<forall>e \<in> set ps. plain e" "root0 = abs_path ps" using normalizeAbsPath_form [OF Inr] by blast
  then have "existing_prefix fuel m root0 [] root0 \<noteq> None"
    using existing_prefix_ends [OF ps(1)] assms [OF Inr] clean_elems_abs [OF ps(1)] by simp
  then have "resolvePathWithExistingPrefix fuel m root0 \<noteq> None"
    by (auto simp: resolvePathWithExistingPrefix_def split: sum.split path_error.split)
  with Inr show ?thesis
    by (auto simp: NormalizeTarget_def split: sum.split option.split)
qed

lemma NormalizeTarget_returns_witness:
  "NormalizeTarget 3 plain_machine ''/srv/new'' ''app'' \<noteq> None"
proof (rule NormalizeTarget_returns)
  fix root0 assume "normalizeAbsPath ''/srv/new'' = Inr root0"
  moreover have "normalizeAbsPath ''/srv/new'' = Inr ''/srv/new''" by code_simp
  ultimately have "root0 = ''/srv/new''" by simp
  moreover have "length (clean_elems ''/srv/new'') < 3" by code_simp
  ultimately show "length (clean_elems root0) < 3" by simp
qed

section \<open>Full paths\<close>

lemma has_control_append: "has_control a \<Longrightarrow> has_control (a @ b)"
proof (induction a)
  case Nil
  then show ?case by simp
next
  case (Cons c a)
  then show ?case by (cases a) auto
qed

lemma trim_suffix_prefix: "\<exists>b. s = trim_suffix s p @ b"
  by (cases "has_suffix s p") (auto simp: has_suffix_iff trim_suffix_def)

lemma parts_plain:
  assumes "\<not> list_ex (\<lambda>part. part = [] \<or> part = ''.'' \<or> part = ''..'') (split v slash)"
  shows "(\<forall>e \<in> set (split v slash). plain e) \<and> v = rel_path (split v slash)"
  using assms split_parts_no_sep
  by (auto simp: list_ex_iff plain_def rel_path_def join_split)

text \<open>
  An accepted full path is a list of plain names, so it never leaves the directory it is joined
  to; it has no control character and no backslash, and for GitHub it is an owner and a name.
\<close>

theorem NormalizeFullPath_plain:
  assumes "NormalizeFullPath m provider v = Inr path"
  shows "\<exists>es. es \<noteq> [] \<and> (\<forall>e \<in> set es. plain e) \<and> path = rel_path es \<and> \<not> has_control path \<and>
    CHR 0x5C \<notin> set path \<and>
    (\<exists>adapter. adapterForProvider m provider = Inr adapter \<and>
       (pa_provider adapter = ProviderGitHub \<longrightarrow> length es = 2))"
proof -
  obtain adapter where a: "adapterForProvider m provider = Inr adapter"
    using assms by (auto simp: NormalizeFullPath_def split: sum.splits)
  let ?v0 = "m_NFC m (trim_space v)" and ?p = "trim_suffix (m_NFC m (trim_space v)) ''.git''"
  have c: "\<not> has_control ?v0" "CHR 0x5C \<notin> set ?v0" "path = ?p"
    "\<not> list_ex (\<lambda>part. part = [] \<or> part = ''.'' \<or> part = ''..'') (split ?p slash)"
    "pa_provider adapter = ProviderGitHub \<Longrightarrow> length (split ?p slash) = 2"
    using assms a by (auto simp: NormalizeFullPath_def Let_def split: if_splits)
  obtain b where b: "?v0 = ?p @ b" using trim_suffix_prefix by blast
  then have "\<not> has_control path" using c(1,3) has_control_append by metis
  moreover have "CHR 0x5C \<notin> set path" using c(2,3) b by (metis Un_iff set_append)
  ultimately show ?thesis
    using parts_plain [OF c(4)] c(3,5) a by (intro exI [of _ "split ?p slash"]) auto
qed

lemma NormalizeFullPath_plain_witness:
  "NormalizeFullPath plain_machine ''github'' ''acme/infra.git'' = Inr ''acme/infra'' \<and>
   (\<exists>es. (\<exists>adapter. adapterForProvider plain_machine ''github'' = Inr adapter) \<and> ''acme/infra'' = rel_path es)"
proof -
  have "NormalizeFullPath plain_machine ''github'' ''acme/infra.git'' = Inr ''acme/infra''" by code_simp
  with NormalizeFullPath_plain [OF this] show ?thesis by blast
qed

section \<open>No credentials in an identity\<close>

lemma cut_last_Some: "cut_last s c = Some (a, b) \<Longrightarrow> s = a @ c # b"
  by (auto simp: cut_last_def dest!: cut_Some) (metis append.assoc append_Cons append_Nil rev_append rev_rev_ident rev_singleton_conv rev.simps(2))

lemma SplitHostPort_subset:
  assumes "SplitHostPort s = Some (host, port)"
  shows "set host \<subseteq> set s"
proof -
  obtain front port0 where f: "cut_last s (CHR '':'') = Some (front, port0)"
    using assms by (auto simp: SplitHostPort_def split: option.splits)
  then have s: "s = front @ CHR '':'' # port0" by (rule cut_last_Some)
  show ?thesis
  proof (cases "has_prefix s ''[''")
    case True
    then obtain open_host rest where c: "cut s (CHR '']'') = Some (open_host, rest)" "host = tl open_host"
      using assms f by (auto simp: SplitHostPort_def split: option.splits if_splits)
    have "set (tl open_host) \<subseteq> set open_host" by (cases open_host) auto
    then show ?thesis using cut_Some [OF c(1)] c(2) by auto
  next
    case False
    then show ?thesis using assms f s by (auto simp: SplitHostPort_def split: if_splits)
  qed
qed

lemma normal_host:
  assumes "normalizeProviderHostForProtocol m h protocol = Inr host"
  shows "CHR ''@'' \<notin> set host \<and> slash \<notin> set host"
proof -
  let ?v = "ToLower m (trim_space h)"
  have sub: "set host' \<subseteq> set ?v" if "splitHostPortLenient ?v = Some (host', port)" for host' port
  proof (cases "SplitHostPort ?v")
    case None
    then have "cut ?v (CHR '':'') = Some (host', port)"
      using that by (auto simp: splitHostPortLenient_def split: option.splits if_splits)
    then show ?thesis by (auto dest!: cut_Some)
  next
    case (Some p)
    obtain h0 p0 where p: "p = (h0, p0)" by (cases p)
    have trim: "set (trim_chars s cs) \<subseteq> set s" for s cs
      by (auto simp: trim_chars_def dest!: set_dropWhileD)
    have "set h0 \<subseteq> set ?v" using Some SplitHostPort_subset unfolding p by blast
    then show ?thesis using that Some p trim by (auto simp: splitHostPortLenient_def)
  qed
  show ?thesis
  proof (cases "?v = []")
    case True
    then show ?thesis using assms by (simp add: normalizeProviderHostForProtocol_def)
  next
    case False
    then have clear: "CHR ''@'' \<notin> set ?v" "slash \<notin> set ?v"
      and host: "host = ?v \<or> (\<exists>port. splitHostPortLenient ?v = Some (host, port))"
      using assms
      by (auto simp: normalizeProviderHostForProtocol_def Let_def split: if_splits option.splits)
    then show ?thesis using sub by blast
  qed
qed

text \<open>
  C36: an identity that was read from a clone URL carries no credentials: its host has neither an at
  sign nor a slash, and its own clone URL is either a local path or made anew from the host and the
  path; a user part of the text is dropped or was refused.
\<close>

theorem ParseCloneURL_without_credentials:
  assumes "ParseCloneURL m provider raw = Inr i"
  shows "CHR ''@'' \<notin> set (id_ProviderHost i) \<and> slash \<notin> set (id_ProviderHost i) \<and>
    (id_ProviderHost i = ''local'' \<and> is_abs (id_CloneURL i) \<or>
     id_CloneURL i = TransportURL (id_Provider i) (id_ProviderHost i) (id_FullPath i) (id_Protocol i))"
proof -
  have host: ?thesis if "identityFromHostPath m p h path protocol = Inr i" for p h path protocol
    using that normal_host by (auto simp: identityFromHostPath_def split: sum.splits)
  have local: ?thesis if g: "genericLocalPathIdentity m p = Inr i" for p
  proof -
    obtain cleaned fp where c: "normalizeAbsPath p = Inr cleaned"
      and i: "i = \<lparr>id_Provider = ProviderGeneric, id_ProviderHost = ''local'', id_FullPath = fp,
                    id_CloneURL = cleaned, id_Protocol = ProtocolHTTPS\<rparr>"
      using g by (auto simp: genericLocalPathIdentity_def split: sum.splits)
    then have "is_abs cleaned" using normalizeAbsPath_form [OF c] by (auto simp: is_abs_def)
    with i show ?thesis by simp
  qed
  have url: ?thesis if "identity_of_url m p u = Inr i" for p u
    using that host local by (auto simp: identity_of_url_def split: if_splits)
  have short: ?thesis
    if "(if b then (case cut r slash of Some (h, path) \<Rightarrow> identityFromHostPath m p h path ProtocolHTTPS
            | None \<Rightarrow> Inl unsupported_url) else Inl unsupported_url) = Inr i" for b r p
    using that host by (auto split: if_splits option.splits)
  obtain adapter where "adapterForProvider m provider = Inr adapter"
    using assms by (auto simp: ParseCloneURL_def split: sum.splits)
  then show ?thesis
    using assms host local url short unfolding ParseCloneURL_def Let_def
    by (simp only: sum.case split: if_splits option.splits) (auto split: prod.splits)
qed

lemma ParseCloneURL_without_credentials_witness:
  "\<exists>i. ParseCloneURL plain_machine ''github'' ''ssh://git@github.com/acme/infra.git'' = Inr i \<and>
     id_CloneURL i = ''git@github.com:acme/infra.git'' \<and> CHR ''@'' \<notin> set (id_ProviderHost i)"
proof -
  let ?i = "\<lparr>id_Provider = ''github'', id_ProviderHost = ''github.com'', id_FullPath = ''acme/infra'',
    id_CloneURL = ''git@github.com:acme/infra.git'', id_Protocol = ''ssh''\<rparr>"
  have "ParseCloneURL plain_machine ''github'' ''ssh://git@github.com/acme/infra.git'' = Inr ?i" by code_simp
  from ParseCloneURL_without_credentials [OF this] this show ?thesis by (intro exI [of _ ?i]) simp
qed

section \<open>Reservation keys\<close>

text \<open>
  Identities of hosts without a port share a reservation key only if they are the same.
\<close>

theorem IdentityReservationKey_injective:
  assumes "CHR '':'' \<notin> set p" and "CHR '':'' \<notin> set p'" and "CHR '':'' \<notin> set h" and "CHR '':'' \<notin> set h'"
    and "IdentityReservationKey p h path = IdentityReservationKey p' h' path'"
  shows "p = p' \<and> h = h' \<and> path = path'"
proof -
  have eq: "p @ CHR '':'' # h @ CHR '':'' # path = p' @ CHR '':'' # h' @ CHR '':'' # path'"
    using assms(5) by (simp add: IdentityReservationKey_def)
  have "cut (p @ CHR '':'' # h @ CHR '':'' # path) (CHR '':'') = Some (p, h @ CHR '':'' # path)"
    "cut (p' @ CHR '':'' # h' @ CHR '':'' # path') (CHR '':'') = Some (p', h' @ CHR '':'' # path')"
    "cut (h @ CHR '':'' # path) (CHR '':'') = Some (h, path)"
    "cut (h' @ CHR '':'' # path') (CHR '':'') = Some (h', path')"
    by (rule cut_append, fact)+
  then show ?thesis using eq by (metis option.inject prod.inject)
qed

lemma IdentityReservationKey_injective_witness:
  "IdentityReservationKey ''github'' ''github.com'' ''a/b'' \<noteq> IdentityReservationKey ''github'' ''github.com'' ''a/c''"
  using IdentityReservationKey_injective [of "''github''" "''github''" "''github.com''" "''github.com''"
      "''a/b''" "''a/c''"] by fastforce

text \<open>With a port the key is ambiguous: the port of one host is the path's beginning of another.\<close>

lemma reservation_key_collision:
  "IdentityReservationKey ''generic'' ''git.example:8443'' ''a/b'' =
   IdentityReservationKey ''generic'' ''git.example'' ''8443:a/b''"
  "NormalizeFullPath plain_machine ''generic'' ''8443:a/b'' = Inr ''8443:a/b''"
  by code_simp+

text \<open>
  The suffix \<open>.git\<close> is taken off twice when the path comes from the clone URL: the identity of the
  request names, and its transport URL clones, a different repository than the URL of the request.
\<close>

theorem NormalizeIdentity_strips_twice:
  "NormalizeIdentity plain_machine
     \<lparr>cr_ProviderInstanceID = [], cr_Provider = ''generic'', cr_ProviderHost = [], cr_CredentialID = [],
      cr_Protocol = ''https'', cr_CloneURL = ''https://git.example/o/x.git.git'', cr_GroupPath = [],
      cr_CloneScope = [], cr_FullPath = [], cr_RootPathID = [], cr_NewRootPath = [],
      cr_TargetDirectory = [], cr_NewTargetDirectory = []\<rparr> None =
   Inr \<lparr>id_Provider = ''generic'', id_ProviderHost = ''git.example'', id_FullPath = ''o/x'',
        id_CloneURL = ''https://git.example/o/x.git'', id_Protocol = ''https''\<rparr> \<and>
   map_sum (\<lambda>e. e) id_FullPath (ParseCloneURL plain_machine ''generic'' ''https://git.example/o/x.git.git'') =
   Inr ''o/x.git''"
  by code_simp

end
