(* ===== verification/Card_Facts.thy ===== *)
theory Card_Facts
  imports Registry_Contract Reservation_Facts Repo_Facts
begin

text \<open>
  The repository cards: what \<open>UpsertRepositoryForClone\<close> makes of the card of a repository and of the
  local card that stood for the same directory, and what later scans do to the cards.
\<close>

section \<open>Lookups\<close>

definition same_identity :: "Identity \<Rightarrow> repository_row \<Rightarrow> bool" where
  "same_identity identity r \<longleftrightarrow>
     rr_provider r = id_Provider identity \<and> rr_provider_host r = id_ProviderHost identity \<and>
     rr_full_path r = id_FullPath identity"

definition stands_at :: "bytes \<Rightarrow> bytes \<Rightarrow> repository_row \<Rightarrow> bool" where
  "stands_at rt localPath r \<longleftrightarrow>
     rr_provider r = ''generic'' \<and> rr_provider_host r = ''local'' \<and> rr_root_path_id r = Some rt \<and>
     rr_local_path r = Some localPath \<and> rr_status r = ''active''"

definition identity_card :: "Identity \<Rightarrow> registry \<Rightarrow> repository_row option" where
  "identity_card identity d = first_row (filter (same_identity identity) (repositories d))"

definition local_card_at :: "bytes \<Rightarrow> bytes \<Rightarrow> registry \<Rightarrow> repository_row option" where
  "local_card_at rt localPath d = first_row (filter (stands_at rt localPath) (repositories d))"

lemma identity_card_Some: "identity_card identity d = Some r \<Longrightarrow> r \<in> set (repositories d) \<and> same_identity identity r"
  by (auto simp: identity_card_def dest!: first_row_in)

lemma local_card_at_Some:
  "local_card_at rt localPath d = Some r \<Longrightarrow> r \<in> set (repositories d) \<and> stands_at rt localPath r"
  by (auto simp: local_card_at_def dest!: first_row_in)

text \<open>A lookup that may find nothing: an error, with nothing changed, or the row.\<close>

lemma maybe_fetch:
  "(\<exists>w1. maybe (fetch scan q) f w = (Inl fault_error, w1) \<and> db w1 = db w) \<or>
   (\<exists>w1. maybe (fetch scan q) f w = f (map_option scan (first_row (q (db w)))) w1 \<and> db w1 = db w)"
proof (cases "flt w (tick w) = NoFault")
  case True
  then show ?thesis
    by (intro disjI2 exI [of _ "step_tick w"])
      (auto simp: maybe_def fetch_def outcome_def andThen_def query_def ret_def fail_def split: option.split)
next
  case False
  then show ?thesis
    by (intro disjI1 exI [of _ "step_tick w"])
      (auto simp: maybe_def fetch_def outcome_def andThen_def query_def ret_def fail_def fault_error_def)
qed

lemma findRepository_eq:
  "findRepository (id_Provider identity) (id_ProviderHost identity) (id_FullPath identity) =
     fetch scanRepository (\<lambda>d. filter (same_identity identity) (repositories d))"
  by (simp add: findRepository_def same_identity_def [abs_def])

lemma findLocal_eq:
  "findGenericRepositoryByLocalPath rt localPath =
     fetch scanRepository (\<lambda>d. filter (stands_at rt localPath) (repositories d))"
  by (simp add: findGenericRepositoryByLocalPath_def stands_at_def [abs_def])

section \<open>The transaction\<close>

definition superseding :: "bytes \<Rightarrow> bytes \<Rightarrow> instant \<Rightarrow> registry \<Rightarrow> registry" where
  "superseding g c t d =
     d\<lparr>projects := update_where (\<lambda>r. pj_repository_id r = Some g)
         (\<lambda>r. r\<lparr>pj_repository_id := Some c, pj_updated_at := Trimmed t\<rparr>) (projects d),
       project_links := update_where (\<lambda>r. pl_repository_id r = Some g)
         (\<lambda>r. r\<lparr>pl_repository_id := Some c, pl_updated_at := Trimmed t\<rparr>) (project_links d),
       repositories := update_where (\<lambda>r. rr_id r = g)
         (\<lambda>r. r\<lparr>rr_status := ''superseded'', rr_superseded_by := Some c, rr_updated_at := Trimmed t\<rparr>)
         (repositories d)\<rparr>"

lemma supersede_Inr:
  "supersedeGenericRepository g c t w = (Inr (), w') \<Longrightarrow> db w' = superseding g c t (db w)"
  by (auto simp: supersedeGenericRepository_def andThen_Inr_iff exec_Inr_iff superseding_def statement_defs)

text \<open>What the committed transaction has done: the card in place, or a new one.\<close>

definition recorded :: "bytes \<Rightarrow> (repository_row \<Rightarrow> repository_row) \<Rightarrow> registry \<Rightarrow> registry" where
  "recorded i f d = d\<lparr>repositories := update_where (\<lambda>r. rr_id r = i) f (repositories d)\<rparr>"

definition clone_effect ::
    "Identity \<Rightarrow> repository_row option \<Rightarrow> repository_row option \<Rightarrow> bytes \<Rightarrow> bytes \<Rightarrow> bytes \<Rightarrow> bytes \<Rightarrow> bytes \<Rightarrow>
     instant \<Rightarrow> bytes \<Rightarrow> registry \<Rightarrow> registry" where
  "clone_effect identity existing local rt target localPath inst cred t i d =
     (let write = set_clone identity rt target localPath inst cred t
      in case existing of
           Some c \<Rightarrow>
             (let d1 = recorded i write d
              in case local of
                   Some g \<Rightarrow> if rr_id g \<noteq> i then superseding (rr_id g) i t d1 else d1
                 | None \<Rightarrow> d1)
         | None \<Rightarrow>
             (case local of
                Some g \<Rightarrow> recorded i (\<lambda>r. set_identity identity (write r)) d
              | None \<Rightarrow> d\<lparr>repositories := repositories d @ [new_clone i identity rt target localPath inst cred t]\<rparr>))"

text \<open>The outcomes of a transaction on the database.\<close>

lemma WithTx_db:
  "db (snd (WithTx fn w)) = db w \<or>
   (\<exists>x w1. fn (step_tick w) = (Inr x, w1) \<and> db (snd (WithTx fn w)) = db w1)"
  by (auto simp: WithTx_def split: prod.split sum.split fault.split)

definition operable :: "repository_row \<Rightarrow> bool" where
  "operable r \<longleftrightarrow> rr_status r \<noteq> ''superseded'' \<and> rr_status r \<noteq> ''disabled''"

text \<open>A body that returned has written the effect, and the id is the card's or a new one.\<close>

definition card_choice ::
    "repository_row option \<Rightarrow> repository_row option \<Rightarrow> bytes \<Rightarrow> bool \<Rightarrow> bool" where
  "card_choice existing local i created \<longleftrightarrow>
     (case existing of
        Some c \<Rightarrow> operable c \<and> i = rr_id c \<and> \<not> created
      | None \<Rightarrow> (case local of Some g \<Rightarrow> i = rr_id g \<and> \<not> created | None \<Rightarrow> created))"

lemma clone_body_Inr:
  assumes "clone_body identity (map_option scanRepository existing) (map_option scanRepository local)
      rt target localPath inst cred t w = (Inr (i, created), w1)"
  shows "db w1 = clone_effect identity existing local rt target localPath inst cred t i (db w) \<and>
    card_choice existing local i created \<and> registry_ok (db w1)"
proof (cases existing)
  case None
  with assms show ?thesis
    by (cases local)
      (auto simp: clone_body_def clone_effect_def card_choice_def recorded_def andThen_Inr_iff exec_Inr_iff
        statement_defs scanRepository_def Let_def)
next
  case (Some c)
  have ops: "operable c" using assms Some
    by (auto simp: clone_body_def operable_def scanRepository_def split: if_splits)
  with assms Some show ?thesis
    by (cases local)
      (auto simp: clone_body_def clone_effect_def card_choice_def recorded_def andThen_Inr_iff exec_Inr_iff
        statement_defs scanRepository_def Let_def operable_def supersedeGenericRepository_def superseding_def
        split: if_splits)
qed

section \<open>The whole operation\<close>

lemma fetch_cases:
  "(\<exists>e. fst (fetch scan q w) = Inl e) \<or>
   (\<exists>row. first_row (q (db w)) = Some row \<and> fst (fetch scan q w) = Inr (scan row))"
  by (auto simp: fetch_def andThen_def query_def ret_def fail_def split: option.split)

lemma clone_tx_cases:
  assumes tx: "tx = clone_tx identity (map_option scanRepository existing) (map_option scanRepository local)
      rt target localPath inst cred t"
  shows "(\<exists>e. fst (tx w) = Inl e) \<and> db (snd (tx w)) = db w \<or>
    (\<exists>i created. card_choice existing local i created \<and> registry_ok (db (snd (tx w))) \<and>
       db (snd (tx w)) = clone_effect identity existing local rt target localPath inst cred t i (db w) \<and>
       ((\<exists>e. fst (tx w) = Inl e) \<or> fst (tx w) = Inr (i, created)))"
proof -
  let ?fn = "clone_body identity (map_option scanRepository existing) (map_option scanRepository local)
      rt target localPath inst cred t"
  obtain r w1 where fn: "?fn (step_tick w) = (r, w1)" by (cases "?fn (step_tick w)")
  show ?thesis
  proof (cases r)
    case (Inl e)
    with fn show ?thesis by (simp add: tx clone_tx_def WithTx_def)
  next
    case (Inr x)
    obtain i created where x: "x = (i, created)" by (cases x)
    have "?fn (step_tick w) = (Inr (i, created), w1)" using fn Inr x by simp
    from clone_body_Inr [OF this]
    have "db w1 = clone_effect identity existing local rt target localPath inst cred t i (db w)"
      "card_choice existing local i created" "registry_ok (db w1)" unfolding db_step_tick by blast+
    with fn Inr x show ?thesis
      by (cases "flt w (tick w) = NoFault"; cases "flt w1 (tick w1)")
        (auto simp: tx clone_tx_def WithTx_def)
  qed
qed

definition cards_with :: "bytes \<Rightarrow> registry \<Rightarrow> repository_row list" where
  "cards_with i d = filter (\<lambda>r. rr_id r = i) (repositories d)"

lemma upsert_clone_run:
  assumes run: "UpsertRepositoryForClone m identity rt target localPath inst cred w = (r, w')"
  defines "existing \<equiv> identity_card identity (db w)" and "local \<equiv> local_card_at (rt_ID rt) localPath (db w)"
  obtains e where "r = Inl e" "db w' = db w"
  | t i created where "card_choice existing local i created" "registry_ok (db w')"
      "db w' = clone_effect identity existing local (rt_ID rt) target localPath inst cred t i (db w)"
      "(\<exists>e. r = Inl e) \<or> (\<exists>row. first_row (cards_with i (db w')) = Some row \<and> r = Inr (scanRepository row, created))"
proof -
  obtain r1 w1 where val: "validateRepositoryOperationReferences m identity inst cred w = (r1, w1)"
    by (cases "validateRepositoryOperationReferences m identity inst cred w")
  have w1: "db w1 = db w"
    using keepsD [OF lookups.validateReferences_keeps val] by simp
  show thesis
  proof (cases r1)
    case (Inl e)
    with run val w1 show thesis by (intro that(1)) (auto simp: UpsertRepositoryForClone_def andThen_def)
  next
    case (Inr u)
    let ?t = "clk w1 (tick w1)"
    let ?rest = "\<lambda>existing. maybe (fetch scanRepository (\<lambda>d. filter (stands_at (rt_ID rt) localPath) (repositories d)))
        (\<lambda>generic. andThen (clone_tx identity existing generic (rt_ID rt) target localPath inst cred ?t)
          (\<lambda>(i, created). andThen (GetRepository i) (\<lambda>repo. ret (repo, created))))"
    have eq: "UpsertRepositoryForClone m identity rt target localPath inst cred w =
        maybe (fetch scanRepository (\<lambda>d. filter (same_identity identity) (repositories d))) ?rest (step_tick w1)"
      using val Inr by (simp add: UpsertRepositoryForClone_def andThen_Inr_eq findRepository_eq findLocal_eq)
    consider w2 where "(r, w') = (Inl fault_error, w2)" "db w2 = db w"
      | w2 where "(r, w') = ?rest (map_option scanRepository existing) w2" "db w2 = db w"
      using maybe_fetch [of scanRepository "\<lambda>d. filter (same_identity identity) (repositories d)" ?rest "step_tick w1"]
        w1 run eq by (auto simp: existing_def identity_card_def)
    then show thesis
    proof cases
      case 1
      then show thesis by (intro that(1)) auto
    next
      case (2 w2)
      let ?tx = "clone_tx identity (map_option scanRepository existing) (map_option scanRepository local)
          (rt_ID rt) target localPath inst cred ?t"
      let ?final = "andThen ?tx (\<lambda>(i, created). andThen (GetRepository i) (\<lambda>repo. ret (repo, created)))"
      consider w3 where "(r, w') = (Inl fault_error, w3)" "db w3 = db w"
        | w3 where "(r, w') = ?final w3" "db w3 = db w"
        using maybe_fetch [of scanRepository "\<lambda>d. filter (stands_at (rt_ID rt) localPath) (repositories d)"
            "\<lambda>generic. andThen (clone_tx identity (map_option scanRepository existing) generic (rt_ID rt)
               target localPath inst cred ?t)
               (\<lambda>(i, created). andThen (GetRepository i) (\<lambda>repo. ret (repo, created)))" w2]
          2 by (auto simp: local_def local_card_at_def)
      then show thesis
      proof cases
        case 1
        then show thesis by (intro that(1)) auto
      next
        case (2 w3)
        obtain rx w4 where tx: "?tx w3 = (rx, w4)" by (cases "?tx w3")
        from clone_tx_cases [OF refl, of identity existing local "rt_ID rt" target localPath inst cred ?t w3] tx 2(2)
        consider e where "rx = Inl e" "db w4 = db w"
          | i created where "card_choice existing local i created" "registry_ok (db w4)"
              "db w4 = clone_effect identity existing local (rt_ID rt) target localPath inst cred ?t i (db w)"
              "(\<exists>e. rx = Inl e) \<or> rx = Inr (i, created)" by auto
        then show thesis
        proof cases
          case 1
          with 2 tx show thesis by (intro that(1)) (auto simp: andThen_def)
        next
          case (2 i created)
          show thesis
          proof (rule that(2) [of i created ?t])
            obtain rg w5 where get: "GetRepository i w4 = (rg, w5)" by (cases "GetRepository i w4")
            have w5: "db w5 = db w4" using keepsD [OF lookups.get_keeps(3) get] by simp
            have "(\<exists>e. rg = Inl e) \<or> (\<exists>row. first_row (cards_with i (db w4)) = Some row \<and> rg = Inr (scanRepository row))"
              using fetch_cases [of scanRepository "\<lambda>d. filter (\<lambda>r. rr_id r = i) (repositories d)" w4] get
              by (simp add: GetRepository_def cards_with_def)
            then show "(\<exists>e. r = Inl e) \<or> (\<exists>row. first_row (cards_with i (db w')) = Some row \<and> r = Inr (scanRepository row, created))"
              and "registry_ok (db w')"
              and "db w' = clone_effect identity existing local (rt_ID rt) target localPath inst cred ?t i (db w)"
              using 2 \<open>(r, w') = ?final w3\<close> tx get w5
              by (auto simp: andThen_def ret_def split: sum.splits)
          qed (rule 2(1))
        qed
      qed
    qed
  qed
qed

section \<open>What the effect is\<close>

lemma ids_unique: "registry_ok d \<Longrightarrow> unique_by (\<lambda>r. Some (rr_id r)) (repositories d)"
  by (simp add: registry_ok_iff registry_uniques_def)

lemma same_id:
  "registry_ok d \<Longrightarrow> r \<in> set (repositories d) \<Longrightarrow> r' \<in> set (repositories d) \<Longrightarrow> rr_id r = rr_id r' \<Longrightarrow> r = r'"
  using unique_by_eq [OF ids_unique] by blast

text \<open>A card names its successor only when it is superseded, as the data model demands.\<close>

definition successors_ok :: "registry \<Rightarrow> bool" where
  "successors_ok d \<longleftrightarrow>
     (\<forall>r \<in> set (repositories d). rr_superseded_by r \<noteq> None \<longrightarrow> rr_status r = ''superseded'')"

lemma recorded_successors:
  assumes "successors_ok d" and "\<And>r. r \<in> set (repositories d) \<Longrightarrow> rr_id r = i \<Longrightarrow> rr_superseded_by (f r) = None"
  shows "successors_ok (recorded i f d)"
  using assms by (auto simp: successors_ok_def recorded_def set_update_where)

lemma superseding_successors: "successors_ok d \<Longrightarrow> successors_ok (superseding g c t d)"
  by (auto simp: successors_ok_def superseding_def set_update_where)

lemma no_successor:
  assumes "registry_ok d" and "successors_ok d" and "c \<in> set (repositories d)" and "rr_status c \<noteq> ''superseded''"
    and "r \<in> set (repositories d)" and "rr_id r = rr_id c"
  shows "rr_superseded_by r = None"
  using assms same_id [OF assms(1,5,3,6)] by (auto simp: successors_ok_def)

lemma effect_successors:
  assumes "registry_ok d" and "successors_ok d"
    and "card_choice (identity_card identity d) (local_card_at rt localPath d) i created"
  shows "successors_ok (clone_effect identity (identity_card identity d) (local_card_at rt localPath d)
    rt target localPath inst cred t i d)"
proof (cases "identity_card identity d")
  case (Some c)
  with assms(3) have c: "operable c" "i = rr_id c" "c \<in> set (repositories d)"
    using identity_card_Some [OF Some] by (auto simp: card_choice_def)
  have "successors_ok (recorded i (set_clone identity rt target localPath inst cred t) d)"
    using no_successor [OF assms(1,2) c(3)] c(1,2)
    by (intro recorded_successors [OF assms(2)]) (auto simp: set_clone_def operable_def)
  then show ?thesis
    using Some by (auto simp: clone_effect_def Let_def superseding_successors split: option.split)
next
  case None
  show ?thesis
  proof (cases "local_card_at rt localPath d")
    case (Some g)
    then have g: "g \<in> set (repositories d)" "rr_status g \<noteq> ''superseded''"
      using local_card_at_Some [OF Some] by (auto simp: stands_at_def)
    have "i = rr_id g" using None Some assms(3) by (simp add: card_choice_def)
    then have "successors_ok (recorded i (\<lambda>r. set_identity identity (set_clone identity rt target localPath inst cred t r)) d)"
      using no_successor [OF assms(1,2) g]
      by (intro recorded_successors [OF assms(2)]) (auto simp: set_clone_def set_identity_def)
    with None Some show ?thesis by (simp add: clone_effect_def Let_def)
  next
    case none: None
    with None assms(2) show ?thesis
      by (auto simp: clone_effect_def successors_ok_def new_clone_def Let_def)
  qed
qed

section \<open>Every repository operation\<close>

text \<open>Reservations, profiles and credentials do not touch the cards.\<close>

definition cards_kept :: "registry \<Rightarrow> registry \<Rightarrow> bool" where
  "cards_kept d d' \<longleftrightarrow> repositories d' = repositories d"

interpretation profiles_keep_cards: profile_contract cards_kept
  by unfold_locales (auto simp: cards_kept_def statement_defs)

definition states_kept :: "registry \<Rightarrow> registry \<Rightarrow> bool" where
  "states_kept d d' \<longleftrightarrow> (successors_ok d \<longrightarrow> successors_ok d')"

interpretation states: registry_order states_kept
  by unfold_locales (auto simp: states_kept_def)

lemma cards_kept_states: "keeps cards_kept m \<Longrightarrow> keeps states_kept m"
  by (simp add: keeps_def cards_kept_def states_kept_def successors_ok_def)

lemma update_card_states:
  assumes "\<And>r. rr_status (f r) = rr_status r \<and> rr_superseded_by (f r) = rr_superseded_by r"
  shows "keeps states_kept (update_card i f)"
  unfolding update_card_def
  by (intro states.keeps_andThen states.keeps_exec states.keeps_ret)
    (use assms in \<open>auto simp: states_kept_def successors_ok_def update_repository_def set_update_where states.order_refl\<close>)

lemma after_operation_states:
  "keeps states_kept (TouchRepositoryPulled i)" "keeps states_kept (TouchRepositoryPulledWithBranch i branch)"
  "keeps states_kept (MarkRepositoryError i msg)"
  unfolding TouchRepositoryPulledWithBranch_def TouchRepositoryPulled_def MarkRepositoryError_def Let_def
  by (auto intro!: states.keeps_andThen states.keeps_now states.keeps_ret update_card_states)

lemma clone_states:
  assumes "registry_ok (db w)"
  shows "states_kept (db w) (db (snd (UpsertRepositoryForClone m identity rt target localPath inst cred w)))"
proof -
  obtain r w' where run: "UpsertRepositoryForClone m identity rt target localPath inst cred w = (r, w')"
    by (cases "UpsertRepositoryForClone m identity rt target localPath inst cred w")
  show ?thesis
    by (rule upsert_clone_run [OF run])
      (use run effect_successors [OF assms] in \<open>auto simp: states_kept_def\<close>)
qed

lemmas profile_states =
  profiles_keep_cards.ReserveOperationKeys_keeps [THEN cards_kept_states]
  profiles_keep_cards.release_keeps(1) [THEN cards_kept_states]
  profiles_keep_cards.TransferOperationReservations_keeps [THEN cards_kept_states]
  profiles_keep_cards.CleanupOperationReservations_keeps(2) [THEN cards_kept_states]
  profiles_keep_cards.UpsertProviderInstances_keeps [THEN cards_kept_states]
  profiles_keep_cards.UpsertCredentials_keeps [THEN cards_kept_states]

text \<open>
  C31: whatever the repository component does, under any faults, a card that is not superseded names no
  successor.
\<close>

theorem superseded_before_successor:
  assumes "repository_step d d'" and "registry_ok d" and "successors_ok d"
  shows "successors_ok d'"
proof -
  from assms(1,2) have "states_kept d d'"
    by (induction rule: repository_step.induct)
      (blast intro: clone_states profile_states [unfolded keeps_def, rule_format]
        after_operation_states [unfolded keeps_def, rule_format])+
  with assms(3) show ?thesis by (simp add: states_kept_def)
qed

section \<open>The card of a clone\<close>

definition clone_card ::
    "Identity \<Rightarrow> bytes \<Rightarrow> bytes \<Rightarrow> bytes \<Rightarrow> repository_row \<Rightarrow> bool" where
  "clone_card identity rt target localPath r \<longleftrightarrow>
     same_identity identity r \<and> rr_status r = ''active'' \<and> rr_root_path_id r = Some rt \<and>
     rr_target_directory r = Some target \<and> rr_local_path r = Some localPath"

lemma cards_with_recorded:
  assumes "\<And>r. rr_id (f r) = rr_id r"
  shows "cards_with i (recorded i f d) = map f (cards_with i d)"
proof -
  have "filter (\<lambda>r. rr_id r = i) (update_where (\<lambda>r. rr_id r = i) f xs) = map f (filter (\<lambda>r. rr_id r = i) xs)" for xs
    by (induction xs) (auto simp: assms)
  then show ?thesis by (simp add: cards_with_def recorded_def)
qed

lemma cards_with_superseding: "g \<noteq> i \<Longrightarrow> cards_with i (superseding g c t d) = cards_with i d"
proof -
  assume "g \<noteq> i"
  then have "filter (\<lambda>r. rr_id r = i) (update_where (\<lambda>r. rr_id r = g)
      (\<lambda>r. r\<lparr>rr_status := ''superseded'', rr_superseded_by := Some c, rr_updated_at := Trimmed t\<rparr>) xs) =
    filter (\<lambda>r. rr_id r = i) xs" for xs by (induction xs) auto
  then show ?thesis by (simp add: cards_with_def superseding_def)
qed

lemma effect_card:
  assumes "registry_ok d" and "card_choice (identity_card identity d) (local_card_at rt localPath d) i created"
    and "first_row (cards_with i (clone_effect identity (identity_card identity d) (local_card_at rt localPath d)
      rt target localPath inst cred t i d)) = Some row"
    and "created \<Longrightarrow> i \<notin> rr_id ` set (repositories d)"
  shows "clone_card identity rt target localPath row"
proof (cases "identity_card identity d")
  case (Some c)
  let ?f = "set_clone identity rt target localPath inst cred t"
  have c: "i = rr_id c" "c \<in> set (repositories d)" "same_identity identity c"
    using assms(2) Some identity_card_Some [OF Some] by (auto simp: card_choice_def)
  have "cards_with i (clone_effect identity (identity_card identity d) (local_card_at rt localPath d)
      rt target localPath inst cred t i d) = map ?f (cards_with i d)"
    using Some cards_with_recorded [of ?f i d]
    by (auto simp: clone_effect_def Let_def cards_with_superseding set_clone_def split: option.split)
  with assms(3) obtain r where r: "row = ?f r" "first_row (cards_with i d) = Some r" by (cases "cards_with i d") auto
  then have "r \<in> set (repositories d)" "rr_id r = i" by (auto simp: cards_with_def dest!: first_row_in)
  with c same_id [OF assms(1)] have "r = c" by blast
  with r c show ?thesis by (simp add: clone_card_def set_clone_def same_identity_def)
next
  case None
  show ?thesis
  proof (cases "local_card_at rt localPath d")
    case (Some g)
    let ?f = "\<lambda>r. set_identity identity (set_clone identity rt target localPath inst cred t r)"
    have "cards_with i (clone_effect identity (identity_card identity d) (local_card_at rt localPath d)
        rt target localPath inst cred t i d) = map ?f (cards_with i d)"
      using None Some cards_with_recorded [of ?f i d]
      by (simp add: clone_effect_def Let_def set_clone_def set_identity_def)
    with assms(3) obtain r where "row = ?f r" by (cases "cards_with i d") auto
    then show ?thesis by (simp add: clone_card_def set_clone_def set_identity_def same_identity_def)
  next
    case none: None
    with None assms(2) have created by (simp add: card_choice_def)
    then have "cards_with i d = []" using assms(4) by (auto simp: cards_with_def filter_empty_conv)
    with None none assms(3) have "row = new_clone i identity rt target localPath inst cred t"
      by (simp add: clone_effect_def Let_def cards_with_def new_clone_def)
    then show ?thesis by (simp add: clone_card_def new_clone_def same_identity_def)
  qed
qed

lemma effect_created:
  assumes "registry_ok (clone_effect identity existing local rt target localPath inst cred t i d)"
    and "card_choice existing local i created" and created
  shows "i \<notin> rr_id ` set (repositories d)"
proof -
  have "existing = None" "local = None" using assms(2,3) by (auto simp: card_choice_def split: option.splits)
  then have "unique_by (\<lambda>r. Some (rr_id r)) (repositories d @ [new_clone i identity rt target localPath inst cred t])"
    using ids_unique [OF assms(1)] by (simp add: clone_effect_def Let_def)
  then show ?thesis by (auto simp: unique_by_snoc new_clone_def)
qed

lemma effect_others:
  assumes "r \<in> set (repositories d)" and "rr_id r \<noteq> i" and "\<And>g. local = Some g \<Longrightarrow> rr_id r \<noteq> rr_id g"
  shows "r \<in> set (repositories (clone_effect identity existing local rt target localPath inst cred t i d))"
  using assms
  by (auto simp: clone_effect_def Let_def recorded_def superseding_def set_update_where image_iff
      split: option.split)

text \<open>The local card that stood at the target of another card: retired, and nothing refers to it any more.\<close>

definition retired :: "bytes \<Rightarrow> bytes \<Rightarrow> registry \<Rightarrow> bool" where
  "retired g c d \<longleftrightarrow>
     (\<exists>r \<in> set (repositories d). rr_id r = g \<and> rr_status r = ''superseded'' \<and> rr_superseded_by r = Some c) \<and>
     (\<forall>p \<in> set (projects d). pj_repository_id p \<noteq> Some g) \<and>
     (\<forall>l \<in> set (project_links d). pl_repository_id l \<noteq> Some g)"

lemma effect_retires:
  assumes "card_choice existing (Some g) i created" and "g \<in> set (repositories d)" and "rr_id g \<noteq> i"
  shows "retired (rr_id g) i (clone_effect identity existing (Some g) rt target localPath inst cred t i d)"
proof -
  from assms(1,3) obtain c where c: "existing = Some c" by (auto simp: card_choice_def split: option.splits)
  let ?d1 = "recorded i (set_clone identity rt target localPath inst cred t) d"
  have "g \<in> set (repositories ?d1)" using assms(2,3) by (force simp: recorded_def set_update_where)
  then have "g\<lparr>rr_status := ''superseded'', rr_superseded_by := Some i, rr_updated_at := Trimmed t\<rparr> \<in>
      set (repositories (superseding (rr_id g) i t ?d1))"
    by (auto simp: superseding_def set_update_where intro: rev_image_eqI)
  then have "\<exists>r \<in> set (repositories (superseding (rr_id g) i t ?d1)). rr_id r = rr_id g \<and>
      rr_status r = ''superseded'' \<and> rr_superseded_by r = Some i"
    by (rule bexI [rotated]) simp
  moreover have "\<forall>p \<in> set (projects (superseding (rr_id g) i t ?d1)). pj_repository_id p \<noteq> Some (rr_id g)"
    "\<forall>l \<in> set (project_links (superseding (rr_id g) i t ?d1)). pl_repository_id l \<noteq> Some (rr_id g)"
    using assms(3) by (auto simp: superseding_def set_update_where)
  ultimately show ?thesis using c assms(3) by (simp add: retired_def clone_effect_def Let_def)
qed

text \<open>
  C32: a successful \<open>UpsertRepositoryForClone\<close> returns the card that now stands for the identity at the
  target: the card that had the identity, else the local card that stood there, which keeps its id,
  else a new one, and only that is reported as created. A local card that stood there beside it is
  retired in its favour. Every other card is as it was.
\<close>

theorem UpsertRepositoryForClone_result:
  assumes "UpsertRepositoryForClone m identity rt target localPath inst cred w = (Inr (repo, created), w')"
    and "registry_ok (db w)"
  shows "(\<exists>row \<in> set (repositories (db w')). repo = scanRepository row \<and>
       clone_card identity (rt_ID rt) target localPath row) \<and>
    (case (identity_card identity (db w), local_card_at (rt_ID rt) localPath (db w)) of
       (Some c, None) \<Rightarrow> operable c \<and> re_ID repo = rr_id c
     | (Some c, Some g) \<Rightarrow> operable c \<and> re_ID repo = rr_id c \<and> (rr_id g = rr_id c \<or> retired (rr_id g) (rr_id c) (db w'))
     | (None, Some g) \<Rightarrow> re_ID repo = rr_id g
     | (None, None) \<Rightarrow> re_ID repo \<notin> rr_id ` set (repositories (db w))) \<and>
    (created \<longleftrightarrow> identity_card identity (db w) = None \<and> local_card_at (rt_ID rt) localPath (db w) = None) \<and>
    (\<forall>r \<in> set (repositories (db w)). rr_id r = re_ID repo \<or>
       (\<exists>g. local_card_at (rt_ID rt) localPath (db w) = Some g \<and> rr_id r = rr_id g) \<or>
       r \<in> set (repositories (db w')))"
proof (rule upsert_clone_run [OF assms(1)])
  fix t i cr
  let ?E = "identity_card identity (db w)" and ?L = "local_card_at (rt_ID rt) localPath (db w)"
  assume choice: "card_choice ?E ?L i cr" and ok: "registry_ok (db w')"
    and eff: "db w' = clone_effect identity ?E ?L (rt_ID rt) target localPath inst cred t i (db w)"
    and "(\<exists>e. Inr (repo, created) = (Inl e :: err + _)) \<or>
      (\<exists>row. first_row (cards_with i (db w')) = Some row \<and> Inr (repo, created) = (Inr (scanRepository row, cr) :: err + _))"
  then obtain row where row: "first_row (cards_with i (db w')) = Some row" "repo = scanRepository row" "cr = created"
    by auto
  have in_row: "row \<in> set (repositories (db w'))" and i: "re_ID repo = i"
    using row first_row_in [OF row(1)] by (auto simp: cards_with_def scanRepository_def)
  have fresh: "created \<Longrightarrow> i \<notin> rr_id ` set (repositories (db w))"
    using effect_created [OF ok [unfolded eff] choice] row(3) by simp
  have "clone_card identity (rt_ID rt) target localPath row"
    using effect_card [OF assms(2) choice row(1) [unfolded eff]] fresh row(3) by simp
  then have 1: "\<exists>row \<in> set (repositories (db w')). repo = scanRepository row \<and>
       clone_card identity (rt_ID rt) target localPath row" using in_row row(2) by blast
  have retire: "rr_id g = i \<or> retired (rr_id g) i (db w')" if "?L = Some g" for g
  proof (cases "rr_id g = i")
    case False
    have "card_choice ?E (Some g) i cr" "g \<in> set (repositories (db w))"
      using choice that local_card_at_Some [OF that] by simp_all
    from effect_retires [OF this False] that show ?thesis by (simp add: eff)
  qed simp
  have others: "\<forall>r \<in> set (repositories (db w)). rr_id r = i \<or> (\<exists>g. ?L = Some g \<and> rr_id r = rr_id g) \<or>
      r \<in> set (repositories (db w'))"
    unfolding eff by (blast intro: effect_others)
  show ?thesis
    using 1 choice retire fresh others row(3) i
    by (auto simp: card_choice_def split: option.splits)
qed simp

definition sample_root :: root_path_row where
  "sample_root = \<lparr>rp_id = ''root1'', rp_name = ''r'', rp_path = ''/r'', rp_source = ''api'', rp_enabled = True,
     rp_schedule_enabled = False, rp_schedule_frequency = None, rp_created_at = Nine 0, rp_updated_at = Nine 0\<rparr>"

definition sample_identity :: Identity where
  "sample_identity = \<lparr>id_Provider = ''github'', id_ProviderHost = ''github.com'', id_FullPath = ''o/x'',
     id_CloneURL = ''https://github.com/o/x.git'', id_Protocol = ''https''\<rparr>"

text \<open>The local card of \<open>/r/x\<close> was superseded by the card of the repository cloned there.\<close>

definition superseded_cards :: registry where
  "superseded_cards = empty_registry\<lparr>root_paths := [sample_root],
     repositories :=
       [(new_generic_repository ''g'' ''x'' ''x'' ''root1'' ''/r/x'' 0)
          \<lparr>rr_status := ''superseded'', rr_superseded_by := Some ''c''\<rparr>,
        new_clone ''c'' sample_identity ''root1'' ''x'' ''/r/x'' [] [] 0]\<rparr>"

text \<open>Cloning a known repository where a local card stands: the local card is retired.\<close>

definition two_cards :: registry where
  "two_cards = empty_registry\<lparr>root_paths := [sample_root],
     repositories :=
       [new_generic_repository ''g'' ''x'' ''x'' ''root1'' ''/r/x'' 0,
        new_clone ''c'' sample_identity ''root1'' ''y'' ''/r/y'' [] [] 0]\<rparr>"

definition sample_clone :: "(err + Repository \<times> bool) \<times> registry world" where
  "sample_clone = UpsertRepositoryForClone plain_machine sample_identity (scanRootPath sample_root) ''x'' ''/r/x'' [] []
     (registry_world two_cards)"

lemma UpsertRepositoryForClone_result_witness:
  "\<exists>repo w'. sample_clone = (Inr (repo, False), w') \<and> re_ID repo = ''c'' \<and>
     re_LocalPath repo = ''/r/x'' \<and> retired ''g'' ''c'' (db w')"
proof -
  have ok: "registry_ok (db (registry_world two_cards))" by code_simp
  have returns: "case fst sample_clone of Inl e \<Rightarrow> False | Inr (repo, created) \<Rightarrow> \<not> created" by code_simp
  obtain r w' where sample: "sample_clone = (r, w')" by (cases sample_clone)
  from returns obtain repo where "r = Inr (repo, False)"
    unfolding sample fst_conv by (auto split: sum.splits prod.splits)
  with sample have run: "sample_clone = (Inr (repo, False), w')" by simp
  have cards: "identity_card sample_identity two_cards = Some (new_clone ''c'' sample_identity ''root1'' ''y'' ''/r/y'' [] [] 0)"
    "local_card_at ''root1'' ''/r/x'' two_cards = Some (new_generic_repository ''g'' ''x'' ''x'' ''root1'' ''/r/x'' 0)"
    by code_simp+
  have ids: "rt_ID (scanRootPath sample_root) = ''root1''" by code_simp
  have names: "rr_id (new_clone ''c'' sample_identity ''root1'' ''y'' ''/r/y'' [] [] 0) = ''c''"
    "rr_id (new_generic_repository ''g'' ''x'' ''x'' ''root1'' ''/r/x'' 0) = ''g''"
    by (simp_all add: new_clone_def new_generic_repository_def)
  from UpsertRepositoryForClone_result [OF run [unfolded sample_clone_def] ok]
  obtain row where "repo = scanRepository row" "clone_card sample_identity ''root1'' ''x'' ''/r/x'' row"
    "re_ID repo = ''c''" "retired ''g'' ''c'' (db w')"
    unfolding registry_world_simps cards ids prod.case option.case names by auto
  then show ?thesis
    using run by (intro exI [of _ repo] exI [of _ w']) (simp add: clone_card_def scanRepository_def)
qed

lemma superseded_before_successor_witness: "successors_ok (db (snd sample_clone))"
proof (rule superseded_before_successor)
  show "repository_step two_cards (db (snd sample_clone))"
    using repository_step.intros(7) [of "registry_world two_cards"] by (simp add: sample_clone_def)
  show "registry_ok two_cards" "successors_ok two_cards" by code_simp+
qed


end
