(* ===== verification/Registry_Facts.thy ===== *)
theory Registry_Facts
  imports Card_Facts
begin

text \<open>
  Root paths and projects: that a row keeps its identity through every history of the two components,
  what a scan makes of the projects it has seen, and of those it has not.
\<close>

section \<open>Histories\<close>

text \<open>
  Whatever the scanner and the repository component do to the tables they share, in any order and
  under any faults, no row is lost and each keeps its identity: a project its root and relative path, a
  link its ends, an ignore rule its scope and pattern, a provider instance its host, a credential its
  instance; and what only the other component writes stays as it is in every step.
\<close>

theorem identities_last:
  assumes "registry_history d d'"
  shows "registry_grows d d' \<and>
    (\<forall>d''. (scanner_step d' d'' \<longrightarrow> profiles_kept d' d'') \<and> (repository_step d' d'' \<longrightarrow> roots_kept d' d''))"
proof -
  from assms have "registry_grows d d'"
  proof (induction rule: registry_history.induct)
    case (start d)
    show ?case by (rule scanner_grows.order_refl)
  next
    case (scan d d1 d2)
    then show ?case using scanner_grows.order_trans scanner_grows.scanner_step_R by blast
  next
    case (operate d d1 d2)
    then show ?case using scanner_grows.order_trans repository_grows.repository_step_R by blast
  qed
  then show ?thesis
    using scanner_keeps_profiles.scanner_step_R repository_keeps_roots.repository_step_R by blast
qed

definition sample_project :: "bytes \<Rightarrow> bytes \<Rightarrow> project_row" where
  "sample_project i relative = new_project i relative (''/r/'' @ relative) relative ''root1'' 0"

definition sample_projects :: registry where
  "sample_projects = empty_registry\<lparr>root_paths := [sample_root],
     projects := [sample_project ''p1'' ''a'', sample_project ''p2'' ''b'']\<rparr>"

lemma identities_last_witness:
  "prefix (map project_identity (projects sample_projects))
     (map project_identity (projects (db (snd
        (MarkMissingProjects ''root1'' [''a''] [] minute (registry_world sample_projects))))))"
proof -
  have "registry_history sample_projects
      (db (snd (MarkMissingProjects ''root1'' [''a''] [] minute (registry_world sample_projects))))"
    using scanner_step.intros(4) [of "registry_world sample_projects"]
    by (intro registry_history.scan [OF registry_history.start]) simp
  from identities_last [OF this] show ?thesis by (simp add: registry_grows_def)
qed

section \<open>Projects that a scan has not seen\<close>

lemma concat_chunks: "concat (chunks n xs) = xs"
  by (induction n xs rule: chunks.induct) auto

lemma chunks_nonempty: "[] \<notin> set (chunks n xs)"
  by (induction n xs rule: chunks.induct) auto

lemma chunks_small: "c \<in> set (chunks n xs) \<Longrightarrow> length c \<le> Suc n"
  by (induction n xs rule: chunks.induct) auto

lemma batches_cover: "concat (batches xs n) = xs"
  by (simp add: batches_def concat_chunks)

lemma batches_small: "0 < n \<Longrightarrow> c \<in> set (batches xs n) \<Longrightarrow> c \<noteq> [] \<and> int (length c) \<le> n"
  using chunks_small [of c "nat (n - 1)" xs] chunks_nonempty [of "nat (n - 1)" xs]
  by (auto simp: batches_def split: if_splits)

definition missing_at :: "instant \<Rightarrow> project_row \<Rightarrow> project_row" where
  "missing_at t r = r\<lparr>pj_status := ''missing'', pj_updated_at := Nine t\<rparr>"

text \<open>What the constraints of the other tables see of a project.\<close>

definition project_refs :: "project_row \<Rightarrow> bytes \<times> bytes \<times> bytes \<times> bytes option" where
  "project_refs r = (pj_id r, pj_root_path_id r, pj_relative_path r, pj_repository_id r)"

lemma map_filter_keys: "List.map_filter k xs = map the (filter (\<lambda>x. x \<noteq> None) (map k xs))"
  by (induction xs) (auto simp: map_filter_simps)

lemma unique_by_cong: "map k xs = map k ys \<Longrightarrow> unique_by k xs \<longleftrightarrow> unique_by k ys"
  by (simp add: unique_by_def map_filter_keys del: filter_map)

lemma projects_checked:
  assumes "registry_ok d" and refs: "map project_refs ps = map project_refs (projects d)"
    and "list_all project_check ps"
  shows "registry_ok (d\<lparr>projects := ps\<rparr>)"
proof -
  have ids: "map pj_id ps = map pj_id (projects d)"
    and places: "map (\<lambda>r. (pj_root_path_id r, pj_relative_path r)) ps =
      map (\<lambda>r. (pj_root_path_id r, pj_relative_path r)) (projects d)"
    using arg_cong [OF refs, of "map fst"] arg_cong [OF refs, of "map (\<lambda>x. (fst (snd x), fst (snd (snd x))))"]
    by (simp_all add: project_refs_def comp_def)
  have "unique_by (\<lambda>r. Some (pj_id r)) ps" "unique_by (\<lambda>r. Some (pj_root_path_id r, pj_relative_path r)) ps"
    using assms(1) arg_cong [OF ids, of "map Some"] arg_cong [OF places, of "map Some"]
      unique_by_cong [of "\<lambda>r. Some (pj_id r)" ps "projects d"]
      unique_by_cong [of "\<lambda>r. Some (pj_root_path_id r, pj_relative_path r)" ps "projects d"]
    by (simp_all add: registry_ok_iff registry_uniques_def comp_def)
  moreover have "list_all (\<lambda>r. pj_root_path_id r \<in> R \<and> refers (pj_repository_id r) S) xs \<longleftrightarrow>
      list_all (\<lambda>(_, a, _, b). a \<in> R \<and> refers b S) (map project_refs xs)" for R S xs
    by (simp add: list_all_iff project_refs_def)
  ultimately show ?thesis
    using assms(1,3) refs arg_cong [OF ids, of set]
    by (simp add: registry_ok_iff registry_checks_def registry_uniques_def registry_foreign_keys_def Let_def)
qed

lemma mark_batch_calm:
  assumes "calm w" and "registry_ok (db w)" and "ids \<noteq> []"
  shows "markProjectIDsMissing ids t w =
    (Inr (), (step_tick w)\<lparr>db := (db w)\<lparr>projects := update_where (\<lambda>r. pj_id r \<in> set ids) (missing_at t) (projects (db w))\<rparr>\<rparr>)"
    and "registry_ok ((db w)\<lparr>projects := update_where (\<lambda>r. pj_id r \<in> set ids) (missing_at t) (projects (db w))\<rparr>)"
proof -
  let ?ps = "update_where (\<lambda>r. pj_id r \<in> set ids) (missing_at t) (projects (db w))"
  have "list_all project_check ?ps"
    using assms(2) by (auto simp: registry_ok_iff registry_checks_def list_all_iff set_update_where
        missing_at_def project_check_def)
  moreover have "map project_refs ?ps = map project_refs (projects (db w))"
    by (rule map_update_where) (simp add: project_refs_def missing_at_def)
  ultimately show ok: "registry_ok ((db w)\<lparr>projects := ?ps\<rparr>)" by (intro projects_checked [OF assms(2)])
  let ?st = "update_project (\<lambda>r. pj_id r \<in> set ids) (missing_at t)"
  have "rexec ?st w = (Inr (fst (?st (db w))), (step_tick w)\<lparr>db := snd (?st (db w))\<rparr>)"
    by (rule exec_calm [OF assms(1)]) (simp add: ok update_project_def)
  then show "markProjectIDsMissing ids t w = (Inr (), (step_tick w)\<lparr>db := (db w)\<lparr>projects := ?ps\<rparr>\<rparr>)"
    using assms(3) by (simp add: markProjectIDsMissing_def andThen_Inr_eq update_project_def missing_at_def [abs_def])
qed

lemma update_where_twice:
  assumes "\<And>x. f (f x) = f x" and "\<And>x. Q (f x) = Q x"
  shows "update_where Q f (update_where P f xs) = update_where (\<lambda>x. P x \<or> Q x) f xs"
  by (induction xs) (auto simp: assms)

lemma mark_batches_calm:
  "calm w \<Longrightarrow> registry_ok (db w) \<Longrightarrow> [] \<notin> set bs \<Longrightarrow>
   \<exists>w'. for_each bs (\<lambda>b. markProjectIDsMissing b t) w = (Inr (), w') \<and> calm w' \<and> registry_ok (db w') \<and>
     db w' = (db w)\<lparr>projects := update_where (\<lambda>r. pj_id r \<in> set (concat bs)) (missing_at t) (projects (db w))\<rparr>"
proof (induction bs arbitrary: w)
  case Nil
  then show ?case by (simp add: update_where_def)
next
  case (Cons b bs)
  let ?w1 = "(step_tick w)\<lparr>db := (db w)\<lparr>projects := update_where (\<lambda>r. pj_id r \<in> set b) (missing_at t) (projects (db w))\<rparr>\<rparr>"
  have "b \<noteq> []" using Cons.prems(3) by auto
  from mark_batch_calm [OF Cons.prems(1,2) this, of t]
  have one: "markProjectIDsMissing b t w = (Inr (), ?w1)" and ok: "registry_ok (db ?w1)" by simp_all
  from Cons.IH [of ?w1] ok Cons.prems obtain w' where
    rest: "for_each bs (\<lambda>b. markProjectIDsMissing b t) ?w1 = (Inr (), w')" "calm w'" "registry_ok (db w')"
    "db w' = (db ?w1)\<lparr>projects := update_where (\<lambda>r. pj_id r \<in> set (concat bs)) (missing_at t) (projects (db ?w1))\<rparr>"
    by auto
  have "db w' = (db w)\<lparr>projects := update_where (\<lambda>r. pj_id r \<in> set (concat (b # bs))) (missing_at t) (projects (db w))\<rparr>"
    unfolding rest(4) by (simp add: update_where_twice missing_at_def)
  with one rest(1-3) show ?case by (intro exI [of _ w']) (simp add: andThen_Inr_eq)
qed

text \<open>
  After a scan of a root path the projects marked missing are exactly the active ones of that root
  which the scan has not seen and which do not lie under a directory it could not read; their number is
  returned and nothing else changes, however many batches it takes.
\<close>

theorem MarkMissingProjects_exact:
  assumes "calm w" and "registry_ok (db w)"
  shows "\<exists>w'. MarkMissingProjects rt seen errored t w =
      (Inr (affected (gone rt seen errored) (projects (db w))), w') \<and> registry_ok (db w') \<and>
    db w' = (db w)\<lparr>projects := update_where (gone rt seen errored) (missing_at t) (projects (db w))\<rparr>"
proof -
  let ?ps = "projects (db w)" and ?ids = "map pj_id (filter (gone rt seen errored) (projects (db w)))"
  have "calm (step_tick (step_tick w))" "registry_ok (db (step_tick (step_tick w)))" using assms by simp_all
  moreover have "[] \<notin> set (batches ?ids 500)" by (auto simp: batches_def chunks_nonempty)
  ultimately obtain w1 where w1: "for_each (batches ?ids 500) (\<lambda>b. markProjectIDsMissing b t) (step_tick (step_tick w)) = (Inr (), w1)"
    "calm w1" "registry_ok (db w1)"
    "db w1 = (db w)\<lparr>projects := update_where (\<lambda>r. pj_id r \<in> set ?ids) (missing_at t) ?ps\<rparr>"
    using mark_batches_calm [of "step_tick (step_tick w)" "batches ?ids 500" t] by (auto simp: batches_cover)
  have uniq: "unique_by (\<lambda>r. Some (pj_id r)) ?ps"
    using assms(2) by (simp add: registry_ok_iff registry_uniques_def)
  have "pj_id r \<in> set ?ids \<longleftrightarrow> gone rt seen errored r" if "r \<in> set ?ps" for r
    using unique_by_eq [OF uniq that] that by auto
  then have same: "update_where (\<lambda>r. pj_id r \<in> set ?ids) (missing_at t) ?ps =
      update_where (gone rt seen errored) (missing_at t) ?ps" by (simp add: update_where_def)
  have tx: "WithTx (for_each (batches ?ids 500) (\<lambda>b. markProjectIDsMissing b t)) (step_tick w) = (Inr (), step_tick w1)"
    using w1(1,2) assms(1) by (simp add: WithTx_def)
  have "MarkMissingProjects rt seen errored t w = (Inr (length ?ids), step_tick w1)"
    using tx by (simp add: MarkMissingProjects_def query_calm [OF assms(1)] andThen_Inr_eq)
  then show ?thesis using w1(3,4) same by (intro exI [of _ "step_tick w1"]) (simp add: affected_def)
qed

lemma MarkMissingProjects_exact_witness:
  "\<exists>w'. MarkMissingProjects ''root1'' [''a''] [] minute (registry_world sample_projects) = (Inr 1, w') \<and>
     map pj_status (projects (db w')) = [''active'', ''missing'']"
proof -
  have ok: "registry_ok (db (registry_world sample_projects))" by code_simp
  have n: "affected (gone ''root1'' [''a''] []) (projects sample_projects) = 1" by code_simp
  from MarkMissingProjects_exact [OF registry_world_simps(2) ok, of "''root1''" "[''a'']" "[]" minute] n
  show ?thesis by (auto simp: sample_projects_def sample_project_def new_project_def gone_def
        underErroredSubtree_def missing_at_def)
qed

section \<open>Projects that a scan has seen\<close>

definition project_path :: "RootPath \<Rightarrow> bytes \<Rightarrow> bytes" where
  "project_path rt relative = (if relative \<noteq> ''.'' then path_join [rt_Path rt, relative] else rt_Path rt)"

text \<open>A project whose row is seen, and a row for one that has none; the database is otherwise as it was.\<close>

definition seen_project ::
    "RootPath \<Rightarrow> bytes \<Rightarrow> instant \<Rightarrow> bytes \<Rightarrow> registry \<Rightarrow> (project_row \<times> bool) \<times> registry" where
  "seen_project rt relative t i d =
     (let path = project_path rt relative; name = name_or_root path (rt_Path rt)
      in case project_by_identity (rt_ID rt) relative d of
           Some r \<Rightarrow> ((see_project name path t r, False),
             d\<lparr>projects := update_where (\<lambda>x. pj_id x = pj_id r) (see_project name path t) (projects d)\<rparr>)
         | None \<Rightarrow> let r = new_project i name path relative (rt_ID rt) t
                   in ((r, True), d\<lparr>projects := projects d @ [r]\<rparr>))"

definition new_ids :: "bytes \<Rightarrow> bytes set \<Rightarrow> registry world \<Rightarrow> bool" where
  "new_ids kind used w \<longleftrightarrow> (\<forall>n \<ge> tick w. kind @ ''_'' @ ent w n \<notin> used)"

lemma project_ids:
  "registry_ok d \<Longrightarrow> unique_by (\<lambda>r. Some (pj_id r)) (projects d)"
  by (simp add: registry_ok_iff registry_uniques_def)

lemma project_by_identity_Some:
  assumes "registry_ok d" and "project_by_identity rt relative d = Some r"
  shows "r \<in> set (projects d)" and "pj_root_path_id r = rt" and "pj_relative_path r = relative"
  using assms(2) by (auto simp: project_by_identity_def dest!: first_row_in)

lemma see_project_ok:
  assumes "registry_ok d"
  shows "registry_ok (d\<lparr>projects := update_where P (see_project name path t) (projects d)\<rparr>)"
proof (rule projects_checked [OF assms])
  show "map project_refs (update_where P (see_project name path t) (projects d)) = map project_refs (projects d)"
    by (rule map_update_where) (simp add: project_refs_def see_project_def)
  show "list_all project_check (update_where P (see_project name path t) (projects d))"
    using assms by (auto simp: registry_ok_iff registry_checks_def list_all_iff set_update_where
        see_project_def project_check_def)
qed

lemma new_project_ok:
  assumes "registry_ok d" and "rt \<in> rp_id ` set (root_paths d)" and "i \<notin> pj_id ` set (projects d)"
    and "project_by_identity rt relative d = None"
  shows "registry_ok (d\<lparr>projects := projects d @ [new_project i name path relative rt t]\<rparr>)"
proof -
  let ?r = "new_project i name path relative rt t"
  have "\<forall>x \<in> set (projects d). (pj_root_path_id x, pj_relative_path x) \<noteq> (rt, relative)"
    using assms(4) by (auto simp: project_by_identity_def filter_empty_conv)
  then have "unique_by (\<lambda>r. Some (pj_root_path_id r, pj_relative_path r)) (projects d @ [?r])"
    "unique_by (\<lambda>r. Some (pj_id r)) (projects d @ [?r])"
    using assms(1,3) by (auto simp: registry_ok_iff registry_uniques_def unique_by_snoc new_project_def)
  moreover have "project_check ?r" by (simp add: project_check_def new_project_def)
  ultimately show ?thesis
    using assms(1,2)
    by (auto simp: registry_ok_iff registry_checks_def registry_uniques_def registry_foreign_keys_def
        new_project_def refers_def list_all_iff Let_def)
qed

lemma first_unique:
  assumes "unique_by (\<lambda>x. Some (k x)) xs" and "x \<in> set xs"
  shows "first_row (filter (\<lambda>y. k y = k x) xs) = Some x"
  using assms
proof (induction xs)
  case (Cons y ys)
  then show ?case by (cases "y = x") (auto simp: unique_by_Cons)
qed simp

lemma project_tx_calm:
  assumes "calm w" and "registry_ok (db w)" and "rt_ID rt \<in> rp_id ` set (root_paths (db w))"
    and "new_ids ''project'' (pj_id ` set (projects (db w))) w"
    and path: "path = project_path rt relative"
    and eff: "eff = seen_project rt relative t (''project_'' @ ent w (tick w + 2)) (db w)"
  shows "\<exists>w'. project_tx (name_or_root path (rt_Path rt)) path relative (rt_ID rt) t w =
      (Inr (Some (pj_id (fst (fst eff)), snd (fst eff))), w') \<and> calm w' \<and> db w' = snd eff \<and> registry_ok (db w')"
proof -
  let ?name = "name_or_root path (rt_Path rt)" and ?d = "db w" and ?i = "''project_'' @ ent w (tick w + 2)"
  have q: "query (project_by_identity (rt_ID rt) relative) (step_tick w) =
      (Inr (project_by_identity (rt_ID rt) relative ?d), step_tick (step_tick w))"
    using assms(1) by (simp add: query_calm)
  show ?thesis
  proof (cases "project_by_identity (rt_ID rt) relative ?d")
    case (Some r)
    let ?st = "update_project (\<lambda>x. pj_id x = pj_id r) (see_project ?name path t)"
    have eff': "eff = ((see_project ?name path t r, False), snd (?st ?d))"
      using Some by (simp add: eff seen_project_def path update_project_def Let_def)
    have ok: "registry_ok (snd (?st ?d))" using see_project_ok [OF assms(2)] by (simp add: update_project_def)
    let ?w = "step_tick (step_tick w)"
    have "rexec ?st ?w = (Inr (fst (?st ?d)), (step_tick ?w)\<lparr>db := snd (?st ?d)\<rparr>)"
      using exec_calm [of ?w registry_violation ?st] assms(1) ok by simp
    then have "project_tx ?name path relative (rt_ID rt) t w =
        (Inr (Some (pj_id r, False)), step_tick ((step_tick ?w)\<lparr>db := snd (?st ?d)\<rparr>))"
      using q Some assms(1) by (simp add: project_tx_def TxMaybe_def andThen_Inr_eq ret_def)
    then show ?thesis
      using eff' ok assms(1)
      by (intro exI [of _ "step_tick ((step_tick ?w)\<lparr>db := snd (?st ?d)\<rparr>)"]) (simp add: see_project_def)
  next
    case None
    let ?r = "new_project ?i ?name path relative (rt_ID rt) t"
    let ?st = "insert_project ?r"
    have eff': "eff = ((?r, True), snd (?st ?d))"
      using None by (simp add: eff seen_project_def path insert_project_def Let_def)
    have "?i \<notin> pj_id ` set (projects ?d)" using assms(4) by (simp add: new_ids_def)
    then have ok: "registry_ok (snd (?st ?d))"
      using new_project_ok [OF assms(2,3) _ None] by (simp add: insert_project_def)
    let ?w = "step_tick (step_tick (step_tick w))"
    have "rexec ?st ?w = (Inr (), (step_tick ?w)\<lparr>db := snd (?st ?d)\<rparr>)"
      using exec_calm [of ?w registry_violation ?st] assms(1) ok by (simp add: insert_project_def)
    then have "project_tx ?name path relative (rt_ID rt) t w =
        (Inr (Some (?i, True)), step_tick ((step_tick ?w)\<lparr>db := snd (?st ?d)\<rparr>))"
      using q None assms(1) by (simp add: project_tx_def TxMaybe_def andThen_Inr_eq outcome_eq ret_def)
    then show ?thesis
      using eff' ok assms(1)
      by (intro exI [of _ "step_tick ((step_tick ?w)\<lparr>db := snd (?st ?d)\<rparr>)"]) (simp add: new_project_def)
  qed
qed

text \<open>
  The project of a directory that a scan has seen: the row it had, renamed and active again unless it
  was disabled, or a new one; that row is returned, and nothing else changes. One round is enough where
  no other process intervenes.
\<close>

theorem UpsertProject_result:
  fixes w :: "registry world" and t :: instant
  assumes "calm w" and "registry_ok (db w)" and "rt_ID rt \<in> rp_id ` set (root_paths (db w))"
    and "new_ids ''project'' (pj_id ` set (projects (db w))) w"
    and "safeRelativePath relative0 = Inr relative"
  defines "eff \<equiv> seen_project rt relative t (''project_'' @ ent w (tick w + 2)) (db w)"
  shows "\<exists>w'. UpsertProject (Suc fuel) rt relative0 t w =
      (Inr (Some (scanProject (fst (fst eff)), snd (fst eff))), w') \<and>
    db w' = snd eff \<and> registry_ok (db w') \<and> calm w'"
proof -
  let ?path = "project_path rt relative"
  from project_tx_calm [OF assms(1-4) refl refl, of relative t] obtain w1 where
    tx: "project_tx (name_or_root ?path (rt_Path rt)) ?path relative (rt_ID rt) t w =
        (Inr (Some (pj_id (fst (fst eff)), snd (fst eff))), w1)" "calm w1" "db w1 = snd eff" "registry_ok (db w1)"
    unfolding eff_def by blast
  have "fst (fst eff) \<in> set (projects (db w1))"
    unfolding tx(3) eff_def
    by (auto simp: seen_project_def Let_def set_update_where project_by_identity_def split: option.split
        dest!: first_row_in)
  then have "first_row (filter (\<lambda>r. pj_id r = pj_id (fst (fst eff))) (projects (db w1))) = Some (fst (fst eff))"
    using first_unique [OF project_ids [OF tx(4)], of "fst (fst eff)"] by simp
  then have "GetProject (pj_id (fst (fst eff))) w1 = (Inr (scanProject (fst (fst eff))), step_tick w1)"
    using tx(2) by (simp add: GetProject_def fetch_calm)
  with tx assms(5) show ?thesis
    by (intro exI [of _ "step_tick w1"])
      (simp add: UpsertProject_def project_path_def Let_def andThen_Inr_eq)
qed

text \<open>A project that was missing is found again.\<close>

definition lost_project :: project_row where
  "lost_project = missing_at 0 (sample_project ''p2'' ''b'')"

definition lost_projects :: registry where
  "lost_projects = sample_projects\<lparr>projects := [sample_project ''p1'' ''a'', lost_project]\<rparr>"

lemma UpsertProject_result_witness:
  "\<exists>w'. UpsertProject 1 (scanRootPath sample_root) ''b'' minute (registry_world lost_projects) =
     (Inr (Some (scanProject (see_project ''b'' ''/r/b'' minute lost_project), False)), w') \<and>
     map pj_status (projects (db w')) = [''active'', ''active'']"
proof -
  let ?w = "registry_world lost_projects" and ?rt = "scanRootPath sample_root"
  have ok: "registry_ok (db ?w)" and rt: "rt_ID ?rt \<in> rp_id ` set (root_paths (db ?w))"
    and rel: "safeRelativePath ''b'' = Inr ''b''" by code_simp+
  have new: "new_ids ''project'' (pj_id ` set (projects (db ?w))) ?w"
    by (simp add: new_ids_def lost_projects_def lost_project_def sample_project_def new_project_def missing_at_def)
  have "project_path ?rt ''b'' = ''/r/b''" "name_or_root ''/r/b'' (rt_Path ?rt) = ''b''"
    "project_by_identity (rt_ID ?rt) ''b'' lost_projects = Some lost_project" by code_simp+
  then have eff: "seen_project ?rt ''b'' minute i lost_projects = ((see_project ''b'' ''/r/b'' minute lost_project, False),
      lost_projects\<lparr>projects := update_where (\<lambda>x. pj_id x = pj_id lost_project)
        (see_project ''b'' ''/r/b'' minute) (projects lost_projects)\<rparr>)" for i
    by (simp add: seen_project_def Let_def)
  from UpsertProject_result [OF registry_world_simps(2) ok rt new rel, of 0 minute] eff
  show ?thesis
    by (auto simp: lost_projects_def lost_project_def sample_project_def new_project_def missing_at_def
        see_project_def)
qed

end
