(* ===== verification/System.thy ===== *)
theory System
  imports Job_Runtime Repo_Store
begin

text \<open>
  The database of the running system has the tables of the jobs and those of the registry. An
  operation of one component runs on its part and leaves the other alone. With this: the texts of the
  packages' errors, the JSON a handler reads and writes, and the end of a handler's context.
\<close>

record system =
  sys_jobs :: job_db
  sys_registry :: registry

section \<open>Operations of a component\<close>

definition view :: "('s \<Rightarrow> 'd) \<Rightarrow> 's world \<Rightarrow> 'd world" where
  "view get w = \<lparr>db = get (db w), handle_Provider = handle_Provider w, clk = clk w, flt = flt w,
     ent = ent w, tick = tick w\<rparr>"

definition zoom :: "('s \<Rightarrow> 'd) \<Rightarrow> ('d \<Rightarrow> 's \<Rightarrow> 's) \<Rightarrow> ('d, 'a) io \<Rightarrow> ('s, 'a) io" where
  "zoom get put m = (\<lambda>w. case m (view get w) of (r, w') \<Rightarrow> (r, w\<lparr>db := put (db w') (db w), tick := tick w'\<rparr>))"

definition on_jobs :: "(job_db, 'a) io \<Rightarrow> (system, 'a) io" where
  "on_jobs = zoom sys_jobs (\<lambda>d s. s\<lparr>sys_jobs := d\<rparr>)"

definition on_registry :: "(registry, 'a) io \<Rightarrow> (system, 'a) io" where
  "on_registry = zoom sys_registry (\<lambda>d s. s\<lparr>sys_registry := d\<rparr>)"

text \<open>A context ends at some time and stays ended; the code asks for it in places.\<close>

definition context_ended :: "(nat \<Rightarrow> bool) \<Rightarrow> ('d, bool) io" where
  "context_ended ended = (\<lambda>w. (Inr (ended (tick w)), w))"

section \<open>Errors\<close>

definition scanner_text :: "err \<Rightarrow> bytes" where
  "scanner_text e =
     (case e of
        ENotFound \<Rightarrow> ''scanner registry record not found''
      | EValidation _ m \<Rightarrow> ''scanner validation error: '' @ message_text m
      | _ \<Rightarrow> err_text e)"

definition repository_text :: "err \<Rightarrow> bytes" where
  "repository_text e =
     (case e of
        ENotFound \<Rightarrow> ''repository record not found''
      | EValidation code m \<Rightarrow>
          ''repository validation error: '' @ (if message_text m = [] then code else message_text m)
      | _ \<Rightarrow> err_text e)"

definition handler_error :: "bytes \<Rightarrow> bytes \<Rightarrow> bool \<Rightarrow> err" where
  "handler_error code msg retryable =
     EHandler \<lparr>he_Code = code, he_Message = msg, he_Retryable = retryable\<rparr>"

text \<open>An operation whose error the handler reports under a code of its own.\<close>

definition or_fail :: "('d, 'a) io \<Rightarrow> (err \<Rightarrow> err) \<Rightarrow> ('d, 'a) io" where
  "or_fail m f = outcome m (\<lambda>r. case r of Inl e \<Rightarrow> fail (f e) | Inr x \<Rightarrow> ret x)"

section \<open>Payloads and results\<close>

text \<open>\<open>json.Unmarshal\<close> into a struct, given what it assigns from the members of an object.\<close>

fun unmarshal :: "((bytes \<times> json) list \<Rightarrow> bytes + 'a) \<Rightarrow> raw \<Rightarrow> bytes + 'a" where
  "unmarshal f (Doc (JObject kvs)) = f kvs"
| "unmarshal f (Doc JNull) = f []"
| "unmarshal f (Doc _) = Inl mismatch"
| "unmarshal f Blank = Inl ''unexpected end of JSON input''"
| "unmarshal f (Malformed m) = Inl m"

fun strings_of :: "json list \<Rightarrow> bytes list option" where
  "strings_of [] = Some []"
| "strings_of (JString s # xs) = map_option (\<lambda>ss. s # ss) (strings_of xs)"
| "strings_of (JNull # xs) = map_option (\<lambda>ss. [] # ss) (strings_of xs)"
| "strings_of (_ # xs) = None"

fun string_list :: "json \<Rightarrow> bytes list option" where
  "string_list (JArray xs) = strings_of xs"
| "string_list JNull = Some []"
| "string_list _ = None"

definition strings_member :: "bytes \<Rightarrow> (bytes \<times> json) list \<Rightarrow> bytes + bytes list" where
  "strings_member name kvs =
     (let vs = map string_list (matching name kvs)
      in if None \<in> set vs then Inl mismatch
         else Inr (case last (Some [] # vs) of Some ss \<Rightarrow> ss | None \<Rightarrow> []))"

definition number_json :: "int \<Rightarrow> json" where
  "number_json n = JNumber (Num (of_int n))"

text \<open>A member with \<open>omitempty\<close>.\<close>

definition unless_empty :: "bytes \<Rightarrow> bytes \<Rightarrow> (bytes \<times> json) list" where
  "unless_empty name v = (if v = [] then [] else [(name, JString v)])"

definition nonEmpty :: "bytes \<Rightarrow> bytes \<Rightarrow> bytes" where
  "nonEmpty v fallback = (if blank v then fallback else v)"

section \<open>Frames\<close>

lemma view_simps [simp]:
  "db (view get w) = get (db w)" "handle_Provider (view get w) = handle_Provider w"
  "clk (view get w) = clk w" "flt (view get w) = flt w" "ent (view get w) = ent w"
  "tick (view get w) = tick w"
  by (simp_all add: view_def)

lemma on_jobs_registry [simp]: "sys_registry (db (snd (on_jobs m w))) = sys_registry (db w)"
  by (simp add: on_jobs_def zoom_def split: prod.split)

lemma on_registry_jobs [simp]: "sys_jobs (db (snd (on_registry m w))) = sys_jobs (db w)"
  by (simp add: on_registry_def zoom_def split: prod.split)

lemma on_registry_registry:
  "sys_registry (db (snd (on_registry m w))) = db (snd (m (view sys_registry w)))"
  by (simp add: on_registry_def zoom_def split: prod.split)

lemma on_registry_result: "fst (on_registry m w) = fst (m (view sys_registry w))"
  by (simp add: on_registry_def zoom_def split: prod.split)

text \<open>A relation on registries, respected by an operation of the whole system.\<close>

definition registry_rel :: "(registry \<Rightarrow> registry \<Rightarrow> bool) \<Rightarrow> system \<Rightarrow> system \<Rightarrow> bool" where
  "registry_rel R s s' \<longleftrightarrow> R (sys_registry s) (sys_registry s')"

lemma keeps_on_registry: "keeps R m \<Longrightarrow> keeps (registry_rel R) (on_registry m)"
  by (simp add: keeps_def registry_rel_def on_registry_registry) (metis view_simps(1))

lemma keeps_on_jobs: "(\<And>d. R d d) \<Longrightarrow> keeps (registry_rel R) (on_jobs m)"
  by (simp add: keeps_def registry_rel_def)

lemma keeps_context_ended: "(\<And>d. R d d) \<Longrightarrow> keeps R (context_ended ended)"
  by (simp add: keeps_def context_ended_def)

end
