(* ===== verification/Scan_Handlers.thy ===== *)
theory Scan_Handlers
  imports System
begin

text \<open>
  \<open>internal/scanner/handlers.go\<close>: the global scan, which walks the directories of each root path,
  records the projects it sees and marks the others missing, and project discovery, which finds the Git
  repository of a project. The traversal takes directories from a queue in an order that is a
  parameter: one worker takes the last, several take them as they come; each directory is one step. The
  loop takes the number of directories it may visit.
\<close>

section \<open>Payloads and results\<close>

record GlobalScanPayload =
  gp_SchemaVersion :: bytes
  gp_RootPathIDs :: "bytes list"
  gp_Reason :: bytes
  gp_FollowSymlinks :: bool
  gp_IgnoreRulesSnapshotID :: bytes

definition decode_global_scan :: "raw \<Rightarrow> bytes + GlobalScanPayload" where
  "decode_global_scan = unmarshal (\<lambda>kvs.
     case (string_member ''schema_version'' kvs, strings_member ''root_path_ids'' kvs,
           string_member ''reason'' kvs, bool_member ''follow_symlinks'' kvs,
           string_member ''ignore_rules_snapshot_id'' kvs) of
       (Inr v, Inr ids, Inr reason, Inr follow, Inr snapshot) \<Rightarrow>
         Inr \<lparr>gp_SchemaVersion = v, gp_RootPathIDs = ids, gp_Reason = reason, gp_FollowSymlinks = follow,
              gp_IgnoreRulesSnapshotID = snapshot\<rparr>
     | _ \<Rightarrow> Inl mismatch)"

record GlobalScanResult =
  gr_RootPathIDs :: "bytes list"
  gr_ProjectsCreated :: int
  gr_ProjectsUpdated :: int
  gr_ProjectsMarkedMissing :: int
  gr_ProjectDiscoveryJobsEnqueued :: int
  gr_DirectoriesSkipped :: int
  gr_SymlinksSkipped :: int
  gr_ErrorsCount :: int

definition empty_result :: GlobalScanResult where
  "empty_result = \<lparr>gr_RootPathIDs = [], gr_ProjectsCreated = 0, gr_ProjectsUpdated = 0,
     gr_ProjectsMarkedMissing = 0, gr_ProjectDiscoveryJobsEnqueued = 0, gr_DirectoriesSkipped = 0,
     gr_SymlinksSkipped = 0, gr_ErrorsCount = 0\<rparr>"

definition global_scan_json :: "GlobalScanResult \<Rightarrow> raw" where
  "global_scan_json r =
     Doc (JObject
       [(''schema_version'', JString ''jobs.global_scan.result.v1''),
        (''root_path_ids'', JArray (map JString (gr_RootPathIDs r))),
        (''projects_created'', number_json (gr_ProjectsCreated r)),
        (''projects_updated'', number_json (gr_ProjectsUpdated r)),
        (''projects_marked_missing'', number_json (gr_ProjectsMarkedMissing r)),
        (''project_discovery_jobs_enqueued'', number_json (gr_ProjectDiscoveryJobsEnqueued r)),
        (''directories_skipped'', number_json (gr_DirectoriesSkipped r)),
        (''symlinks_skipped'', number_json (gr_SymlinksSkipped r)),
        (''errors_count'', number_json (gr_ErrorsCount r))])"

record ProjectDiscoveryPayload =
  dp_SchemaVersion :: bytes
  dp_ProjectID :: bytes
  dp_RootPathID :: bytes
  dp_RelativePath :: bytes
  dp_Reason :: bytes

definition decode_discovery :: "raw \<Rightarrow> bytes + ProjectDiscoveryPayload" where
  "decode_discovery = unmarshal (\<lambda>kvs.
     case (string_member ''schema_version'' kvs, string_member ''project_id'' kvs,
           string_member ''root_path_id'' kvs, string_member ''relative_path'' kvs,
           string_member ''reason'' kvs) of
       (Inr v, Inr project, Inr rt, Inr relative, Inr reason) \<Rightarrow>
         Inr \<lparr>dp_SchemaVersion = v, dp_ProjectID = project, dp_RootPathID = rt, dp_RelativePath = relative,
              dp_Reason = reason\<rparr>
     | _ \<Rightarrow> Inl mismatch)"

definition discovery_payload_json :: "ProjectDiscoveryPayload \<Rightarrow> raw" where
  "discovery_payload_json p =
     Doc (JObject
       ([(''schema_version'', JString (dp_SchemaVersion p)), (''project_id'', JString (dp_ProjectID p)),
         (''root_path_id'', JString (dp_RootPathID p)), (''relative_path'', JString (dp_RelativePath p))] @
        unless_empty ''reason'' (dp_Reason p)))"

record ProjectDiscoveryResult =
  dr_ProjectID :: bytes
  dr_GitRepositoryDetected :: bool
  dr_RepositoryID :: bytes
  dr_RepositoryCreated :: bool
  dr_RepositoryUpdated :: bool
  dr_LinkedProjectIDs :: "bytes list"
  dr_LinksCreated :: int
  dr_GitMarkerType :: bytes

definition discovery_json :: "ProjectDiscoveryResult \<Rightarrow> raw" where
  "discovery_json r =
     Doc (JObject
       ([(''schema_version'', JString ''jobs.project_discovery.result.v1''),
         (''project_id'', JString (dr_ProjectID r)),
         (''git_repository_detected'', JBool (dr_GitRepositoryDetected r))] @
        unless_empty ''repository_id'' (dr_RepositoryID r) @
        [(''repository_created'', JBool (dr_RepositoryCreated r)),
         (''repository_updated'', JBool (dr_RepositoryUpdated r)),
         (''linked_project_ids'', JArray (map JString (dr_LinkedProjectIDs r))),
         (''links_created'', number_json (dr_LinksCreated r))] @
        unless_empty ''git_marker_type'' (dr_GitMarkerType r)))"

section \<open>What a handler is given\<close>

record scan_env =
  se_worker :: bytes
  se_job :: Job
  se_fs :: scanFilesystem
  se_ended :: "nat \<Rightarrow> bool"

definition progress :: "scan_env \<Rightarrow> bytes \<Rightarrow> (bytes \<times> json) list \<Rightarrow> (system, unit) io" where
  "progress env msg ds = ignoring (on_jobs (EmitProgress (se_worker env) (se_job env) msg ds))"

text \<open>The text of an \<open>os.PathError\<close>; the file system has the texts of the other errors.\<close>

definition fs_text :: "bytes \<Rightarrow> bytes \<Rightarrow> fs_error \<Rightarrow> bytes" where
  "fs_text operation path e =
     (case e of NotExist \<Rightarrow> operation @ '' '' @ path @ '': no such file or directory'' | FsError m \<Rightarrow> m)"

definition emitScanError ::
    "scan_env \<Rightarrow> bytes \<Rightarrow> bytes \<Rightarrow> bytes \<Rightarrow> bytes \<Rightarrow> bytes option \<Rightarrow> (system, unit) io" where
  "emitScanError env code rt path relative e =
     progress env (case e of None \<Rightarrow> code | Some m \<Rightarrow> code @ '': '' @ m)
       [(''error_code'', JString code), (''root_path_id'', JString rt), (''path'', JString path),
        (''relative_path'', JString relative)]"

section \<open>One directory\<close>

record scan_state =
  sc_seen :: "bytes list"
  sc_errored :: "bytes list"
  sc_processed :: bool
  sc_result :: GlobalScanResult

definition count_error :: "bytes \<Rightarrow> scan_state \<Rightarrow> scan_state" where
  "count_error relative st =
     st\<lparr>sc_errored := List.insert (cleanRelativePath relative) (sc_errored st),
        sc_result := (sc_result st)\<lparr>gr_ErrorsCount := gr_ErrorsCount (sc_result st) + 1\<rparr>\<rparr>"

definition count_skipped :: "nat \<Rightarrow> nat \<Rightarrow> scan_state \<Rightarrow> scan_state" where
  "count_skipped ds ls st =
     st\<lparr>sc_result := (sc_result st)
          \<lparr>gr_DirectoriesSkipped := gr_DirectoriesSkipped (sc_result st) + int ds,
           gr_SymlinksSkipped := gr_SymlinksSkipped (sc_result st) + int ls\<rparr>\<rparr>"

definition count_project :: "bytes \<Rightarrow> bool \<Rightarrow> scan_state \<Rightarrow> scan_state" where
  "count_project relative created st =
     st\<lparr>sc_seen := List.insert relative (sc_seen st),
        sc_result := (sc_result st)
          \<lparr>gr_ProjectsCreated := gr_ProjectsCreated (sc_result st) + (if created then 1 else 0),
           gr_ProjectsUpdated := gr_ProjectsUpdated (sc_result st) + (if created then 0 else 1)\<rparr>\<rparr>"

definition count_enqueued :: "bool \<Rightarrow> scan_state \<Rightarrow> scan_state" where
  "count_enqueued enqueued st =
     st\<lparr>sc_result := (sc_result st)
          \<lparr>gr_ProjectDiscoveryJobsEnqueued :=
             gr_ProjectDiscoveryJobsEnqueued (sc_result st) + (if enqueued then 1 else 0)\<rparr>\<rparr>"

definition enqueueProjectDiscovery :: "scan_env \<Rightarrow> Project \<Rightarrow> (system, bool) io" where
  "enqueueProjectDiscovery env project =
     andThen (on_jobs (EnqueueIfNoActive
       \<lparr>req_ID = [], req_JobType = ''project_discovery'',
        req_Actor = nonEmpty (j_Actor (se_job env)) ''global-scanner'', req_CorrelationID = [],
        req_IdempotencyKey = [], req_ParentJobID = j_ID (se_job env), req_JobGroupID = [],
        req_WorkflowID = [], req_LockKey = ''project_discovery:'' @ po_ID project, req_MaxAttempts = 0,
        req_RunAfter = None, req_Priority = 0,
        req_Payload = discovery_payload_json
          \<lparr>dp_SchemaVersion = ''jobs.project_discovery.payload.v1'', dp_ProjectID = po_ID project,
           dp_RootPathID = po_RootPathID project, dp_RelativePath = po_RelativePath project,
           dp_Reason = ''global_scan''\<rparr>\<rparr>)) (\<lambda>(ref, enqueued).
     andThen (on_jobs (EmitChildCreated (se_worker env) (se_job env)
         (if enqueued then ''project discovery job enqueued'' else ''project discovery job already active'')
         [(''project_id'', JString (po_ID project)), (''job_id'', JString (ref_JobID ref)),
          (''coalesced'', JBool (\<not> enqueued))])) (\<lambda>_.
       ret enqueued))"

text \<open>
  The steps of \<open>scanDirectory\<close>: an error of one directory is counted and reported and the traversal goes
  on without it; the boolean that is returned stops this worker from going on.
\<close>

definition addError ::
    "scan_env \<Rightarrow> RootPath \<Rightarrow> bytes \<Rightarrow> bytes \<Rightarrow> bytes \<Rightarrow> bytes \<Rightarrow> bool \<Rightarrow> scan_state \<Rightarrow>
     (system, (bytes list \<times> bool) \<times> scan_state) io" where
  "addError env rt code path relative msg stop st =
     andThen (emitScanError env code (rt_ID rt) path relative (Some msg)) (\<lambda>_.
       ret (([], stop), count_error relative st))"

definition scan_project ::
    "nat \<Rightarrow> scan_env \<Rightarrow> RootPath \<Rightarrow> instant \<Rightarrow> bytes \<Rightarrow> bytes \<Rightarrow> DirEntry list \<Rightarrow> scan_state \<Rightarrow>
     (system, ((bytes list \<times> bool) \<times> scan_state) option) io" where
  "scan_project fuel env rt t dir relative entries st =
     outcome (on_registry (UpsertProject fuel rt relative t)) (\<lambda>r. case r of
         Inl e \<Rightarrow> andThen (addError env rt ''project_upsert_failed'' dir relative (scanner_text e) False st)
                    (\<lambda>x. ret (Some x))
       | Inr None \<Rightarrow> ret None
       | Inr (Some (project, created)) \<Rightarrow>
           (let (ds, ls) = countSkippedChildren entries;
                st1 = count_skipped ds ls (count_project (po_RelativePath project) created st)
            in outcome (enqueueProjectDiscovery env project) (\<lambda>r2. case r2 of
                 Inl e \<Rightarrow> andThen (addError env rt ''project_discovery_enqueue_failed'' dir relative
                            (err_text e) False st1) (\<lambda>x. ret (Some x))
               | Inr enqueued \<Rightarrow> ret (Some (([], False), count_enqueued enqueued st1)))))"

definition scanDirectory ::
    "nat \<Rightarrow> scan_env \<Rightarrow> RootPath \<Rightarrow> ignorePattern list \<Rightarrow> instant \<Rightarrow> bytes \<Rightarrow> scan_state \<Rightarrow>
     (system, ((bytes list \<times> bool) \<times> scan_state) option) io" where
  "scanDirectory fuel env rt matcher t dir st =
     andThen (context_ended (se_ended env)) (\<lambda>ended.
       if ended
       then andThen (addError env rt ''scan_cancelled'' (rt_Path rt) ''.'' ''context canceled'' True st)
              (\<lambda>x. ret (Some x))
       else
         (let relative = relativePath (rt_Path rt) dir
          in case fs_ReadDir (se_fs env) dir of
               Inl e \<Rightarrow> andThen (addError env rt ''read_directory_failed'' dir relative (fs_text ''open'' dir e) False st)
                          (\<lambda>x. ret (Some x))
             | Inr entries \<Rightarrow>
                 (let st0 = st\<lparr>sc_processed := True\<rparr>
                  in if containsTerraformFile entries relative matcher
                     then scan_project fuel env rt t dir relative entries st0
                     else
                       (let (children, ds, ls) = scan_children (rt_Path rt) dir matcher entries
                        in ret (Some ((children, False), count_skipped ds ls st0))))))"

section \<open>A root path\<close>

fun scan_loop ::
    "nat \<Rightarrow> nat \<Rightarrow> (bytes list \<Rightarrow> nat) \<Rightarrow> scan_env \<Rightarrow> RootPath \<Rightarrow> ignorePattern list \<Rightarrow> instant \<Rightarrow>
     bytes list \<Rightarrow> scan_state \<Rightarrow> (system, scan_state option) io" where
  "scan_loop fuel 0 pick env rt matcher t queue st = (if queue = [] then ret (Some st) else ret None)"
| "scan_loop fuel (Suc n) pick env rt matcher t queue st =
     (if queue = [] then ret (Some st)
      else
        (let k = pick queue mod length queue; rest = take k queue @ drop (Suc k) queue
         in andThen (scanDirectory fuel env rt matcher t (queue ! k) st) (\<lambda>r. case r of
              None \<Rightarrow> ret None
            | Some ((children, stop), st') \<Rightarrow>
                scan_loop fuel n pick env rt matcher t (if stop then rest else rest @ children) st')))"

text \<open>One worker: the last directory of the queue.\<close>

definition last_of :: "bytes list \<Rightarrow> nat" where
  "last_of queue = length queue - 1"

definition traversalWorkerCount :: "(registry, int) io" where
  "traversalWorkerCount =
     andThen provider (\<lambda>p.
       if p = ''sqlite'' then ret 1
       else outcome (ConfigInt ''workers.concurrency'') (\<lambda>r. case r of
           Inr n \<Rightarrow> ret (if 0 < n then min n 64 else 4)
         | Inl _ \<Rightarrow> ret 4))"

definition scanRoot ::
    "nat \<Rightarrow> nat \<Rightarrow> (bytes list \<Rightarrow> nat) \<Rightarrow> scan_env \<Rightarrow> RootPath \<Rightarrow> ignorePattern list \<Rightarrow> instant \<Rightarrow>
     GlobalScanResult \<Rightarrow> (system, scan_state option) io" where
  "scanRoot fuel n pick env rt matcher t result =
     (let st = \<lparr>sc_seen = [], sc_errored = [], sc_processed = False, sc_result = result\<rparr>;
          refuse = (\<lambda>code e ds ls.
            andThen (emitScanError env code (rt_ID rt) (rt_Path rt) ''.'' e) (\<lambda>_.
              ret (Some (count_skipped ds ls
                (st\<lparr>sc_result := result\<lparr>gr_ErrorsCount := gr_ErrorsCount result + 1\<rparr>\<rparr>)))))
      in case fs_Lstat (se_fs env) (rt_Path rt) of
           Inl e \<Rightarrow> refuse ''root_path_unavailable'' (Some (fs_text ''lstat'' (rt_Path rt) e)) 0 0
         | Inr Symlink \<Rightarrow> refuse ''root_path_symlink_unsupported'' None 1 1
         | Inr Directory \<Rightarrow>
             andThen (on_registry traversalWorkerCount) (\<lambda>workers.
               scan_loop fuel n (if workers = 1 then last_of else pick) env rt matcher t [rt_Path rt] st)
         | Inr _ \<Rightarrow> refuse ''root_path_unavailable'' None 0 0)"

definition milliseconds :: "duration \<Rightarrow> int" where
  "milliseconds d = (if 0 \<le> d then d div 1000000 else - ((- d) div 1000000))"

definition rootScanMetrics ::
    "bytes \<Rightarrow> duration \<Rightarrow> int \<Rightarrow> GlobalScanResult \<Rightarrow> GlobalScanResult \<Rightarrow> (bytes \<times> json) list" where
  "rootScanMetrics rt d workers before after =
     [(''root_path_id'', JString rt), (''duration_ms'', number_json (milliseconds d)),
      (''traversal_workers'', number_json workers),
      (''projects_created'', number_json (gr_ProjectsCreated after - gr_ProjectsCreated before)),
      (''projects_updated'', number_json (gr_ProjectsUpdated after - gr_ProjectsUpdated before)),
      (''project_discovery_jobs_enqueued'',
         number_json (gr_ProjectDiscoveryJobsEnqueued after - gr_ProjectDiscoveryJobsEnqueued before)),
      (''directories_skipped'', number_json (gr_DirectoriesSkipped after - gr_DirectoriesSkipped before)),
      (''symlinks_skipped'', number_json (gr_SymlinksSkipped after - gr_SymlinksSkipped before)),
      (''errors_count'', number_json (gr_ErrorsCount after - gr_ErrorsCount before))]"

section \<open>The global scan\<close>

text \<open>One root path: whether it was processed, and the counts; \<open>None\<close> when the bounds did not suffice.\<close>

definition scan_one ::
    "nat \<Rightarrow> nat \<Rightarrow> (bytes list \<Rightarrow> nat) \<Rightarrow> scan_env \<Rightarrow> instant \<Rightarrow> RootPath \<Rightarrow> GlobalScanResult \<Rightarrow>
     (system, (bool \<times> GlobalScanResult) option) io" where
  "scan_one fuel n pick env t rt result0 =
     (let before = result0\<lparr>gr_RootPathIDs := gr_RootPathIDs result0 @ [rt_ID rt]\<rparr>;
          storage = (\<lambda>e. handler_error ''storage_error'' (scanner_text e) True)
      in andThen (or_fail (on_registry (IgnoreRulesForRoot (rt_ID rt))) storage) (\<lambda>rules.
         andThen now (\<lambda>started.
         andThen (scanRoot fuel n pick env rt (newIgnoreMatcher rules) t before) (\<lambda>r.
           case r of
             None \<Rightarrow> ret None
           | Some st \<Rightarrow>
               (let result = sc_result st
                in andThen now (\<lambda>finished.
                   andThen (on_registry traversalWorkerCount) (\<lambda>workers.
                   andThen (progress env ''root scan completed''
                     (rootScanMetrics (rt_ID rt) (finished - started) workers before result)) (\<lambda>_.
                     if \<not> sc_processed st then ret (Some (False, result))
                     else
                       andThen (if sc_errored st = [] then ret ()
                                else progress env ''missing project marking skipped for errored subtrees''
                                  [(''root_path_id'', JString (rt_ID rt)),
                                   (''errored_subtree_count'', number_json (int (length (sc_errored st))))]) (\<lambda>_.
                       andThen (or_fail (on_registry
                         (MarkMissingProjects (rt_ID rt) (sc_seen st) (sc_errored st) t)) storage) (\<lambda>missing.
                         ret (Some (True, result\<lparr>gr_ProjectsMarkedMissing :=
                           gr_ProjectsMarkedMissing result + int missing\<rparr>))))))))))))"

fun scan_each_root ::
    "nat \<Rightarrow> nat \<Rightarrow> (bytes list \<Rightarrow> nat) \<Rightarrow> scan_env \<Rightarrow> instant \<Rightarrow> RootPath list \<Rightarrow> nat \<Rightarrow>
     GlobalScanResult \<Rightarrow> (system, (nat \<times> GlobalScanResult) option) io" where
  "scan_each_root fuel n pick env t [] processed result = ret (Some (processed, result))"
| "scan_each_root fuel n pick env t (rt # roots) processed result =
     andThen (scan_one fuel n pick env t rt result) (\<lambda>r. case r of
         None \<Rightarrow> ret None
       | Some (done_root, result') \<Rightarrow>
           scan_each_root fuel n pick env t roots (if done_root then Suc processed else processed) result')"

definition scan_roots :: "bytes list \<Rightarrow> (registry, RootPath list) io" where
  "scan_roots ids = (if ids \<noteq> [] then RootPathsByIDs ids else EnabledRootPaths)"

definition invalid_payload :: "bytes \<Rightarrow> err" where
  "invalid_payload msg = handler_error ''validation_error'' msg False"

definition global_scan ::
    "(bytes \<Rightarrow> raw) \<Rightarrow> nat \<Rightarrow> nat \<Rightarrow> (bytes list \<Rightarrow> nat) \<Rightarrow> scan_env \<Rightarrow> (system, raw option) io" where
  "global_scan parse fuel n pick env =
     (case decode_global_scan (j_Payload (se_job env)) of
        Inl e \<Rightarrow> fail (invalid_payload e)
      | Inr payload \<Rightarrow>
          if gp_SchemaVersion payload \<noteq> ''jobs.global_scan.payload.v1''
          then fail (invalid_payload ''invalid global scan payload schema_version'')
          else if gp_FollowSymlinks payload
          then fail (invalid_payload ''follow_symlinks=true is not supported'')
          else
            andThen (or_fail (on_registry (SyncRootPathsFromConfig parse fuel))
              (\<lambda>e. handler_error ''storage_error'' (scanner_text e) True)) (\<lambda>_.
            andThen (or_fail (on_registry (scan_roots (gp_RootPathIDs payload)))
              (\<lambda>e. invalid_payload (scanner_text e))) (\<lambda>roots.
              if roots = [] then fail (invalid_payload ''no enabled root paths to scan'')
              else
                andThen now (\<lambda>t.
                andThen (scan_each_root fuel n pick env t roots 0 empty_result) (\<lambda>r. case r of
                    None \<Rightarrow> ret None
                  | Some (processed, result) \<Rightarrow>
                      if processed = 0
                      then fail (handler_error ''global_scan_failed''
                                   ''all requested root paths failed before traversal'' False)
                      else ret (Some (global_scan_json result)))))))"

section \<open>Project discovery\<close>

fun link_all ::
    "bytes \<Rightarrow> bytes \<Rightarrow> bytes \<Rightarrow> Project list \<Rightarrow> bytes list \<Rightarrow> int \<Rightarrow> (registry, bytes list \<times> int) io" where
  "link_all project repository job [] linked created = ret (linked, created)"
| "link_all project repository job (other # related) linked created =
     (if po_ID other = project then link_all project repository job related linked created
      else
        andThen (UpsertProjectLink project (po_ID other) repository job) (\<lambda>new.
          link_all project repository job related (linked @ [po_ID other])
            (if new then created + 1 else created)))"

definition no_discovery :: "bytes \<Rightarrow> ProjectDiscoveryResult" where
  "no_discovery project = \<lparr>dr_ProjectID = project, dr_GitRepositoryDetected = False, dr_RepositoryID = [],
     dr_RepositoryCreated = False, dr_RepositoryUpdated = False, dr_LinkedProjectIDs = [],
     dr_LinksCreated = 0, dr_GitMarkerType = []\<rparr>"

text \<open>What the handler records once it has found a repository.\<close>

definition record_discovery ::
    "Project \<Rightarrow> RootPath \<Rightarrow> bytes \<Rightarrow> bytes \<Rightarrow> bytes \<Rightarrow> (registry, ProjectDiscoveryResult) io" where
  "record_discovery project rt repositoryPath marker job =
     andThen (UpsertGenericRepository rt repositoryPath) (\<lambda>(repo, created, updated).
     andThen (SetProjectRepository (po_ID project) (re_ID repo)) (\<lambda>_.
     andThen (ProjectsByRepository (re_ID repo)) (\<lambda>related.
     andThen (link_all (po_ID project) (re_ID repo) job related [] 0) (\<lambda>(linked, links).
       ret \<lparr>dr_ProjectID = po_ID project, dr_GitRepositoryDetected = True, dr_RepositoryID = re_ID repo,
            dr_RepositoryCreated = created, dr_RepositoryUpdated = updated, dr_LinkedProjectIDs = linked,
            dr_LinksCreated = links, dr_GitMarkerType = marker\<rparr>))))"

definition project_discovery :: "nat \<Rightarrow> scan_env \<Rightarrow> (system, raw option) io" where
  "project_discovery fuel env =
     (let storage = (\<lambda>e. handler_error ''storage_error'' (scanner_text e) True);
          invalid = (\<lambda>e. invalid_payload (scanner_text e))
      in case decode_discovery (j_Payload (se_job env)) of
           Inl e \<Rightarrow> fail (invalid_payload e)
         | Inr payload \<Rightarrow>
             if dp_SchemaVersion payload \<noteq> ''jobs.project_discovery.payload.v1''
             then fail (invalid_payload ''invalid project discovery payload schema_version'')
             else
               andThen (or_fail (on_registry (GetProject (dp_ProjectID payload))) invalid) (\<lambda>project.
                 if po_Status project = ProjectStatusMissing \<or> po_Status project = ProjectStatusDisabled
                 then andThen (progress env ''project discovery skipped for inactive project''
                        [(''project_id'', JString (po_ID project)), (''status'', JString (po_Status project))])
                        (\<lambda>_. ret (Some (discovery_json (no_discovery (po_ID project)))))
                 else if dp_RootPathID payload \<noteq> [] \<and> dp_RootPathID payload \<noteq> po_RootPathID project
                 then fail (invalid_payload ''project discovery root_path_id does not match project'')
                 else if dp_RelativePath payload \<noteq> [] \<and>
                         cleanRelativePath (dp_RelativePath payload) \<noteq> po_RelativePath project
                 then fail (invalid_payload ''project discovery relative_path does not match project'')
                 else
                   andThen (or_fail (on_registry (GetRootPath (po_RootPathID project))) invalid) (\<lambda>rt.
                     case findGitRepository fuel (se_fs env) (po_Path project) (rt_Path rt) of
                       None \<Rightarrow> ret None
                     | Some (Inl e) \<Rightarrow> fail (handler_error ''handler_failed'' (fs_text ''open'' (path_join [po_Path project, ''.git'']) e) True)
                     | Some (Inr None) \<Rightarrow> ret (Some (discovery_json (no_discovery (po_ID project))))
                     | Some (Inr (Some (repositoryPath, marker))) \<Rightarrow>
                         andThen (or_fail (on_registry (record_discovery project rt repositoryPath marker
                           (j_ID (se_job env)))) storage) (\<lambda>result.
                         andThen (progress env ''project discovery completed''
                           [(''project_id'', JString (po_ID project)),
                            (''repository_id'', JString (dr_RepositoryID result)),
                            (''git_marker_type'', JString marker)]) (\<lambda>_.
                           ret (Some (discovery_json result)))))))"

end
