(* ===== verification/Process_Lock.thy ===== *)
theory Process_Lock
  imports Job_Types
begin

text \<open>
  The lock files that keep a second server (\<open>internal/runtime/lock.go\<close>) and a second worker
  (\<open>internal/app/worker/lock.go\<close>) from starting. Both use the same protocol on one path: create the
  file exclusively and write the metadata; if it exists, read it, refuse if its process lives, else
  remove it and try again. The state is the file at the path, with the process that created it (a
  write through a descriptor goes to the created file, also when the path has been removed or reused
  since), and for each process how far it is; a run is a list of processes, each making its next
  step, or releasing, or dying. One system call of each process may fail, which ends its attempt. The
  empty path, with which no lock is taken, is left out.
\<close>

section \<open>Metadata\<close>

record LockMetadata =
  lm_SchemaVersion :: bytes
  lm_InstanceID :: bytes
  lm_PID :: int
  lm_Host :: bytes
  lm_APIListenAddress :: bytes
  lm_StartedAt :: "instant option"
  lm_UpdatedAt :: "instant option"
  lm_ConfigDatabaseFingerprint :: bytes

record workerLockMetadata =
  wm_SchemaVersion :: bytes
  wm_PID :: int
  wm_Host :: bytes
  wm_WorkerID :: bytes
  wm_DatabaseFingerprint :: bytes
  wm_StartedAt :: "instant option"
  wm_UpdatedAt :: "instant option"

text \<open>What both functions fill in before they open the file; a zero time is \<open>None\<close>.\<close>

definition stamp_runtime :: "int \<Rightarrow> bytes \<Rightarrow> instant \<Rightarrow> LockMetadata \<Rightarrow> LockMetadata" where
  "stamp_runtime pid host t m =
     m\<lparr>lm_SchemaVersion := ''runtime_lock.v1'', lm_PID := pid, lm_Host := host,
       lm_StartedAt := (if lm_StartedAt m = None then Some t else lm_StartedAt m),
       lm_UpdatedAt := Some t\<rparr>"

definition stamp_worker :: "int \<Rightarrow> bytes \<Rightarrow> instant \<Rightarrow> workerLockMetadata \<Rightarrow> workerLockMetadata" where
  "stamp_worker pid host t m =
     m\<lparr>wm_SchemaVersion := ''worker_process_lock.v1'', wm_PID := pid,
       wm_StartedAt := (if wm_StartedAt m = None then Some t else wm_StartedAt m),
       wm_UpdatedAt := Some t, wm_Host := (if host = [] then ''unknown'' else host)\<rparr>"

section \<open>Liveness and health\<close>

datatype kill_result = KillOk | KillEPERM | KillESRCH

definition processLive :: "(int \<Rightarrow> kill_result) \<Rightarrow> int \<Rightarrow> bool" where
  "processLive kill pid =
     (if pid \<le> 0 then False else kill pid = KillOk \<or> kill pid = KillEPERM)"

datatype readiness = ReadinessReady | ReadinessStarting | ReadinessDegraded

record HealthStatus =
  hs_InstanceID :: bytes
  hs_Mode :: bytes
  hs_DatabaseFingerprint :: bytes
  hs_StartedAt :: instant
  hs_Readiness :: readiness
  hs_SchemaVersion :: bytes

text \<open>\<open>HealthService.Status\<close>: the source, if any, with the outcome of its ping and its fingerprint.\<close>

definition health_status :: "bytes \<Rightarrow> bytes \<Rightarrow> instant \<Rightarrow> (bool \<times> bytes) option \<Rightarrow> HealthStatus" where
  "health_status instanceID mode startedAt source =
     \<lparr>hs_InstanceID = instanceID, hs_Mode = mode,
      hs_DatabaseFingerprint = (case source of None \<Rightarrow> [] | Some (_, fingerprint) \<Rightarrow> fingerprint),
      hs_StartedAt = startedAt,
      hs_Readiness = (case source of
                        None \<Rightarrow> ReadinessDegraded
                      | Some (ping_ok, _) \<Rightarrow> if ping_ok then ReadinessReady else ReadinessDegraded),
      hs_SchemaVersion = ''health_status.v1''\<rparr>"

text \<open>
  \<open>http\<close> is what a GET of the health endpoint at an address gives: nothing, or the status code and the
  body if it decodes.
\<close>

definition probeHealth ::
    "(bytes \<Rightarrow> (int \<times> HealthStatus option) option) \<Rightarrow> bytes \<Rightarrow> bytes \<Rightarrow> bytes \<Rightarrow> bool" where
  "probeHealth http address instanceID fingerprint =
     (if address = [] then False
      else
        (case http address of
           None \<Rightarrow> False
         | Some (code, body) \<Rightarrow>
             if code \<noteq> 200 then False
             else
               (case body of
                  None \<Rightarrow> False
                | Some s \<Rightarrow> hs_InstanceID s = instanceID \<and> hs_DatabaseFingerprint s = fingerprint)))"

section \<open>The protocol\<close>

text \<open>The point a process has reached; \<open>'m\<close> is the metadata.\<close>

datatype 'm lock_pc =
    Opening
  | Writing
  | Reading
  | Checking 'm
  | Removing
  | Holding
  | Refused bytes
  | Released
  | Dead

record 'm lock_state =
  lock_file :: "(nat \<times> 'm option) option"
  lock_pc :: "nat \<Rightarrow> 'm lock_pc"

text \<open>
  The environment of a lock: the system call that fails in each process, if any, the metadata each
  process writes, which metadata name a live process (given which processes are dead), and the text
  with which a live one is answered.
\<close>

datatype lock_fault = NoLockFault | OpenFails | WriteFails | RemoveFails

record 'm lock_env =
  le_fault :: "nat \<Rightarrow> lock_fault"
  le_meta :: "nat \<Rightarrow> 'm"
  le_live :: "(nat \<Rightarrow> bool) \<Rightarrow> 'm \<Rightarrow> bool"
  le_refusal :: "'m \<Rightarrow> bytes"

definition set_pc :: "nat \<Rightarrow> 'm lock_pc \<Rightarrow> 'm lock_state \<Rightarrow> 'm lock_state" where
  "set_pc p pc s = s\<lparr>lock_pc := (lock_pc s)(p := pc)\<rparr>"

definition is_dead :: "'m lock_state \<Rightarrow> nat \<Rightarrow> bool" where
  "is_dead s p \<longleftrightarrow> lock_pc s p = Dead"

text \<open>The next step of a process that wants the lock: one system call, or one decision.\<close>

definition lock_step :: "'m lock_env \<Rightarrow> nat \<Rightarrow> 'm lock_state \<Rightarrow> 'm lock_state" where
  "lock_step env p s =
     (case lock_pc s p of
        Opening \<Rightarrow>
          (if le_fault env p = OpenFails then set_pc p (Refused ''open'') s
           else
             (case lock_file s of
                None \<Rightarrow> set_pc p Writing (s\<lparr>lock_file := Some (p, None)\<rparr>)
              | Some _ \<Rightarrow> set_pc p Reading s))
      | Writing \<Rightarrow>
          (if le_fault env p = WriteFails then set_pc p (Refused ''write'') (s\<lparr>lock_file := None\<rparr>)
           else
             set_pc p Holding
               (case lock_file s of
                  Some (creator, _) \<Rightarrow>
                    if creator = p then s\<lparr>lock_file := Some (p, Some (le_meta env p))\<rparr> else s
                | None \<Rightarrow> s))
      | Reading \<Rightarrow>
          (case lock_file s of
             Some (_, Some m) \<Rightarrow> set_pc p (Checking m) s
           | _ \<Rightarrow> set_pc p (Refused ''lock exists but cannot be read'') s)
      | Checking m \<Rightarrow>
          (if le_live env (is_dead s) m then set_pc p (Refused (le_refusal env m)) s
           else set_pc p Removing s)
      | Removing \<Rightarrow>
          (if le_fault env p = RemoveFails then set_pc p (Refused ''remove'') s
           else
             (case lock_file s of
                None \<Rightarrow> set_pc p (Refused ''remove: no such file'') s
              | Some _ \<Rightarrow> set_pc p Opening (s\<lparr>lock_file := None\<rparr>)))
      | _ \<Rightarrow> s)"

text \<open>\<open>Release\<close> removes whatever file is at the path.\<close>

definition lock_release :: "nat \<Rightarrow> 'm lock_state \<Rightarrow> 'm lock_state" where
  "lock_release p s =
     (if lock_pc s p = Holding then set_pc p Released (s\<lparr>lock_file := None\<rparr>) else s)"

datatype lock_event = Step nat | Release nat | Crash nat

fun lock_move :: "'m lock_env \<Rightarrow> lock_event \<Rightarrow> 'm lock_state \<Rightarrow> 'm lock_state" where
  "lock_move env (Step p) s = lock_step env p s"
| "lock_move env (Release p) s = lock_release p s"
| "lock_move env (Crash p) s = set_pc p Dead s"

definition lock_run :: "'m lock_env \<Rightarrow> lock_event list \<Rightarrow> 'm lock_state \<Rightarrow> 'm lock_state" where
  "lock_run env es s = foldl (\<lambda>s e. lock_move env e s) s es"

section \<open>The two locks\<close>

text \<open>
  The processes of a run are numbered; process \<open>p\<close> has the process id \<open>pid_of p\<close>, and a process id
  answers a signal unless its process is dead (or is no process at all).
\<close>

definition kill_of :: "int list \<Rightarrow> (nat \<Rightarrow> bool) \<Rightarrow> int \<Rightarrow> kill_result" where
  "kill_of pids dead pid =
     (if \<exists>p < length pids. pids ! p = pid \<and> \<not> dead p then KillOk else KillESRCH)"

definition runtime_lock ::
    "int list \<Rightarrow> (nat \<Rightarrow> lock_fault) \<Rightarrow> (nat \<Rightarrow> LockMetadata) \<Rightarrow> bytes \<Rightarrow> instant \<Rightarrow>
     (bytes \<Rightarrow> (int \<times> HealthStatus option) option) \<Rightarrow> LockMetadata lock_env" where
  "runtime_lock pids faults metadata host t http =
     \<lparr>le_fault = faults, le_meta = (\<lambda>p. stamp_runtime (pids ! p) host t (metadata p)),
      le_live = (\<lambda>dead m. processLive (kill_of pids dead) (lm_PID m)),
      le_refusal = (\<lambda>m.
        if probeHealth http (lm_APIListenAddress m) (lm_InstanceID m) (lm_ConfigDatabaseFingerprint m)
        then ''runtime already active at '' @ lm_APIListenAddress m
        else ''runtime lock pid is live but health probe failed'')\<rparr>"

definition worker_lock ::
    "int list \<Rightarrow> (nat \<Rightarrow> lock_fault) \<Rightarrow> (nat \<Rightarrow> workerLockMetadata) \<Rightarrow> bytes \<Rightarrow> instant \<Rightarrow> workerLockMetadata lock_env" where
  "worker_lock pids faults metadata host t =
     \<lparr>le_fault = faults, le_meta = (\<lambda>p. stamp_worker (pids ! p) host t (metadata p)),
      le_live = (\<lambda>dead m. processLive (kill_of pids dead) (wm_PID m)),
      le_refusal = (\<lambda>m. ''worker process already active for database '' @ wm_DatabaseFingerprint m)\<rparr>"

section \<open>One holder at a time\<close>

text \<open>
  What the protocol needs of its environment: the metadata a process writes name it, so that it is
  found alive until it is dead.
\<close>

locale lock_protocol =
  fixes env :: "'m lock_env" and procs :: "nat set"
  assumes own_metadata_live: "p \<in> procs \<Longrightarrow> \<not> dead p \<Longrightarrow> le_live env dead (le_meta env p)"
begin

definition file_ok :: "(nat \<times> 'm option) option \<Rightarrow> bool" where
  "file_ok f \<longleftrightarrow> (\<forall>p c. f = Some (p, c) \<longrightarrow> p \<in> procs \<and> (c = None \<or> c = Some (le_meta env p)))"

definition pc_ok :: "(nat \<times> 'm option) option \<Rightarrow> nat \<Rightarrow> 'm lock_pc \<Rightarrow> bool" where
  "pc_ok f p pc \<longleftrightarrow>
     (case pc of
        Opening \<Rightarrow> p \<in> procs
      | Reading \<Rightarrow> p \<in> procs
      | Writing \<Rightarrow> p \<in> procs \<and> f = Some (p, None)
      | Holding \<Rightarrow> p \<in> procs \<and> f = Some (p, Some (le_meta env p))
      | Checking m \<Rightarrow> p \<in> procs \<and> m \<in> le_meta env ` procs
      | Refused _ \<Rightarrow> True
      | Released \<Rightarrow> True
      | _ \<Rightarrow> False)"

definition sound :: "'m lock_state \<Rightarrow> bool" where
  "sound s \<longleftrightarrow> file_ok (lock_file s) \<and> (\<forall>p. pc_ok (lock_file s) p (lock_pc s p))"

lemma sound_pc: "sound s \<Longrightarrow> pc_ok (lock_file s) p (lock_pc s p)"
  by (simp add: sound_def)

lemma sound_set_pc: "sound s \<Longrightarrow> pc_ok (lock_file s) p pc \<Longrightarrow> sound (set_pc p pc s)"
  by (simp add: sound_def set_pc_def)

text \<open>The file may change when nobody else is the one whose file it is.\<close>

lemma pc_ok_file: "pc \<noteq> Writing \<Longrightarrow> pc \<noteq> Holding \<Longrightarrow> pc_ok f p pc = pc_ok f' p pc"
  by (cases pc) (simp_all add: pc_ok_def)

lemma sound_set_file:
  assumes "sound s" and "file_ok f" and "pc_ok f p pc"
    and "lock_file s = None \<or> (\<exists>c. lock_file s = Some (p, c))"
  shows "sound (set_pc p pc (s\<lparr>lock_file := f\<rparr>))"
proof -
  have "pc_ok f q (lock_pc s q)" if "q \<noteq> p" for q
  proof -
    have "lock_pc s q \<noteq> Writing \<and> lock_pc s q \<noteq> Holding"
      using sound_pc [OF assms(1), of q] assms(4) that by (auto simp: pc_ok_def)
    then show ?thesis using sound_pc [OF assms(1), of q] pc_ok_file by blast
  qed
  then show ?thesis using assms(2,3) by (simp add: sound_def set_pc_def)
qed

lemma sound_step:
  assumes "sound s"
  shows "sound (lock_step env p s)"
proof (cases "lock_pc s p")
  case Opening
  then have p: "p \<in> procs" using sound_pc [OF assms, of p] by (simp add: pc_ok_def)
  have refused: "sound (set_pc p (Refused e) s)" for e
    by (rule sound_set_pc [OF assms]) (simp add: pc_ok_def)
  show ?thesis
  proof (cases "lock_file s")
    case None
    have "sound (set_pc p Writing (s\<lparr>lock_file := Some (p, None)\<rparr>))"
      by (rule sound_set_file [OF assms]) (use p None in \<open>simp_all add: file_ok_def pc_ok_def\<close>)
    then show ?thesis using Opening None refused by (simp add: lock_step_def)
  next
    case (Some f)
    have "sound (set_pc p Reading s)" by (rule sound_set_pc [OF assms]) (simp add: pc_ok_def p)
    then show ?thesis using Opening Some refused by (simp add: lock_step_def)
  qed
next
  case Writing
  then have p: "p \<in> procs" "lock_file s = Some (p, None)"
    using sound_pc [OF assms, of p] by (simp_all add: pc_ok_def)
  have "sound (set_pc p Holding (s\<lparr>lock_file := Some (p, Some (le_meta env p))\<rparr>))"
    by (rule sound_set_file [OF assms]) (use p in \<open>simp_all add: file_ok_def pc_ok_def\<close>)
  moreover have "sound (set_pc p (Refused e) (s\<lparr>lock_file := None\<rparr>))" for e
    by (rule sound_set_file [OF assms]) (use p in \<open>simp_all add: file_ok_def pc_ok_def\<close>)
  ultimately show ?thesis using Writing p by (simp add: lock_step_def)
next
  case Reading
  then have p: "p \<in> procs" using sound_pc [OF assms, of p] by (simp add: pc_ok_def)
  have refused: "sound (set_pc p (Refused e) s)" for e
    by (rule sound_set_pc [OF assms]) (simp add: pc_ok_def)
  show ?thesis
  proof (cases "\<exists>q m. lock_file s = Some (q, Some m)")
    case True
    then obtain q m where f: "lock_file s = Some (q, Some m)" by blast
    then have "m \<in> le_meta env ` procs" using assms by (simp add: sound_def file_ok_def)
    then have "sound (set_pc p (Checking m) s)"
      by (intro sound_set_pc [OF assms]) (simp add: pc_ok_def p)
    then show ?thesis using Reading f by (simp add: lock_step_def)
  next
    case False
    then show ?thesis using Reading refused by (auto simp: lock_step_def split: option.split)
  qed
next
  case (Checking m)
  then obtain q where q: "q \<in> procs" "m = le_meta env q"
    using sound_pc [OF assms, of p] by (auto simp: pc_ok_def)
  have "\<not> is_dead s q" using sound_pc [OF assms, of q] by (auto simp: is_dead_def pc_ok_def)
  then have "le_live env (is_dead s) m" using own_metadata_live q by blast
  moreover have "sound (set_pc p (Refused e) s)" for e
    by (rule sound_set_pc [OF assms]) (simp add: pc_ok_def)
  ultimately show ?thesis using Checking by (simp add: lock_step_def)
next
  case Removing
  then show ?thesis using sound_pc [OF assms, of p] by (simp add: pc_ok_def)
qed (use assms in \<open>simp_all add: lock_step_def\<close>)

lemma sound_release:
  assumes "sound s"
  shows "sound (lock_release p s)"
proof (cases "lock_pc s p = Holding")
  case True
  then have "lock_file s = Some (p, Some (le_meta env p))"
    using sound_pc [OF assms, of p] by (simp add: pc_ok_def)
  then have "sound (set_pc p Released (s\<lparr>lock_file := None\<rparr>))"
    by (intro sound_set_file [OF assms]) (simp_all add: file_ok_def pc_ok_def)
  then show ?thesis using True by (simp add: lock_release_def)
qed (use assms in \<open>simp add: lock_release_def\<close>)

lemma sound_run:
  "sound s \<Longrightarrow> \<forall>p. Crash p \<notin> set es \<Longrightarrow> sound (lock_run env es s)"
  unfolding lock_run_def
proof (induction es arbitrary: s)
  case Nil
  then show ?case by simp
next
  case (Cons e es)
  have "sound (lock_move env e s)"
    using Cons.prems sound_step sound_release by (cases e) auto
  then show ?case using Cons.IH Cons.prems(2) by simp
qed

lemma sound_holder:
  "sound s \<Longrightarrow> lock_pc s p = Holding \<Longrightarrow> p \<in> procs \<and> lock_file s = Some (p, Some (le_meta env p))"
  using sound_pc [of s p] by (simp add: pc_ok_def)

lemma sound_one_holder:
  "sound s \<Longrightarrow> lock_pc s p = Holding \<Longrightarrow> lock_pc s q = Holding \<Longrightarrow> p = q"
  using sound_holder [of s p] sound_holder [of s q] by simp

lemma sound_start: "sound \<lparr>lock_file = None, lock_pc = (\<lambda>p. if p \<in> procs then Opening else Refused e)\<rparr>"
  by (simp add: sound_def file_ok_def pc_ok_def)

end

definition valid_pids :: "int list \<Rightarrow> bool" where
  "valid_pids pids \<longleftrightarrow> (\<forall>p < length pids. 0 < pids ! p)"

text \<open>The two locks for the processes of one host; their ids are positive.\<close>

definition pids_ok :: "int list \<Rightarrow> int list" where
  "pids_ok pids = map (\<lambda>n. if 0 < n then n else 1) pids"

lemma kill_own: "p < length pids \<Longrightarrow> \<not> dead p \<Longrightarrow> processLive (kill_of (pids_ok pids) dead) (pids_ok pids ! p)"
proof -
  assume p: "p < length pids" "\<not> dead p"
  then have "p < length (pids_ok pids)" and "0 < pids_ok pids ! p" by (simp_all add: pids_ok_def)
  then show ?thesis using p(2) by (auto simp: kill_of_def processLive_def)
qed

lemma pids_ok_valid: "valid_pids pids \<Longrightarrow> pids_ok pids = pids"
  by (auto simp: valid_pids_def pids_ok_def in_set_conv_nth intro!: map_idI)

interpretation runtime: lock_protocol "runtime_lock (pids_ok pids) faults metadata host t http" "{..<length pids}"
  by unfold_locales
    (simp add: runtime_lock_def stamp_runtime_def kill_own)

interpretation worker: lock_protocol "worker_lock (pids_ok pids) faults metadata host t" "{..<length pids}"
  by unfold_locales
    (simp add: worker_lock_def stamp_worker_def kill_own)

text \<open>The processes below \<open>n\<close> want the lock, and the file is as given.\<close>

definition starting :: "nat \<Rightarrow> (nat \<times> 'm option) option \<Rightarrow> 'm lock_state" where
  "starting n file =
     \<lparr>lock_file = file, lock_pc = (\<lambda>p. if p < n then Opening else Refused ''not started'')\<rparr>"

text \<open>
  C38: without a lock file left over, any number of servers that start at once, take their steps in any
  order and release the lock as they like, never hold it two at a time, as long as none of them dies.
\<close>

theorem runtime_lock_exclusive:
  assumes "valid_pids pids" and "\<forall>p. Crash p \<notin> set es"
    and "s = lock_run (runtime_lock pids faults metadata host t http) es (starting (length pids) None)"
    and "lock_pc s p = Holding" and "lock_pc s q = Holding"
  shows "p = q \<and> p < length pids \<and>
    lock_file s = Some (p, Some (stamp_runtime (pids ! p) host t (metadata p)))"
proof -
  let ?env = "runtime_lock (pids_ok pids) faults metadata host t http"
  have env: "runtime_lock pids faults metadata host t http = ?env" using pids_ok_valid [OF assms(1)] by simp
  have "runtime.sound pids faults metadata host t http (starting (length pids) None)"
    using runtime.sound_start [where e = "''not started''"] by (simp add: starting_def lessThan_def)
  then have sound: "runtime.sound pids faults metadata host t http s"
    unfolding assms(3) env by (rule runtime.sound_run [OF _ assms(2)])
  then have "p = q" using runtime.sound_one_holder assms(4,5) by blast
  moreover have "lock_file s = Some (p, Some (le_meta ?env p))" and "p < length pids"
    using runtime.sound_holder [OF sound assms(4)] by simp_all
  moreover have "pids_ok pids ! p = pids ! p" using pids_ok_valid [OF assms(1)] by simp
  ultimately show ?thesis by (simp add: runtime_lock_def)
qed

definition sample_metadata :: LockMetadata where
  "sample_metadata = \<lparr>lm_SchemaVersion = [], lm_InstanceID = ''i'', lm_PID = 0, lm_Host = [],
     lm_APIListenAddress = [], lm_StartedAt = None, lm_UpdatedAt = None,
     lm_ConfigDatabaseFingerprint = []\<rparr>"

definition two_servers :: "LockMetadata lock_env" where
  "two_servers = runtime_lock [11, 12] (\<lambda>_. NoLockFault) (\<lambda>_. sample_metadata) ''host'' 0 (\<lambda>_. None)"

lemma runtime_lock_exclusive_witness:
  "lock_pc (lock_run two_servers [Step 0, Step 1, Step 0, Step 1] (starting 2 None)) 0 = Holding \<and>
   map_option fst (lock_file (lock_run two_servers [Step 0, Step 1, Step 0, Step 1] (starting 2 None))) = Some 0"
proof -
  let ?es = "[Step 0, Step 1, Step 0, Step 1]"
  let ?s = "lock_run (runtime_lock [11, 12] (\<lambda>_. NoLockFault) (\<lambda>_. sample_metadata) ''host'' 0 (\<lambda>_. None)) ?es
    (starting (length [11 :: int, 12]) None)"
  have "valid_pids [11, 12]" by (simp add: valid_pids_def less_Suc_eq)
  moreover have "\<forall>p. Crash p \<notin> set ?es" by simp
  moreover have h: "lock_pc ?s 0 = Holding" by code_simp
  ultimately have "lock_file ?s = Some (0, Some (stamp_runtime ([11, 12] ! 0) ''host'' 0 sample_metadata))"
    using runtime_lock_exclusive [of "[11, 12]" ?es ?s] by blast
  with h show ?thesis by (simp add: two_servers_def numeral_2_eq_2)
qed

text \<open>
  The same for the workers of one database.
\<close>

theorem worker_lock_exclusive:
  assumes "valid_pids pids" and "\<forall>p. Crash p \<notin> set es"
    and "s = lock_run (worker_lock pids faults metadata host t) es (starting (length pids) None)"
    and "lock_pc s p = Holding" and "lock_pc s q = Holding"
  shows "p = q \<and> p < length pids"
proof -
  let ?env = "worker_lock (pids_ok pids) faults metadata host t"
  have env: "worker_lock pids faults metadata host t = ?env" using pids_ok_valid [OF assms(1)] by simp
  have "worker.sound pids faults metadata host t (starting (length pids) None)"
    using worker.sound_start [where e = "''not started''"] by (simp add: starting_def lessThan_def)
  then have sound: "worker.sound pids faults metadata host t s"
    unfolding assms(3) env by (rule worker.sound_run [OF _ assms(2)])
  then have "p = q" using worker.sound_one_holder assms(4,5) by blast
  moreover have "p < length pids" using worker.sound_holder [OF sound assms(4)] by simp
  ultimately show ?thesis by blast
qed

definition sample_worker_metadata :: workerLockMetadata where
  "sample_worker_metadata = \<lparr>wm_SchemaVersion = [], wm_PID = 0, wm_Host = [], wm_WorkerID = ''w'',
     wm_DatabaseFingerprint = ''db'', wm_StartedAt = None, wm_UpdatedAt = None\<rparr>"

lemma worker_lock_exclusive_witness:
  "\<exists>s. s = lock_run (worker_lock [11, 12] (\<lambda>_. NoLockFault) (\<lambda>_. sample_worker_metadata) ''host'' 0)
        [Step 1, Step 1, Step 0] (starting 2 None) \<and> lock_pc s 1 = Holding \<and> lock_pc s 0 \<noteq> Holding"
proof -
  let ?es = "[Step 1, Step 1, Step 0]"
  let ?s = "lock_run (worker_lock [11, 12] (\<lambda>_. NoLockFault) (\<lambda>_. sample_worker_metadata) ''host'' 0) ?es
    (starting (length [11 :: int, 12]) None)"
  have "valid_pids [11, 12]" by (simp add: valid_pids_def less_Suc_eq)
  moreover have "\<forall>p. Crash p \<notin> set ?es" by simp
  moreover have h: "lock_pc ?s 1 = Holding" by code_simp
  ultimately have "lock_pc ?s 0 \<noteq> Holding"
    using worker_lock_exclusive [of "[11, 12]" ?es ?s, OF _ _ refl h] by fastforce
  with h show ?thesis by (simp add: numeral_2_eq_2)
qed


end
