(* ===== verification/Modules_Registry.thy ===== *)
theory Modules_Registry
  imports Go_Time
begin

text \<open>
  \<open>internal/modules/registry.go\<close>: the registered modules and the table \<open>module_states\<close>, with seeding,
  restart and reload. A module's lifecycle is the outcome of its four calls. The process id, the host
  name, the hash behind \<open>stableID\<close> and Go's quoted form of a string are the environment.
\<close>

section \<open>Data\<close>

abbreviation StateRunning :: bytes where "StateRunning \<equiv> ''running''"
abbreviation StateUnavailable :: bytes where "StateUnavailable \<equiv> ''unavailable''"
abbreviation StateRestarting :: bytes where "StateRestarting \<equiv> ''restarting''"
abbreviation StateReloading :: bytes where "StateReloading \<equiv> ''reloading''"
abbreviation StateStopped :: bytes where "StateStopped \<equiv> ''stopped''"
abbreviation StateFailed :: bytes where "StateFailed \<equiv> ''failed''"

text \<open>The error text of each call, if it fails.\<close>

record Lifecycle =
  lc_Start :: "bytes option"
  lc_Stop :: "bytes option"
  lc_Reload :: "bytes option"
  lc_Health :: "bytes option"

definition NoopLifecycle :: Lifecycle where
  "NoopLifecycle = \<lparr>lc_Start = None, lc_Stop = None, lc_Reload = None, lc_Health = None\<rparr>"

record Definition =
  md_Name :: bytes
  md_Available :: bool
  md_Lifecycle :: "Lifecycle option"

record ModuleState =
  ms_ID :: bytes
  ms_ModuleName :: bytes
  ms_State :: bytes
  ms_PID :: "int option"
  ms_Host :: bytes
  ms_Details :: "(bytes \<times> json) list"
  ms_UpdatedAt :: instant

record RestartResult =
  rr_ModuleName :: bytes
  rr_PreviousState :: bytes
  rr_NewState :: bytes
  rr_SchemaVersion :: bytes

record module_row =
  mr_id :: bytes
  mr_module_name :: bytes
  mr_state :: bytes
  mr_pid :: "int option"
  mr_host :: "bytes option"
  mr_details :: raw
  mr_updated_at :: instant

record modules_db =
  module_table :: "module_row list"

record module_env =
  me_pid :: int
  me_host :: bytes
  me_stableID :: "bytes \<Rightarrow> bytes"
  me_quote :: "bytes \<Rightarrow> bytes"

definition registered :: "bytes \<Rightarrow> Definition" where
  "registered name = \<lparr>md_Name = name, md_Available = True, md_Lifecycle = Some NoopLifecycle\<rparr>"

definition planned :: "bytes \<Rightarrow> Definition" where
  "planned name = \<lparr>md_Name = name, md_Available = False, md_Lifecycle = None\<rparr>"

definition InitialRegistry :: "Definition list" where
  "InitialRegistry =
     [registered ''core'', registered ''worker-runtime'', registered ''config-manager'',
      registered ''module-runtime'', registered ''status-monitor'', registered ''global-scanner'',
      registered ''repository-manager'', planned ''project-scanner'', planned ''security-validator'',
      planned ''auth'', planned ''web'']"

text \<open>The store's map: of definitions with one name the last.\<close>

definition NewStore :: "bytes \<Rightarrow> Definition option" where
  "NewStore = map_of (rev (map (\<lambda>def. (md_Name def, def)) InitialRegistry))"

section \<open>The table\<close>

definition modules_violation :: "modules_db \<Rightarrow> violation option" where
  "modules_violation d =
     (if distinct (map mr_id (module_table d)) \<and> distinct (map mr_module_name (module_table d))
      then None else Some VUnique)"

text \<open>\<open>INSERT ... ON CONFLICT (module_name) DO UPDATE\<close>, the same in both dialects.\<close>

definition upsert_row :: "module_row \<Rightarrow> modules_db \<Rightarrow> unit \<times> modules_db" where
  "upsert_row r d =
     ((), d\<lparr>module_table :=
       (if \<exists>x \<in> set (module_table d). mr_module_name x = mr_module_name r
        then update_where (\<lambda>x. mr_module_name x = mr_module_name r) (\<lambda>x. r\<lparr>mr_id := mr_id x\<rparr>) (module_table d)
        else module_table d @ [r])\<rparr>)"

definition details :: "bytes \<Rightarrow> bytes option \<Rightarrow> instant \<Rightarrow> raw" where
  "details message lastErr t =
     Doc (JObject (go_map
       [(''schema_version'', JString ''module_states.details.v1''), (''message'', JString message),
        (''last_error'', case lastErr of None \<Rightarrow> JNull | Some e \<Rightarrow> JString e),
        (''last_transition_at'', time_json t)]))"

definition module_state_row ::
    "module_env \<Rightarrow> bytes \<Rightarrow> bytes \<Rightarrow> int option \<Rightarrow> raw \<Rightarrow> instant \<Rightarrow> module_row" where
  "module_state_row env name state pid det t =
     \<lparr>mr_id = me_stableID env name, mr_module_name = name, mr_state = state, mr_pid = pid,
      mr_host = Some (me_host env), mr_details = det, mr_updated_at = t\<rparr>"

definition upsert_module ::
    "module_env \<Rightarrow> bytes \<Rightarrow> bytes \<Rightarrow> int option \<Rightarrow> raw \<Rightarrow> instant \<Rightarrow> (modules_db, unit) io" where
  "upsert_module env name state pid det t =
     exec modules_violation (upsert_row (module_state_row env name state pid det t))"

definition scanState :: "module_row \<Rightarrow> err + ModuleState" where
  "scanState r =
     (case unmarshal (mr_details r) of
        Inl e \<Rightarrow> Inl (EMessage e)
      | Inr j \<Rightarrow>
          (let state = (\<lambda>kvs. \<lparr>ms_ID = mr_id r, ms_ModuleName = mr_module_name r, ms_State = mr_state r,
                 ms_PID = mr_pid r, ms_Host = (case mr_host r of None \<Rightarrow> [] | Some h \<Rightarrow> h),
                 ms_Details = kvs, ms_UpdatedAt = mr_updated_at r\<rparr>)
           in case j of
                JObject kvs \<Rightarrow> Inr (state kvs)
              | JNull \<Rightarrow> Inr (state [])
              | _ \<Rightarrow> Inl (EMessage ''json: cannot unmarshal value into Go value of type map[string]interface {}'')))"

section \<open>Seeding\<close>

text \<open>\<open>None\<close>: no list given (or a nil one), every module is enabled.\<close>

definition enabledSet :: "bytes list option \<Rightarrow> bytes \<Rightarrow> bool" where
  "enabledSet enabledModules name =
     (case enabledModules of
        None \<Rightarrow> name \<in> md_Name ` set InitialRegistry
      | Some names \<Rightarrow> name \<in> set names)"

text \<open>A call on the lifecycle; a nil one makes the code panic.\<close>

definition lifecycle_call :: "(Lifecycle \<Rightarrow> bytes option) \<Rightarrow> Definition \<Rightarrow> bytes option" where
  "lifecycle_call call def =
     (case md_Lifecycle def of
        None \<Rightarrow> Some ''invalid memory address or nil pointer dereference''
      | Some l \<Rightarrow> call l)"

definition seed_one :: "module_env \<Rightarrow> (bytes \<Rightarrow> bool) \<Rightarrow> instant \<Rightarrow> Definition \<Rightarrow> (modules_db, unit) io" where
  "seed_one env enabled t def =
     (if md_Available def \<and> enabled (md_Name def)
      then
        (case lifecycle_call lc_Start def of
           Some e \<Rightarrow> fail (EMessage e)
         | None \<Rightarrow>
             (case lifecycle_call lc_Health def of
                Some e \<Rightarrow>
                  upsert_module env (md_Name def) StateStopped None (details StateStopped (Some e) t) t
              | None \<Rightarrow>
                  upsert_module env (md_Name def) StateRunning (Some (me_pid env)) (details StateRunning None t) t))
      else if md_Available def
      then
        (case lifecycle_call lc_Stop def of
           Some e \<Rightarrow> fail (EMessage e)
         | None \<Rightarrow> upsert_module env (md_Name def) StateStopped None (details StateStopped None t) t)
      else upsert_module env (md_Name def) StateUnavailable None (details StateUnavailable None t) t)"

definition Seed :: "module_env \<Rightarrow> bytes list option \<Rightarrow> (modules_db, unit) io" where
  "Seed env enabledModules =
     andThen now (\<lambda>t. for_each InitialRegistry (seed_one env (enabledSet enabledModules) t))"

section \<open>Reading\<close>

fun scan_all :: "module_row list \<Rightarrow> err + ModuleState list" where
  "scan_all [] = Inr []"
| "scan_all (r # rs) =
     (case scanState r of
        Inl e \<Rightarrow> Inl e
      | Inr s \<Rightarrow> (case scan_all rs of Inl e \<Rightarrow> Inl e | Inr ss \<Rightarrow> Inr (s # ss)))"

definition List_modules :: "(modules_db, ModuleState list) io" where
  "List_modules =
     andThen (query (\<lambda>d. scan_all (order_asc mr_module_name (module_table d)))) (\<lambda>r.
     andThen (lift_result (\<lambda>e. e) r) (\<lambda>states. ret (sort_key ms_ModuleName states)))"

definition find_module :: "bytes \<Rightarrow> modules_db \<Rightarrow> module_row option" where
  "find_module name d = first_row (filter (\<lambda>r. mr_module_name r = name) (module_table d))"

text \<open>
  \<open>get\<close> seeds the table when the row of a registered module is missing, and tries again; \<open>None\<close> is a
  number of tries that was not enough.
\<close>

fun get_module ::
    "nat \<Rightarrow> module_env \<Rightarrow> (bytes \<Rightarrow> Definition option) \<Rightarrow> bytes \<Rightarrow> (modules_db, ModuleState option) io" where
  "get_module 0 env reg name = ret None"
| "get_module (Suc fuel) env reg name =
     andThen (query (find_module name)) (\<lambda>row.
       case row of
         Some r \<Rightarrow> andThen (lift_result (\<lambda>e. e) (scanState r)) (\<lambda>s. ret (Some s))
       | None \<Rightarrow>
           if reg name \<noteq> None then andThen (Seed env None) (\<lambda>_. get_module fuel env reg name)
           else fail (EMessage ''sql: no rows in result set''))"

section \<open>Restart and reload\<close>

definition driver_text :: "err \<Rightarrow> bytes" where
  "driver_text e = (case e of EDriver m \<Rightarrow> m | EMessage m \<Rightarrow> m | _ \<Rightarrow> [])"

definition not_registered :: "module_env \<Rightarrow> bytes \<Rightarrow> err" where
  "not_registered env name = EMessage (''module not registered: '' @ me_quote env name)"

definition unavailable :: "module_env \<Rightarrow> bytes \<Rightarrow> err" where
  "unavailable env name = EMessage (''module unavailable: '' @ me_quote env name)"

definition lifecycle_failed :: "bytes \<Rightarrow> bytes" where
  "lifecycle_failed cause = ''module lifecycle failed: '' @ cause"

definition markFailed :: "module_env \<Rightarrow> bytes \<Rightarrow> bytes \<Rightarrow> (modules_db, unit) io" where
  "markFailed env name cause =
     andThen now (\<lambda>t. upsert_module env name StateFailed (Some (me_pid env)) (details StateFailed (Some cause) t) t)"

definition markFailedOrJoin :: "module_env \<Rightarrow> bytes \<Rightarrow> bytes \<Rightarrow> (modules_db, 'a) io" where
  "markFailedOrJoin env name cause =
     outcome (markFailed env name cause) (\<lambda>r. case r of
         Inl e \<Rightarrow>
           fail (EMessage (lifecycle_failed cause @ ''\<newline>'' @ ''persist failed module state: '' @ driver_text e))
       | Inr _ \<Rightarrow> fail (EMessage (lifecycle_failed cause)))"

text \<open>The calls of a transition in order: the first error.\<close>

fun first_failing :: "Definition \<Rightarrow> (Lifecycle \<Rightarrow> bytes option) list \<Rightarrow> bytes option" where
  "first_failing def [] = None"
| "first_failing def (c # cs) =
     (case lifecycle_call c def of Some e \<Rightarrow> Some e | None \<Rightarrow> first_failing def cs)"

definition transition ::
    "bytes \<Rightarrow> (Lifecycle \<Rightarrow> bytes option) list \<Rightarrow> bytes \<Rightarrow> nat \<Rightarrow> module_env \<Rightarrow>
     (bytes \<Rightarrow> Definition option) \<Rightarrow> bytes \<Rightarrow> (modules_db, RestartResult option) io" where
  "transition intermediate calls schema fuel env reg name =
     (case reg name of
        None \<Rightarrow> fail (not_registered env name)
      | Some def \<Rightarrow>
          andThen (get_module fuel env reg name) (\<lambda>found.
            case found of
              None \<Rightarrow> ret None
            | Some current \<Rightarrow>
                if \<not> md_Available def \<or> ms_State current = StateUnavailable
                then fail (unavailable env name)
                else
                  andThen now (\<lambda>t.
                  andThen (upsert_module env name intermediate (Some (me_pid env))
                             (details intermediate None t) t) (\<lambda>_.
                    case first_failing def calls of
                      Some cause \<Rightarrow> markFailedOrJoin env name cause
                    | None \<Rightarrow>
                        andThen (upsert_module env name StateRunning (Some (me_pid env))
                                   (details StateRunning None t) t) (\<lambda>_.
                          ret (Some \<lparr>rr_ModuleName = name, rr_PreviousState = ms_State current,
                                     rr_NewState = StateRunning, rr_SchemaVersion = schema\<rparr>))))))"

definition Restart ::
    "nat \<Rightarrow> module_env \<Rightarrow> (bytes \<Rightarrow> Definition option) \<Rightarrow> bytes \<Rightarrow> (modules_db, RestartResult option) io" where
  "Restart = transition StateRestarting [lc_Stop, lc_Start, lc_Health] ''module_restart.result.v1''"

definition Reload ::
    "nat \<Rightarrow> module_env \<Rightarrow> (bytes \<Rightarrow> Definition option) \<Rightarrow> bytes \<Rightarrow> (modules_db, RestartResult option) io" where
  "Reload = transition StateReloading [lc_Reload, lc_Health] ''module_reload.result.v1''"

end
