(* ===== verification/Modules_Facts.thy ===== *)
theory Modules_Facts
  imports Modules_Registry Job_Runs
begin

text \<open>
  The table of module states as a map from names to rows: an upsert is an update of the map, seeding
  sets the row of every registered module and no other, and a restart or reload ends in the state
  running or failed.
\<close>

section \<open>The table as a map\<close>

definition lookup_module :: "modules_db \<Rightarrow> bytes \<Rightarrow> module_row option" where
  "lookup_module d name = find_module name d"

text \<open>The constraints hold and every id is the hash of its name, as every upsert writes it.\<close>

definition modules_ok :: "module_env \<Rightarrow> modules_db \<Rightarrow> bool" where
  "modules_ok env d \<longleftrightarrow>
     modules_violation d = None \<and>
     (\<forall>r \<in> set (module_table d). mr_id r = me_stableID env (mr_module_name r))"

lemma lookup_None_iff: "lookup_module d name = None \<longleftrightarrow> name \<notin> mr_module_name ` set (module_table d)"
  by (auto simp: lookup_module_def find_module_def filter_empty_conv)

lemma first_row_filter_map:
  assumes "distinct (map k xs)" and "x \<in> set xs"
  shows "first_row (filter (\<lambda>y. k y = k x) xs) = Some x"
  using assms
proof (induction xs)
  case Nil
  then show ?case by simp
next
  case (Cons a xs)
  show ?case
  proof (cases "a = x")
    case True
    then show ?thesis by simp
  next
    case False
    then have "x \<in> set xs" using Cons.prems(2) by simp
    then have "k a \<noteq> k x" using Cons.prems(1) by (auto simp: image_iff)
    then show ?thesis using Cons \<open>x \<in> set xs\<close> by simp
  qed
qed

lemma filter_replaced:
  "n \<noteq> k r \<Longrightarrow> filter (\<lambda>x. k x = n) (map (\<lambda>x. if k x = k r then r else x) xs) = filter (\<lambda>x. k x = n) xs"
  by (induction xs) auto

lemma lookup_upsert:
  assumes "modules_ok env d" and "mr_id r = me_stableID env (mr_module_name r)" and "inj (me_stableID env)"
  shows "modules_ok env (snd (upsert_row r d)) \<and>
    lookup_module (snd (upsert_row r d)) = (lookup_module d)(mr_module_name r \<mapsto> r)"
proof -
  let ?xs = "module_table d" and ?n = "mr_module_name r"
  have ids: "\<And>x. x \<in> set ?xs \<Longrightarrow> mr_id x = me_stableID env (mr_module_name x)"
    and dist: "distinct (map mr_id ?xs)" "distinct (map mr_module_name ?xs)"
    using assms(1) by (auto simp: modules_ok_def modules_violation_def split: if_splits)
  show ?thesis
  proof (cases "\<exists>x \<in> set ?xs. mr_module_name x = ?n")
    case True
    have same: "r\<lparr>mr_id := mr_id x\<rparr> = r" if "x \<in> set ?xs" "mr_module_name x = ?n" for x
      using ids [OF that(1)] that(2) assms(2) by simp
    let ?ys = "update_where (\<lambda>x. mr_module_name x = ?n) (\<lambda>x. r\<lparr>mr_id := mr_id x\<rparr>) ?xs"
    have table: "module_table (snd (upsert_row r d)) = ?ys" using True by (simp add: upsert_row_def)
    have ys: "?ys = map (\<lambda>x. if mr_module_name x = ?n then r else x) ?xs"
      using same by (simp add: update_where_def)
    have names: "map mr_module_name ?ys = map mr_module_name ?xs" and ids': "map mr_id ?ys = map mr_id ?xs"
      using ids assms(2) by (simp_all add: ys)
    have ok: "modules_ok env (snd (upsert_row r d))"
      using dist names ids' ids assms(2)
      by (auto simp: modules_ok_def modules_violation_def table) (auto simp: ys)
    have "find_module n (snd (upsert_row r d)) = (if n = ?n then Some r else find_module n d)" for n
    proof (cases "n = ?n")
      case True
      have "r \<in> set ?ys" using \<open>\<exists>x \<in> set ?xs. mr_module_name x = ?n\<close> by (auto simp: ys)
      moreover have "distinct (map mr_module_name ?ys)" using dist names by simp
      ultimately show ?thesis using True first_row_filter_map [of mr_module_name ?ys r]
        by (simp add: find_module_def table)
    next
      case False
      then have "filter (\<lambda>x. mr_module_name x = n) ?ys = filter (\<lambda>x. mr_module_name x = n) ?xs"
        unfolding ys by (rule filter_replaced)
      then show ?thesis using False by (simp add: find_module_def table)
    qed
    then show ?thesis using ok by (auto simp: lookup_module_def fun_eq_iff)
  next
    case False
    then have table: "module_table (snd (upsert_row r d)) = ?xs @ [r]" by (simp add: upsert_row_def)
    have none: "\<forall>x \<in> set ?xs. mr_module_name x \<noteq> ?n" using False by auto
    then have new: "?n \<notin> mr_module_name ` set ?xs" by auto
    then have "mr_id r \<notin> mr_id ` set ?xs"
      using ids assms(2,3) by (auto dest: injD)
    then have ok: "modules_ok env (snd (upsert_row r d))"
      using dist new ids assms(2) by (auto simp: modules_ok_def modules_violation_def table)
    have "find_module n (snd (upsert_row r d)) = (if n = ?n then Some r else find_module n d)" for n
    proof (cases "n = ?n")
      case True
      then have "filter (\<lambda>x. mr_module_name x = n) ?xs = []" using none by (simp add: filter_empty_conv)
      then show ?thesis using True by (simp add: find_module_def table)
    next
      case False
      then show ?thesis by (simp add: find_module_def table)
    qed
    then show ?thesis using ok by (auto simp: lookup_module_def fun_eq_iff)
  qed
qed

text \<open>One upsert, when nothing fails.\<close>

lemma upsert_calm:
  assumes "calm w" and "modules_ok env (db w)" and "inj (me_stableID env)"
  shows "\<exists>w'. upsert_module env name state pid det t w = (Inr (), w') \<and> calm w' \<and> clk w' = clk w \<and>
    modules_ok env (db w') \<and>
    lookup_module (db w') = (lookup_module (db w))(name \<mapsto> module_state_row env name state pid det t)"
proof -
  let ?r = "module_state_row env name state pid det t"
  let ?d = "snd (upsert_row ?r (db w))"
  have r: "mr_id ?r = me_stableID env (mr_module_name ?r)" "mr_module_name ?r = name"
    by (simp_all add: module_state_row_def)
  from lookup_upsert [OF assms(2) r(1) assms(3)] have ok: "modules_ok env ?d"
    and look: "lookup_module ?d = (lookup_module (db w))(name \<mapsto> ?r)" using r(2) by simp_all
  have "upsert_module env name state pid det t w = (Inr (), (step_tick w)\<lparr>db := ?d\<rparr>)"
    unfolding upsert_module_def using ok
    by (subst exec_calm [OF assms(1)]) (simp_all add: modules_ok_def upsert_row_def)
  then show ?thesis using ok look assms(1) by (intro exI [of _ "(step_tick w)\<lparr>db := ?d\<rparr>"]) simp
qed

section \<open>Seeding\<close>

definition seed_row :: "module_env \<Rightarrow> (bytes \<Rightarrow> bool) \<Rightarrow> instant \<Rightarrow> Definition \<Rightarrow> module_row" where
  "seed_row env enabled t def =
     (let state = (if \<not> md_Available def then StateUnavailable
                   else if enabled (md_Name def) then StateRunning else StateStopped)
      in module_state_row env (md_Name def) state
           (if state = StateRunning then Some (me_pid env) else None) (details state None t) t)"

lemma registry_cases:
  "def \<in> set InitialRegistry \<Longrightarrow>
     md_Available def \<and> md_Lifecycle def = Some NoopLifecycle \<or> \<not> md_Available def"
  by (auto simp: InitialRegistry_def registered_def planned_def)

lemma seed_one_upserts:
  assumes "def \<in> set InitialRegistry"
  shows "seed_one env enabled t def =
    upsert_module env (md_Name def) (mr_state (seed_row env enabled t def))
      (mr_pid (seed_row env enabled t def)) (mr_details (seed_row env enabled t def)) t"
  using registry_cases [OF assms]
  by (auto simp: seed_one_def seed_row_def lifecycle_call_def NoopLifecycle_def module_state_row_def Let_def)

lemma seed_row_again:
  "module_state_row env (md_Name def) (mr_state (seed_row env enabled t def))
     (mr_pid (seed_row env enabled t def)) (mr_details (seed_row env enabled t def)) t =
   seed_row env enabled t def"
  by (simp add: seed_row_def module_state_row_def Let_def)

lemma seed_all_calm:
  assumes "set defs \<subseteq> set InitialRegistry" and "distinct (map md_Name defs)"
    and "calm w" and "modules_ok env (db w)" and "inj (me_stableID env)"
  shows "\<exists>w'. for_each defs (seed_one env enabled t) w = (Inr (), w') \<and> calm w' \<and> clk w' = clk w \<and>
    modules_ok env (db w') \<and>
    (\<forall>def \<in> set defs. lookup_module (db w') (md_Name def) = Some (seed_row env enabled t def)) \<and>
    (\<forall>name. name \<notin> md_Name ` set defs \<longrightarrow> lookup_module (db w') name = lookup_module (db w) name)"
  using assms
proof (induction defs arbitrary: w)
  case Nil
  then show ?case by (simp add: ret_def)
next
  case (Cons def defs)
  have "def \<in> set InitialRegistry" using Cons.prems(1) by simp
  from upsert_calm [OF Cons.prems(3,4,5), of "md_Name def" "mr_state (seed_row env enabled t def)"
      "mr_pid (seed_row env enabled t def)" "mr_details (seed_row env enabled t def)" t]
  obtain w1 where one: "seed_one env enabled t def w = (Inr (), w1)" "calm w1" "clk w1 = clk w"
    "modules_ok env (db w1)"
    "lookup_module (db w1) = (lookup_module (db w))(md_Name def \<mapsto> seed_row env enabled t def)"
    unfolding seed_row_again by (auto simp: seed_one_upserts [OF \<open>def \<in> set InitialRegistry\<close>])
  from Cons.IH [of w1] Cons.prems one(2,4) obtain w' where
    rest: "for_each defs (seed_one env enabled t) w1 = (Inr (), w')" "calm w'" "clk w' = clk w1"
    "modules_ok env (db w')"
    "\<forall>d \<in> set defs. lookup_module (db w') (md_Name d) = Some (seed_row env enabled t d)"
    "\<forall>name. name \<notin> md_Name ` set defs \<longrightarrow> lookup_module (db w') name = lookup_module (db w1) name"
    by auto
  have "for_each (def # defs) (seed_one env enabled t) w = (Inr (), w')"
    using one(1) rest(1) by (simp add: andThen_def)
  moreover have "md_Name def \<notin> md_Name ` set defs" using Cons.prems(2) by simp
  ultimately show ?case
    using rest one(3,5) by (intro exI [of _ w']) auto
qed

lemma registry_names_distinct: "distinct (map md_Name InitialRegistry)"
  by (simp add: InitialRegistry_def registered_def planned_def)

lemma NewStore_iff: "NewStore name = Some def \<longleftrightarrow> def \<in> set InitialRegistry \<and> md_Name def = name"
proof -
  let ?kvs = "map (\<lambda>def. (md_Name def, def)) InitialRegistry"
  have "distinct (map fst (rev ?kvs))"
    using registry_names_distinct by (simp add: comp_def rev_map [symmetric])
  then have "NewStore name = Some def \<longleftrightarrow> (name, def) \<in> set (rev ?kvs)"
    unfolding NewStore_def by (rule map_of_eq_Some_iff)
  then show ?thesis by auto
qed

text \<open>
  Seeding sets the row of every registered module, and no other: unavailable for a planned one,
  running for an enabled one, stopped for the rest, with the constraints of the table kept.
\<close>

theorem Seed_sets_registry:
  assumes "calm w" and "modules_ok env (db w)" and "inj (me_stableID env)"
  shows "\<exists>w'. Seed env enabledModules w = (Inr (), w') \<and> calm w' \<and> modules_ok env (db w') \<and>
    clk w' = clk w \<and>
    lookup_module (db w') =
      (\<lambda>name. case NewStore name of
         None \<Rightarrow> lookup_module (db w) name
       | Some def \<Rightarrow> Some (seed_row env (enabledSet enabledModules) (clk w (tick w)) def))"
proof -
  let ?t = "clk w (tick w)" and ?on = "enabledSet enabledModules"
  have w1: "calm (step_tick w)" "modules_ok env (db (step_tick w))" using assms by simp_all
  from seed_all_calm [OF subset_refl registry_names_distinct w1 assms(3), of ?on ?t]
  obtain w' where run: "for_each InitialRegistry (seed_one env ?on ?t) (step_tick w) = (Inr (), w')"
    and ok: "calm w'" "clk w' = clk w" "modules_ok env (db w')"
    and rows: "\<forall>def \<in> set InitialRegistry. lookup_module (db w') (md_Name def) = Some (seed_row env ?on ?t def)"
      "\<forall>name. name \<notin> md_Name ` set InitialRegistry \<longrightarrow> lookup_module (db w') name = lookup_module (db w) name"
    by auto
  have "lookup_module (db w') name = (case NewStore name of
         None \<Rightarrow> lookup_module (db w) name | Some def \<Rightarrow> Some (seed_row env ?on ?t def))" for name
  proof (cases "NewStore name")
    case None
    then have "name \<notin> md_Name ` set InitialRegistry" using NewStore_iff [of name] by (metis imageE option.distinct(1))
    then show ?thesis using rows(2) None by simp
  next
    case (Some def)
    then have "def \<in> set InitialRegistry" "md_Name def = name" using NewStore_iff by simp_all
    then have "lookup_module (db w') name = Some (seed_row env ?on ?t def)" using rows(1) by blast
    then show ?thesis by (simp add: Some)
  qed
  then have "lookup_module (db w') = (\<lambda>name. case NewStore name of
         None \<Rightarrow> lookup_module (db w) name | Some def \<Rightarrow> Some (seed_row env ?on ?t def))" by (rule ext)
  moreover have "Seed env enabledModules w = (Inr (), w')" using run by (simp add: Seed_def andThen_def now_def)
  ultimately show ?thesis using ok by (intro exI [of _ w'] conjI)
qed

text \<open>Names as ids: an environment for samples.\<close>

definition sample_env :: module_env where
  "sample_env = \<lparr>me_pid = 7, me_host = ''host'', me_stableID = (\<lambda>n. ''stg02_'' @ n), me_quote = (\<lambda>n. n)\<rparr>"

definition modules_world :: "modules_db \<Rightarrow> modules_db world" where
  "modules_world d = \<lparr>db = d, handle_Provider = ''sqlite'', clk = (\<lambda>_. 0), flt = (\<lambda>_. NoFault),
     ent = (\<lambda>_. []), tick = 0\<rparr>"

lemma sample_env_inj: "inj (me_stableID sample_env)"
  by (simp add: sample_env_def inj_def)

lemma modules_world_simps [simp]: "calm (modules_world d)" "db (modules_world d) = d"
  by (simp_all add: modules_world_def calm_def)

lemma Seed_sets_registry_witness:
  "\<exists>w'. Seed sample_env (Some [''core'']) (modules_world \<lparr>module_table = []\<rparr>) = (Inr (), w') \<and>
     map_option mr_state (lookup_module (db w') ''core'') = Some StateRunning \<and>
     map_option mr_state (lookup_module (db w') ''web'') = Some StateUnavailable \<and>
     map_option mr_state (lookup_module (db w') ''global-scanner'') = Some StateStopped"
proof -
  let ?w = "modules_world \<lparr>module_table = []\<rparr>"
  have "modules_ok sample_env (db ?w)" by (simp add: modules_ok_def modules_violation_def)
  from Seed_sets_registry [OF modules_world_simps(1) this sample_env_inj, of "Some [''core'']"]
  obtain w' where w': "Seed sample_env (Some [''core'']) ?w = (Inr (), w')"
    "lookup_module (db w') = (\<lambda>name. case NewStore name of None \<Rightarrow> lookup_module (db ?w) name
       | Some def \<Rightarrow> Some (seed_row sample_env (enabledSet (Some [''core''])) (clk ?w (tick ?w)) def))" by blast
  have "NewStore ''core'' = Some (registered ''core'')" "NewStore ''web'' = Some (planned ''web'')"
    "NewStore ''global-scanner'' = Some (registered ''global-scanner'')"
    by (simp_all add: NewStore_iff InitialRegistry_def registered_def planned_def)
  then show ?thesis
    using w' by (intro exI [of _ w']) (simp add: seed_row_def module_state_row_def enabledSet_def
        registered_def planned_def Let_def)
qed

section \<open>Restart and reload\<close>

lemma get_module_found:
  assumes "calm w" and "lookup_module (db w) name = Some r" and "scanState r = Inr s"
  shows "get_module (Suc fuel) env reg name w = (Inr (Some s), step_tick w)"
  using assms
  by (simp add: andThen_def query_calm lookup_module_def lift_result_def ret_def)

definition state_row :: "module_env \<Rightarrow> bytes \<Rightarrow> bytes \<Rightarrow> bytes option \<Rightarrow> instant \<Rightarrow> module_row" where
  "state_row env name state cause t =
     module_state_row env name state (Some (me_pid env)) (details state cause t) t"

lemma transition_calm:
  assumes "calm w" and "modules_ok env (db w)" and "inj (me_stableID env)"
    and "reg name = Some def" and "md_Available def" and "lookup_module (db w) name = Some r"
    and "scanState r = Inr current" and "ms_State current \<noteq> StateUnavailable"
  shows "\<exists>w' t. transition intermediate calls schema (Suc fuel) env reg name w =
      (case first_failing def calls of
         None \<Rightarrow> Inr (Some \<lparr>rr_ModuleName = name, rr_PreviousState = ms_State current,
                            rr_NewState = StateRunning, rr_SchemaVersion = schema\<rparr>)
       | Some cause \<Rightarrow> Inl (EMessage (lifecycle_failed cause)), w') \<and>
    modules_ok env (db w') \<and>
    lookup_module (db w') = (lookup_module (db w))
      (name \<mapsto> (case first_failing def calls of
                   None \<Rightarrow> state_row env name StateRunning None t
                 | Some cause \<Rightarrow> state_row env name StateFailed (Some cause) t))"
proof -
  let ?w1 = "step_tick (step_tick w)" and ?t = "clk w (Suc (tick w))"
  have "calm ?w1" "modules_ok env (db ?w1)" using assms(1,2) by simp_all
  from upsert_calm [OF this assms(3), of name intermediate "Some (me_pid env)" "details intermediate None ?t" ?t]
  obtain w2 where up: "upsert_module env name intermediate (Some (me_pid env)) (details intermediate None ?t) ?t ?w1 =
      (Inr (), w2)" "calm w2" "modules_ok env (db w2)"
    and l2: "\<And>n. n \<noteq> name \<Longrightarrow> lookup_module (db w2) n = lookup_module (db w) n" by auto
  have front: "transition intermediate calls schema (Suc fuel) env reg name w =
      (case first_failing def calls of
         Some cause \<Rightarrow> markFailedOrJoin env name cause
       | None \<Rightarrow> andThen (upsert_module env name StateRunning (Some (me_pid env)) (details StateRunning None ?t) ?t)
           (\<lambda>_. ret (Some \<lparr>rr_ModuleName = name, rr_PreviousState = ms_State current,
                            rr_NewState = StateRunning, rr_SchemaVersion = schema\<rparr>))) w2"
  proof -
    have "get_module (Suc fuel) env reg name w = (Inr (Some current), step_tick w)"
      by (rule get_module_found [OF assms(1,6,7)])
    then show ?thesis
      unfolding transition_def assms(4) option.case
      using assms(5,8) up(1)
      by (cases "first_failing def calls") (simp_all add: andThen_def now_def del: get_module.simps)
  qed
  show ?thesis
  proof (cases "first_failing def calls")
    case None
    from upsert_calm [OF up(2,3) assms(3), of name StateRunning "Some (me_pid env)" "details StateRunning None ?t" ?t]
    obtain w3 where "upsert_module env name StateRunning (Some (me_pid env)) (details StateRunning None ?t) ?t w2 =
        (Inr (), w3)" "modules_ok env (db w3)"
      "lookup_module (db w3) = (lookup_module (db w2))(name \<mapsto> state_row env name StateRunning None ?t)"
      by (auto simp: state_row_def)
    then show ?thesis
      using None l2 unfolding front
      by (intro exI [of _ w3] exI [of _ ?t]) (auto simp: andThen_def ret_def fun_eq_iff)
  next
    case (Some cause)
    let ?t' = "clk w2 (tick w2)"
    have "calm (step_tick w2)" "modules_ok env (db (step_tick w2))" using up by simp_all
    from upsert_calm [OF this assms(3), of name StateFailed "Some (me_pid env)" "details StateFailed (Some cause) ?t'" ?t']
    obtain w3 where "upsert_module env name StateFailed (Some (me_pid env)) (details StateFailed (Some cause) ?t') ?t'
        (step_tick w2) = (Inr (), w3)" "modules_ok env (db w3)"
      "lookup_module (db w3) = (lookup_module (db w2))(name \<mapsto> state_row env name StateFailed (Some cause) ?t')"
      by (auto simp: state_row_def)
    then show ?thesis
      using Some l2 unfolding front
      by (intro exI [of _ w3] exI [of _ ?t'])
        (auto simp: markFailedOrJoin_def markFailed_def outcome_def andThen_def now_def fail_def fun_eq_iff)
  qed
qed

text \<open>
  A restart of an available module, when the database works, ends in one of two ways: its
  lifecycle calls succeed and the module's row says running, with the previous state returned; or the
  first call that fails is the error, and the row says failed with that error. No other row changes.
\<close>

theorem Restart_outcome:
  assumes "calm w" and "modules_ok env (db w)" and "inj (me_stableID env)"
    and "reg name = Some def" and "md_Available def" and "lookup_module (db w) name = Some r"
    and "scanState r = Inr current" and "ms_State current \<noteq> StateUnavailable"
  shows "\<exists>w' t.
    (case first_failing def [lc_Stop, lc_Start, lc_Health] of
       None \<Rightarrow>
         Restart (Suc fuel) env reg name w =
           (Inr (Some \<lparr>rr_ModuleName = name, rr_PreviousState = ms_State current,
                       rr_NewState = StateRunning, rr_SchemaVersion = ''module_restart.result.v1''\<rparr>), w') \<and>
         lookup_module (db w') = (lookup_module (db w))(name \<mapsto> state_row env name StateRunning None t)
     | Some cause \<Rightarrow>
         Restart (Suc fuel) env reg name w = (Inl (EMessage (lifecycle_failed cause)), w') \<and>
         lookup_module (db w') =
           (lookup_module (db w))(name \<mapsto> state_row env name StateFailed (Some cause) t))"
  using transition_calm [of w env reg name def r current StateRestarting "[lc_Stop, lc_Start, lc_Health]"
      "''module_restart.result.v1''" fuel] assms
  by (cases "first_failing def [lc_Stop, lc_Start, lc_Health]") (auto simp: Restart_def)

definition sick_module :: Definition where
  "sick_module = \<lparr>md_Name = ''core'', md_Available = True,
     md_Lifecycle = Some (NoopLifecycle\<lparr>lc_Start := Some ''no port''\<rparr>)\<rparr>"

definition core_db :: modules_db where
  "core_db = \<lparr>module_table = [state_row sample_env ''core'' StateRunning None 0]\<rparr>"

lemma core_db_facts:
  "modules_ok sample_env core_db"
  "lookup_module core_db ''core'' = Some (state_row sample_env ''core'' StateRunning None 0)"
  "\<exists>s. scanState (state_row sample_env ''core'' StateRunning None 0) = Inr s \<and> ms_State s = StateRunning"
  by (simp_all add: modules_ok_def modules_violation_def core_db_def state_row_def module_state_row_def
      lookup_module_def find_module_def scanState_def details_def)

lemma Restart_outcome_witness:
  "\<exists>w'. Restart 1 sample_env [''core'' \<mapsto> sick_module] ''core'' (modules_world core_db) =
       (Inl (EMessage ''module lifecycle failed: no port''), w') \<and>
     map_option mr_state (lookup_module (db w') ''core'') = Some StateFailed"
proof -
  obtain s where s: "scanState (state_row sample_env ''core'' StateRunning None 0) = Inr s"
    "ms_State s \<noteq> StateUnavailable" using core_db_facts(3) by auto
  have "first_failing sick_module [lc_Stop, lc_Start, lc_Health] = Some ''no port''"
    by (simp add: sick_module_def lifecycle_call_def NoopLifecycle_def)
  moreover have "modules_ok sample_env (db (modules_world core_db))" by (simp add: core_db_facts)
  moreover have "lookup_module (db (modules_world core_db)) ''core'' =
      Some (state_row sample_env ''core'' StateRunning None 0)" by (simp add: core_db_facts)
  moreover have "md_Available sick_module" by (simp add: sick_module_def)
  ultimately obtain w' t where
    "Restart (Suc 0) sample_env [''core'' \<mapsto> sick_module] ''core'' (modules_world core_db) =
       (Inl (EMessage (lifecycle_failed ''no port'')), w')"
    "lookup_module (db w') = (lookup_module (db (modules_world core_db)))
       (''core'' \<mapsto> state_row sample_env ''core'' StateFailed (Some ''no port'') t)"
    using Restart_outcome [OF modules_world_simps(1) _ sample_env_inj _ _ _ s,
        of core_db "[''core'' \<mapsto> sick_module]" "''core''" sick_module 0] by auto
  then show ?thesis
    by (intro exI [of _ w']) (simp add: lifecycle_failed_def state_row_def module_state_row_def)
qed

text \<open>
  C40: restarting a module whose row is missing seeds the whole table as if every module were enabled:
  any other available module, stopped because it is not enabled or failed, is then recorded as running.
\<close>

theorem missing_row_restarts_all:
  assumes "calm w" and "modules_ok env (db w)" and "inj (me_stableID env)"
    and "lookup_module (db w) name = None" and "NewStore name = Some def" and "md_Available def"
    and "NewStore other = Some odef" and "md_Available odef" and "other \<noteq> name"
  shows "\<exists>result w'. Restart 2 env NewStore name w = (Inr (Some result), w') \<and>
    map_option mr_state (lookup_module (db w') other) = Some StateRunning"
proof -
  let ?w1 = "step_tick w"
  have w1: "calm ?w1" "modules_ok env (db ?w1)" using assms(1,2) by simp_all
  from Seed_sets_registry [OF w1 assms(3), of None] obtain w2 where
    seed: "Seed env None ?w1 = (Inr (), w2)" and w2: "calm w2" "modules_ok env (db w2)"
    and rows: "lookup_module (db w2) = (\<lambda>n. case NewStore n of None \<Rightarrow> lookup_module (db ?w1) n
       | Some d \<Rightarrow> Some (seed_row env (enabledSet None) (clk ?w1 (tick ?w1)) d))" by blast
  let ?row = "\<lambda>d. seed_row env (enabledSet None) (clk ?w1 (tick ?w1)) d"
  have running: "mr_state (?row d) = StateRunning" if "NewStore n = Some d" "md_Available d" for n d
  proof -
    have "enabledSet None (md_Name d)" using that(1) by (auto simp: enabledSet_def NewStore_iff)
    then show ?thesis using that(2) by (simp add: seed_row_def module_state_row_def Let_def)
  qed
  obtain s where s: "scanState (?row def) = Inr s" "ms_State s = mr_state (?row def)"
    by (simp add: scanState_def seed_row_def module_state_row_def details_def Let_def)
  have here: "lookup_module (db w2) name = Some (?row def)" by (simp add: rows assms(5))
  have get1: "get_module 2 env NewStore name w = get_module 1 env NewStore name w2"
  proof -
    have "query (find_module name) w = (Inr None, ?w1)"
      using assms(1,4) by (simp add: query_calm lookup_module_def)
    then show ?thesis
      using assms(5) seed by (simp add: numeral_2_eq_2 andThen_def del: get_module.simps(1))
  qed
  have "get_module 2 env NewStore name w = (Inr (Some s), step_tick w2)"
    unfolding get1 One_nat_def by (rule get_module_found [OF w2(1) here s(1)])
  moreover have "get_module (Suc 0) env NewStore name w2 = (Inr (Some s), step_tick w2)"
    by (rule get_module_found [OF w2(1) here s(1)])
  ultimately have "Restart 2 env NewStore name w = Restart (Suc 0) env NewStore name w2"
    unfolding Restart_def transition_def assms(5) option.case by (simp only: andThen_Inr_eq)
  moreover have "ms_State s \<noteq> StateUnavailable" using s(2) running [OF assms(5,6)] by simp
  moreover have "first_failing def [lc_Stop, lc_Start, lc_Health] = None"
    using registry_cases [of def] assms(5,6)
    by (auto simp: NewStore_iff lifecycle_call_def NoopLifecycle_def)
  ultimately obtain result w' t where "Restart 2 env NewStore name w = (Inr (Some result), w')"
    "lookup_module (db w') = (lookup_module (db w2))(name \<mapsto> state_row env name StateRunning None t)"
    using Restart_outcome [of w2 env NewStore name def "?row def" s 0] w2 assms(3,5,6) here s(1) by auto
  then show ?thesis
    using assms(7,8,9) running [OF assms(7,8)] by (intro exI [of _ result] exI [of _ w']) (simp add: rows)
qed

lemma missing_row_restarts_all_witness:
  "\<exists>result w'. Restart 2 sample_env NewStore ''core''
       (modules_world \<lparr>module_table = [state_row sample_env ''global-scanner'' StateStopped None 0]\<rparr>) =
       (Inr (Some result), w') \<and>
     map_option mr_state (lookup_module (db w') ''global-scanner'') = Some StateRunning"
proof -
  let ?d = "\<lparr>module_table = [state_row sample_env ''global-scanner'' StateStopped None 0]\<rparr>"
  have "modules_ok sample_env (db (modules_world ?d))"
    and "lookup_module (db (modules_world ?d)) ''core'' = None"
    by (simp_all add: modules_ok_def modules_violation_def state_row_def module_state_row_def
        lookup_module_def find_module_def)
  moreover have "NewStore ''core'' = Some (registered ''core'')"
    "NewStore ''global-scanner'' = Some (registered ''global-scanner'')"
    by (simp_all add: NewStore_iff InitialRegistry_def registered_def planned_def)
  moreover have "md_Available (registered n)" for n by (simp add: registered_def)
  ultimately show ?thesis
    using missing_row_restarts_all [OF modules_world_simps(1) _ sample_env_inj] by simp
qed

text \<open>
  A module that is not registered, or is not available, is refused, and nothing is written,
  whatever faults occur.
\<close>

theorem Restart_refused:
  assumes "reg name = None \<or>
    (\<exists>def r s. reg name = Some def \<and> lookup_module (db w) name = Some r \<and> scanState r = Inr s \<and>
       (\<not> md_Available def \<or> ms_State s = StateUnavailable))"
  shows "(\<exists>e. fst (Restart (Suc fuel) env reg name w) = Inl e) \<and>
    db (snd (Restart (Suc fuel) env reg name w)) = db w \<and>
    (\<exists>e. fst (Reload (Suc fuel) env reg name w) = Inl e) \<and>
    db (snd (Reload (Suc fuel) env reg name w)) = db w"
proof -
  have "(\<exists>e. fst (transition i calls schema (Suc fuel) env reg name w) = Inl e) \<and>
    db (snd (transition i calls schema (Suc fuel) env reg name w)) = db w" for i calls schema
  proof (cases "reg name")
    case None
    then show ?thesis by (simp add: transition_def fail_def)
  next
    case (Some def)
    then obtain r s where r: "find_module name (db w) = Some r" "scanState r = Inr s"
      and no: "\<not> md_Available def \<or> ms_State s = StateUnavailable"
      using assms by (auto simp: lookup_module_def)
    show ?thesis
    proof (cases "flt w (tick w) = NoFault")
      case True
      then have "get_module (Suc fuel) env reg name w = (Inr (Some s), step_tick w)"
        using r by (simp add: andThen_def query_def lift_result_def ret_def)
      then show ?thesis
        unfolding transition_def Some option.case
        using no by (simp add: andThen_Inr_eq fail_def del: get_module.simps)
    next
      case False
      then have "get_module (Suc fuel) env reg name w = (Inl fault_error, step_tick w)"
        by (simp add: andThen_def query_def)
      then show ?thesis
        unfolding transition_def Some option.case by (simp add: andThen_Inl_eq del: get_module.simps)
    qed
  qed
  then show ?thesis by (simp add: Restart_def Reload_def)
qed

lemma Restart_refused_witness:
  "\<exists>e. fst (Restart 1 sample_env NewStore ''billing'' (modules_world core_db)) = Inl e"
proof -
  have "NewStore ''billing'' = None"
    by (rule ccontr) (auto simp: NewStore_iff InitialRegistry_def registered_def planned_def)
  then show ?thesis
    using Restart_refused [of NewStore "''billing''" "modules_world core_db" 0 sample_env] by auto
qed

end
