(* ===== verification/Go_Duration.thy ===== *)
theory Go_Duration
  imports Job_Runtime
begin

text \<open>
  \<open>time.ParseDuration\<close>: a sign and a sequence of decimal numbers with units, as a number of
  nanoseconds, with the overflow checks of the library and its \<open>float64\<close> arithmetic on fractions.
\<close>

text \<open>The package's own quoted form: bytes that are not printable ASCII in hexadecimal.\<close>

definition time_quote_char :: "char \<Rightarrow> bytes" where
  "time_quote_char c =
     (let n = of_char c :: nat; bs = CHR 0x5C
      in if 128 \<le> n \<or> n < 32 then [bs, CHR ''x'', hex_digit (n div 16), hex_digit (n mod 16)]
         else if c = CHR 0x22 \<or> c = bs then [bs, c] else [c])"

definition time_quote :: "bytes \<Rightarrow> bytes" where
  "time_quote s = [CHR 0x22] @ concat (map time_quote_char s) @ [CHR 0x22]"

definition digit :: "char \<Rightarrow> bool" where
  "digit c \<longleftrightarrow> CHR ''0'' \<le> c \<and> c \<le> CHR ''9''"

definition digit_value :: "char \<Rightarrow> int" where
  "digit_value c = int (of_char c) - 48"

text \<open>\<open>leadingInt\<close>: the number and the rest, unless it exceeds \<open>1 << 63\<close>.\<close>

fun leading_int :: "int \<Rightarrow> bytes \<Rightarrow> (int \<times> bytes) option" where
  "leading_int x [] = Some (x, [])"
| "leading_int x (c # s) =
     (if \<not> digit c then Some (x, c # s)
      else if 2 ^ 63 div 10 < x \<or> 2 ^ 63 < 10 * x + digit_value c then None
      else leading_int (10 * x + digit_value c) s)"

text \<open>\<open>leadingFraction\<close>: digits after those that fit are dropped.\<close>

fun leading_fraction :: "bool \<Rightarrow> int \<Rightarrow> int \<Rightarrow> bytes \<Rightarrow> int \<times> int \<times> bytes" where
  "leading_fraction full x scale [] = (x, scale, [])"
| "leading_fraction full x scale (c # s) =
     (if \<not> digit c then (x, scale, c # s)
      else if full \<or> (2 ^ 63 - 1) div 10 < x \<or> 2 ^ 63 < 10 * x + digit_value c
      then leading_fraction True x scale s
      else leading_fraction False (10 * x + digit_value c) (10 * scale) s)"

definition unit_map :: "bytes \<Rightarrow> int option" where
  "unit_map =
     map_of [(''ns'', 1), (''us'', 1000), ([CHR 0xC2, CHR 0xB5, CHR ''s''], 1000),
             ([CHR 0xCE, CHR 0xBC, CHR ''s''], 1000), (''ms'', 1000000), (''s'', 1000000000),
             (''m'', 60000000000), (''h'', 3600000000000)]"

text \<open>
  A positive number as a \<open>float64\<close>: 53 significant bits, ties to even. The numbers here are far above
  the smallest one.
\<close>

function bits_of :: "int \<Rightarrow> int" where
  "bits_of n = (if n \<le> 0 then 0 else 1 + bits_of (n div 2))"
  by pat_completeness auto
termination
  by (relation "measure nat") auto

declare bits_of.simps [simp del]

definition float_value :: "rat \<Rightarrow> rat" where
  "float_value x =
     (let y = x * 2 ^ 128; k = nat (bits_of (floor y) - 53)
      in of_int (round_even (y / 2 ^ k)) * 2 ^ k / 2 ^ 128)"

definition fraction_value :: "int \<Rightarrow> int \<Rightarrow> int \<Rightarrow> int" where
  "fraction_value f unit scale =
     floor (float_value (float_value (of_int f) * float_value (of_int unit / of_int scale)))"

text \<open>One number with its unit: its value and the rest of the text.\<close>

definition duration_part :: "bytes \<Rightarrow> bytes \<Rightarrow> bytes + int \<times> bytes" where
  "duration_part orig s =
     (let invalid = Inl (''time: invalid duration '' @ time_quote orig)
      in if s = [] \<or> \<not> (hd s = CHR ''.'' \<or> digit (hd s)) then invalid
         else
           (case leading_int 0 s of
              None \<Rightarrow> invalid
            | Some (v, s1) \<Rightarrow>
                (let dot = has_prefix s1 ''.'';
                     (f, scale, s2) = (if dot then leading_fraction False 0 1 (drop 1 s1) else (0, 1, s1));
                     pre = length s1 \<noteq> length s; post = dot \<and> Suc (length s2) \<noteq> length s1
                 in if \<not> pre \<and> \<not> post then invalid
                    else
                      (let u = takeWhile (\<lambda>c. c \<noteq> CHR ''.'' \<and> \<not> digit c) s2; s3 = drop (length u) s2
                       in if u = [] then Inl (''time: missing unit in duration '' @ time_quote orig)
                          else
                            (case unit_map u of
                               None \<Rightarrow> Inl (''time: unknown unit '' @ time_quote u @ '' in duration '' @ time_quote orig)
                             | Some unit \<Rightarrow>
                                 (if 2 ^ 63 div unit < v then invalid
                                  else
                                    (let v1 = v * unit + (if 0 < f then fraction_value f unit scale else 0)
                                     in if 2 ^ 63 < v1 then invalid else Inr (v1, s3))))))))"

text \<open>Each part takes at least one byte, so the length of the text is enough rounds.\<close>

fun duration_parts :: "nat \<Rightarrow> bytes \<Rightarrow> int \<Rightarrow> bytes \<Rightarrow> bytes + int" where
  "duration_parts 0 orig d s = Inr d"
| "duration_parts (Suc n) orig d s =
     (if s = [] then Inr d
      else
        (case duration_part orig s of
           Inl e \<Rightarrow> Inl e
         | Inr (v, s') \<Rightarrow>
             (if 2 ^ 63 < d + v then Inl (''time: invalid duration '' @ time_quote orig)
              else duration_parts n orig (d + v) s')))"

definition ParseDuration :: "bytes \<Rightarrow> bytes + duration" where
  "ParseDuration orig =
     (let signed = has_prefix orig ''-'' \<or> has_prefix orig ''+''; neg = has_prefix orig ''-'';
          s = (if signed then drop 1 orig else orig)
      in if s = ''0'' then Inr 0
         else if s = [] then Inl (''time: invalid duration '' @ time_quote orig)
         else
           (case duration_parts (length s) orig 0 s of
              Inl e \<Rightarrow> Inl e
            | Inr d \<Rightarrow>
                (if neg then Inr (- d)
                 else if 2 ^ 63 - 1 < d then Inl (''time: invalid duration '' @ time_quote orig)
                 else Inr d)))"

lemma leading_int_shorter: "leading_int x s = Some (v, r) \<Longrightarrow> length r \<le> length s"
  by (induction x s rule: leading_int.induct) (auto split: if_splits)

lemma leading_fraction_shorter: "leading_fraction full x scale s = (f, scale', r) \<Longrightarrow> length r \<le> length s"
  by (induction full x scale s rule: leading_fraction.induct) (auto split: if_splits)

lemma duration_part_shorter:
  assumes "duration_part orig s = Inr (v, r)"
  shows "length r < length s"
proof -
  obtain n s1 where int: "leading_int 0 s = Some (n, s1)"
    using assms by (auto simp: duration_part_def Let_def split: if_splits option.splits)
  obtain f scale s2 where frac:
    "(if has_prefix s1 ''.'' then leading_fraction False 0 1 (drop 1 s1) else (0, 1, s1)) = (f, scale, s2)"
    by (cases "if has_prefix s1 ''.'' then leading_fraction False 0 1 (drop 1 s1) else (0, 1, s1)") auto
  have "length s1 \<le> length s" using int by (rule leading_int_shorter)
  moreover have "length s2 \<le> length s1"
    using frac leading_fraction_shorter [of False 0 1 "drop 1 s1" f scale s2] by (auto split: if_splits)
  moreover have "\<exists>u. u \<noteq> [] \<and> u = takeWhile (\<lambda>c. c \<noteq> CHR ''.'' \<and> \<not> digit c) s2 \<and> r = drop (length u) s2"
    using assms unfolding duration_part_def Let_def int option.case prod.case frac
    by (auto split: if_splits option.splits)
  then obtain u where u: "u \<noteq> []" "u = takeWhile (\<lambda>c. c \<noteq> CHR ''.'' \<and> \<not> digit c) s2" "r = drop (length u) s2"
    by blast
  then have "length u \<le> length s2" by (metis length_takeWhile_le)
  then have "length r < length s2" using u(1,3) by (cases u) auto
  ultimately show ?thesis by simp
qed

text \<open>Some of the package's own samples.\<close>

lemma duration_samples:
  "ParseDuration ''15m'' = Inr 900000000000"
  "ParseDuration ''-2ms'' = Inr (- 2000000)"
  "ParseDuration ''0'' = Inr 0"
  "ParseDuration ''5'' = Inl (''time: missing unit in duration '' @ time_quote ''5'')"
  by code_simp+

end
