(* ===== verification/Config_Types.thy ===== *)
theory Config_Types
  imports Go_Duration System
begin

text \<open>
  \<open>internal/config/validation.go\<close> and the pure functions of \<open>internal/config/store.go\<close>: the runtime
  configuration, its normal form and its validation, the flat entries it is stored as, the storage
  profile it describes, masking, and the nested form the entries are shown in. A slice that can be nil
  is an option. The environment has the texts of JSON documents and their parser, the hash behind
  identifiers and fingerprints, Unicode's lower case and the variables of the process.
\<close>

section \<open>The configuration\<close>

record SystemSettings =
  ss_AppName :: bytes
  ss_Version :: bytes
  ss_Mode :: bytes

record Database =
  da_DatabaseType :: bytes
  da_DatabasePath :: bytes

record ExternalDatabase =
  ed_Enabled :: bool
  ed_Provider :: bytes
  ed_EngineFlavor :: bytes
  ed_Host :: bytes
  ed_Port :: int
  ed_Username :: bytes
  ed_Password :: bytes
  ed_DatabaseName :: bytes

record Toolchain =
  tc_VersionPolicy :: bytes
  tc_ProfilePaths :: "bytes list option"

record Scanning =
  sn_GlobalScan :: "config_root list option"
  sn_Security :: "bytes list option"
  sn_Toolchain :: Toolchain

record Repositories =
  rs_DefaultAuthType :: bytes
  rs_PollInterval :: bytes
  rs_AutoSyncDefault :: bool

record Workers =
  wk_Enabled :: bool
  wk_Concurrency :: int

record Logging =
  lg_Level :: bytes
  lg_Format :: bytes
  lg_LogPath :: bytes

record RuntimeConfig =
  rc_SystemSettings :: SystemSettings
  rc_Database :: Database
  rc_ExternalDatabase :: ExternalDatabase
  rc_Scanning :: Scanning
  rc_Repositories :: Repositories
  rc_ActiveRuleSetID :: "bytes option"
  rc_ListenAddress :: bytes
  rc_LocalEnabled :: bool
  rc_Workers :: Workers
  rc_Modules :: "bytes list option"
  rc_Logging :: Logging

record Entry =
  en_Key :: bytes
  en_Value :: bytes
  en_ValueType :: bytes

record config_env =
  cv_marshal :: "json \<Rightarrow> bytes"
  cv_parse :: "bytes \<Rightarrow> raw"
  cv_hash :: "bytes \<Rightarrow> bytes"
  cv_lower :: "bytes \<Rightarrow> bytes"
  cv_getenv :: "bytes \<Rightarrow> bytes option"

section \<open>Normal form\<close>

definition cleanPath :: "bytes \<Rightarrow> bytes" where
  "cleanPath path0 = (let path = trim_space path0 in if path = [] then [] else clean path)"

definition Normalize :: "RuntimeConfig \<Rightarrow> RuntimeConfig" where
  "Normalize cfg =
     (let d = rc_Database cfg; l = rc_Logging cfg; s = rc_Scanning cfg; t = sn_Toolchain s
      in cfg\<lparr>rc_Database := d\<lparr>da_DatabasePath := cleanPath (da_DatabasePath d)\<rparr>,
             rc_Logging := l\<lparr>lg_LogPath := cleanPath (lg_LogPath l)\<rparr>,
             rc_Scanning := s\<lparr>sn_Toolchain := t
               \<lparr>tc_VersionPolicy :=
                  (if tc_VersionPolicy t = [] then ''certified_only'' else tc_VersionPolicy t),
                tc_ProfilePaths := map_option (map cleanPath) (tc_ProfilePaths t)\<rparr>\<rparr>\<rparr>)"

section \<open>Validation\<close>

definition require :: "bool \<Rightarrow> bytes \<Rightarrow> bytes + unit" where
  "require ok msg = (if ok then Inr () else Inl msg)"

definition items :: "'a list option \<Rightarrow> 'a list" where
  "items xs = (case xs of None \<Rightarrow> [] | Some ys \<Rightarrow> ys)"

definition secret_prefix :: bytes where
  "secret_prefix = ''secretref://env/''"

definition validateSecretRefValue :: "bytes \<Rightarrow> bytes \<Rightarrow> bool \<Rightarrow> bytes + unit" where
  "validateSecretRefValue path v required =
     (if v = [] then require (\<not> required) (path @ '': required secret reference string'')
      else require (has_prefix v secret_prefix)
             (path @ '': sensitive values must use secretref://env/...''))"

definition InitialModuleNames :: "bytes list" where
  "InitialModuleNames =
     [''core'', ''worker-runtime'', ''config-manager'', ''module-runtime'', ''status-monitor'',
      ''global-scanner'', ''repository-manager'', ''project-scanner'', ''security-validator'', ''auth'', ''web'']"

fun module_names :: "bytes list \<Rightarrow> bytes list \<Rightarrow> bytes + unit" where
  "module_names seen [] = Inr ()"
| "module_names seen (name # names) =
     (if name \<notin> set InitialModuleNames
      then Inl (''modules.enabled: unknown module '' @ go_quote name)
      else if name \<in> set seen then Inl (''modules.enabled: duplicate module '' @ go_quote name)
      else module_names (name # seen) names)"

definition ValidateModuleNames :: "bytes list \<Rightarrow> bytes + unit" where
  "ValidateModuleNames names = module_names [] names"

fun security_modules :: "bytes list \<Rightarrow> bytes list \<Rightarrow> bytes + unit" where
  "security_modules seen [] = Inr ()"
| "security_modules seen (m # ms) =
     (if blank m then Inl ''scanning.security_scan.modules: empty module''
      else if m \<in> set seen
      then Inl (''scanning.security_scan.modules: duplicate module '' @ go_quote m)
      else security_modules (m # seen) ms)"

definition indexed :: "bytes \<Rightarrow> nat \<Rightarrow> bytes \<Rightarrow> bytes" where
  "indexed name i rest = name @ ''['' @ digits_of i @ '']'' @ rest"

definition validate_root :: "nat \<times> config_root \<Rightarrow> bytes + unit" where
  "validate_root = (\<lambda>(i, rt). first_failure
     [require (cleanPath (cg_RootPath rt) \<noteq> [] \<and> is_abs (cg_RootPath rt))
        (indexed ''scanning.global_scan'' i ''.root_path: expected absolute normalized path''),
      require (cg_Frequency rt \<in> set [''daily'', ''weekly'', ''monthly''])
        (indexed ''scanning.global_scan'' i ''.frequency: unsupported frequency'')])"

definition validate_profile_path :: "nat \<times> bytes \<Rightarrow> bytes + unit" where
  "validate_profile_path = (\<lambda>(i, path).
     require (cleanPath path \<noteq> [] \<and> is_abs path)
       (indexed ''scanning.toolchain.profile_paths'' i '': expected absolute normalized path''))"

definition external_checks :: "ExternalDatabase \<Rightarrow> (bytes + unit) list" where
  "external_checks e =
     [require (\<not> ed_Enabled e \<or> ed_Provider e \<in> set [''postgresql'', ''mysql'', ''mssql''])
        ''external_databases.provider: unsupported provider'',
      require (\<not> ed_Enabled e \<or>
               (ed_Host e \<noteq> [] \<and> 0 < ed_Port e \<and> ed_Port e \<le> 65535 \<and> ed_DatabaseName e \<noteq> []))
        ''external_databases: host, port and database_name are required'',
      validateSecretRefValue ''external_databases.username'' (ed_Username e) (ed_Enabled e),
      validateSecretRefValue ''external_databases.password'' (ed_Password e) (ed_Enabled e),
      require (ed_EngineFlavor e = [] \<or> ed_EngineFlavor e \<in> set [''standard'', ''aurora''])
        ''external_databases.engine_flavor: unsupported engine flavor'']"

definition poll_interval_checks :: "bytes \<Rightarrow> (bytes + unit) list" where
  "poll_interval_checks v =
     (case ParseDuration v of
        Inl e \<Rightarrow> [Inl (''repositories.poll_interval_default: '' @ e)]
      | Inr d \<Rightarrow> [require (0 < d) ''repositories.poll_interval_default: must be positive''])"

definition listen_address_ok :: "bytes \<Rightarrow> bool" where
  "listen_address_ok v \<longleftrightarrow> (case SplitHostPort v of None \<Rightarrow> False | Some (host, port) \<Rightarrow> host \<noteq> [] \<and> port \<noteq> [])"

text \<open>The checks in the order of the code; the first that fails decides.\<close>

definition config_checks :: "RuntimeConfig \<Rightarrow> (bytes + unit) list" where
  "config_checks cfg =
     (let s = rc_SystemSettings cfg; d = rc_Database cfg; sn = rc_Scanning cfg;
          t = sn_Toolchain sn; r = rc_Repositories cfg; l = rc_Logging cfg;
          concurrency = wk_Concurrency (rc_Workers cfg)
      in [require (\<not> blank (ss_AppName s)) ''system_settings.app_name: required'',
          require (ss_Mode s \<in> set [''server'', ''local'']) ''system_settings.mode: expected server or local'',
          require (da_DatabaseType d = ''sqlite'') ''database.database_type: expected sqlite'',
          require (cleanPath (da_DatabasePath d) \<noteq> []) ''database.database_path: required normalized path''] @
         external_checks (rc_ExternalDatabase cfg) @
         map validate_root (enumerate 0 (items (sn_GlobalScan sn))) @
         [require (items (sn_Security sn) \<noteq> []) ''scanning.security_scan.modules: must not be empty'',
          security_modules [] (items (sn_Security sn)),
          require (tc_VersionPolicy t \<in> set [''certified_only'', ''compatible_range'', ''latest_best_effort''])
            ''scanning.toolchain.version_policy: unsupported policy''] @
         map validate_profile_path (enumerate 0 (items (tc_ProfilePaths t))) @
         [require (rs_DefaultAuthType r \<in> set [''ssh'', ''https'', ''token''])
            ''repositories.default_auth_type: unsupported auth type''] @
         poll_interval_checks (rs_PollInterval r) @
         [require (0 < concurrency) ''workers.concurrency: must be positive'',
          require (\<not> (da_DatabaseType d = ''sqlite'' \<and> concurrency \<noteq> 1)) ''sqlite_worker_concurrency_unsupported'',
          ValidateModuleNames (items (rc_Modules cfg)),
          require (listen_address_ok (rc_ListenAddress cfg)) ''api.listen_address: expected host:port'',
          require (lg_Level l \<in> set [''debug'', ''info'', ''warn'', ''error'']) ''logging.level: unsupported level'',
          require (lg_Format l \<in> set [''json'', ''text'']) ''logging.format: unsupported format'',
          require (cleanPath (lg_LogPath l) \<noteq> []) ''logging.log_path: required normalized path''])"

definition Validate :: "RuntimeConfig \<Rightarrow> bytes + unit" where
  "Validate cfg = first_failure (config_checks (Normalize cfg))"

text \<open>\<open>decode\<close>, given what the decoder makes of the text and whether more follows.\<close>

definition decode_config :: "bytes + RuntimeConfig \<Rightarrow> (bytes + unit) option \<Rightarrow> bytes + RuntimeConfig" where
  "decode_config decoded trailing =
     (case decoded of
        Inl e \<Rightarrow> Inl (''decode config: '' @ e)
      | Inr cfg \<Rightarrow>
          (case trailing of
             Some (Inl e) \<Rightarrow> Inl (''decode config: '' @ e)
           | Some (Inr _) \<Rightarrow> Inl ''decode config: request body must contain a single JSON object''
           | None \<Rightarrow>
               (case Validate (Normalize cfg) of Inl e \<Rightarrow> Inl e | Inr _ \<Rightarrow> Inr (Normalize cfg))))"

section \<open>The shape of an import\<close>

definition allowedTopLevelKeys :: "bytes list" where
  "allowedTopLevelKeys =
     [''system_settings'', ''database'', ''external_databases'', ''scanning'', ''repositories'', ''security'',
      ''api'', ''auth'', ''workers'', ''modules'', ''logging'']"

definition rejectedGlobalScanAliases :: "bytes list" where
  "rejectedGlobalScanAliases = [''global_scann'', ''globalScan'', ''global_scan_roots'', ''scan_roots'']"

definition scanning_key :: "bytes \<Rightarrow> bytes + unit" where
  "scanning_key key =
     (if key \<in> set rejectedGlobalScanAliases
      then Inl (''scanning.'' @ key @ '': unknown key; use scanning.global_scan'')
      else require (key \<in> set [''global_scan'', ''security_scan'', ''toolchain''])
             (''scanning.'' @ key @ '': unknown config key''))"

definition secret_member :: "(bytes \<times> json) list \<Rightarrow> bytes \<Rightarrow> bytes + unit" where
  "secret_member external key =
     (case map_of external key of
        None \<Rightarrow> Inr ()
      | Some JNull \<Rightarrow> Inr ()
      | Some (JString s) \<Rightarrow> validateSecretRefValue (''external_databases.'' @ key) s False
      | Some _ \<Rightarrow> Inl (''external_databases.'' @ key @ '': expected secret reference string''))"

definition validateSecretRefs :: "(bytes \<times> json) list \<Rightarrow> bytes + unit" where
  "validateSecretRefs rt =
     (case map_of rt ''external_databases'' of
        Some (JObject external) \<Rightarrow> first_failure (map (secret_member external) [''username'', ''password''])
      | _ \<Rightarrow> Inr ())"

text \<open>\<open>ValidateImportShape\<close> on the decoded document, with its members in the order Go's maps give them.\<close>

definition shape_checks :: "(bytes \<times> json) list \<Rightarrow> (bytes + unit) list" where
  "shape_checks rt =
     map (\<lambda>(key, _). require (key \<in> set allowedTopLevelKeys) (key @ '': unknown top-level config key'')) rt @
     (case map_of rt ''scanning'' of
        None \<Rightarrow> []
      | Some (JObject scanning) \<Rightarrow> map (\<lambda>(key, _). scanning_key key) scanning
      | Some _ \<Rightarrow> [Inl ''scanning: expected object'']) @
     [validateSecretRefs rt]"

definition ValidateImportShape ::
    "(bytes \<times> json) list \<Rightarrow> bytes + RuntimeConfig \<Rightarrow> bytes + unit" where
  "ValidateImportShape rt decoded =
     (case first_failure (shape_checks rt) of
        Inl e \<Rightarrow> Inl e
      | Inr _ \<Rightarrow> (case decode_config decoded None of Inl e \<Rightarrow> Inl e | Inr _ \<Rightarrow> Inr ()))"

section \<open>Entries\<close>

definition strings_json :: "bytes list option \<Rightarrow> json" where
  "strings_json xs = (case xs of None \<Rightarrow> JNull | Some ys \<Rightarrow> JArray (map JString ys))"

definition config_root_json :: "config_root \<Rightarrow> json" where
  "config_root_json rt =
     JObject [(''name'', JString (cg_Name rt)), (''root_path'', JString (cg_RootPath rt)),
              (''schedule'', JBool (cg_Schedule rt)), (''frequency'', JString (cg_Frequency rt))]"

definition config_roots_json :: "config_root list option \<Rightarrow> json" where
  "config_roots_json xs = (case xs of None \<Rightarrow> JNull | Some ys \<Rightarrow> JArray (map config_root_json ys))"

definition decimal :: "int \<Rightarrow> bytes" where
  "decimal n = (if n < 0 then ''-'' else []) @ digits_of (nat (abs n))"

definition stringEntry :: "bytes \<Rightarrow> bytes \<Rightarrow> Entry" where
  "stringEntry key v = \<lparr>en_Key = key, en_Value = v, en_ValueType = ''string''\<rparr>"

definition boolEntry :: "bytes \<Rightarrow> bool \<Rightarrow> Entry" where
  "boolEntry key v = \<lparr>en_Key = key, en_Value = (if v then ''true'' else ''false''), en_ValueType = ''bool''\<rparr>"

definition intEntry :: "bytes \<Rightarrow> int \<Rightarrow> Entry" where
  "intEntry key v = \<lparr>en_Key = key, en_Value = decimal v, en_ValueType = ''int''\<rparr>"

definition jsonEntry :: "config_env \<Rightarrow> bytes \<Rightarrow> json \<Rightarrow> Entry" where
  "jsonEntry env key v = \<lparr>en_Key = key, en_Value = cv_marshal env v, en_ValueType = ''json''\<rparr>"

definition storage_entries :: "Database \<Rightarrow> ExternalDatabase \<Rightarrow> Entry list" where
  "storage_entries d e =
     [stringEntry ''database.database_type'' (da_DatabaseType d),
      stringEntry ''database.database_path'' (da_DatabasePath d),
      boolEntry ''external_databases.enabled'' (ed_Enabled e),
      stringEntry ''external_databases.provider'' (ed_Provider e),
      stringEntry ''external_databases.engine_flavor'' (ed_EngineFlavor e),
      stringEntry ''external_databases.host'' (ed_Host e),
      intEntry ''external_databases.port'' (ed_Port e),
      stringEntry ''external_databases.username'' (ed_Username e),
      stringEntry ''external_databases.password'' (ed_Password e),
      stringEntry ''external_databases.database_name'' (ed_DatabaseName e)]"

text \<open>The entries as \<open>Flatten\<close> lists them, before it sorts them by their keys.\<close>

definition entries_of :: "config_env \<Rightarrow> RuntimeConfig \<Rightarrow> Entry list" where
  "entries_of env cfg =
     (let s = rc_SystemSettings cfg; sn = rc_Scanning cfg; r = rc_Repositories cfg; l = rc_Logging cfg
      in [stringEntry ''system_settings.app_name'' (ss_AppName s),
          stringEntry ''system_settings.version'' (ss_Version s),
          stringEntry ''system_settings.mode'' (ss_Mode s)] @
         storage_entries (rc_Database cfg) (rc_ExternalDatabase cfg) @
         [jsonEntry env ''scanning.global_scan'' (config_roots_json (sn_GlobalScan sn)),
          jsonEntry env ''scanning.security_scan.modules'' (strings_json (sn_Security sn)),
          jsonEntry env ''scanning.toolchain.profile_paths'' (strings_json (tc_ProfilePaths (sn_Toolchain sn))),
          stringEntry ''scanning.toolchain.version_policy'' (tc_VersionPolicy (sn_Toolchain sn)),
          stringEntry ''repositories.default_auth_type'' (rs_DefaultAuthType r),
          stringEntry ''repositories.poll_interval_default'' (rs_PollInterval r),
          boolEntry ''repositories.auto_sync_default'' (rs_AutoSyncDefault r),
          jsonEntry env ''security.active_rule_set_id''
            (case rc_ActiveRuleSetID cfg of None \<Rightarrow> JNull | Some i \<Rightarrow> JString i),
          stringEntry ''api.listen_address'' (rc_ListenAddress cfg),
          boolEntry ''auth.local_enabled'' (rc_LocalEnabled cfg),
          boolEntry ''workers.enabled'' (wk_Enabled (rc_Workers cfg)),
          intEntry ''workers.concurrency'' (wk_Concurrency (rc_Workers cfg)),
          jsonEntry env ''modules.enabled'' (strings_json (rc_Modules cfg)),
          stringEntry ''logging.level'' (lg_Level l),
          stringEntry ''logging.format'' (lg_Format l),
          stringEntry ''logging.log_path'' (lg_LogPath l)])"

definition Flatten :: "config_env \<Rightarrow> RuntimeConfig \<Rightarrow> Entry list" where
  "Flatten env cfg = sort_key en_Key (entries_of env (Normalize cfg))"

section \<open>Storage profiles\<close>

definition normalizeProviderName :: "config_env \<Rightarrow> bytes \<Rightarrow> bytes" where
  "normalizeProviderName env p =
     (let name = to_lower (cv_lower env) (trim_space p) in if name = ''postgresql'' then ''postgres'' else name)"

definition fingerprintFor :: "config_env \<Rightarrow> bytes \<Rightarrow> bytes list \<Rightarrow> bytes" where
  "fingerprintFor env p parts = ''db:'' @ cv_hash env (p @ concat (map (\<lambda>part. CHR 0x00 # part) parts))"

definition stableID :: "config_env \<Rightarrow> bytes list \<Rightarrow> bytes" where
  "stableID env parts = ''stg02_'' @ take 32 (cv_hash env (join parts [CHR 0x00]))"

definition storageProfileID :: "config_env \<Rightarrow> bytes \<Rightarrow> bytes \<Rightarrow> bytes" where
  "storageProfileID env slot fingerprint =
     (if slot = ''migration'' then stableID env [''storage-profile'', slot, fingerprint]
      else stableID env [''storage-profile'', slot])"

definition database_json :: "Database \<Rightarrow> json" where
  "database_json d =
     JObject [(''database_type'', JString (da_DatabaseType d)), (''database_path'', JString (da_DatabasePath d))]"

definition external_json :: "ExternalDatabase \<Rightarrow> json" where
  "external_json e =
     JObject [(''enabled'', JBool (ed_Enabled e)), (''provider'', JString (ed_Provider e)),
              (''engine_flavor'', JString (ed_EngineFlavor e)), (''host'', JString (ed_Host e)),
              (''port'', number_json (ed_Port e)), (''username'', JString (ed_Username e)),
              (''password'', JString (ed_Password e)), (''database_name'', JString (ed_DatabaseName e))]"

record storage_profile =
  pf_provider :: bytes
  pf_engineFlavor :: bytes
  pf_payload :: bytes
  pf_fingerprint :: bytes

definition StorageProfile :: "config_env \<Rightarrow> RuntimeConfig \<Rightarrow> storage_profile" where
  "StorageProfile env cfg =
     (let e = rc_ExternalDatabase cfg; d = rc_Database cfg
      in if ed_Enabled e
         then (let p = normalizeProviderName env (ed_Provider e)
               in \<lparr>pf_provider = p, pf_engineFlavor = ed_EngineFlavor e, pf_payload = cv_marshal env (external_json e),
                   pf_fingerprint = fingerprintFor env p [ed_Host e, decimal (ed_Port e), ed_DatabaseName e]\<rparr>)
         else \<lparr>pf_provider = da_DatabaseType d, pf_engineFlavor = [], pf_payload = cv_marshal env (database_json d),
               pf_fingerprint = fingerprintFor env (da_DatabaseType d) [cleanPath (da_DatabasePath d)]\<rparr>)"

definition no_external :: ExternalDatabase where
  "no_external = \<lparr>ed_Enabled = False, ed_Provider = [], ed_EngineFlavor = [], ed_Host = [], ed_Port = 0,
     ed_Username = [], ed_Password = [], ed_DatabaseName = []\<rparr>"

text \<open>The payload of a profile, read back.\<close>

definition decode_database :: "raw \<Rightarrow> bytes + Database" where
  "decode_database = System.unmarshal (\<lambda>kvs.
     case (string_member ''database_type'' kvs, string_member ''database_path'' kvs) of
       (Inr t, Inr p) \<Rightarrow> Inr \<lparr>da_DatabaseType = t, da_DatabasePath = p\<rparr>
     | _ \<Rightarrow> Inl mismatch)"

fun int_or_null :: "json \<Rightarrow> bool" where
  "int_or_null (JNumber (Num q)) \<longleftrightarrow> q = of_int (floor q) \<and> - (2 ^ 63) \<le> floor q \<and> floor q < 2 ^ 63"
| "int_or_null JNull \<longleftrightarrow> True"
| "int_or_null _ \<longleftrightarrow> False"

definition int_member :: "bytes \<Rightarrow> (bytes \<times> json) list \<Rightarrow> bytes + int" where
  "int_member name kvs =
     (if list_all int_or_null (matching name kvs)
      then Inr (foldl (\<lambda>acc v. case v of JNumber (Num q) \<Rightarrow> floor q | _ \<Rightarrow> acc) 0 (matching name kvs))
      else Inl mismatch)"

definition decode_external :: "raw \<Rightarrow> bytes + ExternalDatabase" where
  "decode_external = System.unmarshal (\<lambda>kvs.
     case (bool_member ''enabled'' kvs, string_member ''provider'' kvs, string_member ''engine_flavor'' kvs,
           string_member ''host'' kvs, int_member ''port'' kvs, string_member ''username'' kvs,
           string_member ''password'' kvs, string_member ''database_name'' kvs) of
       (Inr en, Inr p, Inr f, Inr h, Inr port, Inr u, Inr pw, Inr n) \<Rightarrow>
         Inr \<lparr>ed_Enabled = en, ed_Provider = p, ed_EngineFlavor = f, ed_Host = h, ed_Port = port,
              ed_Username = u, ed_Password = pw, ed_DatabaseName = n\<rparr>
     | _ \<Rightarrow> Inl mismatch)"

definition storageEntriesFromProfile :: "config_env \<Rightarrow> bytes \<Rightarrow> bytes \<Rightarrow> bytes + Entry list" where
  "storageEntriesFromProfile env p payload =
     (let name = normalizeProviderName env p
      in if name = ''sqlite''
         then (case decode_database (cv_parse env payload) of
                 Inl e \<Rightarrow> Inl e | Inr d \<Rightarrow> Inr (storage_entries d no_external))
         else if name = ''postgres''
         then (case decode_external (cv_parse env payload) of
                 Inl e \<Rightarrow> Inl e
               | Inr e \<Rightarrow> Inr (storage_entries \<lparr>da_DatabaseType = ''sqlite'', da_DatabasePath = []\<rparr> (e\<lparr>ed_Enabled := True\<rparr>)))
         else Inl (''unsupported storage profile provider '' @ go_quote p))"

definition isStorageKey :: "bytes \<Rightarrow> bool" where
  "isStorageKey key \<longleftrightarrow> has_prefix key ''database.'' \<or> has_prefix key ''external_databases.''"

definition resolveEnvRef :: "config_env \<Rightarrow> bytes \<Rightarrow> bytes + bytes" where
  "resolveEnvRef env ref =
     (if \<not> has_prefix ref secret_prefix then Inl (''expected '' @ secret_prefix @ '' secret reference'')
      else
        (let name = trim_prefix ref secret_prefix
         in case cv_getenv env name of
              None \<Rightarrow> Inl (''environment secret '' @ go_quote name @ '' is not set'')
            | Some v \<Rightarrow> Inr v))"

definition JoinHostPort :: "bytes \<Rightarrow> bytes \<Rightarrow> bytes" where
  "JoinHostPort host port =
     (if CHR '':'' \<in> set host then ''['' @ host @ '']:'' @ port else host @ '':'' @ port)"

text \<open>\<open>url.UserPassword\<close> in \<open>URL.String\<close>.\<close>

definition escape_userinfo :: "bytes \<Rightarrow> bytes" where
  "escape_userinfo s =
     concat (map (\<lambda>c. if is_letter c \<or> is_digit c \<or> c \<in> set ''-_.~$&+,;='' then [c]
                      else [CHR ''%'', Go_Url.hex_digit (byte c div 16), Go_Url.hex_digit (byte c mod 16)]) s)"

record storage_config =
  sg_Provider :: bytes
  sg_DSN :: bytes

definition StorageConfig :: "config_env \<Rightarrow> bytes \<Rightarrow> bytes \<Rightarrow> bytes + storage_config" where
  "StorageConfig env p payload =
     (let name = normalizeProviderName env p
      in if name = ''sqlite''
         then (case decode_database (cv_parse env payload) of
                 Inl e \<Rightarrow> Inl e
               | Inr d \<Rightarrow> Inr \<lparr>sg_Provider = ''sqlite'', sg_DSN = da_DatabasePath d\<rparr>)
         else if name = ''postgres''
         then (case decode_external (cv_parse env payload) of
                 Inl e \<Rightarrow> Inl e
               | Inr x \<Rightarrow>
                   (case resolveEnvRef env (ed_Username x) of
                      Inl e \<Rightarrow> Inl e
                    | Inr username \<Rightarrow>
                        (case resolveEnvRef env (ed_Password x) of
                           Inl e \<Rightarrow> Inl e
                         | Inr password \<Rightarrow>
                             Inr \<lparr>sg_Provider = ''postgres'',
                                  sg_DSN = ''postgres://'' @ escape_userinfo username @ '':'' @
                                    escape_userinfo password @ ''@'' @
                                    escape HostMode (JoinHostPort (ed_Host x) (decimal (ed_Port x))) @
                                    escape PathMode (''/'' @ ed_DatabaseName x) @ ''?sslmode=disable''\<rparr>)))
         else Inl (''storage migration provider '' @ go_quote p @ '' is not supported by this build''))"

section \<open>Showing entries\<close>

definition isSensitiveKey :: "bytes \<Rightarrow> bool" where
  "isSensitiveKey key \<longleftrightarrow> key = ''external_databases.username'' \<or> key = ''external_databases.password''"

definition MaskSensitiveValue :: "bytes \<Rightarrow> bytes \<Rightarrow> json" where
  "MaskSensitiveValue key v =
     (if \<not> isSensitiveKey key then JString v
      else if has_prefix v secret_prefix
      then JObject [(''masked'', JBool True), (''ref_type'', JString ''env'')]
      else JObject [(''masked'', JBool True)])"

text \<open>\<open>fmt.Sscanf\<close> with \<open>%d\<close>: blanks, a sign and digits; 0 when it fails.\<close>

definition scan_decimal :: "bytes \<Rightarrow> int" where
  "scan_decimal s0 =
     (let s = trim_left_enc (filter (\<lambda>e. e \<noteq> ''\<newline>'') space_encodings) s0; neg = has_prefix s ''-'';
          r = (if neg \<or> has_prefix s ''+'' then drop 1 s else s);
          ds = takeWhile (\<lambda>c. digit c \<or> c = CHR ''_'') r
      in if ds = [] \<or> CHR ''_'' \<in> set ds then 0
         else (let n = (if neg then - digits_value ds else digits_value ds)
               in if n < - (2 ^ 63) \<or> 2 ^ 63 \<le> n then 0 else n))"

definition typedValue :: "config_env \<Rightarrow> bytes \<Rightarrow> bytes \<Rightarrow> bytes \<Rightarrow> json" where
  "typedValue env key v valueType =
     (if isSensitiveKey key then MaskSensitiveValue key v
      else if valueType = ''bool'' then JBool (v = ''true'')
      else if valueType = ''int'' then number_json (scan_decimal v)
      else if valueType = ''json''
      then (case Json.unmarshal (cv_parse env v) of Inl _ \<Rightarrow> JNull | Inr j \<Rightarrow> j)
      else JString v)"

fun set_member :: "bytes \<Rightarrow> json \<Rightarrow> (bytes \<times> json) list \<Rightarrow> (bytes \<times> json) list" where
  "set_member k v [] = [(k, v)]"
| "set_member k v ((k', v') # kvs) = (if k' = k then (k, v) # kvs else (k', v') # set_member k v kvs)"

fun setNested :: "(bytes \<times> json) list \<Rightarrow> bytes list \<Rightarrow> json \<Rightarrow> (bytes \<times> json) list" where
  "setNested rt [] v = rt"
| "setNested rt [p] v = set_member p v rt"
| "setNested rt (p # q # ps) v =
     set_member p (JObject (setNested (case map_of rt p of Some (JObject kvs) \<Rightarrow> kvs | _ \<Rightarrow> []) (q # ps) v)) rt"

section \<open>Reloading\<close>

fun filter_keys :: "bytes list \<Rightarrow> bytes list \<Rightarrow> bytes list \<Rightarrow> bytes list" where
  "filter_keys seen [] allowed = []"
| "filter_keys seen (key # keys) allowed =
     (if key \<in> set allowed \<and> key \<notin> set seen then key # filter_keys (key # seen) keys allowed
      else filter_keys seen keys allowed)"

definition filterKeys :: "bytes list \<Rightarrow> bytes list \<Rightarrow> bytes list" where
  "filterKeys keys allowed = filter_keys [] keys allowed"

definition reloadable :: "bytes list" where
  "reloadable =
     [''scanning.global_scan'', ''scanning.security_scan.modules'', ''scanning.toolchain.profile_paths'',
      ''scanning.toolchain.version_policy'', ''repositories.default_auth_type'',
      ''repositories.poll_interval_default'', ''repositories.auto_sync_default'', ''security.active_rule_set_id'',
      ''logging.level'', ''logging.format'', ''logging.log_path'', ''modules.enabled'']"

definition reloadableKeys :: "bytes list \<Rightarrow> bytes list" where
  "reloadableKeys keys = filterKeys keys reloadable"

definition restartRequired :: "bytes list" where
  "restartRequired =
     [''api.listen_address'', ''auth.local_enabled'', ''workers.enabled'', ''workers.concurrency'', ''system_settings.mode'']"

definition restartRequiredKeys :: "bytes list \<Rightarrow> bytes list" where
  "restartRequiredKeys keys = filterKeys keys restartRequired"

fun unknown_keys :: "bytes list \<Rightarrow> bytes list \<Rightarrow> bytes list \<Rightarrow> bytes list" where
  "unknown_keys known seen [] = []"
| "unknown_keys known seen (key # keys) =
     (if key \<in> set known \<or> key \<in> set seen then unknown_keys known seen keys
      else key # unknown_keys known (key # seen) keys)"

definition unknownReloadKeys :: "bytes list \<Rightarrow> bytes list" where
  "unknownReloadKeys keys = sort (unknown_keys (reloadableKeys keys @ restartRequiredKeys keys) [] keys)"

section \<open>Ignore files\<close>

text \<open>\<open>LoadIgnoreFile\<close>, given the path and what reading the file gives; \<open>Inr None\<close>: there is no file.\<close>

definition LoadIgnoreFile :: "bytes \<Rightarrow> bytes + bytes option \<Rightarrow> bytes + bytes list option" where
  "LoadIgnoreFile path file =
     (if blank path then Inr None
      else
        (case file of
           Inl e \<Rightarrow> Inl e
         | Inr None \<Rightarrow> Inr None
         | Inr (Some data) \<Rightarrow>
             Inr (Some (filter (\<lambda>line. line \<noteq> [] \<and> \<not> has_prefix line ''#'')
               (map trim_space (split data (CHR 0x0A)))))))"

end
