(* ===== verification/Config_Store.thy ===== *)
theory Config_Store
  imports Config_Types Modules_Registry
begin

text \<open>
  \<open>internal/config/store.go\<close>: importing a configuration into the database, the storage profiles, the
  settings of a provider, what is shown and reloaded, and the migration of a database into another.
  A database has the tables of the registry and of the modules beside those of this package. An
  instant is written by this package as the repository package writes it.
\<close>

section \<open>Tables\<close>

record profile_row =
  sp_id :: bytes
  sp_slot :: bytes
  sp_provider :: bytes
  sp_engine_flavor :: "bytes option"
  sp_status :: bytes
  sp_config_payload :: bytes
  sp_fingerprint :: bytes
  sp_last_migrated_from :: "bytes option"
  sp_created_at :: stamp
  sp_updated_at :: stamp

record settings_row =
  st_id :: bytes
  st_storage_profile_id :: bytes
  st_provider :: bytes
  st_workers_concurrency :: int
  st_worker_process_limit :: int
  st_busy_timeout :: bytes
  st_lease_duration :: bytes
  st_heartbeat_interval :: bytes
  st_sqlite_journal_mode :: "bytes option"
  st_sqlite_foreign_keys :: bool
  st_created_at :: stamp
  st_updated_at :: stamp

record environment_row =
  nv_id :: bytes
  nv_name :: bytes
  nv_code :: bytes
  nv_description :: "bytes option"
  nv_created_at :: stamp
  nv_updated_at :: stamp

record workspace_row =
  ws_id :: bytes
  ws_project_id :: bytes
  ws_environment_id :: bytes
  ws_name :: bytes
  ws_is_default :: bool
  ws_created_at :: stamp
  ws_updated_at :: stamp

record installation =
  ins_registry :: registry
  ins_modules :: modules_db
  storage_profiles :: "profile_row list"
  provider_settings :: "settings_row list"
  environments :: "environment_row list"
  workspaces :: "workspace_row list"

text \<open>The partial unique indexes on the slots.\<close>

definition active_current_index :: "profile_row \<Rightarrow> bytes option" where
  "active_current_index r = (if sp_slot r = ''current'' \<and> sp_status r = ''active'' then Some (sp_slot r) else None)"

definition migration_slot_index :: "profile_row \<Rightarrow> bytes option" where
  "migration_slot_index r = (if sp_slot r = ''migration'' then Some (sp_slot r) else None)"

definition installation_uniques :: "installation \<Rightarrow> bool" where
  "installation_uniques d \<longleftrightarrow>
     unique_by (\<lambda>r. Some (sp_id r)) (storage_profiles d) \<and>
     unique_by active_current_index (storage_profiles d) \<and>
     unique_by migration_slot_index (storage_profiles d) \<and>
     unique_by (\<lambda>r. Some (st_id r)) (provider_settings d) \<and>
     unique_by (\<lambda>r. Some (nv_id r)) (environments d) \<and> unique_by (\<lambda>r. Some (nv_code r)) (environments d) \<and>
     unique_by (\<lambda>r. Some (ws_id r)) (workspaces d) \<and>
     unique_by (\<lambda>r. Some (ws_project_id r, ws_name r)) (workspaces d)"

definition installation_foreign_keys :: "installation \<Rightarrow> bool" where
  "installation_foreign_keys d \<longleftrightarrow>
     list_all (\<lambda>r. st_storage_profile_id r \<in> sp_id ` set (storage_profiles d)) (provider_settings d) \<and>
     list_all (\<lambda>r. refers (pj_environment_id r) (nv_id ` set (environments d)) \<and>
                   refers (pj_default_workspace_id r) (ws_id ` set (workspaces d)))
       (projects (ins_registry d)) \<and>
     list_all (\<lambda>r. ws_project_id r \<in> pj_id ` set (projects (ins_registry d)) \<and>
                   ws_environment_id r \<in> nv_id ` set (environments d)) (workspaces d)"

definition installation_violation :: "installation \<Rightarrow> violation option" where
  "installation_violation d =
     (case registry_violation (ins_registry d) of
        Some v \<Rightarrow> Some v
      | None \<Rightarrow>
          (case modules_violation (ins_modules d) of
             Some v \<Rightarrow> Some v
           | None \<Rightarrow>
               if \<not> installation_uniques d then Some VUnique
               else if \<not> installation_foreign_keys d then Some VForeignKey
               else None))"

abbreviation installation_ok :: "installation \<Rightarrow> bool" where
  "installation_ok d \<equiv> installation_violation d = None"

abbreviation iexec :: "(installation \<Rightarrow> 'a \<times> installation) \<Rightarrow> (installation, 'a) io" where
  "iexec st \<equiv> exec installation_violation st"

section \<open>Statements\<close>

definition on_profiles :: "(profile_row list \<Rightarrow> profile_row list) \<Rightarrow> installation \<Rightarrow> unit \<times> installation" where
  "on_profiles f d = ((), d\<lparr>storage_profiles := f (storage_profiles d)\<rparr>)"

definition on_settings :: "(settings_row list \<Rightarrow> settings_row list) \<Rightarrow> installation \<Rightarrow> unit \<times> installation" where
  "on_settings f d = ((), d\<lparr>provider_settings := f (provider_settings d)\<rparr>)"

definition on_entries :: "(config_row list \<Rightarrow> config_row list) \<Rightarrow> installation \<Rightarrow> unit \<times> installation" where
  "on_entries f d =
     ((), d\<lparr>ins_registry := (ins_registry d)\<lparr>config_entries := f (config_entries (ins_registry d))\<rparr>\<rparr>)"

definition on_ignore :: "(ignore_row list \<Rightarrow> ignore_row list) \<Rightarrow> installation \<Rightarrow> unit \<times> installation" where
  "on_ignore f d =
     ((), d\<lparr>ins_registry := (ins_registry d)\<lparr>ignore_rules := f (ignore_rules (ins_registry d))\<rparr>\<rparr>)"

text \<open>This package's \<open>nullEmpty\<close> does not trim.\<close>

definition null_if_empty :: "bytes \<Rightarrow> bytes option" where
  "null_if_empty v = (if v = [] then None else Some v)"

text \<open>\<open>INSERT ... ON CONFLICT (key, scope) DO UPDATE\<close>: the id of the row that is there stays.\<close>

definition entry_row :: "config_env \<Rightarrow> Entry \<Rightarrow> bytes \<Rightarrow> int \<Rightarrow> stamp \<Rightarrow> bytes \<Rightarrow> config_row" where
  "entry_row env e scope version t updatedBy =
     \<lparr>ce_id = stableID env [''config'', en_Key e, scope], ce_key = en_Key e, ce_value = en_Value e,
      ce_value_type = en_ValueType e, ce_scope = scope, ce_version = version, ce_updated_at = t,
      ce_updated_by = updatedBy\<rparr>"

definition put_entry :: "config_env \<Rightarrow> Entry \<Rightarrow> instant \<Rightarrow> bytes \<Rightarrow> config_row list \<Rightarrow> config_row list" where
  "put_entry env e t updatedBy rows =
     (let there = (\<lambda>r. ce_key r = en_Key e \<and> ce_scope r = ''system'')
      in if list_ex there rows
         then update_where there (\<lambda>r. r\<lparr>ce_value := en_Value e, ce_value_type := en_ValueType e,
                ce_version := ce_version r + 1, ce_updated_at := Trimmed t, ce_updated_by := updatedBy\<rparr>) rows
         else rows @ [entry_row env e ''system'' 1 (Trimmed t) updatedBy])"

definition upsertConfigEntry :: "config_env \<Rightarrow> Entry \<Rightarrow> instant \<Rightarrow> bytes \<Rightarrow> (installation, unit) io" where
  "upsertConfigEntry env e t updatedBy = iexec (on_entries (put_entry env e t updatedBy))"

text \<open>\<open>INSERT ... ON CONFLICT (id) DO UPDATE\<close>: the slot of the row that is there stays.\<close>

definition put_profile :: "profile_row \<Rightarrow> profile_row list \<Rightarrow> profile_row list" where
  "put_profile new rows =
     (if list_ex (\<lambda>r. sp_id r = sp_id new) rows
      then update_where (\<lambda>r. sp_id r = sp_id new)
             (\<lambda>r. new\<lparr>sp_slot := sp_slot r, sp_created_at := sp_created_at r\<rparr>) rows
      else rows @ [new])"

definition upsertStorageProfile ::
    "config_env \<Rightarrow> bytes \<Rightarrow> bytes \<Rightarrow> bytes \<Rightarrow> bytes \<Rightarrow> bytes \<Rightarrow> bytes \<Rightarrow> bytes \<Rightarrow> bytes \<Rightarrow> instant \<Rightarrow>
     (installation, bytes) io" where
  "upsertStorageProfile env i0 slot p flavor payload fingerprint status lastMigratedFrom t =
     (let i = (if i0 = [] then storageProfileID env slot fingerprint else i0)
      in andThen (iexec (on_profiles (put_profile
           \<lparr>sp_id = i, sp_slot = slot, sp_provider = p, sp_engine_flavor = null_if_empty flavor, sp_status = status,
            sp_config_payload = payload, sp_fingerprint = fingerprint,
            sp_last_migrated_from = null_if_empty lastMigratedFrom, sp_created_at = Trimmed t,
            sp_updated_at = Trimmed t\<rparr>))) (\<lambda>_. ret i))"

definition retire :: "instant \<Rightarrow> profile_row \<Rightarrow> profile_row" where
  "retire t r = r\<lparr>sp_slot := ''historical'', sp_status := ''superseded'', sp_updated_at := Trimmed t\<rparr>"

definition retireMigrationProfiles :: "instant \<Rightarrow> (installation, unit) io" where
  "retireMigrationProfiles t =
     iexec (on_profiles (update_where (\<lambda>r. sp_slot r = ''migration'') (retire t)))"

definition put_settings :: "settings_row \<Rightarrow> settings_row list \<Rightarrow> settings_row list" where
  "put_settings new rows =
     (if list_ex (\<lambda>r. st_id r = st_id new) rows
      then update_where (\<lambda>r. st_id r = st_id new)
             (\<lambda>r. new\<lparr>st_storage_profile_id := st_storage_profile_id r, st_provider := st_provider r,
                      st_created_at := st_created_at r\<rparr>) rows
      else rows @ [new])"

definition settings_for :: "config_env \<Rightarrow> bytes \<Rightarrow> bytes \<Rightarrow> instant \<Rightarrow> settings_row" where
  "settings_for env profileID p t =
     (let lite = p = ''sqlite''
      in \<lparr>st_id = stableID env [''storage-provider-settings'', profileID, p], st_storage_profile_id = profileID,
          st_provider = p, st_workers_concurrency = (if lite then 1 else 4),
          st_worker_process_limit = (if lite then 1 else 4), st_busy_timeout = ''5s'',
          st_lease_duration = ''30s'', st_heartbeat_interval = ''10s'',
          st_sqlite_journal_mode = (if lite then Some ''WAL'' else None), st_sqlite_foreign_keys = lite,
          st_created_at = Trimmed t, st_updated_at = Trimmed t\<rparr>)"

definition upsertStorageProviderSettingsForProfile ::
    "config_env \<Rightarrow> bytes \<Rightarrow> bytes \<Rightarrow> instant \<Rightarrow> (installation, unit) io" where
  "upsertStorageProviderSettingsForProfile env profileID p t =
     iexec (on_settings (put_settings (settings_for env profileID p t)))"

definition imported_rule :: "config_env \<Rightarrow> instant \<Rightarrow> nat \<times> bytes \<Rightarrow> ignore_row" where
  "imported_rule env t = (\<lambda>(idx, pattern).
     \<lparr>ig_id = stableID env [''ignore'', ''system'', pattern], ig_scope_type = ''system'', ig_scope_id = Some [],
      ig_pattern = pattern, ig_origin = ''config_import'', ig_sort_order = int idx,
      ig_created_at = Trimmed t, ig_updated_at = Trimmed t\<rparr>)"

definition replaceIgnoreRules :: "config_env \<Rightarrow> bytes list \<Rightarrow> instant \<Rightarrow> (installation, unit) io" where
  "replaceIgnoreRules env patterns t =
     andThen (iexec (on_ignore (delete_where (\<lambda>r. ig_scope_type r = ''system'' \<and> ig_origin r = ''config_import'')))) (\<lambda>_.
       for_each (enumerate 0 patterns) (\<lambda>x. iexec (on_ignore (\<lambda>rows. rows @ [imported_rule env t x]))))"

section \<open>Profiles\<close>

record StorageProfileRecord =
  pr_ID :: bytes
  pr_Slot :: bytes
  pr_Provider :: bytes
  pr_EngineFlavor :: bytes
  pr_Status :: bytes
  pr_ConfigPayload :: bytes
  pr_DatabaseFingerprint :: bytes
  pr_LastMigratedFromProfileID :: bytes
  pr_CreatedAt :: stamp
  pr_UpdatedAt :: stamp

definition scan_profile :: "profile_row \<Rightarrow> StorageProfileRecord" where
  "scan_profile r =
     \<lparr>pr_ID = sp_id r, pr_Slot = sp_slot r, pr_Provider = sp_provider r,
      pr_EngineFlavor = coalesce (sp_engine_flavor r), pr_Status = sp_status r,
      pr_ConfigPayload = sp_config_payload r, pr_DatabaseFingerprint = sp_fingerprint r,
      pr_LastMigratedFromProfileID = coalesce (sp_last_migrated_from r), pr_CreatedAt = sp_created_at r,
      pr_UpdatedAt = sp_updated_at r\<rparr>"

text \<open>\<open>ENotFound\<close> is \<open>sql.ErrNoRows\<close>.\<close>

definition storageProfile :: "bytes \<Rightarrow> bytes \<Rightarrow> (installation, StorageProfileRecord) io" where
  "storageProfile slot status =
     andThen (query (\<lambda>d. first_row (filter (\<lambda>r. sp_slot r = slot \<and> sp_status r = status) (storage_profiles d))))
       (\<lambda>r. case r of None \<Rightarrow> fail ENotFound | Some row \<Rightarrow> ret (scan_profile row))"

definition CurrentStorageProfile :: "(installation, StorageProfileRecord) io" where
  "CurrentStorageProfile = storageProfile ''current'' ''active''"

definition MigrationStorageProfile :: "(installation, StorageProfileRecord) io" where
  "MigrationStorageProfile = storageProfile ''migration'' ''migration_target''"

definition currentStorageProfile :: "config_env \<Rightarrow> RuntimeConfig \<Rightarrow> instant \<Rightarrow> StorageProfileRecord" where
  "currentStorageProfile env cfg t =
     (let p = StorageProfile env (cfg\<lparr>rc_ExternalDatabase := no_external\<rparr>)
      in \<lparr>pr_ID = storageProfileID env ''current'' (pf_fingerprint p), pr_Slot = ''current'',
          pr_Provider = pf_provider p, pr_EngineFlavor = pf_engineFlavor p, pr_Status = ''active'',
          pr_ConfigPayload = pf_payload p, pr_DatabaseFingerprint = pf_fingerprint p,
          pr_LastMigratedFromProfileID = [], pr_CreatedAt = Trimmed t, pr_UpdatedAt = Trimmed t\<rparr>)"

section \<open>Import\<close>

record ImportResult =
  im_AppliedKeys :: "bytes list"
  im_RestartRequiredKeys :: "bytes list"
  im_IgnoreRules :: "(bytes \<times> bytes \<times> bytes) list"

text \<open>The scope type, the pattern and the origin of the rules; the scope id is empty.\<close>

definition ignoreRules :: "bytes list option \<Rightarrow> (bytes \<times> bytes \<times> bytes) list" where
  "ignoreRules patterns = map (\<lambda>p. (''system'', p, ''config_import'')) (items patterns)"

definition upsert_entries :: "config_env \<Rightarrow> Entry list \<Rightarrow> instant \<Rightarrow> bytes \<Rightarrow> (installation, unit) io" where
  "upsert_entries env es t updatedBy = for_each es (\<lambda>e. upsertConfigEntry env e t updatedBy)"

text \<open>The storage of the configuration is another one than the current: what it has become is recorded.\<close>

definition stage_migration ::
    "config_env \<Rightarrow> storage_profile \<Rightarrow> StorageProfileRecord \<Rightarrow> bool \<Rightarrow> instant \<Rightarrow> bytes \<Rightarrow> (installation, unit) io" where
  "stage_migration env p current bootstrap t updatedBy =
     andThen (lift_result EMessage (storageEntriesFromProfile env (pr_Provider current) (pr_ConfigPayload current))) (\<lambda>es.
     andThen (upsert_entries env es t updatedBy) (\<lambda>_.
     andThen (if bootstrap
              then andThen (upsertStorageProfile env (pr_ID current) ''current'' (pr_Provider current)
                     (pr_EngineFlavor current) (pr_ConfigPayload current) (pr_DatabaseFingerprint current)
                     ''active'' [] t) (\<lambda>i.
                   upsertStorageProviderSettingsForProfile env i (pr_Provider current) t)
              else ret ()) (\<lambda>_.
     andThen (retireMigrationProfiles t) (\<lambda>_.
     andThen (upsertStorageProfile env (storageProfileID env ''migration'' (pf_fingerprint p)) ''migration''
       (pf_provider p) (pf_engineFlavor p) (pf_payload p) (pf_fingerprint p) ''migration_target'' [] t) (\<lambda>i.
       upsertStorageProviderSettingsForProfile env i (pf_provider p) t)))))"

definition keep_storage ::
    "config_env \<Rightarrow> storage_profile \<Rightarrow> StorageProfileRecord option \<Rightarrow> instant \<Rightarrow> (installation, unit) io" where
  "keep_storage env p current t =
     (let i0 = (case current of
                  None \<Rightarrow> storageProfileID env ''current'' (pf_fingerprint p) | Some c \<Rightarrow> pr_ID c)
      in andThen (upsertStorageProfile env i0 ''current'' (pf_provider p) (pf_engineFlavor p) (pf_payload p)
           (pf_fingerprint p) ''active'' [] t) (\<lambda>i.
         upsertStorageProviderSettingsForProfile env i (pf_provider p) t))"

text \<open>The transaction.\<close>

definition import_tx ::
    "config_env \<Rightarrow> Entry list \<Rightarrow> storage_profile \<Rightarrow> StorageProfileRecord option \<Rightarrow>
     StorageProfileRecord option \<Rightarrow> bytes list option \<Rightarrow> instant \<Rightarrow> bytes \<Rightarrow> (installation, unit) io" where
  "import_tx env es p current bootstrap ignore t updatedBy =
     (let changed = (case current of
                       Some c \<Rightarrow> pr_DatabaseFingerprint c \<noteq> pf_fingerprint p | None \<Rightarrow> bootstrap \<noteq> None)
      in andThen (upsert_entries env (filter (\<lambda>e. \<not> (changed \<and> isStorageKey (en_Key e))) es) t updatedBy) (\<lambda>_.
         andThen (case (if changed then (case current of Some c \<Rightarrow> Some c | None \<Rightarrow> bootstrap) else None) of
                    Some c \<Rightarrow> stage_migration env p c (bootstrap \<noteq> None) t updatedBy
                  | None \<Rightarrow> keep_storage env p current t) (\<lambda>_.
           case ignore of None \<Rightarrow> ret () | Some patterns \<Rightarrow> replaceIgnoreRules env patterns t)))"

text \<open>\<open>sql.ErrNoRows\<close> is the one error the code goes on from.\<close>

definition current_or_none :: "(installation, StorageProfileRecord option) io" where
  "current_or_none =
     outcome CurrentStorageProfile (\<lambda>r. case r of
       Inr c \<Rightarrow> ret (Some c) | Inl e \<Rightarrow> if e = ENotFound then ret None else fail e)"

definition Import ::
    "config_env \<Rightarrow> RuntimeConfig \<Rightarrow> bytes list option \<Rightarrow> bytes \<Rightarrow> (installation, ImportResult) io" where
  "Import env cfg ignore updatedBy =
     (case Validate cfg of
        Inl e \<Rightarrow> fail (EMessage e)
      | Inr _ \<Rightarrow>
          (let es = Flatten env cfg; p = StorageProfile env cfg
           in andThen current_or_none (\<lambda>current.
              andThen (if current = None \<and> ed_Enabled (rc_ExternalDatabase cfg)
                       then andThen now (\<lambda>t0. ret (Some (currentStorageProfile env cfg t0)))
                       else ret None) (\<lambda>bootstrap.
              andThen now (\<lambda>t.
              andThen (WithTx (import_tx env es p current bootstrap ignore t updatedBy)) (\<lambda>_.
                ret \<lparr>im_AppliedKeys = reloadableKeys (map en_Key es),
                     im_RestartRequiredKeys = restartRequiredKeys (map en_Key es),
                     im_IgnoreRules = ignoreRules ignore\<rparr>))))))"

section \<open>Reading\<close>

definition system_rows :: "installation \<Rightarrow> config_row list" where
  "system_rows d = filter (\<lambda>r. ce_scope r = ''system'') (config_entries (ins_registry d))"

definition show_row :: "config_env \<Rightarrow> config_row \<Rightarrow> (bytes \<times> json) list \<Rightarrow> (bytes \<times> json) list" where
  "show_row env r out = setNested out (split (ce_key r) (CHR ''.'')) (typedValue env (ce_key r) (ce_value r) (ce_value_type r))"

definition ActiveConfig :: "config_env \<Rightarrow> (installation, (bytes \<times> json) list) io" where
  "ActiveConfig env =
     andThen (query (\<lambda>d. order_asc ce_key (system_rows d))) (\<lambda>rows. ret (fold (show_row env) rows []))"

record RuntimeSettings =
  rn_ListenAddress :: bytes
  rn_Mode :: bytes
  rn_LogLevel :: bytes
  rn_WorkersEnabled :: bool
  rn_EnabledModules :: "bytes list option"
  rn_Loaded :: bool

fun strings_doc :: "raw \<Rightarrow> bytes + bytes list option" where
  "strings_doc (Doc JNull) = Inr None"
| "strings_doc (Doc (JArray xs)) = (case strings_of xs of None \<Rightarrow> Inl mismatch | Some ss \<Rightarrow> Inr (Some ss))"
| "strings_doc (Doc _) = Inl mismatch"
| "strings_doc Blank = Inl ''unexpected end of JSON input''"
| "strings_doc (Malformed m) = Inl m"

fun settings_from :: "config_env \<Rightarrow> config_row list \<Rightarrow> RuntimeSettings \<Rightarrow> bytes + RuntimeSettings" where
  "settings_from env [] s = Inr s"
| "settings_from env (r # rs) s0 =
     (let s = s0\<lparr>rn_Loaded := True\<rparr>; v = ce_value r
      in if ce_key r = ''api.listen_address'' then settings_from env rs (s\<lparr>rn_ListenAddress := v\<rparr>)
         else if ce_key r = ''system_settings.mode'' then settings_from env rs (s\<lparr>rn_Mode := v\<rparr>)
         else if ce_key r = ''logging.level'' then settings_from env rs (s\<lparr>rn_LogLevel := v\<rparr>)
         else if ce_key r = ''workers.enabled'' then settings_from env rs (s\<lparr>rn_WorkersEnabled := (v = ''true'')\<rparr>)
         else if ce_key r = ''modules.enabled''
         then (case strings_doc (cv_parse env v) of
                 Inl e \<Rightarrow> Inl e | Inr ms \<Rightarrow> settings_from env rs (s\<lparr>rn_EnabledModules := ms\<rparr>))
         else settings_from env rs s)"

definition runtime_keys :: "bytes list" where
  "runtime_keys = [''api.listen_address'', ''system_settings.mode'', ''logging.level'', ''workers.enabled'', ''modules.enabled'']"

definition read_runtime_settings :: "config_env \<Rightarrow> (installation, RuntimeSettings) io" where
  "read_runtime_settings env =
     andThen (query (\<lambda>d. filter (\<lambda>r. ce_key r \<in> set runtime_keys) (system_rows d))) (\<lambda>rows.
       lift_result EMessage (settings_from env rows
         \<lparr>rn_ListenAddress = [], rn_Mode = [], rn_LogLevel = [], rn_WorkersEnabled = True,
          rn_EnabledModules = None, rn_Loaded = False\<rparr>))"

record WorkerProviderSettings =
  wp_WorkersConcurrency :: int
  wp_WorkerProcessLimit :: int
  wp_BusyTimeout :: duration
  wp_LeaseDuration :: duration
  wp_HeartbeatInterval :: duration
  wp_SQLiteJournalMode :: bytes
  wp_SQLiteForeignKeys :: bool
  wp_Loaded :: bool

definition defaultWorkerProviderSettings :: "bytes \<Rightarrow> WorkerProviderSettings" where
  "defaultWorkerProviderSettings p =
     (let lite = p = ''sqlite''
      in \<lparr>wp_WorkersConcurrency = (if lite then 1 else 4), wp_WorkerProcessLimit = (if lite then 1 else 4),
          wp_BusyTimeout = 5 * second, wp_LeaseDuration = 30 * second, wp_HeartbeatInterval = 10 * second,
          wp_SQLiteJournalMode = (if lite then ''WAL'' else []), wp_SQLiteForeignKeys = lite, wp_Loaded = False\<rparr>)"

definition duration_column :: "bytes \<Rightarrow> bytes \<Rightarrow> bytes + duration" where
  "duration_column name v =
     (case ParseDuration v of Inl e \<Rightarrow> Inl (''storage_provider_settings.'' @ name @ '': '' @ e) | Inr d \<Rightarrow> Inr d)"

definition scan_settings :: "settings_row \<Rightarrow> bytes + WorkerProviderSettings" where
  "scan_settings r =
     (case duration_column ''busy_timeout'' (st_busy_timeout r) of
        Inl e \<Rightarrow> Inl e
      | Inr busy \<Rightarrow>
          (case duration_column ''lease_duration'' (st_lease_duration r) of
             Inl e \<Rightarrow> Inl e
           | Inr lease \<Rightarrow>
               (case duration_column ''heartbeat_interval'' (st_heartbeat_interval r) of
                  Inl e \<Rightarrow> Inl e
                | Inr heartbeat \<Rightarrow>
                    Inr \<lparr>wp_WorkersConcurrency = st_workers_concurrency r,
                         wp_WorkerProcessLimit = st_worker_process_limit r, wp_BusyTimeout = busy,
                         wp_LeaseDuration = lease, wp_HeartbeatInterval = heartbeat,
                         wp_SQLiteJournalMode = coalesce (st_sqlite_journal_mode r),
                         wp_SQLiteForeignKeys = st_sqlite_foreign_keys r, wp_Loaded = True\<rparr>)))"

definition read_worker_settings :: "bytes \<Rightarrow> bytes \<Rightarrow> (installation, WorkerProviderSettings) io" where
  "read_worker_settings profileID p =
     andThen (query (\<lambda>d. first_row (filter (\<lambda>r. st_storage_profile_id r = profileID \<and> st_provider r = p)
                                            (provider_settings d))))
       (\<lambda>r. case r of None \<Rightarrow> fail ENotFound | Some row \<Rightarrow> lift_result EMessage (scan_settings row))"

definition CurrentWorkerProviderSettings :: "(installation, WorkerProviderSettings) io" where
  "CurrentWorkerProviderSettings =
     andThen provider (\<lambda>p.
       outcome CurrentStorageProfile (\<lambda>r. case r of
         Inl e \<Rightarrow> if e = ENotFound then ret (defaultWorkerProviderSettings p) else fail e
       | Inr profile \<Rightarrow>
           outcome (read_worker_settings (pr_ID profile) p) (\<lambda>r2. case r2 of
             Inl e \<Rightarrow> if e = ENotFound then ret (defaultWorkerProviderSettings p) else fail e
           | Inr s \<Rightarrow> ret s)))"

record ReloadResult =
  rl_AcceptedKeys :: "bytes list"
  rl_AppliedKeys :: "bytes list"
  rl_RestartRequiredKeys :: "bytes list"
  rl_FailedKeys :: "bytes list"

definition configKeys :: "(installation, bytes list) io" where
  "configKeys = query (\<lambda>d. map ce_key (order_asc ce_key (system_rows d)))"

definition ReloadConfig :: "bytes list \<Rightarrow> (installation, ReloadResult) io" where
  "ReloadConfig keys0 =
     andThen (if keys0 = [] then configKeys else ret keys0) (\<lambda>keys.
       if keys0 \<noteq> [] \<and> unknownReloadKeys keys \<noteq> []
       then ret \<lparr>rl_AcceptedKeys = [], rl_AppliedKeys = [], rl_RestartRequiredKeys = restartRequiredKeys keys,
                 rl_FailedKeys = unknownReloadKeys keys\<rparr>
       else ret \<lparr>rl_AcceptedKeys = reloadableKeys keys, rl_AppliedKeys = [],
                 rl_RestartRequiredKeys = restartRequiredKeys keys, rl_FailedKeys = []\<rparr>)"

end
