(* ===== verification/Config_Migration.thy ===== *)
theory Config_Migration
  imports Config_Store
begin

text \<open>
  \<open>MigrateDB\<close> of \<open>internal/config/store.go\<close>: the database of the current profile is copied into the
  one of the migration profile, in one transaction of the target, and the profiles change places. Two
  databases are the state. Opening the target and bringing its schema up to date are the driver's: what
  they return is a parameter. An instant is copied as it is; the text PostgreSQL gives it is not modelled.
\<close>

record migration_state =
  mg_source :: installation
  mg_target :: installation

definition on_source :: "(installation, 'a) io \<Rightarrow> (migration_state, 'a) io" where
  "on_source = zoom mg_source (\<lambda>d s. s\<lparr>mg_source := d\<rparr>)"

text \<open>An operation on the target, whose driver is another one.\<close>

definition on_target :: "bytes \<Rightarrow> (installation, 'a) io \<Rightarrow> (migration_state, 'a) io" where
  "on_target p m = (\<lambda>w.
     case zoom mg_target (\<lambda>d s. s\<lparr>mg_target := d\<rparr>) m (w\<lparr>handle_Provider := p\<rparr>) of
       (r, w') \<Rightarrow> (r, w'\<lparr>handle_Provider := handle_Provider w\<rparr>))"

section \<open>Clearing the target\<close>

definition on_registry_table :: "(registry \<Rightarrow> registry) \<Rightarrow> installation \<Rightarrow> unit \<times> installation" where
  "on_registry_table f d = ((), d\<lparr>ins_registry := f (ins_registry d)\<rparr>)"

definition clearStage02Tables :: "(installation, unit) io" where
  "clearStage02Tables =
     for_each
       [on_ignore (\<lambda>_. []),
        (\<lambda>d. ((), d\<lparr>ins_modules := (ins_modules d)\<lparr>module_table := []\<rparr>\<rparr>)),
        on_settings (\<lambda>_. []), on_profiles (\<lambda>_. []), on_entries (\<lambda>_. [])] iexec"

text \<open>A foreign key declared with \<open>ON DELETE SET NULL\<close> gives way to the deletion, as do the links of a project.\<close>

definition clearStage04Tables :: "(installation, unit) io" where
  "clearStage04Tables =
     for_each
       [on_registry_table (\<lambda>g. g\<lparr>project_links := []\<rparr>),
        on_registry_table (\<lambda>g. g\<lparr>projects := map (\<lambda>r. r\<lparr>pj_default_workspace_id := None\<rparr>) (projects g)\<rparr>),
        (\<lambda>d. ((), d\<lparr>workspaces := []\<rparr>)),
        on_registry_table (\<lambda>g. g\<lparr>projects := []\<rparr>),
        on_registry_table (\<lambda>g. g\<lparr>repositories := []\<rparr>),
        (\<lambda>d. ((), d\<lparr>environments := []\<rparr>)),
        on_registry_table (\<lambda>g. g\<lparr>root_paths := []\<rparr>)] iexec"

section \<open>Copying\<close>

text \<open>A column that is read with \<open>COALESCE\<close> and written with \<open>nullEmpty\<close>.\<close>

definition null_again :: "bytes option \<Rightarrow> bytes option" where
  "null_again x = null_if_empty (coalesce x)"

text \<open>Rows are read from the source in an order and inserted into the target one by one.\<close>

definition copy_table ::
    "bytes \<Rightarrow> (installation \<Rightarrow> 'r list) \<Rightarrow> ('r \<Rightarrow> installation \<Rightarrow> unit \<times> installation) \<Rightarrow> (migration_state, unit) io" where
  "copy_table p rows ins =
     andThen (on_source (query rows)) (\<lambda>rs. for_each rs (\<lambda>r. on_target p (iexec (ins r))))"

definition insertConfigEntry ::
    "config_env \<Rightarrow> bytes \<Rightarrow> Entry \<Rightarrow> bytes \<Rightarrow> int \<Rightarrow> stamp \<Rightarrow> bytes \<Rightarrow> (migration_state, unit) io" where
  "insertConfigEntry env p e scope version updatedAt updatedBy =
     on_target p (iexec (on_entries (\<lambda>rows. rows @ [entry_row env e scope version updatedAt updatedBy])))"

definition row_entry :: "config_row \<Rightarrow> Entry" where
  "row_entry r = \<lparr>en_Key = ce_key r, en_Value = ce_value r, en_ValueType = ce_value_type r\<rparr>"

definition copyConfigEntries ::
    "config_env \<Rightarrow> bytes \<Rightarrow> StorageProfileRecord \<Rightarrow> instant \<Rightarrow> (migration_state, unit) io" where
  "copyConfigEntries env p migration t =
     andThen (on_source (query (\<lambda>d. order_asc (\<lambda>r. (ce_key r, ce_scope r)) (config_entries (ins_registry d))))) (\<lambda>rows.
     andThen (for_each (filter (\<lambda>r. \<not> isStorageKey (ce_key r)) rows) (\<lambda>r.
       insertConfigEntry env p (row_entry r) (ce_scope r) (ce_version r) (ce_updated_at r) (ce_updated_by r))) (\<lambda>_.
     andThen (lift_result EMessage
       (storageEntriesFromProfile env (pr_Provider migration) (pr_ConfigPayload migration))) (\<lambda>es.
       for_each es (\<lambda>e. insertConfigEntry env p e ''system'' 1 (Trimmed t) ''storage_migration''))))"

definition copied_rule :: "ignore_row \<Rightarrow> ignore_row" where
  "copied_rule r = r\<lparr>ig_scope_id := Some (coalesce (ig_scope_id r))\<rparr>"

definition copyIgnoreRules :: "bytes \<Rightarrow> (migration_state, unit) io" where
  "copyIgnoreRules p =
     copy_table p (\<lambda>d. order_asc (\<lambda>r. (ig_sort_order r, ig_id r)) (ignore_rules (ins_registry d)))
       (\<lambda>r. on_ignore (\<lambda>rows. rows @ [copied_rule r]))"

definition copyModuleStates :: "bytes \<Rightarrow> (migration_state, unit) io" where
  "copyModuleStates p =
     copy_table p (\<lambda>d. order_asc mr_id (module_table (ins_modules d)))
       (\<lambda>r d. ((), d\<lparr>ins_modules := (ins_modules d)\<lparr>module_table := module_table (ins_modules d) @ [r]\<rparr>\<rparr>))"

definition copied_root :: "root_path_row \<Rightarrow> root_path_row" where
  "copied_root r = r\<lparr>rp_schedule_frequency := null_again (rp_schedule_frequency r)\<rparr>"

definition copyRootPaths :: "bytes \<Rightarrow> (migration_state, unit) io" where
  "copyRootPaths p =
     copy_table p (\<lambda>d. order_asc rp_id (root_paths (ins_registry d)))
       (\<lambda>r. on_registry_table (\<lambda>g. g\<lparr>root_paths := root_paths g @ [copied_root r]\<rparr>))"

definition copied_environment :: "environment_row \<Rightarrow> environment_row" where
  "copied_environment r = r\<lparr>nv_description := null_again (nv_description r)\<rparr>"

definition copyEnvironments :: "bytes \<Rightarrow> (migration_state, unit) io" where
  "copyEnvironments p =
     copy_table p (\<lambda>d. order_asc nv_id (environments d))
       (\<lambda>r d. ((), d\<lparr>environments := environments d @ [copied_environment r]\<rparr>))"

definition copied_repository :: "repository_row \<Rightarrow> repository_row" where
  "copied_repository r =
     r\<lparr>rr_provider_instance_id := null_again (rr_provider_instance_id r),
       rr_clone_url := null_again (rr_clone_url r), rr_default_branch := null_again (rr_default_branch r),
       rr_root_path_id := null_again (rr_root_path_id r),
       rr_target_directory := null_again (rr_target_directory r), rr_local_path := null_again (rr_local_path r),
       rr_auth_type := null_again (rr_auth_type r),
       rr_default_credential_id := null_again (rr_default_credential_id r),
       rr_superseded_by := null_again (rr_superseded_by r), rr_poll_interval := null_again (rr_poll_interval r),
       rr_last_error := null_again (rr_last_error r)\<rparr>"

definition copyRepositories :: "bytes \<Rightarrow> (migration_state, unit) io" where
  "copyRepositories p =
     copy_table p (\<lambda>d. order_asc rr_id (repositories (ins_registry d)))
       (\<lambda>r. on_registry_table (\<lambda>g. g\<lparr>repositories := repositories g @ [copied_repository r]\<rparr>))"

definition copied_project :: "project_row \<Rightarrow> project_row" where
  "copied_project r =
     r\<lparr>pj_repository_id := null_again (pj_repository_id r), pj_environment_id := null_again (pj_environment_id r),
       pj_default_workspace_id := None\<rparr>"

text \<open>The projects go without their default workspaces, which do not exist yet; what they are is returned.\<close>

definition copyProjects :: "bytes \<Rightarrow> (migration_state, (bytes \<times> bytes) list) io" where
  "copyProjects p =
     andThen (on_source (query (\<lambda>d. order_asc pj_id (projects (ins_registry d))))) (\<lambda>rows.
     andThen (for_each rows (\<lambda>r. on_target p (iexec (on_registry_table
         (\<lambda>g. g\<lparr>projects := projects g @ [copied_project r]\<rparr>))))) (\<lambda>_.
       ret (map (\<lambda>r. (pj_id r, coalesce (pj_default_workspace_id r)))
              (filter (\<lambda>r. \<not> blank (coalesce (pj_default_workspace_id r))) rows))))"

definition copyWorkspaces :: "bytes \<Rightarrow> (migration_state, unit) io" where
  "copyWorkspaces p =
     copy_table p (\<lambda>d. order_asc ws_id (workspaces d)) (\<lambda>r d. ((), d\<lparr>workspaces := workspaces d @ [r]\<rparr>))"

definition set_default_workspace :: "bytes \<times> bytes \<Rightarrow> installation \<Rightarrow> unit \<times> installation" where
  "set_default_workspace = (\<lambda>(project, workspace). on_registry_table (\<lambda>g.
     g\<lparr>projects := update_where (\<lambda>r. pj_id r = project)
        (\<lambda>r. r\<lparr>pj_default_workspace_id := Some workspace\<rparr>) (projects g)\<rparr>))"

text \<open>Go walks the map of defaults in any order; the projects are distinct, so the order of the rows stands for all.\<close>

definition updateProjectDefaultWorkspaces :: "bytes \<Rightarrow> (bytes \<times> bytes) list \<Rightarrow> (migration_state, unit) io" where
  "updateProjectDefaultWorkspaces p defaults =
     for_each defaults (\<lambda>x. on_target p (iexec (set_default_workspace x)))"

definition copied_link :: "link_row \<Rightarrow> link_row" where
  "copied_link r = r\<lparr>pl_repository_id := null_again (pl_repository_id r), pl_detected_by_job_id := None\<rparr>"

definition copyProjectLinks :: "bytes \<Rightarrow> (migration_state, unit) io" where
  "copyProjectLinks p =
     copy_table p (\<lambda>d. order_asc pl_id (project_links (ins_registry d)))
       (\<lambda>r. on_registry_table (\<lambda>g. g\<lparr>project_links := project_links g @ [copied_link r]\<rparr>))"

definition copyStage04ScannerData :: "bytes \<Rightarrow> (migration_state, unit) io" where
  "copyStage04ScannerData p =
     andThen (copyRootPaths p) (\<lambda>_.
     andThen (copyEnvironments p) (\<lambda>_.
     andThen (copyRepositories p) (\<lambda>_.
     andThen (copyProjects p) (\<lambda>defaults.
     andThen (copyWorkspaces p) (\<lambda>_.
     andThen (updateProjectDefaultWorkspaces p defaults) (\<lambda>_.
       copyProjectLinks p))))))"

definition insertProfile ::
    "bytes \<Rightarrow> bytes \<Rightarrow> bytes \<Rightarrow> bytes \<Rightarrow> bytes \<Rightarrow> StorageProfileRecord \<Rightarrow> bytes \<Rightarrow> instant \<Rightarrow> (migration_state, unit) io" where
  "insertProfile p i slot status lastMigratedFrom profile flavor t =
     on_target p (iexec (on_profiles (\<lambda>rows. rows @
       [\<lparr>sp_id = i, sp_slot = slot, sp_provider = pr_Provider profile, sp_engine_flavor = null_if_empty flavor,
         sp_status = status, sp_config_payload = pr_ConfigPayload profile,
         sp_fingerprint = pr_DatabaseFingerprint profile,
         sp_last_migrated_from = null_if_empty lastMigratedFrom, sp_created_at = Trimmed t,
         sp_updated_at = Trimmed t\<rparr>])))"

definition insertHistoricalProfile ::
    "config_env \<Rightarrow> bytes \<Rightarrow> StorageProfileRecord \<Rightarrow> instant \<Rightarrow> (migration_state, unit) io" where
  "insertHistoricalProfile env p current t =
     insertProfile p (stableID env [''storage-profile'', ''historical'', pr_ID current, formatTimeNano t])
       ''historical'' ''superseded'' [] current (pr_EngineFlavor current) t"

definition copy_tx ::
    "config_env \<Rightarrow> bytes \<Rightarrow> StorageProfileRecord \<Rightarrow> StorageProfileRecord \<Rightarrow> instant \<Rightarrow> (migration_state, unit) io" where
  "copy_tx env p current migration t =
     andThen (on_target p clearStage02Tables) (\<lambda>_.
     andThen (on_target p clearStage04Tables) (\<lambda>_.
     andThen (copyConfigEntries env p migration t) (\<lambda>_.
     andThen (copyIgnoreRules p) (\<lambda>_.
     andThen (copyModuleStates p) (\<lambda>_.
     andThen (copyStage04ScannerData p) (\<lambda>_.
     andThen (insertHistoricalProfile env p current t) (\<lambda>_.
     andThen (insertProfile p (pr_ID migration) ''current'' ''active'' (pr_ID current) migration
       (pr_EngineFlavor migration) t) (\<lambda>_.
       on_target p (upsertStorageProviderSettingsForProfile env (pr_ID migration) (pr_Provider migration) t)))))))))"

definition copyMigratedData ::
    "config_env \<Rightarrow> bytes \<Rightarrow> StorageProfileRecord \<Rightarrow> StorageProfileRecord \<Rightarrow> (migration_state, unit) io" where
  "copyMigratedData env p current migration =
     andThen now (\<lambda>t. WithTx (copy_tx env p current migration t))"

section \<open>The migration\<close>

definition markMigrationFailed :: "bytes \<Rightarrow> (installation, unit) io" where
  "markMigrationFailed i =
     andThen now (\<lambda>t. iexec (on_profiles (update_where (\<lambda>r. sp_id r = i)
       (\<lambda>r. r\<lparr>sp_status := ''migration_failed'', sp_updated_at := Trimmed t\<rparr>))))"

definition promote :: "bytes \<Rightarrow> instant \<Rightarrow> profile_row \<Rightarrow> profile_row" where
  "promote currentID t r =
     r\<lparr>sp_slot := ''current'', sp_status := ''active'', sp_last_migrated_from := Some currentID,
       sp_updated_at := Trimmed t\<rparr>"

definition promoteMigrationProfile :: "bytes \<Rightarrow> bytes \<Rightarrow> (installation, unit) io" where
  "promoteMigrationProfile currentID migrationID =
     andThen now (\<lambda>t. WithTx
       (andThen (iexec (on_profiles (update_where (\<lambda>r. sp_id r = currentID) (retire t)))) (\<lambda>_.
         iexec (on_profiles (update_where (\<lambda>r. sp_id r = migrationID) (promote currentID t))))))"

record backend =
  bk_Open :: "storage_config \<Rightarrow> bytes + bytes \<times> bytes"
  bk_Migrate :: "bytes option"

datatype migration_result =
    NoMigrationTarget
  | MigrationSucceeded bytes bytes

text \<open>What follows once both profiles are known; every failure before the promotion marks the migration.\<close>

definition migrate_to ::
    "config_env \<Rightarrow> backend \<Rightarrow> StorageProfileRecord \<Rightarrow> StorageProfileRecord \<Rightarrow> (migration_state, migration_result) io" where
  "migrate_to env bk current migration =
     (let failed = (\<lambda>e. andThen (ignoring (on_source (markMigrationFailed (pr_ID migration)))) (\<lambda>_. fail e))
      in case StorageConfig env (pr_Provider migration) (pr_ConfigPayload migration) of
           Inl e \<Rightarrow> failed (EMessage e)
         | Inr cfg \<Rightarrow>
             (case bk_Open bk cfg of
                Inl e \<Rightarrow> failed (EMessage e)
              | Inr (p, fingerprint) \<Rightarrow>
                  (case bk_Migrate bk of
                     Some e \<Rightarrow> failed (EMessage e)
                   | None \<Rightarrow>
                       if fingerprint \<noteq> pr_DatabaseFingerprint migration
                       then failed (EMessage ''migration target fingerprint mismatch'')
                       else
                         outcome (copyMigratedData env p current migration) (\<lambda>r. case r of
                           Inl e \<Rightarrow> failed e
                         | Inr _ \<Rightarrow>
                             andThen (on_source (promoteMigrationProfile (pr_ID current) (pr_ID migration))) (\<lambda>_.
                               ret (MigrationSucceeded (pr_ID current) (pr_ID migration)))))))"

definition MigrateDB :: "config_env \<Rightarrow> backend \<Rightarrow> (migration_state, migration_result) io" where
  "MigrateDB env bk =
     andThen (on_source CurrentStorageProfile) (\<lambda>current.
     outcome (on_source MigrationStorageProfile) (\<lambda>r. case r of
       Inl e \<Rightarrow> if e = ENotFound then ret NoMigrationTarget else fail e
     | Inr migration \<Rightarrow> migrate_to env bk current migration))"

end
