(* ===== verification/Config_Facts.thy ===== *)
theory Config_Facts
  imports Config_Store Job_Runs "HOL-Library.Sublist"
begin

text \<open>
  What an import leaves in the database and what reads of it see: the configuration, entry by entry, in
  the nested form with the secrets masked, by the scanner and by the runtime; and what becomes of the
  storage profiles.
\<close>

section \<open>Nested maps\<close>

fun lookup_path :: "(bytes \<times> json) list \<Rightarrow> bytes list \<Rightarrow> json option" where
  "lookup_path kvs [] = None"
| "lookup_path kvs [p] = map_of kvs p"
| "lookup_path kvs (p # q # ps) =
     (case map_of kvs p of Some (JObject inner) \<Rightarrow> lookup_path inner (q # ps) | _ \<Rightarrow> None)"

definition apart :: "bytes list \<Rightarrow> bytes list \<Rightarrow> bool" where
  "apart ps qs \<longleftrightarrow> \<not> prefix ps qs \<and> \<not> prefix qs ps"

lemma map_of_set_member: "map_of (set_member k v kvs) = (map_of kvs)(k \<mapsto> v)"
  by (induction k v kvs rule: set_member.induct) auto

lemma lookup_setNested_same: "ps \<noteq> [] \<Longrightarrow> lookup_path (setNested kvs ps v) ps = Some v"
  by (induction kvs ps v rule: setNested.induct) (simp_all add: map_of_set_member)

lemma lookup_setNested_other: "apart ps qs \<Longrightarrow> lookup_path (setNested kvs ps v) qs = lookup_path kvs qs"
proof (induction kvs ps v arbitrary: qs rule: setNested.induct)
  case (1 rt v)
  then show ?case by (simp add: apart_def)
next
  case (2 rt p v)
  then show ?case by (cases "(rt, qs)" rule: lookup_path.cases) (auto simp: apart_def map_of_set_member)
next
  case (3 rt p q ps v)
  show ?case
  proof (cases "(rt, qs)" rule: lookup_path.cases)
    case (3 kvs p' q' ps')
    show ?thesis
    proof (cases "p' = p")
      case True
      with 3 "3.prems" have "apart (q # ps) (q' # ps')" by (simp add: apart_def)
      from "3.IH" [OF this] 3 True show ?thesis
        by (auto simp: map_of_set_member split: option.split json.split)
          (cases ps'; simp)+
    qed (use 3 in \<open>simp add: map_of_set_member\<close>)
  qed (use "3.prems" in \<open>auto simp: apart_def map_of_set_member\<close>)
qed

lemma fold_setNested:
  assumes "sorted_wrt (\<lambda>r s. apart (path r) (path s)) rows" and "r \<in> set rows" and "path r \<noteq> []"
  shows "lookup_path (fold (\<lambda>r out. setNested out (path r) (val r)) rows out) (path r) = Some (val r)"
  using assms
proof (induction rows arbitrary: out)
  case (Cons s rows)
  have keep: "lookup_path (fold (\<lambda>r out. setNested out (path r) (val r)) rows out') (path s) = lookup_path out' (path s)"
    if "\<forall>x \<in> set rows. apart (path s) (path x)" for out' rows
    using that by (induction rows arbitrary: out') (simp_all add: lookup_setNested_other apart_def)
  show ?case
  proof (cases "r = s")
    case True
    with Cons.prems keep [of rows] show ?thesis by (simp add: lookup_setNested_same)
  next
    case False
    with Cons show ?thesis by simp
  qed
qed simp

section \<open>Decimals\<close>

lemma digits_of_chars: "set (digits_of n) \<subseteq> set ''0123456789''"
proof (induction n rule: digits_of.induct)
  case (1 n)
  have "char_of (48 + d) \<in> set ''0123456789''" if "d < 10" for d :: nat
  proof -
    from that have "d = 0 \<or> d = 1 \<or> d = 2 \<or> d = 3 \<or> d = 4 \<or> d = 5 \<or> d = 6 \<or> d = 7 \<or> d = 8 \<or> d = 9"
      by presburger
    then show ?thesis by (elim disjE) (simp_all add: char_of_def bit_0)
  qed
  then have "char_of (48 + n mod 10) \<in> set ''0123456789''" "n < 10 \<Longrightarrow> char_of (48 + n) \<in> set ''0123456789''"
    by simp_all
  with 1 show ?case by (subst digits_of.simps) auto
qed

lemma digits_of_nonempty: "digits_of n \<noteq> []"
  by (subst digits_of.simps) simp

lemma digits_value_snoc: "digits_value (s @ [c]) = 10 * digits_value s + int (of_char c) - 48"
  by (simp add: digits_value_def)

lemma digits_value_digits_of: "digits_value (digits_of n) = int n"
proof (induction n rule: digits_of.induct)
  case (1 n)
  have "digits_value (digits_of (n div 10) @ [char_of (48 + n mod 10)]) = int n" if "\<not> n < 10"
    using 1 [OF that] by (simp add: digits_value_snoc of_char_of take_bit_eq_mod) presburger
  moreover have "digits_value [char_of (48 + n)] = int n" if "n < 10"
    using that digits_value_snoc [of "[]"] by (simp add: digits_value_def of_char_of take_bit_eq_mod)
  ultimately show ?case by (subst digits_of.simps) simp
qed

lemma strip_one_None: "\<forall>e \<in> set es. e = [] \<or> hd e \<noteq> c \<Longrightarrow> strip_one es (c # s) = None"
  by (induction es) (auto simp: has_prefix_iff Cons_eq_append_conv)

lemma trim_number:
  assumes "c \<in> set ''-0123456789''"
  shows "trim_left_enc (filter (\<lambda>e. e \<noteq> ''\<newline>'') space_encodings) (c # s) = c # s"
    and "trim_left_enc space_encodings (c # s) = c # s"
proof -
  have "\<forall>c \<in> set ''-0123456789''. \<forall>e \<in> set space_encodings. e = [] \<or> hd e \<noteq> c" by code_simp
  from bspec [OF this assms] have "\<forall>e \<in> set space_encodings. e = [] \<or> hd e \<noteq> c" .
  then show "trim_left_enc (filter (\<lambda>e. e \<noteq> ''\<newline>'') space_encodings) (c # s) = c # s"
    and "trim_left_enc space_encodings (c # s) = c # s"
    by (simp_all add: trim_left_enc.simps strip_one_None)
qed

lemma digit_chars: "c \<in> set ''0123456789'' \<Longrightarrow> digit c \<and> is_digit c \<and> c \<noteq> CHR ''-'' \<and> c \<noteq> CHR ''+'' \<and> c \<noteq> CHR ''_''"
proof -
  have "\<forall>c \<in> set ''0123456789''. digit c \<and> is_digit c \<and> c \<noteq> CHR ''-'' \<and> c \<noteq> CHR ''+'' \<and> c \<noteq> CHR ''_''"
    by code_simp
  then show "c \<in> set ''0123456789'' \<Longrightarrow> ?thesis" by (rule bspec)
qed

lemma takeWhile_digits: "takeWhile (\<lambda>c. digit c \<or> c = CHR ''_'') (digits_of n) = digits_of n"
  unfolding takeWhile_eq_all_conv
  by (intro ballI disjI1 conjunct1 [OF digit_chars [OF subsetD [OF digits_of_chars]]])

lemma scan_decimal_decimal:
  assumes "- (2 ^ 63) \<le> n" and "n < 2 ^ 63"
  shows "scan_decimal (decimal n) = n"
proof -
  let ?ds = "digits_of (nat (abs n))"
  obtain c s where ds: "?ds = c # s" using digits_of_nonempty by (cases ?ds) auto
  with digits_of_chars [of "nat (abs n)"] have c: "c \<in> set ''0123456789''" by auto
  from digit_chars [OF c] have sign: "\<not> has_prefix ?ds ''-''" "\<not> has_prefix ?ds ''+''"
    by (simp_all add: ds has_prefix_def)
  have us: "CHR ''_'' \<notin> set ?ds" using digits_of_chars [of "nat (abs n)"] by auto
  have val: "digits_value ?ds = abs n" by (simp add: digits_value_digits_of)
  show ?thesis
  proof (cases "n < 0")
    case True
    then show ?thesis
      using assms us val digits_of_nonempty [of "nat (abs n)"]
      by (simp add: takeWhile_digits scan_decimal_def decimal_def trim_number Let_def has_prefix_def)
  next
    case False
    have trim: "trim_left_enc (filter (\<lambda>e. e \<noteq> ''\<newline>'') space_encodings) ?ds = ?ds"
      unfolding ds by (rule trim_number(1)) (use c in auto)
    then have "trim_left_enc (filter (\<lambda>e. e \<noteq> ''\<newline>'') space_encodings) (digits_of (nat n)) = digits_of (nat n)"
      using False by simp
    with False show ?thesis
      using assms us val sign digits_of_nonempty [of "nat (abs n)"]
      by (simp add: takeWhile_digits scan_decimal_def decimal_def Let_def)
  qed
qed

section \<open>The entries an import writes\<close>

lemma exec_thenE:
  assumes "andThen (exec chk st) f w = (Inr y, w')"
  obtains w1 where "chk (db w1) = None" and "db w1 = snd (st (db w))"
    and "handle_Provider w1 = handle_Provider w" and "f (fst (st (db w))) w1 = (Inr y, w')"
  using assms that [of "(step_tick w)\<lparr>db := snd (st (db w))\<rparr>"]
  by (auto simp: andThen_Inr_iff exec_Inr_iff)

lemma now_InrE:
  assumes "now w = (Inr t, w')"
  obtains "db w' = db w"
  using assms by (auto simp: now_def)

lemma WithTx_InrE:
  assumes "WithTx m w = (Inr x, w')"
  obtains w1 w2 where "db w1 = db w" and "m w1 = (Inr x, w2)" and "db w' = db w2"
  using assms that [of "step_tick w"] by (auto simp: WithTx_Inr_iff)

lemma for_each_exec:
  "for_each xs (\<lambda>x. exec chk (st x)) w = (Inr u, w') \<Longrightarrow>
     db w' = fold (\<lambda>x d. snd (st x d)) xs (db w) \<and> (xs = [] \<or> chk (db w') = None)"
proof (induction xs arbitrary: w)
  case (Cons x xs)
  from Cons.prems obtain w1 where w1: "chk (db w1) = None" "db w1 = snd (st x (db w))"
    "for_each xs (\<lambda>x. exec chk (st x)) w1 = (Inr u, w')"
    unfolding for_each.simps by (elim exec_thenE)
  with Cons.IH [OF w1(3)] show ?case by (cases xs) auto
qed simp

definition entry_map :: "config_row list \<Rightarrow> bytes \<Rightarrow> (bytes \<times> bytes) option" where
  "entry_map rows = map_of (map (\<lambda>r. (ce_key r, ce_value r, ce_value_type r))
     (filter (\<lambda>r. ce_scope r = ''system'') rows))"

lemma dom_entry_map: "dom (entry_map rows) = ce_key ` set (filter (\<lambda>r. ce_scope r = ''system'') rows)"
  by (auto simp: entry_map_def dom_map_of_conv_image_fst image_image)

lemma entry_map_append: "entry_map (xs @ ys) = entry_map ys ++ entry_map xs"
  by (simp add: entry_map_def)

lemma entry_map_put:
  "entry_map (put_entry env e t updatedBy rows) = (entry_map rows)(en_Key e \<mapsto> (en_Value e, en_ValueType e))"
proof (cases "list_ex (\<lambda>r. ce_key r = en_Key e \<and> ce_scope r = ''system'') rows")
  case True
  let ?new = "\<lambda>r. r\<lparr>ce_value := en_Value e, ce_value_type := en_ValueType e,
      ce_version := ce_version r + 1, ce_updated_at := Trimmed t, ce_updated_by := updatedBy\<rparr>"
  have "entry_map (update_where (\<lambda>r. ce_key r = en_Key e \<and> ce_scope r = ''system'') ?new rows) k =
      (if k = en_Key e \<and> entry_map rows k \<noteq> None then Some (en_Value e, en_ValueType e) else entry_map rows k)" for k
    by (induction rows) (auto simp: entry_map_def)
  moreover have "en_Key e \<in> dom (entry_map rows)"
  proof -
    from True obtain r where "r \<in> {r \<in> set rows. ce_scope r = ''system''}" "en_Key e = ce_key r"
      by (auto simp: list_ex_iff)
    then show ?thesis unfolding dom_entry_map by (simp only: set_filter imageI)
  qed
  ultimately show ?thesis using True by (auto simp: put_entry_def)
next
  case False
  then have "entry_map rows (en_Key e) = None"
    by (auto simp: entry_map_def map_of_eq_None_iff list_ex_iff)
  moreover have "entry_map [entry_row env e ''system'' 1 (Trimmed t) updatedBy] = [en_Key e \<mapsto> (en_Value e, en_ValueType e)]"
    by (simp add: entry_map_def entry_row_def)
  ultimately show ?thesis using False
    by (auto simp: put_entry_def Let_def entry_map_append map_add_def fun_eq_iff split: option.split)
qed

lemma entry_map_fold:
  "entry_map (fold (\<lambda>e. put_entry env e t updatedBy) es rows) =
     entry_map rows ++ map_of (rev (map (\<lambda>e. (en_Key e, en_Value e, en_ValueType e)) es))"
  by (induction es arbitrary: rows) (simp_all add: entry_map_put map_add_upd_left map_add_def fun_eq_iff split: option.split)

lemma put_entry_keys:
  "ce_key ` set (filter (\<lambda>r. ce_scope r = ''system'') (put_entry env e t updatedBy rows)) =
     insert (en_Key e) (ce_key ` set (filter (\<lambda>r. ce_scope r = ''system'') rows))"
  unfolding dom_entry_map [symmetric] by (simp add: entry_map_put)

lemma fold_put_keys:
  "ce_key ` set (filter (\<lambda>r. ce_scope r = ''system'') (fold (\<lambda>e. put_entry env e t updatedBy) es rows)) =
     en_Key ` set es \<union> ce_key ` set (filter (\<lambda>r. ce_scope r = ''system'') rows)"
  by (induction es arbitrary: rows) (simp_all add: put_entry_keys [unfolded set_filter] del: set_filter, simp_all add: put_entry_keys [unfolded set_filter])

lemma upsert_entries_Inr:
  assumes "upsert_entries env es t updatedBy w = (Inr u, w')"
  shows "db w' = snd (on_entries (fold (\<lambda>e. put_entry env e t updatedBy) es) (db w))"
proof -
  have "fold (\<lambda>e d. snd (on_entries (put_entry env e t updatedBy) d)) es d =
      snd (on_entries (fold (\<lambda>e. put_entry env e t updatedBy) es) d)" for d
    by (induction es arbitrary: d) (simp_all add: on_entries_def)
  with for_each_exec [of es installation_violation "\<lambda>e. on_entries (put_entry env e t updatedBy)" w u w'] assms
  show ?thesis by (simp add: upsert_entries_def upsertConfigEntry_def)
qed

lemma replaceIgnoreRules_Inr:
  assumes "replaceIgnoreRules env patterns t w = (Inr u, w')"
  shows "db w' = snd (on_ignore (\<lambda>rows. delete_where (\<lambda>r. ig_scope_type r = ''system'' \<and> ig_origin r = ''config_import'') rows
      @ map (imported_rule env t) (enumerate 0 patterns)) (db w)) \<and> installation_ok (db w')"
proof -
  have fold_rules: "fold (\<lambda>x d. snd (on_ignore (\<lambda>rows. rows @ [imported_rule env t x]) d)) xs d =
      snd (on_ignore (\<lambda>rows. rows @ map (imported_rule env t) xs) d)" for xs d
    by (induction xs arbitrary: d) (simp_all add: on_ignore_def)
  from assms obtain w1 where w1: "installation_ok (db w1)"
      "db w1 = snd (on_ignore (delete_where (\<lambda>r. ig_scope_type r = ''system'' \<and> ig_origin r = ''config_import'')) (db w))"
      "for_each (enumerate 0 patterns) (\<lambda>x. iexec (on_ignore (\<lambda>rows. rows @ [imported_rule env t x]))) w1 = (Inr u, w')"
    unfolding replaceIgnoreRules_def by (elim exec_thenE)
  from for_each_exec [OF w1(3)] have
    "db w' = snd (on_ignore (\<lambda>rows. rows @ map (imported_rule env t) (enumerate 0 patterns)) (db w1))"
    by (simp only: fold_rules)
  moreover from for_each_exec [OF w1(3)] w1(1) have "installation_ok (db w')" by (cases patterns) auto
  ultimately show ?thesis by (simp add: w1(2) on_ignore_def)
qed

section \<open>What an import does\<close>

definition current_of :: "installation \<Rightarrow> StorageProfileRecord option" where
  "current_of d = map_option scan_profile (first_row
     (filter (\<lambda>r. sp_slot r = ''current'' \<and> sp_status r = ''active'') (storage_profiles d)))"

definition storage_changed :: "config_env \<Rightarrow> RuntimeConfig \<Rightarrow> installation \<Rightarrow> bool" where
  "storage_changed env cfg d \<longleftrightarrow>
     (case current_of d of
        Some c \<Rightarrow> pr_DatabaseFingerprint c \<noteq> pf_fingerprint (StorageProfile env cfg)
      | None \<Rightarrow> ed_Enabled (rc_ExternalDatabase cfg))"

definition profile_for :: "bytes \<Rightarrow> bytes \<Rightarrow> bytes \<Rightarrow> storage_profile \<Rightarrow> instant \<Rightarrow> profile_row" where
  "profile_for i slot status p t =
     \<lparr>sp_id = i, sp_slot = slot, sp_provider = pf_provider p, sp_engine_flavor = null_if_empty (pf_engineFlavor p),
      sp_status = status, sp_config_payload = pf_payload p, sp_fingerprint = pf_fingerprint p,
      sp_last_migrated_from = None, sp_created_at = Trimmed t, sp_updated_at = Trimmed t\<rparr>"

lemma storageProfileID_nonempty: "storageProfileID env slot fp \<noteq> []"
  by (simp add: storageProfileID_def stableID_def)

lemma current_or_none_Inr:
  "current_or_none w = (Inr c, w') \<Longrightarrow> c = current_of (db w) \<and> db w' = db w"
  by (auto simp: current_or_none_def CurrentStorageProfile_def storageProfile_def current_of_def outcome_def
      andThen_def query_def fault_error_def split: option.splits sum.splits if_splits prod.splits)

lemma upsertStorageProfile_Inr:
  assumes "upsertStorageProfile env i slot (pf_provider p) (pf_engineFlavor p) (pf_payload p) (pf_fingerprint p)
      status [] t w = (Inr i', w')"
  shows "i' = (if i = [] then storageProfileID env slot (pf_fingerprint p) else i) \<and>
    db w' = (db w)\<lparr>storage_profiles := put_profile (profile_for i' slot status p t) (storage_profiles (db w))\<rparr>"
  using assms unfolding upsertStorageProfile_def Let_def
  by (elim exec_thenE) (auto simp: on_profiles_def profile_for_def null_if_empty_def)

lemma upsertSettings_Inr:
  assumes "upsertStorageProviderSettingsForProfile env i p t w = (Inr u, w')"
  shows "db w' = (db w)\<lparr>provider_settings := put_settings (settings_for env i p t) (provider_settings (db w))\<rparr> \<and>
    installation_ok (db w')"
  using assms by (auto simp: upsertStorageProviderSettingsForProfile_def exec_Inr_iff on_settings_def)

lemma keep_storage_Inr:
  assumes "keep_storage env p current t w = (Inr u, w')"
  shows "\<exists>i ss. db w' = (db w)\<lparr>storage_profiles := put_profile (profile_for i ''current'' ''active'' p t) (storage_profiles (db w)),
      provider_settings := ss\<rparr> \<and> installation_ok (db w')"
proof -
  from assms obtain i w1 where
    "upsertStorageProfile env (case current of None \<Rightarrow> storageProfileID env ''current'' (pf_fingerprint p) | Some c \<Rightarrow> pr_ID c)
       ''current'' (pf_provider p) (pf_engineFlavor p) (pf_payload p) (pf_fingerprint p) ''active'' [] t w = (Inr i, w1)"
    "upsertStorageProviderSettingsForProfile env i (pf_provider p) t w1 = (Inr u, w')"
    unfolding keep_storage_def Let_def by (elim andThen_InrE)
  with upsertStorageProfile_Inr [OF this(1)] upsertSettings_Inr [OF this(2)] show ?thesis by auto
qed

definition with_current :: "config_env \<Rightarrow> StorageProfileRecord \<Rightarrow> instant \<Rightarrow> profile_row list \<Rightarrow> profile_row list" where
  "with_current env c t = put_profile (profile_for
     (if pr_ID c = [] then storageProfileID env ''current'' (pr_DatabaseFingerprint c) else pr_ID c)
     ''current'' ''active''
     \<lparr>pf_provider = pr_Provider c, pf_engineFlavor = pr_EngineFlavor c, pf_payload = pr_ConfigPayload c,
      pf_fingerprint = pr_DatabaseFingerprint c\<rparr> t)"

text \<open>The profiles after a migration target has been staged.\<close>

definition staged ::
    "config_env \<Rightarrow> storage_profile \<Rightarrow> StorageProfileRecord \<Rightarrow> bool \<Rightarrow> instant \<Rightarrow> profile_row list \<Rightarrow> profile_row list" where
  "staged env p c bootstrap t rows =
     put_profile (profile_for (storageProfileID env ''migration'' (pf_fingerprint p)) ''migration'' ''migration_target'' p t)
       (update_where (\<lambda>r. sp_slot r = ''migration'') (retire t)
         (if bootstrap then with_current env c t rows else rows))"

lemma stage_migration_Inr:
  assumes "stage_migration env p c bootstrap t updatedBy w = (Inr u, w')"
  shows "\<exists>es ss. storageEntriesFromProfile env (pr_Provider c) (pr_ConfigPayload c) = Inr es \<and>
    db w' = (snd (on_entries (fold (\<lambda>e. put_entry env e t updatedBy) es) (db w)))
      \<lparr>storage_profiles := staged env p c bootstrap t (storage_profiles (db w)), provider_settings := ss\<rparr> \<and>
    installation_ok (db w')"
proof -
  let ?mid = "storageProfileID env ''migration'' (pf_fingerprint p)"
  let ?boot = "if bootstrap
      then andThen (upsertStorageProfile env (pr_ID c) ''current'' (pr_Provider c) (pr_EngineFlavor c)
             (pr_ConfigPayload c) (pr_DatabaseFingerprint c) ''active'' [] t)
           (\<lambda>i. upsertStorageProviderSettingsForProfile env i (pr_Provider c) t)
      else ret ()"
  from assms obtain es w1 w2 w3 i w4 where
    es: "storageEntriesFromProfile env (pr_Provider c) (pr_ConfigPayload c) = Inr es" and
    1: "upsert_entries env es t updatedBy w = (Inr (), w1)" and
    2: "?boot w1 = (Inr (), w2)" and
    3: "retireMigrationProfiles t w2 = (Inr (), w3)" and
    4: "upsertStorageProfile env ?mid ''migration'' (pf_provider p) (pf_engineFlavor p) (pf_payload p)
       (pf_fingerprint p) ''migration_target'' [] t w3 = (Inr i, w4)" and
    5: "upsertStorageProviderSettingsForProfile env i (pf_provider p) t w4 = (Inr u, w')"
    unfolding stage_migration_def by (auto simp: andThen_Inr_iff lift_result_Inr_iff simp del: ret_iff)
  have "\<exists>ss. db w2 = (db w1)\<lparr>storage_profiles :=
      (if bootstrap then with_current env c t (storage_profiles (db w1)) else storage_profiles (db w1)),
      provider_settings := ss\<rparr>"
  proof (cases bootstrap)
    case True
    with 2 obtain j w1' where
      "upsertStorageProfile env (pr_ID c) ''current'' (pr_Provider c) (pr_EngineFlavor c)
         (pr_ConfigPayload c) (pr_DatabaseFingerprint c) ''active'' [] t w1 = (Inr j, w1')"
      "upsertStorageProviderSettingsForProfile env j (pr_Provider c) t w1' = (Inr (), w2)"
      by (auto simp: andThen_Inr_iff)
    with upsertStorageProfile_Inr [of env "pr_ID c" "''current''" "\<lparr>pf_provider = pr_Provider c,
        pf_engineFlavor = pr_EngineFlavor c, pf_payload = pr_ConfigPayload c,
        pf_fingerprint = pr_DatabaseFingerprint c\<rparr>" "''active''" t w1 j w1']
      upsertSettings_Inr [of env j "pr_Provider c" t w1' "()" w2] True
    show ?thesis by (auto simp: with_current_def)
  next
    case False
    with 2 have "db w2 = db w1" by simp
    with False show ?thesis by (intro exI [of _ "provider_settings (db w1)"]) simp
  qed
  moreover have "db w3 = (db w2)\<lparr>storage_profiles := update_where (\<lambda>r. sp_slot r = ''migration'') (retire t) (storage_profiles (db w2))\<rparr>"
    using 3 by (auto simp: retireMigrationProfiles_def exec_Inr_iff on_profiles_def)
  moreover note upsertStorageProfile_Inr [OF 4] upsertSettings_Inr [OF 5] upsert_entries_Inr [OF 1]
  ultimately show ?thesis using es
    by (auto simp: staged_def on_entries_def storageProfileID_nonempty)
qed

definition entries_after :: "config_env \<Rightarrow> Entry list \<Rightarrow> instant \<Rightarrow> bytes \<Rightarrow> installation \<Rightarrow> installation \<Rightarrow> bool" where
  "entries_after env es t updatedBy d d' \<longleftrightarrow>
     config_entries (ins_registry d') = fold (\<lambda>e. put_entry env e t updatedBy) es (config_entries (ins_registry d))"

lemma rules_part:
  assumes "(case ignore of None \<Rightarrow> ret () | Some patterns \<Rightarrow> replaceIgnoreRules env patterns t) w = (Inr (), w')"
    and "installation_ok (db w)"
  shows "\<exists>f. db w' = snd (on_ignore f (db w)) \<and> installation_ok (db w')"
proof (cases ignore)
  case None
  with assms show ?thesis by (intro exI [of _ "\<lambda>rows. rows"]) (simp add: on_ignore_def)
next
  case (Some patterns)
  with assms(1) replaceIgnoreRules_Inr [of env patterns t w "()" w'] show ?thesis by auto
qed

lemma import_tx_Inr:
  assumes "import_tx env es p current bootstrap ignore t updatedBy w = (Inr (), w')"
    and "changed = (case current of Some c \<Rightarrow> pr_DatabaseFingerprint c \<noteq> pf_fingerprint p | None \<Rightarrow> bootstrap \<noteq> None)"
  shows "installation_ok (db w') \<and>
    (if changed
     then \<exists>c es'. Some c = (case current of Some c \<Rightarrow> Some c | None \<Rightarrow> bootstrap) \<and>
       storageEntriesFromProfile env (pr_Provider c) (pr_ConfigPayload c) = Inr es' \<and>
       entries_after env (filter (\<lambda>e. \<not> isStorageKey (en_Key e)) es @ es') t updatedBy (db w) (db w') \<and>
       storage_profiles (db w') = staged env p c (bootstrap \<noteq> None) t (storage_profiles (db w))
     else entries_after env es t updatedBy (db w) (db w') \<and>
       (\<exists>i. storage_profiles (db w') = put_profile (profile_for i ''current'' ''active'' p t) (storage_profiles (db w))))"
proof -
  let ?new = "case (if changed then (case current of Some c \<Rightarrow> Some c | None \<Rightarrow> bootstrap) else None) of
      Some c \<Rightarrow> stage_migration env p c (bootstrap \<noteq> None) t updatedBy | None \<Rightarrow> keep_storage env p current t"
  from assms obtain w1 w2 where
    1: "upsert_entries env (filter (\<lambda>e. \<not> (changed \<and> isStorageKey (en_Key e))) es) t updatedBy w = (Inr (), w1)" and
    2: "?new w1 = (Inr (), w2)" and
    3: "(case ignore of None \<Rightarrow> ret () | Some patterns \<Rightarrow> replaceIgnoreRules env patterns t) w2 = (Inr (), w')"
    unfolding import_tx_def Let_def by (auto simp: andThen_Inr_iff simp del: ret_iff)
  note entries = upsert_entries_Inr [OF 1]
  show ?thesis
  proof (cases changed)
    case True
    then obtain c where c: "Some c = (case current of Some c \<Rightarrow> Some c | None \<Rightarrow> bootstrap)"
      using assms(2) by (cases current) auto
    with True 2 have "stage_migration env p c (bootstrap \<noteq> None) t updatedBy w1 = (Inr (), w2)"
      by (cases current) auto
    from stage_migration_Inr [OF this] obtain es' ss where
      es': "storageEntriesFromProfile env (pr_Provider c) (pr_ConfigPayload c) = Inr es'" and
      w2: "db w2 = (snd (on_entries (fold (\<lambda>e. put_entry env e t updatedBy) es') (db w1)))
        \<lparr>storage_profiles := staged env p c (bootstrap \<noteq> None) t (storage_profiles (db w1)), provider_settings := ss\<rparr>"
        "installation_ok (db w2)"
      by blast
    from rules_part [OF 3 w2(2)] obtain f where "db w' = snd (on_ignore f (db w2))" "installation_ok (db w')" by blast
    with True c es' w2(1) entries show ?thesis
      by (auto simp: entries_after_def on_entries_def on_ignore_def)
  next
    case False
    with 2 have "keep_storage env p current t w1 = (Inr (), w2)" by simp
    from keep_storage_Inr [OF this] obtain i ss where
      w2: "db w2 = (db w1)\<lparr>storage_profiles := put_profile (profile_for i ''current'' ''active'' p t) (storage_profiles (db w1)),
        provider_settings := ss\<rparr>" "installation_ok (db w2)" by blast
    from rules_part [OF 3 w2(2)] obtain f where "db w' = snd (on_ignore f (db w2))" "installation_ok (db w')" by blast
    with False w2(1) entries show ?thesis
      by (auto simp: entries_after_def on_entries_def on_ignore_def)
  qed
qed

lemma Import_Inr:
  assumes "Import env cfg ignore updatedBy w = (Inr res, w')"
  shows "Validate cfg = Inr () \<and> installation_ok (db w') \<and>
    (\<exists>t. if storage_changed env cfg (db w)
     then \<exists>c es'. storageEntriesFromProfile env (pr_Provider c) (pr_ConfigPayload c) = Inr es' \<and>
       (case current_of (db w) of Some c' \<Rightarrow> c = c' | None \<Rightarrow> \<exists>t0. c = currentStorageProfile env cfg t0) \<and>
       entries_after env (filter (\<lambda>e. \<not> isStorageKey (en_Key e)) (Flatten env cfg) @ es') t updatedBy (db w) (db w') \<and>
       storage_profiles (db w') = staged env (StorageProfile env cfg) c (current_of (db w) = None) t (storage_profiles (db w))
     else entries_after env (Flatten env cfg) t updatedBy (db w) (db w') \<and>
       (\<exists>i. storage_profiles (db w') =
          put_profile (profile_for i ''current'' ''active'' (StorageProfile env cfg) t) (storage_profiles (db w))))"
proof -
  from assms have valid: "Validate cfg = Inr ()" by (auto simp: Import_def split: sum.splits)
  let ?ext = "ed_Enabled (rc_ExternalDatabase cfg)"
  from assms valid obtain current w1 boot w2 t w3 w4 where
    1: "current_or_none w = (Inr current, w1)" and
    2: "(if current = None \<and> ?ext then andThen now (\<lambda>t0. ret (Some (currentStorageProfile env cfg t0))) else ret None) w1
        = (Inr boot, w2)" and
    3: "db w3 = db w2" "import_tx env (Flatten env cfg) (StorageProfile env cfg) current boot ignore t updatedBy w3 = (Inr (), w4)"
       "db w' = db w4"
    unfolding Import_def Let_def valid sum.case by (elim andThen_InrE now_InrE WithTx_InrE) (auto simp: ret_def)
  from current_or_none_Inr [OF 1] have cur: "current = current_of (db w)" "db w1 = db w" by auto
  have boot: "db w2 = db w1" "boot = None \<longleftrightarrow> \<not> (current = None \<and> ?ext)"
    "\<And>c. boot = Some c \<Longrightarrow> \<exists>t0. c = currentStorageProfile env cfg t0"
    using 2 by (auto simp: andThen_Inr_iff split: if_splits)
  have "storage_changed env cfg (db w) = (case current of
      Some c \<Rightarrow> pr_DatabaseFingerprint c \<noteq> pf_fingerprint (StorageProfile env cfg) | None \<Rightarrow> boot \<noteq> None)"
    using boot(2) by (simp add: storage_changed_def cur(1) split: option.split)
  note tx = import_tx_Inr [OF 3(2) this]
  have dbs: "db w3 = db w" "db w' = db w4" using 3 boot(1) cur(2) by simp_all
  show ?thesis
  proof (cases "storage_changed env cfg (db w)")
    case True
    with tx obtain c es' where c: "Some c = (case current of Some c \<Rightarrow> Some c | None \<Rightarrow> boot)"
      "storageEntriesFromProfile env (pr_Provider c) (pr_ConfigPayload c) = Inr es'"
      "entries_after env (filter (\<lambda>e. \<not> isStorageKey (en_Key e)) (Flatten env cfg) @ es') t updatedBy (db w) (db w')"
      "storage_profiles (db w') = staged env (StorageProfile env cfg) c (boot \<noteq> None) t (storage_profiles (db w))"
      unfolding dbs by auto
    have "(case current_of (db w) of Some c' \<Rightarrow> c = c' | None \<Rightarrow> \<exists>t0. c = currentStorageProfile env cfg t0)"
      using c(1) cur(1) boot(3) by (auto split: option.splits)
    moreover have "(boot \<noteq> None) = (current_of (db w) = None)"
      using c(1) cur(1) boot(2) by (auto split: option.splits)
    ultimately show ?thesis using tx valid c(2-4) True dbs(2) by auto
  next
    case False
    with tx valid dbs show ?thesis by auto
  qed
qed

end
