(* ===== verification/Config_Import_Facts.thy ===== *)
theory Config_Import_Facts
  imports Config_Facts
begin

text \<open>
  The configuration that was imported is the one that is read: by \<open>show\<close>, by the start of the process,
  by the scanner. The document \<open>show\<close> gives is written down once, independently of keys and texts.
\<close>

section \<open>Keys\<close>

definition config_keys :: "bytes list" where
  "config_keys =
     [''system_settings.app_name'', ''system_settings.version'', ''system_settings.mode'',
      ''database.database_type'', ''database.database_path'', ''external_databases.enabled'',
      ''external_databases.provider'', ''external_databases.engine_flavor'', ''external_databases.host'',
      ''external_databases.port'', ''external_databases.username'', ''external_databases.password'',
      ''external_databases.database_name'', ''scanning.global_scan'', ''scanning.security_scan.modules'',
      ''scanning.toolchain.profile_paths'', ''scanning.toolchain.version_policy'',
      ''repositories.default_auth_type'', ''repositories.poll_interval_default'',
      ''repositories.auto_sync_default'', ''security.active_rule_set_id'', ''api.listen_address'',
      ''auth.local_enabled'', ''workers.enabled'', ''workers.concurrency'', ''modules.enabled'',
      ''logging.level'', ''logging.format'', ''logging.log_path'']"

lemmas entry_defs = stringEntry_def boolEntry_def intEntry_def jsonEntry_def

lemma entries_of_keys: "map en_Key (entries_of env cfg) = config_keys"
  by (simp add: entries_of_def storage_entries_def entry_defs Let_def config_keys_def)

lemma config_keys_distinct: "distinct config_keys"
  by code_simp

lemma distinct_sort_key_map: "distinct (map f (sort_key g xs)) \<longleftrightarrow> distinct (map f xs)"
  by (simp add: distinct_map)

lemma Flatten_keys:
  shows "en_Key ` set (Flatten env cfg) = set config_keys"
    and "distinct (map en_Key (Flatten env cfg))"
  unfolding Flatten_def distinct_sort_key_map
  by (simp_all only: set_sort set_map [symmetric] entries_of_keys config_keys_distinct)

definition path_of :: "bytes \<Rightarrow> bytes list" where
  "path_of key = split key (CHR ''.'')"

lemma config_keys_paths: "map path_of config_keys =
  [[''system_settings'', ''app_name''], [''system_settings'', ''version''], [''system_settings'', ''mode''],
   [''database'', ''database_type''], [''database'', ''database_path''], [''external_databases'', ''enabled''],
   [''external_databases'', ''provider''], [''external_databases'', ''engine_flavor''], [''external_databases'', ''host''],
   [''external_databases'', ''port''], [''external_databases'', ''username''], [''external_databases'', ''password''],
   [''external_databases'', ''database_name''], [''scanning'', ''global_scan''], [''scanning'', ''security_scan'', ''modules''],
   [''scanning'', ''toolchain'', ''profile_paths''], [''scanning'', ''toolchain'', ''version_policy''],
   [''repositories'', ''default_auth_type''], [''repositories'', ''poll_interval_default''],
   [''repositories'', ''auto_sync_default''], [''security'', ''active_rule_set_id''], [''api'', ''listen_address''],
   [''auth'', ''local_enabled''], [''workers'', ''enabled''], [''workers'', ''concurrency''], [''modules'', ''enabled''],
   [''logging'', ''level''], [''logging'', ''format''], [''logging'', ''log_path'']]"
  by code_simp


lemma config_paths_apart: "sorted_wrt apart (map path_of config_keys)"
  unfolding config_keys_paths apart_def by code_simp

lemma config_keys_apart:
  assumes "k \<in> set config_keys" and "k' \<in> set config_keys" and "k \<noteq> k'"
  shows "apart (path_of k) (path_of k')"
proof -
  have "apart (f x) (f y)" if "sorted_wrt apart (map f xs)" "x \<in> set xs" "y \<in> set xs" "x \<noteq> y"
    for f :: "bytes \<Rightarrow> bytes list" and xs x y
    using that by (induction xs) (auto simp: apart_def)
  from this [OF config_paths_apart assms] show ?thesis .
qed

lemma config_keys_path: "k \<in> set config_keys \<Longrightarrow> path_of k \<noteq> []"
proof -
  have "\<forall>ps \<in> set (map path_of config_keys). ps \<noteq> []" unfolding config_keys_paths by simp
  then have "\<forall>k \<in> set config_keys. path_of k \<noteq> []" by (simp only: set_map ball_simps)
  then show "k \<in> set config_keys \<Longrightarrow> path_of k \<noteq> []" by (rule bspec)
qed

section \<open>Rows and what they are shown as\<close>

lemma entries_unique:
  "installation_ok d \<Longrightarrow> unique_by (\<lambda>r. Some (ce_key r, ce_scope r)) (config_entries (ins_registry d))"
  by (auto simp: installation_violation_def registry_violation_def registry_uniques_def
      split: option.splits if_splits)

lemma unique_by_system:
  "unique_by (\<lambda>r. Some (ce_key r, ce_scope r)) rows \<Longrightarrow> distinct (map ce_key (filter (\<lambda>r. ce_scope r = ''system'') rows))"
  by (induction rows) (auto simp: unique_by_Cons)

lemma system_rows_distinct: "installation_ok d \<Longrightarrow> distinct (map ce_key (system_rows d))"
  unfolding system_rows_def by (intro unique_by_system) (rule entries_unique)

lemma distinct_sorted_wrt: "distinct (map f xs) \<Longrightarrow> sorted_wrt (\<lambda>x y. f x \<noteq> f y) xs"
  by (induction xs) auto

lemma ActiveConfig_entries:
  assumes "calm w" and "installation_ok (db w)" and "ce_key ` set (system_rows (db w)) \<subseteq> set config_keys"
  shows "\<exists>m. ActiveConfig env w = (Inr m, step_tick w) \<and>
    (\<forall>k v ty. entry_map (config_entries (ins_registry (db w))) k = Some (v, ty) \<longrightarrow>
       lookup_path m (path_of k) = Some (typedValue env k v ty))"
proof -
  let ?rows = "order_asc ce_key (system_rows (db w))"
  let ?show = "\<lambda>r. typedValue env (ce_key r) (ce_value r) (ce_value_type r)"
  have "distinct (map ce_key ?rows)"
    using system_rows_distinct [OF assms(2)] by (simp add: order_asc_def distinct_sort_key_map)
  then have differ: "sorted_wrt (\<lambda>r s. ce_key r \<noteq> ce_key s) ?rows"
    by (rule distinct_sorted_wrt)
  have "apart (path_of (ce_key r)) (path_of (ce_key s))"
    if "r \<in> set ?rows" "s \<in> set ?rows" "ce_key r \<noteq> ce_key s" for r s
  proof -
    from that assms(3) have "ce_key r \<in> set config_keys" "ce_key s \<in> set config_keys"
      by (simp_all add: order_asc_def image_subset_iff)
    from config_keys_apart [OF this that(3)] show ?thesis .
  qed
  from sorted_wrt_mono_rel [OF this differ]
  have "sorted_wrt (\<lambda>r s. apart (path_of (ce_key r)) (path_of (ce_key s))) ?rows" .
  note shown = fold_setNested [OF this, where val = ?show and out = "[]"]
  have "ActiveConfig env w = (Inr (fold (show_row env) ?rows []), step_tick w)"
    using assms(1) by (simp add: ActiveConfig_def query_calm andThen_Inr_eq ret_def)
  moreover have "lookup_path (fold (show_row env) ?rows []) (path_of k) = Some (typedValue env k v ty)"
    if "entry_map (config_entries (ins_registry (db w))) k = Some (v, ty)" for k v ty
  proof -
    from map_of_SomeD [OF that [unfolded entry_map_def]] obtain r where
      r: "r \<in> set (system_rows (db w))" "k = ce_key r" "v = ce_value r" "ty = ce_value_type r"
      by (auto simp: system_rows_def)
    from r(1) assms(3) have "ce_key r \<in> set config_keys" by (simp add: image_subset_iff)
    from config_keys_path [OF this] r(1) have "r \<in> set ?rows" "path_of (ce_key r) \<noteq> []"
      by (simp_all add: order_asc_def)
    from shown [OF this] show ?thesis by (simp add: r show_row_def [abs_def] path_of_def)
  qed
  ultimately show ?thesis by auto
qed

section \<open>Entries after an import\<close>

lemma entry_map_after:
  assumes "entries_after env es t updatedBy d d'" and "distinct (map en_Key es)" and "e \<in> set es"
  shows "entry_map (config_entries (ins_registry d')) (en_Key e) = Some (en_Value e, en_ValueType e)"
proof -
  let ?kvs = "rev (map (\<lambda>e. (en_Key e, en_Value e, en_ValueType e)) es)"
  have "distinct (map fst ?kvs)" using assms(2) by (simp add: comp_def rev_map distinct_map)
  then have "map_of ?kvs (en_Key e) = Some (en_Value e, en_ValueType e)"
    using assms(3) by (intro map_of_is_SomeI) auto
  then show ?thesis
    using assms(1) by (simp add: entries_after_def entry_map_fold map_add_find_right)
qed

lemma profile_entries_keys:
  "storageEntriesFromProfile env p payload = Inr es \<Longrightarrow>
     distinct (map en_Key es) \<and> (\<forall>e \<in> set es. isStorageKey (en_Key e) \<and> en_Key e \<in> set config_keys)"
proof -
  have keys: "map en_Key (storage_entries d x) = filter isStorageKey config_keys" for d x
  proof -
    have "filter isStorageKey config_keys =
        [''database.database_type'', ''database.database_path'', ''external_databases.enabled'',
         ''external_databases.provider'', ''external_databases.engine_flavor'', ''external_databases.host'',
         ''external_databases.port'', ''external_databases.username'', ''external_databases.password'',
         ''external_databases.database_name'']" by code_simp
    then show ?thesis by (simp add: storage_entries_def entry_defs)
  qed
  assume "storageEntriesFromProfile env p payload = Inr es"
  then obtain d x where "es = storage_entries d x"
    by (auto simp: storageEntriesFromProfile_def Let_def split: if_splits sum.splits)
  with keys have es: "map en_Key es = filter isStorageKey config_keys" by simp
  then have "en_Key ` set es = set (filter isStorageKey config_keys)" by (metis set_map)
  moreover have "distinct (map en_Key es)" unfolding es using config_keys_distinct by (rule distinct_filter)
  ultimately show ?thesis by auto
qed

lemma Import_entries:
  assumes "Import env cfg ignore updatedBy w = (Inr res, w')"
  shows "\<exists>t es. entries_after env es t updatedBy (db w) (db w') \<and> distinct (map en_Key es) \<and>
    en_Key ` set es \<subseteq> set config_keys \<and>
    (\<forall>e \<in> set (Flatten env cfg). storage_changed env cfg (db w) \<and> isStorageKey (en_Key e) \<or> e \<in> set es)"
proof (cases "storage_changed env cfg (db w)")
  case True
  let ?kept = "filter (\<lambda>e. \<not> isStorageKey (en_Key e)) (Flatten env cfg)"
  from Import_Inr [OF assms] obtain t es' and c :: StorageProfileRecord where
    es': "storageEntriesFromProfile env (pr_Provider c) (pr_ConfigPayload c) = Inr es'" and
    after: "entries_after env (?kept @ es') t updatedBy (db w) (db w')"
    unfolding eqTrueI [OF True] if_True by blast
  from profile_entries_keys [OF es'] have keys: "distinct (map en_Key es')"
    "\<And>e. e \<in> set es' \<Longrightarrow> isStorageKey (en_Key e)" "en_Key ` set es' \<subseteq> set config_keys" by auto
  have "distinct (map en_Key ?kept)" using Flatten_keys(2) by (rule distinct_map_filter)
  then have "distinct (map en_Key (?kept @ es'))"
    using keys(1,2) by fastforce
  moreover have "en_Key ` set (?kept @ es') \<subseteq> set config_keys"
    unfolding Flatten_keys(1) [symmetric, of env cfg] using keys(3) unfolding Flatten_keys(1) [symmetric, of env cfg] by auto
  ultimately show ?thesis using after True by (intro exI [of _ t] exI [of _ "?kept @ es'"]) auto
next
  case False
  with Import_Inr [OF assms] obtain t where "entries_after env (Flatten env cfg) t updatedBy (db w) (db w')" by auto
  with Flatten_keys [of env cfg] show ?thesis by (intro exI [of _ t] exI [of _ "Flatten env cfg"]) auto
qed

lemma Import_system_keys:
  assumes "Import env cfg ignore updatedBy w = (Inr res, w')"
  shows "ce_key ` set (system_rows (db w')) \<subseteq> set config_keys \<union> ce_key ` set (system_rows (db w))"
proof -
  from Import_entries [OF assms] obtain t es where "entries_after env es t updatedBy (db w) (db w')"
    "en_Key ` set es \<subseteq> set config_keys" by blast
  then show ?thesis using fold_put_keys [of env t updatedBy es "config_entries (ins_registry (db w))"]
    unfolding system_rows_def entries_after_def by (simp only: Un_subset_iff Un_upper2 simp_thms) blast
qed

section \<open>The document that is shown\<close>

text \<open>The members of an object in the order Go's maps are marshalled in; a secret is never shown.\<close>

definition shown_secret :: "bytes \<Rightarrow> json" where
  "shown_secret v =
     JObject ((''masked'', JBool True) # (if has_prefix v ''secretref://env/'' then [(''ref_type'', JString ''env'')] else []))"

definition shown_root :: "config_root \<Rightarrow> json" where
  "shown_root rt =
     JObject [(''frequency'', JString (cg_Frequency rt)), (''name'', JString (cg_Name rt)),
              (''root_path'', JString (cg_RootPath rt)), (''schedule'', JBool (cg_Schedule rt))]"

definition shown_list :: "('a \<Rightarrow> json) \<Rightarrow> 'a list option \<Rightarrow> json" where
  "shown_list f xs = (case xs of None \<Rightarrow> JNull | Some ys \<Rightarrow> JArray (map f ys))"

definition storage_document :: "Database \<Rightarrow> ExternalDatabase \<Rightarrow> (bytes list \<times> json) list" where
  "storage_document d e =
     [([''database'', ''database_type''], JString (da_DatabaseType d)),
      ([''database'', ''database_path''], JString (da_DatabasePath d)),
      ([''external_databases'', ''enabled''], JBool (ed_Enabled e)),
      ([''external_databases'', ''provider''], JString (ed_Provider e)),
      ([''external_databases'', ''engine_flavor''], JString (ed_EngineFlavor e)),
      ([''external_databases'', ''host''], JString (ed_Host e)),
      ([''external_databases'', ''port''], number_json (ed_Port e)),
      ([''external_databases'', ''username''], shown_secret (ed_Username e)),
      ([''external_databases'', ''password''], shown_secret (ed_Password e)),
      ([''external_databases'', ''database_name''], JString (ed_DatabaseName e))]"

definition config_document :: "RuntimeConfig \<Rightarrow> (bytes list \<times> json) list" where
  "config_document cfg =
     (let s = rc_SystemSettings cfg; sn = rc_Scanning cfg; r = rc_Repositories cfg; l = rc_Logging cfg
      in [([''system_settings'', ''app_name''], JString (ss_AppName s)),
          ([''system_settings'', ''version''], JString (ss_Version s)),
          ([''system_settings'', ''mode''], JString (ss_Mode s))] @
         storage_document (rc_Database cfg) (rc_ExternalDatabase cfg) @
         [([''scanning'', ''global_scan''], shown_list shown_root (sn_GlobalScan sn)),
          ([''scanning'', ''security_scan'', ''modules''], shown_list JString (sn_Security sn)),
          ([''scanning'', ''toolchain'', ''profile_paths''], shown_list JString (tc_ProfilePaths (sn_Toolchain sn))),
          ([''scanning'', ''toolchain'', ''version_policy''], JString (tc_VersionPolicy (sn_Toolchain sn))),
          ([''repositories'', ''default_auth_type''], JString (rs_DefaultAuthType r)),
          ([''repositories'', ''poll_interval_default''], JString (rs_PollInterval r)),
          ([''repositories'', ''auto_sync_default''], JBool (rs_AutoSyncDefault r)),
          ([''security'', ''active_rule_set_id''],
             (case rc_ActiveRuleSetID cfg of None \<Rightarrow> JNull | Some i \<Rightarrow> JString i)),
          ([''api'', ''listen_address''], JString (rc_ListenAddress cfg)),
          ([''auth'', ''local_enabled''], JBool (rc_LocalEnabled cfg)),
          ([''workers'', ''enabled''], JBool (wk_Enabled (rc_Workers cfg))),
          ([''workers'', ''concurrency''], number_json (wk_Concurrency (rc_Workers cfg))),
          ([''modules'', ''enabled''], shown_list JString (rc_Modules cfg)),
          ([''logging'', ''level''], JString (lg_Level l)),
          ([''logging'', ''format''], JString (lg_Format l)),
          ([''logging'', ''log_path''], JString (lg_LogPath l))])"

text \<open>The JSON documents the entries hold.\<close>

definition entry_documents :: "RuntimeConfig \<Rightarrow> json list" where
  "entry_documents cfg =
     [config_roots_json (sn_GlobalScan (rc_Scanning cfg)), strings_json (sn_Security (rc_Scanning cfg)),
      strings_json (tc_ProfilePaths (sn_Toolchain (rc_Scanning cfg))),
      (case rc_ActiveRuleSetID cfg of None \<Rightarrow> JNull | Some i \<Rightarrow> JString i), strings_json (rc_Modules cfg)]"

definition shown_entry :: "config_env \<Rightarrow> Entry \<Rightarrow> bytes list \<times> json" where
  "shown_entry env e = (path_of (en_Key e), typedValue env (en_Key e) (en_Value e) (en_ValueType e))"

lemma decode_strings: "decode (strings_json xs) = shown_list JString xs"
  by (simp add: strings_json_def shown_list_def comp_def split: option.split)

lemma decode_root: "decode (config_root_json rt) = shown_root rt"
proof -
  have "go_map [(''name'', a), (''root_path'', b), (''schedule'', c), (''frequency'', d)] =
      [(''frequency'', d), (''name'', a), (''root_path'', b), (''schedule'', c)]" for a b c d :: json
    by code_simp
  then show ?thesis by (simp add: config_root_json_def shown_root_def)
qed

lemma decode_roots: "decode (config_roots_json xs) = shown_list shown_root xs"
  by (simp add: config_roots_json_def shown_list_def comp_def decode_root split: option.split)

lemmas config_path_values = config_keys_paths [unfolded config_keys_def list.map list.inject]

lemma shown_string: "\<not> isSensitiveKey k \<Longrightarrow> shown_entry env (stringEntry k v) = (path_of k, JString v)"
  by (simp add: shown_entry_def stringEntry_def typedValue_def)

lemma shown_sensitive: "isSensitiveKey k \<Longrightarrow> shown_entry env (stringEntry k v) = (path_of k, shown_secret v)"
  by (simp add: shown_entry_def stringEntry_def typedValue_def MaskSensitiveValue_def shown_secret_def secret_prefix_def)

lemma shown_bool: "\<not> isSensitiveKey k \<Longrightarrow> shown_entry env (boolEntry k v) = (path_of k, JBool v)"
  by (simp add: shown_entry_def boolEntry_def typedValue_def)

lemma shown_int:
  "\<not> isSensitiveKey k \<Longrightarrow> - (2 ^ 63) \<le> v \<Longrightarrow> v < 2 ^ 63 \<Longrightarrow> shown_entry env (intEntry k v) = (path_of k, number_json v)"
  by (simp add: shown_entry_def intEntry_def typedValue_def scan_decimal_decimal)

lemma shown_json:
  "\<not> isSensitiveKey k \<Longrightarrow> cv_parse env (cv_marshal env v) = Doc v \<Longrightarrow> shown_entry env (jsonEntry env k v) = (path_of k, decode v)"
  by (simp add: shown_entry_def jsonEntry_def typedValue_def)

lemmas shown_entries = shown_string shown_sensitive shown_bool shown_int shown_json

lemma shown_entries_of:
  assumes "\<And>j. j \<in> set (entry_documents cfg) \<Longrightarrow> cv_parse env (cv_marshal env j) = Doc j"
    and "- (2 ^ 63) \<le> ed_Port (rc_ExternalDatabase cfg)" and "ed_Port (rc_ExternalDatabase cfg) < 2 ^ 63"
    and "- (2 ^ 63) \<le> wk_Concurrency (rc_Workers cfg)" and "wk_Concurrency (rc_Workers cfg) < 2 ^ 63"
  shows "map (shown_entry env) (entries_of env cfg) = config_document cfg"
proof -
  note codec = assms(1) [unfolded entry_documents_def list.set insert_iff empty_iff]
  have active: "decode (case rc_ActiveRuleSetID cfg of None \<Rightarrow> JNull | Some i \<Rightarrow> JString i) =
      (case rc_ActiveRuleSetID cfg of None \<Rightarrow> JNull | Some i \<Rightarrow> JString i)"
    by (simp split: option.split)
  show ?thesis
    using assms(2-5)
    by (simp add: entries_of_def storage_entries_def config_document_def storage_document_def Let_def shown_entries
        isSensitiveKey_def codec config_path_values decode_strings decode_roots active)
qed

section \<open>What is valid\<close>

lemma require_Inr [simp]: "require ok msg = Inr u \<longleftrightarrow> ok"
  by (simp add: require_def)

lemma Validate_one_worker:
  assumes "Validate cfg = Inr ()"
  shows "wk_Concurrency (rc_Workers cfg) = 1"
proof -
  have checked: "r = Inr ()" if "r \<in> set (config_checks (Normalize cfg))" for r
    using assms that unfolding Validate_def first_failure_ok_iff by blast
  have "da_DatabaseType (rc_Database (Normalize cfg)) = ''sqlite''"
    using checked [of "require (da_DatabaseType (rc_Database (Normalize cfg)) = ''sqlite'') ''database.database_type: expected sqlite''"]
    by (simp add: config_checks_def Let_def)
  moreover have "\<not> (da_DatabaseType (rc_Database (Normalize cfg)) = ''sqlite'' \<and> wk_Concurrency (rc_Workers (Normalize cfg)) \<noteq> 1)"
    using checked [of "require (\<not> (da_DatabaseType (rc_Database (Normalize cfg)) = ''sqlite'' \<and>
      wk_Concurrency (rc_Workers (Normalize cfg)) \<noteq> 1)) ''sqlite_worker_concurrency_unsupported''"]
    by (simp add: config_checks_def Let_def)
  ultimately show ?thesis by (simp add: Normalize_def Let_def)
qed

text \<open>
  C14: What was imported is what is shown. After an import of a configuration into a database that holds no
  other keys, \<open>config show\<close> gives, at the path of every setting of the normalized configuration, the
  value the setting has, with user name and password reduced to a mask, given that the JSON library reads
  back what it writes for the five settings stored as JSON. Only the settings of the database itself are
  excepted, and only when they name another database than the current: that one is shown until it is left.
\<close>

theorem ActiveConfig_shows_import:
  assumes "Import env cfg ignore updatedBy w = (Inr res, w')" and "calm w'"
    and "ce_key ` set (system_rows (db w)) \<subseteq> set config_keys"
    and "\<And>j. j \<in> set (entry_documents (Normalize cfg)) \<Longrightarrow> cv_parse env (cv_marshal env j) = Doc j"
    and "- (2 ^ 63) \<le> ed_Port (rc_ExternalDatabase cfg)" and "ed_Port (rc_ExternalDatabase cfg) < 2 ^ 63"
  shows "\<exists>m w''. ActiveConfig env w' = (Inr m, w'') \<and>
    (\<forall>(path, v) \<in> set (config_document (Normalize cfg)).
       storage_changed env cfg (db w) \<and> hd path \<in> {''database'', ''external_databases''} \<or> lookup_path m path = Some v)"
proof -
  from Import_Inr [OF assms(1)] have valid: "Validate cfg = Inr ()" "installation_ok (db w')" by blast+
  from Import_entries [OF assms(1)] obtain t es where
    es: "entries_after env es t updatedBy (db w) (db w')" "distinct (map en_Key es)"
      "\<And>e. e \<in> set (Flatten env cfg) \<Longrightarrow> storage_changed env cfg (db w) \<and> isStorageKey (en_Key e) \<or> e \<in> set es"
    by blast
  have "ce_key ` set (system_rows (db w')) \<subseteq> set config_keys"
    using Import_system_keys [OF assms(1)] assms(3) by (rule order_trans [OF _ Un_least [OF subset_refl]])
  from ActiveConfig_entries [OF assms(2) valid(2) this] obtain m where
    m: "ActiveConfig env w' = (Inr m, step_tick w')"
      "\<And>k v ty. entry_map (config_entries (ins_registry (db w'))) k = Some (v, ty) \<Longrightarrow>
         lookup_path m (path_of k) = Some (typedValue env k v ty)"
    by blast
  have storage: "hd (path_of k) \<in> {''database'', ''external_databases''}" if "isStorageKey k" "k \<in> set config_keys" for k
  proof -
    have "\<forall>k \<in> set (filter isStorageKey config_keys). hd (path_of k) \<in> {''database'', ''external_databases''}"
      by code_simp
    from bspec [OF this] that show ?thesis by simp
  qed
  have doc: "config_document (Normalize cfg) = map (shown_entry env) (entries_of env (Normalize cfg))"
    using assms(4-6) Validate_one_worker [OF valid(1)]
    by (intro shown_entries_of [symmetric]) (simp_all add: Normalize_def Let_def)
  have "storage_changed env cfg (db w) \<and> hd (fst (shown_entry env e)) \<in> {''database'', ''external_databases''} \<or>
      lookup_path m (fst (shown_entry env e)) = Some (snd (shown_entry env e))"
    if "e \<in> set (entries_of env (Normalize cfg))" for e
  proof -
    from that have e: "e \<in> set (Flatten env cfg)" by (simp add: Flatten_def)
    then have "en_Key e \<in> set config_keys" using Flatten_keys(1) by (metis imageI)
    with es(3) [OF e] storage [of "en_Key e"] m(2) [OF entry_map_after [OF es(1,2), of e]] show ?thesis
      by (simp only: shown_entry_def fst_conv snd_conv) blast
  qed
  then show ?thesis
    using m(1) unfolding doc by (auto simp only: set_map split_beta ball_simps)
qed

section \<open>What the programs read\<close>

lemma decode_config_root_json: "decode_config_root (config_root_json rt) = Inr rt"
proof -
  have "matching ''name'' [(''name'', a), (''root_path'', b), (''schedule'', c), (''frequency'', d)] = [a]"
    "matching ''root_path'' [(''name'', a), (''root_path'', b), (''schedule'', c), (''frequency'', d)] = [b]"
    "matching ''schedule'' [(''name'', a), (''root_path'', b), (''schedule'', c), (''frequency'', d)] = [c]"
    "matching ''frequency'' [(''name'', a), (''root_path'', b), (''schedule'', c), (''frequency'', d)] = [d]"
    for a b c d :: json
    by code_simp+
  then show ?thesis
    by (simp add: config_root_json_def string_member_def bool_member_def string_or_null.simps)
qed

lemma decode_config_roots_json: "decode_config_roots (Doc (config_roots_json xs)) = Inr (items xs)"
proof -
  have "all_right (map decode_config_root (map config_root_json ys)) = Inr ys" for ys
    by (induction ys) (simp_all add: decode_config_root_json)
  then show ?thesis by (simp add: config_roots_json_def items_def split: option.split)
qed

lemma atoi_decimal:
  assumes "- (2 ^ 63) \<le> n" and "n < 2 ^ 63"
  shows "atoi (decimal n) = Some n"
proof -
  let ?ds = "digits_of (nat (abs n))"
  obtain c s where ds: "?ds = c # s" using digits_of_nonempty by (cases ?ds) auto
  with digits_of_chars [of "nat (abs n)"] have c: "c \<in> set ''0123456789''" by auto
  from digit_chars [OF c] have sign: "\<not> has_prefix ?ds ''-''" "\<not> has_prefix ?ds ''+''"
    by (simp_all add: ds has_prefix_def)
  have "list_all is_digit ?ds"
    using digit_chars digits_of_chars [of "nat (abs n)"] by (simp only: list_all_iff subset_iff) blast
  then show ?thesis
    using assms sign digits_of_nonempty [of "nat (abs n)"] digits_value_digits_of [of "nat (abs n)"]
    by (cases "n < 0") (simp_all add: atoi_def decimal_def Let_def has_prefix_def)
qed

lemma strings_doc_json: "strings_doc (Doc (strings_json xs)) = Inr xs"
proof -
  have "strings_of (map JString ys) = Some ys" for ys by (induction ys) simp_all
  then show ?thesis by (simp add: strings_json_def split: option.split)
qed

definition row_value :: "config_row list \<Rightarrow> bytes \<Rightarrow> bytes option" where
  "row_value rows = map_of (map (\<lambda>r. (ce_key r, ce_value r)) rows)"

lemma row_value_Cons: "row_value (r # rows) k = (if ce_key r = k then Some (ce_value r) else row_value rows k)"
  by (auto simp: row_value_def)

lemma settings_from_rows:
  assumes "distinct (map ce_key rows)" and "rows \<noteq> [] \<or> rn_Loaded s"
    and "\<And>v. row_value rows ''modules.enabled'' = Some v \<Longrightarrow> strings_doc (cv_parse env v) = Inr ms"
  shows "settings_from env rows s = Inr \<lparr>
     rn_ListenAddress = (case row_value rows ''api.listen_address'' of Some v \<Rightarrow> v | None \<Rightarrow> rn_ListenAddress s),
     rn_Mode = (case row_value rows ''system_settings.mode'' of Some v \<Rightarrow> v | None \<Rightarrow> rn_Mode s),
     rn_LogLevel = (case row_value rows ''logging.level'' of Some v \<Rightarrow> v | None \<Rightarrow> rn_LogLevel s),
     rn_WorkersEnabled = (case row_value rows ''workers.enabled'' of Some v \<Rightarrow> v = ''true'' | None \<Rightarrow> rn_WorkersEnabled s),
     rn_EnabledModules = (case row_value rows ''modules.enabled'' of Some v \<Rightarrow> ms | None \<Rightarrow> rn_EnabledModules s),
     rn_Loaded = True\<rparr>"
  using assms
proof (induction rows arbitrary: s)
  case Nil
  then show ?case by (simp add: row_value_def)
next
  case (Cons r rows)
  have fresh: "row_value rows (ce_key r) = None"
    using Cons.prems(1) by (auto simp: row_value_def map_of_eq_None_iff)
  have ms: "strings_doc (cv_parse env v) = Inr ms" if "row_value rows ''modules.enabled'' = Some v" for v
    using that fresh Cons.prems(3) [of v] by (cases "ce_key r = ''modules.enabled''") (auto simp: row_value_def)
  have rest: "distinct (map ce_key rows)" using Cons.prems(1) by simp
  note IH = Cons.IH [OF rest]
  consider "ce_key r = ''api.listen_address''" | "ce_key r = ''system_settings.mode''" | "ce_key r = ''logging.level''"
    | "ce_key r = ''workers.enabled''" | "ce_key r = ''modules.enabled''" | "ce_key r \<notin> set runtime_keys"
    by (auto simp: runtime_keys_def)
  then show ?case
  proof cases
    case 5
    with Cons.prems(3) have "strings_doc (cv_parse env (ce_value r)) = Inr ms" by (simp add: row_value_Cons)
    moreover note IH [of "s\<lparr>rn_Loaded := True, rn_EnabledModules := ms\<rparr>", OF _ ms]
    ultimately show ?thesis using 5 fresh by (simp add: Let_def row_value_Cons cong: option.case_cong)
  qed (use fresh ms in \<open>simp add: IH Let_def row_value_Cons runtime_keys_def cong: option.case_cong\<close>)+
qed

lemma row_value_entry_map:
  assumes "k \<in> set keys" and "system_rows d = rows0" and "rows = filter (\<lambda>r. ce_key r \<in> set keys) rows0"
  shows "row_value rows k = map_option fst (entry_map (config_entries (ins_registry d)) k)"
proof -
  have "map_of (map (\<lambda>r. (ce_key r, ce_value r)) (filter (\<lambda>r. ce_key r \<in> set keys) xs)) k =
      map_option fst (map_of (map (\<lambda>r. (ce_key r, ce_value r, ce_value_type r)) xs) k)" for xs
    using assms(1) by (induction xs) auto
  with assms(2,3) show ?thesis by (auto simp: row_value_def entry_map_def system_rows_def)
qed

lemma config_value_entry_map:
  assumes "entry_map (config_entries d) k = Some (v, ty)"
  shows "first_row (config_value k d) = Some v"
proof -
  have "first_row (map ce_value (filter (\<lambda>r. ce_scope r = ''system'' \<and> ce_key r = k) rows)) = Some v"
    if "entry_map rows k = Some (v, ty)" for rows
    using that by (induction rows) (auto simp: entry_map_def split: if_splits)
  with assms show ?thesis by (simp add: config_value_def)
qed

definition imported_settings :: "RuntimeConfig \<Rightarrow> RuntimeSettings" where
  "imported_settings cfg = \<lparr>rn_ListenAddress = rc_ListenAddress cfg, rn_Mode = ss_Mode (rc_SystemSettings cfg),
     rn_LogLevel = lg_Level (rc_Logging cfg), rn_WorkersEnabled = wk_Enabled (rc_Workers cfg),
     rn_EnabledModules = rc_Modules cfg, rn_Loaded = True\<rparr>"

text \<open>What an import stores of the settings that are read at run time, whatever storage it names.\<close>

lemma Import_stored:
  assumes "Import env cfg ignore updatedBy w = (Inr res, w')" and "m = entry_map (config_entries (ins_registry (db w')))"
  shows "m ''api.listen_address'' = Some (rc_ListenAddress cfg, ''string'')"
    and "m ''system_settings.mode'' = Some (ss_Mode (rc_SystemSettings cfg), ''string'')"
    and "m ''logging.level'' = Some (lg_Level (rc_Logging cfg), ''string'')"
    and "m ''workers.enabled'' = Some (if wk_Enabled (rc_Workers cfg) then ''true'' else ''false'', ''bool'')"
    and "m ''modules.enabled'' = Some (cv_marshal env (strings_json (rc_Modules cfg)), ''json'')"
    and "m ''scanning.global_scan'' = Some (cv_marshal env (config_roots_json (sn_GlobalScan (rc_Scanning cfg))), ''json'')"
    and "m ''workers.concurrency'' = Some (decimal 1, ''int'')"
proof -
  from Import_Inr [OF assms(1)] have valid: "Validate cfg = Inr ()" by blast
  from Import_entries [OF assms(1)] obtain t es where
    es: "entries_after env es t updatedBy (db w) (db w')" "distinct (map en_Key es)"
      "\<And>e. e \<in> set (Flatten env cfg) \<Longrightarrow> isStorageKey (en_Key e) \<or> e \<in> set es"
    by blast
  let ?n = "Normalize cfg"
  have stored: "m (en_Key e) = Some (en_Value e, en_ValueType e)"
    if "e \<in> set (entries_of env ?n)" "\<not> isStorageKey (en_Key e)" for e
    using es(3) [of e] that entry_map_after [OF es(1,2), of e] assms(2) by (simp add: Flatten_def)
  have keys: "\<forall>k \<in> set [''api.listen_address'', ''system_settings.mode'', ''logging.level'', ''workers.enabled'',
      ''modules.enabled'', ''scanning.global_scan'', ''workers.concurrency'']. \<not> isStorageKey k"
    by code_simp
  show "m ''api.listen_address'' = Some (rc_ListenAddress cfg, ''string'')"
    and "m ''system_settings.mode'' = Some (ss_Mode (rc_SystemSettings cfg), ''string'')"
    and "m ''logging.level'' = Some (lg_Level (rc_Logging cfg), ''string'')"
    and "m ''workers.enabled'' = Some (if wk_Enabled (rc_Workers cfg) then ''true'' else ''false'', ''bool'')"
    and "m ''modules.enabled'' = Some (cv_marshal env (strings_json (rc_Modules cfg)), ''json'')"
    and "m ''scanning.global_scan'' = Some (cv_marshal env (config_roots_json (sn_GlobalScan (rc_Scanning cfg))), ''json'')"
    and "m ''workers.concurrency'' = Some (decimal 1, ''int'')"
    using stored [of "stringEntry ''api.listen_address'' (rc_ListenAddress ?n)"]
      stored [of "stringEntry ''system_settings.mode'' (ss_Mode (rc_SystemSettings ?n))"]
      stored [of "stringEntry ''logging.level'' (lg_Level (rc_Logging ?n))"]
      stored [of "boolEntry ''workers.enabled'' (wk_Enabled (rc_Workers ?n))"]
      stored [of "jsonEntry env ''modules.enabled'' (strings_json (rc_Modules ?n))"]
      stored [of "jsonEntry env ''scanning.global_scan'' (config_roots_json (sn_GlobalScan (rc_Scanning ?n)))"]
      stored [of "intEntry ''workers.concurrency'' (wk_Concurrency (rc_Workers ?n))"]
      keys Validate_one_worker [OF valid]
    by (simp_all add: entries_of_def entry_defs Let_def) (simp_all add: Normalize_def Let_def)
qed

lemma Import_settings_read:
  assumes "Import env cfg ignore updatedBy w = (Inr res, w')" and "calm w'"
    and "strings_doc (cv_parse env (cv_marshal env (strings_json (rc_Modules cfg)))) = Inr (rc_Modules cfg)"
  shows "fst (read_runtime_settings env w') = Inr (imported_settings cfg)"
proof -
  let ?rows = "filter (\<lambda>r. ce_key r \<in> set runtime_keys) (system_rows (db w'))"
  have rows: "row_value ?rows k = map_option fst (entry_map (config_entries (ins_registry (db w'))) k)"
    if "k \<in> set runtime_keys" for k
    using row_value_entry_map [OF that refl refl] .
  have vals: "row_value ?rows ''api.listen_address'' = Some (rc_ListenAddress cfg)"
    "row_value ?rows ''system_settings.mode'' = Some (ss_Mode (rc_SystemSettings cfg))"
    "row_value ?rows ''logging.level'' = Some (lg_Level (rc_Logging cfg))"
    "row_value ?rows ''workers.enabled'' = Some (if wk_Enabled (rc_Workers cfg) then ''true'' else ''false'')"
    "row_value ?rows ''modules.enabled'' = Some (cv_marshal env (strings_json (rc_Modules cfg)))"
    using Import_stored(1-5) [OF assms(1) refl] by - (subst rows; simp add: runtime_keys_def)+
  have "?rows \<noteq> []"
    using vals(3) by (auto simp: row_value_def)
  moreover have "strings_doc (cv_parse env v) = Inr (rc_Modules cfg)" if "row_value ?rows ''modules.enabled'' = Some v" for v
    using that vals(5) assms(3) by auto
  moreover have "distinct (map ce_key ?rows)"
    using Import_Inr [OF assms(1)] by (intro distinct_map_filter system_rows_distinct) blast
  ultimately have "settings_from env ?rows \<lparr>rn_ListenAddress = [], rn_Mode = [], rn_LogLevel = [],
      rn_WorkersEnabled = True, rn_EnabledModules = None, rn_Loaded = False\<rparr> = Inr (imported_settings cfg)"
    by (subst settings_from_rows [where ms = "rc_Modules cfg"]) (simp_all add: vals imported_settings_def)
  then show ?thesis
    using assms(2) by (simp add: read_runtime_settings_def query_calm andThen_Inr_eq lift_result_def ret_def)
qed

text \<open>
  C22: What was imported is what the programs run with. After an import, whatever storage it names, the
  start of the process reads the listen address, the mode, the log level, whether workers run and the
  modules of the configuration; the scanner reads the root paths to scan; and the number of workers it
  scans with is 1, the only one a configuration can have, since it is held to the database type sqlite
  even when an external database is enabled.
\<close>

theorem Import_read_back:
  assumes "Import env cfg ignore updatedBy w = (Inr res, w')" and "calm w'"
    and "\<And>j. j \<in> set (entry_documents (Normalize cfg)) \<Longrightarrow> cv_parse env (cv_marshal env j) = Doc j"
  shows "fst (read_runtime_settings env w') = Inr \<lparr>rn_ListenAddress = rc_ListenAddress cfg,
      rn_Mode = ss_Mode (rc_SystemSettings cfg), rn_LogLevel = lg_Level (rc_Logging cfg),
      rn_WorkersEnabled = wk_Enabled (rc_Workers cfg), rn_EnabledModules = rc_Modules cfg, rn_Loaded = True\<rparr> \<and>
    (\<exists>v. first_row (config_value ''scanning.global_scan'' (ins_registry (db w'))) = Some v \<and>
       decode_config_roots (cv_parse env v) = Inr (items (sn_GlobalScan (rc_Scanning cfg)))) \<and>
    fst (ConfigInt ''workers.concurrency'' (view ins_registry w')) = Inr 1"
proof -
  note stored = Import_stored [OF assms(1) refl]
  have "strings_doc (cv_parse env (cv_marshal env (strings_json (rc_Modules cfg)))) = Inr (rc_Modules cfg)"
    using assms(3) [of "strings_json (rc_Modules cfg)"] by (simp add: entry_documents_def Normalize_def Let_def strings_doc_json)
  note settings = Import_settings_read [OF assms(1,2) this]
  have roots: "decode_config_roots (cv_parse env (cv_marshal env (config_roots_json (sn_GlobalScan (rc_Scanning cfg)))))
      = Inr (items (sn_GlobalScan (rc_Scanning cfg)))"
    using assms(3) [of "config_roots_json (sn_GlobalScan (rc_Scanning cfg))"] decode_config_roots_json
    by (simp add: entry_documents_def Normalize_def Let_def)
  have "atoi (trim_space (decimal 1)) = Some 1" by code_simp
  moreover have "calm (view ins_registry w')" using assms(2) by (simp add: view_def calm_def)
  moreover have "db (view ins_registry w') = ins_registry (db w')" by (simp add: view_def)
  ultimately have "fst (ConfigInt ''workers.concurrency'' (view ins_registry w')) = Inr 1"
    using config_value_entry_map [OF stored(7)] by (simp add: ConfigInt_def fetch_def query_calm andThen_Inr_eq ret_def)
  with settings roots config_value_entry_map [OF stored(6)] show ?thesis by (simp add: imported_settings_def)
qed

section \<open>An import that succeeds\<close>

lemma for_each_exec_calm:
  assumes "calm w" and "\<And>k. chk (fold (\<lambda>x d. snd (st x d)) (take k xs) (db w)) = None"
  shows "\<exists>w'. for_each xs (\<lambda>x. exec chk (st x)) w = (Inr (), w') \<and> calm w' \<and>
    db w' = fold (\<lambda>x d. snd (st x d)) xs (db w)"
  using assms
proof (induction xs arbitrary: w)
  case (Cons x xs)
  let ?w1 = "(step_tick w)\<lparr>db := snd (st x (db w))\<rparr>"
  have "chk (snd (st x (db w))) = None" using Cons.prems(2) [of 1] by simp
  then have 1: "exec chk (st x) w = (Inr (fst (st x (db w))), ?w1)" using Cons.prems(1) by (simp add: exec_calm)
  have "chk (fold (\<lambda>x d. snd (st x d)) (take k xs) (db ?w1)) = None" for k
    using Cons.prems(2) [of "Suc k"] by simp
  with Cons.IH [of ?w1] Cons.prems(1) show ?case by (simp add: andThen_Inr_eq [where m = "exec chk (st x)", OF 1])
qed (simp add: ret_def)

lemma put_entries_fresh:
  "distinct (map en_Key es) \<Longrightarrow> ce_key ` set rows \<inter> en_Key ` set es = {} \<Longrightarrow>
     fold (\<lambda>e. put_entry env e t updatedBy) es rows = rows @ map (\<lambda>e. entry_row env e ''system'' 1 (Trimmed t) updatedBy) es"
proof (induction es arbitrary: rows)
  case (Cons e es)
  have "put_entry env e t updatedBy rows = rows @ [entry_row env e ''system'' 1 (Trimmed t) updatedBy]"
  proof -
    have "\<not> list_ex (\<lambda>r. ce_key r = en_Key e \<and> ce_scope r = ''system'') rows"
      using Cons.prems(2) by (force simp: list_ex_iff)
    then show ?thesis by (simp add: put_entry_def Let_def)
  qed
  with Cons show ?case by (auto simp: entry_row_def)
qed simp

lemma unique_by_map_distinct: "unique_by (\<lambda>x. Some (f x)) xs \<longleftrightarrow> distinct (map f xs)"
  by (induction xs) (auto simp: unique_by_Cons image_iff)

lemma entries_fresh_ok:
  assumes "installation_ok d" and "distinct (map (\<lambda>e. stableID env [''config'', en_Key e, ''system'']) es)"
    and "distinct (map en_Key es)"
  shows "installation_ok (snd (on_entries (\<lambda>_. map (\<lambda>e. entry_row env e ''system'' 1 (Trimmed t) updatedBy) es) d))"
proof -
  let ?rows = "map (\<lambda>e. entry_row env e ''system'' 1 (Trimmed t) updatedBy) es"
  have "map ce_id ?rows = map (\<lambda>e. stableID env [''config'', en_Key e, ''system'']) es"
    by (simp add: entry_row_def)
  moreover have "distinct (map (\<lambda>r. (ce_key r, ce_scope r)) ?rows)"
    using assms(3) by (simp add: distinct_map inj_on_def entry_row_def)
  ultimately have "unique_by (\<lambda>r. Some (ce_id r)) ?rows" "unique_by (\<lambda>r. Some (ce_key r, ce_scope r)) ?rows"
    using assms(2) unfolding unique_by_map_distinct by (simp_all only:)
  with assms(1) show ?thesis
    by (auto simp: on_entries_def installation_violation_def registry_violation_def registry_uniques_def
        registry_foreign_keys_def registry_checks_def installation_foreign_keys_def installation_uniques_def
        split: option.splits if_splits)
qed

definition fresh_installation :: "installation \<Rightarrow> bool" where
  "fresh_installation d \<longleftrightarrow>
     installation_ok d \<and> config_entries (ins_registry d) = [] \<and> storage_profiles d = [] \<and> provider_settings d = []"

lemma keep_storage_fresh:
  assumes "calm w" and "installation_ok (db w)" and "storage_profiles (db w) = []" and "provider_settings (db w) = []"
  shows "\<exists>w'. keep_storage env p None t w = (Inr (), w') \<and> calm w'"
proof -
  let ?i = "storageProfileID env ''current'' (pf_fingerprint p)"
  let ?d1 = "snd (on_profiles (\<lambda>_. [profile_for ?i ''current'' ''active'' p t]) (db w))"
  let ?w1 = "(step_tick w)\<lparr>db := ?d1\<rparr>"
  have ok1: "installation_ok ?d1"
    using assms(2-4) by (auto simp: on_profiles_def installation_violation_def installation_uniques_def
        installation_foreign_keys_def unique_by_Cons split: option.splits if_splits)
  have "exec installation_violation (on_profiles (put_profile (profile_for ?i ''current'' ''active'' p t))) w = (Inr (), ?w1)"
    using assms(1,3) ok1 by (subst exec_calm) (simp_all add: on_profiles_def put_profile_def)
  then have 1: "upsertStorageProfile env ?i ''current'' (pf_provider p) (pf_engineFlavor p) (pf_payload p)
      (pf_fingerprint p) ''active'' [] t w = (Inr ?i, ?w1)"
    by (simp add: upsertStorageProfile_def storageProfileID_nonempty Let_def null_if_empty_def profile_for_def
        andThen_Inr_eq ret_def)
  let ?d2 = "snd (on_settings (put_settings (settings_for env ?i (pf_provider p) t)) ?d1)"
  have "installation_ok ?d2"
    using ok1 assms(4) by (auto simp: on_profiles_def on_settings_def put_settings_def profile_for_def settings_for_def
        installation_violation_def installation_uniques_def installation_foreign_keys_def unique_by_Cons Let_def
        split: option.splits if_splits)
  then have "upsertStorageProviderSettingsForProfile env ?i (pf_provider p) t ?w1 = (Inr (), (step_tick ?w1)\<lparr>db := ?d2\<rparr>)"
    using assms(1) unfolding upsertStorageProviderSettingsForProfile_def
    by (subst exec_calm) (simp_all add: on_settings_def)
  then show ?thesis
    using assms(1) by (simp add: keep_storage_def andThen_def 1 Let_def)
qed

lemma upsert_entries_fresh:
  assumes "calm w" and "installation_ok (db w)" and "distinct (map en_Key (es0 @ es))"
    and "distinct (map (\<lambda>e. stableID env [''config'', en_Key e, ''system'']) (es0 @ es))"
    and "config_entries (ins_registry (db w)) = map (\<lambda>e. entry_row env e ''system'' 1 (Trimmed t) updatedBy) es0"
  shows "\<exists>w'. upsert_entries env es t updatedBy w = (Inr (), w') \<and> calm w' \<and> installation_ok (db w') \<and>
    db w' = snd (on_entries (\<lambda>_. map (\<lambda>e. entry_row env e ''system'' 1 (Trimmed t) updatedBy) (es0 @ es)) (db w))"
proof -
  let ?row = "\<lambda>e. entry_row env e ''system'' 1 (Trimmed t) updatedBy"
  have fold_entries: "fold (\<lambda>e d. snd (on_entries (put_entry env e t updatedBy) d)) es d =
      snd (on_entries (fold (\<lambda>e. put_entry env e t updatedBy) es) d)" for es d
    by (induction es arbitrary: d) (simp_all add: on_entries_def)
  have entries: "fold (\<lambda>e d. snd (on_entries (put_entry env e t updatedBy) d)) (take k es) (db w) =
      snd (on_entries (\<lambda>_. map ?row (es0 @ take k es)) (db w))" for k
  proof -
    have "ce_key ` set (map ?row es0) \<inter> en_Key ` set (take k es) = {}"
      using assms(3) set_take_subset [of k es] by (fastforce simp: entry_row_def)
    moreover have "distinct (map en_Key (take k es))"
      using assms(3) by (simp add: take_map [symmetric])
    ultimately show ?thesis
      unfolding fold_entries by (simp add: on_entries_def assms(5) put_entries_fresh)
  qed
  have ok: "installation_ok (fold (\<lambda>e d. snd (on_entries (put_entry env e t updatedBy) d)) (take k es) (db w))" for k
  proof -
    have "distinct (map f (es0 @ take k es))" if "distinct (map f (es0 @ es))" for f :: "Entry \<Rightarrow> bytes"
      using distinct_take [OF that, of "length es0 + k"] by (simp add: take_map [symmetric])
    then show ?thesis unfolding entries using assms(2-4) by (intro entries_fresh_ok)
  qed
  from for_each_exec_calm [of w installation_violation "\<lambda>e. on_entries (put_entry env e t updatedBy)" es, OF assms(1) ok]
  show ?thesis using entries [of "length es"] ok [of "length es"]
    by (auto simp: upsert_entries_def upsertConfigEntry_def)
qed

lemma Flatten_ids:
  assumes "distinct (map (\<lambda>k. stableID env [''config'', k, ''system'']) config_keys)" and "en_Key ` set es \<subseteq> set config_keys"
    and "distinct (map en_Key es)"
  shows "distinct (map (\<lambda>e. stableID env [''config'', en_Key e, ''system'']) es)"
proof -
  have "inj_on (\<lambda>k. stableID env [''config'', k, ''system'']) (set config_keys)"
    using assms(1) by (simp add: distinct_map)
  then have "inj_on ((\<lambda>k. stableID env [''config'', k, ''system'']) \<circ> en_Key) (set es)"
    using assms(3) inj_on_subset [OF _ assms(2)] by (intro comp_inj_on) (simp_all add: distinct_map)
  then show ?thesis using assms(3) by (simp add: distinct_map comp_def)
qed

text \<open>A valid configuration of a sqlite database is imported into a fresh installation.\<close>

lemma Import_fresh:
  assumes "calm w" and "fresh_installation (db w)" and "Validate cfg = Inr ()"
    and "\<not> ed_Enabled (rc_ExternalDatabase cfg)"
    and "distinct (map (\<lambda>k. stableID env [''config'', k, ''system'']) config_keys)"
  shows "\<exists>res w'. Import env cfg None updatedBy w = (Inr res, w') \<and> calm w'"
proof -
  let ?es = "Flatten env cfg" and ?p = "StorageProfile env cfg"
  let ?t = "clk w (Suc (tick w))"
  let ?w = "step_tick (step_tick (step_tick w))"
  note fresh = assms(2) [unfolded fresh_installation_def]
  from upsert_entries_fresh [of ?w "[]" ?es env ?t updatedBy] obtain w1 where
    w1: "upsert_entries env ?es ?t updatedBy ?w = (Inr (), w1)" "calm w1" "installation_ok (db w1)"
      "storage_profiles (db w1) = []" "provider_settings (db w1) = []"
    using assms(1) fresh Flatten_ids [OF assms(5), of ?es] Flatten_keys [of env cfg] by (auto simp: on_entries_def)
  have "\<exists>w2. keep_storage env ?p None ?t w1 = (Inr (), w2) \<and> calm w2"
    using w1(2-5) by (rule keep_storage_fresh)
  then obtain w2 where w2: "keep_storage env ?p None ?t w1 = (Inr (), w2)" "calm w2" by blast
  have "import_tx env ?es ?p None None None ?t updatedBy ?w = (Inr (), w2)"
    by (simp add: import_tx_def andThen_def w1(1) w2(1) ret_def)
  moreover have "current_or_none w = (Inr None, step_tick w)"
    using assms(1) fresh by (simp add: current_or_none_def CurrentStorageProfile_def storageProfile_def query_calm
        andThen_Inr_eq outcome_def andThen_def fail_def ret_def)
  ultimately show ?thesis
    using assms(1,3,4) w2(2)
    by (simp add: Import_def andThen_Inr_eq WithTx_def now_def ret_def Let_def)
qed

section \<open>A sample\<close>

definition sample_external :: ExternalDatabase where
  "sample_external = \<lparr>ed_Enabled = True, ed_Provider = ''postgresql'', ed_EngineFlavor = ''standard'', ed_Host = ''db'',
     ed_Port = 54, ed_Username = ''secretref://env/U'', ed_Password = ''secretref://env/P'', ed_DatabaseName = ''t''\<rparr>"

definition sample_roots :: "config_root list option" where
  "sample_roots = Some [\<lparr>cg_Name = ''infra'', cg_RootPath = ''/srv/infra'', cg_Schedule = True, cg_Frequency = ''daily''\<rparr>]"

text \<open>A codec for the documents of the samples.\<close>

fun sample_text :: "json \<Rightarrow> bytes" where
  "sample_text JNull = ''null''"
| "sample_text (JArray (JObject _ # _)) = ''R''"
| "sample_text (JArray (JString x # _)) = (if x = ''core'' then ''M'' else ''S'')"
| "sample_text (JObject ((x, _) # _)) = (if x = ''enabled'' then ''E'' else ''D'')"
| "sample_text _ = ''{}''"

definition sample_doc :: "bytes \<Rightarrow> raw" where
  "sample_doc t =
     (if t = ''null'' then Doc JNull else if t = ''R'' then Doc (config_roots_json sample_roots)
      else if t = ''S'' then Doc (strings_json (Some [''tflint'', ''trivy'']))
      else if t = ''M'' then Doc (strings_json (Some [''core'', ''web'']))
      else if t = ''D'' then Doc (database_json \<lparr>da_DatabaseType = ''sqlite'', da_DatabasePath = ''/var/lib//t.db''\<rparr>)
      else if t = ''E'' then Doc (external_json sample_external) else Malformed ''invalid character'')"

definition config_sample_env :: config_env where
  "config_sample_env = \<lparr>cv_marshal = sample_text, cv_parse = sample_doc,
     cv_hash = (\<lambda>s. s), cv_lower = (\<lambda>s. s), cv_getenv = (\<lambda>_. None)\<rparr>"

definition sample_config :: RuntimeConfig where
  "sample_config = \<lparr>rc_SystemSettings = \<lparr>ss_AppName = ''t-helper'', ss_Version = ''0.1.0'', ss_Mode = ''local''\<rparr>,
     rc_Database = \<lparr>da_DatabaseType = ''sqlite'', da_DatabasePath = ''/var/lib//t.db''\<rparr>,
     rc_ExternalDatabase = no_external,
     rc_Scanning = \<lparr>sn_GlobalScan = sample_roots,
       sn_Security = Some [''tflint'', ''trivy''], sn_Toolchain = \<lparr>tc_VersionPolicy = [], tc_ProfilePaths = None\<rparr>\<rparr>,
     rc_Repositories = \<lparr>rs_DefaultAuthType = ''ssh'', rs_PollInterval = ''5m'', rs_AutoSyncDefault = False\<rparr>,
     rc_ActiveRuleSetID = None, rc_ListenAddress = ''127.0.0.1:8080'', rc_LocalEnabled = True,
     rc_Workers = \<lparr>wk_Enabled = True, wk_Concurrency = 1\<rparr>, rc_Modules = Some [''core'', ''web''],
     rc_Logging = \<lparr>lg_Level = ''info'', lg_Format = ''json'', lg_LogPath = ''/var/log/t.log''\<rparr>\<rparr>"

lemma sample_valid: "Validate sample_config = Inr ()"
  by code_simp

definition fresh_db :: installation where
  "fresh_db = \<lparr>ins_registry = empty_registry, ins_modules = \<lparr>module_table = []\<rparr>, storage_profiles = [],
     provider_settings = [], environments = [], workspaces = []\<rparr>"

definition config_world :: "'d \<Rightarrow> 'd world" where
  "config_world d = \<lparr>db = d, handle_Provider = ''sqlite'', clk = (\<lambda>_. 0), flt = (\<lambda>_. NoFault),
     ent = (\<lambda>_. []), tick = 0\<rparr>"

lemma config_world_simps [simp]: "calm (config_world d)" "db (config_world d) = d" "clk (config_world d) n = 0"
  by (simp_all add: config_world_def calm_def)

lemma fresh_db_fresh: "fresh_installation fresh_db" "system_rows fresh_db = []"
  by (simp_all add: fresh_db_def fresh_installation_def installation_violation_def installation_uniques_def
      installation_foreign_keys_def registry_violation_def registry_checks_def registry_uniques_def
      registry_foreign_keys_def empty_registry_def modules_violation_def system_rows_def)

lemma sample_ids: "distinct (map (\<lambda>k. stableID config_sample_env [''config'', k, ''system'']) config_keys)"
  by code_simp

lemma sample_codec_law:
  "j \<in> set (entry_documents (Normalize sample_config)) \<Longrightarrow> cv_parse config_sample_env (cv_marshal config_sample_env j) = Doc j"
proof -
  have "\<forall>j \<in> set (entry_documents (Normalize sample_config)). cv_parse config_sample_env (cv_marshal config_sample_env j) = Doc j"
    by code_simp
  then show "j \<in> set (entry_documents (Normalize sample_config)) \<Longrightarrow> ?thesis" by (rule bspec)
qed

lemma sample_import:
  obtains res w' where "Import config_sample_env sample_config None ''cli'' (config_world fresh_db) = (Inr res, w')" and "calm w'"
  using Import_fresh [of "config_world fresh_db" sample_config config_sample_env "''cli''"] sample_valid sample_ids fresh_db_fresh
  by (auto simp: sample_config_def no_external_def)

lemma ActiveConfig_shows_import_witness:
  "\<exists>res w' m w''. Import config_sample_env sample_config None ''cli'' (config_world fresh_db) = (Inr res, w') \<and>
     ActiveConfig config_sample_env w' = (Inr m, w'') \<and>
     lookup_path m [''scanning'', ''toolchain'', ''version_policy''] = Some (JString ''certified_only'') \<and>
     lookup_path m [''database'', ''database_path''] = Some (JString ''/var/lib/t.db'')"
proof -
  obtain res w' where w': "Import config_sample_env sample_config None ''cli'' (config_world fresh_db) = (Inr res, w')" "calm w'"
    by (rule sample_import)
  have port: "ed_Port (rc_ExternalDatabase sample_config) = 0" by (simp add: sample_config_def no_external_def)
  from ActiveConfig_shows_import [OF w' _ sample_codec_law] port fresh_db_fresh(2) obtain m w'' where
    m: "ActiveConfig config_sample_env w' = (Inr m, w'')"
      "\<forall>(path, v) \<in> set (config_document (Normalize sample_config)).
         storage_changed config_sample_env sample_config fresh_db \<and> hd path \<in> {''database'', ''external_databases''} \<or>
         lookup_path m path = Some v" by auto
  have kept: "\<not> storage_changed config_sample_env sample_config fresh_db" by code_simp
  have shown: "lookup_path m path = Some v" if "(path, v) \<in> set (config_document (Normalize sample_config))" for path v
    using bspec [OF m(2) that] kept by simp
  have "lookup_path m [''scanning'', ''toolchain'', ''version_policy''] = Some (JString ''certified_only'')"
    "lookup_path m [''database'', ''database_path''] = Some (JString ''/var/lib/t.db'')"
    by (rule shown, code_simp)+
  with w'(1) m(1) show ?thesis by blast
qed

lemma Import_read_back_witness:
  "\<exists>res w'. Import config_sample_env sample_config None ''cli'' (config_world fresh_db) = (Inr res, w') \<and>
     fst (ConfigInt ''workers.concurrency'' (view ins_registry w')) = Inr 1"
proof -
  obtain res w' where w': "Import config_sample_env sample_config None ''cli'' (config_world fresh_db) = (Inr res, w')" "calm w'"
    by (rule sample_import)
  from Import_read_back [OF w' sample_codec_law] w'(1) show ?thesis by blast
qed

end
