(* ===== verification/Config_Migration_Facts.thy ===== *)
theory Config_Migration_Facts
  imports Config_Migration Config_Import_Facts
begin

text \<open>
  What a migration copies, what it leaves, and what it needs of the target.
\<close>

section \<open>Operations on one of the two databases\<close>

lemma on_source_Inr:
  assumes "on_source m w = (Inr x, w')"
  obtains w1 where "m (view mg_source w) = (Inr x, w1)" and "db w' = (db w)\<lparr>mg_source := db w1\<rparr>"
  using assms by (auto simp: on_source_def zoom_def split: prod.splits)

lemma on_target_Inr:
  assumes "on_target p m w = (Inr x, w')"
  obtains w1 where "m (view mg_target (w\<lparr>handle_Provider := p\<rparr>)) = (Inr x, w1)"
    and "db w' = (db w)\<lparr>mg_target := db w1\<rparr>"
  using assms by (auto simp: on_target_def zoom_def split: prod.splits)

lemma db_view [simp]: "db (view get w) = get (db w)"
  by (simp add: view_def)

lemma on_target_exec_Inr:
  assumes "on_target p (iexec st) w = (Inr x, w')"
  shows "db w' = (db w)\<lparr>mg_target := snd (st (mg_target (db w)))\<rparr> \<and>
    installation_ok (snd (st (mg_target (db w))))"
  using assms by (elim on_target_Inr) (auto simp: exec_Inr_iff)

lemma for_each_target_Inr:
  "for_each xs (\<lambda>r. on_target p (iexec (ins r))) w = (Inr u, w') \<Longrightarrow>
     db w' = (db w)\<lparr>mg_target := fold (\<lambda>r d. snd (ins r d)) xs (mg_target (db w))\<rparr> \<and>
     (\<forall>k < length xs. installation_ok (fold (\<lambda>r d. snd (ins r d)) (take (Suc k) xs) (mg_target (db w))))"
proof (induction xs arbitrary: w)
  case (Cons r xs)
  from Cons.prems obtain x w1 where 1: "on_target p (iexec (ins r)) w = (Inr x, w1)"
    and 2: "for_each xs (\<lambda>r. on_target p (iexec (ins r))) w1 = (Inr u, w')"
    unfolding for_each.simps by (elim andThen_InrE)
  note one = on_target_exec_Inr [OF 1] and rest = Cons.IH [OF 2]
  have "installation_ok (fold (\<lambda>r d. snd (ins r d)) (take (Suc k) (r # xs)) (mg_target (db w)))"
    if "k < length (r # xs)" for k
    using that one rest by (cases k) simp_all
  with one rest show ?case by simp
qed simp

lemma copy_table_Inr:
  assumes "copy_table p rows ins w = (Inr u, w')"
  shows "db w' = (db w)\<lparr>mg_target := fold (\<lambda>r d. snd (ins r d)) (rows (mg_source (db w))) (mg_target (db w))\<rparr> \<and>
    (\<forall>k < length (rows (mg_source (db w))).
       installation_ok (fold (\<lambda>r d. snd (ins r d)) (take (Suc k) (rows (mg_source (db w)))) (mg_target (db w))))"
proof -
  from assms obtain rs w1 where 1: "on_source (query rows) w = (Inr rs, w1)"
    and 2: "for_each rs (\<lambda>r. on_target p (iexec (ins r))) w1 = (Inr u, w')"
    unfolding copy_table_def by (elim andThen_InrE)
  from 1 have "rs = rows (mg_source (db w))" "db w1 = db w"
    by (auto elim!: on_source_Inr simp: query_Inr_iff)
  with for_each_target_Inr [OF 2] show ?thesis by simp
qed

section \<open>The copied tables\<close>

definition clear_db :: "installation \<Rightarrow> installation" where
  "clear_db d = d\<lparr>ins_registry := (ins_registry d)\<lparr>ignore_rules := [], config_entries := [], project_links := [],
       projects := [], repositories := [], root_paths := []\<rparr>,
     ins_modules := \<lparr>module_table = []\<rparr>, storage_profiles := [], provider_settings := [], environments := [],
     workspaces := []\<rparr>"

definition copied_entries :: "config_env \<Rightarrow> instant \<Rightarrow> Entry list \<Rightarrow> config_row list \<Rightarrow> config_row list" where
  "copied_entries env t es rows =
     map (\<lambda>r. entry_row env (row_entry r) (ce_scope r) (ce_version r) (ce_updated_at r) (ce_updated_by r))
       (filter (\<lambda>r. \<not> isStorageKey (ce_key r)) (order_asc (\<lambda>r. (ce_key r, ce_scope r)) rows)) @
     map (\<lambda>e. entry_row env e ''system'' 1 (Trimmed t) ''storage_migration'') es"

definition default_of :: "project_row \<Rightarrow> bytes option" where
  "default_of r = (let d = coalesce (pj_default_workspace_id r) in if blank d then None else Some d)"

definition migrated_project :: "project_row \<Rightarrow> project_row" where
  "migrated_project r = (copied_project r)\<lparr>pj_default_workspace_id := default_of r\<rparr>"

definition profile_row_of :: "bytes \<Rightarrow> bytes \<Rightarrow> bytes \<Rightarrow> bytes \<Rightarrow> StorageProfileRecord \<Rightarrow> instant \<Rightarrow> profile_row" where
  "profile_row_of i slot status from profile t =
     \<lparr>sp_id = i, sp_slot = slot, sp_provider = pr_Provider profile,
      sp_engine_flavor = null_if_empty (pr_EngineFlavor profile), sp_status = status,
      sp_config_payload = pr_ConfigPayload profile, sp_fingerprint = pr_DatabaseFingerprint profile,
      sp_last_migrated_from = null_if_empty from, sp_created_at = Trimmed t, sp_updated_at = Trimmed t\<rparr>"

definition migrated ::
    "config_env \<Rightarrow> StorageProfileRecord \<Rightarrow> StorageProfileRecord \<Rightarrow> Entry list \<Rightarrow> instant \<Rightarrow> installation \<Rightarrow>
     installation \<Rightarrow> installation" where
  "migrated env current migration es t src tgt =
     tgt\<lparr>ins_registry := (ins_registry tgt)
         \<lparr>ignore_rules := map copied_rule (order_asc (\<lambda>r. (ig_sort_order r, ig_id r)) (ignore_rules (ins_registry src))),
          config_entries := copied_entries env t es (config_entries (ins_registry src)),
          project_links := map copied_link (order_asc pl_id (project_links (ins_registry src))),
          projects := map migrated_project (order_asc pj_id (projects (ins_registry src))),
          repositories := map copied_repository (order_asc rr_id (repositories (ins_registry src))),
          root_paths := map copied_root (order_asc rp_id (root_paths (ins_registry src)))\<rparr>,
        ins_modules := \<lparr>module_table = order_asc mr_id (module_table (ins_modules src))\<rparr>,
        storage_profiles :=
          [profile_row_of (stableID env [''storage-profile'', ''historical'', pr_ID current, formatTimeNano t])
             ''historical'' ''superseded'' [] current t,
           profile_row_of (pr_ID migration) ''current'' ''active'' (pr_ID current) migration t],
        provider_settings := [settings_for env (pr_ID migration) (pr_Provider migration) t],
        environments := map copied_environment (order_asc nv_id (environments src)),
        workspaces := order_asc ws_id (workspaces src)\<rparr>"

lemma clear_Inr:
  assumes "on_target p clearStage02Tables w = (Inr u, w1)" and "on_target p clearStage04Tables w1 = (Inr v, w2)"
  shows "db w2 = (db w)\<lparr>mg_target := clear_db (mg_target (db w))\<rparr>"
proof -
  have each: "db y' = fold (\<lambda>st d. snd (st d)) sts (db y)" if "for_each sts iexec y = (Inr u, y')" for sts y y' and u :: unit
    using that
  proof (induction sts arbitrary: y)
    case (Cons st sts)
    then show ?case unfolding for_each.simps by (elim exec_thenE) (use Cons.IH in auto)
  qed simp
  from assms(1) have "db w1 = (db w)\<lparr>mg_target := fold (\<lambda>st d. snd (st d))
      [on_ignore (\<lambda>_. []), (\<lambda>d. ((), d\<lparr>ins_modules := (ins_modules d)\<lparr>module_table := []\<rparr>\<rparr>)),
        on_settings (\<lambda>_. []), on_profiles (\<lambda>_. []), on_entries (\<lambda>_. [])] (mg_target (db w))\<rparr>"
    unfolding clearStage02Tables_def by (elim on_target_Inr) (drule each, simp)
  moreover from assms(2) have "db w2 = (db w1)\<lparr>mg_target := fold (\<lambda>st d. snd (st d))
      [on_registry_table (\<lambda>g. g\<lparr>project_links := []\<rparr>),
        on_registry_table (\<lambda>g. g\<lparr>projects := map (\<lambda>r. r\<lparr>pj_default_workspace_id := None\<rparr>) (projects g)\<rparr>),
        (\<lambda>d. ((), d\<lparr>workspaces := []\<rparr>)), on_registry_table (\<lambda>g. g\<lparr>projects := []\<rparr>),
        on_registry_table (\<lambda>g. g\<lparr>repositories := []\<rparr>), (\<lambda>d. ((), d\<lparr>environments := []\<rparr>)),
        on_registry_table (\<lambda>g. g\<lparr>root_paths := []\<rparr>)] (mg_target (db w1))\<rparr>"
    unfolding clearStage04Tables_def by (elim on_target_Inr) (drule each, simp)
  ultimately show ?thesis
    by (simp add: clear_db_def on_ignore_def on_settings_def on_profiles_def on_entries_def on_registry_table_def)
qed

lemma fold_inserts:
  "fold (\<lambda>r d. snd (on_ignore (\<lambda>xs. xs @ [f1 r]) d)) rs1 d = snd (on_ignore (\<lambda>xs. xs @ map f1 rs1) d)"
  "fold (\<lambda>r d. snd ((), d\<lparr>ins_modules := (ins_modules d)\<lparr>module_table := module_table (ins_modules d) @ [r]\<rparr>\<rparr>)) rs2 d =
     d\<lparr>ins_modules := (ins_modules d)\<lparr>module_table := module_table (ins_modules d) @ rs2\<rparr>\<rparr>"
  "fold (\<lambda>r d. snd (on_registry_table (\<lambda>g. g\<lparr>root_paths := root_paths g @ [f3 r]\<rparr>) d)) rs3 d =
     snd (on_registry_table (\<lambda>g. g\<lparr>root_paths := root_paths g @ map f3 rs3\<rparr>) d)"
  "fold (\<lambda>r d. snd ((), d\<lparr>environments := environments d @ [f4 r]\<rparr>)) rs4 d = d\<lparr>environments := environments d @ map f4 rs4\<rparr>"
  "fold (\<lambda>r d. snd (on_registry_table (\<lambda>g. g\<lparr>repositories := repositories g @ [f5 r]\<rparr>) d)) rs5 d =
     snd (on_registry_table (\<lambda>g. g\<lparr>repositories := repositories g @ map f5 rs5\<rparr>) d)"
  "fold (\<lambda>r d. snd (on_registry_table (\<lambda>g. g\<lparr>projects := projects g @ [f6 r]\<rparr>) d)) rs6 d =
     snd (on_registry_table (\<lambda>g. g\<lparr>projects := projects g @ map f6 rs6\<rparr>) d)"
  "fold (\<lambda>r d. snd ((), d\<lparr>workspaces := workspaces d @ [r]\<rparr>)) rs7 d = d\<lparr>workspaces := workspaces d @ rs7\<rparr>"
  "fold (\<lambda>r d. snd (on_registry_table (\<lambda>g. g\<lparr>project_links := project_links g @ [f8 r]\<rparr>) d)) rs8 d =
     snd (on_registry_table (\<lambda>g. g\<lparr>project_links := project_links g @ map f8 rs8\<rparr>) d)"
  subgoal by (induction rs1 arbitrary: d) (simp_all add: on_ignore_def)
  subgoal by (induction rs2 arbitrary: d) simp_all
  subgoal by (induction rs3 arbitrary: d) (simp_all add: on_registry_table_def)
  subgoal by (induction rs4 arbitrary: d) simp_all
  subgoal by (induction rs5 arbitrary: d) (simp_all add: on_registry_table_def)
  subgoal by (induction rs6 arbitrary: d) (simp_all add: on_registry_table_def)
  subgoal by (induction rs7 arbitrary: d) simp_all
  subgoal by (induction rs8 arbitrary: d) (simp_all add: on_registry_table_def)
  done

lemma fold_defaults:
  "fold (\<lambda>x d. snd (set_default_workspace x d)) ds d =
     snd (on_registry_table (\<lambda>g. g\<lparr>projects := fold (\<lambda>(i, ws) ps.
       update_where (\<lambda>r. pj_id r = i) (\<lambda>r. r\<lparr>pj_default_workspace_id := Some ws\<rparr>) ps) ds (projects g)\<rparr>) d)"
  by (induction ds arbitrary: d) (simp_all add: set_default_workspace_def on_registry_table_def split_beta)

lemma copyConfigEntries_Inr:
  assumes "copyConfigEntries env p migration t w = (Inr u, w')"
  shows "\<exists>es. storageEntriesFromProfile env (pr_Provider migration) (pr_ConfigPayload migration) = Inr es \<and>
    db w' = (db w)\<lparr>mg_target := snd (on_entries (\<lambda>rows. rows @ copied_entries env t es
      (config_entries (ins_registry (mg_source (db w))))) (mg_target (db w)))\<rparr>"
proof -
  let ?sorted = "order_asc (\<lambda>r. (ce_key r, ce_scope r)) (config_entries (ins_registry (mg_source (db w))))"
  let ?kept = "filter (\<lambda>r. \<not> isStorageKey (ce_key r)) ?sorted"
  from assms obtain rows w1 x w2 es w3 where 1: "on_source (query (\<lambda>d. order_asc (\<lambda>r. (ce_key r, ce_scope r))
      (config_entries (ins_registry d)))) w = (Inr rows, w1)"
    and 2: "for_each (filter (\<lambda>r. \<not> isStorageKey (ce_key r)) rows) (\<lambda>r.
      insertConfigEntry env p (row_entry r) (ce_scope r) (ce_version r) (ce_updated_at r) (ce_updated_by r)) w1 = (Inr x, w2)"
    and 3: "lift_result EMessage (storageEntriesFromProfile env (pr_Provider migration) (pr_ConfigPayload migration)) w2 = (Inr es, w3)"
    and 4: "for_each es (\<lambda>e. insertConfigEntry env p e ''system'' 1 (Trimmed t) ''storage_migration'') w3 = (Inr u, w')"
    unfolding copyConfigEntries_def by (elim andThen_InrE)
  from 1 have rows: "rows = ?sorted" "db w1 = db w" by (auto elim!: on_source_Inr simp: query_Inr_iff)
  from 3 have es: "storageEntriesFromProfile env (pr_Provider migration) (pr_ConfigPayload migration) = Inr es" "w3 = w2"
    by (auto simp: lift_result_Inr_iff)
  have put: "fold (\<lambda>r d. snd (on_entries (\<lambda>rows. rows @ [f r]) d)) rs d = snd (on_entries (\<lambda>rows. rows @ map f rs) d)"
    for f and rs :: "'b list" and d
    by (induction rs arbitrary: d) (simp_all add: on_entries_def)
  note kept = for_each_target_Inr [OF 2 [unfolded insertConfigEntry_def], THEN conjunct1, unfolded put]
  note storage = for_each_target_Inr [OF 4 [unfolded insertConfigEntry_def], THEN conjunct1, unfolded put]
  show ?thesis
    using es kept storage rows by (simp add: copied_entries_def on_entries_def)
qed

text \<open>The rows of the projects, first without and then with their default workspaces.\<close>

lemma set_defaults:
  assumes "distinct (map pj_id rows)"
  shows "fold (\<lambda>(i, ws) ps. update_where (\<lambda>r. pj_id r = i) (\<lambda>r. r\<lparr>pj_default_workspace_id := Some ws\<rparr>) ps)
      (map (\<lambda>r. (pj_id r, coalesce (pj_default_workspace_id r)))
         (filter (\<lambda>r. \<not> blank (coalesce (pj_default_workspace_id r))) rows)) (map copied_project rows)
    = map migrated_project rows"
proof -
  let ?step = "\<lambda>(i, ws) ps. update_where (\<lambda>r. pj_id r = i) (\<lambda>r. r\<lparr>pj_default_workspace_id := Some ws\<rparr>) ps"
  let ?ds = "\<lambda>xs. map (\<lambda>r. (pj_id r, coalesce (pj_default_workspace_id r)))
      (filter (\<lambda>r. \<not> blank (coalesce (pj_default_workspace_id r))) xs)"
  have apart: "fold ?step ds (p # ps) = p # fold ?step ds ps" if "pj_id p \<notin> fst ` set ds" for ds p ps
    using that by (induction ds arbitrary: ps) (auto simp: update_where_def)
  have id: "pj_id (copied_project r) = pj_id r" "pj_id (migrated_project r) = pj_id r" for r
    by (simp_all add: copied_project_def migrated_project_def)
  show ?thesis
    using assms
  proof (induction rows)
    case (Cons r rows)
    have out: "pj_id r \<notin> fst ` set (?ds rows)" using Cons.prems by auto
    have rest: "fold ?step (?ds rows) (q # map copied_project rows) = q # map migrated_project rows" if "pj_id q = pj_id r" for q
      using apart [of q "?ds rows"] out that Cons by simp
    have same: "update_where (\<lambda>x. pj_id x = pj_id r) f (map copied_project rows) = map copied_project rows" for f
      unfolding update_where_def using Cons.prems by (intro map_idI) (auto simp: id dest: image_eqI [where f = pj_id, OF sym])
    show ?case
    proof (cases "blank (coalesce (pj_default_workspace_id r))")
      case True
      then have "copied_project r = migrated_project r"
        by (simp add: copied_project_def migrated_project_def default_of_def)
      with True rest [of "copied_project r"] show ?thesis by (simp add: id)
    next
      case False
      let ?q = "(copied_project r)\<lparr>pj_default_workspace_id := Some (coalesce (pj_default_workspace_id r))\<rparr>"
      have "?q = migrated_project r" using False by (simp add: migrated_project_def default_of_def Let_def)
      moreover have "?step (pj_id r, coalesce (pj_default_workspace_id r)) (map copied_project (r # rows)) = ?q # map copied_project rows"
        using same by (simp add: id update_where_def)
      ultimately show ?thesis using False rest [of ?q] by (simp add: id)
    qed
  qed simp
qed

section \<open>The copy\<close>

lemma copyProjects_Inr:
  assumes "copyProjects p w = (Inr ds, w')"
  shows "ds = map (\<lambda>r. (pj_id r, coalesce (pj_default_workspace_id r)))
      (filter (\<lambda>r. \<not> blank (coalesce (pj_default_workspace_id r))) (order_asc pj_id (projects (ins_registry (mg_source (db w)))))) \<and>
    db w' = (db w)\<lparr>mg_target := snd (on_registry_table (\<lambda>g. g\<lparr>projects := projects g @
      map copied_project (order_asc pj_id (projects (ins_registry (mg_source (db w)))))\<rparr>) (mg_target (db w)))\<rparr>"
proof -
  from assms obtain rows w1 x w2 where
    1: "on_source (query (\<lambda>d. order_asc pj_id (projects (ins_registry d)))) w = (Inr rows, w1)" and
    2: "for_each rows (\<lambda>r. on_target p (iexec (on_registry_table
         (\<lambda>g. g\<lparr>projects := projects g @ [copied_project r]\<rparr>)))) w1 = (Inr x, w2)" and
    3: "ds = map (\<lambda>r. (pj_id r, coalesce (pj_default_workspace_id r)))
         (filter (\<lambda>r. \<not> blank (coalesce (pj_default_workspace_id r))) rows)" "w' = w2"
    unfolding copyProjects_def by (elim andThen_InrE) (auto simp: ret_def)
  from 1 have rows: "rows = order_asc pj_id (projects (ins_registry (mg_source (db w))))" "db w1 = db w"
    by (auto elim!: on_source_Inr simp: query_Inr_iff)
  with for_each_target_Inr [OF 2] 3 show ?thesis by (simp add: fold_inserts)
qed

text \<open>The registry part of the copy, and what its insertions need: every row that is inserted finds the rows it refers to.\<close>

lemma copyStage04_Inr:
  assumes "copyStage04ScannerData p w = (Inr u, w')" and "s = ins_registry (mg_source (db w))"
    and "distinct (map pj_id (projects s))" and "g = ins_registry (mg_target (db w))"
    and "root_paths g = []" and "repositories g = []" and "projects g = []" and "project_links g = []"
    and "environments (mg_target (db w)) = []" and "workspaces (mg_target (db w)) = []"
  shows "db w' = (db w)\<lparr>mg_target := (mg_target (db w))
      \<lparr>ins_registry := g\<lparr>project_links := map copied_link (order_asc pl_id (project_links s)),
         projects := map migrated_project (order_asc pj_id (projects s)),
         repositories := map copied_repository (order_asc rr_id (repositories s)),
         root_paths := map copied_root (order_asc rp_id (root_paths s))\<rparr>,
       environments := map copied_environment (order_asc nv_id (environments (mg_source (db w)))),
       workspaces := order_asc ws_id (workspaces (mg_source (db w)))\<rparr>\<rparr> \<and>
    (\<forall>k < length (repositories s). registry_ok (g\<lparr>root_paths := map copied_root (order_asc rp_id (root_paths s)),
       repositories := map copied_repository (take (Suc k) (order_asc rr_id (repositories s)))\<rparr>))"
proof -
  from assms(1) obtain w1 w2 w3 ds w4 w5 w6 x1 x2 x3 x5 x6 where
    1: "copyRootPaths p w = (Inr x1, w1)" and 2: "copyEnvironments p w1 = (Inr x2, w2)" and
    3: "copyRepositories p w2 = (Inr x3, w3)" and 4: "copyProjects p w3 = (Inr ds, w4)" and
    5: "copyWorkspaces p w4 = (Inr x5, w5)" and 6: "updateProjectDefaultWorkspaces p ds w5 = (Inr x6, w6)" and
    7: "copyProjectLinks p w6 = (Inr u, w')"
    unfolding copyStage04ScannerData_def by (elim andThen_InrE)
  note d1 = copy_table_Inr [OF 1 [unfolded copyRootPaths_def], unfolded fold_inserts]
  note d2 = copy_table_Inr [OF 2 [unfolded copyEnvironments_def], unfolded fold_inserts]
  note d3 = copy_table_Inr [OF 3 [unfolded copyRepositories_def], unfolded fold_inserts]
  note d4 = copyProjects_Inr [OF 4]
  note d5 = copy_table_Inr [OF 5 [unfolded copyWorkspaces_def], unfolded fold_inserts]
  note d6 = for_each_target_Inr [OF 6 [unfolded updateProjectDefaultWorkspaces_def], unfolded fold_defaults]
  note d7 = copy_table_Inr [OF 7 [unfolded copyProjectLinks_def], unfolded fold_inserts]
  have src: "mg_source (db w1) = mg_source (db w)" "mg_source (db w2) = mg_source (db w)"
    "mg_source (db w3) = mg_source (db w)" "mg_source (db w4) = mg_source (db w)"
    "mg_source (db w5) = mg_source (db w)" "mg_source (db w6) = mg_source (db w)"
    using d1 d2 d3 d4 d5 d6 by simp_all
  have sorted: "distinct (map pj_id (order_asc pj_id (projects s)))"
    using assms(3) by (simp add: order_asc_def distinct_sort_key_map)
  note defaults = set_defaults [OF sorted]
  have "db w' = (db w)\<lparr>mg_target := (mg_target (db w))
      \<lparr>ins_registry := g\<lparr>project_links := map copied_link (order_asc pl_id (project_links s)),
         projects := map migrated_project (order_asc pj_id (projects s)),
         repositories := map copied_repository (order_asc rr_id (repositories s)),
         root_paths := map copied_root (order_asc rp_id (root_paths s))\<rparr>,
       environments := map copied_environment (order_asc nv_id (environments (mg_source (db w)))),
       workspaces := order_asc ws_id (workspaces (mg_source (db w)))\<rparr>\<rparr>"
    using d1 d2 d3 d4 d5 d6 d7 src assms(2,4-10) defaults by (simp add: on_registry_table_def)
  moreover have "registry_ok (g\<lparr>root_paths := map copied_root (order_asc rp_id (root_paths s)),
       repositories := map copied_repository (take (Suc k) (order_asc rr_id (repositories s)))\<rparr>)"
    if "k < length (repositories s)" for k
  proof -
    have "installation_ok (snd (on_registry_table (\<lambda>g. g\<lparr>repositories := repositories g @
        map copied_repository (take (Suc k) (order_asc rr_id (repositories s)))\<rparr>) (mg_target (db w2))))"
      using d3 that src assms(2) by (simp add: order_asc_def)
    then show ?thesis
      using d1 d2 src assms(2,4-10)
      by (simp add: on_registry_table_def installation_violation_def split: option.splits)
  qed
  ultimately show ?thesis by blast
qed

text \<open>
  What the repositories of the source need of the target: the provider instances and credentials they
  refer to are not copied, and a superseded repository is inserted before one with a greater id.
\<close>

definition repositories_fit :: "registry \<Rightarrow> registry \<Rightarrow> bool" where
  "repositories_fit src tgt \<longleftrightarrow>
     list_all (\<lambda>r. refers (null_again (rr_provider_instance_id r)) (in_id ` set (provider_instances tgt)) \<and>
        refers (null_again (rr_default_credential_id r)) (cd_id ` set (credentials tgt)) \<and>
        (case null_again (rr_superseded_by r) of None \<Rightarrow> True | Some x \<Rightarrow> x \<le> rr_id r)) (repositories src)"

lemma repositories_fitI:
  assumes "\<And>k. k < length (repositories s) \<Longrightarrow> registry_ok (g\<lparr>root_paths := rps,
       repositories := map copied_repository (take (Suc k) (order_asc rr_id (repositories s)))\<rparr>)"
  shows "repositories_fit s g"
proof -
  let ?rs = "order_asc rr_id (repositories s)"
  have "refers (null_again (rr_provider_instance_id r)) (in_id ` set (provider_instances g)) \<and>
      refers (null_again (rr_default_credential_id r)) (cd_id ` set (credentials g)) \<and>
      (case null_again (rr_superseded_by r) of None \<Rightarrow> True | Some x \<Rightarrow> x \<le> rr_id r)"
    if "r \<in> set (repositories s)" for r
  proof -
    from that obtain k where k: "k < length (repositories s)" "r = ?rs ! k"
      by (auto simp: order_asc_def in_set_conv_nth [of r "sort_key rr_id (repositories s)", simplified])
    let ?taken = "map copied_repository (take (Suc k) ?rs)"
    have "copied_repository r \<in> set ?taken"
      using k by (auto simp: order_asc_def take_Suc_conv_app_nth)
    with assms [OF k(1)] have refs: "refers (rr_provider_instance_id (copied_repository r)) (in_id ` set (provider_instances g))"
      "refers (rr_default_credential_id (copied_repository r)) (cd_id ` set (credentials g))"
      "refers (rr_superseded_by (copied_repository r)) (rr_id ` set ?taken)"
      by (auto simp: registry_violation_def registry_foreign_keys_def list_all_iff Let_def split: if_splits)
    have "x \<le> rr_id r" if "x \<in> rr_id ` set ?taken" for x
    proof -
      from that obtain j where "j \<le> k" "x = rr_id (?rs ! j)"
        by (auto simp: copied_repository_def in_set_conv_nth less_Suc_eq_le)
      moreover have "sorted (map rr_id ?rs)" by (simp add: order_asc_def)
      ultimately show ?thesis using k sorted_nth_mono [of "map rr_id ?rs" j k] by (simp add: order_asc_def)
    qed
    with refs show ?thesis by (auto simp: copied_repository_def refers_def split: option.splits)
  qed
  then show ?thesis by (simp add: repositories_fit_def list_all_iff)
qed

lemma copy_tx_Inr:
  assumes "copy_tx env p current migration t w = (Inr u, w')"
    and "distinct (map pj_id (projects (ins_registry (mg_source (db w)))))"
  shows "\<exists>es. storageEntriesFromProfile env (pr_Provider migration) (pr_ConfigPayload migration) = Inr es \<and>
    db w' = (db w)\<lparr>mg_target := migrated env current migration es t (mg_source (db w)) (mg_target (db w))\<rparr> \<and>
    repositories_fit (ins_registry (mg_source (db w))) (ins_registry (mg_target (db w)))"
proof -
  let ?src = "mg_source (db w)" and ?tgt = "mg_target (db w)"
  from assms(1) obtain x1 w1 x2 w2 x3 w3 x4 w4 x5 w5 x6 w6 x7 w7 x8 w8 where
    1: "on_target p clearStage02Tables w = (Inr x1, w1)" and 2: "on_target p clearStage04Tables w1 = (Inr x2, w2)" and
    3: "copyConfigEntries env p migration t w2 = (Inr x3, w3)" and 4: "copyIgnoreRules p w3 = (Inr x4, w4)" and
    5: "copyModuleStates p w4 = (Inr x5, w5)" and 6: "copyStage04ScannerData p w5 = (Inr x6, w6)" and
    7: "insertHistoricalProfile env p current t w6 = (Inr x7, w7)" and
    8: "insertProfile p (pr_ID migration) ''current'' ''active'' (pr_ID current) migration (pr_EngineFlavor migration) t w7
        = (Inr x8, w8)" and
    9: "on_target p (upsertStorageProviderSettingsForProfile env (pr_ID migration) (pr_Provider migration) t) w8 = (Inr u, w')"
    unfolding copy_tx_def by (elim andThen_InrE)
  note d2 = clear_Inr [OF 1 2]
  from copyConfigEntries_Inr [OF 3] obtain es where
    es: "storageEntriesFromProfile env (pr_Provider migration) (pr_ConfigPayload migration) = Inr es" and
    d3: "db w3 = (db w2)\<lparr>mg_target := snd (on_entries (\<lambda>rows. rows @ copied_entries env t es
      (config_entries (ins_registry (mg_source (db w2))))) (mg_target (db w2)))\<rparr>"
    by blast
  note d4 = copy_table_Inr [OF 4 [unfolded copyIgnoreRules_def], unfolded fold_inserts]
  note d5 = copy_table_Inr [OF 5 [unfolded copyModuleStates_def], unfolded fold_inserts]
  let ?g = "(ins_registry ?tgt)\<lparr>ignore_rules := map copied_rule (order_asc (\<lambda>r. (ig_sort_order r, ig_id r)) (ignore_rules (ins_registry ?src))),
      config_entries := copied_entries env t es (config_entries (ins_registry ?src)), project_links := [], projects := [],
      repositories := [], root_paths := []\<rparr>"
  have db5: "db w5 = (db w)\<lparr>mg_target := (clear_db ?tgt)\<lparr>ins_registry := ?g,
      ins_modules := \<lparr>module_table = order_asc mr_id (module_table (ins_modules ?src))\<rparr>\<rparr>\<rparr>"
    using d2 d3 d4 d5 by (simp add: clear_db_def on_entries_def on_ignore_def)
  have d6: "db w6 = (db w)\<lparr>mg_target := (migrated env current migration es t ?src ?tgt)
      \<lparr>storage_profiles := [], provider_settings := []\<rparr>\<rparr>"
    and fit: "repositories_fit (ins_registry ?src) ?g"
  proof -
    have "ins_registry (mg_source (db w5)) = ins_registry ?src" "ins_registry (mg_target (db w5)) = ?g"
      using db5 by simp_all
    note six = copyStage04_Inr [OF 6 refl _ refl, unfolded this]
    show "db w6 = (db w)\<lparr>mg_target := (migrated env current migration es t ?src ?tgt)\<lparr>storage_profiles := [], provider_settings := []\<rparr>\<rparr>"
      using six assms(2) by (simp add: db5 migrated_def clear_db_def)
    show "repositories_fit (ins_registry ?src) ?g"
      using six assms(2)
      by (intro repositories_fitI [where rps = "map copied_root (order_asc rp_id (root_paths (ins_registry ?src)))"])
        (simp add: db5 clear_db_def)
  qed
  note d7 = on_target_exec_Inr [OF 7 [unfolded insertHistoricalProfile_def insertProfile_def]]
  note d8 = on_target_exec_Inr [OF 8 [unfolded insertProfile_def]]
  note d9 = on_target_exec_Inr [OF 9 [unfolded upsertStorageProviderSettingsForProfile_def]]
  have "db w' = (db w)\<lparr>mg_target := migrated env current migration es t ?src ?tgt\<rparr>"
    using d6 d7 d8 d9 by (simp add: on_profiles_def on_settings_def put_settings_def migrated_def profile_row_of_def null_if_empty_def)
  with es fit show ?thesis by (simp add: repositories_fit_def)
qed

section \<open>The migration\<close>

definition promoted :: "bytes \<Rightarrow> bytes \<Rightarrow> instant \<Rightarrow> profile_row list \<Rightarrow> profile_row list" where
  "promoted currentID migrationID t rows =
     update_where (\<lambda>r. sp_id r = migrationID) (promote currentID t) (update_where (\<lambda>r. sp_id r = currentID) (retire t) rows)"

definition target_of :: "installation \<Rightarrow> StorageProfileRecord option" where
  "target_of d = map_option scan_profile (first_row (filter (\<lambda>r. sp_slot r = ''migration'' \<and> sp_status r = ''migration_target'') (storage_profiles d)))"

lemma promote_Inr:
  assumes "promoteMigrationProfile a b w = (Inr u, w')"
  shows "\<exists>t. db w' = (db w)\<lparr>storage_profiles := promoted a b t (storage_profiles (db w))\<rparr>"
  using assms unfolding promoteMigrationProfile_def
  by (elim andThen_InrE WithTx_InrE exec_thenE) (auto simp: exec_Inr_iff on_profiles_def promoted_def)

lemma MigrateDB_Inr:
  assumes "MigrateDB env bk w = (Inr (MigrationSucceeded a b), w')" and "src = mg_source (db w)"
    and "distinct (map pj_id (projects (ins_registry src)))"
  shows "\<exists>current migration es t t'. current_of src = Some current \<and> target_of src = Some migration \<and>
    a = pr_ID current \<and> b = pr_ID migration \<and>
    storageEntriesFromProfile env (pr_Provider migration) (pr_ConfigPayload migration) = Inr es \<and>
    mg_source (db w') = src\<lparr>storage_profiles := promoted a b t' (storage_profiles src)\<rparr> \<and>
    mg_target (db w') = migrated env current migration es t src (mg_target (db w)) \<and>
    repositories_fit (ins_registry src) (ins_registry (mg_target (db w)))"
proof -
  let ?res = "MigrationSucceeded a b"
  from assms(1) obtain current w1 where 1: "on_source CurrentStorageProfile w = (Inr current, w1)" and
    rest: "outcome (on_source MigrationStorageProfile) (\<lambda>r. case r of
       Inl e \<Rightarrow> if e = ENotFound then ret NoMigrationTarget else fail e
     | Inr migration \<Rightarrow> migrate_to env bk current migration) w1 = (Inr ?res, w')"
    unfolding MigrateDB_def by (elim andThen_InrE)
  from 1 have current: "current_of src = Some current" "db w1 = db w"
    by (auto elim!: on_source_Inr andThen_InrE simp: CurrentStorageProfile_def storageProfile_def query_Inr_iff
        current_of_def assms(2) fail_def ret_def split: option.splits)
  obtain r w2 where 2: "on_source MigrationStorageProfile w1 = (r, w2)" by fastforce
  from rest 2 obtain migration where r: "r = Inr migration" and 3: "migrate_to env bk current migration w2 = (Inr ?res, w')"
    by (cases r) (auto simp: outcome_def ret_def fail_def split: if_splits)
  from 2 r have migration: "target_of src = Some migration" "db w2 = db w"
    using current(2) by (auto elim!: on_source_Inr andThen_InrE simp: MigrationStorageProfile_def storageProfile_def
        query_Inr_iff target_of_def assms(2) fail_def ret_def split: option.splits)
  have failed: "andThen (ignoring (on_source (markMigrationFailed (pr_ID migration)))) (\<lambda>_. fail e) y \<noteq> (Inr x, y')" for e y x y'
    by (auto simp: andThen_Inr_iff fail_def)
  from 3 obtain p w3 where 4: "copyMigratedData env p current migration w2 = (Inr (), w3)" and
    5: "andThen (on_source (promoteMigrationProfile (pr_ID current) (pr_ID migration))) (\<lambda>_.
        ret (MigrationSucceeded (pr_ID current) (pr_ID migration))) w3 = (Inr ?res, w')"
    unfolding migrate_to_def Let_def
    by (auto simp: failed outcome_def split: sum.splits option.splits if_splits prod.splits)
  from 4 obtain t w4 w5 where 6: "copy_tx env p current migration t w4 = (Inr (), w5)" "db w4 = db w2" "db w3 = db w5"
    unfolding copyMigratedData_def by (elim andThen_InrE WithTx_InrE) (auto simp: now_def)
  from copy_tx_Inr [OF 6(1)] assms(2,3) 6(2) migration(2) obtain es where
    es: "storageEntriesFromProfile env (pr_Provider migration) (pr_ConfigPayload migration) = Inr es" and
    copy: "db w5 = (db w)\<lparr>mg_target := migrated env current migration es t src (mg_target (db w))\<rparr>"
      "repositories_fit (ins_registry src) (ins_registry (mg_target (db w)))"
    by auto
  from 5 obtain u w6 where 7: "on_source (promoteMigrationProfile (pr_ID current) (pr_ID migration)) w3 = (Inr u, w6)"
    "a = pr_ID current" "b = pr_ID migration" "w' = w6"
    by (elim andThen_InrE) (auto simp: ret_def)
  from 7(1) obtain w7 where 8: "promoteMigrationProfile (pr_ID current) (pr_ID migration) (view mg_source w3) = (Inr u, w7)"
    "db w6 = (db w3)\<lparr>mg_source := db w7\<rparr>" by (rule on_source_Inr)
  from promote_Inr [OF 8(1)] obtain t' where "db w7 = (mg_source (db w3))\<lparr>storage_profiles :=
      promoted (pr_ID current) (pr_ID migration) t' (storage_profiles (mg_source (db w3)))\<rparr>" by auto
  with current(1) migration(1) es copy 6(3) 7 8(2) show ?thesis using assms(2)
    by (intro exI [of _ current] exI [of _ migration] exI [of _ es] exI [of _ t] exI [of _ t']) auto
qed

section \<open>The source\<close>

definition same_source :: "migration_state \<Rightarrow> migration_state \<Rightarrow> bool" where
  "same_source s s' \<longleftrightarrow> mg_source s' = mg_source s"

interpretation source: state_order same_source
  by unfold_locales (auto simp: same_source_def)

lemma target_keeps_source: "keeps same_source (on_target p m)" "keeps same_source (on_source (query q))"
  by (auto simp: keeps_def same_source_def on_target_def on_source_def query_def zoom_def split: prod.split)

lemma source_keeps_copy: "keeps same_source (copyMigratedData env p current migration)"
  unfolding copyMigratedData_def copy_tx_def copyConfigEntries_def copyIgnoreRules_def copyModuleStates_def
    copyStage04ScannerData_def copyRootPaths_def copyEnvironments_def copyRepositories_def copyProjects_def
    copyWorkspaces_def updateProjectDefaultWorkspaces_def copyProjectLinks_def insertHistoricalProfile_def
    insertProfile_def insertConfigEntry_def copy_table_def
  by (intro keeps_intros target_keeps_source)

definition marked_failed :: "bytes \<Rightarrow> instant \<Rightarrow> profile_row list \<Rightarrow> profile_row list" where
  "marked_failed i t = update_where (\<lambda>r. sp_id r = i) (\<lambda>r. r\<lparr>sp_status := ''migration_failed'', sp_updated_at := Trimmed t\<rparr>)"

definition with_profiles :: "profile_row list \<Rightarrow> migration_state \<Rightarrow> migration_state" where
  "with_profiles ps s = s\<lparr>mg_source := (mg_source s)\<lparr>storage_profiles := ps\<rparr>\<rparr>"

lemma with_profiles_same: "with_profiles (storage_profiles (mg_source s)) s = s"
  by (simp add: with_profiles_def)

lemma failed_outcome:
  assumes "andThen (ignoring (on_source (markMigrationFailed i))) (\<lambda>_. fail e) w = (r, w')"
  shows "r = Inl e \<and> (db w' = db w \<or> (\<exists>t. db w' = with_profiles (marked_failed i t (storage_profiles (mg_source (db w)))) (db w)))"
proof -
  obtain q w1 where 1: "markMigrationFailed i (view mg_source w) = (q, w1)" by fastforce
  then have "db w1 = mg_source (db w) \<or> (\<exists>t. db w1 = (mg_source (db w))\<lparr>storage_profiles := marked_failed i t (storage_profiles (mg_source (db w)))\<rparr>)"
    by (auto simp: markMigrationFailed_def andThen_def now_def exec_def on_profiles_def marked_failed_def
        split: fault.splits option.splits if_splits)
  with assms 1 show ?thesis
    by (auto simp: andThen_def ignoring_def outcome_def on_source_def zoom_def ret_def fail_def with_profiles_def)
qed

lemma promote_outcome:
  assumes "promoteMigrationProfile a b w = (r, w')"
  shows "db w' = db w \<or> (\<exists>t. db w' = (db w)\<lparr>storage_profiles := promoted a b t (storage_profiles (db w))\<rparr>)"
proof -
  let ?t = "clk w (tick w)"
  let ?tx = "andThen (iexec (on_profiles (update_where (\<lambda>r. sp_id r = a) (retire ?t)))) (\<lambda>_.
      iexec (on_profiles (update_where (\<lambda>r. sp_id r = b) (promote a ?t))))"
  from assms have run: "WithTx ?tx (step_tick w) = (r, w')"
    by (simp add: promoteMigrationProfile_def andThen_def now_def)
  obtain q w1 where tx: "?tx (step_tick (step_tick w)) = (q, w1)" by fastforce
  show ?thesis
  proof (cases q)
    case (Inl e)
    with run tx show ?thesis by (auto simp: WithTx_def split: if_splits)
  next
    case (Inr u)
    note tx [unfolded Inr]
    then have "db w1 = (db w)\<lparr>storage_profiles := promoted a b ?t (storage_profiles (db w))\<rparr>"
      by (elim exec_thenE) (auto simp: exec_Inr_iff on_profiles_def promoted_def)
    with run tx Inr show ?thesis by (auto simp: WithTx_def split: if_splits fault.splits)
  qed
qed

definition marked_only :: "migration_state \<Rightarrow> err + 'a \<Rightarrow> migration_state \<Rightarrow> bool" where
  "marked_only s r s' \<longleftrightarrow> mg_source s' = mg_source s \<or>
     (\<exists>e i t. r = Inl e \<and>
        mg_source s' = (mg_source s)\<lparr>storage_profiles := marked_failed i t (storage_profiles (mg_source s))\<rparr>)"

definition gave_way ::
    "config_env \<Rightarrow> StorageProfileRecord \<Rightarrow> StorageProfileRecord \<Rightarrow> migration_state \<Rightarrow> migration_state \<Rightarrow> bool" where
  "gave_way env current migration s s' \<longleftrightarrow> (\<exists>es t t'.
     mg_source s' = (mg_source s)\<lparr>storage_profiles :=
       promoted (pr_ID current) (pr_ID migration) t' (storage_profiles (mg_source s))\<rparr> \<and>
     storageEntriesFromProfile env (pr_Provider migration) (pr_ConfigPayload migration) = Inr es \<and>
     mg_target s' = migrated env current migration es t (mg_source s) (mg_target s))"

lemma failed_marked:
  assumes "andThen (ignoring (on_source (markMigrationFailed i))) (\<lambda>_. fail e) w = (r, w')" and "mg_source (db w) = mg_source s"
  shows "marked_only s r (db w')"
  using failed_outcome [OF assms(1)] assms(2) unfolding marked_only_def with_profiles_def
  by (elim conjE disjE exE) (simp, fastforce)

text \<open>Once the copy is made, the profiles change places or nothing more happens.\<close>

lemma copied_outcome:
  assumes "copyMigratedData env p current migration w = (Inr u, w1)"
    and "promoteMigrationProfile (pr_ID current) (pr_ID migration) (view mg_source w1) = (q, w2)"
    and "d' = (db w1)\<lparr>mg_source := db w2\<rparr>" and "mg_source (db w1) = mg_source (db w)"
    and "distinct (map pj_id (projects (ins_registry (mg_source (db w)))))"
  shows "mg_source d' = mg_source (db w) \<or> gave_way env current migration (db w) d'"
proof -
  from assms(1) obtain t w4 w5 where 4: "copy_tx env p current migration t w4 = (Inr (), w5)" "db w4 = db w" "db w1 = db w5"
    unfolding copyMigratedData_def by (elim andThen_InrE WithTx_InrE) (auto simp: now_def)
  from copy_tx_Inr [OF 4(1)] 4(2,3) assms(5) obtain es where es:
    "storageEntriesFromProfile env (pr_Provider migration) (pr_ConfigPayload migration) = Inr es"
    "mg_target (db w1) = migrated env current migration es t (mg_source (db w)) (mg_target (db w))" by auto
  from promote_outcome [OF assms(2)] show ?thesis
  proof
    assume "db w2 = db (view mg_source w1)"
    then show ?thesis using assms(3,4) by simp
  next
    assume "\<exists>t'. db w2 = (db (view mg_source w1))\<lparr>storage_profiles :=
      promoted (pr_ID current) (pr_ID migration) t' (storage_profiles (db (view mg_source w1)))\<rparr>"
    then obtain t' where "db w2 = (mg_source (db w))\<lparr>storage_profiles :=
        promoted (pr_ID current) (pr_ID migration) t' (storage_profiles (mg_source (db w)))\<rparr>"
      using assms(4) by auto
    with assms(3) es show ?thesis unfolding gave_way_def
      by (intro disjI2 exI [of _ es] exI [of _ t] exI [of _ t']) simp
  qed
qed

lemma migrate_to_outcome:
  assumes "migrate_to env bk current migration w = (r, w')"
    and "distinct (map pj_id (projects (ins_registry (mg_source (db w)))))"
  shows "marked_only (db w) r (db w') \<or> gave_way env current migration (db w) (db w')"
proof (cases "\<exists>cfg p. StorageConfig env (pr_Provider migration) (pr_ConfigPayload migration) = Inr cfg \<and>
    bk_Open bk cfg = Inr (p, pr_DatabaseFingerprint migration) \<and> bk_Migrate bk = None")
  case False
  with assms(1) [unfolded migrate_to_def Let_def] show ?thesis
    by (auto split: sum.splits option.splits if_splits prod.splits dest!: failed_marked [OF _ refl])
next
  case True
  then obtain cfg p where opened: "StorageConfig env (pr_Provider migration) (pr_ConfigPayload migration) = Inr cfg"
    "bk_Open bk cfg = Inr (p, pr_DatabaseFingerprint migration)" "bk_Migrate bk = None" by blast
  note step = assms(1) [unfolded migrate_to_def Let_def]
  obtain q3 w3 where 3: "copyMigratedData env p current migration w = (q3, w3)" by fastforce
  have src3: "mg_source (db w3) = mg_source (db w)"
    using keepsD [OF source_keeps_copy 3] by (simp add: same_source_def)
  show ?thesis
  proof (cases q3)
    case (Inl e)
    with step opened 3 have "andThen (ignoring (on_source (markMigrationFailed (pr_ID migration)))) (\<lambda>_. fail e) w3 = (r, w')"
      by (simp add: outcome_def)
    from failed_marked [OF this src3] show ?thesis ..
  next
    case (Inr u)
    obtain q4 w6 where 5: "promoteMigrationProfile (pr_ID current) (pr_ID migration) (view mg_source w3) = (q4, w6)" by fastforce
    with step opened 3 Inr have "db w' = (db w3)\<lparr>mg_source := db w6\<rparr>"
      by (auto simp: outcome_def andThen_def on_source_def zoom_def ret_def split: sum.splits)
    from copied_outcome [OF 3 [unfolded Inr] 5 this src3 assms(2)] show ?thesis by (auto simp: marked_only_def)
  qed
qed

lemma profile_read:
  "on_source CurrentStorageProfile w = (q, w') \<Longrightarrow>
     db w' = db w \<and> (\<forall>c. q = Inr c \<longrightarrow> current_of (mg_source (db w)) = Some c)"
  "on_source MigrationStorageProfile w = (q, w') \<Longrightarrow>
     db w' = db w \<and> (\<forall>c. q = Inr c \<longrightarrow> target_of (mg_source (db w)) = Some c)"
  by (auto simp: on_source_def zoom_def CurrentStorageProfile_def MigrationStorageProfile_def storageProfile_def
      andThen_def query_def fail_def ret_def current_of_def target_of_def split: if_splits option.splits)


text \<open>
  C16: A migration copies the installation. When it succeeds, the target holds, table by table and in the
  order of their keys, the configuration with the entries of the database replaced by the target's own, the
  rules, the module states, the root paths, environments, repositories, projects with their default
  workspaces, workspaces and links of the source; its current profile is the target's, migrated from the
  source's; and in the source the two profiles have changed places.
\<close>

theorem MigrateDB_copies:
  assumes "MigrateDB env bk w = (Inr (MigrationSucceeded a b), w')" and "src = mg_source (db w)"
    and "distinct (map pj_id (projects (ins_registry src)))"
  shows "\<exists>current migration es t t'. current_of src = Some current \<and> target_of src = Some migration \<and>
    a = pr_ID current \<and> b = pr_ID migration \<and>
    storageEntriesFromProfile env (pr_Provider migration) (pr_ConfigPayload migration) = Inr es \<and>
    mg_target (db w') = migrated env current migration es t src (mg_target (db w)) \<and>
    current_of (mg_target (db w')) = Some (scan_profile (profile_row_of b ''current'' ''active'' a migration t)) \<and>
    mg_source (db w') = src\<lparr>storage_profiles := promoted a b t' (storage_profiles src)\<rparr>"
proof -
  have "current_of (migrated env current migration es t src tgt) =
      Some (scan_profile (profile_row_of (pr_ID migration) ''current'' ''active'' (pr_ID current) migration t))"
    for current migration es t tgt
    by (simp add: current_of_def migrated_def profile_row_of_def)
  with MigrateDB_Inr [OF assms] show ?thesis by (elim exE conjE) (intro exI conjI; simp)
qed

text \<open>
  C28: A migration fails on what is not copied. Provider instances and credentials are not among the tables
  that are copied, and repositories are inserted in the order of their ids. So when a repository of the
  source refers to a provider instance or a credential that the target does not have, or was superseded by
  one with a greater id, no migration of that database succeeds, whatever the driver does.
\<close>

theorem MigrateDB_needs_references:
  assumes "\<not> repositories_fit (ins_registry (mg_source (db w))) (ins_registry (mg_target (db w)))"
    and "distinct (map pj_id (projects (ins_registry (mg_source (db w)))))"
  shows "fst (MigrateDB env bk w) \<noteq> Inr (MigrationSucceeded a b)"
proof
  assume "fst (MigrateDB env bk w) = Inr (MigrationSucceeded a b)"
  then obtain w' where "MigrateDB env bk w = (Inr (MigrationSucceeded a b), w')" by (cases "MigrateDB env bk w") auto
  from MigrateDB_Inr [OF this refl assms(2)] assms(1) show False by blast
qed

end
