(* ===== verification/Config_Migration_Runs.thy ===== *)
theory Config_Migration_Runs
  imports Config_Migration_Facts
begin

text \<open>
  Migrations that run: on a sample of two databases, and in general, when nothing fails, as the list of
  statements of the copy.
\<close>

section \<open>Samples\<close>

definition source_profiles :: "profile_row list" where
  "source_profiles =
     [profile_for ''a'' ''current'' ''active'' \<lparr>pf_provider = ''sqlite'', pf_engineFlavor = [], pf_payload = ''C'', pf_fingerprint = ''f1''\<rparr> 0,
      profile_for ''b'' ''migration'' ''migration_target''
        \<lparr>pf_provider = ''sqlite'', pf_engineFlavor = [], pf_payload = ''D'', pf_fingerprint = ''f2''\<rparr> 0]"

definition migration_sample :: migration_state where
  "migration_sample = \<lparr>mg_source = fresh_db\<lparr>storage_profiles := source_profiles, environments :=
       [\<lparr>nv_id = ''e'', nv_name = ''Stage'', nv_code = ''stage'', nv_description = Some [], nv_created_at = Nine 0, nv_updated_at = Nine 0\<rparr>]\<rparr>,
     mg_target = fresh_db\<rparr>"

definition sample_backend :: backend where
  "sample_backend = \<lparr>bk_Open = (\<lambda>_. Inr (''sqlite'', ''f2'')), bk_Migrate = None\<rparr>"

lemma profiles_calm:
  assumes "calm w" and "current_of (mg_source (db w)) = Some c" and "target_of (mg_source (db w)) = Some m"
  shows "\<exists>w'. MigrateDB env bk w = migrate_to env bk c m w' \<and> calm w' \<and> db w' = db w \<and> clk w' = clk w"
proof -
  have query: "on_source (query q) w = (Inr (q (mg_source (db w))), step_tick w)" if "calm w"
    for q :: "installation \<Rightarrow> 'b" and w :: "migration_state world"
    using that by (simp add: on_source_def zoom_def query_def view_def step_tick_def)
  have bind: "on_source (andThen (query q) (\<lambda>r. case r of None \<Rightarrow> fail ENotFound | Some row \<Rightarrow> ret (scan_profile row))) w =
      (Inr (scan_profile x), step_tick w)"
    if "calm w" "q (mg_source (db w)) = Some x" for q :: "installation \<Rightarrow> profile_row option" and x and w :: "migration_state world"
    using that by (simp add: on_source_def zoom_def query_def view_def step_tick_def andThen_def ret_def)
  have 1: "on_source CurrentStorageProfile w = (Inr c, step_tick w)"
    using assms(1,2) unfolding CurrentStorageProfile_def storageProfile_def current_of_def by (auto simp: bind)
  have 2: "on_source MigrationStorageProfile (step_tick w) = (Inr m, step_tick (step_tick w))"
    using assms(1,3) unfolding MigrationStorageProfile_def storageProfile_def target_of_def by (auto simp: bind)
  show ?thesis
    using assms(1) by (intro exI [of _ "step_tick (step_tick w)"]) (simp add: MigrateDB_def andThen_def outcome_def 1 2)
qed

definition sample_current :: StorageProfileRecord where
  "sample_current = scan_profile (source_profiles ! 0)"

definition sample_migration :: StorageProfileRecord where
  "sample_migration = scan_profile (source_profiles ! 1)"

lemma sample_profiles:
  "current_of (mg_source migration_sample) = Some sample_current" "target_of (mg_source migration_sample) = Some sample_migration"
  "pr_ID sample_current = ''a''" "pr_ID sample_migration = ''b''" "pr_Provider sample_migration = ''sqlite''"
  "pr_ConfigPayload sample_migration = ''D''" "pr_DatabaseFingerprint sample_migration = ''f2''"
  by (simp_all add: current_of_def target_of_def migration_sample_def source_profiles_def profile_for_def sample_current_def
      sample_migration_def scan_profile_def)

lemma sample_storage_config:
  "StorageConfig config_sample_env ''sqlite'' ''D'' = Inr \<lparr>sg_Provider = ''sqlite'', sg_DSN = ''/var/lib//t.db''\<rparr>"
  by code_simp


definition referring_sample :: migration_state where
  "referring_sample = migration_sample\<lparr>mg_source := (mg_source migration_sample)\<lparr>ins_registry := empty_registry
     \<lparr>repositories := [\<lparr>rr_id = ''r'', rr_name = ''n'', rr_provider_instance_id = Some ''i'', rr_provider = ''github'',
       rr_provider_host = ''github.com'', rr_full_path = ''a/b'', rr_clone_url = None, rr_default_branch = None,
       rr_root_path_id = None, rr_target_directory = None, rr_local_path = None, rr_auth_type = None,
       rr_default_credential_id = None, rr_status = ''active'', rr_discovery_source = ''manual'', rr_superseded_by = None,
       rr_identity_confirmed_at = None, rr_auto_sync_enabled = False, rr_webhook_enabled = False, rr_poll_interval = None,
       rr_last_pull_at = None, rr_last_error = None, rr_created_at = Nine 0, rr_updated_at = Nine 0\<rparr>],
      provider_instances := [\<lparr>in_id = ''i'', in_name = ''n'', in_provider = ''github'',
       in_provider_host = ''github.com'', in_api_base_url = None, in_web_base_url = None, in_enabled = True,
       in_created_at = Nine 0, in_updated_at = Nine 0\<rparr>]\<rparr>\<rparr>\<rparr>"

lemma MigrateDB_needs_references_witness:
  "fst (MigrateDB config_sample_env sample_backend (config_world referring_sample)) \<noteq> Inr (MigrationSucceeded ''a'' ''b'')"
proof -
  have "\<not> repositories_fit (ins_registry (mg_source referring_sample)) (ins_registry (mg_target referring_sample))"
    by code_simp
  moreover have "distinct (map pj_id (projects (ins_registry (mg_source referring_sample))))"
    by (simp add: referring_sample_def empty_registry_def)
  ultimately show ?thesis using MigrateDB_needs_references [of "config_world referring_sample"] by simp
qed

section \<open>A migration that succeeds\<close>

text \<open>The statements of the copy, in their order; a run without faults succeeds when each leaves the target consistent.\<close>

definition after :: "(installation \<Rightarrow> unit \<times> installation) list \<Rightarrow> installation \<Rightarrow> installation" where
  "after sts = fold (\<lambda>st d. snd (st d)) sts"

fun prefixes_ok :: "installation \<Rightarrow> (installation \<Rightarrow> unit \<times> installation) list \<Rightarrow> bool" where
  "prefixes_ok d [] \<longleftrightarrow> True"
| "prefixes_ok d (st # sts) \<longleftrightarrow> installation_ok (snd (st d)) \<and> prefixes_ok (snd (st d)) sts"

lemma prefixes_ok_append: "prefixes_ok d (xs @ ys) \<longleftrightarrow> prefixes_ok d xs \<and> prefixes_ok (after xs d) ys"
  by (induction xs arbitrary: d) (simp_all add: after_def)

definition runs ::
    "installation \<Rightarrow> (migration_state, 'a) io \<Rightarrow> (installation \<Rightarrow> unit \<times> installation) list \<Rightarrow> 'a \<Rightarrow> bool" where
  "runs src m sts x \<longleftrightarrow>
     (\<forall>w. calm w \<longrightarrow> mg_source (db w) = src \<longrightarrow> prefixes_ok (mg_target (db w)) sts \<longrightarrow>
        (\<exists>w'. m w = (Inr x, w') \<and> calm w' \<and> db w' = (db w)\<lparr>mg_target := after sts (mg_target (db w))\<rparr>))"

lemma runsD:
  assumes "runs src m sts x" and "calm w" and "mg_source (db w) = src" and "prefixes_ok (mg_target (db w)) sts"
  obtains w' where "m w = (Inr x, w')" and "calm w'" and "db w' = (db w)\<lparr>mg_target := after sts (mg_target (db w))\<rparr>"
  using assms by (auto simp: runs_def)

named_theorems runs_intros "rules for the statements an operation runs"

lemma runs_ret [runs_intros]: "runs src (ret x) [] x"
  by (auto simp: runs_def ret_def after_def)

lemma runs_andThen [runs_intros]:
  assumes "runs src m xs x" and "runs src (f x) ys y"
  shows "runs src (andThen m f) (xs @ ys) y"
  unfolding runs_def
proof (intro allI impI)
  fix w :: "migration_state world" assume w: "calm w" "mg_source (db w) = src" "prefixes_ok (mg_target (db w)) (xs @ ys)"
  then obtain w1 where 1: "m w = (Inr x, w1)" "calm w1" "db w1 = (db w)\<lparr>mg_target := after xs (mg_target (db w))\<rparr>"
    using assms(1) by (auto simp: prefixes_ok_append elim: runsD)
  with w obtain w2 where "f x w1 = (Inr y, w2)" "calm w2" "db w2 = (db w1)\<lparr>mg_target := after ys (mg_target (db w1))\<rparr>"
    by (auto simp: prefixes_ok_append intro: runsD [OF assms(2)])
  with 1 show "\<exists>w'. andThen m f w = (Inr y, w') \<and> calm w' \<and> db w' = (db w)\<lparr>mg_target := after (xs @ ys) (mg_target (db w))\<rparr>"
    by (auto simp: andThen_def after_def)
qed

lemma on_target_calm:
  fixes w :: "migration_state world"
  assumes "calm w" and "m (view mg_target (w\<lparr>handle_Provider := p\<rparr>)) = (Inr x, w1)"
  shows "\<exists>w'. on_target p m w = (Inr x, w') \<and> calm w' \<and> db w' = (db w)\<lparr>mg_target := db w1\<rparr>"
  using assms by (auto simp: on_target_def zoom_def calm_def)

lemma runs_exec [runs_intros]: "runs src (on_target p (iexec st)) [st] ()"
  unfolding runs_def
proof (intro allI impI)
  fix w :: "migration_state world" assume w: "calm w" "mg_source (db w) = src" "prefixes_ok (mg_target (db w)) [st]"
  have "calm (view mg_target (w\<lparr>handle_Provider := p\<rparr>))" using w(1) by (simp add: view_def calm_def)
  from exec_calm [OF this, of installation_violation st] w(3)
  have "iexec st (view mg_target (w\<lparr>handle_Provider := p\<rparr>)) =
      (Inr (), (step_tick (view mg_target (w\<lparr>handle_Provider := p\<rparr>)))\<lparr>db := snd (st (mg_target (db w)))\<rparr>)" by simp
  from on_target_calm [where m = "iexec st", OF w(1) this]
  show "\<exists>w'. on_target p (iexec st) w = (Inr (), w') \<and> calm w' \<and> db w' = (db w)\<lparr>mg_target := after [st] (mg_target (db w))\<rparr>"
    by (simp add: after_def)
qed

lemma runs_for_each [runs_intros]: "runs src (for_each xs (\<lambda>r. on_target p (iexec (ins r)))) (map ins xs) ()"
proof (induction xs)
  case (Cons r xs)
  from runs_andThen [OF runs_exec, where f = "\<lambda>_. for_each xs (\<lambda>r. on_target p (iexec (ins r)))", OF Cons]
  show ?case by simp
qed (simp add: runs_ret)

lemma runs_query [runs_intros]: "runs src (on_source (query q)) [] (q src)"
  by (auto simp: runs_def on_source_def zoom_def query_def view_def after_def calm_def)

lemma runs_copy_table [runs_intros]: "runs src (copy_table p rows ins) (map ins (rows src)) ()"
proof -
  from runs_andThen [OF runs_query, where f = "\<lambda>rs. for_each rs (\<lambda>r. on_target p (iexec (ins r)))", OF runs_for_each]
  show ?thesis by (simp add: copy_table_def)
qed

lemma runs_clear: "runs src (on_target p (for_each sts iexec)) sts ()"
  unfolding runs_def
proof (intro allI impI)
  fix w :: "migration_state world" assume w: "calm w" "mg_source (db w) = src" "prefixes_ok (mg_target (db w)) sts"
  have "\<exists>y'. for_each sts iexec y = (Inr (), y') \<and> db y' = after sts (db y)"
    if "calm y" "prefixes_ok (db y) sts" for y :: "installation world"
    using that
  proof (induction sts arbitrary: y)
    case (Cons st sts)
    then have 1: "iexec st y = (Inr (), (step_tick y)\<lparr>db := snd (st (db y))\<rparr>)" using exec_calm [of y installation_violation st] by simp
    from Cons.IH [of "(step_tick y)\<lparr>db := snd (st (db y))\<rparr>"] Cons.prems show ?case
      by (simp add: andThen_def 1 after_def)
  qed (simp add: ret_def after_def)
  moreover have "calm (view mg_target (w\<lparr>handle_Provider := p\<rparr>))" using w(1) by (simp add: view_def calm_def)
  ultimately obtain y where "for_each sts iexec (view mg_target (w\<lparr>handle_Provider := p\<rparr>)) = (Inr (), y)"
    "db y = after sts (mg_target (db w))" using w(3) by fastforce
  with on_target_calm [OF w(1), of "for_each sts iexec" p "()" y]
  show "\<exists>w'. on_target p (for_each sts iexec) w = (Inr (), w') \<and> calm w' \<and> db w' = (db w)\<lparr>mg_target := after sts (mg_target (db w))\<rparr>"
    by simp
qed

lemma runs_lift_result [runs_intros]: "r = Inr x \<Longrightarrow> runs src (lift_result f r) [] x"
  by (auto simp: runs_def lift_result_def ret_def after_def)

definition entry_statements :: "config_env \<Rightarrow> Entry list \<Rightarrow> instant \<Rightarrow> installation \<Rightarrow> (installation \<Rightarrow> unit \<times> installation) list" where
  "entry_statements env es t src =
     map (\<lambda>r. on_entries (\<lambda>rows. rows @ [r])) (copied_entries env t es (config_entries (ins_registry src)))"

definition registry_statements :: "installation \<Rightarrow> (installation \<Rightarrow> unit \<times> installation) list" where
  "registry_statements src =
     map (\<lambda>r. on_registry_table (\<lambda>g. g\<lparr>root_paths := root_paths g @ [copied_root r]\<rparr>)) (order_asc rp_id (root_paths (ins_registry src))) @
     map (\<lambda>r d. ((), d\<lparr>environments := environments d @ [copied_environment r]\<rparr>)) (order_asc nv_id (environments src)) @
     map (\<lambda>r. on_registry_table (\<lambda>g. g\<lparr>repositories := repositories g @ [copied_repository r]\<rparr>))
       (order_asc rr_id (repositories (ins_registry src))) @
     map (\<lambda>r. on_registry_table (\<lambda>g. g\<lparr>projects := projects g @ [copied_project r]\<rparr>)) (order_asc pj_id (projects (ins_registry src))) @
     map (\<lambda>r d. ((), d\<lparr>workspaces := workspaces d @ [r]\<rparr>)) (order_asc ws_id (workspaces src)) @
     map set_default_workspace (map (\<lambda>r. (pj_id r, coalesce (pj_default_workspace_id r)))
       (filter (\<lambda>r. \<not> blank (coalesce (pj_default_workspace_id r))) (order_asc pj_id (projects (ins_registry src))))) @
     map (\<lambda>r. on_registry_table (\<lambda>g. g\<lparr>project_links := project_links g @ [copied_link r]\<rparr>))
       (order_asc pl_id (project_links (ins_registry src)))"

definition clear_statements :: "(installation \<Rightarrow> unit \<times> installation) list" where
  "clear_statements =
     [on_ignore (\<lambda>_. []), (\<lambda>d. ((), d\<lparr>ins_modules := (ins_modules d)\<lparr>module_table := []\<rparr>\<rparr>)),
      on_settings (\<lambda>_. []), on_profiles (\<lambda>_. []), on_entries (\<lambda>_. []),
      on_registry_table (\<lambda>g. g\<lparr>project_links := []\<rparr>),
      on_registry_table (\<lambda>g. g\<lparr>projects := map (\<lambda>r. r\<lparr>pj_default_workspace_id := None\<rparr>) (projects g)\<rparr>),
      (\<lambda>d. ((), d\<lparr>workspaces := []\<rparr>)), on_registry_table (\<lambda>g. g\<lparr>projects := []\<rparr>),
      on_registry_table (\<lambda>g. g\<lparr>repositories := []\<rparr>), (\<lambda>d. ((), d\<lparr>environments := []\<rparr>)),
      on_registry_table (\<lambda>g. g\<lparr>root_paths := []\<rparr>)]"

definition copy_statements ::
    "config_env \<Rightarrow> StorageProfileRecord \<Rightarrow> StorageProfileRecord \<Rightarrow> Entry list \<Rightarrow> instant \<Rightarrow> installation \<Rightarrow>
     (installation \<Rightarrow> unit \<times> installation) list" where
  "copy_statements env current migration es t src =
     clear_statements @ entry_statements env es t src @
     map (\<lambda>r. on_ignore (\<lambda>rows. rows @ [copied_rule r])) (order_asc (\<lambda>r. (ig_sort_order r, ig_id r)) (ignore_rules (ins_registry src))) @
     map (\<lambda>r d. ((), d\<lparr>ins_modules := (ins_modules d)\<lparr>module_table := module_table (ins_modules d) @ [r]\<rparr>\<rparr>))
       (order_asc mr_id (module_table (ins_modules src))) @
     registry_statements src @
     [on_profiles (\<lambda>rows. rows @ [profile_row_of (stableID env [''storage-profile'', ''historical'', pr_ID current, formatTimeNano t])
        ''historical'' ''superseded'' [] current t]),
      on_profiles (\<lambda>rows. rows @ [profile_row_of (pr_ID migration) ''current'' ''active'' (pr_ID current) migration t]),
      on_settings (put_settings (settings_for env (pr_ID migration) (pr_Provider migration) t))]"

lemma runs_entries:
  assumes "storageEntriesFromProfile env (pr_Provider migration) (pr_ConfigPayload migration) = Inr es"
  shows "runs src (copyConfigEntries env p migration t) (entry_statements env es t src) ()"
proof -
  have "runs src (copyConfigEntries env p migration t)
      ([] @ map (\<lambda>r. on_entries (\<lambda>rows. rows @ [entry_row env (row_entry r) (ce_scope r) (ce_version r) (ce_updated_at r) (ce_updated_by r)]))
         (filter (\<lambda>r. \<not> isStorageKey (ce_key r)) (order_asc (\<lambda>r. (ce_key r, ce_scope r)) (config_entries (ins_registry src)))) @
       [] @ map (\<lambda>e. on_entries (\<lambda>rows. rows @ [entry_row env e ''system'' 1 (Trimmed t) ''storage_migration''])) es) ()"
    unfolding copyConfigEntries_def insertConfigEntry_def
    by (rule runs_andThen, rule runs_query, rule runs_andThen, rule runs_for_each, rule runs_andThen,
        rule runs_lift_result, rule assms, rule runs_for_each)
  then show ?thesis by (simp add: entry_statements_def copied_entries_def comp_def)
qed

lemma runs_projects:
  "runs src (copyProjects p)
     (map (\<lambda>r. on_registry_table (\<lambda>g. g\<lparr>projects := projects g @ [copied_project r]\<rparr>)) (order_asc pj_id (projects (ins_registry src))))
     (map (\<lambda>r. (pj_id r, coalesce (pj_default_workspace_id r)))
        (filter (\<lambda>r. \<not> blank (coalesce (pj_default_workspace_id r))) (order_asc pj_id (projects (ins_registry src)))))"
proof -
  have "runs src (copyProjects p)
     ([] @ map (\<lambda>r. on_registry_table (\<lambda>g. g\<lparr>projects := projects g @ [copied_project r]\<rparr>)) (order_asc pj_id (projects (ins_registry src))) @ [])
     (map (\<lambda>r. (pj_id r, coalesce (pj_default_workspace_id r)))
        (filter (\<lambda>r. \<not> blank (coalesce (pj_default_workspace_id r))) (order_asc pj_id (projects (ins_registry src)))))"
    unfolding copyProjects_def
    by (rule runs_andThen, rule runs_query, rule runs_andThen, rule runs_for_each, rule runs_ret)
  then show ?thesis by simp
qed

lemma runs_registry: "runs src (copyStage04ScannerData p) (registry_statements src) ()"
  unfolding copyStage04ScannerData_def registry_statements_def copyRootPaths_def copyEnvironments_def copyRepositories_def
    copyWorkspaces_def updateProjectDefaultWorkspaces_def copyProjectLinks_def
  by (rule runs_andThen, rule runs_copy_table, rule runs_andThen, rule runs_copy_table, rule runs_andThen, rule runs_copy_table,
      rule runs_andThen, rule runs_projects, rule runs_andThen, rule runs_copy_table, rule runs_andThen, rule runs_for_each,
      rule runs_copy_table)

lemma runs_copy_tx:
  assumes "storageEntriesFromProfile env (pr_Provider migration) (pr_ConfigPayload migration) = Inr es"
  shows "runs src (copy_tx env p current migration t) (copy_statements env current migration es t src) ()"
proof -
  have 1: "runs src (on_target p clearStage02Tables) (take 5 clear_statements) ()"
    using runs_clear [of src p "take 5 clear_statements"]
    by (simp add: clearStage02Tables_def clear_statements_def del: for_each.simps)
  have 2: "runs src (on_target p clearStage04Tables) (drop 5 clear_statements) ()"
    using runs_clear [of src p "drop 5 clear_statements"]
    by (simp add: clearStage04Tables_def clear_statements_def del: for_each.simps)
  have 3: "runs src (copyIgnoreRules p) (map (\<lambda>r. on_ignore (\<lambda>rows. rows @ [copied_rule r]))
      (order_asc (\<lambda>r. (ig_sort_order r, ig_id r)) (ignore_rules (ins_registry src)))) ()"
    unfolding copyIgnoreRules_def by (rule runs_copy_table)
  have 4: "runs src (copyModuleStates p) (map (\<lambda>r d. ((), d\<lparr>ins_modules := (ins_modules d)\<lparr>module_table := module_table (ins_modules d) @ [r]\<rparr>\<rparr>))
      (order_asc mr_id (module_table (ins_modules src)))) ()"
    unfolding copyModuleStates_def by (rule runs_copy_table)
  have 5: "runs src (insertHistoricalProfile env p current t) [on_profiles (\<lambda>rows. rows @ [profile_row_of
      (stableID env [''storage-profile'', ''historical'', pr_ID current, formatTimeNano t]) ''historical'' ''superseded'' [] current t])] ()"
    unfolding insertHistoricalProfile_def insertProfile_def profile_row_of_def by (rule runs_exec)
  have 6: "runs src (insertProfile p (pr_ID migration) ''current'' ''active'' (pr_ID current) migration (pr_EngineFlavor migration) t)
      [on_profiles (\<lambda>rows. rows @ [profile_row_of (pr_ID migration) ''current'' ''active'' (pr_ID current) migration t])] ()"
    unfolding insertProfile_def profile_row_of_def by (rule runs_exec)
  have 7: "runs src (on_target p (upsertStorageProviderSettingsForProfile env (pr_ID migration) (pr_Provider migration) t))
      [on_settings (put_settings (settings_for env (pr_ID migration) (pr_Provider migration) t))] ()"
    unfolding upsertStorageProviderSettingsForProfile_def by (rule runs_exec)
  have "copy_statements env current migration es t src =
     take 5 clear_statements @ drop 5 clear_statements @ entry_statements env es t src @
      map (\<lambda>r. on_ignore (\<lambda>rows. rows @ [copied_rule r])) (order_asc (\<lambda>r. (ig_sort_order r, ig_id r)) (ignore_rules (ins_registry src))) @
      map (\<lambda>r d. ((), d\<lparr>ins_modules := (ins_modules d)\<lparr>module_table := module_table (ins_modules d) @ [r]\<rparr>\<rparr>))
        (order_asc mr_id (module_table (ins_modules src))) @
      registry_statements src @
      [on_profiles (\<lambda>rows. rows @ [profile_row_of (stableID env [''storage-profile'', ''historical'', pr_ID current, formatTimeNano t])
        ''historical'' ''superseded'' [] current t])] @
      [on_profiles (\<lambda>rows. rows @ [profile_row_of (pr_ID migration) ''current'' ''active'' (pr_ID current) migration t])] @
      [on_settings (put_settings (settings_for env (pr_ID migration) (pr_Provider migration) t))]"
    unfolding copy_statements_def by (simp only: append_assoc [symmetric] append_take_drop_id) simp
  then show ?thesis
    unfolding copy_tx_def
    by (simp only:) (rule runs_andThen, rule 1, rule runs_andThen, rule 2, rule runs_andThen, rule runs_entries [OF assms],
      rule runs_andThen, rule 3, rule runs_andThen, rule 4, rule runs_andThen, rule runs_registry, rule runs_andThen, rule 5,
      rule runs_andThen, rule 6, rule 7)
qed

lemma promote_calm:
  assumes "calm v" and "\<And>t. prefixes_ok (db v) [on_profiles (update_where (\<lambda>r. sp_id r = a) (retire t)),
      on_profiles (update_where (\<lambda>r. sp_id r = b) (promote a t))]"
  shows "\<exists>v'. promoteMigrationProfile a b v = (Inr (), v')"
proof -
  let ?st1 = "on_profiles (update_where (\<lambda>r. sp_id r = a) (retire (clk v (tick v))))"
  let ?st2 = "on_profiles (update_where (\<lambda>r. sp_id r = b) (promote a (clk v (tick v))))"
  let ?y = "step_tick (step_tick v)"
  let ?y1 = "(step_tick ?y)\<lparr>db := snd (?st1 (db v))\<rparr>"
  note oks = assms(2) [of "clk v (tick v)", unfolded prefixes_ok.simps]
  have 1: "iexec ?st1 ?y = (Inr (), ?y1)"
    using assms(1) oks by (subst exec_calm) simp_all
  have 2: "iexec ?st2 ?y1 = (Inr (), (step_tick ?y1)\<lparr>db := snd (?st2 (snd (?st1 (db v))))\<rparr>)"
    using assms(1) oks by (subst exec_calm) simp_all
  show ?thesis
    using assms(1) by (simp add: promoteMigrationProfile_def andThen_def now_def WithTx_def 1 2)
qed

lemma migrate_to_calm:
  assumes "calm w" and "StorageConfig env (pr_Provider migration) (pr_ConfigPayload migration) = Inr cfg"
    and "bk_Open bk cfg = Inr (p, pr_DatabaseFingerprint migration)" and "bk_Migrate bk = None"
    and "storageEntriesFromProfile env (pr_Provider migration) (pr_ConfigPayload migration) = Inr es"
    and "src = mg_source (db w)" and "\<And>n. prefixes_ok (mg_target (db w)) (copy_statements env current migration es (clk w n) src)"
    and "\<And>t. prefixes_ok src [on_profiles (update_where (\<lambda>r. sp_id r = pr_ID current) (retire t)),
      on_profiles (update_where (\<lambda>r. sp_id r = pr_ID migration) (promote (pr_ID current) t))]"
  shows "\<exists>w'. migrate_to env bk current migration w = (Inr (MigrationSucceeded (pr_ID current) (pr_ID migration)), w')"
proof -
  let ?t = "clk w (tick w)" and ?w = "step_tick (step_tick w)"
  from runsD [OF runs_copy_tx [OF assms(5)], of ?w src current ?t p] assms(1,6,7) obtain w1 where
    w1: "copy_tx env p current migration ?t ?w = (Inr (), w1)" "calm w1"
      "db w1 = (db w)\<lparr>mg_target := after (copy_statements env current migration es ?t src) (mg_target (db w))\<rparr>"
    by auto
  let ?w1 = "step_tick w1"
  have copy: "copyMigratedData env p current migration w = (Inr (), ?w1)"
    using assms(1) w1(1,2) by (simp add: copyMigratedData_def andThen_def now_def WithTx_def)
  let ?v = "view mg_source ?w1"
  have v: "calm ?v" "db ?v = src" using w1(2,3) assms(6) by (simp_all add: view_def calm_def)
  from promote_calm [OF v(1), of "pr_ID current" "pr_ID migration"] assms(8) v(2)
  have "\<exists>w2. promoteMigrationProfile (pr_ID current) (pr_ID migration) ?v = (Inr (), w2)" by simp
  then show ?thesis
    using copy by (auto simp: migrate_to_def assms(2-4) outcome_def andThen_def on_source_def zoom_def ret_def)
qed

definition sample_storage :: "Entry list" where
  "sample_storage = storage_entries \<lparr>da_DatabaseType = ''sqlite'', da_DatabasePath = ''/var/lib//t.db''\<rparr> no_external"

lemma sample_copy:
  "prefixes_ok fresh_db (copy_statements config_sample_env sample_current sample_migration sample_storage 0 (mg_source migration_sample))"
  by code_simp

lemma MigrateDB_copies_witness:
  "\<exists>w' t. MigrateDB config_sample_env sample_backend (config_world migration_sample) = (Inr (MigrationSucceeded ''a'' ''b''), w') \<and>
     current_of (mg_target (db w')) = Some (scan_profile (profile_row_of ''b'' ''current'' ''active'' ''a'' sample_migration t)) \<and>
     map nv_code (environments (mg_target (db w'))) = [''stage'']"
proof -
  from profiles_calm [of "config_world migration_sample" sample_current sample_migration config_sample_env sample_backend] sample_profiles(1,2)
  obtain w where w: "MigrateDB config_sample_env sample_backend (config_world migration_sample) =
      migrate_to config_sample_env sample_backend sample_current sample_migration w" "calm w" "db w = migration_sample"
      "clk w = clk (config_world migration_sample)"
    by auto
  have storage: "storageEntriesFromProfile config_sample_env ''sqlite'' ''D'' = Inr sample_storage" by code_simp
  have change: "prefixes_ok (mg_source migration_sample) [on_profiles (update_where (\<lambda>r. sp_id r = ''a'') (retire t)),
      on_profiles (update_where (\<lambda>r. sp_id r = ''b'') (promote ''a'' t))]" for t
    by (simp add: migration_sample_def fresh_db_def source_profiles_def profile_for_def on_profiles_def update_where_def
        retire_def promote_def installation_violation_def installation_uniques_def installation_foreign_keys_def
        registry_violation_def registry_checks_def registry_uniques_def registry_foreign_keys_def empty_registry_def
        modules_violation_def unique_by_Cons active_current_index_def migration_slot_index_def)
  have "\<exists>w'. migrate_to config_sample_env sample_backend sample_current sample_migration w =
      (Inr (MigrationSucceeded (pr_ID sample_current) (pr_ID sample_migration)), w')"
  proof (rule migrate_to_calm [OF w(2), where p = "''sqlite''" and es = sample_storage
      and cfg = "\<lparr>sg_Provider = ''sqlite'', sg_DSN = ''/var/lib//t.db''\<rparr>" and src = "mg_source migration_sample"])
    show "prefixes_ok (mg_target (db w)) (copy_statements config_sample_env sample_current sample_migration sample_storage (clk w n)
        (mg_source migration_sample))" for n
      using sample_copy by (simp add: w(3,4)) (simp add: migration_sample_def)
    show "prefixes_ok (mg_source migration_sample) [on_profiles (update_where (\<lambda>r. sp_id r = pr_ID sample_current) (retire t)),
        on_profiles (update_where (\<lambda>r. sp_id r = pr_ID sample_migration) (promote (pr_ID sample_current) t))]" for t
      unfolding sample_profiles by (rule change)
  qed (simp_all add: sample_profiles sample_storage_config storage sample_backend_def w(3))
  with w(1) obtain w' where run: "MigrateDB config_sample_env sample_backend (config_world migration_sample) =
      (Inr (MigrationSucceeded ''a'' ''b''), w')" by (auto simp: sample_profiles)
  have "distinct (map pj_id (projects (ins_registry (mg_source migration_sample))))"
    by (simp add: migration_sample_def fresh_db_def empty_registry_def)
  with MigrateDB_copies [OF run refl] obtain current migration es t where
    "current_of (mg_source migration_sample) = Some current" "target_of (mg_source migration_sample) = Some migration"
    "mg_target (db w') = migrated config_sample_env current migration es t (mg_source migration_sample) (mg_target migration_sample)"
    "current_of (mg_target (db w')) = Some (scan_profile (profile_row_of ''b'' ''current'' ''active'' ''a'' migration t))"
    by auto
  with run show ?thesis using sample_profiles(1,2)
    by (auto simp: migrated_def) (simp add: migration_sample_def order_asc_def copied_environment_def)
qed

end
