(* ===== verification/Config_Target_Facts.thy ===== *)
theory Config_Target_Facts
  imports Config_Import_Facts
begin

text \<open>
  What becomes of the profile of a storage an import names that is not the current one: the target of the
  migration that \<open>config migrate-db\<close> performs.
\<close>

section \<open>Profiles after staging\<close>

lemma retire_slots:
  "r \<in> set (update_where (\<lambda>r. sp_slot r = ''migration'') (retire t) rows) \<Longrightarrow> sp_slot r \<noteq> ''migration''"
  by (auto simp: update_where_def retire_def split: if_splits)

lemma retire_ids [simp]:
  "sp_id ` set (update_where (\<lambda>r. sp_slot r = ''migration'') (retire t) rows) = sp_id ` set rows"
  by (induction rows) (simp_all add: update_where_def retire_def)

lemma put_profile_ids: "sp_id ` set (put_profile new rows) = insert (sp_id new) (sp_id ` set rows)"
proof (cases "list_ex (\<lambda>r. sp_id r = sp_id new) rows")
  case True
  have "sp_id ` set (update_where (\<lambda>r. sp_id r = sp_id new)
      (\<lambda>r. new\<lparr>sp_slot := sp_slot r, sp_created_at := sp_created_at r\<rparr>) rows) = sp_id ` set rows"
    by (induction rows) (simp_all add: update_where_def)
  moreover have "sp_id new \<in> sp_id ` set rows" using True by (auto simp: list_ex_iff image_iff) metis
  ultimately show ?thesis using True by (simp add: put_profile_def insert_absorb)
qed (auto simp: put_profile_def)

lemma put_profile_slots:
  "r \<in> set (put_profile new rows) \<Longrightarrow> sp_id new \<in> sp_id ` set rows \<Longrightarrow> sp_slot r \<in> sp_slot ` set rows"
  by (auto simp: put_profile_def update_where_def list_ex_iff image_iff split: if_splits)

lemma put_profile_new: "sp_id new \<notin> sp_id ` set rows \<Longrightarrow> put_profile new rows = rows @ [new]"
proof -
  assume "sp_id new \<notin> sp_id ` set rows"
  then have "\<not> list_ex (\<lambda>r. sp_id r = sp_id new) rows" by (auto simp: list_ex_iff dest: image_eqI [where f = sp_id, OF sym])
  then show ?thesis by (simp add: put_profile_def)
qed

definition staged_rows :: "profile_row list \<Rightarrow> profile_row list" where
  "staged_rows rows = filter (\<lambda>r. sp_slot r = ''migration'' \<and> sp_status r = ''migration_target'') rows"

lemma staged_staged_rows:
  assumes "ids = sp_id ` set (if bootstrap then with_current env c t rows else rows)"
    and "i = storageProfileID env ''migration'' (pf_fingerprint p)"
  shows "staged_rows (staged env p c bootstrap t rows) =
    (if i \<in> ids then [] else [profile_for i ''migration'' ''migration_target'' p t])"
proof -
  let ?new = "profile_for i ''migration'' ''migration_target'' p t"
  let ?rows = "update_where (\<lambda>r. sp_slot r = ''migration'') (retire t)
      (if bootstrap then with_current env c t rows else rows)"
  have staged: "staged env p c bootstrap t rows = put_profile ?new ?rows" by (simp add: staged_def assms(2))
  have ids: "sp_id ` set ?rows = ids" by (simp only: retire_ids assms(1))
  have none: "staged_rows xs = []" if "\<And>r. r \<in> set xs \<Longrightarrow> sp_slot r \<noteq> ''migration''" for xs
    using that by (auto simp: staged_rows_def filter_empty_conv)
  show ?thesis
  proof (cases "i \<in> ids")
    case True
    have "sp_slot r \<noteq> ''migration''" if "r \<in> set (put_profile ?new ?rows)" for r
    proof -
      from put_profile_slots [OF that] True ids have "sp_slot r \<in> sp_slot ` set ?rows" by (simp add: profile_for_def)
      then obtain r' where "r' \<in> set ?rows" "sp_slot r = sp_slot r'" by (rule imageE)
      with retire_slots [OF this(1)] show ?thesis by simp
    qed
    from none [OF this] True staged show ?thesis by simp
  next
    case False
    then have "sp_id ?new \<notin> sp_id ` set ?rows" unfolding ids by (simp add: profile_for_def)
    from put_profile_new [OF this] have "put_profile ?new ?rows = ?rows @ [?new]" .
    moreover have "staged_rows ?rows = []" by (rule none) (rule retire_slots)
    ultimately show ?thesis using False staged by (simp add: staged_rows_def profile_for_def)
  qed
qed

text \<open>
  C27: A target is found the first time only. An import that names another database than the current one
  leaves a target for the migration when no profile of that database has been a target before: it is then
  what \<open>MigrationStorageProfile\<close> returns. When one has, as after importing the same file twice, after a
  migration that failed or when going back to an earlier target, the import succeeds and there is no
  target: the row that is there has been retired to the slot \<open>historical\<close> and the upsert leaves its slot.
\<close>

theorem migration_target_staged_once:
  assumes "Import env cfg ignore updatedBy w = (Inr res, w')" and "calm w'"
    and "storage_changed env cfg (db w)"
    and "i = storageProfileID env ''migration'' (pf_fingerprint (StorageProfile env cfg))"
    and "i \<noteq> storageProfileID env ''current'' []"
  shows "\<exists>t. fst (MigrationStorageProfile w') =
    (if i \<in> sp_id ` set (storage_profiles (db w)) then Inl ENotFound
     else Inr (scan_profile (profile_for i ''migration'' ''migration_target'' (StorageProfile env cfg) t)))"
proof -
  let ?p = "StorageProfile env cfg" and ?rows = "storage_profiles (db w)"
  from Import_Inr [OF assms(1)] obtain t and c :: StorageProfileRecord where
    c: "case current_of (db w) of Some c' \<Rightarrow> c = c' | None \<Rightarrow> \<exists>t0. c = currentStorageProfile env cfg t0" and
    after: "storage_profiles (db w') = staged env ?p c (current_of (db w) = None) t ?rows"
    unfolding eqTrueI [OF assms(3)] if_True by blast
  have "i \<in> sp_id ` set (with_current env c t ?rows) \<longleftrightarrow> i \<in> sp_id ` set ?rows" if "current_of (db w) = None"
  proof -
    from c that obtain t0 where "c = currentStorageProfile env cfg t0" by auto
    then have "pr_ID c = storageProfileID env ''current'' []"
      by (simp add: currentStorageProfile_def storageProfileID_def Let_def)
    then show ?thesis using assms(5)
      by (simp add: with_current_def put_profile_ids storageProfileID_nonempty) (simp add: profile_for_def)
  qed
  then have "staged_rows (storage_profiles (db w')) =
      (if i \<in> sp_id ` set ?rows then [] else [profile_for i ''migration'' ''migration_target'' ?p t])"
    unfolding after staged_staged_rows [OF refl assms(4)] by simp
  then have "fst (MigrationStorageProfile w') = (if i \<in> sp_id ` set ?rows then Inl ENotFound
      else Inr (scan_profile (profile_for i ''migration'' ''migration_target'' ?p t)))"
    using assms(2) by (simp add: MigrationStorageProfile_def storageProfile_def query_calm andThen_Inr_eq
        staged_rows_def fail_def ret_def)
  then show ?thesis ..
qed

section \<open>A sample\<close>

lemma with_entries_ok:
  assumes "installation_ok (d\<lparr>ins_registry := (ins_registry d)\<lparr>config_entries := []\<rparr>\<rparr>)"
    and "installation_ok (d'\<lparr>ins_registry := (ins_registry d')\<lparr>config_entries := config_entries (ins_registry d)\<rparr>\<rparr>)"
  shows "installation_ok d"
  using assms
  by (auto simp: installation_violation_def registry_violation_def registry_uniques_def
      registry_foreign_keys_def registry_checks_def installation_foreign_keys_def installation_uniques_def
      split: option.splits if_splits)

definition bare :: "installation \<Rightarrow> installation" where
  "bare d = d\<lparr>ins_registry := (ins_registry d)\<lparr>config_entries := []\<rparr>\<rparr>"

lemma stage_migration_calm:
  assumes "calm w" and "installation_ok (db w)"
    and "storageEntriesFromProfile env (pr_Provider c) (pr_ConfigPayload c) = Inr es'"
    and "distinct (map en_Key (es0 @ es'))"
    and "distinct (map (\<lambda>e. stableID env [''config'', en_Key e, ''system'']) (es0 @ es'))"
    and "config_entries (ins_registry (db w)) = map (\<lambda>e. entry_row env e ''system'' 1 (Trimmed t) updatedBy) es0"
    and "i = storageProfileID env ''migration'' (pf_fingerprint p)"
    and "d1 = snd (on_profiles (update_where (\<lambda>r. sp_slot r = ''migration'') (retire t)) (bare (db w)))"
    and "d2 = snd (on_profiles (put_profile (profile_for i ''migration'' ''migration_target'' p t)) d1)"
    and "d3 = snd (on_settings (put_settings (settings_for env i (pf_provider p) t)) d2)"
    and "installation_ok d1" and "installation_ok d2" and "installation_ok d3"
  shows "\<exists>w'. stage_migration env p c False t updatedBy w = (Inr (), w') \<and> calm w'"
proof -
  from upsert_entries_fresh [of w es0 es' env t updatedBy] assms(1,2,4-6) obtain w1 where
    w1: "upsert_entries env es' t updatedBy w = (Inr (), w1)" "calm w1" "installation_ok (db w1)" "bare (db w1) = bare (db w)"
    by (auto simp: on_entries_def bare_def)
  have step: "\<exists>w'. exec installation_violation st w0 = (Inr (), w') \<and> calm w' \<and> installation_ok (db w') \<and>
      bare (db w') = snd (st (bare (db w0)))"
    if "calm w0" "installation_ok (db w0)" "st = on_profiles f \<or> st = on_settings g" "installation_ok (snd (st (bare (db w0))))"
    for st :: "installation \<Rightarrow> unit \<times> installation" and f g and w0 :: "installation world"
  proof -
    have beside: "bare (snd (st (db w0))) = snd (st (bare (db w0)))"
      "config_entries (ins_registry (snd (st (db w0)))) = config_entries (ins_registry (db w0))"
      using that(3) by (auto simp: bare_def on_profiles_def on_settings_def)
    have ok: "installation_ok (snd (st (db w0)))"
      using that(2,4) beside(2)
      by (intro with_entries_ok [of "snd (st (db w0))" "db w0"]) (simp_all add: beside(1) [symmetric], simp add: bare_def)
    from exec_calm [of w0 installation_violation st, OF that(1) ok] ok beside(1) that(1) show ?thesis by simp
  qed
  from step [of w1, OF w1(2,3) disjI1 [OF refl], of "update_where (\<lambda>r. sp_slot r = ''migration'') (retire t)"] assms(8,11) w1(4)
  obtain w2 where w2: "retireMigrationProfiles t w1 = (Inr (), w2)" "calm w2" "installation_ok (db w2)" "bare (db w2) = d1"
    by (auto simp: retireMigrationProfiles_def)
  from step [of w2, OF w2(2,3) disjI1 [OF refl], of "put_profile (profile_for i ''migration'' ''migration_target'' p t)"] assms(9,12) w2(4)
  obtain w3 where w3: "iexec (on_profiles (put_profile (profile_for i ''migration'' ''migration_target'' p t))) w2 = (Inr (), w3)"
    "calm w3" "installation_ok (db w3)" "bare (db w3) = d2" by auto
  from step [of w3, OF w3(2,3) disjI2 [OF refl], of "put_settings (settings_for env i (pf_provider p) t)"] assms(10,13) w3(4)
  obtain w4 where w4: "upsertStorageProviderSettingsForProfile env i (pf_provider p) t w3 = (Inr (), w4)" "calm w4"
    by (auto simp: upsertStorageProviderSettingsForProfile_def)
  have "upsertStorageProfile env i ''migration'' (pf_provider p) (pf_engineFlavor p) (pf_payload p) (pf_fingerprint p)
      ''migration_target'' [] t w2 = (Inr i, w3)"
    using w3(1) by (simp add: upsertStorageProfile_def andThen_def null_if_empty_def profile_for_def ret_def
        storageProfileID_nonempty assms(7) Let_def)
  then show ?thesis
    using w4 by (simp add: stage_migration_def andThen_def assms(3) lift_result_def ret_def w1(1) w2(1) assms(7) [symmetric])
qed

definition staging_ok :: "config_env \<Rightarrow> RuntimeConfig \<Rightarrow> instant \<Rightarrow> installation \<Rightarrow> bool" where
  "staging_ok env cfg t d \<longleftrightarrow>
     (let p = StorageProfile env cfg; i = storageProfileID env ''migration'' (pf_fingerprint p);
          d1 = snd (on_profiles (update_where (\<lambda>r. sp_slot r = ''migration'') (retire t)) d);
          d2 = snd (on_profiles (put_profile (profile_for i ''migration'' ''migration_target'' p t)) d1);
          d3 = snd (on_settings (put_settings (settings_for env i (pf_provider p) t)) d2)
      in config_entries (ins_registry d) = [] \<and> installation_ok d \<and> installation_ok d1 \<and> installation_ok d2 \<and> installation_ok d3)"

lemma Import_staged:
  assumes "calm w" and "Validate cfg = Inr ()" and "current_of (db w) = Some c" and "storage_changed env cfg (db w)"
    and "storageEntriesFromProfile env (pr_Provider c) (pr_ConfigPayload c) = Inr es'"
    and "distinct (map (\<lambda>k. stableID env [''config'', k, ''system'']) config_keys)"
    and "staging_ok env cfg (clk w (Suc (tick w))) (db w)"
  shows "\<exists>res w'. Import env cfg None updatedBy w = (Inr res, w') \<and> calm w'"
proof -
  let ?t = "clk w (Suc (tick w))" and ?p = "StorageProfile env cfg"
  let ?w = "step_tick (step_tick (step_tick w))"
  let ?kept = "filter (\<lambda>e. \<not> isStorageKey (en_Key e)) (Flatten env cfg)"
  note ok = assms(7) [unfolded staging_ok_def Let_def]
  have keys: "distinct (map en_Key ?kept)" "en_Key ` set ?kept \<subseteq> set config_keys"
    using distinct_map_filter [OF Flatten_keys(2)] by (simp, unfold Flatten_keys(1) [symmetric, of env cfg]) auto
  from profile_entries_keys [OF assms(5)] have keys': "distinct (map en_Key es')"
    "\<And>e. e \<in> set es' \<Longrightarrow> isStorageKey (en_Key e)" "en_Key ` set es' \<subseteq> set config_keys" by auto
  have "en_Key ` set ?kept \<inter> en_Key ` set es' = {}"
  proof -
    have "en_Key e \<noteq> en_Key e'" if "e \<in> set ?kept" "e' \<in> set es'" for e e'
      using that(1) keys'(2) [OF that(2)] by auto
    then show ?thesis by blast
  qed
  then have all: "distinct (map en_Key (?kept @ es'))" "en_Key ` set (?kept @ es') \<subseteq> set config_keys"
    using keys keys'(1,3) by (simp_all add: image_Un)
  from upsert_entries_fresh [of ?w "[]" ?kept env ?t updatedBy] obtain w1 where
    w1: "upsert_entries env ?kept ?t updatedBy ?w = (Inr (), w1)" "calm w1" "installation_ok (db w1)"
      "db w1 = snd (on_entries (\<lambda>_. map (\<lambda>e. entry_row env e ''system'' 1 (Trimmed ?t) updatedBy) ?kept) (db w))"
    using assms(1) ok keys Flatten_ids [OF assms(6) keys(2,1)] by auto
  have bare: "bare (db w1) = db w" using w1(4) ok by (simp add: bare_def on_entries_def)
  have entries: "config_entries (ins_registry (db w1)) = map (\<lambda>e. entry_row env e ''system'' 1 (Trimmed ?t) updatedBy) ?kept"
    using w1(4) by (simp add: on_entries_def)
  from stage_migration_calm [where t = ?t and updatedBy = updatedBy and p = ?p,
      OF w1(2,3) assms(5) all(1) Flatten_ids [OF assms(6) all(2,1)] entries refl refl refl refl, unfolded bare,
      OF ok [THEN conjunct2, THEN conjunct2, THEN conjunct1] ok [THEN conjunct2, THEN conjunct2, THEN conjunct2, THEN conjunct1]
        ok [THEN conjunct2, THEN conjunct2, THEN conjunct2, THEN conjunct2]]
  obtain w2 where w2: "stage_migration env ?p c False ?t updatedBy w1 = (Inr (), w2)" "calm w2" by blast
  have changed: "pr_DatabaseFingerprint c \<noteq> pf_fingerprint ?p"
    using assms(3,4) by (simp add: storage_changed_def)
  have "import_tx env (Flatten env cfg) ?p (Some c) None None ?t updatedBy ?w = (Inr (), w2)"
    using changed by (simp add: import_tx_def andThen_def w1(1) w2(1) ret_def)
  moreover have "current_or_none w = (Inr (Some c), step_tick w)"
    using assms(1,3) by (auto simp: current_or_none_def CurrentStorageProfile_def storageProfile_def query_calm
        outcome_def andThen_def ret_def current_of_def split: option.splits)
  ultimately show ?thesis
    using assms(1,2) w2(2) by (simp add: Import_def andThen_def WithTx_def now_def ret_def Let_def)
qed

definition pg_config :: RuntimeConfig where
  "pg_config = sample_config\<lparr>rc_ExternalDatabase := sample_external\<rparr>"

text \<open>The installation after that file was imported once; the entries are left out.\<close>

definition once_staged :: installation where
  "once_staged = fresh_db\<lparr>storage_profiles :=
     [profile_for (storageProfileID config_sample_env ''current'' []) ''current'' ''active''
        (StorageProfile config_sample_env sample_config) 0,
      profile_for (storageProfileID config_sample_env ''migration'' (pf_fingerprint (StorageProfile config_sample_env pg_config)))
        ''migration'' ''migration_target'' (StorageProfile config_sample_env pg_config) 0]\<rparr>"

lemma migration_target_staged_once_witness:
  "\<exists>res w'. Import config_sample_env pg_config None ''cli'' (config_world once_staged) = (Inr res, w') \<and>
     fst (MigrationStorageProfile w') = Inl ENotFound"
proof -
  let ?i = "storageProfileID config_sample_env ''migration'' (pf_fingerprint (StorageProfile config_sample_env pg_config))"
  obtain c where c: "current_of once_staged = Some c" "pr_Provider c = ''sqlite''" "pr_ConfigPayload c = ''D''"
  proof -
    have "case current_of once_staged of Some c \<Rightarrow> pr_Provider c = ''sqlite'' \<and> pr_ConfigPayload c = ''D'' | None \<Rightarrow> False"
      by code_simp
    then obtain c where "current_of once_staged = Some c" "pr_Provider c = ''sqlite''" "pr_ConfigPayload c = ''D''"
      by (auto split: option.splits)
    then show ?thesis by (rule that)
  qed
  have "storageEntriesFromProfile config_sample_env ''sqlite'' ''D'' =
      Inr (storage_entries \<lparr>da_DatabaseType = ''sqlite'', da_DatabasePath = ''/var/lib//t.db''\<rparr> no_external)" by code_simp
  note es = this [folded c(2,3)]
  have valid: "Validate pg_config = Inr ()" by code_simp
  have changed: "storage_changed config_sample_env pg_config once_staged" by code_simp
  have staging: "staging_ok config_sample_env pg_config 0 once_staged" by code_simp
  from Import_staged [of "config_world once_staged" pg_config c config_sample_env _ "''cli''", OF _ valid _ _ es sample_ids] c(1) changed staging
  obtain res w' where w': "Import config_sample_env pg_config None ''cli'' (config_world once_staged) = (Inr res, w')" "calm w'"
    by auto
  have there: "?i \<in> sp_id ` set (storage_profiles once_staged)" "?i \<noteq> storageProfileID config_sample_env ''current'' []"
    by code_simp+
  from migration_target_staged_once [OF w' _ refl there(2)] changed there(1) w'(1) show ?thesis by auto
qed

end
