(* ===== verification/Config_Type_Facts.thy ===== *)
theory Config_Type_Facts
  imports Config_Import_Facts
begin

text \<open>
  The types of the stored settings. A setting is stored as a text beside the name of its type; the types
  of the settings are written down once, and every import leaves each stored text readable at its type.
\<close>

definition setting_types :: "(bytes \<times> bytes) list" where
  "setting_types = zip config_keys
     [''string'', ''string'', ''string'',
      ''string'', ''string'', ''bool'', ''string'', ''string'', ''string'', ''int'', ''string'', ''string'', ''string'',
      ''json'', ''json'', ''json'', ''string'', ''string'', ''string'', ''bool'', ''json'', ''string'', ''bool'',
      ''bool'', ''int'', ''json'', ''string'', ''string'', ''string'']"

text \<open>A text of a type: what \<open>typedValue\<close> and the readers of \<open>RuntimeSettings\<close> take for granted.\<close>

definition has_type :: "config_env \<Rightarrow> bytes \<Rightarrow> bytes \<Rightarrow> bool" where
  "has_type env v ty \<longleftrightarrow>
     ty = ''string'' \<or> ty = ''bool'' \<and> v \<in> {''true'', ''false''} \<or>
     ty = ''int'' \<and> decimal (scan_decimal v) = v \<or> ty = ''json'' \<and> (\<exists>j. cv_parse env v = Doc j)"

definition typed_setting :: "config_env \<Rightarrow> bytes \<Rightarrow> bytes \<Rightarrow> bytes \<Rightarrow> bool" where
  "typed_setting env k v ty \<longleftrightarrow> map_of setting_types k = Some ty \<and> has_type env v ty"

definition typed_entry :: "config_env \<Rightarrow> Entry \<Rightarrow> bool" where
  "typed_entry env e = typed_setting env (en_Key e) (en_Value e) (en_ValueType e)"

definition settings_typed :: "config_env \<Rightarrow> installation \<Rightarrow> bool" where
  "settings_typed env d = list_all (\<lambda>r. typed_setting env (ce_key r) (ce_value r) (ce_value_type r)) (system_rows d)"

section \<open>Entries\<close>

lemma entry_types: "map (\<lambda>e. (en_Key e, en_ValueType e)) (entries_of env cfg) = setting_types"
  by (simp add: entries_of_def storage_entries_def entry_defs Let_def setting_types_def config_keys_def)

lemma storage_entry_types:
  "map (\<lambda>e. (en_Key e, en_ValueType e)) (storage_entries d x) = filter (\<lambda>(k, _). isStorageKey k) setting_types"
proof -
  have "filter (\<lambda>(k, _). isStorageKey k) setting_types =
      [(''database.database_type'', ''string''), (''database.database_path'', ''string''),
       (''external_databases.enabled'', ''bool''), (''external_databases.provider'', ''string''),
       (''external_databases.engine_flavor'', ''string''), (''external_databases.host'', ''string''),
       (''external_databases.port'', ''int''), (''external_databases.username'', ''string''),
       (''external_databases.password'', ''string''), (''external_databases.database_name'', ''string'')]"
    by code_simp
  then show ?thesis by (simp add: storage_entries_def entry_defs)
qed

lemma setting_types_keys: "map fst setting_types = config_keys"
  by (simp add: setting_types_def config_keys_def)

lemma setting_type: "(k, ty) \<in> set setting_types \<Longrightarrow> map_of setting_types k = Some ty"
  using setting_types_keys config_keys_distinct by (intro map_of_is_SomeI) simp_all

lemma typed_entryI:
  assumes "(en_Key e, en_ValueType e) \<in> set setting_types" and "has_type env (en_Value e) (en_ValueType e)"
  shows "typed_entry env e"
  using assms by (simp add: typed_entry_def typed_setting_def setting_type)

lemma has_type_entries [simp]:
  "has_type env (en_Value (stringEntry k v)) (en_ValueType (stringEntry k v))"
  "has_type env (en_Value (boolEntry k b)) (en_ValueType (boolEntry k b))"
  "- (2 ^ 63) \<le> n \<Longrightarrow> n < 2 ^ 63 \<Longrightarrow> has_type env (en_Value (intEntry k n)) (en_ValueType (intEntry k n))"
  "cv_parse env (cv_marshal env j) = Doc j \<Longrightarrow> has_type env (en_Value (jsonEntry env k j)) (en_ValueType (jsonEntry env k j))"
  by (simp_all add: has_type_def entry_defs scan_decimal_decimal)

lemma storage_entries_typed:
  assumes "- (2 ^ 63) \<le> ed_Port x" and "ed_Port x < 2 ^ 63" and "e \<in> set (storage_entries d x)"
  shows "typed_entry env e"
proof (rule typed_entryI)
  have "(en_Key e, en_ValueType e) \<in> set (map (\<lambda>e. (en_Key e, en_ValueType e)) (storage_entries d x))"
    using assms(3) by auto
  then show "(en_Key e, en_ValueType e) \<in> set setting_types" unfolding storage_entry_types by auto
  have "list_all (\<lambda>e. has_type env (en_Value e) (en_ValueType e)) (storage_entries d x)"
    unfolding storage_entries_def list.pred_inject using assms(1,2) by (intro conjI) (simp_all only: has_type_entries list.pred_inject)
  then show "has_type env (en_Value e) (en_ValueType e)" using assms(3) by (simp add: list_all_iff)
qed

lemma entries_typed:
  assumes "\<And>j. j \<in> set (entry_documents cfg) \<Longrightarrow> cv_parse env (cv_marshal env j) = Doc j"
    and "- (2 ^ 63) \<le> ed_Port (rc_ExternalDatabase cfg)" and "ed_Port (rc_ExternalDatabase cfg) < 2 ^ 63"
    and "- (2 ^ 63) \<le> wk_Concurrency (rc_Workers cfg)" and "wk_Concurrency (rc_Workers cfg) < 2 ^ 63"
    and "e \<in> set (entries_of env cfg)"
  shows "typed_entry env e"
proof (rule typed_entryI)
  have "(en_Key e, en_ValueType e) \<in> set (map (\<lambda>e. (en_Key e, en_ValueType e)) (entries_of env cfg))"
    using assms(6) by auto
  then show "(en_Key e, en_ValueType e) \<in> set setting_types" unfolding entry_types .
  note codec = assms(1) [unfolded entry_documents_def list.set insert_iff empty_iff]
  have "list_all (\<lambda>e. has_type env (en_Value e) (en_ValueType e)) (entries_of env cfg)"
    unfolding entries_of_def storage_entries_def Let_def list_all_append list.pred_inject
    using assms(2-5) by (intro conjI) (simp_all add: codec)
  then show "has_type env (en_Value e) (en_ValueType e)" using assms(6) by (simp add: list_all_iff)
qed

section \<open>The port of a stored profile\<close>

lemma int_member_range: "int_member name kvs = Inr n \<Longrightarrow> - (2 ^ 63) \<le> n \<and> n < 2 ^ 63"
proof -
  have "- (2 ^ 63) \<le> foldl (\<lambda>acc v. case v of JNumber (Num q) \<Rightarrow> floor q | _ \<Rightarrow> acc) a vs \<and>
      foldl (\<lambda>acc v. case v of JNumber (Num q) \<Rightarrow> floor q | _ \<Rightarrow> acc) a vs < 2 ^ 63"
    if "list_all int_or_null vs" "- (2 ^ 63) \<le> a" "a < 2 ^ 63" for vs :: "json list" and a :: int
    using that
  proof (induction vs arbitrary: a)
    case (Cons v vs)
    then show ?case by (cases v rule: int_or_null.cases) auto
  qed simp
  then show "int_member name kvs = Inr n \<Longrightarrow> ?thesis" by (auto simp: int_member_def split: if_splits)
qed

lemma unmarshal_Inr: "System.unmarshal f raw = Inr x \<Longrightarrow> \<exists>kvs. f kvs = Inr x"
  by (induction f raw rule: System.unmarshal.induct) auto

lemma decode_external_port: "decode_external raw = Inr x \<Longrightarrow> - (2 ^ 63) \<le> ed_Port x \<and> ed_Port x < 2 ^ 63"
  unfolding decode_external_def
  by (drule unmarshal_Inr, elim exE) (auto split: sum.split_asm dest: int_member_range)

lemma profile_entries_typed:
  assumes "storageEntriesFromProfile env p payload = Inr es" and "e \<in> set es"
  shows "typed_entry env e"
proof -
  from assms(1) obtain d x where "es = storage_entries d x" "- (2 ^ 63) \<le> ed_Port x" "ed_Port x < 2 ^ 63"
    by (auto simp: storageEntriesFromProfile_def Let_def no_external_def dest: decode_external_port
        split: if_splits sum.splits)
  with assms(2) show ?thesis by (auto intro: storage_entries_typed)
qed

section \<open>Imports keep the types\<close>

lemma put_entry_rows:
  assumes "r \<in> set (put_entry env e t updatedBy rows)"
  shows "r \<in> set rows \<or> (ce_key r, ce_value r, ce_value_type r) = (en_Key e, en_Value e, en_ValueType e)"
  using assms by (auto simp: put_entry_def Let_def update_where_def entry_row_def split: if_splits)

lemma fold_put_rows:
  assumes "r \<in> set (fold (\<lambda>e. put_entry env e t updatedBy) es rows)"
  shows "r \<in> set rows \<or> (\<exists>e \<in> set es. (ce_key r, ce_value r, ce_value_type r) = (en_Key e, en_Value e, en_ValueType e))"
  using assms by (induction es arbitrary: rows) (auto dest: put_entry_rows)

lemma entries_after_typed:
  assumes "entries_after env es t updatedBy d d'" and "settings_typed env d" and "\<And>e. e \<in> set es \<Longrightarrow> typed_entry env e"
  shows "settings_typed env d'"
proof -
  have "typed_setting env (ce_key r) (ce_value r) (ce_value_type r)" if "r \<in> set (system_rows d')" for r
  proof -
    from that assms(1) fold_put_rows [of r env t updatedBy es]
    have "r \<in> set (system_rows d) \<or>
        (\<exists>e \<in> set es. (ce_key r, ce_value r, ce_value_type r) = (en_Key e, en_Value e, en_ValueType e))"
      by (auto simp: system_rows_def entries_after_def)
    with assms(2,3) show ?thesis by (auto simp: settings_typed_def list_all_iff typed_entry_def)
  qed
  then show ?thesis by (simp add: settings_typed_def list_all_iff)
qed

text \<open>
  C23: Every stored setting keeps its type. When each system setting of the database has one of the keys
  of the configuration with that key's type and a text that is readable at it (a bool is true or false,
  an int is the decimal of itself, JSON parses), the same holds after every successful import, also when
  the storage settings come from the stored profile of the current database instead of the file.
\<close>

theorem Import_keeps_types:
  assumes "Import env cfg ignore updatedBy w = (Inr res, w')" and "settings_typed env (db w)"
    and "\<And>j. j \<in> set (entry_documents (Normalize cfg)) \<Longrightarrow> cv_parse env (cv_marshal env j) = Doc j"
    and "- (2 ^ 63) \<le> ed_Port (rc_ExternalDatabase cfg)" and "ed_Port (rc_ExternalDatabase cfg) < 2 ^ 63"
  shows "settings_typed env (db w')"
proof -
  note imported = Import_Inr [OF assms(1)]
  then have "wk_Concurrency (rc_Workers cfg) = 1" by (intro Validate_one_worker) blast
  then have flat: "typed_entry env e" if "e \<in> set (Flatten env cfg)" for e
    using that assms(3-5) by (intro entries_typed [of "Normalize cfg"]) (simp_all add: Flatten_def Normalize_def Let_def)
  show ?thesis
  proof (cases "storage_changed env cfg (db w)")
    case True
    from imported obtain t es' and c :: StorageProfileRecord where
      es': "storageEntriesFromProfile env (pr_Provider c) (pr_ConfigPayload c) = Inr es'" and
      after: "entries_after env (filter (\<lambda>e. \<not> isStorageKey (en_Key e)) (Flatten env cfg) @ es') t updatedBy (db w) (db w')"
      unfolding eqTrueI [OF True] if_True by blast
    from after assms(2) show ?thesis
      by (rule entries_after_typed) (auto intro: flat profile_entries_typed [OF es'])
  next
    case False
    with imported obtain t where "entries_after env (Flatten env cfg) t updatedBy (db w) (db w')" by auto
    then show ?thesis using assms(2) flat by (rule entries_after_typed)
  qed
qed

lemma Import_keeps_types_witness:
  "\<exists>res w'. Import config_sample_env sample_config None ''cli'' (config_world fresh_db) = (Inr res, w') \<and>
     settings_typed config_sample_env (db w')"
proof -
  obtain res w' where w': "Import config_sample_env sample_config None ''cli'' (config_world fresh_db) = (Inr res, w')"
    by (rule sample_import)
  have "settings_typed config_sample_env (db w')"
    using fresh_db_fresh(2)
    by (intro Import_keeps_types [OF w' _ sample_codec_law]) (simp_all add: settings_typed_def sample_config_def no_external_def)
  with w' show ?thesis by blast
qed

end
