(* ===== verification/Repo_Handlers.thy ===== *)
theory Repo_Handlers
  imports System
begin

text \<open>
  \<open>internal/repository/handlers.go\<close>: the jobs that clone, pull and synchronize a repository. The state
  is the database, the commands that were run, each with the registry as it was at that moment, and the
  temporary key files that exist. Git, the calls on the file system and the environment variables are
  parameters, asked at a moment. \<open>NormalizeTarget\<close> takes rounds, as in \<open>Repo_Identity\<close>.
\<close>

section \<open>Commands, files and what they are asked of\<close>

record command =
  cm_Args :: "bytes list"
  cm_Dir :: bytes
  cm_Env :: "bytes list option"

record op_state =
  os_system :: system
  os_commands :: "(command \<times> registry) list"
  os_keys :: "bytes list"

record op_env =
  oe_machine :: machine
  oe_git :: "nat \<Rightarrow> command \<Rightarrow> bool \<times> bytes"
  oe_Stat :: "nat \<Rightarrow> bytes \<Rightarrow> path_error + unit"
  oe_ReadDir :: "nat \<Rightarrow> bytes \<Rightarrow> bytes + bytes list"
  oe_MkdirAll :: "nat \<Rightarrow> bytes \<Rightarrow> bytes option"
  oe_CreateTemp :: "nat \<Rightarrow> bytes + bytes"
  oe_WriteString :: "nat \<Rightarrow> bytes \<Rightarrow> bytes \<Rightarrow> bytes option"
  oe_Close :: "nat \<Rightarrow> bytes \<Rightarrow> bytes option"
  oe_Chmod :: "nat \<Rightarrow> bytes \<Rightarrow> bytes option"
  oe_Remove :: "nat \<Rightarrow> bytes \<Rightarrow> bool"
  oe_Environ :: "bytes list"
  oe_LookupEnv :: "bytes \<Rightarrow> bytes option"

definition on_store :: "(registry, 'a) io \<Rightarrow> (op_state, 'a) io" where
  "on_store = zoom (\<lambda>s. sys_registry (os_system s))
     (\<lambda>d s. s\<lparr>os_system := (os_system s)\<lparr>sys_registry := d\<rparr>\<rparr>)"

definition ask :: "(nat \<Rightarrow> 'a) \<Rightarrow> ('d, 'a) io" where
  "ask f = (\<lambda>w. (Inr (f (tick w)), step_tick w))"

definition modify :: "('d \<Rightarrow> 'd) \<Rightarrow> ('d, unit) io" where
  "modify f = (\<lambda>w. (Inr (), w\<lparr>db := f (db w)\<rparr>))"

text \<open>\<open>CombinedOutput\<close>: whether the command succeeded, and what it wrote.\<close>

definition run_command :: "op_env \<Rightarrow> command \<Rightarrow> (op_state, bool \<times> bytes) io" where
  "run_command env c =
     andThen (modify (\<lambda>s. s\<lparr>os_commands := os_commands s @ [(c, sys_registry (os_system s))]\<rparr>)) (\<lambda>_.
       ask (\<lambda>n. oe_git env n c))"

text \<open>A deferred call: it runs after the rest, whose outcome stays.\<close>

definition deferring :: "('d, 'a) io \<Rightarrow> ('d, unit) io \<Rightarrow> ('d, 'a) io" where
  "deferring m rest =
     outcome m (\<lambda>r. andThen (ignoring rest) (\<lambda>_. case r of Inl e \<Rightarrow> fail e | Inr x \<Rightarrow> ret x))"

section \<open>Payloads and results\<close>

record RepoClonePayload =
  cp_SchemaVersion :: bytes
  cp_RepositoryID :: bytes
  cp_ProviderInstanceID :: bytes
  cp_Provider :: bytes
  cp_ProviderHost :: bytes
  cp_CredentialID :: bytes
  cp_Protocol :: bytes
  cp_CloneURL :: bytes
  cp_CloneScope :: bytes
  cp_FullPath :: bytes
  cp_RootPathID :: bytes
  cp_TargetDirectory :: bytes
  cp_LocalPath :: bytes
  cp_RepositoryCreated :: bool

record RepoPullPayload =
  pp_SchemaVersion :: bytes
  pp_RepositoryID :: bytes
  pp_CredentialID :: bytes

record RepoSyncPayload =
  yp_SchemaVersion :: bytes
  yp_RepositoryID :: bytes
  yp_CredentialID :: bytes
  yp_Reason :: bytes

definition decode_clone :: "raw \<Rightarrow> bytes + RepoClonePayload" where
  "decode_clone = unmarshal (\<lambda>kvs.
     case (string_member ''schema_version'' kvs, string_member ''repository_id'' kvs,
           string_member ''provider_instance_id'' kvs, string_member ''provider'' kvs,
           string_member ''provider_host'' kvs, string_member ''credential_id'' kvs,
           string_member ''protocol'' kvs) of
       (Inr v, Inr repository, Inr inst, Inr prov, Inr host, Inr cred, Inr protocol) \<Rightarrow>
         (case (string_member ''clone_url'' kvs, string_member ''clone_scope'' kvs, string_member ''full_path'' kvs,
                string_member ''root_path_id'' kvs, string_member ''target_directory'' kvs,
                string_member ''local_path'' kvs, bool_member ''repository_created'' kvs) of
            (Inr url, Inr scope, Inr path, Inr rt, Inr target, Inr local, Inr created) \<Rightarrow>
              Inr \<lparr>cp_SchemaVersion = v, cp_RepositoryID = repository, cp_ProviderInstanceID = inst,
                   cp_Provider = prov, cp_ProviderHost = host, cp_CredentialID = cred, cp_Protocol = protocol,
                   cp_CloneURL = url, cp_CloneScope = scope, cp_FullPath = path, cp_RootPathID = rt,
                   cp_TargetDirectory = target, cp_LocalPath = local, cp_RepositoryCreated = created\<rparr>
          | _ \<Rightarrow> Inl mismatch)
     | _ \<Rightarrow> Inl mismatch)"

definition decode_pull :: "raw \<Rightarrow> bytes + RepoPullPayload" where
  "decode_pull = unmarshal (\<lambda>kvs.
     case (string_member ''schema_version'' kvs, string_member ''repository_id'' kvs,
           string_member ''credential_id'' kvs) of
       (Inr v, Inr repository, Inr cred) \<Rightarrow>
         Inr \<lparr>pp_SchemaVersion = v, pp_RepositoryID = repository, pp_CredentialID = cred\<rparr>
     | _ \<Rightarrow> Inl mismatch)"

definition decode_sync :: "raw \<Rightarrow> bytes + RepoSyncPayload" where
  "decode_sync = unmarshal (\<lambda>kvs.
     case (string_member ''schema_version'' kvs, string_member ''repository_id'' kvs,
           string_member ''credential_id'' kvs, string_member ''reason'' kvs) of
       (Inr v, Inr repository, Inr cred, Inr reason) \<Rightarrow>
         Inr \<lparr>yp_SchemaVersion = v, yp_RepositoryID = repository, yp_CredentialID = cred, yp_Reason = reason\<rparr>
     | _ \<Rightarrow> Inl mismatch)"

text \<open>The error is dropped here; of several values the last that is a string counts.\<close>

definition repositoryIDFromPayload :: "raw \<Rightarrow> bytes" where
  "repositoryIDFromPayload payload =
     trim_space
       (case payload of
          Doc (JObject kvs) \<Rightarrow>
            foldl (\<lambda>acc v. case v of JString s \<Rightarrow> s | _ \<Rightarrow> acc) [] (matching ''repository_id'' kvs)
        | _ \<Rightarrow> [])"

record OperationResult =
  or_RepositoryID :: bytes
  or_ProviderInstanceID :: bytes
  or_CredentialID :: bytes
  or_Operation :: bytes
  or_RootPathID :: bytes
  or_Provider :: bytes
  or_ProviderHost :: bytes
  or_Protocol :: bytes
  or_LocalPath :: bytes
  or_RepositoriesCreated :: int
  or_BeforeRevision :: "bytes option"
  or_AfterRevision :: bytes
  or_Changed :: bool
  or_ExitCode :: int

definition operation_json :: "OperationResult \<Rightarrow> raw" where
  "operation_json r =
     Doc (JObject
       ([(''schema_version'', JString ''jobs.repo_operation.result.v1''),
         (''repository_id'', JString (or_RepositoryID r))] @
        unless_empty ''provider_instance_id'' (or_ProviderInstanceID r) @
        unless_empty ''credential_id'' (or_CredentialID r) @
        [(''operation'', JString (or_Operation r))] @
        unless_empty ''root_path_id'' (or_RootPathID r) @ unless_empty ''provider'' (or_Provider r) @
        unless_empty ''provider_host'' (or_ProviderHost r) @ unless_empty ''protocol'' (or_Protocol r) @
        unless_empty ''local_path'' (or_LocalPath r) @
        [(''repositories_created'', number_json (or_RepositoriesCreated r)),
         (''before_revision'', case or_BeforeRevision r of None \<Rightarrow> JNull | Some v \<Rightarrow> JString v)] @
        unless_empty ''after_revision'' (or_AfterRevision r) @
        [(''changed'', JBool (or_Changed r)), (''exit_code'', number_json (or_ExitCode r))]))"

definition boolInt :: "bool \<Rightarrow> int" where
  "boolInt v = (if v then 1 else 0)"

section \<open>Redaction\<close>

text \<open>\<open>https?://[^/\s:@]+:[^/\s@]+@\<close>; the other two patterns are those of \<open>Safety\<close>.\<close>

definition match_password_url :: "bytes \<Rightarrow> bytes option" where
  "match_password_url s =
     (case match_literal ''http'' s of
        None \<Rightarrow> None
      | Some r0 \<Rightarrow>
          (case match_literal ''://'' (case match_letter (CHR ''s'') r0 of Some r \<Rightarrow> r | None \<Rightarrow> r0) of
             None \<Rightarrow> None
           | Some v \<Rightarrow>
               (let r1 = dropWhile (\<lambda>c. c \<notin> set ''/:@'' \<and> \<not> re_space c) v
                in if length r1 < length v \<and> has_prefix r1 '':''
                   then (let p = drop 1 r1; r2 = dropWhile (\<lambda>c. c \<notin> set ''/@'' \<and> \<not> re_space c) p
                         in if length r2 < length p \<and> has_prefix r2 ''@'' then Some (drop 1 r2) else None)
                   else None)))"

definition repositorySecretPatterns :: "(bytes \<Rightarrow> bytes option) list" where
  "repositorySecretPatterns = [match_assignment, match_password_url, match_secretref]"

definition redact_repository_match :: "bytes \<Rightarrow> bytes" where
  "redact_repository_match v =
     (if contains v ''://'' \<and> CHR ''@'' \<in> set v
      then (case before_scheme_sep v of Some p \<Rightarrow> p | None \<Rightarrow> v) @ ''://[redacted]@''
      else
        (case dropWhile (\<lambda>c. c \<notin> set '':='') v of
           c # _ \<Rightarrow> trim_space (takeWhile (\<lambda>c. c \<notin> set '':='') v) @ [c] @ ''[redacted]''
         | [] \<Rightarrow> ''[redacted]''))"

definition redactRepositoryMessage :: "bytes \<Rightarrow> bytes" where
  "redactRepositoryMessage v =
     trim_space (foldl (\<lambda>msg pattern. replace_all pattern redact_repository_match msg) v repositorySecretPatterns)"

section \<open>Errors\<close>

definition repo_err :: "repo_error \<Rightarrow> err" where
  "repo_err e = (case e of ValidationError code m \<Rightarrow> EValidation code m | OtherError m \<Rightarrow> EMessage m)"

definition err_code :: "err \<Rightarrow> bytes" where
  "err_code e =
     (case e of EValidation code _ \<Rightarrow> if code \<noteq> [] then code else ''validation_error'' | _ \<Rightarrow> ''validation_error'')"

abbreviation refuse :: "bytes \<Rightarrow> bytes \<Rightarrow> err" where
  "refuse code msg \<equiv> handler_error code msg False"

definition coded :: "err \<Rightarrow> err" where
  "coded e = refuse (err_code e) (repository_text e)"

definition unread :: "err \<Rightarrow> err" where
  "unread e = refuse ''validation_error'' (scanner_text e)"

text \<open>A path that takes rounds: none left, refused under a code, or there.\<close>

definition with_path ::
    "(repo_error + 'p) option \<Rightarrow> (err \<Rightarrow> bytes) \<Rightarrow> ('p \<Rightarrow> ('d, 'a option) io) \<Rightarrow> ('d, 'a option) io" where
  "with_path r code f =
     (case r of
        None \<Rightarrow> ret None
      | Some (Inl e) \<Rightarrow> fail (refuse (code (repo_err e)) (repository_text (repo_err e)))
      | Some (Inr p) \<Rightarrow> f p)"

definition validateRepositoryOperable :: "Repository \<Rightarrow> ('d, unit) io" where
  "validateRepositoryOperable repo =
     (let status = re_Status repo; msg = ''repository status '' @ status @ '' cannot be operated''
      in if status = ''active'' then ret ()
         else if status \<in> {''superseded'', ''disabled'', ''missing''}
         then fail (refuse ''repository_status_not_operable'' msg)
         else fail (refuse ''validation_error'' msg))"

section \<open>Credentials\<close>

abbreviation code_of :: "char \<Rightarrow> nat" where "code_of c \<equiv> of_char c"

definition b64 :: "nat \<Rightarrow> char" where
  "b64 n = ''ABCDEFGHIJKLMNOPQRSTUVWXYZabcdefghijklmnopqrstuvwxyz0123456789+/'' ! n"

text \<open>\<open>base64.StdEncoding\<close>\<close>

fun base64 :: "bytes \<Rightarrow> bytes" where
  "base64 (a # b # c # s) =
     (let n = code_of a * 65536 + code_of b * 256 + code_of c
      in b64 (n div 262144) # b64 (n div 4096 mod 64) # b64 (n div 64 mod 64) # b64 (n mod 64) # base64 s)"
| "base64 [a, b] =
     (let n = code_of a * 65536 + code_of b * 256
      in [b64 (n div 262144), b64 (n div 4096 mod 64), b64 (n div 64 mod 64), CHR ''=''])"
| "base64 [a] = [b64 (code_of a div 4), b64 (code_of a * 16 mod 64), CHR ''='', CHR ''='']"
| "base64 [] = []"

text \<open>The single quote and what stands for it between single quotes.\<close>

definition shellQuote :: "bytes \<Rightarrow> bytes" where
  "shellQuote v =
     [CHR 0x27] @
     concat (map (\<lambda>c. if c = CHR 0x27 then [CHR 0x27, CHR 0x5C, CHR 0x27, CHR 0x27] else [c]) v) @ [CHR 0x27]"

definition resolveEnvSecret :: "op_env \<Rightarrow> bytes \<Rightarrow> err + bytes" where
  "resolveEnvSecret env ref =
     (if \<not> has_prefix ref ''secretref://env/''
      then Inl (invalid ''invalid_secret_ref'' ''secret_ref must use secretref://env/NAME'')
      else
        (case oe_LookupEnv env (trim_prefix ref ''secretref://env/'') of
           None \<Rightarrow> Inl (invalid ''secret_ref_unresolved'' ''secret_ref environment variable is not set'')
         | Some v \<Rightarrow>
             if v = [] then Inl (invalid ''secret_ref_unresolved'' ''secret_ref environment variable is not set'')
             else Inr v))"

definition remove_key :: "op_env \<Rightarrow> bytes \<Rightarrow> (op_state, unit) io" where
  "remove_key env path =
     andThen (ask (\<lambda>n. oe_Remove env n path)) (\<lambda>gone.
       if gone then modify (\<lambda>s. s\<lparr>os_keys := removeAll path (os_keys s)\<rparr>) else ret ())"

text \<open>A step on the new key file, which is removed again when the step fails.\<close>

definition key_step :: "op_env \<Rightarrow> bytes \<Rightarrow> (nat \<Rightarrow> bytes option) \<Rightarrow> (op_state, unit) io" where
  "key_step env path f =
     andThen (ask f) (\<lambda>r. case r of
         None \<Rightarrow> ret ()
       | Some e \<Rightarrow> andThen (remove_key env path) (\<lambda>_. fail (handler_error ''credential_unavailable'' e True)))"

definition key_file :: "op_env \<Rightarrow> bytes \<Rightarrow> (op_state, bytes) io" where
  "key_file env secret =
     andThen (ask (oe_CreateTemp env)) (\<lambda>r. case r of
         Inl e \<Rightarrow> fail (handler_error ''credential_unavailable'' e True)
       | Inr path \<Rightarrow>
           andThen (modify (\<lambda>s. s\<lparr>os_keys := path # os_keys s\<rparr>)) (\<lambda>_.
           andThen (key_step env path (\<lambda>n. oe_WriteString env n path secret)) (\<lambda>_.
           andThen (key_step env path (\<lambda>n. oe_Close env n path)) (\<lambda>_.
           andThen (key_step env path (\<lambda>n. oe_Chmod env n path)) (\<lambda>_. ret path)))))"

definition header_env :: "bytes \<Rightarrow> bytes list" where
  "header_env v = [''GIT_CONFIG_COUNT=1'', ''GIT_CONFIG_KEY_0=http.extraHeader'', ''GIT_CONFIG_VALUE_0='' @ v]"

text \<open>The variables for Git and the key file to remove afterwards.\<close>

definition gitCredentialEnv :: "op_env \<Rightarrow> bytes \<Rightarrow> (op_state, bytes list \<times> bytes option) io" where
  "gitCredentialEnv env credentialID =
     (if blank credentialID then ret ([], None)
      else
        andThen (or_fail (on_store (GetCredential credentialID))
          (\<lambda>e. refuse ''credential_not_found'' (repository_text e))) (\<lambda>cred.
        andThen (lift_result coded (resolveEnvSecret env (cred_SecretRef cred))) (\<lambda>secret.
          if cred_AuthType cred \<in> {''https_token'', ''https_basic'', ''app_password''}
          then
            (let username = (if cred_Username cred = [] then ''x-access-token'' else cred_Username cred)
             in ret (header_env (''Authorization: Basic '' @ base64 (username @ '':'' @ secret)), None))
          else if cred_AuthType cred = ''oauth_token''
          then ret (header_env (''Authorization: Bearer '' @ secret), None)
          else if cred_AuthType cred = ''ssh_key''
          then andThen (key_file env secret) (\<lambda>path.
            ret ([''GIT_SSH_COMMAND=ssh -i '' @ shellQuote path @ '' -o IdentitiesOnly=yes -o BatchMode=yes''],
                 Some path))
          else fail (refuse ''unsupported_credential_auth_type'' ''unsupported credential auth_type''))))"

definition cleanup :: "op_env \<Rightarrow> bytes option \<Rightarrow> (op_state, unit) io" where
  "cleanup env key = (case key of None \<Rightarrow> ret () | Some path \<Rightarrow> remove_key env path)"

section \<open>Git\<close>

definition gitCommandEnv :: "op_env \<Rightarrow> bytes list \<Rightarrow> bytes list" where
  "gitCommandEnv env extra = oe_Environ env @ [''GIT_TERMINAL_PROMPT=0'', ''GCM_INTERACTIVE=Never''] @ extra"

text \<open>A command that asks, in a directory, with the environment of the process.\<close>

definition git_in :: "op_env \<Rightarrow> bytes \<Rightarrow> bytes list \<Rightarrow> (op_state, bool \<times> bytes) io" where
  "git_in env dir args = run_command env \<lparr>cm_Args = ''git'' # args, cm_Dir = dir, cm_Env = None\<rparr>"

text \<open>The revision; the callers drop its error, and what is left is the empty string.\<close>

definition gitRevision :: "op_env \<Rightarrow> bytes \<Rightarrow> (op_state, bytes) io" where
  "gitRevision env dir =
     andThen (git_in env dir [''rev-parse'', ''HEAD'']) (\<lambda>(ok, out). ret (if ok then trim_space out else []))"

definition gitDefaultBranch :: "op_env \<Rightarrow> bytes \<Rightarrow> (op_state, bytes) io" where
  "gitDefaultBranch env dir =
     andThen (git_in env dir [''symbolic-ref'', ''--quiet'', ''--short'', ''refs/remotes/origin/HEAD'']) (\<lambda>(ok, out).
       if ok \<and> trim_space out \<noteq> [] then ret (trim_prefix (trim_space out) ''origin/'')
       else
         andThen (git_in env dir [''branch'', ''--show-current'']) (\<lambda>(ok2, out2).
           ret (if ok2 then trim_space out2 else [])))"

definition validateExistingRemote :: "op_env \<Rightarrow> bytes \<Rightarrow> bytes \<Rightarrow> bytes \<Rightarrow> bytes \<Rightarrow> (op_state, unit) io" where
  "validateExistingRemote env localPath prov host fullPath =
     andThen (git_in env localPath [''remote'', ''get-url'', ''origin'']) (\<lambda>(ok, out).
       if \<not> ok then fail (refuse ''repository_remote_unavailable'' (trim_space out))
       else
         (case ParseCloneURL (oe_machine env) prov (trim_space out) of
            Inl e \<Rightarrow> fail (refuse ''repository_remote_mismatch'' ''existing repository remote cannot be normalized'')
          | Inr identity \<Rightarrow>
              if id_ProviderHost identity \<noteq> host \<or> id_FullPath identity \<noteq> fullPath
              then fail (refuse ''repository_remote_mismatch''
                           ''existing repository remote does not match requested repository'')
              else ret ()))"

definition storage_failed :: "err \<Rightarrow> err" where
  "storage_failed e = handler_error ''storage_error'' (repository_text e) True"

definition runGit ::
    "op_env \<Rightarrow> Repository \<Rightarrow> bytes \<Rightarrow> bytes \<Rightarrow> bytes \<Rightarrow> bytes list \<Rightarrow> bytes list \<Rightarrow> (op_state, raw) io" where
  "runGit env repo credentialID operation dir extraEnv args =
     andThen (gitRevision env dir) (\<lambda>before.
     andThen (run_command env \<lparr>cm_Args = ''git'' # args, cm_Dir = dir, cm_Env = Some (gitCommandEnv env extraEnv)\<rparr>) (\<lambda>(ok, out).
       if \<not> ok then fail (handler_error ''git_operation_failed'' (redactRepositoryMessage out) True)
       else
         andThen (gitDefaultBranch env dir) (\<lambda>branch.
         andThen (or_fail (on_store (TouchRepositoryPulledWithBranch (re_ID repo) branch)) storage_failed) (\<lambda>_.
         andThen (gitRevision env dir) (\<lambda>revision.
           ret (operation_json
             \<lparr>or_RepositoryID = re_ID repo, or_ProviderInstanceID = re_ProviderInstanceID repo,
              or_CredentialID = credentialID, or_Operation = operation, or_RootPathID = re_RootPathID repo,
              or_Provider = re_Provider repo, or_ProviderHost = re_ProviderHost repo,
              or_Protocol = re_AuthType repo, or_LocalPath = dir, or_RepositoriesCreated = 0,
              or_BeforeRevision = (if before = [] then None else Some before), or_AfterRevision = revision,
              or_Changed = (before \<noteq> revision), or_ExitCode = 0\<rparr>))))))"

section \<open>Clone\<close>

text \<open>What happens at the target once both keys are reserved: a checkout that is there is pulled.\<close>

definition clone_new :: "op_env \<Rightarrow> RepoClonePayload \<Rightarrow> bytes \<Rightarrow> bytes \<Rightarrow> bytes list \<Rightarrow> (op_state, raw) io" where
  "clone_new env payload operation localPath extraEnv =
     andThen (run_command env \<lparr>cm_Args = [''git'', ''clone'', cp_CloneURL payload, localPath], cm_Dir = [],
       cm_Env = Some (gitCommandEnv env extraEnv)\<rparr>) (\<lambda>(ok, out).
       if \<not> ok then fail (handler_error ''git_clone_failed'' (redactRepositoryMessage out) True)
       else
         andThen (gitDefaultBranch env localPath) (\<lambda>branch.
         andThen (or_fail (on_store (TouchRepositoryPulledWithBranch (cp_RepositoryID payload) branch)) storage_failed) (\<lambda>_.
         andThen (gitRevision env localPath) (\<lambda>revision.
           ret (operation_json
             \<lparr>or_RepositoryID = cp_RepositoryID payload, or_ProviderInstanceID = cp_ProviderInstanceID payload,
              or_CredentialID = cp_CredentialID payload, or_Operation = operation,
              or_RootPathID = cp_RootPathID payload, or_Provider = cp_Provider payload,
              or_ProviderHost = cp_ProviderHost payload, or_Protocol = cp_Protocol payload,
              or_LocalPath = localPath, or_RepositoriesCreated = boolInt (cp_RepositoryCreated payload),
              or_BeforeRevision = None, or_AfterRevision = revision, or_Changed = True, or_ExitCode = 0\<rparr>)))))"

definition target_unavailable :: "bytes \<Rightarrow> err" where
  "target_unavailable msg = handler_error ''repository_target_unavailable'' msg True"

definition clone_at ::
    "op_env \<Rightarrow> RepoClonePayload \<Rightarrow> Repository \<Rightarrow> bytes \<Rightarrow> bytes \<Rightarrow> bytes list \<Rightarrow> (op_state, raw) io" where
  "clone_at env payload repo operation localPath extraEnv =
     andThen (ask (\<lambda>n. oe_Stat env n localPath)) (\<lambda>there. case there of
         Inr _ \<Rightarrow>
           andThen (ask (\<lambda>n. oe_Stat env n (localPath @ ''/.git''))) (\<lambda>marker. case marker of
               Inr _ \<Rightarrow>
                 andThen (validateExistingRemote env localPath (cp_Provider payload) (cp_ProviderHost payload)
                   (cp_FullPath payload)) (\<lambda>_.
                   runGit env repo (cp_CredentialID payload) operation localPath extraEnv [''pull'', ''--ff-only''])
             | Inl _ \<Rightarrow>
                 andThen (ask (\<lambda>n. oe_ReadDir env n localPath)) (\<lambda>entries. case entries of
                     Inl e \<Rightarrow> fail (target_unavailable e)
                   | Inr names \<Rightarrow>
                       if names \<noteq> [] then fail (refuse ''repository_target_not_empty'' ''target directory is not empty'')
                       else clone_new env payload operation localPath extraEnv))
       | Inl NotExists \<Rightarrow>
           andThen (ask (\<lambda>n. oe_MkdirAll env n localPath)) (\<lambda>made. case made of
               Some e \<Rightarrow> fail (target_unavailable e)
             | None \<Rightarrow> clone_new env payload operation localPath extraEnv)
       | Inl (PathError e) \<Rightarrow> fail (target_unavailable e))"

definition reservation_refused :: "bytes \<Rightarrow> err \<Rightarrow> err" where
  "reservation_refused identityKey e =
     (case e of
        EReservationConflict key _ \<Rightarrow>
          handler_error (if key = identityKey then ''repository_operation_already_running''
                         else ''repository_target_path_busy'') (repository_text e) True
      | _ \<Rightarrow> storage_failed e)"

text \<open>From the credential variables on; they are cleaned up by the caller.\<close>

definition clone_reserved ::
    "nat \<Rightarrow> op_env \<Rightarrow> Job \<Rightarrow> RepoClonePayload \<Rightarrow> RootPath \<Rightarrow> Repository \<Rightarrow> bytes list \<Rightarrow> (op_state, raw option) io" where
  "clone_reserved fuel env job payload rt repo extraEnv =
     with_path (NormalizeTarget fuel (oe_machine env) (rt_Path rt) (cp_TargetDirectory payload))
       (\<lambda>_. ''validation_error'') (\<lambda>(_, localPath).
       if cp_LocalPath payload \<noteq> [] \<and> clean (cp_LocalPath payload) \<noteq> clean localPath
       then fail (refuse ''invalid_repository_path'' ''repository local_path no longer matches target_directory'')
       else
         with_path (TargetReservationKey fuel (oe_machine env) (rt_Path rt) (cp_RootPathID payload) (cp_TargetDirectory payload))
           err_code (\<lambda>pathKey.
           let identityKey = IdentityReservationKey (cp_Provider payload) (cp_ProviderHost payload) (cp_FullPath payload)
           in andThen (or_fail (on_store (ReserveOperationKeys (j_ID job) hour [identityKey, pathKey]))
                (reservation_refused identityKey)) (\<lambda>held.
                andThen (deferring (clone_at env payload repo (j_JobType job) localPath extraEnv)
                  (on_store (ReleaseOperationReservations (j_ID job) held))) (\<lambda>result. ret (Some result)))))"

definition handleClone :: "nat \<Rightarrow> op_env \<Rightarrow> Job \<Rightarrow> (op_state, raw option) io" where
  "handleClone fuel env job =
     (case decode_clone (j_Payload job) of
        Inl e \<Rightarrow> fail (refuse ''validation_error'' e)
      | Inr payload \<Rightarrow>
          andThen (or_fail (on_store (GetRootPath (cp_RootPathID payload))) unread) (\<lambda>rt.
          andThen (or_fail (on_store (GetRepository (cp_RepositoryID payload))) unread) (\<lambda>repo.
          andThen (validateRepositoryOperable repo) (\<lambda>_.
          andThen (if cp_CredentialID payload = [] then ret ()
                   else or_fail (on_store (ValidateCredentialForProtocol (oe_machine env) (cp_CredentialID payload)
                     (cp_ProviderInstanceID payload) UsageGitTransport (cp_Protocol payload))) coded) (\<lambda>_.
          andThen (gitCredentialEnv env (cp_CredentialID payload)) (\<lambda>(extraEnv, key).
            deferring (clone_reserved fuel env job payload rt repo extraEnv) (cleanup env key)))))))"

section \<open>Pull\<close>

definition validatedRepositoryLocalPath ::
    "nat \<Rightarrow> op_env \<Rightarrow> Repository \<Rightarrow> (op_state, bytes option) io" where
  "validatedRepositoryLocalPath fuel env repo =
     (if re_RootPathID repo = [] \<or> re_TargetDirectory repo = []
      then fail (refuse ''invalid_repository_path'' ''repository root_path_id and target_directory are required'')
      else
        andThen (or_fail (on_store (GetRootPath (re_RootPathID repo))) unread) (\<lambda>rt.
          with_path (NormalizeTarget fuel (oe_machine env) (rt_Path rt) (re_TargetDirectory repo)) err_code (\<lambda>(_, localPath).
            if clean (re_LocalPath repo) \<noteq> clean localPath
            then fail (refuse ''invalid_repository_path'' ''repository local_path no longer matches target_directory'')
            else ret (Some localPath))))"

text \<open>The second decoding is tried where the first fails, on a struct with one field more.\<close>

definition pull_payload :: "raw \<Rightarrow> bytes + bytes \<times> bytes" where
  "pull_payload payload =
     (case decode_pull payload of
        Inr p \<Rightarrow> Inr (pp_RepositoryID p, pp_CredentialID p)
      | Inl e \<Rightarrow>
          (case decode_sync payload of
             Inr p \<Rightarrow> Inr (yp_RepositoryID p, yp_CredentialID p)
           | Inl _ \<Rightarrow> Inl e))"

definition checked_credential :: "op_env \<Rightarrow> bytes \<Rightarrow> Repository \<Rightarrow> (op_state, unit) io" where
  "checked_credential env credentialID repo =
     (if credentialID = [] then ret ()
      else or_fail (on_store (ValidateCredentialForProtocol (oe_machine env) credentialID
        (re_ProviderInstanceID repo) UsageGitTransport (re_AuthType repo))) coded)"

text \<open>What follows the path: the remote, the credential and the command.\<close>

definition pull_at :: "op_env \<Rightarrow> Job \<Rightarrow> Repository \<Rightarrow> bytes \<Rightarrow> bytes \<Rightarrow> (op_state, raw) io" where
  "pull_at env job repo requested localPath =
     andThen (if re_Provider repo \<noteq> ProviderGeneric \<or> re_ProviderHost repo \<noteq> ''local''
              then validateExistingRemote env localPath (re_Provider repo) (re_ProviderHost repo) (re_FullPath repo)
              else ret ()) (\<lambda>_.
     let credentialID = (if requested = [] then re_DefaultCredentialID repo else requested)
     in andThen (checked_credential env credentialID repo) (\<lambda>_.
        andThen (gitCredentialEnv env credentialID) (\<lambda>(extraEnv, key).
          deferring (runGit env repo credentialID (j_JobType job) localPath extraEnv [''pull'', ''--ff-only''])
            (cleanup env key))))"

definition handlePull :: "nat \<Rightarrow> op_env \<Rightarrow> Job \<Rightarrow> (op_state, raw option) io" where
  "handlePull fuel env job =
     (case pull_payload (j_Payload job) of
        Inl e \<Rightarrow> fail (refuse ''validation_error'' e)
      | Inr (repositoryID, requested) \<Rightarrow>
          andThen (or_fail (on_store (GetRepository repositoryID)) unread) (\<lambda>repo.
          andThen (validateRepositoryOperable repo) (\<lambda>_.
          andThen (checked_credential env requested repo) (\<lambda>_.
            if re_LocalPath repo = [] then fail (refuse ''validation_error'' ''repository local_path is required'')
            else
              andThen (validatedRepositoryLocalPath fuel env repo) (\<lambda>found. case found of
                  None \<Rightarrow> ret None
                | Some localPath \<Rightarrow>
                    andThen (pull_at env job repo requested localPath) (\<lambda>result. ret (Some result)))))))"

section \<open>The handler\<close>

definition failure_message :: "err \<Rightarrow> bytes" where
  "failure_message e =
     (case e of
        EHandler h \<Rightarrow> if he_Code h \<noteq> [] then he_Code h @ '': '' @ he_Message h else he_Message h
      | _ \<Rightarrow> err_text e)"

definition recordRepositoryFailure :: "Job \<Rightarrow> (op_state, 'a) io \<Rightarrow> (op_state, 'a) io" where
  "recordRepositoryFailure job m =
     outcome m (\<lambda>r. case r of
         Inr x \<Rightarrow> ret x
       | Inl e \<Rightarrow>
           (let i = repositoryIDFromPayload (j_Payload job)
            in if i = [] then fail e
               else andThen (ignoring (on_store (MarkRepositoryError i (redactRepositoryMessage (failure_message e)))))
                      (\<lambda>_. fail e)))"

definition Handle :: "nat \<Rightarrow> op_env \<Rightarrow> Job \<Rightarrow> (op_state, raw option) io" where
  "Handle fuel env job =
     (if j_JobType job = ''repo_clone'' then recordRepositoryFailure job (handleClone fuel env job)
      else if j_JobType job = ''repo_pull'' \<or> j_JobType job = ''repo_sync''
      then recordRepositoryFailure job (handlePull fuel env job)
      else fail (refuse ''validation_error'' ''unsupported repository operation''))"

end
