(* ===== verification/Repo_Handler_Facts.thy ===== *)
theory Repo_Handler_Facts
  imports Repo_Handlers Repo_Facts Reservation_Facts Registry_Contract
begin

text \<open>
  What the repository handlers do outside the database: every command they run is at a checkout inside a
  root path, of an active card; a clone runs while the job holds both of its reservations; a key file
  never outlives the handler. All of it under any faults and any outcome of Git.
\<close>

section \<open>Relations between states\<close>

context state_order
begin

lemma keeps_or_fail [keeps_intros]: "keeps R m \<Longrightarrow> keeps R (or_fail m f)"
  unfolding or_fail_def by (auto intro!: keeps_intros split: sum.split)

lemma keeps_ask [keeps_intros]: "keeps R (ask f)"
  by (simp add: keeps_def ask_def order_refl)

lemma keeps_deferring [keeps_intros]: "keeps R m \<Longrightarrow> keeps R m' \<Longrightarrow> keeps R (deferring m m')"
  unfolding deferring_def by (auto intro!: keeps_intros split: sum.split)

lemma keeps_with_path [keeps_intros]: "(\<And>p. keeps R (f p)) \<Longrightarrow> keeps R (with_path r code f)"
  unfolding with_path_def by (auto intro!: keeps_intros split: option.split sum.split)

lemma keeps_operable [keeps_intros]: "keeps R (validateRepositoryOperable repo)"
  unfolding validateRepositoryOperable_def Let_def by (auto intro!: keeps_intros)

text \<open>At one world: what came before may be used.\<close>

lemma at_andThen:
  assumes "R (db w) (db (snd (m w)))" and "\<And>x w1. m w = (Inr x, w1) \<Longrightarrow> R (db w1) (db (snd (f x w1)))"
  shows "R (db w) (db (snd (andThen m f w)))"
  using assms order_trans by (auto simp: andThen_def split: prod.split sum.split)

lemma at_with_path:
  "(\<And>p. r = Some (Inr p) \<Longrightarrow> R (db w) (db (snd (f p w)))) \<Longrightarrow> R (db w) (db (snd (with_path r g f w)))"
  by (auto simp: with_path_def ret_def fail_def order_refl split: option.split sum.split)

lemma at_deferring:
  assumes "R (db w) (db (snd (m w)))" and "keeps R m'"
  shows "R (db w) (db (snd (deferring m m' w)))"
proof -
  obtain r w1 where m: "m w = (r, w1)" by fastforce
  have "keeps R (andThen (ignoring m') (\<lambda>_. case r of Inl e \<Rightarrow> fail e | Inr x \<Rightarrow> ret x))"
    by (cases r) (auto intro!: keeps_andThen keeps_ignoring assms(2) keeps_fail keeps_ret)
  then have "R (db w1) (db (snd (andThen (ignoring m') (\<lambda>_. case r of Inl e \<Rightarrow> fail e | Inr x \<Rightarrow> ret x) w1)))"
    by (simp add: keeps_def)
  with assms(1) m show ?thesis using order_trans by (simp add: deferring_def outcome_def)
qed

end

text \<open>The registry and the commands stay; the key files may change.\<close>

abbreviation registry_of :: "op_state \<Rightarrow> registry" where
  "registry_of s \<equiv> sys_registry (os_system s)"

definition quiet :: "op_state \<Rightarrow> op_state \<Rightarrow> bool" where
  "quiet s s' \<longleftrightarrow> registry_of s' = registry_of s \<and> os_commands s' = os_commands s"

interpretation quietly: state_order quiet
  by unfold_locales (auto simp: quiet_def)

text \<open>Every command that is added satisfies a predicate, as does the registry it runs on.\<close>

definition logged :: "(command \<times> registry \<Rightarrow> bool) \<Rightarrow> op_state \<Rightarrow> op_state \<Rightarrow> bool" where
  "logged Q s s' \<longleftrightarrow> (\<exists>cs. os_commands s' = os_commands s @ cs \<and> list_all Q cs)"

interpretation logs: state_order "logged Q" for Q
  by unfold_locales (auto simp: logged_def)

text \<open>The same while the registry keeps an invariant.\<close>

definition guarded :: "(registry \<Rightarrow> bool) \<Rightarrow> (command \<Rightarrow> bool) \<Rightarrow> op_state \<Rightarrow> op_state \<Rightarrow> bool" where
  "guarded I P s s' \<longleftrightarrow>
     (I (registry_of s) \<longrightarrow> I (registry_of s') \<and> logged (\<lambda>(c, d). P c \<and> I d) s s')"

interpretation guards: state_order "guarded I P" for I P
  by unfold_locales (auto simp: guarded_def intro: logs.order_refl logs.order_trans)

definition preserves :: "('d \<Rightarrow> bool) \<Rightarrow> 'd \<Rightarrow> 'd \<Rightarrow> bool" where
  "preserves I d d' \<longleftrightarrow> (I d \<longrightarrow> I d')"

interpretation invariants: registry_order "preserves I" for I
  by unfold_locales (auto simp: preserves_def)

definition same_keys :: "op_state \<Rightarrow> op_state \<Rightarrow> bool" where
  "same_keys s s' \<longleftrightarrow> os_keys s' = os_keys s"

interpretation keys: state_order same_keys
  by unfold_locales (auto simp: same_keys_def)

lemma on_store_parts [simp]:
  "registry_of (db (snd (on_store m w))) = db (snd (m (view registry_of w)))"
  "os_commands (db (snd (on_store m w))) = os_commands (db w)"
  "os_keys (db (snd (on_store m w))) = os_keys (db w)"
  by (simp_all add: on_store_def zoom_def split: prod.split)

lemma on_store_keeps [keeps_intros]:
  "keeps (=) m \<Longrightarrow> keeps quiet (on_store m)"
  "keeps (preserves I) m \<Longrightarrow> keeps (guarded I P) (on_store m)"
  "keeps (logged Q) (on_store m)"
  "keeps same_keys (on_store m)"
  by (auto simp: keeps_def quiet_def guarded_def logged_def same_keys_def preserves_def)

lemma keeps_at: "keeps R m \<Longrightarrow> R (db w) (db (snd (m w)))"
  by (simp add: keeps_def)

lemma quiet_keeps_logged: "keeps quiet m \<Longrightarrow> keeps (logged Q) m"
  by (auto simp: keeps_def quiet_def logged_def)

lemma quiet_keeps_guarded: "keeps quiet m \<Longrightarrow> keeps (guarded I P) m"
  by (auto simp: keeps_def quiet_def guarded_def logged_def)

lemma run_command_keeps [keeps_intros]:
  "P c \<Longrightarrow> keeps (guarded I P) (run_command env c)"
  "(\<And>d. Q (c, d)) \<Longrightarrow> keeps (logged Q) (run_command env c)"
  "keeps same_keys (run_command env c)"
  by (auto simp: keeps_def guarded_def logged_def same_keys_def run_command_def modify_def ask_def andThen_def)

lemma modify_keys_keeps [keeps_intros]:
  "keeps quiet (modify (\<lambda>s. s\<lparr>os_keys := f s\<rparr>))"
  "keeps (guarded I P) (modify (\<lambda>s. s\<lparr>os_keys := f s\<rparr>))"
  "keeps (logged Q) (modify (\<lambda>s. s\<lparr>os_keys := f s\<rparr>))"
  by (auto simp: keeps_def quiet_def guarded_def logged_def modify_def)

section \<open>Commands\<close>

definition at_checkout :: "bytes \<Rightarrow> command \<Rightarrow> bool" where
  "at_checkout local c \<longleftrightarrow>
     cm_Dir c = local \<or> cm_Dir c = [] \<and> (\<exists>url. cm_Args c = [''git'', ''clone'', url, local])"

lemma at_checkout_simps [simp]:
  "at_checkout local \<lparr>cm_Args = args, cm_Dir = local, cm_Env = e\<rparr>"
  "at_checkout local \<lparr>cm_Args = [''git'', ''clone'', url, local], cm_Dir = [], cm_Env = e\<rparr>"
  by (simp_all add: at_checkout_def)

lemmas branching = option.split sum.split prod.split path_error.split if_split

lemma checkout_steps [keeps_intros]:
  "keeps (guarded I (at_checkout local)) (git_in env local args)"
  "keeps (guarded I (at_checkout local)) (gitRevision env local)"
  "keeps (guarded I (at_checkout local)) (gitDefaultBranch env local)"
  "keeps (guarded I (at_checkout local)) (validateExistingRemote env local prov host path)"
  unfolding gitRevision_def gitDefaultBranch_def validateExistingRemote_def git_in_def
  by (auto intro!: keeps_intros split: branching)

text \<open>An invariant that does not depend on the cards.\<close>

definition card_blind :: "(registry \<Rightarrow> bool) \<Rightarrow> bool" where
  "card_blind I \<longleftrightarrow>
     (\<forall>d rows. I d \<longrightarrow> registry_ok (d\<lparr>repositories := rows\<rparr>) \<longrightarrow> I (d\<lparr>repositories := rows\<rparr>))"

lemma touch_keeps [keeps_intros]:
  "card_blind I \<Longrightarrow> keeps (preserves I) (TouchRepositoryPulledWithBranch i branch)"
proof -
  have "keeps (preserves I) (rexec (update_repository p f))" if "card_blind I" for p f
    using that by (intro invariants.keeps_exec) (auto simp: preserves_def card_blind_def update_repository_def)
  then show "card_blind I \<Longrightarrow> ?thesis"
    unfolding TouchRepositoryPulledWithBranch_def TouchRepositoryPulled_def update_card_def Let_def
    by (auto intro!: keeps_intros)
qed

lemma runGit_keeps [keeps_intros]:
  "card_blind I \<Longrightarrow> keeps (guarded I (at_checkout local)) (runGit env repo cred operation local extra args)"
  unfolding runGit_def by (auto intro!: keeps_intros split: prod.split)

lemma clone_at_keeps [keeps_intros]:
  assumes "card_blind I"
  shows "keeps (guarded I (at_checkout local)) (clone_at env payload repo operation local extra)"
  using assms unfolding clone_at_def clone_new_def by (auto intro!: keeps_intros split: branching)

lemma remove_key_keeps [keeps_intros]:
  "keeps quiet (remove_key env path)" "keeps (guarded I P) (remove_key env path)" "keeps (logged Q) (remove_key env path)"
  unfolding remove_key_def by (auto intro!: keeps_intros)

section \<open>Reservations\<close>

definition has :: "bytes \<Rightarrow> bytes \<Rightarrow> registry \<Rightarrow> bool" where
  "has owner key d \<longleftrightarrow> (\<exists>r \<in> set (reservations d). held_by key owner r)"

lemma has_refreshed: "has owner k (snd (update_reservation P (\<lambda>r. r\<lparr>rs_expires_at := t\<rparr>) d)) = has owner k d"
proof -
  have "held_by k owner (if P r then r\<lparr>rs_expires_at := t\<rparr> else r) = held_by k owner r" for r
    by (simp add: held_by_def)
  then have "list_ex (held_by k owner) (map (\<lambda>r. if P r then r\<lparr>rs_expires_at := t\<rparr> else r) rs) =
      list_ex (held_by k owner) rs" for rs by (induction rs) (simp_all del: if_split)
  then show ?thesis by (simp add: has_def update_reservation_def update_where_def list_ex_iff)
qed

lemma refresh_has:
  assumes "refreshOperationReservation owner ttl key w = (Inr u, w')"
  shows "has owner k (db w') = has owner k (db w)"
  using assms by (auto simp: refreshOperationReservation_def Let_def exec_Inr_iff andThen_Inr_iff has_refreshed)

lemma owner_has: "operationReservationOwner key w = (Inr owner, w') \<Longrightarrow> has owner key (db w)"
  by (auto simp: operationReservationOwner_def fetch_def andThen_Inr_iff query_Inr_iff has_def held_by_def
      split: option.splits dest!: first_row_in)

lemma give_up_succeeds: "give_up owner held e w = (Inr x, w') \<Longrightarrow> False"
  by (simp add: give_up_def ignoring_def outcome_def andThen_def fail_def ret_def split: prod.splits sum.splits)

text \<open>A call that succeeds holds what it returns, whatever faults there were on the way.\<close>

lemma reserve_keys_has:
  assumes "reserve_keys owner ttl t held keys w = (Inr got, w')" and "\<forall>k \<in> set held. has owner k (db w)"
  shows "got = held @ wanted keys \<and> (\<forall>k \<in> set got. has owner k (db w'))"
  using assms
proof (induction keys arbitrary: held w)
  case Nil
  then show ?case by (simp add: wanted_def)
next
  case (Cons key0 keys)
  let ?key = "trim_space key0"
  show ?case
  proof (cases "?key = []")
    case True
    with Cons show ?thesis by (simp add: wanted_def)
  next
    case False
    obtain r w1 where 1: "rexec (insert_reservation
        \<lparr>rs_id = ''rres_'' @ ent w (tick w), rs_key = ?key, rs_owner = owner, rs_status = Held, rs_created_at = Trimmed t,
         rs_expires_at = Trimmed (t + ttl), rs_released_at = None\<rparr>) (step_tick w) = (r, w1)" by fastforce
    note run = Cons.prems(1)
    have "\<exists>w2. reserve_keys owner ttl t (held @ [?key]) keys w2 = (Inr got, w') \<and>
        (\<forall>k \<in> set (held @ [?key]). has owner k (db w2))"
    proof (cases r)
      case (Inr u)
      with 1 have "\<forall>k \<in> set (held @ [?key]). has owner k (db w1)"
        using Cons.prems(2) by (auto simp: exec_Inr_iff insert_reservation_def has_def held_by_def)
      with run 1 Inr False show ?thesis by (auto simp: outcome_def Let_def)
    next
      case (Inl e)
      obtain q w2 where 2: "operationReservationOwner ?key w1 = (q, w2)" by fastforce
      obtain q' w3 where 3: "refreshOperationReservation owner ttl ?key w2 = (q', w3)" by fastforce
      have "unique_or_duplicate e" "q = Inr owner" "\<exists>v. q' = Inr v"
        "reserve_keys owner ttl t (held @ [?key]) keys w3 = (Inr got, w')"
        using run 1 2 3 Inl False
        by (auto simp: outcome_def Let_def dest: give_up_succeeds split: if_splits sum.splits)
      moreover have "has owner k (db w) \<Longrightarrow> has owner k (db w1)" for k
        using 1 by (auto simp: exec_def insert_reservation_def has_def split: fault.splits option.splits)
      moreover have "db w2 = db w1" using keepsD [OF lookups.operationReservationOwner_keeps 2] by simp
      ultimately show ?thesis
        using Cons.prems(2) 2 3 owner_has refresh_has by (intro exI [of _ w3]) fastforce
    qed
    then obtain w2 where "reserve_keys owner ttl t (held @ [?key]) keys w2 = (Inr got, w')"
      "\<forall>k \<in> set (held @ [?key]). has owner k (db w2)" by blast
    from Cons.IH [OF this] False show ?thesis by (simp add: wanted_def)
  qed
qed

lemma Reserve_has:
  assumes "ReserveOperationKeys owner ttl keys w = (Inr got, w')" and "\<not> blank owner"
  shows "got = wanted keys \<and> (\<forall>k \<in> set got. has owner k (db w'))"
  using assms reserve_keys_has [of owner _ _ "[]" keys _ got w']
  by (auto simp: ReserveOperationKeys_def Let_def andThen_Inr_iff)

abbreviation stays_ok :: "registry \<Rightarrow> registry \<Rightarrow> bool" where
  "stays_ok \<equiv> preserves (\<lambda>d. registry_ok d)"

lemma rexec_ok [keeps_intros]: "keeps stays_ok (rexec st)"
  by (rule invariants.keeps_exec) (simp add: preserves_def)

lemma Reserve_ok: "keeps stays_ok (ReserveOperationKeys owner ttl keys)"
proof -
  have up: "keeps stays_ok (give_up owner held e)" for owner held e
    unfolding give_up_def ReleaseOperationReservations_def release_key_def by (auto intro!: keeps_intros)
  have refresh: "keeps stays_ok (refreshOperationReservation owner ttl key)" for owner ttl key
    unfolding refreshOperationReservation_def Let_def by (intro keeps_intros)
  have "keeps stays_ok (reserve_keys owner ttl t held keys)" for owner ttl t held
    by (induction keys arbitrary: held) (auto intro!: keeps_intros up refresh simp: Let_def split: branching)
  moreover have "keeps stays_ok (expireOperationReservations t)" for t
    unfolding expireOperationReservations_def pruneOperationReservations_def by (intro keeps_intros)
  ultimately show ?thesis
    unfolding ReserveOperationKeys_def Let_def by (auto intro!: keeps_intros)
qed

section \<open>Handlers\<close>

lemma gitCredentialEnv_quiet: "keeps quiet (gitCredentialEnv env i)"
  unfolding gitCredentialEnv_def key_file_def key_step_def Let_def
  by (auto intro!: keeps_intros split: branching)

lemma lookup_step:
  assumes "or_fail (on_store (fetch scan q)) f w = (Inr x, w')"
  shows "db w' = db w \<and> (\<exists>row \<in> set (q (registry_of (db w))). x = scan row)"
  using assms
  by (auto simp: or_fail_def outcome_def on_store_def zoom_def fetch_def andThen_def query_def ret_def fail_def
      split: if_splits option.splits dest!: first_row_in)

lemma operable_step: "validateRepositoryOperable repo w = (Inr u, w') \<Longrightarrow> w' = w \<and> re_Status repo = ''active''"
  by (auto simp: validateRepositoryOperable_def Let_def ret_def fail_def split: if_splits)

definition named_repository :: "Job \<Rightarrow> bytes \<Rightarrow> bool" where
  "named_repository job i \<longleftrightarrow>
     (\<exists>p. decode_clone (j_Payload job) = Inr p \<and> i = cp_RepositoryID p) \<or>
     (\<exists>cred. pull_payload (j_Payload job) = Inr (i, cred))"

text \<open>A command of a job: at the checkout of an active card that the job names, inside a root path.\<close>

definition job_checkout :: "nat \<Rightarrow> machine \<Rightarrow> Job \<Rightarrow> registry \<Rightarrow> command \<Rightarrow> bool" where
  "job_checkout fuel m job d c \<longleftrightarrow>
     (\<exists>repository rt target r local. repository \<in> set (repositories d) \<and> rr_status repository = ''active'' \<and>
        named_repository job (rr_id repository) \<and> rt \<in> set (root_paths d) \<and>
        NormalizeTarget fuel m (rp_path rt) target = Some (Inr (r, local)) \<and> at_checkout local c)"

text \<open>The lock table has both keys of a clone for the job.\<close>

definition clone_holds :: "nat \<Rightarrow> machine \<Rightarrow> Job \<Rightarrow> registry \<Rightarrow> registry \<Rightarrow> bool" where
  "clone_holds fuel m job d0 d \<longleftrightarrow>
     (\<exists>p rt key. decode_clone (j_Payload job) = Inr p \<and> rt \<in> set (root_paths d0) \<and> rp_id rt = cp_RootPathID p \<and>
        TargetReservationKey fuel m (rp_path rt) (cp_RootPathID p) (cp_TargetDirectory p) = Some (Inr key) \<and>
        (\<forall>k \<in> set (wanted [IdentityReservationKey (cp_Provider p) (cp_ProviderHost p) (cp_FullPath p), key]).
           holders d k = Some (j_ID job)))"

lemma logged_mono: "logged Q s s' \<Longrightarrow> (\<And>x. Q x \<Longrightarrow> Q' x) \<Longrightarrow> logged Q' s s'"
  by (auto simp: logged_def list_all_iff)

lemma clone_at_logged:
  assumes "registry_of (db w) = d" and "ok \<longrightarrow> registry_ok d \<and> (\<forall>k \<in> ks. has owner k d)"
  shows "logged (\<lambda>(c, d). at_checkout local c \<and> (ok \<longrightarrow> (\<forall>k \<in> ks. holders d k = Some owner)))
    (db w) (db (snd (clone_at env payload repo operation local extra w)))"
proof -
  let ?I = "\<lambda>d. ok \<longrightarrow> registry_ok d \<and> (\<forall>k \<in> ks. has owner k d)"
  have "card_blind ?I" by (auto simp: card_blind_def has_def)
  from clone_at_keeps [OF this] assms
  have "logged (\<lambda>(c, d). at_checkout local c \<and> ?I d) (db w) (db (snd (clone_at env payload repo operation local extra w)))"
    unfolding keeps_def guarded_def by blast
  then show ?thesis by (rule logged_mono) (auto simp: has_def holders_Some_iff)
qed

lemma clone_reserved_logged:
  assumes "registry_of (db w) = d0" and "decode_clone (j_Payload job) = Inr payload"
    and "repository \<in> set (repositories d0)" and "rr_status repository = ''active''" and "rr_id repository = cp_RepositoryID payload"
    and "row \<in> set (root_paths d0)" and "rp_id row = cp_RootPathID payload"
  shows "logged (\<lambda>(c, d). job_checkout fuel (oe_machine env) job d0 c \<and>
      (registry_ok d0 \<and> \<not> blank (j_ID job) \<longrightarrow> clone_holds fuel (oe_machine env) job d0 d))
    (db w) (db (snd (clone_reserved fuel env job payload (scanRootPath row) repo extra w)))"
    (is "logged ?Q _ _")
proof -
  let ?m = "oe_machine env"
  let ?identity = "IdentityReservationKey (cp_Provider payload) (cp_ProviderHost payload) (cp_FullPath payload)"
  have rt: "rt_Path (scanRootPath row) = rp_path row" by (simp add: scanRootPath_def)
  have "logged ?Q (db w) (db (snd (andThen (or_fail (on_store (ReserveOperationKeys (j_ID job) hour [?identity, key]))
      (reservation_refused ?identity)) (\<lambda>held.
        andThen (deferring (clone_at env payload repo (j_JobType job) local extra)
          (on_store (ReleaseOperationReservations (j_ID job) held))) (\<lambda>result. ret (Some result))) w)))"
    if path: "NormalizeTarget fuel ?m (rp_path row) (cp_TargetDirectory payload) = Some (Inr (r, local))"
    and key: "TargetReservationKey fuel ?m (rp_path row) (cp_RootPathID payload) (cp_TargetDirectory payload) = Some (Inr key)"
    for r local key
  proof (rule logs.at_andThen)
    have checkout: "job_checkout fuel ?m job d0 c" if "at_checkout local c" for c
      unfolding job_checkout_def named_repository_def using assms(2-6) path that by blast
    have holds: "clone_holds fuel ?m job d0 d" if "\<forall>k \<in> set (wanted [?identity, key]). holders d k = Some (j_ID job)" for d
      unfolding clone_holds_def using assms(2,6,7) key that by blast
    fix held w1 assume "or_fail (on_store (ReserveOperationKeys (j_ID job) hour [?identity, key]))
      (reservation_refused ?identity) w = (Inr held, w1)"
    then obtain w2 where res: "ReserveOperationKeys (j_ID job) hour [?identity, key] (view registry_of w) = (Inr held, w2)"
      "registry_of (db w1) = db w2"
      by (auto simp: or_fail_def outcome_def on_store_def zoom_def ret_def fail_def split: sum.splits prod.splits)
    have "registry_ok d0 \<and> \<not> blank (j_ID job) \<longrightarrow> registry_ok (db w2) \<and> (\<forall>k \<in> set (wanted [?identity, key]). has (j_ID job) k (db w2))"
      using Reserve_has [OF res(1)] keepsD [OF Reserve_ok res(1)] assms(1) by (auto simp: preserves_def)
    from clone_at_logged [OF res(2) this, where local = local and env = env and payload = payload and repo = repo
        and operation = "j_JobType job" and extra = extra]
    have "logged ?Q (db w1) (db (snd (clone_at env payload repo (j_JobType job) local extra w1)))"
      by (rule logged_mono) (auto intro: checkout holds)
    then have "logged ?Q (db w1) (db (snd (deferring (clone_at env payload repo (j_JobType job) local extra)
        (on_store (ReleaseOperationReservations (j_ID job) held)) w1)))"
      by (rule logs.at_deferring) (intro keeps_intros)
    then show "logged ?Q (db w1) (db (snd (andThen (deferring (clone_at env payload repo (j_JobType job) local extra)
        (on_store (ReleaseOperationReservations (j_ID job) held))) (\<lambda>result. ret (Some result)) w1)))"
      by (rule logs.at_andThen) (simp add: ret_def logs.order_refl)
  qed (rule keeps_at, intro keeps_intros)
  then show ?thesis
    unfolding clone_reserved_def rt Let_def
    by (auto intro!: logs.at_with_path simp: fail_def logs.order_refl)
qed

lemma handleClone_logged:
  "logged (\<lambda>(c, d). job_checkout fuel (oe_machine env) job (registry_of (db w)) c \<and>
      (registry_ok (registry_of (db w)) \<and> \<not> blank (j_ID job) \<longrightarrow>
        clone_holds fuel (oe_machine env) job (registry_of (db w)) d))
    (db w) (db (snd (handleClone fuel env job w)))"
    (is "logged ?Q _ _")
proof (cases "decode_clone (j_Payload job)")
  case (Inl e)
  then show ?thesis by (simp add: handleClone_def fail_def logs.order_refl)
next
  case (Inr payload)
  show ?thesis
    unfolding handleClone_def Inr sum.case GetRootPath_def GetRepository_def
  proof (intro logs.at_andThen)
    fix rt w1 repo w2 u w3 v w4 cred w5
    assume 1: "or_fail (on_store (fetch scanRootPath (\<lambda>d. filter (\<lambda>r. rp_id r = cp_RootPathID payload) (root_paths d)))) unread w = (Inr rt, w1)"
    and 2: "or_fail (on_store (fetch scanRepository (\<lambda>d. filter (\<lambda>r. rr_id r = cp_RepositoryID payload) (repositories d)))) unread w1 = (Inr repo, w2)"
    and 3: "validateRepositoryOperable repo w2 = (Inr u, w3)"
    and 4: "(if cp_CredentialID payload = [] then ret () else or_fail (on_store (ValidateCredentialForProtocol (oe_machine env)
      (cp_CredentialID payload) (cp_ProviderInstanceID payload) UsageGitTransport (cp_Protocol payload))) coded) w3 = (Inr v, w4)"
    and 5: "gitCredentialEnv env (cp_CredentialID payload) w4 = (Inr cred, w5)"
    show "logged ?Q (db w5) (db (snd ((case cred of (extra, key) \<Rightarrow>
        deferring (clone_reserved fuel env job payload rt repo extra) (cleanup env key)) w5)))"
    proof (cases cred)
      case (Pair extra key)
      from lookup_step [OF 1] obtain row where row: "row \<in> set (root_paths (registry_of (db w)))"
        "rp_id row = cp_RootPathID payload" "rt = scanRootPath row" "db w1 = db w" by auto
      from lookup_step [OF 2] row(4) obtain repository where
        repository: "repository \<in> set (repositories (registry_of (db w)))" "rr_id repository = cp_RepositoryID payload"
          "repo = scanRepository repository" "db w2 = db w" by auto
      from operable_step [OF 3] repository(3,4) have active: "rr_status repository = ''active''" "db w3 = db w"
        by (auto simp: scanRepository_def)
      have "keeps quiet (if cp_CredentialID payload = [] then ret () else or_fail (on_store (ValidateCredentialForProtocol
          (oe_machine env) (cp_CredentialID payload) (cp_ProviderInstanceID payload) UsageGitTransport (cp_Protocol payload))) coded)"
        by (auto intro!: keeps_intros)
      from keepsD [OF this 4] keepsD [OF gitCredentialEnv_quiet 5] active(2)
      have same: "registry_of (db w5) = registry_of (db w)" by (simp add: quiet_def)
      from clone_reserved_logged [OF same Inr repository(1) active(1) repository(2) row(1,2)]
      show ?thesis unfolding Pair prod.case row(3)
        by (intro logs.at_deferring) (auto intro!: keeps_intros simp: cleanup_def split: option.split)
    qed
  qed (rule keeps_at, auto intro!: keeps_intros quiet_keeps_logged [OF gitCredentialEnv_quiet])+
qed

lemma pull_at_logged: "keeps (logged (\<lambda>(c, d). at_checkout local c)) (pull_at env job repo requested local)"
proof -
  have "card_blind (\<lambda>_. True)" by (simp add: card_blind_def)
  then have "keeps (guarded (\<lambda>_. True) (at_checkout local)) (pull_at env job repo requested local)"
    unfolding pull_at_def checked_credential_def Let_def
    by (auto intro!: keeps_intros quiet_keeps_guarded [OF gitCredentialEnv_quiet] simp: cleanup_def split: branching)
  then show ?thesis by (auto simp: keeps_def guarded_def elim: logged_mono)
qed

lemma local_path_step:
  assumes "validatedRepositoryLocalPath fuel env repo w = (Inr (Some local), w')"
  shows "db w' = db w \<and> (\<exists>rt \<in> set (root_paths (registry_of (db w))). \<exists>r.
    NormalizeTarget fuel (oe_machine env) (rp_path rt) (re_TargetDirectory repo) = Some (Inr (r, local)))"
proof -
  from assms obtain rt w1 where 1: "or_fail (on_store (fetch scanRootPath (\<lambda>d. filter (\<lambda>r. rp_id r = re_RootPathID repo) (root_paths d)))) unread w = (Inr rt, w1)"
    and 2: "with_path (NormalizeTarget fuel (oe_machine env) (rt_Path rt) (re_TargetDirectory repo)) err_code (\<lambda>(_, localPath).
        if clean (re_LocalPath repo) \<noteq> clean localPath
        then fail (refuse ''invalid_repository_path'' ''repository local_path no longer matches target_directory'')
        else ret (Some localPath)) w1 = (Inr (Some local), w')"
    by (auto simp: validatedRepositoryLocalPath_def GetRootPath_def andThen_Inr_iff split: if_splits)
  from 2 obtain r where "NormalizeTarget fuel (oe_machine env) (rt_Path rt) (re_TargetDirectory repo) = Some (Inr (r, local))" "w' = w1"
    by (auto simp: with_path_def ret_def fail_def split: option.splits sum.splits if_splits)
  with lookup_step [OF 1] show ?thesis by (fastforce simp: scanRootPath_def)
qed

lemma handlePull_logged:
  "logged (\<lambda>(c, d). job_checkout fuel (oe_machine env) job (registry_of (db w)) c)
    (db w) (db (snd (handlePull fuel env job w)))"
    (is "logged ?Q _ _")
proof (cases "pull_payload (j_Payload job)")
  case (Inl e)
  then show ?thesis by (simp add: handlePull_def fail_def logs.order_refl)
next
  case (Inr x)
  obtain i requested where payload: "pull_payload (j_Payload job) = Inr (i, requested)" using Inr by (cases x) simp
  show ?thesis
    unfolding handlePull_def payload sum.case prod.case GetRepository_def
  proof (intro logs.at_andThen)
    fix repo w1 u w2 v w3
    assume 1: "or_fail (on_store (fetch scanRepository (\<lambda>d. filter (\<lambda>r. rr_id r = i) (repositories d)))) unread w = (Inr repo, w1)"
    and 2: "validateRepositoryOperable repo w1 = (Inr u, w2)"
    and 3: "checked_credential env requested repo w2 = (Inr v, w3)"
    from lookup_step [OF 1] obtain repository where
      repository: "repository \<in> set (repositories (registry_of (db w)))" "rr_id repository = i"
        "repo = scanRepository repository" "db w1 = db w" by auto
    from operable_step [OF 2] repository(3,4) have active: "rr_status repository = ''active''" "db w2 = db w"
      by (auto simp: scanRepository_def)
    have "keeps quiet (checked_credential env requested repo)"
      unfolding checked_credential_def by (auto intro!: keeps_intros)
    from keepsD [OF this 3] active(2) have same: "registry_of (db w3) = registry_of (db w)" by (simp add: quiet_def)
    show "logged ?Q (db w3) (db (snd ((if re_LocalPath repo = []
        then fail (refuse ''validation_error'' ''repository local_path is required'')
        else andThen (validatedRepositoryLocalPath fuel env repo) (\<lambda>found. case found of None \<Rightarrow> ret None
          | Some localPath \<Rightarrow> andThen (pull_at env job repo requested localPath) (\<lambda>result. ret (Some result)))) w3)))"
    proof (cases "re_LocalPath repo = []")
      case False
      have "logged ?Q (db w3) (db (snd (andThen (validatedRepositoryLocalPath fuel env repo) (\<lambda>found. case found of None \<Rightarrow> ret None
          | Some localPath \<Rightarrow> andThen (pull_at env job repo requested localPath) (\<lambda>result. ret (Some result))) w3)))"
      proof (rule logs.at_andThen)
        fix found w4 assume 4: "validatedRepositoryLocalPath fuel env repo w3 = (Inr found, w4)"
        show "logged ?Q (db w4) (db (snd ((case found of None \<Rightarrow> ret None
          | Some localPath \<Rightarrow> andThen (pull_at env job repo requested localPath) (\<lambda>result. ret (Some result))) w4)))"
        proof (cases found)
          case (Some local)
          from local_path_step [OF 4 [unfolded Some]] same obtain rt r where
            "rt \<in> set (root_paths (registry_of (db w)))"
            "NormalizeTarget fuel (oe_machine env) (rp_path rt) (re_TargetDirectory repo) = Some (Inr (r, local))" by auto
          with repository(1,2) active(1) payload have "job_checkout fuel (oe_machine env) job (registry_of (db w)) c"
            if "at_checkout local c" for c
            unfolding job_checkout_def named_repository_def using that by blast
          then have "logged ?Q (db w4) (db (snd (pull_at env job repo requested local w4)))"
            by (intro logged_mono [OF keeps_at [OF pull_at_logged]]) auto
          then have "logged ?Q (db w4) (db (snd (andThen (pull_at env job repo requested local) (\<lambda>result. ret (Some result)) w4)))"
            by (rule logs.at_andThen) (simp add: ret_def logs.order_refl)
          then show ?thesis by (simp add: Some)
        qed (simp add: ret_def logs.order_refl)
      qed (rule keeps_at, auto intro!: keeps_intros simp: validatedRepositoryLocalPath_def)
      with False show ?thesis by simp
    qed (simp add: fail_def logs.order_refl)
  qed (rule keeps_at, auto intro!: keeps_intros simp: checked_credential_def)+
qed

lemma recorded_logged:
  assumes "logged Q (db w) (db (snd (m w)))"
  shows "logged Q (db w) (db (snd (recordRepositoryFailure job m w)))"
proof -
  obtain r w1 where m: "m w = (r, w1)" by fastforce
  have "keeps (logged Q) (case r of Inr x \<Rightarrow> ret x | Inl e \<Rightarrow> (let i = repositoryIDFromPayload (j_Payload job)
      in if i = [] then fail e
         else andThen (ignoring (on_store (MarkRepositoryError i (redactRepositoryMessage (failure_message e)))))
                (\<lambda>_. fail e)))"
    by (auto intro!: keeps_intros simp: Let_def split: sum.split)
  from keeps_at [OF this, of w1] assms m show ?thesis
    by (auto simp: recordRepositoryFailure_def outcome_def intro: logs.order_trans)
qed

lemma Handle_logged:
  "logged (\<lambda>(c, d). job_checkout fuel (oe_machine env) job (registry_of (db w)) c) (db w) (db (snd (Handle fuel env job w)))"
    (is "logged ?Q _ _")
  "j_JobType job = ''repo_clone'' \<Longrightarrow>
    logged (\<lambda>(c, d). registry_ok (registry_of (db w)) \<and> \<not> blank (j_ID job) \<longrightarrow>
      clone_holds fuel (oe_machine env) job (registry_of (db w)) d) (db w) (db (snd (Handle fuel env job w)))"
    (is "_ \<Longrightarrow> logged ?H _ _")
proof -
  have "logged ?Q (db w) (db (snd (handleClone fuel env job w)))"
    by (rule logged_mono [OF handleClone_logged]) auto
  then have "logged ?Q (db w) (db (snd (recordRepositoryFailure job (handleClone fuel env job) w)))"
    by (rule recorded_logged)
  moreover have "logged ?Q (db w) (db (snd (recordRepositoryFailure job (handlePull fuel env job) w)))"
    by (rule recorded_logged) (rule handlePull_logged)
  ultimately show "logged ?Q (db w) (db (snd (Handle fuel env job w)))"
    by (auto simp: Handle_def fail_def logs.order_refl)
  have "logged ?H (db w) (db (snd (handleClone fuel env job w)))"
    by (rule logged_mono [OF handleClone_logged]) auto
  then have "logged ?H (db w) (db (snd (recordRepositoryFailure job (handleClone fuel env job) w)))"
    by (rule recorded_logged)
  then show "j_JobType job = ''repo_clone'' \<Longrightarrow> logged ?H (db w) (db (snd (Handle fuel env job w)))"
    by (simp add: Handle_def)
qed

lemma new_command:
  assumes "logged Q (db w) s'" and "x \<in> set (drop (length (os_commands (db w))) (os_commands s'))"
  shows "Q x"
  using assms by (auto simp: logged_def list_all_iff)


text \<open>
  C18: A clone runs under both of its reservations. Every command of a clone, the look at what is at the
  target, the clone or the pull and what follows them, runs while the reservation table has the job for
  the holder of the identity of the repository and of the target path, and so no other job for either.
\<close>

theorem clone_runs_reserved:
  assumes "Handle fuel env job w = (r, w')" and "j_JobType job = ''repo_clone''" and "\<not> blank (j_ID job)"
    and "registry_ok (registry_of (db w))"
    and "(c, d) \<in> set (drop (length (os_commands (db w))) (os_commands (db w')))"
  shows "\<exists>p rt key. decode_clone (j_Payload job) = Inr p \<and>
    rt \<in> set (root_paths (registry_of (db w))) \<and> rp_id rt = cp_RootPathID p \<and>
    TargetReservationKey fuel (oe_machine env) (rp_path rt) (cp_RootPathID p) (cp_TargetDirectory p) = Some (Inr key) \<and>
    (\<forall>k \<in> set (wanted [IdentityReservationKey (cp_Provider p) (cp_ProviderHost p) (cp_FullPath p), key]).
       holders d k = Some (j_ID job))"
  using new_command [OF Handle_logged(2) [OF assms(2), of w fuel env], unfolded assms(1) snd_conv, OF assms(5)] assms(3,4)
  by (simp add: clone_holds_def)

end
