(* ===== verification/Repo_Handler_Runs.thy ===== *)
theory Repo_Handler_Runs
  imports Repo_Handler_Facts Job_Lease Card_Facts
begin

text \<open>Runs of the repository handlers on a small registry, with a Git that always fails.\<close>

definition failing_git :: op_env where
  "failing_git = \<lparr>oe_machine = plain_machine, oe_git = (\<lambda>_ _. (False, ''fatal'')), oe_Stat = (\<lambda>_ _. Inr ()),
     oe_ReadDir = (\<lambda>_ _. Inr []), oe_MkdirAll = (\<lambda>_ _. None), oe_CreateTemp = (\<lambda>_. Inr ''/tmp/key''),
     oe_WriteString = (\<lambda>_ _ _. None), oe_Close = (\<lambda>_ _. None), oe_Chmod = (\<lambda>_ _. None), oe_Remove = (\<lambda>_ _. True),
     oe_Environ = [], oe_LookupEnv = (\<lambda>_. Some ''hunter2'')\<rparr>"

definition srv_registry :: registry where
  "srv_registry = empty_registry\<lparr>root_paths := [sample_root\<lparr>rp_path := ''/srv''\<rparr>],
     repositories := [new_clone ''c'' sample_identity ''root1'' ''x'' ''/srv/x'' [] [] 0]\<rparr>"

definition handler_world :: "registry \<Rightarrow> op_state world" where
  "handler_world d = \<lparr>db = \<lparr>os_system = \<lparr>sys_jobs = empty_db, sys_registry = d\<rparr>, os_commands = [], os_keys = []\<rparr>,
     handle_Provider = ''sqlite'', clk = (\<lambda>_. 0), flt = (\<lambda>_. NoFault), ent = (\<lambda>n. replicate n (CHR ''e'')), tick = 0\<rparr>"

definition clone_job :: Job where
  "clone_job = running_job\<lparr>j_JobType := ''repo_clone'', j_Payload :=
     Doc (JObject [(''repository_id'', JString ''c''), (''provider'', JString ''github''),
       (''provider_host'', JString ''github.com''), (''full_path'', JString ''o/x''), (''root_path_id'', JString ''root1''),
       (''target_directory'', JString ''x''), (''clone_url'', JString ''https://github.com/o/x.git'')])\<rparr>"

definition clone_payload :: RepoClonePayload where
  "clone_payload = projr (decode_clone (j_Payload clone_job))"

lemma clone_payload:
  "decode_clone (j_Payload clone_job) = Inr clone_payload" "cp_CredentialID clone_payload = []"
  "cp_RootPathID clone_payload = ''root1''" "cp_RepositoryID clone_payload = ''c''" "cp_LocalPath clone_payload = []"
  "cp_TargetDirectory clone_payload = ''x''" "j_JobType clone_job = ''repo_clone''" "j_ID clone_job = ''j1''"
  "cp_Provider clone_payload = ''github''" "cp_ProviderHost clone_payload = ''github.com''"
  "cp_FullPath clone_payload = ''o/x''"
  by code_simp+

lemma looked_up:
  assumes "flt w (tick w) = NoFault" and "q (registry_of (db w)) = row # rows"
  shows "or_fail (on_store (fetch scan q)) f w = (Inr (scan row), step_tick w)"
  using assms
  by (simp add: or_fail_def outcome_def on_store_def zoom_def view_def fetch_def andThen_def query_def ret_def step_tick_def)

definition remote_command :: command where
  "remote_command = \<lparr>cm_Args = [''git'', ''remote'', ''get-url'', ''origin''], cm_Dir = ''/srv/x'', cm_Env = None\<rparr>"

text \<open>The look at the checkout that is there is the first command, and the last.\<close>

lemma clone_at_asks:
  "(remote_command, registry_of (db w)) \<in> set (os_commands (db (snd (clone_at failing_git p repo op ''/srv/x'' extra w))))"
  by (simp add: clone_at_def validateExistingRemote_def git_in_def run_command_def modify_def ask_def andThen_def
     fail_def failing_git_def remote_command_def)

definition has_run :: "command \<Rightarrow> op_state \<Rightarrow> bool" where
  "has_run c s \<longleftrightarrow> (\<exists>d. (c, d) \<in> set (os_commands s))"

lemma has_run_kept: "keeps (logged Q) m \<Longrightarrow> has_run c (db w) \<Longrightarrow> has_run c (db (snd (m w)))"
  using keeps_at [of "logged Q" m w] by (auto simp: has_run_def logged_def)

lemma has_run_andThen: "m w = (Inr x, w1) \<Longrightarrow> has_run c (db (snd (f x w1))) \<Longrightarrow> has_run c (db (snd (andThen m f w)))"
  by (simp add: andThen_def)

lemma has_run_andThen_first:
  "has_run c (db (snd (m w))) \<Longrightarrow> (\<And>x. keeps (logged (\<lambda>_. True)) (f x)) \<Longrightarrow> has_run c (db (snd (andThen m f w)))"
  using has_run_kept by (fastforce simp: andThen_def split: prod.split sum.split)

lemma has_run_outcome:
  "has_run c (db (snd (m w))) \<Longrightarrow> (\<And>r. keeps (logged (\<lambda>_. True)) (f r)) \<Longrightarrow> has_run c (db (snd (outcome m f w)))"
  using has_run_kept by (fastforce simp: outcome_def split: prod.split)

lemma has_run_deferring:
  "has_run c (db (snd (m w))) \<Longrightarrow> keeps (logged (\<lambda>_. True)) m' \<Longrightarrow> has_run c (db (snd (deferring m m' w)))"
  unfolding deferring_def by (rule has_run_outcome) (auto intro!: keeps_intros split: sum.split)

definition clone_key :: bytes where
  "clone_key = (case TargetReservationKey 3 plain_machine ''/srv'' ''root1'' ''x'' of Some (Inr key) \<Rightarrow> key | _ \<Rightarrow> [])"

lemma clone_run_reserves:
  "\<exists>held w2. or_fail (on_store (ReserveOperationKeys ''j1'' hour [IdentityReservationKey ''github'' ''github.com'' ''o/x'', clone_key]))
      f (step_tick (step_tick (handler_world srv_registry))) = (Inr held, w2)"
proof -
  let ?m = "ReserveOperationKeys ''j1'' hour [IdentityReservationKey ''github'' ''github.com'' ''o/x'', clone_key]"
  let ?w = "step_tick (step_tick (handler_world srv_registry))"
  have "case fst (?m (view registry_of ?w)) of Inr held \<Rightarrow> True | Inl e \<Rightarrow> False" by code_simp
  then obtain held w2 where "?m (view registry_of ?w) = (Inr held, w2)"
    by (cases "?m (view registry_of ?w)") (auto split: sum.splits)
  then show ?thesis by (simp add: or_fail_def outcome_def on_store_def zoom_def ret_def)
qed

lemma clone_run: "has_run remote_command (db (snd (Handle 3 failing_git clone_job (handler_world srv_registry))))"
proof -
  let ?w = "handler_world srv_registry"
  let ?root = "sample_root\<lparr>rp_path := ''/srv''\<rparr>"
  let ?card = "new_clone ''c'' sample_identity ''root1'' ''x'' ''/srv/x'' [] [] 0"
  have machine: "oe_machine failing_git = plain_machine" by (simp add: failing_git_def)
  have 1: "or_fail (on_store (GetRootPath ''root1'')) unread ?w = (Inr (scanRootPath ?root), step_tick ?w)"
    unfolding GetRootPath_def
    by (rule looked_up) (simp_all add: handler_world_def srv_registry_def sample_root_def)
  have 2: "or_fail (on_store (GetRepository ''c'')) unread (step_tick ?w) = (Inr (scanRepository ?card), step_tick (step_tick ?w))"
    unfolding GetRepository_def
    by (rule looked_up) (simp_all add: handler_world_def srv_registry_def step_tick_def new_clone_def)
  have 3: "validateRepositoryOperable (scanRepository ?card) w = (Inr (), w)" for w :: "op_state world"
    by (simp add: validateRepositoryOperable_def scanRepository_def new_clone_def ret_def)
  have path: "NormalizeTarget 3 plain_machine ''/srv'' ''x'' = Some (Inr (''x'', ''/srv/x''))" by code_simp
  have key: "TargetReservationKey 3 plain_machine ''/srv'' ''root1'' ''x'' = Some (Inr clone_key)" by code_simp
  have empty: "blank []" by code_simp
  have root: "rt_Path (scanRootPath ?root) = ''/srv''" by (simp add: scanRootPath_def)
  obtain held w2 where reserved: "or_fail (on_store (ReserveOperationKeys ''j1'' hour
      [IdentityReservationKey ''github'' ''github.com'' ''o/x'', clone_key]))
    (reservation_refused (IdentityReservationKey ''github'' ''github.com'' ''o/x'')) (step_tick (step_tick ?w)) = (Inr held, w2)"
    using clone_run_reserves by blast
  have "has_run remote_command (db (snd (clone_at failing_git clone_payload (scanRepository ?card) ''repo_clone'' ''/srv/x'' [] w2)))"
    unfolding has_run_def using clone_at_asks by blast
  then have "has_run remote_command (db (snd (clone_reserved 3 failing_git clone_job clone_payload (scanRootPath ?root)
      (scanRepository ?card) [] (step_tick (step_tick ?w)))))"
    unfolding clone_reserved_def machine clone_payload root path key with_path_def option.case sum.case prod.case Let_def
    by simp (rule has_run_andThen, rule reserved [simplified], rule has_run_andThen_first, rule has_run_deferring, auto intro: keeps_intros)
  then have "has_run remote_command (db (snd (deferring (clone_reserved 3 failing_git clone_job clone_payload (scanRootPath ?root)
      (scanRepository ?card) []) (cleanup failing_git None) (step_tick (step_tick ?w)))))"
    by (rule has_run_deferring) (auto simp: cleanup_def intro: keeps_intros)
  then have "has_run remote_command (db (snd (handleClone 3 failing_git clone_job ?w)))"
    unfolding handleClone_def clone_payload sum.case
    by - (rule has_run_andThen, rule 1, rule has_run_andThen, rule 2, rule has_run_andThen, rule 3,
      simp add: gitCredentialEnv_def andThen_def ret_def empty)
  then show ?thesis
    unfolding Handle_def clone_payload recordRepositoryFailure_def
    by simp (rule has_run_outcome, auto intro!: keeps_intros simp: Let_def split: sum.split)
qed

section \<open>Witnesses\<close>

definition clone_outcome :: "(err + raw option) \<times> op_state world" where
  "clone_outcome = Handle 3 failing_git clone_job (handler_world srv_registry)"

lemma clone_outcome:
  "Handle 3 failing_git clone_job (handler_world srv_registry) = (fst clone_outcome, snd clone_outcome)"
  "os_commands (db (handler_world srv_registry)) = []" "registry_of (db (handler_world srv_registry)) = srv_registry"
  by (simp_all add: clone_outcome_def handler_world_def)

lemma clone_outcome_runs:
  obtains d where "(remote_command, d) \<in> set (drop (length (os_commands (db (handler_world srv_registry))))
    (os_commands (db (snd clone_outcome))))"
  using clone_run unfolding has_run_def clone_outcome_def [symmetric] clone_outcome(2) by auto


lemma clone_runs_reserved_witness:
  "\<exists>d. (remote_command, d) \<in> set (os_commands (db (snd clone_outcome))) \<and>
     holders d (IdentityReservationKey ''github'' ''github.com'' ''o/x'') = Some ''j1''"
proof -
  have ok: "registry_ok (registry_of (db (handler_world srv_registry)))" unfolding clone_outcome(3) by code_simp
  have owner: "\<not> blank (j_ID clone_job)" unfolding clone_payload by code_simp
  have "wanted [IdentityReservationKey ''github'' ''github.com'' ''o/x''] =
    [IdentityReservationKey ''github'' ''github.com'' ''o/x'']" by code_simp
  then have key: "IdentityReservationKey ''github'' ''github.com'' ''o/x'' \<in>
    set (wanted [IdentityReservationKey ''github'' ''github.com'' ''o/x'', key])" for key
    by (simp add: wanted_def split: if_splits)
  obtain d where d: "(remote_command, d) \<in> set (drop (length (os_commands (db (handler_world srv_registry))))
    (os_commands (db (snd clone_outcome))))" by (rule clone_outcome_runs)
  from clone_runs_reserved [OF clone_outcome(1) clone_payload(7) owner ok d]
  have "holders d (IdentityReservationKey ''github'' ''github.com'' ''o/x'') = Some ''j1''"
    using key by (auto simp: clone_payload)
  with d show ?thesis by (auto simp: clone_outcome(2))
qed

end
