(* ===== verification/Repo_Key_Facts.thy ===== *)
theory Repo_Key_Facts
  imports Repo_Handler_Runs
begin

text \<open>
  The key files of \<open>repository/handlers.go\<close>, which carry a private key in the clear and never outlive the
  handler, and the card of a scanned repository, which a pull refuses before it runs Git.
\<close>

section \<open>Key files\<close>

text \<open>\<open>CreateTemp\<close> never returns a file that exists, and a file that is removed is gone.\<close>

definition fresh_temp :: "op_env \<Rightarrow> bytes list \<Rightarrow> bool" where
  "fresh_temp env ks \<longleftrightarrow> (\<forall>n p. oe_CreateTemp env n = Inr p \<longrightarrow> p \<notin> set ks)"

definition removes :: "op_env \<Rightarrow> bool" where
  "removes env \<longleftrightarrow> (\<forall>n p. oe_Remove env n p)"

definition swept :: "op_env \<Rightarrow> op_state \<Rightarrow> op_state \<Rightarrow> bool" where
  "swept env s s' \<longleftrightarrow> (removes env \<and> fresh_temp env (os_keys s) \<longrightarrow> os_keys s' = os_keys s)"

interpretation sweeps: state_order "swept env" for env
  by unfold_locales (auto simp: swept_def)

lemma same_keys_swept: "keeps same_keys m \<Longrightarrow> keeps (swept env) m"
  by (auto simp: keeps_def same_keys_def swept_def)

lemma git_keeps_keys [keeps_intros]:
  "keeps same_keys (git_in env dir args)"
  "keeps same_keys (gitRevision env dir)"
  "keeps same_keys (gitDefaultBranch env dir)"
  "keeps same_keys (validateExistingRemote env dir prov host path)"
  "keeps same_keys (runGit env repo cred operation dir extra args)"
  unfolding gitRevision_def gitDefaultBranch_def validateExistingRemote_def git_in_def runGit_def
  by (auto intro!: keeps_intros split: branching)

lemma clone_reserved_keeps_keys [keeps_intros]:
  "keeps same_keys (clone_reserved fuel env job payload rt repo extra)"
  unfolding clone_reserved_def clone_at_def clone_new_def Let_def
  by (auto intro!: keeps_intros split: branching)

text \<open>What a step on the key file leaves: the file, or nothing when the step fails.\<close>

lemma key_step_keys:
  assumes "key_step env path f w = (r, w')" and "removes env"
    and "os_keys (db w) = path # ks" and "path \<notin> set ks"
  shows "os_keys (db w') = (case r of Inl _ \<Rightarrow> ks | Inr _ \<Rightarrow> path # ks)"
  using assms
  by (auto simp: key_step_def remove_key_def ask_def modify_def andThen_def ret_def fail_def step_tick_def removes_def
      removeAll_id split: option.splits)

lemma key_file_keys:
  assumes "key_file env secret w = (r, w')" and "removes env" and "fresh_temp env (os_keys (db w))"
  shows "case r of Inl _ \<Rightarrow> os_keys (db w') = os_keys (db w)
    | Inr path \<Rightarrow> os_keys (db w') = path # os_keys (db w) \<and> path \<notin> set (os_keys (db w))"
proof (cases "oe_CreateTemp env (tick w)")
  case (Inl e)
  with assms(1) show ?thesis by (auto simp: key_file_def ask_def andThen_def fail_def step_tick_def)
next
  case (Inr path)
  let ?ks = "os_keys (db w)"
  let ?w = "(step_tick w)\<lparr>db := (db w)\<lparr>os_keys := path # ?ks\<rparr>\<rparr>"
  from Inr assms(3) have new: "path \<notin> set ?ks" by (auto simp: fresh_temp_def)
  have "andThen (key_step env path (\<lambda>n. oe_WriteString env n path secret)) (\<lambda>_.
      andThen (key_step env path (\<lambda>n. oe_Close env n path)) (\<lambda>_.
      andThen (key_step env path (\<lambda>n. oe_Chmod env n path)) (\<lambda>_. ret path))) ?w = (r, w')"
    using assms(1) Inr by (simp add: key_file_def ask_def modify_def andThen_def step_tick_def)
  moreover have "os_keys (db ?w) = path # ?ks" by simp
  moreover note step = key_step_keys [OF _ assms(2) _ new]
  ultimately show ?thesis
    using new by (auto simp: andThen_def ret_def split: prod.splits sum.splits dest!: step)
qed

lemma gitCredentialEnv_keys:
  assumes "gitCredentialEnv env i w = (r, w')" and "removes env" and "fresh_temp env (os_keys (db w))"
  shows "case r of Inr (_, Some path) \<Rightarrow> os_keys (db w') = path # os_keys (db w) \<and> path \<notin> set (os_keys (db w))
    | _ \<Rightarrow> os_keys (db w') = os_keys (db w)"
proof (cases "blank i")
  case True
  with assms(1) show ?thesis by (auto simp: gitCredentialEnv_def ret_def)
next
  case False
  let ?m = "or_fail (on_store (GetCredential i)) (\<lambda>e. refuse ''credential_not_found'' (repository_text e))"
  obtain c w1 where 1: "?m w = (c, w1)" by fastforce
  have "keeps same_keys ?m" by (intro keeps_intros)
  from keepsD [OF this 1] have same: "os_keys (db w1) = os_keys (db w)" by (simp add: same_keys_def)
  show ?thesis
  proof (cases c)
    case (Inl e)
    with assms(1) 1 False same show ?thesis by (auto simp: gitCredentialEnv_def andThen_def)
  next
    case (Inr cred)
    show ?thesis
    proof (cases "resolveEnvSecret env (cred_SecretRef cred)")
      case (Inl e)
      with assms(1) 1 Inr False same show ?thesis
        by (auto simp: gitCredentialEnv_def andThen_def lift_result_def fail_def)
    next
      case (Inr secret)
      obtain q w2 where 2: "key_file env secret w1 = (q, w2)" by fastforce
      have "case q of Inl _ \<Rightarrow> os_keys (db w2) = os_keys (db w)
        | Inr path \<Rightarrow> os_keys (db w2) = path # os_keys (db w) \<and> path \<notin> set (os_keys (db w))"
        using key_file_keys [OF 2 assms(2), unfolded same, OF assms(3)] .
      with assms(1) 1 2 \<open>c = Inr cred\<close> Inr False same show ?thesis
        by (auto simp: gitCredentialEnv_def andThen_def lift_result_def fail_def ret_def Let_def split: if_splits sum.splits)
    qed
  qed
qed

lemma with_credential_swept:
  assumes "\<And>extra. keeps same_keys (f extra)"
  shows "keeps (swept env) (andThen (gitCredentialEnv env i) (\<lambda>(extra, key). deferring (f extra) (cleanup env key)))"
  unfolding keeps_def
proof
  fix w
  let ?m = "andThen (gitCredentialEnv env i) (\<lambda>(extra, key). deferring (f extra) (cleanup env key))"
  obtain r w1 where 1: "gitCredentialEnv env i w = (r, w1)" by fastforce
  show "swept env (db w) (db (snd (?m w)))"
    unfolding swept_def
  proof
    assume env: "removes env \<and> fresh_temp env (os_keys (db w))"
    then have opened: "case r of Inr (_, Some path) \<Rightarrow> os_keys (db w1) = path # os_keys (db w) \<and> path \<notin> set (os_keys (db w))
      | _ \<Rightarrow> os_keys (db w1) = os_keys (db w)" using gitCredentialEnv_keys [OF 1] by blast
    show "os_keys (db (snd (?m w))) = os_keys (db w)"
    proof (cases r)
      case (Inl e)
      with 1 opened show ?thesis by (simp add: andThen_def)
    next
      case (Inr x)
      obtain extra key where x: "x = (extra, key)" by (cases x)
      obtain q w2 where 2: "f extra w1 = (q, w2)" by fastforce
      from keepsD [OF assms 2] have "os_keys (db w2) = os_keys (db w1)" by (simp add: same_keys_def)
      with opened 1 2 env Inr x show ?thesis
        by (cases key; cases q) (auto simp: andThen_def deferring_def outcome_def ignoring_def cleanup_def remove_key_def
            ask_def modify_def ret_def fail_def step_tick_def removes_def removeAll_id)
    qed
  qed
qed

lemma Handle_swept: "keeps (swept env) (Handle fuel env job)"
proof -
  have lookup: "keeps (swept env) (or_fail (on_store m) f)" for m :: "(registry, 'a) io" and f
    by (rule same_keys_swept) (intro keeps_intros)
  have credential: "keeps (swept env) (checked_credential env i repo)" for i repo
    unfolding checked_credential_def by (rule same_keys_swept) (auto intro!: keeps_intros)
  have path: "keeps (swept env) (validatedRepositoryLocalPath fuel env repo)" for repo
    unfolding validatedRepositoryLocalPath_def by (rule same_keys_swept) (auto intro!: keeps_intros)
  have remote: "keeps (swept env) (validateExistingRemote env dir prov host full)" for dir prov host full
    by (rule same_keys_swept) (intro keeps_intros)
  have marked: "keeps (swept env) (on_store m)" for m :: "(registry, 'a) io"
    by (rule same_keys_swept) (rule on_store_keeps)
  have "keeps (swept env) (handleClone fuel env job)"
    unfolding handleClone_def
    by (auto intro!: keeps_intros lookup with_credential_swept split: sum.split)
  moreover have "keeps (swept env) (handlePull fuel env job)"
    unfolding handlePull_def pull_at_def Let_def
    by (auto intro!: keeps_intros lookup credential path remote with_credential_swept split: sum.split option.split prod.split)
  moreover have "keeps (swept env) (recordRepositoryFailure job m)" if "keeps (swept env) m" for m :: "(op_state, raw option) io"
    unfolding recordRepositoryFailure_def Let_def
    by (auto intro!: keeps_intros that marked split: sum.split)
  ultimately show ?thesis
    unfolding Handle_def by (auto intro: keeps_intros)
qed

text \<open>
  C19: Private keys do not stay on disk. Whatever fails, the lookup of the credential, a step on the file,
  Git or the database, the key files that are there when the handler returns are those that were there
  when it was called; of the file system this needs that \<open>CreateTemp\<close> returns a name that is not in use
  and that \<open>Remove\<close> removes.
\<close>

theorem key_files_removed:
  assumes "Handle fuel env job w = (r, w')" and "\<forall>n p. oe_Remove env n p"
    and "\<forall>n p. oe_CreateTemp env n = Inr p \<longrightarrow> p \<notin> set (os_keys (db w))"
  shows "os_keys (db w') = os_keys (db w)"
  using keepsD [OF Handle_swept assms(1)] assms(2,3) by (simp add: swept_def removes_def fresh_temp_def)

lemma key_files_removed_witness: "os_keys (db (snd clone_outcome)) = []"
proof -
  have "\<forall>n p. oe_Remove failing_git n p" by (simp add: failing_git_def)
  from key_files_removed [OF clone_outcome(1) this] show ?thesis by (simp add: handler_world_def)
qed

section \<open>Scanned repositories\<close>

definition fails_quietly :: "(op_state, 'a) io \<Rightarrow> op_state world \<Rightarrow> bool" where
  "fails_quietly m w \<longleftrightarrow> (\<exists>e. fst (m w) = Inl e) \<and> os_commands (db (snd (m w))) = os_commands (db w)"

lemma fail_quietly [simp]: "fails_quietly (fail e) w"
  by (simp add: fails_quietly_def fail_def)

lemma andThen_fails_quietly:
  assumes "keeps quiet m" and "\<And>x w1. m w = (Inr x, w1) \<Longrightarrow> fails_quietly (f x) w1"
  shows "fails_quietly (andThen m f) w"
proof -
  obtain r w1 where m: "m w = (r, w1)" by fastforce
  with keepsD [OF assms(1) m] assms(2) show ?thesis
    by (cases r) (auto simp: fails_quietly_def andThen_def quiet_def)
qed

lemma recorded_fails_quietly:
  assumes "fails_quietly m w"
  shows "fails_quietly (recordRepositoryFailure job m) w"
proof -
  from assms obtain e w1 where m: "m w = (Inl e, w1)" "os_commands (db w1) = os_commands (db w)"
    by (cases "m w") (auto simp: fails_quietly_def)
  obtain q w2 where 2: "on_store (MarkRepositoryError (repositoryIDFromPayload (j_Payload job))
      (redactRepositoryMessage (failure_message e))) w1 = (q, w2)" by fastforce
  then have "os_commands (db w2) = os_commands (db w1)" using on_store_parts(2) by (metis snd_conv)
  with m 2 show ?thesis
    by (cases q) (auto simp: fails_quietly_def recordRepositoryFailure_def outcome_def ignoring_def andThen_def Let_def
        fail_def ret_def)
qed

lemma pull_without_target:
  assumes "pull_payload (j_Payload job) = Inr (i, requested)"
    and "\<forall>row \<in> set (repositories (registry_of (db w))). rr_id row = i \<longrightarrow> coalesce (rr_target_directory row) = []"
  shows "fails_quietly (handlePull fuel env job) w"
  unfolding handlePull_def assms(1) sum.case prod.case GetRepository_def
proof (rule andThen_fails_quietly)
  fix repo w1
  assume "or_fail (on_store (fetch scanRepository (\<lambda>d. filter (\<lambda>r. rr_id r = i) (repositories d)))) unread w = (Inr repo, w1)"
  from lookup_step [OF this] assms(2) have target: "re_TargetDirectory repo = []" by (auto simp: scanRepository_def)
  have "fails_quietly (validatedRepositoryLocalPath fuel env repo) w2" for w2
    using target by (simp add: validatedRepositoryLocalPath_def)
  moreover have "keeps quiet (validatedRepositoryLocalPath fuel env repo)"
    unfolding validatedRepositoryLocalPath_def by (auto intro!: keeps_intros)
  ultimately have "fails_quietly (andThen (validatedRepositoryLocalPath fuel env repo) f) w2" for w2 and f :: "bytes option \<Rightarrow> (op_state, raw option) io"
    by (intro andThen_fails_quietly) (metis fails_quietly_def fst_conv sum.distinct(1))+
  then show "fails_quietly (andThen (validateRepositoryOperable repo) (\<lambda>_.
      andThen (checked_credential env requested repo) (\<lambda>_.
        if re_LocalPath repo = [] then fail (refuse ''validation_error'' ''repository local_path is required'')
        else
          andThen (validatedRepositoryLocalPath fuel env repo) (\<lambda>found. case found of
              None \<Rightarrow> ret None
            | Some localPath \<Rightarrow>
                andThen (pull_at env job repo requested localPath) (\<lambda>result. ret (Some result)))))) w1"
    by (intro andThen_fails_quietly) (auto intro!: keeps_intros simp: checked_credential_def)
qed (auto intro!: keeps_intros)


definition pull_job :: Job where
  "pull_job = running_job\<lparr>j_JobType := ''repo_pull'', j_Payload := Doc (JObject [(''repository_id'', JString ''g'')])\<rparr>"


end
