(* ===== verification/Spec2Isabelle.thy ===== *)
theory Spec2Isabelle
  imports Job_Claim Job_Hazards Safety_Facts Job_Listing Ignore_Facts Registry_Facts
    Scan_Handlers Process_Lock Modules_Facts Config_Migration_Runs Config_Target_Facts Config_Type_Facts
    Repo_Key_Facts
begin

text \<open>
  The back end of t-helper: a server that takes requests and a set of workers that carry them out,
  both on one database (SQLite or PostgreSQL). A request becomes a job; workers claim jobs under
  leases, run the handler of the job's type and record the outcome; the handlers scan directories,
  clone repositories and run tools. This development models the parts that decide whether that works:
  the job subsystem with its runtime, the redaction of secrets, the lock files of the processes, the
  registry of modules, the registry of root paths, projects and repository cards with the stores that
  keep it, the identities and target paths of repositories, the handlers of the directory scan and of the repository jobs, and the configuration.

  \<^bold>\<open>How the parts interact.\<close> Handlers and the server enqueue through \<open>jobs.Store\<close>; a worker slot
  (\<open>RunOnce\<close>) claims, starts, heartbeats, and completes or requeues through it; a recovery pass returns
  the jobs of workers that died; a maintenance pass removes old rows. Every one of these is a
  transaction or a statement on the same tables, so the model of the system is a sequence of such
  operations by any process in any order. The server and the worker each hold one lock file. The
  repository component guards its jobs by reservation keys made from identities and target paths; the
  scanner reports projects by paths relative to a root. Both rest on Go's path functions.

  \<^bold>\<open>Foundations.\<close> \<open>Prelude\<close>: tables as lists of rows, the named collections of rules. \<open>Go_Strings\<close>,
  \<open>Go_Path\<close>, \<open>Go_Url\<close>, \<open>Go_Time\<close>, \<open>Json\<close>: what the code uses of Go's standard library, on byte
  strings. \<open>Storage\<close>: an operation is a function from a world (the database, the clock, fresh identifiers,
  the faults of the connection) to an error or a value and the next world; \<open>exec\<close> checks the
  constraints of the schema and may be lost or unacknowledged, \<open>WithTx\<close> is \<open>internal/storage/tx.go\<close>.

  \<^bold>\<open>The job subsystem\<close> (\<open>internal/jobs\<close>). \<open>Job_Types\<close> has the structs of types.go and the rows and
  constraints of the tables; \<open>Safety\<close> the redaction of safety.go; \<open>Job_Payload\<close> the pure functions of
  store.go; \<open>Job_Statements\<close> its SQL; \<open>Job_Store\<close> the operations with their transactions and early
  returns; \<open>Job_Workflow\<close> and \<open>Job_Status\<close> status.go; \<open>Job_Runtime\<close> runtime.go. About them:
  \<^item> \<open>Job_Contract\<close> (locale \<open>job_contract\<close>): whatever preorder on databases every statement respects,
    every operation respects, under any clock and any faults. \<open>Job_Lifecycle\<close> interprets it on the state
    machine of a job row and on the step relation of the whole database, \<open>Job_Recovery\<close> on the
    consistency of the database.
  \<^item> \<open>Job_History\<close>: the operations refine the step relation, and along it finished jobs are final, no
    job is lost, no lock has two holders and every row keeps its shape.
  \<^item> \<open>Job_Enqueue\<close>, \<open>Job_Claim\<close>, \<open>Job_Lease\<close>, \<open>Job_Exclusion\<close>, \<open>Job_Recovery\<close>, \<open>Job_Progress\<close>,
    \<open>Job_Listing\<close>: what each operation does on every branch, against short specifications
    (\<open>claims\<close>, for one), that it succeeds where nothing fails, and that without the lease it changes nothing.
  \<^item> \<open>Job_Hazards\<close>: what the retries guarantee and two ways in which a job is lost to the queue.
  \<^item> \<open>Safety_Facts\<close>: what the redaction removes and one form of credential it misses.

  \<^bold>\<open>Processes\<close> (\<open>internal/runtime/lock.go\<close>, \<open>health.go\<close>, \<open>internal/app/worker/lock.go\<close>): \<open>Process_Lock\<close>. Both
  locks are instances of one step machine (locale \<open>lock_protocol\<close>), with any number of processes
  interleaved. Mutual exclusion holds when no lock file was left over; a stale one admits two holders.

  \<^bold>\<open>Modules\<close> (\<open>internal/modules/registry.go\<close>): \<open>Modules_Registry\<close> has the registry, the table and the
  operations, \<open>Modules_Facts\<close> reads the table as a map and says what seeding and a restart make of it.

  \<^bold>\<open>The registry of roots, projects and repository cards.\<close> The scanner and the repository component
  share the tables of root paths, projects, repository cards and links; the repository component has
  provider instances, credentials and operation reservations besides. \<open>Registry_Types\<close> has the structs of
  both types.go files, the rows and the constraints of the schema; \<open>Scanner_Store\<close> is
  \<open>internal/scanner/store.go\<close>, \<open>Repo_Store\<close> is \<open>internal/repository/store.go\<close>, with their texts of instants,
  which the two packages write differently and SQLite compares as texts.
  \<^item> \<open>Registry_Contract\<close>: contracts over a preorder on the tables (locales \<open>registry_order\<close>,
    \<open>card_contract\<close> and those of the two components), interpreted on what only grows and on what each
    component leaves to the other; the step relations of both components.
  \<^item> \<open>Reservation_Facts\<close>: reservations against an abstract lock table, all or nothing, and a case in
    which the order of texts ends one early.
  \<^item> \<open>Card_Facts\<close>: which card a clone gets and what becomes of the local card that stood there.
  \<^item> \<open>Registry_Facts\<close>: no row loses its identity; what the upsert of a project and the marking of
    missing projects make of the tables.

  \<^bold>\<open>Repositories\<close> (\<open>internal/repository/domain.go\<close>): \<open>Repo_Identity\<close> has all of its functions,
  \<open>Repo_Facts\<close> the containment of target paths with symbolic links, termination of the search for an
  existing parent, freedom from credentials and uniqueness of reservation keys.
  \<open>Repo_Handlers\<close> has handlers.go, the jobs that clone, pull and synchronize, with the commands they
  run and the key files they write as part of the state.
  \<^item> \<open>Repo_Handler_Facts\<close>: every command is at a checkout inside a root path, of an active card, and a
    clone runs while the job holds both reservations. The relations between states are instances of
    \<open>state_order\<close>, the laws of a preorder that sequences of operations keep.
  \<^item> \<open>Repo_Key_Facts\<close>: no key file outlives the handler, and a card of a scan is never pulled;
    \<open>Repo_Handler_Runs\<close> runs a clone.

  \<^bold>\<open>Scanner\<close> (\<open>internal/scanner\<close>): \<open>Scanner_Paths\<close> has matcher.go, the path functions of store.go and
  the choices of handlers.go on a file system given as functions; \<open>Scanner_Facts\<close> and \<open>Ignore_Facts\<close>
  say which Git repository a project belongs to, that nothing outside the root is looked at or
  reported, and what the ignore rules exclude. \<open>System\<close> joins the tables of the jobs and the registry,
  with the operations of either store lifted to both; \<open>Scan_Handlers\<close> has the two handlers of
  handlers.go on it: the global scan and project discovery.

  \<^bold>\<open>Configuration\<close> (\<open>internal/config\<close>). A configuration file is validated, flattened to typed texts and
  imported; the processes read their settings back from the table, and a configuration that names
  another database stages a migration to it. \<open>Go_Duration\<close> parses durations; \<open>Config_Types\<close> has
  validation.go and the pure functions of store.go, \<open>Config_Store\<close> the operations on the tables of an
  installation (the registry, the modules and the storage profiles), \<open>Config_Migration\<close> the copy into
  the database of the migration profile, on two installations.
  \<^item> \<open>Config_Facts\<close>, \<open>Config_Import_Facts\<close>: what an import leaves in the tables; what \<open>config show\<close> and
    the readers of settings give after it, against the document of a configuration, written down once.
  \<^item> \<open>Config_Type_Facts\<close>: every stored text stays readable at the type of its setting.
  \<^item> \<open>Config_Target_Facts\<close>: when an import stages a migration target and when it silently does not.
  \<^item> \<open>Config_Migration_Facts\<close>: the source gives way only to a complete copy (\<open>migrated\<close>), and what keeps
    a migration from succeeding; \<open>Config_Migration_Runs\<close> runs one.

  \<^bold>\<open>Loops.\<close> A loop of the code that is not structural takes the number of its rounds and gives \<open>None\<close>
  when they do not suffice: \<open>cleanup_loop\<close> (enough: one round for every 500 rows and one more), the walk
  over pages in \<open>WorkerStatuses\<close> (enough: one round more than there are rows), \<open>existing_prefix\<close>
  (enough: more rounds than the path has elements), \<open>git_loop\<close> (enough: the depth of the directory),
  \<open>get_module\<close> (two: after seeding the row is there), the retries of the upserts when another process
  inserts the same row (one where none does), and \<open>scan_loop\<close> (the number of directories visited).
  The theorems about these say that enough rounds give a result.

  \<^bold>\<open>What is a parameter.\<close> Unicode's case tables and the normal form C, the file system and its symbolic
  links, process ids and signals, host names, hashes and random suffixes, the outcome of handlers and
  of module lifecycles, HTTP answers, the writer and the reader of JSON texts of the configuration,
  the environment variables, what the driver returns on opening and migrating a target database, and
  for the repository handlers the answers of Git and of the calls on files.

  \<^bold>\<open>Not modelled.\<close> Goroutines, tickers and contexts (interleaving is by sequences of operations
  instead); the external tools the scanner runs and the tables of their runs; the text PostgreSQL
  gives an instant that is copied to it; the HTTP layer, which decodes requests and encodes answers
  around the stores; the programs under cmd and app, which wire the parts; the toolchain
  installer, the database drivers, migrations and the log, which are input and output.
\<close>

end
